(* ===== verification/Prelude.thy ===== *)
theory Prelude
  imports Complex_Main "HOL-Library.Char_ord" "HOL-Library.List_Lexorder"
begin

text \<open>
  Shared notions of the development. The first part is the error discipline of the source:
  a TypeScript function that throws is a function into a sum type, and the sequence of
  \<open>if (...) throw\<close> statements at its head is a list of failed checks, in the source's
  order, of which the first one wins. The second part holds the JavaScript list, string and
  number primitives the modelled code uses: \<open>Array.prototype.at(-1)\<close>, \<open>find\<close>,
  \<open>Number.isSafeInteger\<close>, \<open>String.prototype.trim\<close> and the comparison of strings by
  code units. A string is a list of characters, each of them one code unit below 256.
\<close>

named_theorems check_simps
  \<open>equations that turn a passed sequence of checks into the conjunction of its conditions\<close>

section \<open>Checks and errors\<close>

text \<open>\<open>throw_if b e\<close> is the statement \<open>if (b) throw e\<close>; \<open>None\<close> means that control
  goes on.\<close>

definition throw_if :: "bool \<Rightarrow> 'e \<Rightarrow> 'e option" where
  "throw_if b e = (if b then Some e else None)"

text \<open>A block of checks under an \<open>if\<close> without \<open>else\<close>.\<close>

definition check_when :: "bool \<Rightarrow> 'e option \<Rightarrow> 'e option" where
  "check_when b c = (if b then c else None)"

text \<open>A sequence of checks: the first error stops it.\<close>

fun checks :: "'e option list \<Rightarrow> 'e option" where
  "checks [] = None"
| "checks (c # cs) = (case c of Some e \<Rightarrow> Some e | None \<Rightarrow> checks cs)"

text \<open>A body guarded by its checks.\<close>

definition guarded :: "'e option \<Rightarrow> ('e + 'a) \<Rightarrow> 'e + 'a" where
  "guarded c k = (case c of Some e \<Rightarrow> Inl e | None \<Rightarrow> k)"

lemma throw_if_None [check_simps]: "throw_if b e = None \<longleftrightarrow> \<not> b"
  by (simp add: throw_if_def)

lemma check_when_None [check_simps]: "check_when b c = None \<longleftrightarrow> (b \<longrightarrow> c = None)"
  by (simp add: check_when_def)

lemma checks_Nil_None [check_simps]: "checks [] = None \<longleftrightarrow> True"
  by simp

lemma checks_Cons_None [check_simps]: "checks (c # cs) = None \<longleftrightarrow> c = None \<and> checks cs = None"
  by (simp split: option.split)

lemma guarded_Inr [check_simps]: "guarded c k = Inr s \<longleftrightarrow> c = None \<and> k = Inr s"
  by (cases c) (simp_all add: guarded_def)

lemma guarded_None [simp]: "guarded None k = k"
  by (simp add: guarded_def)

lemma guarded_Some [simp]: "guarded (Some e) k = Inl e"
  by (simp add: guarded_def)

lemma checks_all_None: "(\<And>c. c \<in> set cs \<Longrightarrow> c = None) \<Longrightarrow> checks cs = None"
  by (induction cs) (auto split: option.split)

lemma checks_append_None: "checks (xs @ ys) = None \<longleftrightarrow> checks xs = None \<and> checks ys = None"
  by (induction xs) (auto split: option.split)

declare checks.simps [simp del]

text \<open>The result of a fallible step handed to the next one.\<close>

definition bind_result :: "'e + 'a \<Rightarrow> ('a \<Rightarrow> 'e + 'b) \<Rightarrow> 'e + 'b" where
  "bind_result r k = (case r of Inl e \<Rightarrow> Inl e | Inr x \<Rightarrow> k x)"

lemma bind_result_Inr [check_simps]: "bind_result r k = Inr y \<longleftrightarrow> (\<exists>x. r = Inr x \<and> k x = Inr y)"
  by (cases r) (simp_all add: bind_result_def)

lemma bind_result_simps [simp]:
  "bind_result (Inl e) k = Inl e" "bind_result (Inr x) k = k x"
  by (simp_all add: bind_result_def)

text \<open>An error of a called part, as an error of its caller.\<close>

definition map_error :: "('e \<Rightarrow> 'f) \<Rightarrow> 'e + 'a \<Rightarrow> 'f + 'a" where
  "map_error f r = (case r of Inl e \<Rightarrow> Inl (f e) | Inr x \<Rightarrow> Inr x)"

lemma map_error_Inr [check_simps]: "map_error f r = Inr x \<longleftrightarrow> r = Inr x"
  by (cases r) (simp_all add: map_error_def)

lemma map_error_simps [simp]: "map_error f (Inl e) = Inl (f e)" "map_error f (Inr x) = Inr x"
  by (simp_all add: map_error_def)

definition is_ok :: "'e + 'a \<Rightarrow> bool" where
  "is_ok r \<longleftrightarrow> (case r of Inl _ \<Rightarrow> False | Inr _ \<Rightarrow> True)"

lemma is_ok_simps [simp]: "is_ok (Inr x)" "\<not> is_ok (Inl e)"
  by (simp_all add: is_ok_def)

lemma is_okE: "is_ok r \<Longrightarrow> (\<And>x. r = Inr x \<Longrightarrow> P) \<Longrightarrow> P"
  by (cases r) auto

text \<open>The errors of a composed step.\<close>

lemma bind_result_Inl: "bind_result r k = Inl e \<longleftrightarrow> r = Inl e \<or> (\<exists>x. r = Inr x \<and> k x = Inl e)"
  by (cases r) simp_all

lemma map_error_Inl: "map_error f r = Inl e \<longleftrightarrow> (\<exists>e'. r = Inl e' \<and> e = f e')"
  by (cases r) auto

lemma guarded_Inl: "guarded c k = Inl e \<longleftrightarrow> c = Some e \<or> c = None \<and> k = Inl e"
  by (cases c) simp_all

lemma throw_if_Some: "throw_if b e = Some e' \<longleftrightarrow> b \<and> e' = e"
  by (auto simp: throw_if_def)

lemma check_when_Some: "check_when b c = Some e \<longleftrightarrow> b \<and> c = Some e"
  by (simp add: check_when_def)

lemma checks_Some: "checks cs = Some e \<Longrightarrow> list_ex (\<lambda>c. c = Some e) cs"
  by (induction cs) (auto simp: checks.simps split: option.splits)

lemmas error_simps = bind_result_Inl guarded_Inl throw_if_Some check_when_Some

section \<open>Optional values\<close>

text \<open>\<open>x?.f === v\<close>, and a lookup that must succeed with a property: an absent value fails it.\<close>

definition holds :: "'a option \<Rightarrow> ('a \<Rightarrow> bool) \<Rightarrow> bool" where
  "holds opt P \<longleftrightarrow> (case opt of None \<Rightarrow> False | Some x \<Rightarrow> P x)"

lemma holds_iff [check_simps]: "holds opt P \<longleftrightarrow> (\<exists>x. opt = Some x \<and> P x)"
  by (cases opt) (simp_all add: holds_def)

lemma holds_simps [simp]: "holds (Some x) P = P x" "holds None P = False"
  by (simp_all add: holds_def)

text \<open>\<open>a ?? b\<close>.\<close>

definition coalesce :: "'a option \<Rightarrow> 'a \<Rightarrow> 'a" where
  "coalesce a b = (case a of None \<Rightarrow> b | Some x \<Rightarrow> x)"

definition coalesce_opt :: "'a option \<Rightarrow> 'a option \<Rightarrow> 'a option" where
  "coalesce_opt a b = (case a of None \<Rightarrow> b | Some x \<Rightarrow> Some x)"

lemma coalesce_simps [simp]: "coalesce None b = b" "coalesce (Some a) b = a"
  by (simp_all add: coalesce_def)

lemma coalesce_opt_simps [simp]: "coalesce_opt None b = b" "coalesce_opt (Some a) b = Some a"
  by (simp_all add: coalesce_opt_def)

section \<open>Arrays\<close>

text \<open>\<open>xs.at(-1)\<close>, which is \<open>undefined\<close> on an empty array.\<close>

definition at_last :: "'a list \<Rightarrow> 'a option" where
  "at_last xs = (if xs = [] then None else Some (last xs))"

text \<open>\<open>[...xs].reverse().find(p)\<close>.\<close>

definition find_last :: "('a \<Rightarrow> bool) \<Rightarrow> 'a list \<Rightarrow> 'a option" where
  "find_last p xs = find p (rev xs)"

text \<open>An update in place of the element \<open>find\<close> returns.\<close>

fun update_first :: "('a \<Rightarrow> bool) \<Rightarrow> ('a \<Rightarrow> 'a) \<Rightarrow> 'a list \<Rightarrow> 'a list" where
  "update_first p f [] = []"
| "update_first p f (x # xs) = (if p x then f x # xs else x # update_first p f xs)"

lemma at_last_Nil [simp]: "at_last [] = None"
  by (simp add: at_last_def)

lemma at_last_snoc [simp]: "at_last (xs @ [x]) = Some x"
  by (simp add: at_last_def)

lemma at_last_Some_iff: "at_last xs = Some x \<longleftrightarrow> xs \<noteq> [] \<and> last xs = x"
  by (auto simp: at_last_def)

lemma at_last_mem: "at_last xs = Some x \<Longrightarrow> x \<in> set xs"
  by (auto simp: at_last_def split: if_splits)

lemma at_last_None_iff [simp]: "at_last xs = None \<longleftrightarrow> xs = []"
  by (simp add: at_last_def)

lemma find_SomeD: "find p xs = Some x \<Longrightarrow> x \<in> set xs \<and> p x"
  by (metis find_Some_iff nth_mem)

lemma find_last_SomeD: "find_last p xs = Some x \<Longrightarrow> x \<in> set xs \<and> p x"
  unfolding find_last_def by (drule find_SomeD) simp

lemma find_last_snoc: "find_last p (xs @ [x]) = (if p x then Some x else find_last p xs)"
  by (simp add: find_last_def)

lemma length_update_first [simp]: "length (update_first p f xs) = length xs"
  by (induction xs) simp_all

lemma map_update_first: "(\<And>x. g (f x) = g x) \<Longrightarrow> map g (update_first p f xs) = map g xs"
  by (induction xs) simp_all

lemma filter_map_update_first:
  "(\<And>x. q (f x) = q x) \<Longrightarrow> length (filter q (update_first p f xs)) = length (filter q xs)"
  by (induction xs) simp_all

lemma set_update_first: "y \<in> set (update_first p f xs) \<Longrightarrow> y \<in> set xs \<or> (\<exists>x\<in>set xs. p x \<and> y = f x)"
  by (induction xs) (auto split: if_splits)

lemma update_first_snoc:
  "(\<And>x. x \<in> set xs \<Longrightarrow> \<not> p x) \<Longrightarrow> update_first p f (xs @ [x]) = xs @ [if p x then f x else x]"
  by (induction xs) auto

section \<open>Numbers\<close>

text \<open>\<open>Number.MAX_SAFE_INTEGER\<close>. The integers of the source are JavaScript numbers or
  \<open>BigInt\<close>; the code keeps the numbers in the safe range with explicit checks, which are
  modelled, so an unbounded \<open>int\<close> is exact.\<close>

definition max_safe_integer :: int where
  "max_safe_integer = 9007199254740991"

definition is_safe_integer :: "int \<Rightarrow> bool" where
  "is_safe_integer n \<longleftrightarrow> - max_safe_integer \<le> n \<and> n \<le> max_safe_integer"

definition safe_non_negative :: "int \<Rightarrow> bool" where
  "safe_non_negative n \<longleftrightarrow> 0 \<le> n \<and> n \<le> max_safe_integer"

definition safe_positive :: "int \<Rightarrow> bool" where
  "safe_positive n \<longleftrightarrow> 0 < n \<and> n \<le> max_safe_integer"

section \<open>Strings\<close>

abbreviation code_unit :: "char \<Rightarrow> nat" where
  "code_unit \<equiv> of_char"

text \<open>The white space and line terminators \<open>trim\<close> removes, among code units below 256.\<close>

definition js_space :: "char \<Rightarrow> bool" where
  "js_space c \<longleftrightarrow> (let n = code_unit c in (9 \<le> n \<and> n \<le> 13) \<or> n = 32 \<or> n = 160)"

definition js_trim :: "string \<Rightarrow> string" where
  "js_trim s = rev (dropWhile js_space (rev (dropWhile js_space s)))"

lemma js_trim_front: "dropWhile js_space (js_trim s) = js_trim s"
proof -
  let ?d = "dropWhile js_space s"
  obtain k where k: "js_trim s = take k ?d"
    unfolding js_trim_def by (metis append_eq_conv_conj dropWhile_eq_drop rev_drop rev_rev_ident)
  show ?thesis
  proof (cases ?d)
    case Nil
    with k show ?thesis by simp
  next
    case (Cons c cs)
    then have "\<not> js_space c" using hd_dropWhile [of js_space s] by (metis list.distinct(1) list.sel(1))
    with Cons k show ?thesis by (cases k) simp_all
  qed
qed

lemma js_trim_idem [simp]: "js_trim (js_trim s) = js_trim s"
  using js_trim_front [of s] by (simp add: js_trim_def [of "js_trim s"]) (simp add: js_trim_def)

lemma js_trim_comp [simp]: "js_trim \<circ> js_trim = js_trim"
  by (simp add: comp_def)

lemma js_trim_no_space: "list_all (\<lambda>c. \<not> js_space c) s \<Longrightarrow> js_trim s = s"
proof -
  assume n: "list_all (\<lambda>c. \<not> js_space c) s"
  have "dropWhile js_space s = s" "dropWhile js_space (rev s) = rev s"
    using n by (simp_all add: list_all_iff dropWhile_eq_self_iff hd_rev disj_imp)
  then show ?thesis by (simp add: js_trim_def)
qed

definition lower_hex :: "char \<Rightarrow> bool" where
  "lower_hex c \<longleftrightarrow> (let n = code_unit c in (48 \<le> n \<and> n \<le> 57) \<or> (97 \<le> n \<and> n \<le> 102))"

definition lower_alnum :: "char \<Rightarrow> bool" where
  "lower_alnum c \<longleftrightarrow> (let n = code_unit c in (48 \<le> n \<and> n \<le> 57) \<or> (97 \<le> n \<and> n \<le> 122))"

text \<open>The same classes on the bits of a character, for evaluation.\<close>

lemma lower_hex_code [code]:
  "lower_hex (Char b0 b1 b2 b3 b4 b5 b6 b7) \<longleftrightarrow> \<not> b7 \<and> b5 \<and>
     (if b6 then \<not> b4 \<and> \<not> b3 \<and> (b0 \<or> b1 \<or> b2) \<and> \<not> (b0 \<and> b1 \<and> b2)
      else b4 \<and> (b3 \<longrightarrow> \<not> b2 \<and> \<not> b1))"
  by (cases b0; cases b1; cases b2; cases b3; cases b4; cases b5; cases b6; cases b7)
    (simp_all add: lower_hex_def)

lemma lower_alnum_code [code]:
  "lower_alnum (Char b0 b1 b2 b3 b4 b5 b6 b7) \<longleftrightarrow> \<not> b7 \<and> b5 \<and>
     (if b6 then (b0 \<or> b1 \<or> b2 \<or> b3 \<or> b4) \<and> \<not> (b4 \<and> b3 \<and> (b2 \<or> b1 \<and> b0))
      else b4 \<and> (b3 \<longrightarrow> \<not> b2 \<and> \<not> b1))"
  by (cases b0; cases b1; cases b2; cases b3; cases b4; cases b5; cases b6; cases b7)
    (simp_all add: lower_alnum_def)

lemma js_space_code [code]:
  "js_space (Char b0 b1 b2 b3 b4 b5 b6 b7) \<longleftrightarrow> \<not> b6 \<and> \<not> b4 \<and>
     (if b5 then \<not> b0 \<and> \<not> b1 \<and> \<not> b2 \<and> \<not> b3
      else \<not> b7 \<and> b3 \<and> (b2 \<longrightarrow> \<not> b1) \<and> (b2 \<or> b1 \<or> b0))"
  by (cases b0; cases b1; cases b2; cases b3; cases b4; cases b5; cases b6; cases b7)
    (simp_all add: js_space_def)

text \<open>The regular expressions \<open>^[a-z0-9][a-z0-9._-]*$\<close> and \<open>^[a-f0-9]{64}$\<close>.\<close>

definition reason_code_chars :: "string \<Rightarrow> bool" where
  "reason_code_chars s \<longleftrightarrow>
     (case s of [] \<Rightarrow> False
      | c # cs \<Rightarrow> lower_alnum c \<and> list_all (\<lambda>d. lower_alnum d \<or> d \<in> set ''._-'') cs)"

definition sha256_hex :: "string \<Rightarrow> bool" where
  "sha256_hex s \<longleftrightarrow> length s = 64 \<and> list_all lower_hex s"

text \<open>The adjacent comparison loop \<open>previous >= current\<close> that rejects a list which is not
  sorted and unique.\<close>

fun strictly_increasing :: "('a \<Rightarrow> 'b::linorder) \<Rightarrow> 'a list \<Rightarrow> bool" where
  "strictly_increasing f (x # y # zs) = (f x < f y \<and> strictly_increasing f (y # zs))"
| "strictly_increasing f _ = True"

lemma strictly_increasing_sorted_wrt:
  "strictly_increasing f xs \<longleftrightarrow> sorted_wrt (<) (map f xs)"
  by (induction f xs rule: strictly_increasing.induct) (auto dest: less_trans)

lemma strictly_increasing_distinct: "strictly_increasing f xs \<Longrightarrow> distinct (map f xs)"
  by (simp add: strictly_increasing_sorted_wrt strict_sorted_iff)

lemma bounded_chars_not_space: "reason_code_chars s \<Longrightarrow> list_all (\<lambda>c. \<not> js_space c) s"
proof -
  have a: "\<not> js_space c" if "lower_alnum c" for c
    using that by (cases c) (simp add: lower_alnum_code js_space_code split: if_splits)
  have p: "\<not> js_space c" if "c \<in> set ''._-''" for c
    using that by (auto simp: js_space_code)
  have d: "\<not> js_space c" if "lower_alnum c \<or> c \<in> set ''._-''" for c
    using that a p by blast
  assume s: "reason_code_chars s"
  show ?thesis
  proof (cases s)
    case (Cons c cs)
    with s have "lower_alnum c" "list_all (\<lambda>d. lower_alnum d \<or> d \<in> set ''._-'') cs"
      by (simp_all only: reason_code_chars_def list.case)
    then show ?thesis
      unfolding Cons list.pred_inject
      by (intro conjI a) (assumption, erule list.pred_mono_strong, erule d)
  qed simp
qed

lemma reason_code_trimmed: "reason_code_chars s \<Longrightarrow> js_trim s = s"
  by (rule js_trim_no_space [OF bounded_chars_not_space])

lemma strictly_increasing_sort_key:
  "distinct (map f xs) \<Longrightarrow> strictly_increasing f (sort_key f xs)"
  by (simp add: strictly_increasing_sorted_wrt strict_sorted_iff distinct_map)

text \<open>Decimal notation of a natural number, as a template literal prints it.\<close>

definition digit_char :: "nat \<Rightarrow> char" where
  "digit_char d = char_of (48 + d)"

fun show_nat :: "nat \<Rightarrow> string" where
  "show_nat n = (if n < 10 then [digit_char n] else show_nat (n div 10) @ [digit_char (n mod 10)])"

declare show_nat.simps [simp del]

fun read_nat :: "nat \<Rightarrow> string \<Rightarrow> nat" where
  "read_nat acc [] = acc"
| "read_nat acc (c # cs) = read_nat (acc * 10 + (code_unit c - 48)) cs"

lemma read_nat_snoc: "read_nat acc (xs @ [c]) = read_nat acc xs * 10 + (code_unit c - 48)"
  by (induction xs arbitrary: acc) simp_all

lemma code_unit_digit_char: "d < 10 \<Longrightarrow> code_unit (digit_char d) = 48 + d"
  by (simp add: digit_char_def)

lemma read_show_nat: "read_nat 0 (show_nat n) = n"
proof (induction n rule: show_nat.induct)
  case (1 n)
  show ?case
  proof (cases "n < 10")
    case True
    then show ?thesis by (simp add: show_nat.simps [of n] code_unit_digit_char)
  next
    case False
    with 1 show ?thesis
      by (simp add: show_nat.simps [of n] read_nat_snoc code_unit_digit_char)
  qed
qed

lemma show_nat_inject [simp]: "show_nat m = show_nat n \<longleftrightarrow> m = n"
  by (metis read_show_nat)

end
