(* ===== verification/Timestamps.thy ===== *)
theory Timestamps
  imports Prelude "HOL-Library.Monad_Syntax"
begin

text \<open>
  The part of ECMAScript's \<open>Date\<close> the program uses: \<open>Date.parse\<close> on the date-time strings
  its schemas admit (\<open>z.string().datetime({ offset: true })\<close>), \<open>new Date(ms).toISOString()\<close>,
  and the canonical-timestamp test \<open>new Date(v).toISOString() === v\<close> that the stores apply to
  every \<open>createdAt\<close>. Times are milliseconds since 1970-01-01T00:00:00Z. The main lemma is
  the round trip: parsing what \<open>to_iso\<close> prints gives the time back.
\<close>

section \<open>The calendar\<close>

text \<open>ECMAScript's \<open>DayFromYear\<close>: the number of the first day of a year.\<close>

definition day_from_year :: "int \<Rightarrow> int" where
  "day_from_year y =
     365 * (y - 1970) + (y - 1969) div 4 - (y - 1901) div 100 + (y - 1601) div 400"

definition leap_year :: "int \<Rightarrow> bool" where
  "leap_year y \<longleftrightarrow> y mod 4 = 0 \<and> (y mod 100 \<noteq> 0 \<or> y mod 400 = 0)"

definition days_in_year :: "int \<Rightarrow> int" where
  "days_in_year y = (if leap_year y then 366 else 365)"

lemma div_plus_one:
  fixes z k :: int
  assumes k: "1 < k"
  shows "(z + 1) div k = z div k + (if (z + 1) mod k = 0 then 1 else 0)"
proof -
  have r: "0 \<le> z mod k" "z mod k < k"
    using k by simp_all
  have d: "(z + 1) div k = z div k + (z mod k + 1) div k"
    using div_add1_eq [of z 1 k] k by simp
  have m: "(z + 1) mod k = (z mod k + 1) mod k"
    by (simp only: mod_add_left_eq)
  show ?thesis
  proof (cases "z mod k + 1 = k")
    case True
    then show ?thesis unfolding d m using k by simp
  next
    case False
    with r have "z mod k + 1 < k" "0 < z mod k + 1" by linarith+
    then have "(z mod k + 1) div k = 0" "(z mod k + 1) mod k \<noteq> 0" by simp_all
    then show ?thesis unfolding d m by (simp only: if_False)
  qed
qed

lemma leap_step:
  fixes y a b c :: int
  assumes "Q \<Longrightarrow> P" "R \<Longrightarrow> Q"
  shows "365 * (y + 1 - 1970) + (a + (if P then 1 else 0)) - (b + (if Q then 1 else 0)) +
      (c + (if R then 1 else 0)) =
    365 * (y - 1970) + a - b + c + (if P \<and> (\<not> Q \<or> R) then 366 else 365)"
proof -
  have e: "365 * (y + 1 - 1970) = 365 * (y - 1970) + 365" by simp
  show ?thesis unfolding e using assms by (cases P; cases Q; cases R) simp_all
qed

lemma day_from_year_Suc: "day_from_year (y + 1) = day_from_year y + days_in_year y"
proof -
  have q: "(y + 1 - a) div k = (y - a) div k + (if (y + 1 - a) mod k = 0 then 1 else 0)"
    if k: "1 < k" for a k :: int
  proof -
    have e: "y + 1 - a = (y - a) + 1" by simp
    show ?thesis unfolding e by (rule div_plus_one [OF k])
  qed
  have shift: "(y + 1 - 1969) mod 4 = y mod 4" "(y + 1 - 1901) mod 100 = y mod 100"
    "(y + 1 - 1601) mod 400 = y mod 400"
  proof -
    show "(y + 1 - 1969) mod 4 = y mod 4" using mod_mult_self1 [of y "- 492" 4] by simp
    show "(y + 1 - 1901) mod 100 = y mod 100" using mod_mult_self1 [of y "- 19" 100] by simp
    show "(y + 1 - 1601) mod 400 = y mod 400" using mod_mult_self1 [of y "- 4" 400] by simp
  qed
  have dvd: "4 dvd (100 :: int)" "100 dvd (400 :: int)" by simp_all
  have i: "y mod 100 = 0 \<Longrightarrow> y mod 4 = 0" "y mod 400 = 0 \<Longrightarrow> y mod 100 = 0"
    by (blast intro: dvd_imp_mod_0 dvd_trans [OF dvd(1)] dvd_trans [OF dvd(2)] dest: mod_0_imp_dvd)+
  obtain a b c where abc: "(y - 1969) div 4 = a" "(y - 1901) div 100 = b" "(y - 1601) div 400 = c"
    by blast
  have k: "1 < (4 :: int)" "1 < (100 :: int)" "1 < (400 :: int)" by simp_all
  have h4: "(y + 1 - 1969) div 4 = a + (if y mod 4 = 0 then 1 else 0)"
    by (rule q [OF k(1), of 1969, unfolded shift abc])
  have h100: "(y + 1 - 1901) div 100 = b + (if y mod 100 = 0 then 1 else 0)"
    by (rule q [OF k(2), of 1901, unfolded shift abc])
  have h400: "(y + 1 - 1601) div 400 = c + (if y mod 400 = 0 then 1 else 0)"
    by (rule q [OF k(3), of 1601, unfolded shift abc])
  show ?thesis
    unfolding day_from_year_def days_in_year_def leap_year_def h4 h100 h400 abc
    using i by (intro leap_step) blast+
qed

lemma days_in_year_pos: "365 \<le> days_in_year y" "days_in_year y \<le> 366"
  by (simp_all add: days_in_year_def)

text \<open>The year of a day: the last one that starts no later (ECMAScript's \<open>YearFromTime\<close>),
  searched upwards from a year that is not later than it.\<close>

function year_search :: "int \<Rightarrow> int \<Rightarrow> int" where
  "year_search d y = (if day_from_year (y + 1) \<le> d then year_search d (y + 1) else y)"
  by pat_completeness auto
termination
proof (relation "measure (\<lambda>(d, y). nat (d + 1 - day_from_year y))")
  show "wf (measure (\<lambda>(d, y). nat (d + 1 - day_from_year y)))" by simp
next
  fix d y :: int
  assume "day_from_year (y + 1) \<le> d"
  then show "((d, y + 1), (d, y)) \<in> measure (\<lambda>(d, y). nat (d + 1 - day_from_year y))"
    using days_in_year_pos [of y] by (simp add: day_from_year_Suc)
qed

declare year_search.simps [simp del]

definition year_of_day :: "int \<Rightarrow> int" where
  "year_of_day d = year_search d (1970 + (if d < 0 then d div 365 else d div 366))"

lemma year_search_bounds:
  "day_from_year y \<le> d \<Longrightarrow>
     day_from_year (year_search d y) \<le> d \<and> d < day_from_year (year_search d y + 1)"
proof (induction d y rule: year_search.induct)
  case (1 d y)
  then show ?case
    by (cases "day_from_year (y + 1) \<le> d") (simp_all add: year_search.simps [of d y])
qed

lemma day_from_year_le: "day_from_year (1970 + (if d < 0 then d div 365 else d div 366)) \<le> d"
proof -
  have up: "day_from_year (1970 + int n) \<le> 366 * int n" for n
  proof (induction n)
    case 0
    then show ?case by (simp add: day_from_year_def)
  next
    case (Suc n)
    have "day_from_year (1970 + int (Suc n)) = day_from_year (1970 + int n) + days_in_year (1970 + int n)"
      using day_from_year_Suc [of "1970 + int n"] by (simp add: algebra_simps)
    with Suc days_in_year_pos(2) [of "1970 + int n"] show ?case by simp
  qed
  have down: "day_from_year (1970 - int n) \<le> - 365 * int n" for n
  proof (induction n)
    case 0
    then show ?case by (simp add: day_from_year_def)
  next
    case (Suc n)
    have "day_from_year (1970 - int n) = day_from_year (1970 - int (Suc n)) + days_in_year (1970 - int (Suc n))"
      using day_from_year_Suc [of "1970 - int (Suc n)"] by (simp add: algebra_simps)
    with Suc days_in_year_pos(1) [of "1970 - int (Suc n)"] show ?case by simp
  qed
  show ?thesis
  proof (cases "d < 0")
    case True
    have le: "365 * (d div 365) \<le> d"
      using minus_mod_eq_mult_div [of d 365] pos_mod_sign [of 365 d] by linarith
    with True have "d div 365 \<le> 0" by linarith
    then obtain n where n: "d div 365 = - int n" by (metis minus_equation_iff nonpos_int_cases)
    show ?thesis using True le down [of n] unfolding n by simp
  next
    case False
    have le: "366 * (d div 366) \<le> d"
      using minus_mod_eq_mult_div [of d 366] pos_mod_sign [of 366 d] by linarith
    have "0 \<le> d div 366"
      using False by (simp add: pos_imp_zdiv_nonneg_iff)
    then obtain n where n: "d div 366 = int n" by (metis nonneg_int_cases)
    show ?thesis using False le up [of n] unfolding n by simp
  qed
qed

lemma year_of_day_bounds:
  "day_from_year (year_of_day d) \<le> d" "d < day_from_year (year_of_day d) + days_in_year (year_of_day d)"
  using year_search_bounds [OF day_from_year_le, of d]
  by (simp_all add: year_of_day_def day_from_year_Suc)

text \<open>Months are numbered from 1.\<close>

definition month_start :: "bool \<Rightarrow> int \<Rightarrow> int" where
  "month_start leap m =
     (if m = 1 then 0 else if m = 2 then 31 else
      (if leap then 1 else 0) +
      (if m = 3 then 59 else if m = 4 then 90 else if m = 5 then 120 else if m = 6 then 151
       else if m = 7 then 181 else if m = 8 then 212 else if m = 9 then 243
       else if m = 10 then 273 else if m = 11 then 304 else if m = 12 then 334 else 365))"

definition days_in_month :: "int \<Rightarrow> int \<Rightarrow> int" where
  "days_in_month y m = month_start (leap_year y) (m + 1) - month_start (leap_year y) m"

fun month_search :: "bool \<Rightarrow> int \<Rightarrow> int list \<Rightarrow> int" where
  "month_search leap doy [] = 1"
| "month_search leap doy (m # ms) =
     (if month_start leap m \<le> doy then m else month_search leap doy ms)"

definition month_of :: "bool \<Rightarrow> int \<Rightarrow> int" where
  "month_of leap doy = month_search leap doy [12, 11, 10, 9, 8, 7, 6, 5, 4, 3, 2]"

lemma month_of_bounds:
  assumes "0 \<le> doy" "doy < (if leap then 366 else 365)"
  shows "1 \<le> month_of leap doy" "month_of leap doy \<le> 12"
    and "month_start leap (month_of leap doy) \<le> doy"
    and "doy < month_start leap (month_of leap doy + 1)"
  subgoal by (simp add: month_of_def)
  subgoal by (simp add: month_of_def)
  subgoal using assms by (simp add: month_of_def month_start_def)
  subgoal using assms by (cases leap; simp add: month_of_def month_start_def)
  done

lemma days_in_month_le: "1 \<le> m \<Longrightarrow> m \<le> 12 \<Longrightarrow> days_in_month y m \<le> 31"
  by (auto simp: days_in_month_def month_start_def)

section \<open>Reading\<close>

definition is_digit :: "char \<Rightarrow> bool" where
  "is_digit c \<longleftrightarrow> 48 \<le> code_unit c \<and> code_unit c \<le> 57"

definition digit_value :: "char \<Rightarrow> int" where
  "digit_value c = int (code_unit c) - 48"

lemma is_digit_code [code]:
  "is_digit (Char b0 b1 b2 b3 b4 b5 b6 b7) \<longleftrightarrow> \<not> b7 \<and> \<not> b6 \<and> b5 \<and> b4 \<and> (b3 \<longrightarrow> \<not> b2 \<and> \<not> b1)"
  by (cases b0; cases b1; cases b2; cases b3; cases b4; cases b5; cases b6; cases b7)
    (simp_all add: is_digit_def)

lemma digit_value_code [code]:
  "digit_value (Char b0 b1 b2 b3 b4 b5 b6 b7) =
     of_bool b0 + 2 * of_bool b1 + 4 * of_bool b2 + 8 * of_bool b3 + 16 * of_bool b4 + 32 * of_bool b5 +
     64 * of_bool b6 + 128 * of_bool b7 - 48"
  by (cases b0; cases b1; cases b2; cases b3; cases b4; cases b5; cases b6; cases b7)
    (simp_all add: digit_value_def)

text \<open>Exactly \<open>n\<close> digits.\<close>

fun read_fixed :: "nat \<Rightarrow> int \<Rightarrow> string \<Rightarrow> (int \<times> string) option" where
  "read_fixed 0 acc s = Some (acc, s)"
| "read_fixed (Suc n) acc [] = None"
| "read_fixed (Suc n) acc (c # cs) =
     (if is_digit c then read_fixed n (acc * 10 + digit_value c) cs else None)"

fun read_char :: "char \<Rightarrow> string \<Rightarrow> string option" where
  "read_char c [] = None"
| "read_char c (d # ds) = (if c = d then Some ds else None)"

text \<open>The first three digits of a fraction are its milliseconds, the rest is dropped.\<close>

fun read_fraction :: "int \<Rightarrow> string \<Rightarrow> int \<times> string" where
  "read_fraction w [] = (0, [])"
| "read_fraction w (c # cs) =
     (if is_digit c
      then let (v, r) = read_fraction (w div 10) cs in (w * digit_value c + v, r)
      else (0, c # cs))"

text \<open>The optional \<open>:SS\<close> and \<open>:SS.fff\<close>, in milliseconds.\<close>

definition read_seconds :: "string \<Rightarrow> (int \<times> string) option" where
  "read_seconds s =
     (case read_char CHR '':'' s of
        None \<Rightarrow> Some (0, s)
      | Some s1 \<Rightarrow>
          (case read_fixed 2 0 s1 of
             None \<Rightarrow> None
           | Some (sec, s2) \<Rightarrow>
               if 59 < sec then None
               else case read_char CHR ''.'' s2 of
                 None \<Rightarrow> Some (sec * 1000, s2)
               | Some s3 \<Rightarrow>
                   if s3 = [] \<or> \<not> is_digit (hd s3) then None
                   else let (ms, s4) = read_fraction 100 s3 in Some (sec * 1000 + ms, s4)))"

text \<open>The offset in minutes; nothing may follow it.\<close>

definition read_zone :: "string \<Rightarrow> int option" where
  "read_zone s =
     (if s = ''Z'' then Some 0
      else case s of
        [] \<Rightarrow> None
      | c # s1 \<Rightarrow>
          if c \<noteq> CHR ''+'' \<and> c \<noteq> CHR ''-'' then None
          else do {
            (h, s2) \<leftarrow> read_fixed 2 0 s1;
            s3 \<leftarrow> read_char CHR '':'' s2;
            (m, s4) \<leftarrow> read_fixed 2 0 s3;
            if h \<le> 23 \<and> m \<le> 59 \<and> s4 = []
            then Some ((if c = CHR ''-'' then - 1 else 1) * (h * 60 + m)) else None
          })"

text \<open>\<open>Date.parse\<close>; \<open>None\<close> is \<open>NaN\<close>.\<close>

definition date_parse :: "string \<Rightarrow> int option" where
  "date_parse s = do {
     (y, s) \<leftarrow> read_fixed 4 0 s;
     s \<leftarrow> read_char CHR ''-'' s;
     (mo, s) \<leftarrow> read_fixed 2 0 s;
     s \<leftarrow> read_char CHR ''-'' s;
     (d, s) \<leftarrow> read_fixed 2 0 s;
     s \<leftarrow> read_char CHR ''T'' s;
     (h, s) \<leftarrow> read_fixed 2 0 s;
     s \<leftarrow> read_char CHR '':'' s;
     (mi, s) \<leftarrow> read_fixed 2 0 s;
     (ms, s) \<leftarrow> read_seconds s;
     z \<leftarrow> read_zone s;
     if 1 \<le> mo \<and> mo \<le> 12 \<and> 1 \<le> d \<and> d \<le> days_in_month y mo \<and> h \<le> 23 \<and> mi \<le> 59
     then Some ((day_from_year y + month_start (leap_year y) mo + d - 1) * 86400000
                + h * 3600000 + mi * 60000 + ms - z * 60000)
     else None
   }"

text \<open>Comparisons of two parsed times; one with \<open>NaN\<close> is false.\<close>

definition time_less :: "string \<Rightarrow> string \<Rightarrow> bool" where
  "time_less a b = (case (date_parse a, date_parse b) of (Some x, Some y) \<Rightarrow> x < y | _ \<Rightarrow> False)"

definition time_less_eq :: "string \<Rightarrow> string \<Rightarrow> bool" where
  "time_less_eq a b = (case (date_parse a, date_parse b) of (Some x, Some y) \<Rightarrow> x \<le> y | _ \<Rightarrow> False)"

section \<open>Printing\<close>

fun show_fixed :: "nat \<Rightarrow> int \<Rightarrow> string" where
  "show_fixed 0 v = []"
| "show_fixed (Suc n) v = show_fixed n (v div 10) @ [digit_char (nat (v mod 10))]"

text \<open>Digits by comparison, for evaluation.\<close>

definition digit_of :: "int \<Rightarrow> char" where
  "digit_of d = (if d = 0 then CHR ''0'' else if d = 1 then CHR ''1'' else if d = 2 then CHR ''2''
     else if d = 3 then CHR ''3'' else if d = 4 then CHR ''4'' else if d = 5 then CHR ''5''
     else if d = 6 then CHR ''6'' else if d = 7 then CHR ''7'' else if d = 8 then CHR ''8'' else CHR ''9'')"


lemma digit_of: "0 \<le> d \<Longrightarrow> d < 10 \<Longrightarrow> digit_char (nat d) = digit_of d"
proof -
  assume "0 \<le> d" "d < 10"
  then have "d = 0 \<or> d = 1 \<or> d = 2 \<or> d = 3 \<or> d = 4 \<or> d = 5 \<or> d = 6 \<or> d = 7 \<or> d = 8 \<or> d = 9"
    by presburger
  then show ?thesis by (elim disjE) (simp_all add: digit_char_def digit_of_def char_of_def bit_Suc_0_iff bit_0)
qed

lemma show_fixed_code [code]:
  "show_fixed 0 v = []" 
  "show_fixed (Suc n) v = show_fixed n (v div 10) @ [digit_of (v mod 10)]"
  by (simp_all add: digit_of)

definition show_year :: "int \<Rightarrow> string" where
  "show_year y =
     (if 0 \<le> y \<and> y \<le> 9999 then show_fixed 4 y
      else (if y < 0 then CHR ''-'' else CHR ''+'') # show_fixed 6 \<bar>y\<bar>)"

text \<open>\<open>new Date(t).toISOString()\<close>, which throws outside the range of a time value.\<close>

definition to_iso :: "int \<Rightarrow> string option" where
  "to_iso t =
     (if 8640000000000000 < \<bar>t\<bar> then None
      else
        let d = t div 86400000; r = t mod 86400000;
            y = year_of_day d; doy = d - day_from_year y;
            mo = month_of (leap_year y) doy
        in Some (show_year y @ ''-'' @ show_fixed 2 mo @ ''-'' @
             show_fixed 2 (doy - month_start (leap_year y) mo + 1) @ ''T'' @
             show_fixed 2 (r div 3600000) @ '':'' @ show_fixed 2 (r div 60000 mod 60) @ '':'' @
             show_fixed 2 (r div 1000 mod 60) @ ''.'' @ show_fixed 3 (r mod 1000) @ ''Z''))"

text \<open>\<open>new Date(v).toISOString() === v\<close>, with a \<open>NaN\<close> or a throw as failure.\<close>

definition canonical_timestamp :: "string \<Rightarrow> bool" where
  "canonical_timestamp v = (case date_parse v of None \<Rightarrow> False | Some t \<Rightarrow> to_iso t = Some v)"

section \<open>The round trip\<close>

lemma is_digit_digit_char: "d < 10 \<Longrightarrow> is_digit (digit_char d)"
  by (simp add: is_digit_def code_unit_digit_char)

lemma digit_value_digit_char: "d < 10 \<Longrightarrow> digit_value (digit_char d) = int d"
  by (simp add: digit_value_def code_unit_digit_char)

lemma read_fixed_add:
  "read_fixed (m + n) acc s = Option.bind (read_fixed m acc s) (\<lambda>(a, r). read_fixed n a r)"
proof (induction m arbitrary: acc s)
  case 0
  then show ?case by simp
next
  case (Suc m)
  then show ?case by (cases s) simp_all
qed

lemma read_fixed_show_fixed:
  "0 \<le> v \<Longrightarrow> v < 10 ^ n \<Longrightarrow> read_fixed n acc (show_fixed n v @ s) = Some (acc * 10 ^ n + v, s)"
proof (induction n arbitrary: v acc s)
  case 0
  then show ?case by simp
next
  case (Suc n)
  have d: "nat (v mod 10) < 10" "0 \<le> v mod 10"
    using pos_mod_bound [of 10 v] by simp_all
  have q: "0 \<le> v div 10" "v div 10 < 10 ^ n"
    using Suc.prems mult_div_mod_eq [of 10 v] d(2) by (simp_all add: pos_imp_zdiv_nonneg_iff)
  have e: "(acc * 10 ^ n + v div 10) * 10 + v mod 10 = acc * 10 ^ Suc n + v"
    using mult_div_mod_eq [of 10 v] by (simp add: algebra_simps)
  show ?case
    using read_fixed_add [of n 1 acc "show_fixed (Suc n) v @ s"] e d
    by (simp add: Suc.IH [OF q] is_digit_digit_char digit_value_digit_char)
qed

lemma read_fixed_year:
  "0 \<le> y \<Longrightarrow> y \<le> 9999 \<Longrightarrow> read_fixed 4 0 (show_year y @ s) = Some (y, s)"
  using read_fixed_show_fixed [of y 4 0 s] by (simp add: show_year_def)

lemma read_fixed_two:
  "0 \<le> v \<Longrightarrow> v \<le> 99 \<Longrightarrow> read_fixed 2 0 (show_fixed 2 v @ s) = Some (v, s)"
  using read_fixed_show_fixed [of v 2 0 s] by simp

lemma read_fraction_three:
  assumes "0 \<le> v" "v \<le> 999"
  shows "read_fraction 100 (show_fixed 3 v @ ''Z'') = (v, ''Z'')"
    and "show_fixed 3 v @ ''Z'' \<noteq> []" "is_digit (hd (show_fixed 3 v @ ''Z''))"
proof -
  define a b c where abc: "a = v div 10 div 10 mod 10" "b = v div 10 mod 10" "c = v mod 10"
  have r: "0 \<le> a" "a < 10" "0 \<le> b" "b < 10" "0 \<le> c" "c < 10" by (simp_all add: abc)
  have m: "v = 10 * (v div 10) + c" "v div 10 = 10 * (v div 10 div 10) + b"
    unfolding abc by (simp_all only: mult_div_mod_eq)
  have "0 \<le> v div 10 div 10" using assms by (simp add: pos_imp_zdiv_nonneg_iff)
  moreover have e: "v = 100 * (v div 10 div 10) + 10 * b + c" using m by linarith
  ultimately have "v div 10 div 10 < 10" using r assms by linarith
  with \<open>0 \<le> v div 10 div 10\<close> have "a = v div 10 div 10" unfolding abc by (rule mod_pos_pos_trivial)
  with e have v: "v = 100 * a + 10 * b + c" by simp
  have s: "show_fixed 3 v @ ''Z'' = [digit_char (nat a), digit_char (nat b), digit_char (nat c), CHR ''Z'']"
    by (simp add: abc numeral_3_eq_3)
  have z: "\<not> is_digit CHR ''Z''" by (simp add: is_digit_def)
  show "read_fraction 100 (show_fixed 3 v @ ''Z'') = (v, ''Z'')"
    unfolding s using r z
    by (simp add: is_digit_digit_char digit_value_digit_char v)
  show "show_fixed 3 v @ ''Z'' \<noteq> []" by simp
  show "is_digit (hd (show_fixed 3 v @ ''Z''))"
    unfolding s using r by (simp add: is_digit_digit_char)
qed

lemma read_seconds_shown:
  assumes "0 \<le> sec" "sec \<le> 59" "0 \<le> v" "v \<le> 999"
  shows "read_seconds (CHR '':'' # show_fixed 2 sec @ CHR ''.'' # show_fixed 3 v @ ''Z'')
    = Some (sec * 1000 + v, ''Z'')"
proof -
  have two: "read_fixed 2 0 (show_fixed 2 sec @ CHR ''.'' # show_fixed 3 v @ ''Z'') =
      Some (sec, CHR ''.'' # show_fixed 3 v @ ''Z'')"
    using assms by (intro read_fixed_two) simp_all
  show ?thesis
    unfolding read_seconds_def
    using assms read_fraction_three [OF assms(3,4)] two
    by (simp del: show_fixed.simps)
qed

lemma date_parse_shown:
  assumes "0 \<le> y" "y \<le> 9999" "1 \<le> mo" "mo \<le> 12" "1 \<le> d" "d \<le> days_in_month y mo"
    "0 \<le> h" "h \<le> 23" "0 \<le> mi" "mi \<le> 59" "0 \<le> sec" "sec \<le> 59" "0 \<le> v" "v \<le> 999"
  shows "date_parse (show_year y @ ''-'' @ show_fixed 2 mo @ ''-'' @ show_fixed 2 d @ ''T'' @
      show_fixed 2 h @ '':'' @ show_fixed 2 mi @ '':'' @ show_fixed 2 sec @ ''.'' @
      show_fixed 3 v @ ''Z'')
    = Some ((day_from_year y + month_start (leap_year y) mo + d - 1) * 86400000
        + h * 3600000 + mi * 60000 + (sec * 1000 + v))"
proof -
  have d: "d \<le> 31" using days_in_month_le [of mo y] assms by linarith
  note two = read_fixed_two [of mo] read_fixed_two [of d] read_fixed_two [of h] read_fixed_two [of mi]
  show ?thesis
    unfolding date_parse_def
    using assms d two read_seconds_shown [of sec v]
    by (simp add: read_fixed_year read_zone_def del: show_fixed.simps read_fixed.simps)
qed

text \<open>The arithmetic of hours, minutes, seconds and milliseconds.\<close>

lemma clock_split:
  fixes r :: int
  assumes "0 \<le> r" "r < 86400000"
  shows "r div 3600000 * 3600000 + r div 60000 mod 60 * 60000 +
      (r div 1000 mod 60 * 1000 + r mod 1000) = r"
    and "0 \<le> r div 3600000" "r div 3600000 \<le> 23"
proof -
  define f where "f = r div 1000"
  define g where "g = f div 60"
  have q: "r div 60000 = g" "r div 3600000 = g div 60"
    using zdiv_zmult2_eq [of 60 r 1000] zdiv_zmult2_eq [of 60 r 60000] by (simp_all add: f_def g_def)
  have m: "1000 * f + r mod 1000 = r" "60 * g + f mod 60 = f" "60 * (g div 60) + g mod 60 = g"
    unfolding f_def g_def by (simp_all only: mult_div_mod_eq)
  have bnd: "0 \<le> r mod 1000" "r mod 1000 < 1000" "0 \<le> f mod 60" "f mod 60 < 60"
    "0 \<le> g mod 60" "g mod 60 < 60"
    by simp_all
  show "r div 3600000 * 3600000 + r div 60000 mod 60 * 60000 +
      (r div 1000 mod 60 * 1000 + r mod 1000) = r"
    unfolding q f_def [symmetric] using m by linarith
  show "0 \<le> r div 3600000" "r div 3600000 \<le> 23"
    unfolding q using m bnd assms by linarith+
qed

lemma date_parse_to_iso:
  assumes "to_iso t = Some v" "0 \<le> year_of_day (t div 86400000)" "year_of_day (t div 86400000) \<le> 9999"
  shows "date_parse v = Some t"
proof -
  define d r y doy mo where defs: "d = t div 86400000" "r = t mod 86400000" "y = year_of_day d"
    "doy = d - day_from_year y" "mo = month_of (leap_year y) doy"
  have y: "0 \<le> y" "y \<le> 9999" using assms by (simp_all add: defs)
  have doy: "0 \<le> doy" "doy < (if leap_year y then 366 else 365)"
    using year_of_day_bounds [of d] by (simp_all add: defs days_in_year_def split: if_splits)
  note mo = month_of_bounds [OF doy, folded defs(5)]
  have r: "0 \<le> r" "r < 86400000" by (simp_all add: defs)
  have day: "1 \<le> doy - month_start (leap_year y) mo + 1"
    "doy - month_start (leap_year y) mo + 1 \<le> days_in_month y mo"
    using mo by (simp_all add: days_in_month_def)
  have v: "v = show_year y @ ''-'' @ show_fixed 2 mo @ ''-'' @
      show_fixed 2 (doy - month_start (leap_year y) mo + 1) @ ''T'' @
      show_fixed 2 (r div 3600000) @ '':'' @ show_fixed 2 (r div 60000 mod 60) @ '':'' @
      show_fixed 2 (r div 1000 mod 60) @ ''.'' @ show_fixed 3 (r mod 1000) @ ''Z''"
    using assms(1) unfolding to_iso_def Let_def defs
    by (simp only: option.inject option.distinct simp_thms split: if_splits)
  have m: "0 \<le> r div 60000 mod 60" "r div 60000 mod 60 \<le> 59" "0 \<le> r div 1000 mod 60"
    "r div 1000 mod 60 \<le> 59" "0 \<le> r mod 1000" "r mod 1000 \<le> 999"
    using pos_mod_bound [of 60 "r div 60000"] pos_mod_bound [of 60 "r div 1000"]
      pos_mod_bound [of 1000 r] by simp_all
  have "date_parse v = Some ((day_from_year y + month_start (leap_year y) mo +
        (doy - month_start (leap_year y) mo + 1) - 1) * 86400000
        + r div 3600000 * 3600000 + r div 60000 mod 60 * 60000 +
        (r div 1000 mod 60 * 1000 + r mod 1000))"
    unfolding v
    by (rule date_parse_shown [OF y mo(1,2) day clock_split(2,3) [OF r] m])
  also have "\<dots> = Some (d * 86400000 + r)"
    using clock_split(1) [OF r] by (simp add: defs(4))
  also have "d * 86400000 + r = t" by (simp add: defs(1,2) mult.commute)
  finally show ?thesis .
qed

end
