(* ===== verification/SessionEvents.thy ===== *)
theory SessionEvents
  imports Timestamps
begin

text \<open>
  The event vocabulary of a session: \<open>shared/session-events.ts\<close> and the authority record of
  \<open>shared/hybrid-simulation-contracts.ts\<close>. An object schema is a record whose optional
  properties are options, an enumeration is a datatype, and \<open>null\<close> beside \<open>undefined\<close> is an
  option inside an option. Integers are \<open>int\<close>, finite numbers are \<open>rat\<close>. Names that the code
  compares with free strings (tools, error codes, stop reasons) stay strings. The bodies of
  a review result and of its coverage, which this part of the program stores and never looks
  into, are JSON values beside the two identities it compares.
\<close>

section \<open>JSON values\<close>

datatype json =
    JNull
  | JBool bool
  | JNumber rat
  | JString string
  | JArray "json list"
  | JObject "(string \<times> json) list"

section \<open>Sessions, tracks and policies\<close>

datatype session_status =
  Created | Running | Completed | Failed | Cancelled | Interrupted

definition is_terminal_status :: "session_status \<Rightarrow> bool" where
  "is_terminal_status s \<longleftrightarrow> s = Completed \<or> s = Failed \<or> s = Cancelled \<or> s = Interrupted"

datatype task_track = Repository_investigator_v1 | Change_review_v1

datatype completion_state = Complete | Incomplete

record citation_correction =
  corr_from :: string
  corr_to :: string

type_synonym tool_name = string

definition completion_obligation_tool_names :: "tool_name list" where
  "completion_obligation_tool_names =
     [''list_files'', ''search_text'', ''read_text_file'', ''inspect_git_changes'']"

definition maximum_agentic_policy_steps :: int where
  "maximum_agentic_policy_steps = 32"

definition maximum_verified_path_line_citations :: int where
  "maximum_verified_path_line_citations = 100"

record completion_obligations =
  ob_requiredSuccessfulTools :: "tool_name list"
  ob_minimumVerifiedPathLineCitations :: int

datatype routing_policy = Local_only_v1 | Hybrid_v0 | Hybrid_simulation_v1

datatype egress_consent = Consent_none | Session_cloud_synthesis_v1

datatype simulation_consent = Simulation_cloud_synthesis_v1

record policy_v1 =
  p1_inferenceRounds :: int
  p1_toolCalls :: int

record policy_v2 =
  p2_inferenceRounds :: int
  p2_toolCalls :: int
  p2_routingPolicy :: routing_policy
  p2_maxProviderChanges :: int
  p2_maxPaidAttempts :: int
  p2_maxPaidEpisodeMicrousd :: int
  p2_maxEpisodeDurationMs :: int
  p2_attemptTimeoutMs :: int
  p2_egressConsent :: egress_consent
  p2_simulationConsent :: "simulation_consent option"

datatype execution_policy = Policy_v1 policy_v1 | Policy_v2 policy_v2

fun policy_inference_rounds :: "execution_policy \<Rightarrow> int" where
  "policy_inference_rounds (Policy_v1 p) = p1_inferenceRounds p"
| "policy_inference_rounds (Policy_v2 p) = p2_inferenceRounds p"

fun policy_tool_calls :: "execution_policy \<Rightarrow> int" where
  "policy_tool_calls (Policy_v1 p) = p1_toolCalls p"
| "policy_tool_calls (Policy_v2 p) = p2_toolCalls p"

datatype obligation_outcome = Obl_accepted | Obl_retry | Obl_exhausted

datatype compilation_mode = Working | Finalization

datatype compilation_reason =
    Reason_session_start
  | Reason_tool_result_boundary
  | Reason_obligation_retry_boundary
  | Reason_no_progress_boundary
  | Reason_finalization_boundary
  | Reason_no_progress_finalization_boundary

datatype optimization_profile = Quality | Balanced | Economy | Fast

datatype session_event_type =
    T_session_created | T_session_started | T_user_message | T_synthesis_checkpoint_imported
  | T_cloud_egress_admission | T_routing_decision | T_route_assigned | T_assistant_started
  | T_assistant_delta | T_assistant_completed | T_tool_requested | T_tool_completed
  | T_context_compiled | T_attempt_started | T_attempt_finished | T_obligations_checked
  | T_usage_recorded | T_session_completed | T_session_failed | T_session_cancelled
  | T_session_interrupted

section \<open>The Hybrid simulation authority\<close>

datatype cost_scope = Scope_simulation | Scope_actual | Scope_legacy_unclassified

datatype runtime_cost_scope = Rt_simulation | Rt_actual

definition hybrid_simulation_max_spend_microusd :: int where
  "hybrid_simulation_max_spend_microusd = 250000"

record provider_identity =
  pid_providerId :: string
  pid_model :: string

text \<open>The properties with a literal type are constants of the schema and are left out.\<close>

record simulation_authority =
  ha_simulationAuthorityId :: string
  ha_fakeLocalProvider :: provider_identity
  ha_fakeCloudProvider :: provider_identity
  ha_riskPolicyId :: string
  ha_healthSnapshotId :: string
  ha_pricingSnapshotId :: string
  ha_credentialMetadataId :: string
  ha_campaignId :: string

section \<open>Checkpoint imports and cloud egress\<close>

record synthesis_import =
  im_importId :: string
  im_parentSessionId :: string
  im_parentLastSequence :: int
  im_commonInvestigationSha256 :: string
  im_commonCheckpointSha256 :: string
  im_checkpointId :: string
  im_packetSha256 :: string
  im_semanticMessagesSha256 :: string
  im_responseSchemaSha256 :: string
  im_provenanceSemanticSha256 :: string
  im_reviewSnapshotId :: string
  im_reviewEvidenceSetId :: string
  im_reviewProvenanceSha256 :: string
  im_completedRequiredToolNames :: "tool_name list"
  im_retainedLocalLeaseId :: string
  im_importedAt :: string

datatype egress_decision = Egress_pass | Egress_deny

record egress_admission =
  ea_admissionId :: string
  ea_decision :: egress_decision
  ea_reasonCodes :: "string list"
  ea_messagesSemanticSha256 :: string
  ea_provenanceSemanticSha256 :: string
  ea_checkpointId :: string
  ea_simulationAuthorityId :: string
  ea_evaluatedAt :: string

section \<open>Routing decisions\<close>

datatype routing_boundary = Session_start | Evidence_complete | Provider_failure

datatype routing_phase = Investigation | Synthesis

datatype routing_action = Assign_new_lease | Retain_lease

datatype routing_reason =
    Rr_local_policy | Rr_local_investigation | Rr_low_risk_local_review | Rr_cloud_admitted
  | Rr_disabled_provider | Rr_missing_credential | Rr_unhealthy_provider | Rr_pricing_denial
  | Rr_capability_mismatch | Rr_egress_denial | Rr_budget_denial | Rr_deadline_denial
  | Rr_cloud_failure | Rr_local_fallback

definition cloud_proposal_denial_reasons :: "routing_reason list" where
  "cloud_proposal_denial_reasons =
     [Rr_disabled_provider, Rr_missing_credential, Rr_unhealthy_provider, Rr_pricing_denial,
      Rr_capability_mismatch, Rr_egress_denial, Rr_budget_denial, Rr_deadline_denial]"

definition is_cloud_proposal_denial :: "routing_reason \<Rightarrow> bool" where
  "is_cloud_proposal_denial r = list_ex (\<lambda>c. c = r) cloud_proposal_denial_reasons"

datatype admission_status = Passed | Denied | Not_applicable

datatype admission_reason =
    Ar_capability_ok | Ar_credential_ok | Ar_health_ok | Ar_pricing_ok | Ar_egress_ok
  | Ar_deadline_ok | Ar_budget_ok | Ar_not_applicable | Ar_capability_mismatch
  | Ar_missing_credential | Ar_unhealthy_provider | Ar_pricing_denial | Ar_egress_denial
  | Ar_deadline_denial | Ar_budget_denial

record admission_check =
  ac_status :: admission_status
  ac_reasonCode :: admission_reason

record routing_admission =
  ad_capability :: admission_check
  ad_credential :: admission_check
  ad_health :: admission_check
  ad_pricing :: "admission_check option"
  ad_egress :: admission_check
  ad_deadline :: admission_check
  ad_budget :: admission_check

text \<open>Fact and signal values are a boolean, a number or (facts only) a string: the scalar
  constructors of \<open>json\<close>.\<close>

record risk_signal =
  rs_name :: string
  rs_value :: json
  rs_weight :: int
  rs_contribution :: int

record trigger_fact =
  tf_key :: string
  tf_value :: json

datatype locality = Local_provider | Cloud_provider

datatype accounting_kind = Local_zero_cost | Metered

record router_provider =
  rp_providerId :: string
  rp_model :: string
  rp_locality :: locality
  rp_enabled :: bool
  rp_capabilities :: "string list"
  rp_accountingKind :: accounting_kind
  rp_contextWindowTokens :: int
  rp_maxOutputTokens :: int
  rp_requestReserveTokens :: int

datatype health_status = Healthy | Unhealthy | Unavailable

record health_snapshot =
  hs_snapshotId :: string
  hs_providerId :: string
  hs_model :: string
  hs_checkedAt :: string
  hs_expiresAt :: string
  hs_status :: health_status
  hs_resultCode :: string

datatype pricing_status = Pricing_available | Pricing_unavailable

record pricing_snapshot =
  ps_snapshotId :: string
  ps_providerId :: string
  ps_model :: string
  ps_verifiedAt :: string
  ps_expiresAt :: string
  ps_status :: pricing_status
  ps_inputRate :: int
  ps_outputRate :: int
  ps_cacheReadRate :: int
  ps_pricingSourceSha256 :: string

record router_deadline =
  dl_deadlineAt :: string
  dl_remainingMs :: int
  dl_attemptTimeoutMs :: int
  dl_requiredRemainingMs :: int
  dl_sufficient :: bool

record router_input =
  ri_boundary :: routing_boundary
  ri_asOf :: string
  ri_providers :: "router_provider list"
  ri_targetProviderId :: string
  ri_targetModel :: string
  ri_requiredCapabilities :: "string list"
  ri_deadline :: router_deadline
  ri_healthSnapshots :: "health_snapshot list"
  ri_pricingSnapshot :: "pricing_snapshot option"

record billing =
  bl_billableInputTokens :: int
  bl_billableCacheReadTokens :: int
  bl_requestedMaxOutputTokens :: int
  bl_inputRate :: int
  bl_outputRate :: int
  bl_cacheReadRate :: "int option"
  bl_providerFeeCeilingMicrousd :: int
  bl_projectedCostMicrousd :: int
  bl_remainingEpisodeMicrousd :: int
  bl_remainingCampaignMicrousd :: int

record routing_decision =
  rd_decisionId :: string
  rd_costScope :: "runtime_cost_scope option"
  rd_cloudEgressAdmissionId :: "string option"
  rd_boundary :: routing_boundary
  rd_phase :: routing_phase
  rd_action :: routing_action
  rd_reasonCode :: routing_reason
  rd_candidateProviderIds :: "string list"
  rd_selectedProviderId :: string
  rd_selectedModel :: string
  rd_proposedProviderId :: "string option"
  rd_proposedModel :: "string option"
  rd_priorLeaseId :: "string option"
  rd_selectedLeaseId :: string
  rd_riskPolicyId :: "string option"
  rd_riskScore :: "int option"
  rd_riskSignals :: "risk_signal list"
  rd_riskIncompleteReason :: "string option"
  rd_triggerFacts :: "trigger_fact list"
  rd_admission :: routing_admission
  rd_routerInputSnapshot :: "router_input option"
  rd_healthSnapshotId :: "string option"
  rd_pricingSnapshotId :: "string option"
  rd_campaignId :: "string option"
  rd_budgetReservationId :: "string option"
  rd_credentialMetadataId :: "string option"
  rd_billing :: "billing option"
  rd_checkpointId :: "string option"
  rd_packetSha256 :: "string option"
  rd_messagesSha256 :: "string option"
  rd_provenanceSemanticSha256 :: "string option"
  rd_proposalCheckpointId :: "string option"
  rd_proposalPacketSha256 :: "string option"
  rd_proposalMessagesSha256 :: "string option"

section \<open>Inference attempts\<close>

datatype attempt_outcome =
  Succeeded | Provider_error | Protocol_error | Attempt_cancelled | Timeout | Attempt_interrupted

datatype request_disposition = Not_sent | Sent | Unknown

datatype structured_output_contract = Change_review_result_v1

record attempt_start =
  at_attemptId :: string
  at_round :: int
  at_checkpointId :: string
  at_messageId :: string
  at_decisionId :: string
  at_leaseId :: string
  at_providerId :: string
  at_requestedModel :: string
  at_phase :: routing_phase
  at_requestedMaxOutputTokens :: int
  at_allowTools :: bool
  at_allowedToolNames :: "tool_name list option"
  at_requireToolCall :: bool
  at_structuredOutputContract :: "structured_output_contract option"
  at_structuredOutputSchemaSha256 :: "string option"
  at_budgetReservationId :: "string option"
  at_costScope :: "runtime_cost_scope option"
  at_cloudEgressAdmissionId :: "string option"

datatype cost_provenance =
  Local_zero_cost_policy | Provider_reported | Host_pricing_snapshot | Reserved_unknown

record attempt_usage =
  au_inputTokens :: int
  au_outputTokens :: int
  au_reasoningTokens :: int
  au_cacheReadTokens :: "int option"
  au_reported :: bool

record attempt_cost =
  co_amountMicrousd :: int
  co_provenance :: cost_provenance
  co_reservationId :: "string option"
  co_costScope :: "runtime_cost_scope option"

record attempt_finish =
  fin_attemptId :: string
  fin_checkpointId :: string
  fin_outcome :: attempt_outcome
  fin_requestDisposition :: request_disposition
  fin_finishReason :: "string option option"
  fin_servedModel :: "string option"
  fin_usage :: attempt_usage
  fin_cost :: attempt_cost
  fin_latencyMs :: rat
  fin_ttftMs :: "rat option"
  fin_errorCode :: "string option"
  fin_responseBodySha256 :: "string option"
  fin_reviewResultSha256 :: "string option"

section \<open>Messages, tools, context and completion\<close>

record created_payload =
  cr_title :: string
  cr_objective :: string
  cr_workspaceRoot :: string
  cr_profile :: optimization_profile
  cr_taskTrack :: "task_track option"
  cr_completionObligations :: "completion_obligations option"
  cr_executionPolicy :: "execution_policy option"
  cr_hybridSimulation :: "simulation_authority option"

record started_payload =
  sp_startedAt :: "string option"
  sp_deadlineAt :: "string option"

record user_message_payload =
  um_messageId :: string
  um_content :: string

record route_payload =
  ro_providerId :: string
  ro_model :: string
  ro_reason :: string
  ro_leaseId :: "string option"
  ro_decisionId :: "string option"
  ro_phase :: "routing_phase option"

record assistant_started_payload =
  as_messageId :: string
  as_providerId :: string
  as_model :: string
  as_decisionId :: "string option"
  as_leaseId :: "string option"
  as_checkpointId :: "string option"
  as_attemptId :: "string option"

record assistant_delta_payload =
  de_messageId :: string
  de_delta :: string

datatype review_parse_status =
    Parse_accepted | Parse_invalid_json | Parse_schema_invalid | Parse_semantic_invalid
  | Parse_snapshot_stale | Parse_not_received

record review_payload =
  rv_snapshotId :: string
  rv_evidenceSetId :: string
  rv_body :: json

record assistant_completed_payload =
  ac_messageId :: string
  ac_content :: "string option"
  ac_stopReason :: "string option option"
  ac_completionState :: "completion_state option"
  ac_citationCorrections :: "citation_correction list option"
  ac_reviewParseStatus :: "review_parse_status option"
  ac_reviewResult :: "review_payload option"
  ac_reviewCoverage :: "review_payload option"
  ac_attemptId :: "string option"

record tool_requested_payload =
  tq_toolCallId :: string
  tq_name :: tool_name
  tq_arguments :: json
  tq_messageId :: "string option"

record tool_completed_payload =
  td_toolCallId :: string
  td_name :: tool_name
  td_content :: string
  td_isError :: bool
  td_durationMs :: "rat option"

datatype compiler_version = Context_compiler_v1 | Review_context_compiler_v1

record context_compilation =
  cc_checkpointId :: string
  cc_compilerVersion :: compiler_version
  cc_reason :: compilation_reason
  cc_mode :: compilation_mode
  cc_providerId :: string
  cc_model :: string
  cc_maxTokens :: int
  cc_estimatedTokens :: int
  cc_reservedInputTokens :: int
  cc_effectiveInputTokenBudget :: int
  cc_sourceMessageCount :: int
  cc_messageCount :: int
  cc_evidenceCount :: int
  cc_deduplicatedEvidenceCount :: int
  cc_omittedEvidenceCount :: int
  cc_packetSha256 :: string
  cc_messagesSha256 :: string
  cc_safetyMargin :: rat
  cc_decisionId :: "string option"
  cc_leaseId :: "string option"
  cc_messageId :: "string option"
  cc_attemptId :: "string option"
  cc_reviewSnapshotId :: "string option"
  cc_reviewEvidenceSetId :: "string option"
  cc_reviewProvenanceSha256 :: "string option"
  cc_structuredOutputContract :: "structured_output_contract option"
  cc_structuredOutputSchemaSha256 :: "string option"

record obligation_check =
  ck_checkId :: string
  ck_messageId :: string
  ck_round :: int
  ck_remainingRounds :: int
  ck_successfulRequiredTools :: "tool_name list"
  ck_missingRequiredTools :: "tool_name list"
  ck_verifiedPathLineCitations :: "string list"
  ck_unresolvedCitationCount :: int
  ck_outcome :: obligation_outcome

datatype usage_cost_provenance = Uc_provider_reported | Uc_local_zero_cost_policy | Uc_unreported

record usage_payload =
  ur_inputTokens :: int
  ur_outputTokens :: int
  ur_reasoningTokens :: int
  ur_reported :: "bool option"
  ur_costUsd :: rat
  ur_costProvenance :: "usage_cost_provenance option"
  ur_servedModel :: "string option"
  ur_latencyMs :: "rat option"
  ur_ttftMs :: "rat option"

section \<open>Events\<close>

datatype session_event_data =
    SessionCreated created_payload
  | SessionStarted started_payload
  | UserMessage user_message_payload
  | SynthesisCheckpointImported synthesis_import
  | CloudEgressAdmissionRecorded egress_admission
  | RoutingDecisionRecorded routing_decision
  | RouteAssigned route_payload
  | AssistantMessageStarted assistant_started_payload
  | AssistantMessageDelta assistant_delta_payload
  | AssistantMessageCompleted assistant_completed_payload
  | ToolCallRequested tool_requested_payload
  | ToolCallCompleted tool_completed_payload
  | ContextCompiled context_compilation
  | InferenceAttemptStarted attempt_start
  | InferenceAttemptFinished attempt_finish
  | CompletionObligationsChecked obligation_check
  | UsageRecorded usage_payload
  | SessionCompleted "string option"
  | SessionFailed string
  | SessionCancelled "string option"
  | SessionInterrupted string

fun event_data_type :: "session_event_data \<Rightarrow> session_event_type" where
  "event_data_type (SessionCreated _) = T_session_created"
| "event_data_type (SessionStarted _) = T_session_started"
| "event_data_type (UserMessage _) = T_user_message"
| "event_data_type (SynthesisCheckpointImported _) = T_synthesis_checkpoint_imported"
| "event_data_type (CloudEgressAdmissionRecorded _) = T_cloud_egress_admission"
| "event_data_type (RoutingDecisionRecorded _) = T_routing_decision"
| "event_data_type (RouteAssigned _) = T_route_assigned"
| "event_data_type (AssistantMessageStarted _) = T_assistant_started"
| "event_data_type (AssistantMessageDelta _) = T_assistant_delta"
| "event_data_type (AssistantMessageCompleted _) = T_assistant_completed"
| "event_data_type (ToolCallRequested _) = T_tool_requested"
| "event_data_type (ToolCallCompleted _) = T_tool_completed"
| "event_data_type (ContextCompiled _) = T_context_compiled"
| "event_data_type (InferenceAttemptStarted _) = T_attempt_started"
| "event_data_type (InferenceAttemptFinished _) = T_attempt_finished"
| "event_data_type (CompletionObligationsChecked _) = T_obligations_checked"
| "event_data_type (UsageRecorded _) = T_usage_recorded"
| "event_data_type (SessionCompleted _) = T_session_completed"
| "event_data_type (SessionFailed _) = T_session_failed"
| "event_data_type (SessionCancelled _) = T_session_cancelled"
| "event_data_type (SessionInterrupted _) = T_session_interrupted"

record stored_event =
  ev_id :: string
  ev_sessionId :: string
  ev_sequence :: int
  ev_createdAt :: string
  ev_data :: session_event_data

definition event_type :: "stored_event \<Rightarrow> session_event_type" where
  "event_type e = event_data_type (ev_data e)"

lemma is_cloud_proposal_denial_not_admitted [simp]:
  "\<not> is_cloud_proposal_denial Rr_cloud_admitted"
  by (simp add: is_cloud_proposal_denial_def cloud_proposal_denial_reasons_def)

end
