(* ===== verification/SessionState.thy ===== *)
theory SessionState
  imports SessionEvents
begin

text \<open>
  The replayed state of a session and the helper functions of \<open>shared/session-reducer.ts\<close>
  that the event handlers share: lookups, the tool progress of a session, the evidence
  tests, the binding of an imported checkpoint, the scoped cost totals. The functions the
  reducer calls in other modules (the schemas of \<open>inspect_git_changes\<close>, the parser of
  repository observations, the citation normaliser) and \<open>JSON.parse\<close> are the parameter
  \<open>replay_env\<close>; every result about the reducer holds for all of them.
\<close>

section \<open>State\<close>

datatype tool_call_status = Tool_requested | Tool_completed | Tool_failed

record tool_call =
  tc_id :: string
  tc_name :: tool_name
  tc_arguments :: json
  tc_status :: tool_call_status
  tc_content :: "string option"
  tc_durationMs :: "rat option"

datatype message_role = User | Assistant | Tool

datatype message_status = Msg_streaming | Msg_completed | Msg_failed

record message =
  msg_id :: string
  msg_role :: message_role
  msg_content :: string
  msg_status :: message_status
  msg_providerId :: "string option"
  msg_model :: "string option"
  msg_stopReason :: "string option option"
  msg_completionState :: "completion_state option"
  msg_toolCallId :: "string option"
  msg_toolName :: "tool_name option"
  msg_toolCalls :: "tool_call list option"
  msg_citationCorrections :: "citation_correction list option"
  msg_reviewParseStatus :: "review_parse_status option"
  msg_reviewResult :: "review_payload option"
  msg_reviewCoverage :: "review_payload option"
  msg_decisionId :: "string option"
  msg_leaseId :: "string option"
  msg_checkpointId :: "string option"
  msg_attemptId :: "string option"

text \<open>The records the reducer keeps are the event's payload with its sequence number and
  its time.\<close>

record 'p recorded_entry =
  rec_payload :: 'p
  rec_sequence :: int
  rec_createdAt :: string

record attempt_record =
  ar_start :: "attempt_start recorded_entry"
  ar_finished :: "attempt_finish recorded_entry option"

record session_usage =
  us_inputTokens :: int
  us_outputTokens :: int
  us_reasoningTokens :: int
  us_costUsd :: rat
  us_latencyMs :: rat
  us_ttftMs :: "rat option"

record scoped_cost_amounts =
  sc_reservedMicrousd :: int
  sc_settledMicrousd :: int

record cost_scope_projection =
  cs_actual :: scoped_cost_amounts
  cs_simulation :: scoped_cost_amounts
  cs_legacyUnclassified :: scoped_cost_amounts
  cs_legacyPresent :: bool

record session_state =
  st_id :: string
  st_title :: string
  st_objective :: string
  st_workspaceRoot :: string
  st_profile :: optimization_profile
  st_taskTrack :: "task_track option"
  st_status :: session_status
  st_createdAt :: string
  st_updatedAt :: string
  st_lastSequence :: int
  st_messages :: "message list"
  st_routes :: "route_payload recorded_entry list"
  st_contextCompilations :: "context_compilation recorded_entry list"
  st_cloudEgressAdmissions :: "egress_admission recorded_entry list"
  st_routingDecisions :: "routing_decision recorded_entry list"
  st_inferenceAttempts :: "attempt_record list"
  st_synthesisCheckpointImport :: "synthesis_import recorded_entry option"
  st_executionPolicy :: "execution_policy option"
  st_hybridSimulation :: "simulation_authority option"
  st_completionObligations :: completion_obligations
  st_completionChecks :: "obligation_check recorded_entry list"
  st_usage :: session_usage
  st_costScopes :: cost_scope_projection
  st_result :: "string option"
  st_error :: "string option"
  st_lastV2EventType :: "session_event_type option"
  st_startedAt :: "string option"
  st_deadlineAt :: "string option"

text \<open>\<open>\<dots>payload, sequence: event.sequence, createdAt: event.createdAt\<close>.\<close>

definition recorded :: "stored_event \<Rightarrow> 'p \<Rightarrow> 'p recorded_entry" where
  "recorded e p = \<lparr>rec_payload = p, rec_sequence = ev_sequence e, rec_createdAt = ev_createdAt e\<rparr>"

lemma recorded_simps [simp]:
  "rec_payload (recorded e p) = p"
  "rec_sequence (recorded e p) = ev_sequence e"
  "rec_createdAt (recorded e p) = ev_createdAt e"
  by (simp_all add: recorded_def)

section \<open>Errors\<close>

datatype shared_error =
    Unknown_message | Duplicate_message | Unknown_attempt | Multiple_open_attempts
  | Missing_context_checkpoint | Cost_out_of_range | Invalid_time

datatype grammar_error =
    First_event_not_created | First_sequence_not_one | Wrong_session | Wrong_sequence
  | Time_decreases | Terminal_session | Accepted_check_not_completed | Exhausted_check_not_failed
  | Not_running | Open_attempt_must_finish | Admission_needs_decision | Import_needs_admission
  | Decision_needs_successor | Route_needs_assistant | Assistant_needs_context
  | Tool_request_needs_completion | Cancelled_attempt_needs_cancel
  | Interrupted_attempt_needs_interrupt | Attempt_needs_tool_request | Context_needs_attempt
  | Completion_needs_attempt_finish | Empty_stream

datatype lifecycle_error =
    Already_created | Already_started | Missing_deadline | Started_at_mismatch
  | Deadline_mismatch | V1_deadline_fields | Terminal_open_attempt | Terminal_checkpoint_mismatch
  | Terminal_streaming | Terminal_pending_tool | Final_attempt_not_successful
  | Review_not_accepted | Result_mismatch | Missing_accepted_check | Checked_result_mismatch
  | Import_not_simulation | Import_not_first | Import_identity | Import_tools
  | Admission_not_simulation | Admission_time | Admission_authority | Admission_no_evidence
  | Admission_duplicate | Admission_after_decision

datatype routing_error =
    Routing_not_v2 | Simulation_scope_required | Simulation_identity | Start_with_admission
  | Low_risk_with_admission | Admission_mismatch | Admission_consequence | Fallback_admission
  | Simulation_fields_forbidden | Duplicate_decision | Duplicate_boundary | Duplicate_reservation
  | Cloud_without_consent | Cloud_over_cap | Denial_without_policy | Denial_egress_without_consent
  | Routing_while_streaming | Routing_while_open | Routing_while_tool_pending | Start_not_first
  | Start_not_new_lease | No_active_lease | Prior_lease_mismatch | Retained_route_mismatch
  | No_routing_evidence | Import_not_bound | Trigger_facts_mismatch | Not_failed_cloud_attempt
  | Not_local_fallback

datatype message_error =
    Route_links_missing | Route_decision_mismatch | Duplicate_lease | Provider_change_limit
  | Assistant_links_missing | Assistant_while_open | Duplicate_attempt | Assistant_lease
  | Assistant_decision | Assistant_not_active_decision | Assistant_checkpoint
  | Assistant_decision_checkpoint | Assistant_round_order | Assistant_round_decision
  | Assistant_route | Assistant_checkpoint_pending | Inference_round_limit
  | Second_streaming_message | Assistant_while_tool_pending | Not_assistant | Not_streaming
  | Delta_without_attempt | Completion_without_checkpoint | Completion_attempt_missing
  | Completion_attempt_mismatch | Parse_status_mismatch | Parse_status_track
  | Review_context_mismatch | Review_identity_mismatch

datatype tool_error =
    Tool_no_assistant | Tool_not_assistant | Tool_not_latest | Tool_without_attempt
  | Tool_not_allowed | Tool_without_tool_stop | Tool_second_call | Tool_after_failure
  | Tool_after_non_tool_stop | Tool_after_check | Tool_after_execution | Tool_not_required_one
  | Duplicate_tool_call | Tool_call_limit | Tool_unknown | Tool_ambiguous
  | Tool_result_not_latest | Tool_result_message_open | Tool_result_stop_reason
  | Tool_result_name | Tool_result_twice

datatype context_error =
    Context_checkpoint_id | Context_route | Context_assistant | Context_links_missing
  | Context_links_mismatch | Context_unknown_decision | Context_admission_packet
  | Context_not_single | Context_reason_mode | Context_reason_start | Context_review_track

datatype attempt_error =
    Attempt_not_v2 | Attempt_review_track | Attempt_second_open | Attempt_duplicate
  | Attempt_checkpoint | Attempt_assistant | Attempt_route | Attempt_decision
  | Attempt_scope | Attempt_simulation_scope | Attempt_output_allowance | Attempt_round
  | Attempt_deadline | Attempt_paid_limit | Attempt_reservation
  | Finish_not_v2 | Finish_twice | Finish_not_open | Finish_checkpoint | Finish_model
  | Finish_reservation | Finish_scope | Finish_simulation_scope | Finish_unreserved_cost
  | Finish_reserved_zero_cost | Finish_reserved_unknown | Finish_message | Finish_message_streaming
  | Finish_reason | Finish_tool_required | Finish_tool_forbidden

datatype completion_error =
    Check_without_attempt | Check_no_obligations | Check_id | Check_duplicate
  | Check_message_checked | Check_round_order | Check_remaining_rounds | Check_message
  | Check_not_latest | Check_not_final | Check_round | Check_round_budget | Check_not_stop
  | Check_tool_progress | Check_citations | Check_outcome | Check_completion_state
  | Usage_not_v1 | Usage_streaming

datatype reducer_error =
    Shared shared_error
  | Grammar grammar_error
  | Lifecycle lifecycle_error
  | Routing routing_error
  | Message message_error
  | ToolErr tool_error
  | Context context_error
  | Attempt attempt_error
  | Completion completion_error

section \<open>Code outside the reducer\<close>

record citation_integrity =
  ci_content :: string
  ci_verifiedCitations :: "string list"
  ci_unresolved :: "string list"

record replay_env =
  env_json_parse :: "string \<Rightarrow> json option"
  env_inspect_request_ok :: "json \<Rightarrow> bool"
  env_inspect_result_ok :: "json \<Rightarrow> bool"
  env_repository_observation_ok :: "tool_name \<Rightarrow> json \<Rightarrow> string option \<Rightarrow> bool"
  env_normalize_citations :: "string \<Rightarrow> message list \<Rightarrow> citation_integrity"

end
