(* ===== verification/SessionQueries.thy ===== *)
theory SessionQueries
  imports SessionState
begin

text \<open>
  The helper functions of \<open>shared/session-reducer.ts\<close>: lookups, the progress through the
  required tools, the evidence tests, the binding of an imported checkpoint, the scoped
  totals; and what each of them leaves alone or guarantees.
\<close>

section \<open>Scoped costs\<close>

definition no_scoped_cost :: scoped_cost_amounts where
  "no_scoped_cost = \<lparr>sc_reservedMicrousd = 0, sc_settledMicrousd = 0\<rparr>"

definition empty_cost_scopes :: cost_scope_projection where
  "empty_cost_scopes =
     \<lparr>cs_actual = no_scoped_cost, cs_simulation = no_scoped_cost,
      cs_legacyUnclassified = no_scoped_cost, cs_legacyPresent = False\<rparr>"

fun effective_cost_scope :: "runtime_cost_scope option \<Rightarrow> cost_scope" where
  "effective_cost_scope None = Scope_legacy_unclassified"
| "effective_cost_scope (Some Rt_simulation) = Scope_simulation"
| "effective_cost_scope (Some Rt_actual) = Scope_actual"

datatype cost_kind = Reserved_cost | Settled_cost

fun scoped_amounts :: "cost_scope_projection \<Rightarrow> cost_scope \<Rightarrow> scoped_cost_amounts" where
  "scoped_amounts p Scope_actual = cs_actual p"
| "scoped_amounts p Scope_simulation = cs_simulation p"
| "scoped_amounts p Scope_legacy_unclassified = cs_legacyUnclassified p"

fun cost_of_kind :: "cost_kind \<Rightarrow> scoped_cost_amounts \<Rightarrow> int" where
  "cost_of_kind Reserved_cost a = sc_reservedMicrousd a"
| "cost_of_kind Settled_cost a = sc_settledMicrousd a"

fun set_cost_of_kind :: "cost_kind \<Rightarrow> int \<Rightarrow> scoped_cost_amounts \<Rightarrow> scoped_cost_amounts" where
  "set_cost_of_kind Reserved_cost n a = a\<lparr>sc_reservedMicrousd := n\<rparr>"
| "set_cost_of_kind Settled_cost n a = a\<lparr>sc_settledMicrousd := n\<rparr>"

definition add_scoped_cost ::
  "cost_scope_projection \<Rightarrow> cost_scope \<Rightarrow> cost_kind \<Rightarrow> int \<Rightarrow> reducer_error + cost_scope_projection" where
  "add_scoped_cost p scope kind amount =
     (let next = cost_of_kind kind (scoped_amounts p scope) + amount
      in if \<not> is_safe_integer next \<or> next < 0 then Inl (Shared Cost_out_of_range)
         else Inr (case scope of
             Scope_actual \<Rightarrow> p\<lparr>cs_actual := set_cost_of_kind kind next (cs_actual p)\<rparr>
           | Scope_simulation \<Rightarrow> p\<lparr>cs_simulation := set_cost_of_kind kind next (cs_simulation p)\<rparr>
           | Scope_legacy_unclassified \<Rightarrow>
               p\<lparr>cs_legacyUnclassified := set_cost_of_kind kind next (cs_legacyUnclassified p),
                 cs_legacyPresent := True\<rparr>))"

section \<open>Obligations and tools\<close>

definition empty_completion_obligations :: completion_obligations where
  "empty_completion_obligations =
     \<lparr>ob_requiredSuccessfulTools = [], ob_minimumVerifiedPathLineCitations = 0\<rparr>"

definition has_completion_obligations :: "completion_obligations \<Rightarrow> bool" where
  "has_completion_obligations ob \<longleftrightarrow>
     length (ob_requiredSuccessfulTools ob) > 0 \<or> ob_minimumVerifiedPathLineCitations ob > 0"

text \<open>\<open>JSON.parse\<close> gives an object its distinct keys. The envelope of an inspection result
  is the result with one more property, \<open>ok: true\<close>.\<close>

definition inspect_envelope_ok :: "replay_env \<Rightarrow> string \<Rightarrow> bool" where
  "inspect_envelope_ok env content =
     (case env_json_parse env content of
        Some (JObject kvs) \<Rightarrow>
          map_of kvs ''ok'' = Some (JBool True) \<and>
          sort (map fst kvs) = [''evidenceMap'', ''ok'', ''schemaVersion'', ''snapshot''] \<and>
          env_inspect_result_ok env (JObject (filter (\<lambda>kv. fst kv \<noteq> ''ok'') kvs))
      | _ \<Rightarrow> False)"

definition has_successful_tool_result :: "replay_env \<Rightarrow> tool_call \<Rightarrow> bool" where
  "has_successful_tool_result env tc =
     (if tc_name tc = ''inspect_git_changes'' \<and> tc_status tc = Tool_completed \<and>
         tc_content tc \<noteq> None \<and> env_inspect_request_ok env (tc_arguments tc)
      then holds (tc_content tc) (inspect_envelope_ok env)
      else tc_status tc = Tool_completed \<and>
        env_repository_observation_ok env (tc_name tc) (tc_arguments tc) (tc_content tc))"

fun advance_required :: "replay_env \<Rightarrow> tool_name list \<Rightarrow> nat \<Rightarrow> tool_call list \<Rightarrow> nat" where
  "advance_required env req i [] = i"
| "advance_required env req i (tc # tcs) =
     advance_required env req
       (if i < length req \<and> has_successful_tool_result env tc \<and> tc_name tc = req ! i
        then Suc i else i) tcs"

definition message_tool_calls :: "message \<Rightarrow> tool_call list" where
  "message_tool_calls m = coalesce (msg_toolCalls m) []"

fun required_index :: "replay_env \<Rightarrow> tool_name list \<Rightarrow> nat \<Rightarrow> message list \<Rightarrow> nat" where
  "required_index env req i [] = i"
| "required_index env req i (m # ms) =
     required_index env req
       (if msg_role m \<noteq> Assistant \<or> msg_status m \<noteq> Msg_completed then i
        else advance_required env req i (message_tool_calls m)) ms"

definition completed_required_tool_prefix ::
  "replay_env \<Rightarrow> message list \<Rightarrow> tool_name list \<Rightarrow> tool_name list" where
  "completed_required_tool_prefix env ms req = take (required_index env req 0 ms) req"

section \<open>Lookups\<close>

definition find_message :: "session_state \<Rightarrow> string \<Rightarrow> reducer_error + message" where
  "find_message s mid =
     (case find (\<lambda>m. msg_id m = mid) (st_messages s) of
        None \<Rightarrow> Inl (Shared Unknown_message) | Some m \<Rightarrow> Inr m)"

definition assert_unique_message_id :: "session_state \<Rightarrow> string \<Rightarrow> reducer_error option" where
  "assert_unique_message_id s mid =
     throw_if (list_ex (\<lambda>m. msg_id m = mid) (st_messages s)) (Shared Duplicate_message)"

definition all_tool_calls :: "session_state \<Rightarrow> tool_call list" where
  "all_tool_calls s = concat (map message_tool_calls (st_messages s))"

definition v2_policy :: "session_state \<Rightarrow> policy_v2 option" where
  "v2_policy s = (case st_executionPolicy s of Some (Policy_v2 p) \<Rightarrow> Some p | _ \<Rightarrow> None)"

abbreviation is_v2 :: "session_state \<Rightarrow> bool" where
  "is_v2 s \<equiv> v2_policy s \<noteq> None"

definition is_assistant :: "message \<Rightarrow> bool" where
  "is_assistant m \<longleftrightarrow> msg_role m = Assistant"

definition assistants :: "session_state \<Rightarrow> message list" where
  "assistants s = filter is_assistant (st_messages s)"

definition latest_assistant :: "session_state \<Rightarrow> message option" where
  "latest_assistant s = find_last is_assistant (st_messages s)"

definition streaming :: "message \<Rightarrow> bool" where
  "streaming m \<longleftrightarrow> msg_status m = Msg_streaming"

definition pending_tool :: "tool_call \<Rightarrow> bool" where
  "pending_tool tc \<longleftrightarrow> tc_status tc = Tool_requested"

definition active_route :: "session_state \<Rightarrow> route_payload option" where
  "active_route s = map_option rec_payload (at_last (st_routes s))"

definition find_decision :: "session_state \<Rightarrow> string \<Rightarrow> routing_decision option" where
  "find_decision s did = find (\<lambda>d. rd_decisionId d = did) (map rec_payload (st_routingDecisions s))"

abbreviation attempt_of :: "attempt_record \<Rightarrow> attempt_start" where
  "attempt_of a \<equiv> rec_payload (ar_start a)"

abbreviation finish_of :: "attempt_record \<Rightarrow> attempt_finish option" where
  "finish_of a \<equiv> map_option rec_payload (ar_finished a)"

definition attempt_is_open :: "attempt_record \<Rightarrow> bool" where
  "attempt_is_open a \<longleftrightarrow> ar_finished a = None"

definition attempt_succeeded :: "attempt_record \<Rightarrow> bool" where
  "attempt_succeeded a \<longleftrightarrow> holds (finish_of a) (\<lambda>f. fin_outcome f = Succeeded)"

section \<open>Evidence\<close>

definition successful_investigation_count :: "session_state \<Rightarrow> nat" where
  "successful_investigation_count s =
     length (filter (\<lambda>a. at_phase (attempt_of a) = Investigation \<and> attempt_succeeded a)
       (st_inferenceAttempts s))"

definition has_complete_routing_evidence :: "replay_env \<Rightarrow> session_state \<Rightarrow> bool" where
  "has_complete_routing_evidence env s =
     (if successful_investigation_count s < 1 then False
      else let required = ob_requiredSuccessfulTools (st_completionObligations s)
        in if length required > 0
           then length (completed_required_tool_prefix env (st_messages s) required) = length required
           else list_ex (has_successful_tool_result env) (all_tool_calls s))"

definition imported_checkpoint_matches_admission :: "session_state \<Rightarrow> egress_admission \<Rightarrow> bool" where
  "imported_checkpoint_matches_admission s admission =
     (case st_synthesisCheckpointImport s of
        None \<Rightarrow> False
      | Some imported \<Rightarrow>
          st_lastV2EventType s = Some T_synthesis_checkpoint_imported \<and>
          rec_sequence imported = st_lastSequence s - 1 \<and>
          st_inferenceAttempts s = [] \<and> st_contextCompilations s = [] \<and>
          st_routingDecisions s = [] \<and>
          holds (active_route s) (\<lambda>r.
            ro_leaseId r = Some (im_retainedLocalLeaseId (rec_payload imported)) \<and>
            ro_phase r = Some Investigation) \<and>
          ea_checkpointId admission = im_checkpointId (rec_payload imported) \<and>
          ea_messagesSemanticSha256 admission = im_semanticMessagesSha256 (rec_payload imported) \<and>
          ea_provenanceSemanticSha256 admission = im_provenanceSemanticSha256 (rec_payload imported))"

definition budget_denial_fact :: "trigger_fact \<Rightarrow> bool" where
  "budget_denial_fact f \<longleftrightarrow> tf_key f = ''budget_denial_reason''"

definition imported_trigger_facts :: "synthesis_import \<Rightarrow> trigger_fact list" where
  "imported_trigger_facts imported =
     [\<lparr>tf_key = ''router_evidence_import_id'', tf_value = JString (im_importId imported)\<rparr>,
      \<lparr>tf_key = ''router_evidence_ready'', tf_value = JBool True\<rparr>,
      \<lparr>tf_key = ''router_evidence_source'', tf_value = JString ''pr6r_imported_checkpoint_v1''\<rparr>,
      \<lparr>tf_key = ''router_successful_investigation_attempt_count'', tf_value = JNumber 0\<rparr>]"

definition packet_checkpoint_id :: "routing_decision \<Rightarrow> string option" where
  "packet_checkpoint_id d = coalesce_opt (rd_checkpointId d) (rd_proposalCheckpointId d)"

definition packet_sha256 :: "routing_decision \<Rightarrow> string option" where
  "packet_sha256 d = coalesce_opt (rd_packetSha256 d) (rd_proposalPacketSha256 d)"

definition packet_messages_sha256 :: "routing_decision \<Rightarrow> string option" where
  "packet_messages_sha256 d = coalesce_opt (rd_messagesSha256 d) (rd_proposalMessagesSha256 d)"

definition imported_checkpoint_matches_decision :: "session_state \<Rightarrow> routing_decision \<Rightarrow> bool" where
  "imported_checkpoint_matches_decision s d =
     (case (st_synthesisCheckpointImport s, at_last (st_cloudEgressAdmissions s)) of
        (Some imp, Some adm) \<Rightarrow>
          let imported = rec_payload imp; admission = rec_payload adm in
          rec_sequence imp = st_lastSequence s - 2 \<and>
          rec_sequence adm = st_lastSequence s - 1 \<and>
          st_lastV2EventType s = Some T_cloud_egress_admission \<and>
          st_inferenceAttempts s = [] \<and> st_contextCompilations s = [] \<and>
          st_routingDecisions s = [] \<and>
          rd_boundary d = Evidence_complete \<and>
          rd_routerInputSnapshot d \<noteq> None \<and>
          rd_priorLeaseId d = Some (im_retainedLocalLeaseId imported) \<and>
          packet_checkpoint_id d = Some (im_checkpointId imported) \<and>
          packet_sha256 d = Some (im_packetSha256 imported) \<and>
          packet_messages_sha256 d = Some (im_semanticMessagesSha256 imported) \<and>
          rd_provenanceSemanticSha256 d = Some (im_provenanceSemanticSha256 imported) \<and>
          ea_checkpointId admission = im_checkpointId imported \<and>
          ea_messagesSemanticSha256 admission = im_semanticMessagesSha256 imported \<and>
          ea_provenanceSemanticSha256 admission = im_provenanceSemanticSha256 imported \<and>
          filter (\<lambda>f. \<not> budget_denial_fact f) (rd_triggerFacts d) = imported_trigger_facts imported \<and>
          (rd_reasonCode d = Rr_budget_denial) = list_ex budget_denial_fact (rd_triggerFacts d)
      | _ \<Rightarrow> False)"

section \<open>Attempts\<close>

definition open_inference_attempts :: "session_state \<Rightarrow> attempt_record list" where
  "open_inference_attempts s = filter attempt_is_open (st_inferenceAttempts s)"

text \<open>\<open>openInferenceAttempt\<close> throws when more than one is open; the check and the value.\<close>

definition single_open_check :: "session_state \<Rightarrow> reducer_error option" where
  "single_open_check s =
     throw_if (length (open_inference_attempts s) > 1) (Shared Multiple_open_attempts)"

definition open_inference_attempt :: "session_state \<Rightarrow> attempt_record option" where
  "open_inference_attempt s =
     (case open_inference_attempts s of [] \<Rightarrow> None | a # _ \<Rightarrow> Some a)"

definition find_inference_attempt :: "session_state \<Rightarrow> string \<Rightarrow> reducer_error + attempt_record" where
  "find_inference_attempt s aid =
     (case find (\<lambda>a. at_attemptId (attempt_of a) = aid) (st_inferenceAttempts s) of
        None \<Rightarrow> Inl (Shared Unknown_attempt) | Some a \<Rightarrow> Inr a)"

definition ensure_current_assistant_checkpoint ::
  "session_state \<Rightarrow> string option \<Rightarrow> reducer_error option" where
  "ensure_current_assistant_checkpoint s mid =
     check_when (st_executionPolicy s \<noteq> None)
       (case at_last (assistants s) of
          None \<Rightarrow> Some (Shared Missing_context_checkpoint)
        | Some current \<Rightarrow>
            throw_if ((mid \<noteq> None \<and> mid \<noteq> Some (msg_id current)) \<or>
                length (st_contextCompilations s) \<noteq> length (assistants s))
              (Shared Missing_context_checkpoint))"

text \<open>\<open>\<open>${event.sessionId}:context:${n}\<close>\<close>, and the other identities derived from a session.\<close>

definition context_checkpoint_id :: "string \<Rightarrow> nat \<Rightarrow> string" where
  "context_checkpoint_id sid n = sid @ '':context:'' @ show_nat n"

definition tool_message_id :: "string \<Rightarrow> string \<Rightarrow> string" where
  "tool_message_id sid tcid = sid @ '':tool:'' @ tcid"

definition completion_check_id :: "string \<Rightarrow> int \<Rightarrow> string" where
  "completion_check_id sid n =
     sid @ '':completion:'' @ (if n < 0 then CHR ''-'' # show_nat (nat (- n)) else show_nat (nat n))"

end
