(* ===== verification/ReducerGrammar.thy ===== *)
theory ReducerGrammar
  imports SessionQueries
begin

text \<open>
  What the reducer checks before it looks at the payload of an event: its place in the
  stream, the status of the session, the completion check before it, and the order of the
  events of a version 2 session; and the handlers that open and close a session
  (\<open>reduceSessionEvent\<close> and its \<open>assert\<close> and \<open>ensure\<close> helpers in
  \<open>shared/session-reducer.ts\<close>). A handler gets the state with the time and the sequence
  number of the event already entered, as the source's \<open>next\<close>; the copies the source makes
  of the old state are the state itself.
\<close>

section \<open>The order of a version 2 session\<close>

definition decision_successor :: "session_state \<Rightarrow> session_event_type" where
  "decision_successor s =
     (if holds (at_last (st_routingDecisions s)) (\<lambda>d. rd_action (rec_payload d) = Assign_new_lease)
      then T_route_assigned else T_assistant_started)"

definition latest_attempt :: "session_state \<Rightarrow> attempt_record option" where
  "latest_attempt s = at_last (st_inferenceAttempts s)"

definition latest_outcome :: "session_state \<Rightarrow> attempt_outcome option" where
  "latest_outcome s =
     map_option fin_outcome (Option.bind (latest_attempt s) finish_of)"

definition message_stop_reason_is :: "string \<Rightarrow> message \<Rightarrow> bool" where
  "message_stop_reason_is r m \<longleftrightarrow> msg_stopReason m = Some (Some r)"

definition latest_attempt_wants_tool :: "session_state \<Rightarrow> bool" where
  "latest_attempt_wants_tool s \<longleftrightarrow>
     holds (latest_attempt s) (\<lambda>a. at_requireToolCall (attempt_of a) \<or>
       holds (find (\<lambda>m. msg_id m = at_messageId (attempt_of a)) (st_messages s))
         (message_stop_reason_is ''tool_calls''))"

definition after_finish_grammar :: "session_state \<Rightarrow> session_event_type \<Rightarrow> reducer_error option" where
  "after_finish_grammar s t = checks
     [throw_if (latest_outcome s = Some Attempt_cancelled \<and> t \<noteq> T_session_cancelled)
        (Grammar Cancelled_attempt_needs_cancel),
      throw_if (latest_outcome s = Some Attempt_interrupted \<and> t \<noteq> T_session_interrupted)
        (Grammar Interrupted_attempt_needs_interrupt),
      throw_if (latest_outcome s = Some Succeeded \<and> latest_attempt_wants_tool s \<and>
          t \<noteq> T_tool_requested \<and> t \<noteq> T_session_interrupted)
        (Grammar Attempt_needs_tool_request)]"

definition assert_v2_start_grammar :: "session_state \<Rightarrow> session_event_type \<Rightarrow> reducer_error option" where
  "assert_v2_start_grammar s t = check_when (is_v2 s) (checks
     [single_open_check s,
      throw_if (open_inference_attempt s \<noteq> None \<and> t \<noteq> T_assistant_delta \<and>
          t \<noteq> T_assistant_completed \<and> t \<noteq> T_attempt_finished)
        (Grammar Open_attempt_must_finish),
      throw_if (st_lastV2EventType s = Some T_cloud_egress_admission \<and> t \<noteq> T_routing_decision)
        (Grammar Admission_needs_decision),
      throw_if (st_lastV2EventType s = Some T_synthesis_checkpoint_imported \<and>
          t \<noteq> T_cloud_egress_admission \<and> t \<noteq> T_session_cancelled)
        (Grammar Import_needs_admission),
      throw_if (st_lastV2EventType s = Some T_routing_decision \<and> t \<noteq> decision_successor s)
        (Grammar Decision_needs_successor),
      throw_if (st_lastV2EventType s = Some T_route_assigned \<and> t \<noteq> T_assistant_started)
        (Grammar Route_needs_assistant),
      throw_if (st_lastV2EventType s = Some T_assistant_started \<and> t \<noteq> T_context_compiled)
        (Grammar Assistant_needs_context),
      throw_if (st_lastV2EventType s = Some T_tool_requested \<and> t \<noteq> T_tool_completed)
        (Grammar Tool_request_needs_completion),
      check_when (st_lastV2EventType s = Some T_attempt_finished) (after_finish_grammar s t),
      throw_if (st_lastV2EventType s = Some T_context_compiled \<and> t \<noteq> T_attempt_started)
        (Grammar Context_needs_attempt),
      throw_if (st_lastV2EventType s = Some T_assistant_completed \<and> t \<noteq> T_attempt_finished)
        (Grammar Completion_needs_attempt_finish)])"

section \<open>The guards of every event\<close>

definition ensure_active :: "session_state \<Rightarrow> reducer_error option" where
  "ensure_active s = throw_if (is_terminal_status (st_status s)) (Grammar Terminal_session)"

definition running_only_types :: "session_event_type list" where
  "running_only_types =
     [T_routing_decision, T_synthesis_checkpoint_imported, T_cloud_egress_admission,
      T_route_assigned, T_assistant_started, T_assistant_delta, T_assistant_completed,
      T_tool_requested, T_tool_completed, T_context_compiled, T_attempt_started,
      T_attempt_finished, T_obligations_checked, T_usage_recorded]"

definition ensure_running :: "session_state \<Rightarrow> session_event_type \<Rightarrow> reducer_error option" where
  "ensure_running s t =
     throw_if (t \<in> set running_only_types \<and> st_status s \<noteq> Running) (Grammar Not_running)"

definition ensure_checked_transition :: "session_state \<Rightarrow> session_event_type \<Rightarrow> reducer_error option" where
  "ensure_checked_transition s t =
     (case at_last (st_completionChecks s) of
        None \<Rightarrow> None
      | Some lastCheck \<Rightarrow> check_when (rec_sequence lastCheck = st_lastSequence s) (checks
          [throw_if (ck_outcome (rec_payload lastCheck) = Obl_accepted \<and> t \<noteq> T_session_completed)
             (Grammar Accepted_check_not_completed),
           throw_if (ck_outcome (rec_payload lastCheck) = Obl_exhausted \<and> t \<noteq> T_session_failed)
             (Grammar Exhausted_check_not_failed)]))"

definition event_guards :: "session_state \<Rightarrow> stored_event \<Rightarrow> reducer_error option" where
  "event_guards s e = checks
     [throw_if (st_id s \<noteq> ev_sessionId e) (Grammar Wrong_session),
      throw_if (ev_sequence e \<noteq> st_lastSequence s + 1) (Grammar Wrong_sequence),
      throw_if (is_v2 s \<and> time_less (ev_createdAt e) (st_updatedAt s)) (Grammar Time_decreases),
      ensure_active s,
      ensure_checked_transition s (event_type e),
      ensure_running s (event_type e),
      assert_v2_start_grammar s (event_type e)]"

definition next_state :: "session_state \<Rightarrow> stored_event \<Rightarrow> session_state" where
  "next_state s e = s\<lparr>st_updatedAt := ev_createdAt e, st_lastSequence := ev_sequence e\<rparr>"

section \<open>Opening a session\<close>

definition empty_usage :: session_usage where
  "empty_usage = \<lparr>us_inputTokens = 0, us_outputTokens = 0, us_reasoningTokens = 0, us_costUsd = 0,
     us_latencyMs = 0, us_ttftMs = None\<rparr>"

definition policy_is_v2 :: "execution_policy option \<Rightarrow> bool" where
  "policy_is_v2 p \<longleftrightarrow> (case p of Some (Policy_v2 _) \<Rightarrow> True | _ \<Rightarrow> False)"

definition create_initial_session_state :: "stored_event \<Rightarrow> created_payload \<Rightarrow> session_state" where
  "create_initial_session_state e p =
     \<lparr>st_id = ev_sessionId e, st_title = cr_title p, st_objective = cr_objective p,
      st_workspaceRoot = cr_workspaceRoot p, st_profile = cr_profile p,
      st_taskTrack = cr_taskTrack p, st_status = Created, st_createdAt = ev_createdAt e,
      st_updatedAt = ev_createdAt e, st_lastSequence = ev_sequence e, st_messages = [],
      st_routes = [], st_contextCompilations = [], st_cloudEgressAdmissions = [],
      st_routingDecisions = [], st_inferenceAttempts = [], st_synthesisCheckpointImport = None,
      st_executionPolicy = cr_executionPolicy p, st_hybridSimulation = cr_hybridSimulation p,
      st_completionObligations = coalesce (cr_completionObligations p) empty_completion_obligations,
      st_completionChecks = [], st_usage = empty_usage, st_costScopes = empty_cost_scopes,
      st_result = None, st_error = None,
      st_lastV2EventType =
        (if policy_is_v2 (cr_executionPolicy p) then Some T_session_created else None),
      st_startedAt = None, st_deadlineAt = None\<rparr>"

text \<open>\<open>new Date(Date.parse(startedAt) + maxEpisodeDurationMs).toISOString()\<close>.\<close>

definition expected_deadline :: "string \<Rightarrow> int \<Rightarrow> string option" where
  "expected_deadline started duration =
     (case date_parse started of None \<Rightarrow> None | Some t \<Rightarrow> to_iso (t + duration))"

definition handle_session_started ::
  "session_state \<Rightarrow> stored_event \<Rightarrow> started_payload \<Rightarrow> reducer_error + session_state" where
  "handle_session_started s e p =
     guarded (throw_if (st_status s \<noteq> Created) (Lifecycle Already_started))
       (case v2_policy s of
          Some policy \<Rightarrow>
            (case (sp_startedAt p, sp_deadlineAt p) of
               (Some started, Some deadline) \<Rightarrow>
                 guarded (throw_if (started \<noteq> ev_createdAt e) (Lifecycle Started_at_mismatch))
                   (case expected_deadline started (p2_maxEpisodeDurationMs policy) of
                      None \<Rightarrow> Inl (Shared Invalid_time)
                    | Some expected \<Rightarrow>
                        guarded (throw_if (deadline \<noteq> expected) (Lifecycle Deadline_mismatch))
                          (Inr (s\<lparr>st_startedAt := Some started, st_deadlineAt := Some deadline,
                                  st_status := Running, st_error := None\<rparr>)))
             | _ \<Rightarrow> Inl (Lifecycle Missing_deadline))
        | None \<Rightarrow>
            guarded (throw_if (sp_startedAt p \<noteq> None \<or> sp_deadlineAt p \<noteq> None)
                (Lifecycle V1_deadline_fields))
              (Inr (s\<lparr>st_status := Running, st_error := None\<rparr>)))"

definition new_message :: "string \<Rightarrow> message_role \<Rightarrow> string \<Rightarrow> message_status \<Rightarrow> message" where
  "new_message i r c st =
     \<lparr>msg_id = i, msg_role = r, msg_content = c, msg_status = st, msg_providerId = None,
      msg_model = None, msg_stopReason = None, msg_completionState = None, msg_toolCallId = None,
      msg_toolName = None, msg_toolCalls = None, msg_citationCorrections = None,
      msg_reviewParseStatus = None, msg_reviewResult = None, msg_reviewCoverage = None,
      msg_decisionId = None, msg_leaseId = None, msg_checkpointId = None, msg_attemptId = None\<rparr>"

definition handle_user_message ::
  "session_state \<Rightarrow> user_message_payload \<Rightarrow> reducer_error + session_state" where
  "handle_user_message s p =
     guarded (assert_unique_message_id s (um_messageId p))
       (Inr (s\<lparr>st_messages := st_messages s @
          [new_message (um_messageId p) User (um_content p) Msg_completed]\<rparr>))"

section \<open>Closing a session\<close>

definition review_accepted_message :: "message \<Rightarrow> bool" where
  "review_accepted_message m \<longleftrightarrow>
     msg_reviewParseStatus m = Some Parse_accepted \<and> msg_reviewResult m \<noteq> None \<and>
     msg_reviewCoverage m \<noteq> None"

definition final_review_accepted :: "session_state \<Rightarrow> attempt_start \<Rightarrow> bool" where
  "final_review_accepted s a \<longleftrightarrow>
     at_structuredOutputContract a = Some Change_review_result_v1 \<and>
     holds (find (\<lambda>m. msg_id m = at_messageId a) (st_messages s)) review_accepted_message"

definition assert_v2_terminal_ready :: "session_state \<Rightarrow> session_event_type \<Rightarrow> reducer_error option" where
  "assert_v2_terminal_ready s t = check_when (is_v2 s) (checks
     [single_open_check s,
      throw_if (open_inference_attempt s \<noteq> None) (Lifecycle Terminal_open_attempt),
      throw_if (length (st_contextCompilations s) \<noteq> length (st_inferenceAttempts s) \<or>
          list_ex attempt_is_open (st_inferenceAttempts s))
        (Lifecycle Terminal_checkpoint_mismatch),
      throw_if (list_ex streaming (st_messages s)) (Lifecycle Terminal_streaming),
      throw_if (list_ex pending_tool (all_tool_calls s)) (Lifecycle Terminal_pending_tool),
      check_when (t = T_session_completed) (checks
        [throw_if (\<not> holds (latest_attempt s) attempt_succeeded)
           (Lifecycle Final_attempt_not_successful),
         throw_if (st_taskTrack s = Some Change_review_v1 \<and>
             \<not> holds (latest_attempt s) (\<lambda>a. final_review_accepted s (attempt_of a)))
           (Lifecycle Review_not_accepted)])])"

definition result_differs :: "string option \<Rightarrow> message \<Rightarrow> bool" where
  "result_differs result m \<longleftrightarrow> result \<noteq> None \<and> result \<noteq> Some (msg_content m)"

definition accepted_check_for :: "stored_event \<Rightarrow> message \<Rightarrow> obligation_check recorded_entry \<Rightarrow> bool" where
  "accepted_check_for e m c \<longleftrightarrow>
     ck_messageId (rec_payload c) = msg_id m \<and> ck_outcome (rec_payload c) = Obl_accepted \<and>
     rec_sequence c = ev_sequence e - 1"

definition handle_session_completed ::
  "session_state \<Rightarrow> stored_event \<Rightarrow> string option \<Rightarrow> reducer_error + session_state" where
  "handle_session_completed s e result =
     guarded (checks
       [assert_v2_terminal_ready s T_session_completed,
        check_when (is_v2 s)
          (throw_if (\<not> holds (latest_assistant s) (\<lambda>m.
              msg_status m = Msg_completed \<and> \<not> result_differs result m)) (Lifecycle Result_mismatch)),
        check_when (has_completion_obligations (st_completionObligations s)) (checks
          [throw_if (\<not> holds (latest_assistant s) (\<lambda>m.
              holds (at_last (st_completionChecks s)) (accepted_check_for e m)))
             (Lifecycle Missing_accepted_check),
           throw_if (holds (latest_assistant s) (result_differs result))
             (Lifecycle Checked_result_mismatch)])])
       (Inr (s\<lparr>st_status := Completed,
               st_result := coalesce_opt result (map_option msg_content (latest_assistant s))\<rparr>))"

definition handle_session_failed :: "session_state \<Rightarrow> string \<Rightarrow> reducer_error + session_state" where
  "handle_session_failed s err =
     guarded (assert_v2_terminal_ready s T_session_failed)
       (Inr (s\<lparr>st_status := Failed, st_error := Some err\<rparr>))"

definition handle_session_cancelled ::
  "session_state \<Rightarrow> string option \<Rightarrow> reducer_error + session_state" where
  "handle_session_cancelled s reason =
     guarded (assert_v2_terminal_ready s T_session_cancelled)
       (Inr (s\<lparr>st_status := Cancelled, st_error := reason\<rparr>))"

definition fail_streaming :: "message \<Rightarrow> message" where
  "fail_streaming m = (if streaming m then m\<lparr>msg_status := Msg_failed\<rparr> else m)"

definition handle_session_interrupted :: "session_state \<Rightarrow> string \<Rightarrow> reducer_error + session_state" where
  "handle_session_interrupted s reason =
     guarded (assert_v2_terminal_ready s T_session_interrupted)
       (Inr (s\<lparr>st_status := Interrupted, st_error := Some reason,
               st_messages := map fail_streaming (st_messages s)\<rparr>))"

end
