(* ===== verification/ReducerRouting.thy ===== *)
theory ReducerRouting
  imports ReducerGrammar
begin

text \<open>
  The handlers of \<open>shared/session-reducer.ts\<close> for the events that decide where a session
  runs: \<open>synthesis.checkpoint.imported\<close>, \<open>cloud.egress.admission.recorded\<close>,
  \<open>routing.decision.recorded\<close> and \<open>route.assigned\<close>. The checks of a routing decision are
  grouped as the source groups them: the simulation authority, duplicates, consent and
  caps, quiescence, the lease, the evidence and the failed cloud attempt.
\<close>

section \<open>Importing a synthesis checkpoint\<close>

definition handle_checkpoint_imported ::
  "session_state \<Rightarrow> stored_event \<Rightarrow> synthesis_import \<Rightarrow> reducer_error + session_state" where
  "handle_checkpoint_imported s e p =
     (case st_hybridSimulation s of
        None \<Rightarrow> Inl (Lifecycle Import_not_simulation)
      | Some authority \<Rightarrow> guarded (checks
          [throw_if (\<not> holds (v2_policy s) (\<lambda>pol. p2_routingPolicy pol = Hybrid_simulation_v1) \<or>
               st_taskTrack s \<noteq> Some Change_review_v1)
             (Lifecycle Import_not_simulation),
           throw_if (st_lastV2EventType s \<noteq> Some T_session_started \<or>
               st_synthesisCheckpointImport s \<noteq> None \<or> st_routes s \<noteq> [] \<or>
               st_routingDecisions s \<noteq> [] \<or> st_cloudEgressAdmissions s \<noteq> [] \<or>
               st_contextCompilations s \<noteq> [] \<or> st_inferenceAttempts s \<noteq> [] \<or>
               list_ex is_assistant (st_messages s))
             (Lifecycle Import_not_first),
           throw_if (im_importedAt p \<noteq> ev_createdAt e \<or> im_parentSessionId p = ev_sessionId e \<or>
               im_checkpointId p \<noteq> context_checkpoint_id (ev_sessionId e) 1)
             (Lifecycle Import_identity),
           throw_if (im_completedRequiredToolNames p \<noteq>
               sort (ob_requiredSuccessfulTools (st_completionObligations s)))
             (Lifecycle Import_tools)])
          (Inr (s\<lparr>st_synthesisCheckpointImport := Some (recorded e p),
                  st_routes := st_routes s @ [recorded e
                    \<lparr>ro_providerId = pid_providerId (ha_fakeLocalProvider authority),
                     ro_model = pid_model (ha_fakeLocalProvider authority),
                     ro_reason = ''inherited PR6R Local investigation lease'',
                     ro_leaseId = Some (im_retainedLocalLeaseId p), ro_decisionId = None,
                     ro_phase = Some Investigation\<rparr>]\<rparr>)))"

section \<open>Recording a cloud egress admission\<close>

definition handle_egress_admission ::
  "replay_env \<Rightarrow> session_state \<Rightarrow> stored_event \<Rightarrow> egress_admission \<Rightarrow> reducer_error + session_state" where
  "handle_egress_admission env s e p =
     (case st_hybridSimulation s of
        None \<Rightarrow> Inl (Lifecycle Admission_not_simulation)
      | Some authority \<Rightarrow> guarded (checks
          [throw_if (\<not> holds (v2_policy s) (\<lambda>pol. p2_routingPolicy pol = Hybrid_simulation_v1))
             (Lifecycle Admission_not_simulation),
           throw_if (ea_evaluatedAt p \<noteq> ev_createdAt e) (Lifecycle Admission_time),
           throw_if (ea_simulationAuthorityId p \<noteq> ha_simulationAuthorityId authority)
             (Lifecycle Admission_authority),
           throw_if (\<not> has_complete_routing_evidence env s \<and>
               \<not> imported_checkpoint_matches_admission s p)
             (Lifecycle Admission_no_evidence),
           throw_if (list_ex (\<lambda>r. ea_admissionId (rec_payload r) = ea_admissionId p \<or>
               ea_checkpointId (rec_payload r) = ea_checkpointId p) (st_cloudEgressAdmissions s))
             (Lifecycle Admission_duplicate),
           throw_if (list_ex (\<lambda>r. rd_boundary (rec_payload r) = Evidence_complete)
               (st_routingDecisions s))
             (Lifecycle Admission_after_decision)])
          (Inr (s\<lparr>st_cloudEgressAdmissions := st_cloudEgressAdmissions s @ [recorded e p]\<rparr>)))"

section \<open>Recording a routing decision\<close>

text \<open>The fake-provider map of the authority; a later entry of \<open>new Map\<close> replaces an
  earlier one.\<close>

definition authority_providers :: "simulation_authority \<Rightarrow> (string \<times> string) list" where
  "authority_providers a =
     [(pid_providerId (ha_fakeCloudProvider a), pid_model (ha_fakeCloudProvider a)),
      (pid_providerId (ha_fakeLocalProvider a), pid_model (ha_fakeLocalProvider a))]"

definition matches_authority_provider :: "simulation_authority \<Rightarrow> string \<Rightarrow> string \<Rightarrow> bool" where
  "matches_authority_provider a pid model \<longleftrightarrow> map_of (authority_providers a) pid = Some model"

definition outside_authority :: "simulation_authority \<Rightarrow> routing_decision \<Rightarrow> bool" where
  "outside_authority a d \<longleftrightarrow>
     \<not> matches_authority_provider a (rd_selectedProviderId d) (rd_selectedModel d) \<or>
     holds (rd_proposedProviderId d) (\<lambda>pid.
       \<not> holds (rd_proposedModel d) (\<lambda>model. matches_authority_provider a pid model)) \<or>
     list_ex (\<lambda>pid. map_of (authority_providers a) pid = None) (rd_candidateProviderIds d) \<or>
     holds (rd_routerInputSnapshot d) (\<lambda>ri.
       list_ex (\<lambda>p. \<not> matches_authority_provider a (rp_providerId p) (rp_model p)) (ri_providers ri)) \<or>
     (if rd_reasonCode d = Rr_cloud_admitted
      then rd_selectedProviderId d \<noteq> pid_providerId (ha_fakeCloudProvider a)
      else rd_selectedProviderId d \<noteq> pid_providerId (ha_fakeLocalProvider a))"

definition admission_mismatch ::
  "session_state \<Rightarrow> stored_event \<Rightarrow> routing_decision \<Rightarrow> egress_admission recorded_entry \<Rightarrow> bool" where
  "admission_mismatch s e d r \<longleftrightarrow>
     rec_sequence r \<noteq> ev_sequence e - 1 \<or>
     rd_cloudEgressAdmissionId d \<noteq> Some (ea_admissionId (rec_payload r)) \<or>
     packet_checkpoint_id d \<noteq> Some (ea_checkpointId (rec_payload r)) \<or>
     packet_messages_sha256 d \<noteq> Some (ea_messagesSemanticSha256 (rec_payload r)) \<or>
     rd_provenanceSemanticSha256 d \<noteq> Some (ea_provenanceSemanticSha256 (rec_payload r))"

definition egress_consequence_wrong :: "routing_decision \<Rightarrow> egress_admission \<Rightarrow> bool" where
  "egress_consequence_wrong d r \<longleftrightarrow>
     ac_status (ad_egress (rd_admission d)) \<noteq>
       (if ea_decision r = Egress_pass then Passed else Denied) \<or>
     (ea_decision r = Egress_deny) \<noteq> (rd_reasonCode d = Rr_egress_denial)"

definition evidence_admission_checks ::
  "session_state \<Rightarrow> stored_event \<Rightarrow> routing_decision \<Rightarrow> reducer_error option" where
  "evidence_admission_checks s e d =
     (if rd_reasonCode d = Rr_low_risk_local_review
      then throw_if (rd_cloudEgressAdmissionId d \<noteq> None \<or>
             ac_status (ad_egress (rd_admission d)) \<noteq> Not_applicable \<or>
             st_lastV2EventType s = Some T_cloud_egress_admission)
           (Routing Low_risk_with_admission)
      else case at_last (st_cloudEgressAdmissions s) of
        None \<Rightarrow> Some (Routing Admission_mismatch)
      | Some r \<Rightarrow> checks
          [throw_if (st_lastV2EventType s \<noteq> Some T_cloud_egress_admission \<or>
               admission_mismatch s e d r) (Routing Admission_mismatch),
           throw_if (egress_consequence_wrong d (rec_payload r)) (Routing Admission_consequence)])"

definition fallback_admission_kept :: "session_state \<Rightarrow> routing_decision \<Rightarrow> bool" where
  "fallback_admission_kept s d \<longleftrightarrow>
     holds (rd_cloudEgressAdmissionId d) (\<lambda>aid.
       holds (latest_attempt s) (\<lambda>a. at_cloudEgressAdmissionId (attempt_of a) = Some aid) \<and>
       rd_provenanceSemanticSha256 d \<noteq> None \<and>
       rd_provenanceSemanticSha256 d =
         map_option (\<lambda>r. ea_provenanceSemanticSha256 (rec_payload r))
           (find (\<lambda>r. ea_admissionId (rec_payload r) = aid) (st_cloudEgressAdmissions s)))"

definition simulation_checks ::
  "session_state \<Rightarrow> stored_event \<Rightarrow> routing_decision \<Rightarrow> reducer_error option" where
  "simulation_checks s e d =
     (case st_hybridSimulation s of
        None \<Rightarrow> Some (Routing Simulation_scope_required)
      | Some authority \<Rightarrow> checks
          [throw_if (rd_costScope d \<noteq> Some Rt_simulation) (Routing Simulation_scope_required),
           throw_if (outside_authority authority d) (Routing Simulation_identity),
           (case rd_boundary d of
              Session_start \<Rightarrow>
                throw_if (rd_cloudEgressAdmissionId d \<noteq> None) (Routing Start_with_admission)
            | Evidence_complete \<Rightarrow> evidence_admission_checks s e d
            | Provider_failure \<Rightarrow>
                throw_if (\<not> fallback_admission_kept s d) (Routing Fallback_admission))])"

definition scope_checks ::
  "session_state \<Rightarrow> stored_event \<Rightarrow> policy_v2 \<Rightarrow> routing_decision \<Rightarrow> reducer_error option" where
  "scope_checks s e policy d =
     (if p2_routingPolicy policy = Hybrid_simulation_v1 then simulation_checks s e d
      else throw_if (rd_costScope d = Some Rt_simulation \<or> rd_cloudEgressAdmissionId d \<noteq> None)
        (Routing Simulation_fields_forbidden))"

definition decision_duplicate_checks :: "session_state \<Rightarrow> routing_decision \<Rightarrow> reducer_error option" where
  "decision_duplicate_checks s d = checks
     [throw_if (list_ex (\<lambda>r. rd_decisionId (rec_payload r) = rd_decisionId d) (st_routingDecisions s))
        (Routing Duplicate_decision),
      throw_if (list_ex (\<lambda>r. rd_boundary (rec_payload r) = rd_boundary d) (st_routingDecisions s))
        (Routing Duplicate_boundary),
      throw_if (rd_budgetReservationId d \<noteq> None \<and>
          list_ex (\<lambda>r. rd_budgetReservationId (rec_payload r) = rd_budgetReservationId d)
            (st_routingDecisions s))
        (Routing Duplicate_reservation)]"

definition real_consent :: "policy_v2 \<Rightarrow> bool" where
  "real_consent p \<longleftrightarrow>
     p2_routingPolicy p = Hybrid_v0 \<and> p2_egressConsent p = Session_cloud_synthesis_v1"

definition simulated_consent :: "policy_v2 \<Rightarrow> bool" where
  "simulated_consent p \<longleftrightarrow>
     p2_routingPolicy p = Hybrid_simulation_v1 \<and> p2_egressConsent p = Consent_none \<and>
     p2_simulationConsent p = Some Simulation_cloud_synthesis_v1"

definition consent_checks :: "policy_v2 \<Rightarrow> routing_decision \<Rightarrow> reducer_error option" where
  "consent_checks policy d = checks
     [check_when (rd_reasonCode d = Rr_cloud_admitted) (checks
        [throw_if (\<not> (real_consent policy \<or> simulated_consent policy)) (Routing Cloud_without_consent),
         throw_if (\<not> holds (rd_billing d) (\<lambda>b.
             bl_projectedCostMicrousd b \<le> p2_maxPaidEpisodeMicrousd policy))
           (Routing Cloud_over_cap)]),
      check_when (is_cloud_proposal_denial (rd_reasonCode d)) (checks
        [throw_if (p2_routingPolicy policy \<noteq> Hybrid_v0 \<and>
             p2_routingPolicy policy \<noteq> Hybrid_simulation_v1)
           (Routing Denial_without_policy),
         throw_if (ac_status (ad_egress (rd_admission d)) = Passed \<and>
             \<not> (p2_egressConsent policy = Session_cloud_synthesis_v1 \<or>
                (p2_routingPolicy policy = Hybrid_simulation_v1 \<and>
                 p2_simulationConsent policy = Some Simulation_cloud_synthesis_v1)))
           (Routing Denial_egress_without_consent)])]"

definition quiescence_checks :: "session_state \<Rightarrow> reducer_error option" where
  "quiescence_checks s = checks
     [throw_if (list_ex streaming (st_messages s)) (Routing Routing_while_streaming),
      single_open_check s,
      throw_if (open_inference_attempt s \<noteq> None) (Routing Routing_while_open),
      throw_if (list_ex pending_tool (all_tool_calls s)) (Routing Routing_while_tool_pending)]"

text \<open>\<open>!activeRoute?.leaseId\<close> also holds for an empty string.\<close>

definition active_lease :: "session_state \<Rightarrow> string option" where
  "active_lease s =
     (case Option.bind (active_route s) ro_leaseId of
        None \<Rightarrow> None | Some l \<Rightarrow> if l = '''' then None else Some l)"

definition lease_checks :: "session_state \<Rightarrow> routing_decision \<Rightarrow> reducer_error option" where
  "lease_checks s d = checks
     [(if rd_boundary d = Session_start then checks
         [throw_if (st_routingDecisions s \<noteq> [] \<or> st_routes s \<noteq> [] \<or>
              list_ex is_assistant (st_messages s)) (Routing Start_not_first),
          throw_if (rd_action d \<noteq> Assign_new_lease \<or> rd_priorLeaseId d \<noteq> None)
            (Routing Start_not_new_lease)]
       else checks
         [throw_if (active_lease s = None) (Routing No_active_lease),
          throw_if (rd_priorLeaseId d \<noteq> active_lease s) (Routing Prior_lease_mismatch)]),
      check_when (rd_action d = Retain_lease)
        (throw_if (\<not> holds (active_route s) (\<lambda>r.
            rd_selectedProviderId d = ro_providerId r \<and> rd_selectedModel d = ro_model r))
          (Routing Retained_route_mismatch))]"

definition fact_value :: "routing_decision \<Rightarrow> string \<Rightarrow> json option" where
  "fact_value d key = map_option tf_value (find (\<lambda>f. tf_key f = key) (rd_triggerFacts d))"

definition evidence_checks ::
  "replay_env \<Rightarrow> session_state \<Rightarrow> routing_decision \<Rightarrow> reducer_error option" where
  "evidence_checks env s d =
     (let imported = imported_checkpoint_matches_decision s d in
      check_when (rd_boundary d = Evidence_complete) (checks
        [throw_if (\<not> has_complete_routing_evidence env s \<and> \<not> imported) (Routing No_routing_evidence),
         throw_if (st_synthesisCheckpointImport s \<noteq> None \<and> \<not> imported) (Routing Import_not_bound),
         throw_if (rd_routerInputSnapshot d \<noteq> None \<and> \<not> imported \<and>
             (fact_value d ''router_evidence_ready'' \<noteq> Some (JBool True) \<or>
              fact_value d ''router_successful_investigation_attempt_count'' \<noteq>
                Some (JNumber (of_nat (successful_investigation_count s)))))
           (Routing Trigger_facts_mismatch)]))"

definition failed_cloud_attempt :: "session_state \<Rightarrow> attempt_record \<Rightarrow> bool" where
  "failed_cloud_attempt s a \<longleftrightarrow>
     holds (finish_of a) (\<lambda>f. fin_outcome f \<noteq> Succeeded \<and> fin_outcome f \<noteq> Attempt_cancelled \<and>
       fin_outcome f \<noteq> Attempt_interrupted) \<and>
     holds (find_decision s (at_decisionId (attempt_of a))) (\<lambda>d.
       rd_reasonCode d = Rr_cloud_admitted \<and>
       at_budgetReservationId (attempt_of a) \<noteq> None \<and>
       at_budgetReservationId (attempt_of a) = rd_budgetReservationId d)"

definition failure_checks :: "session_state \<Rightarrow> routing_decision \<Rightarrow> reducer_error option" where
  "failure_checks s d = check_when (rd_boundary d = Provider_failure) (checks
     [throw_if (st_lastV2EventType s \<noteq> Some T_attempt_finished \<or>
          \<not> holds (latest_attempt s) (failed_cloud_attempt s)) (Routing Not_failed_cloud_attempt),
      throw_if (rd_reasonCode d \<noteq> Rr_local_fallback) (Routing Not_local_fallback)])"

definition reserve_decision_cost ::
  "session_state \<Rightarrow> routing_decision \<Rightarrow> reducer_error + cost_scope_projection" where
  "reserve_decision_cost s d =
     (case (rd_billing d, rd_budgetReservationId d) of
        (Some b, Some _) \<Rightarrow>
          add_scoped_cost (st_costScopes s) (effective_cost_scope (rd_costScope d)) Reserved_cost
            (bl_projectedCostMicrousd b)
      | _ \<Rightarrow> Inr (st_costScopes s))"

definition routing_checks ::
  "replay_env \<Rightarrow> session_state \<Rightarrow> stored_event \<Rightarrow> policy_v2 \<Rightarrow> routing_decision \<Rightarrow> reducer_error option" where
  "routing_checks env s e policy d = checks
     [scope_checks s e policy d, decision_duplicate_checks s d, consent_checks policy d,
      quiescence_checks s, lease_checks s d, evidence_checks env s d, failure_checks s d]"

definition handle_routing_decision ::
  "replay_env \<Rightarrow> session_state \<Rightarrow> stored_event \<Rightarrow> routing_decision \<Rightarrow> reducer_error + session_state" where
  "handle_routing_decision env s e d =
     (case v2_policy s of
        None \<Rightarrow> Inl (Routing Routing_not_v2)
      | Some policy \<Rightarrow>
          guarded (routing_checks env s e policy d)
            (bind_result (reserve_decision_cost s d) (\<lambda>costs.
              Inr (s\<lparr>st_routingDecisions := st_routingDecisions s @ [recorded e d],
                     st_costScopes := costs\<rparr>))))"

section \<open>Assigning a route\<close>

fun adjacent_changes :: "string list \<Rightarrow> nat" where
  "adjacent_changes (x # y # zs) = (if x \<noteq> y then 1 else 0) + adjacent_changes (y # zs)"
| "adjacent_changes _ = 0"

definition route_providers :: "session_state \<Rightarrow> string list" where
  "route_providers s = map (\<lambda>r. ro_providerId (rec_payload r)) (st_routes s)"

definition provider_changes_with :: "session_state \<Rightarrow> string \<Rightarrow> nat" where
  "provider_changes_with s pid =
     (if holds (active_route s) (\<lambda>r. ro_providerId r \<noteq> pid) then 1 else 0) +
     adjacent_changes (route_providers s)"

definition route_matches_decision ::
  "stored_event \<Rightarrow> route_payload \<Rightarrow> routing_decision recorded_entry \<Rightarrow> bool" where
  "route_matches_decision e p r \<longleftrightarrow>
     (let d = rec_payload r in
      rec_sequence r = ev_sequence e - 1 \<and> rd_action d = Assign_new_lease \<and>
      Some (rd_decisionId d) = ro_decisionId p \<and> Some (rd_selectedLeaseId d) = ro_leaseId p \<and>
      rd_selectedProviderId d = ro_providerId p \<and> rd_selectedModel d = ro_model p \<and>
      Some (rd_phase d) = ro_phase p)"

definition handle_route_assigned ::
  "session_state \<Rightarrow> stored_event \<Rightarrow> route_payload \<Rightarrow> reducer_error + session_state" where
  "handle_route_assigned s e p =
     guarded (case v2_policy s of
         None \<Rightarrow> None
       | Some policy \<Rightarrow> checks
           [throw_if (ro_decisionId p = None \<or> ro_leaseId p = None \<or> ro_phase p = None)
              (Message Route_links_missing),
            throw_if (\<not> holds (at_last (st_routingDecisions s)) (route_matches_decision e p))
              (Message Route_decision_mismatch),
            throw_if (list_ex (\<lambda>r. ro_leaseId (rec_payload r) = ro_leaseId p) (st_routes s))
              (Message Duplicate_lease),
            throw_if (int (provider_changes_with s (ro_providerId p)) > p2_maxProviderChanges policy)
              (Message Provider_change_limit)])
       (Inr (s\<lparr>st_routes := st_routes s @ [recorded e p]\<rparr>))"

end
