(* ===== verification/ReducerMessages.thy ===== *)
theory ReducerMessages
  imports ReducerGrammar
begin

text \<open>
  The handlers of \<open>shared/session-reducer.ts\<close> for assistant messages and tool calls:
  \<open>assistant.message.started\<close>, \<open>delta\<close> and \<open>completed\<close>, \<open>tool.call.requested\<close> and
  \<open>tool.call.completed\<close>.
\<close>

section \<open>Starting an assistant message\<close>

definition boundary_start :: "session_state \<Rightarrow> bool" where
  "boundary_start s \<longleftrightarrow>
     st_lastV2EventType s = Some T_routing_decision \<or> st_lastV2EventType s = Some T_route_assigned"

definition obligation_retry :: "session_state \<Rightarrow> bool" where
  "obligation_retry s \<longleftrightarrow>
     st_lastV2EventType s = Some T_obligations_checked \<and>
     holds (at_last (st_completionChecks s)) (\<lambda>c. ck_outcome (rec_payload c) = Obl_retry)"

definition latest_decision_id :: "session_state \<Rightarrow> string option" where
  "latest_decision_id s =
     map_option (\<lambda>r. rd_decisionId (rec_payload r)) (at_last (st_routingDecisions s))"

definition assistant_v2_checks ::
  "session_state \<Rightarrow> stored_event \<Rightarrow> assistant_started_payload \<Rightarrow> reducer_error option" where
  "assistant_v2_checks s e p =
     (case as_decisionId p of
        None \<Rightarrow> Some (Message Assistant_links_missing)
      | Some did \<Rightarrow> checks
        [throw_if (as_leaseId p = None \<or> as_checkpointId p = None \<or> as_attemptId p = None)
           (Message Assistant_links_missing),
         single_open_check s,
         throw_if (open_inference_attempt s \<noteq> None) (Message Assistant_while_open),
         throw_if (list_ex (\<lambda>a. Some (at_attemptId (attempt_of a)) = as_attemptId p)
             (st_inferenceAttempts s)) (Message Duplicate_attempt),
         throw_if (\<not> holds (active_route s) (\<lambda>r. ro_leaseId r = as_leaseId p))
           (Message Assistant_lease),
         throw_if (\<not> holds (find_decision s did) (\<lambda>d. Some (rd_selectedLeaseId d) = as_leaseId p))
           (Message Assistant_decision),
         throw_if (\<not> holds (find_decision s did) (\<lambda>d.
             rd_selectedProviderId d = as_providerId p \<and> rd_selectedModel d = as_model p \<and>
             latest_decision_id s = Some (rd_decisionId d)))
           (Message Assistant_not_active_decision),
         throw_if (as_checkpointId p \<noteq>
             Some (context_checkpoint_id (ev_sessionId e) (length (st_contextCompilations s) + 1)))
           (Message Assistant_checkpoint),
         throw_if (holds (find_decision s did) (\<lambda>d.
             rd_checkpointId d \<noteq> None \<and> rd_checkpointId d \<noteq> as_checkpointId p))
           (Message Assistant_decision_checkpoint),
         throw_if (\<not> boundary_start s \<and> st_lastV2EventType s \<noteq> Some T_tool_completed \<and>
             \<not> obligation_retry s) (Message Assistant_round_order),
         throw_if (\<not> boundary_start s \<and> latest_decision_id s \<noteq> as_decisionId p)
           (Message Assistant_round_decision)])"

definition assistant_policy_checks ::
  "session_state \<Rightarrow> assistant_started_payload \<Rightarrow> reducer_error option" where
  "assistant_policy_checks s p =
     (case st_executionPolicy s of
        None \<Rightarrow> None
      | Some policy \<Rightarrow> checks
        [throw_if (\<not> holds (active_route s) (\<lambda>r.
             ro_providerId r = as_providerId p \<and> ro_model r = as_model p))
           (Message Assistant_route),
         throw_if (length (st_contextCompilations s) \<noteq> length (assistants s))
           (Message Assistant_checkpoint_pending),
         throw_if (int (length (assistants s)) \<ge> policy_inference_rounds policy)
           (Message Inference_round_limit)])"

definition new_assistant_message :: "assistant_started_payload \<Rightarrow> message" where
  "new_assistant_message p =
     (new_message (as_messageId p) Assistant '''' Msg_streaming)
       \<lparr>msg_providerId := Some (as_providerId p), msg_model := Some (as_model p),
        msg_decisionId := as_decisionId p, msg_leaseId := as_leaseId p,
        msg_checkpointId := as_checkpointId p, msg_attemptId := as_attemptId p,
        msg_toolCalls := Some []\<rparr>"

definition handle_assistant_started ::
  "session_state \<Rightarrow> stored_event \<Rightarrow> assistant_started_payload \<Rightarrow> reducer_error + session_state" where
  "handle_assistant_started s e p =
     guarded (checks
       [assert_unique_message_id s (as_messageId p),
        check_when (is_v2 s) (assistant_v2_checks s e p),
        assistant_policy_checks s p,
        throw_if (list_ex streaming (st_messages s)) (Message Second_streaming_message),
        throw_if (list_ex pending_tool (all_tool_calls s)) (Message Assistant_while_tool_pending)])
       (Inr (s\<lparr>st_messages := st_messages s @ [new_assistant_message p]\<rparr>))"

section \<open>Deltas and completion\<close>

text \<open>The update in place of a message the handler has looked up by its identity.\<close>

definition update_message :: "string \<Rightarrow> (message \<Rightarrow> message) \<Rightarrow> session_state \<Rightarrow> session_state" where
  "update_message mid f s =
     s\<lparr>st_messages := update_first (\<lambda>m. msg_id m = mid) f (st_messages s)\<rparr>"

definition handle_assistant_delta ::
  "session_state \<Rightarrow> assistant_delta_payload \<Rightarrow> reducer_error + session_state" where
  "handle_assistant_delta s p =
     bind_result (find_message s (de_messageId p)) (\<lambda>m. guarded (checks
       [throw_if (msg_role m \<noteq> Assistant) (Message Not_assistant),
        throw_if (msg_status m \<noteq> Msg_streaming) (Message Not_streaming),
        ensure_current_assistant_checkpoint s (Some (de_messageId p)),
        check_when (is_v2 s) (checks
          [single_open_check s,
           throw_if (\<not> holds (open_inference_attempt s) (\<lambda>a. at_messageId (attempt_of a) = msg_id m))
             (Message Delta_without_attempt)])])
       (Inr (update_message (de_messageId p)
          (\<lambda>m. m\<lparr>msg_content := msg_content m @ de_delta p\<rparr>) s)))"

definition review_context_bound :: "attempt_start \<Rightarrow> context_compilation \<Rightarrow> bool" where
  "review_context_bound a c \<longleftrightarrow>
     cc_compilerVersion c = Review_context_compiler_v1 \<and>
     cc_structuredOutputContract c = at_structuredOutputContract a \<and>
     cc_structuredOutputSchemaSha256 c = at_structuredOutputSchemaSha256 a"

definition review_identities_match ::
  "assistant_completed_payload \<Rightarrow> context_compilation \<Rightarrow> bool" where
  "review_identities_match p c \<longleftrightarrow>
     map_option rv_snapshotId (ac_reviewResult p) = cc_reviewSnapshotId c \<and>
     map_option rv_evidenceSetId (ac_reviewResult p) = cc_reviewEvidenceSetId c \<and>
     map_option rv_snapshotId (ac_reviewCoverage p) = cc_reviewSnapshotId c \<and>
     map_option rv_evidenceSetId (ac_reviewCoverage p) = cc_reviewEvidenceSetId c"

definition attempt_checkpoint :: "session_state \<Rightarrow> attempt_start \<Rightarrow> context_compilation option" where
  "attempt_checkpoint s a =
     find (\<lambda>c. cc_checkpointId c = at_checkpointId a) (map rec_payload (st_contextCompilations s))"

definition review_completion_checks ::
  "session_state \<Rightarrow> attempt_start \<Rightarrow> assistant_completed_payload \<Rightarrow> reducer_error option" where
  "review_completion_checks s a p = checks
     [throw_if ((at_structuredOutputContract a = Some Change_review_result_v1) \<noteq>
          (ac_reviewParseStatus p \<noteq> None)) (Message Parse_status_mismatch),
      check_when (ac_reviewParseStatus p \<noteq> None) (checks
        [throw_if (st_taskTrack s \<noteq> Some Change_review_v1) (Message Parse_status_track),
         throw_if (\<not> holds (attempt_checkpoint s a) (review_context_bound a))
           (Message Review_context_mismatch),
         throw_if (ac_reviewParseStatus p = Some Parse_accepted \<and>
             \<not> holds (attempt_checkpoint s a) (review_identities_match p))
           (Message Review_identity_mismatch)])]"

definition completion_v2_checks ::
  "session_state \<Rightarrow> message \<Rightarrow> assistant_completed_payload \<Rightarrow> reducer_error option" where
  "completion_v2_checks s m p = checks
     [throw_if (ac_attemptId p = None) (Message Completion_attempt_missing),
      single_open_check s,
      (case open_inference_attempt s of
         None \<Rightarrow> Some (Message Completion_attempt_mismatch)
       | Some a \<Rightarrow> checks
           [throw_if (Some (at_attemptId (attempt_of a)) \<noteq> ac_attemptId p \<or>
                at_messageId (attempt_of a) \<noteq> msg_id m) (Message Completion_attempt_mismatch),
            review_completion_checks s (attempt_of a) p])]"

definition complete_message :: "assistant_completed_payload \<Rightarrow> message \<Rightarrow> message" where
  "complete_message p m =
     (let state = coalesce (ac_completionState p) Complete in
      m\<lparr>msg_content := coalesce (ac_content p) (msg_content m),
        msg_stopReason := coalesce_opt (ac_stopReason p) (msg_stopReason m),
        msg_completionState := Some state,
        msg_citationCorrections := coalesce_opt (ac_citationCorrections p) (msg_citationCorrections m),
        msg_reviewParseStatus := coalesce_opt (ac_reviewParseStatus p) (msg_reviewParseStatus m),
        msg_reviewResult := coalesce_opt (ac_reviewResult p) (msg_reviewResult m),
        msg_reviewCoverage := coalesce_opt (ac_reviewCoverage p) (msg_reviewCoverage m),
        msg_attemptId := coalesce_opt (ac_attemptId p) (msg_attemptId m),
        msg_status := (if state = Complete then Msg_completed else Msg_failed)\<rparr>)"

definition handle_assistant_completed ::
  "session_state \<Rightarrow> assistant_completed_payload \<Rightarrow> reducer_error + session_state" where
  "handle_assistant_completed s p =
     bind_result (find_message s (ac_messageId p)) (\<lambda>m. guarded (checks
       [throw_if (msg_role m \<noteq> Assistant) (Message Not_assistant),
        throw_if (msg_status m \<noteq> Msg_streaming) (Message Not_streaming),
        throw_if (st_executionPolicy s \<noteq> None \<and>
            length (st_contextCompilations s) \<noteq> length (assistants s))
          (Message Completion_without_checkpoint),
        check_when (is_v2 s) (completion_v2_checks s m p)])
       (Inr (update_message (ac_messageId p) (complete_message p) s)))"

section \<open>Tool calls\<close>

definition next_required_tool :: "replay_env \<Rightarrow> session_state \<Rightarrow> tool_name option" where
  "next_required_tool env s =
     (let req = ob_requiredSuccessfulTools (st_completionObligations s);
          n = length (completed_required_tool_prefix env (st_messages s) req)
      in if n < length req then Some (req ! n) else None)"

definition tool_attempt_checks ::
  "session_state \<Rightarrow> message \<Rightarrow> tool_requested_payload \<Rightarrow> reducer_error option" where
  "tool_attempt_checks s m p = checks
     [throw_if (\<not> holds (latest_attempt s) (\<lambda>a.
          attempt_succeeded a \<and> at_messageId (attempt_of a) = msg_id m) \<or>
          st_lastV2EventType s \<noteq> Some T_attempt_finished) (ToolErr Tool_without_attempt),
      throw_if (\<not> holds (latest_attempt s) (\<lambda>a. at_allowTools (attempt_of a) \<and>
          holds (at_allowedToolNames (attempt_of a)) (\<lambda>names. tq_name p \<in> set names)))
        (ToolErr Tool_not_allowed)]"

definition tool_request_checks ::
  "replay_env \<Rightarrow> session_state \<Rightarrow> message \<Rightarrow> tool_requested_payload \<Rightarrow> reducer_error option" where
  "tool_request_checks env s m p = checks
     [throw_if (msg_role m \<noteq> Assistant) (ToolErr Tool_not_assistant),
      throw_if (\<not> holds (latest_assistant s) (\<lambda>l. msg_id l = msg_id m)) (ToolErr Tool_not_latest),
      ensure_current_assistant_checkpoint s (Some (msg_id m)),
      check_when (is_v2 s) (tool_attempt_checks s m p),
      throw_if (st_executionPolicy s \<noteq> None \<and>
          (msg_status m \<noteq> Msg_completed \<or> \<not> message_stop_reason_is ''tool_calls'' m))
        (ToolErr Tool_without_tool_stop),
      throw_if (st_executionPolicy s \<noteq> None \<and> length (message_tool_calls m) > 0)
        (ToolErr Tool_second_call),
      throw_if (msg_status m = Msg_failed) (ToolErr Tool_after_failure),
      throw_if (msg_status m = Msg_completed \<and> \<not> message_stop_reason_is ''tool_calls'' m)
        (ToolErr Tool_after_non_tool_stop),
      throw_if (list_ex (\<lambda>c. ck_messageId (rec_payload c) = msg_id m) (st_completionChecks s))
        (ToolErr Tool_after_check),
      throw_if (list_ex (\<lambda>t. \<not> pending_tool t) (message_tool_calls m))
        (ToolErr Tool_after_execution),
      throw_if (holds (next_required_tool env s) (\<lambda>t. t \<noteq> '''' \<and> tq_name p \<noteq> t))
        (ToolErr Tool_not_required_one),
      throw_if (list_ex (\<lambda>t. tc_id t = tq_toolCallId p) (all_tool_calls s))
        (ToolErr Duplicate_tool_call),
      throw_if (holds (st_executionPolicy s) (\<lambda>policy.
          int (length (all_tool_calls s)) \<ge> policy_tool_calls policy)) (ToolErr Tool_call_limit)]"

definition new_tool_call :: "tool_requested_payload \<Rightarrow> tool_call" where
  "new_tool_call p =
     \<lparr>tc_id = tq_toolCallId p, tc_name = tq_name p, tc_arguments = tq_arguments p,
      tc_status = Tool_requested, tc_content = None, tc_durationMs = None\<rparr>"

definition add_tool_call :: "tool_requested_payload \<Rightarrow> message \<Rightarrow> message" where
  "add_tool_call p m = m\<lparr>msg_toolCalls := Some (message_tool_calls m @ [new_tool_call p])\<rparr>"

text \<open>\<open>!messageId\<close> also holds for an empty string.\<close>

definition tool_message_target :: "session_state \<Rightarrow> tool_requested_payload \<Rightarrow> string option" where
  "tool_message_target s p =
     (case coalesce_opt (tq_messageId p) (map_option msg_id (latest_assistant s)) of
        None \<Rightarrow> None | Some i \<Rightarrow> if i = '''' then None else Some i)"

definition handle_tool_requested ::
  "replay_env \<Rightarrow> session_state \<Rightarrow> tool_requested_payload \<Rightarrow> reducer_error + session_state" where
  "handle_tool_requested env s p =
     (case tool_message_target s p of
        None \<Rightarrow> Inl (ToolErr Tool_no_assistant)
      | Some mid \<Rightarrow>
          bind_result (find_message s mid) (\<lambda>m.
            guarded (tool_request_checks env s m p)
              (Inr (update_message mid (add_tool_call p) s))))"

text \<open>The pairs of a message and one of its calls with the given identity.\<close>

definition matching_tool_calls :: "session_state \<Rightarrow> string \<Rightarrow> (message \<times> tool_call) list" where
  "matching_tool_calls s tcid =
     concat (map (\<lambda>m. map (Pair m) (filter (\<lambda>t. tc_id t = tcid) (message_tool_calls m)))
       (st_messages s))"

definition tool_completion_checks ::
  "session_state \<Rightarrow> stored_event \<Rightarrow> message \<Rightarrow> tool_call \<Rightarrow> tool_completed_payload \<Rightarrow> reducer_error option" where
  "tool_completion_checks s e parent t p = checks
     [throw_if (\<not> holds (latest_assistant s) (\<lambda>l. msg_id l = msg_id parent))
        (ToolErr Tool_result_not_latest),
      throw_if (msg_status parent \<noteq> Msg_completed) (ToolErr Tool_result_message_open),
      throw_if (\<not> message_stop_reason_is ''tool_calls'' parent) (ToolErr Tool_result_stop_reason),
      throw_if (tc_name t \<noteq> td_name p) (ToolErr Tool_result_name),
      throw_if (tc_status t \<noteq> Tool_requested) (ToolErr Tool_result_twice),
      assert_unique_message_id s (tool_message_id (ev_sessionId e) (td_toolCallId p))]"

definition finish_tool_call :: "tool_completed_payload \<Rightarrow> tool_call \<Rightarrow> tool_call" where
  "finish_tool_call p t =
     (if tc_id t = td_toolCallId p
      then t\<lparr>tc_status := (if td_isError p then Tool_failed else Tool_completed),
             tc_content := Some (td_content p), tc_durationMs := td_durationMs p\<rparr>
      else t)"

definition finish_message_tool_calls :: "tool_completed_payload \<Rightarrow> message \<Rightarrow> message" where
  "finish_message_tool_calls p m =
     m\<lparr>msg_toolCalls := map_option (map (finish_tool_call p)) (msg_toolCalls m)\<rparr>"

definition new_tool_message :: "stored_event \<Rightarrow> tool_completed_payload \<Rightarrow> message" where
  "new_tool_message e p =
     (new_message (tool_message_id (ev_sessionId e) (td_toolCallId p)) Tool (td_content p)
        (if td_isError p then Msg_failed else Msg_completed))
       \<lparr>msg_toolCallId := Some (td_toolCallId p), msg_toolName := Some (td_name p)\<rparr>"

text \<open>The one matching call is the only call with its identity in the session, so entering
  its result in place is the same as entering it wherever the identity occurs.\<close>

definition handle_tool_completed ::
  "session_state \<Rightarrow> stored_event \<Rightarrow> tool_completed_payload \<Rightarrow> reducer_error + session_state" where
  "handle_tool_completed s e p =
     (case matching_tool_calls s (td_toolCallId p) of
        [] \<Rightarrow> Inl (ToolErr Tool_unknown)
      | [(parent, t)] \<Rightarrow>
          guarded (tool_completion_checks s e parent t p)
            (Inr (s\<lparr>st_messages := map (finish_message_tool_calls p) (st_messages s) @
               [new_tool_message e p]\<rparr>))
      | _ \<Rightarrow> Inl (ToolErr Tool_ambiguous))"

end
