(* ===== verification/ReducerAttempts.thy ===== *)
theory ReducerAttempts
  imports ReducerGrammar
begin

text \<open>
  The handlers of \<open>shared/session-reducer.ts\<close> for the model calls of a session and what they
  lead to: \<open>context.compiled\<close>, \<open>inference.attempt.started\<close> and \<open>finished\<close>,
  \<open>completion.obligations.checked\<close> and \<open>usage.recorded\<close>.
\<close>

section \<open>Context checkpoints\<close>

definition cloud_packet_mismatch :: "routing_decision \<Rightarrow> context_compilation \<Rightarrow> int \<Rightarrow> bool" where
  "cloud_packet_mismatch d p billable \<longleftrightarrow>
     rd_reasonCode d = Rr_cloud_admitted \<and>
     (holds (rd_checkpointId d) (\<lambda>x. x \<noteq> cc_checkpointId p) \<or>
      holds (rd_packetSha256 d) (\<lambda>x. x \<noteq> cc_packetSha256 p) \<or>
      holds (rd_messagesSha256 d) (\<lambda>x. x \<noteq> cc_messagesSha256 p) \<or>
      holds (rd_billing d) (\<lambda>b. bl_billableInputTokens b \<noteq> billable))"

definition context_links_match :: "message \<Rightarrow> context_compilation \<Rightarrow> bool" where
  "context_links_match m p \<longleftrightarrow>
     Some (msg_id m) = cc_messageId p \<and> msg_decisionId m = cc_decisionId p \<and>
     msg_leaseId m = cc_leaseId p \<and> msg_checkpointId m = Some (cc_checkpointId p) \<and>
     msg_attemptId m = cc_attemptId p"

definition context_v2_checks ::
  "session_state \<Rightarrow> message \<Rightarrow> context_compilation \<Rightarrow> reducer_error option" where
  "context_v2_checks s m p =
     (case cc_decisionId p of
        None \<Rightarrow> Some (Context Context_links_missing)
      | Some did \<Rightarrow> checks
        [throw_if (cc_leaseId p = None \<or> cc_messageId p = None \<or> cc_attemptId p = None)
           (Context Context_links_missing),
         throw_if (\<not> context_links_match m p \<or>
             \<not> holds (active_route s) (\<lambda>r. ro_leaseId r = cc_leaseId p))
           (Context Context_links_mismatch),
         (case find_decision s did of
            None \<Rightarrow> Some (Context Context_unknown_decision)
          | Some d \<Rightarrow>
              let billable = cc_estimatedTokens p + cc_reservedInputTokens p in
              throw_if (\<not> is_safe_integer billable \<or> cloud_packet_mismatch d p billable)
                (Context Context_admission_packet))])"

definition permitted_reasons :: "compilation_mode \<Rightarrow> compilation_reason list" where
  "permitted_reasons mode =
     (if mode = Working
      then [Reason_session_start, Reason_tool_result_boundary, Reason_obligation_retry_boundary,
            Reason_no_progress_boundary]
      else [Reason_session_start, Reason_obligation_retry_boundary, Reason_finalization_boundary,
            Reason_no_progress_finalization_boundary])"

definition context_checks ::
  "session_state \<Rightarrow> stored_event \<Rightarrow> context_compilation \<Rightarrow> reducer_error option" where
  "context_checks s e p = checks
     [throw_if (cc_checkpointId p \<noteq>
          context_checkpoint_id (ev_sessionId e) (length (st_contextCompilations s) + 1))
        (Context Context_checkpoint_id),
      throw_if (\<not> holds (active_route s) (\<lambda>r.
          ro_providerId r = cc_providerId p \<and> ro_model r = cc_model p)) (Context Context_route),
      (case latest_assistant s of
         None \<Rightarrow> Some (Context Context_assistant)
       | Some m \<Rightarrow> checks
         [throw_if (msg_providerId m \<noteq> Some (cc_providerId p) \<or> msg_model m \<noteq> Some (cc_model p))
            (Context Context_assistant),
          check_when (is_v2 s) (context_v2_checks s m p),
          throw_if (st_executionPolicy s \<noteq> None \<and>
              (msg_status m \<noteq> Msg_streaming \<or>
               int (length (st_contextCompilations s)) \<noteq> int (length (assistants s)) - 1))
            (Context Context_not_single)]),
      throw_if (cc_reason p \<notin> set (permitted_reasons (cc_mode p)))
        (Context Context_reason_mode),
      throw_if ((st_contextCompilations s = []) \<noteq> (cc_reason p = Reason_session_start))
        (Context Context_reason_start),
      throw_if (cc_compilerVersion p = Review_context_compiler_v1 \<and>
          st_taskTrack s \<noteq> Some Change_review_v1) (Context Context_review_track)]"

definition handle_context_compiled ::
  "session_state \<Rightarrow> stored_event \<Rightarrow> context_compilation \<Rightarrow> reducer_error + session_state" where
  "handle_context_compiled s e p =
     guarded (context_checks s e p)
       (Inr (s\<lparr>st_contextCompilations := st_contextCompilations s @ [recorded e p]\<rparr>))"

section \<open>Starting an attempt\<close>

definition attempt_checkpoint_links ::
  "stored_event \<Rightarrow> attempt_start \<Rightarrow> context_compilation recorded_entry \<Rightarrow> bool" where
  "attempt_checkpoint_links e p r \<longleftrightarrow>
     (let c = rec_payload r in
      rec_sequence r = ev_sequence e - 1 \<and> cc_checkpointId c = at_checkpointId p \<and>
      cc_messageId c = Some (at_messageId p) \<and> cc_attemptId c = Some (at_attemptId p) \<and>
      cc_decisionId c = Some (at_decisionId p) \<and> cc_leaseId c = Some (at_leaseId p))"

definition attempt_message_links :: "attempt_start \<Rightarrow> message \<Rightarrow> bool" where
  "attempt_message_links p m \<longleftrightarrow>
     msg_status m = Msg_streaming \<and> msg_id m = at_messageId p \<and>
     msg_attemptId m = Some (at_attemptId p) \<and> msg_checkpointId m = Some (at_checkpointId p) \<and>
     msg_decisionId m = Some (at_decisionId p) \<and> msg_leaseId m = Some (at_leaseId p)"

definition attempt_decision_links :: "attempt_start \<Rightarrow> routing_decision \<Rightarrow> bool" where
  "attempt_decision_links p d \<longleftrightarrow>
     rd_selectedLeaseId d = at_leaseId p \<and> rd_selectedProviderId d = at_providerId p \<and>
     rd_selectedModel d = at_requestedModel p \<and> rd_phase d = at_phase p"

definition is_paid :: "attempt_record \<Rightarrow> bool" where
  "is_paid a \<longleftrightarrow> at_budgetReservationId (attempt_of a) \<noteq> None"

definition attempt_decision_checks ::
  "session_state \<Rightarrow> stored_event \<Rightarrow> policy_v2 \<Rightarrow> attempt_start \<Rightarrow> routing_decision \<Rightarrow> reducer_error option" where
  "attempt_decision_checks s e policy p d = checks
     [throw_if (\<not> attempt_decision_links p d) (Attempt Attempt_decision),
      throw_if (effective_cost_scope (at_costScope p) \<noteq> effective_cost_scope (rd_costScope d) \<or>
          at_cloudEgressAdmissionId p \<noteq> rd_cloudEgressAdmissionId d) (Attempt Attempt_scope),
      throw_if (p2_routingPolicy policy = Hybrid_simulation_v1 \<and>
          at_costScope p \<noteq> Some Rt_simulation) (Attempt Attempt_simulation_scope),
      throw_if (rd_reasonCode d = Rr_cloud_admitted \<and>
          holds (rd_billing d) (\<lambda>b. bl_requestedMaxOutputTokens b \<noteq> at_requestedMaxOutputTokens p))
        (Attempt Attempt_output_allowance),
      throw_if (at_round p \<noteq> int (length (assistants s))) (Attempt Attempt_round),
      throw_if (\<not> holds (st_deadlineAt s) (\<lambda>dl. \<not> time_less_eq dl (ev_createdAt e)))
        (Attempt Attempt_deadline),
      throw_if (at_budgetReservationId p \<noteq> None \<and>
          int (length (filter is_paid (st_inferenceAttempts s))) \<ge> p2_maxPaidAttempts policy)
        (Attempt Attempt_paid_limit),
      throw_if (rd_budgetReservationId d \<noteq> at_budgetReservationId p) (Attempt Attempt_reservation)]"

definition attempt_start_checks ::
  "session_state \<Rightarrow> stored_event \<Rightarrow> policy_v2 \<Rightarrow> attempt_start \<Rightarrow> reducer_error option" where
  "attempt_start_checks s e policy p = checks
     [throw_if (at_structuredOutputContract p = Some Change_review_result_v1 \<and>
          st_taskTrack s \<noteq> Some Change_review_v1) (Attempt Attempt_review_track),
      single_open_check s,
      throw_if (open_inference_attempt s \<noteq> None) (Attempt Attempt_second_open),
      throw_if (list_ex (\<lambda>a. at_attemptId (attempt_of a) = at_attemptId p) (st_inferenceAttempts s))
        (Attempt Attempt_duplicate),
      throw_if (\<not> holds (at_last (st_contextCompilations s)) (attempt_checkpoint_links e p))
        (Attempt Attempt_checkpoint),
      throw_if (\<not> holds (latest_assistant s) (attempt_message_links p)) (Attempt Attempt_assistant),
      throw_if (\<not> holds (active_route s) (\<lambda>r. ro_leaseId r = Some (at_leaseId p) \<and>
          ro_providerId r = at_providerId p \<and> ro_model r = at_requestedModel p))
        (Attempt Attempt_route),
      (case find_decision s (at_decisionId p) of
         None \<Rightarrow> Some (Attempt Attempt_decision)
       | Some d \<Rightarrow> attempt_decision_checks s e policy p d)]"

definition handle_attempt_started ::
  "session_state \<Rightarrow> stored_event \<Rightarrow> attempt_start \<Rightarrow> reducer_error + session_state" where
  "handle_attempt_started s e p =
     (case v2_policy s of
        None \<Rightarrow> Inl (Attempt Attempt_not_v2)
      | Some policy \<Rightarrow>
          guarded (attempt_start_checks s e policy p)
            (Inr (s\<lparr>st_inferenceAttempts := st_inferenceAttempts s @
               [\<lparr>ar_start = recorded e p, ar_finished = None\<rparr>]\<rparr>)))"

section \<open>Finishing an attempt\<close>

definition unknown_cost_is_reservation :: "attempt_finish \<Rightarrow> routing_decision \<Rightarrow> bool" where
  "unknown_cost_is_reservation p d \<longleftrightarrow>
     rd_reasonCode d = Rr_cloud_admitted \<and>
     rd_budgetReservationId d \<noteq> None \<and>
     co_reservationId (fin_cost p) = rd_budgetReservationId d \<and>
     holds (rd_billing d) (\<lambda>b. co_amountMicrousd (fin_cost p) = bl_projectedCostMicrousd b)"

definition finish_cost_checks ::
  "session_state \<Rightarrow> policy_v2 \<Rightarrow> attempt_start \<Rightarrow> attempt_finish \<Rightarrow> reducer_error option" where
  "finish_cost_checks s policy a p = checks
     [throw_if ((at_budgetReservationId a = None) \<noteq> (co_reservationId (fin_cost p) = None) \<or>
          (at_budgetReservationId a \<noteq> None \<and>
           co_reservationId (fin_cost p) \<noteq> at_budgetReservationId a))
        (Attempt Finish_reservation),
      throw_if (effective_cost_scope (co_costScope (fin_cost p)) \<noteq> effective_cost_scope (at_costScope a))
        (Attempt Finish_scope),
      throw_if (p2_routingPolicy policy = Hybrid_simulation_v1 \<and>
          co_costScope (fin_cost p) \<noteq> Some Rt_simulation) (Attempt Finish_simulation_scope),
      (if at_budgetReservationId a = None
       then throw_if (co_amountMicrousd (fin_cost p) \<noteq> 0 \<or>
              co_provenance (fin_cost p) \<noteq> Local_zero_cost_policy) (Attempt Finish_unreserved_cost)
       else throw_if (co_provenance (fin_cost p) = Local_zero_cost_policy)
              (Attempt Finish_reserved_zero_cost)),
      throw_if (co_provenance (fin_cost p) = Reserved_unknown \<and>
          \<not> holds (find_decision s (at_decisionId a)) (unknown_cost_is_reservation p))
        (Attempt Finish_reserved_unknown)]"

definition finish_message_checks ::
  "attempt_start \<Rightarrow> attempt_finish \<Rightarrow> message \<Rightarrow> reducer_error option" where
  "finish_message_checks a p m = checks
     [throw_if (msg_role m \<noteq> Assistant \<or> msg_attemptId m \<noteq> Some (at_attemptId a))
        (Attempt Finish_message),
      check_when (fin_outcome p = Succeeded) (checks
        [throw_if (streaming m) (Attempt Finish_message_streaming),
         throw_if (fin_finishReason p \<noteq> msg_stopReason m) (Attempt Finish_reason),
         throw_if (at_requireToolCall a \<and> \<not> message_stop_reason_is ''tool_calls'' m)
           (Attempt Finish_tool_required),
         throw_if (\<not> at_allowTools a \<and> message_stop_reason_is ''tool_calls'' m)
           (Attempt Finish_tool_forbidden)])]"

definition finish_message :: "attempt_finish \<Rightarrow> message \<Rightarrow> message" where
  "finish_message p m =
     (if fin_outcome p = Succeeded then m
      else m\<lparr>msg_status := Msg_failed, msg_completionState := Some Incomplete,
             msg_stopReason := coalesce_opt (fin_finishReason p) (msg_stopReason m)\<rparr>)"

definition finish_attempt :: "stored_event \<Rightarrow> attempt_finish \<Rightarrow> attempt_record \<Rightarrow> attempt_record" where
  "finish_attempt e p a = a\<lparr>ar_finished := Some (recorded e p)\<rparr>"

definition finish_usage :: "attempt_finish \<Rightarrow> session_usage \<Rightarrow> session_usage" where
  "finish_usage p u =
     u\<lparr>us_inputTokens := us_inputTokens u + au_inputTokens (fin_usage p),
       us_outputTokens := us_outputTokens u + au_outputTokens (fin_usage p),
       us_reasoningTokens := us_reasoningTokens u + au_reasoningTokens (fin_usage p),
       us_costUsd := us_costUsd u +
         (if co_costScope (fin_cost p) = Some Rt_actual
          then of_int (co_amountMicrousd (fin_cost p)) / 1000000 else 0),
       us_latencyMs := us_latencyMs u + fin_latencyMs p,
       us_ttftMs := coalesce_opt (fin_ttftMs p) (us_ttftMs u)\<rparr>"

definition finish_start_checks ::
  "session_state \<Rightarrow> attempt_record \<Rightarrow> attempt_finish \<Rightarrow> reducer_error option" where
  "finish_start_checks s a p = checks
     [throw_if (ar_finished a \<noteq> None) (Attempt Finish_twice),
      single_open_check s,
      throw_if (\<not> holds (open_inference_attempt s) (\<lambda>oa.
          at_attemptId (attempt_of oa) = at_attemptId (attempt_of a))) (Attempt Finish_not_open),
      throw_if (fin_checkpointId p \<noteq> at_checkpointId (attempt_of a)) (Attempt Finish_checkpoint),
      throw_if (holds (fin_servedModel p) (\<lambda>m. m \<noteq> at_requestedModel (attempt_of a)))
        (Attempt Finish_model)]"

definition record_finish ::
  "session_state \<Rightarrow> stored_event \<Rightarrow> attempt_start \<Rightarrow> attempt_finish \<Rightarrow> reducer_error + session_state" where
  "record_finish s e a p =
     bind_result (add_scoped_cost (st_costScopes s) (effective_cost_scope (co_costScope (fin_cost p)))
         Settled_cost (co_amountMicrousd (fin_cost p))) (\<lambda>costs.
       Inr (s\<lparr>st_messages := update_first (\<lambda>m. msg_id m = at_messageId a) (finish_message p)
                (st_messages s),
              st_inferenceAttempts := update_first (\<lambda>r. at_attemptId (attempt_of r) = fin_attemptId p)
                (finish_attempt e p) (st_inferenceAttempts s),
              st_usage := finish_usage p (st_usage s),
              st_costScopes := costs\<rparr>))"

definition handle_attempt_finished ::
  "session_state \<Rightarrow> stored_event \<Rightarrow> attempt_finish \<Rightarrow> reducer_error + session_state" where
  "handle_attempt_finished s e p =
     (case v2_policy s of
        None \<Rightarrow> Inl (Attempt Finish_not_v2)
      | Some policy \<Rightarrow>
          bind_result (find_inference_attempt s (fin_attemptId p)) (\<lambda>a.
            guarded (checks [finish_start_checks s a p, finish_cost_checks s policy (attempt_of a) p])
              (bind_result (find_message s (at_messageId (attempt_of a))) (\<lambda>m.
                guarded (finish_message_checks (attempt_of a) p m)
                  (record_finish s e (attempt_of a) p)))))"

end
