(* ===== verification/SessionReducer.thy ===== *)
theory SessionReducer
  imports ReducerRouting ReducerMessages ReducerAttempts
begin

text \<open>
  The remaining handlers of \<open>shared/session-reducer.ts\<close>
  (\<open>completion.obligations.checked\<close>, \<open>usage.recorded\<close>), the reducer that dispatches on the
  type of an event, and the replay of a stream of events.
\<close>

section \<open>Completion checks\<close>

fun find_index :: "('a \<Rightarrow> bool) \<Rightarrow> 'a list \<Rightarrow> int" where
  "find_index p [] = - 1"
| "find_index p (x # xs) =
     (if p x then 0 else let i = find_index p xs in if i < 0 then i else i + 1)"

definition check_order_checks ::
  "session_state \<Rightarrow> stored_event \<Rightarrow> obligation_check \<Rightarrow> reducer_error option" where
  "check_order_checks s e p = checks
     [check_when (is_v2 s)
        (throw_if (\<not> holds (latest_attempt s) (\<lambda>a. attempt_succeeded a \<and>
             at_messageId (attempt_of a) = ck_messageId p) \<or>
             st_lastV2EventType s \<noteq> Some T_attempt_finished) (Completion Check_without_attempt)),
      throw_if (\<not> has_completion_obligations (st_completionObligations s))
        (Completion Check_no_obligations),
      throw_if (ck_checkId p \<noteq> completion_check_id (ev_sessionId e) (ck_round p)) (Completion Check_id),
      throw_if (list_ex (\<lambda>c. ck_checkId (rec_payload c) = ck_checkId p) (st_completionChecks s))
        (Completion Check_duplicate),
      throw_if (list_ex (\<lambda>c. ck_messageId (rec_payload c) = ck_messageId p) (st_completionChecks s))
        (Completion Check_message_checked),
      throw_if (holds (at_last (st_completionChecks s)) (\<lambda>c. ck_round p \<le> ck_round (rec_payload c)))
        (Completion Check_round_order),
      throw_if (holds (at_last (st_completionChecks s)) (\<lambda>c.
          ck_outcome (rec_payload c) = Obl_retry \<and>
          ck_remainingRounds p \<ge> ck_remainingRounds (rec_payload c)))
        (Completion Check_remaining_rounds)]"

definition check_message_checks ::
  "session_state \<Rightarrow> message \<Rightarrow> obligation_check \<Rightarrow> reducer_error option" where
  "check_message_checks s m p = checks
     [throw_if (msg_role m \<noteq> Assistant \<or> streaming m) (Completion Check_message),
      throw_if (\<not> holds (latest_assistant s) (\<lambda>l. msg_id l = msg_id m)) (Completion Check_not_latest),
      throw_if (\<not> holds (at_last (st_messages s)) (\<lambda>l. msg_id l = msg_id m))
        (Completion Check_not_final),
      throw_if (ck_round p \<noteq> find_index (\<lambda>a. msg_id a = msg_id m) (assistants s) + 1)
        (Completion Check_round),
      throw_if (holds (st_executionPolicy s) (\<lambda>policy.
          ck_remainingRounds p > policy_inference_rounds policy - ck_round p))
        (Completion Check_round_budget),
      throw_if (js_trim (msg_content m) = [] \<or> length (message_tool_calls m) > 0 \<or>
          \<not> message_stop_reason_is ''stop'' m) (Completion Check_not_stop)]"

definition structured_review :: "session_state \<Rightarrow> message \<Rightarrow> bool" where
  "structured_review s m \<longleftrightarrow> st_taskTrack s = Some Change_review_v1 \<and> review_accepted_message m"

definition replayed_citations :: "replay_env \<Rightarrow> session_state \<Rightarrow> message \<Rightarrow> citation_integrity" where
  "replayed_citations env s m =
     (if structured_review s m
      then \<lparr>ci_content = msg_content m, ci_verifiedCitations = [], ci_unresolved = []\<rparr>
      else env_normalize_citations env (msg_content m) (st_messages s))"

definition obligations_satisfied :: "session_state \<Rightarrow> tool_name list \<Rightarrow> obligation_check \<Rightarrow> bool" where
  "obligations_satisfied s missing p \<longleftrightarrow>
     missing = [] \<and>
     int (length (ck_verifiedPathLineCitations p)) \<ge>
       ob_minimumVerifiedPathLineCitations (st_completionObligations s) \<and>
     ck_unresolvedCitationCount p = 0"

definition expected_outcome :: "session_state \<Rightarrow> tool_name list \<Rightarrow> obligation_check \<Rightarrow> obligation_outcome" where
  "expected_outcome s missing p =
     (if obligations_satisfied s missing p then Obl_accepted
      else if ck_remainingRounds p > 0 then Obl_retry else Obl_exhausted)"

definition check_evidence_checks ::
  "replay_env \<Rightarrow> session_state \<Rightarrow> message \<Rightarrow> obligation_check \<Rightarrow> reducer_error option" where
  "check_evidence_checks env s m p =
     (let required = ob_requiredSuccessfulTools (st_completionObligations s);
          successful = completed_required_tool_prefix env (st_messages s) required;
          missing = drop (length successful) required;
          ci = replayed_citations env s m
      in checks
       [throw_if (ck_successfulRequiredTools p \<noteq> successful \<or> ck_missingRequiredTools p \<noteq> missing)
          (Completion Check_tool_progress),
        throw_if (ci_content ci \<noteq> msg_content m \<or>
            ck_verifiedPathLineCitations p \<noteq>
              (if ci_unresolved ci = [] then ci_verifiedCitations ci else []) \<or>
            ck_unresolvedCitationCount p \<noteq> int (length (ci_unresolved ci)))
          (Completion Check_citations),
        throw_if (ck_outcome p \<noteq> expected_outcome s missing p) (Completion Check_outcome),
        throw_if (msg_completionState m \<noteq>
            Some (if ck_outcome p = Obl_accepted then Complete else Incomplete))
          (Completion Check_completion_state)])"

definition handle_obligations_checked ::
  "replay_env \<Rightarrow> session_state \<Rightarrow> stored_event \<Rightarrow> obligation_check \<Rightarrow> reducer_error + session_state" where
  "handle_obligations_checked env s e p =
     guarded (check_order_checks s e p)
       (bind_result (find_message s (ck_messageId p)) (\<lambda>m.
         guarded (checks [check_message_checks s m p, check_evidence_checks env s m p])
           (Inr (s\<lparr>st_completionChecks := st_completionChecks s @ [recorded e p]\<rparr>))))"

section \<open>Usage of version 1 sessions\<close>

definition record_usage :: "usage_payload \<Rightarrow> session_usage \<Rightarrow> session_usage" where
  "record_usage p u =
     u\<lparr>us_inputTokens := us_inputTokens u + ur_inputTokens p,
       us_outputTokens := us_outputTokens u + ur_outputTokens p,
       us_reasoningTokens := us_reasoningTokens u + ur_reasoningTokens p,
       us_latencyMs := us_latencyMs u + coalesce (ur_latencyMs p) 0,
       us_ttftMs := coalesce_opt (ur_ttftMs p) (us_ttftMs u)\<rparr>"

definition handle_usage_recorded :: "session_state \<Rightarrow> usage_payload \<Rightarrow> reducer_error + session_state" where
  "handle_usage_recorded s p =
     guarded (checks
       [throw_if (is_v2 s) (Completion Usage_not_v1),
        ensure_current_assistant_checkpoint s None,
        throw_if (st_executionPolicy s \<noteq> None \<and> holds (latest_assistant s) streaming)
          (Completion Usage_streaming)])
       (Inr (s\<lparr>st_usage := record_usage p (st_usage s)\<rparr>))"

section \<open>The reducer\<close>

fun handle_event ::
  "replay_env \<Rightarrow> session_state \<Rightarrow> stored_event \<Rightarrow> session_event_data \<Rightarrow> reducer_error + session_state" where
  "handle_event env s e (SessionCreated p) = Inl (Lifecycle Already_created)"
| "handle_event env s e (SessionStarted p) = handle_session_started s e p"
| "handle_event env s e (UserMessage p) = handle_user_message s p"
| "handle_event env s e (SynthesisCheckpointImported p) = handle_checkpoint_imported s e p"
| "handle_event env s e (CloudEgressAdmissionRecorded p) = handle_egress_admission env s e p"
| "handle_event env s e (RoutingDecisionRecorded p) = handle_routing_decision env s e p"
| "handle_event env s e (RouteAssigned p) = handle_route_assigned s e p"
| "handle_event env s e (AssistantMessageStarted p) = handle_assistant_started s e p"
| "handle_event env s e (AssistantMessageDelta p) = handle_assistant_delta s p"
| "handle_event env s e (AssistantMessageCompleted p) = handle_assistant_completed s p"
| "handle_event env s e (ToolCallRequested p) = handle_tool_requested env s p"
| "handle_event env s e (ToolCallCompleted p) = handle_tool_completed s e p"
| "handle_event env s e (ContextCompiled p) = handle_context_compiled s e p"
| "handle_event env s e (InferenceAttemptStarted p) = handle_attempt_started s e p"
| "handle_event env s e (InferenceAttemptFinished p) = handle_attempt_finished s e p"
| "handle_event env s e (CompletionObligationsChecked p) = handle_obligations_checked env s e p"
| "handle_event env s e (UsageRecorded p) = handle_usage_recorded s p"
| "handle_event env s e (SessionCompleted r) = handle_session_completed s e r"
| "handle_event env s e (SessionFailed err) = handle_session_failed s err"
| "handle_event env s e (SessionCancelled r) = handle_session_cancelled s r"
| "handle_event env s e (SessionInterrupted r) = handle_session_interrupted s r"

text \<open>The bookkeeping after the handler: the last event of a version 2 session.\<close>

definition mark_v2 :: "stored_event \<Rightarrow> session_state \<Rightarrow> session_state" where
  "mark_v2 e s = (if is_v2 s then s\<lparr>st_lastV2EventType := Some (event_type e)\<rparr> else s)"

definition reduce_first :: "stored_event \<Rightarrow> reducer_error + session_state" where
  "reduce_first e =
     (case ev_data e of
        SessionCreated p \<Rightarrow>
          guarded (throw_if (ev_sequence e \<noteq> 1) (Grammar First_sequence_not_one))
            (Inr (create_initial_session_state e p))
      | _ \<Rightarrow> Inl (Grammar First_event_not_created))"

definition reduce_next ::
  "replay_env \<Rightarrow> session_state \<Rightarrow> stored_event \<Rightarrow> reducer_error + session_state" where
  "reduce_next env s e =
     guarded (event_guards s e)
       (bind_result (handle_event env (next_state s e) e (ev_data e)) (\<lambda>s'. Inr (mark_v2 e s')))"

fun reduce_session_event ::
  "replay_env \<Rightarrow> session_state option \<Rightarrow> stored_event \<Rightarrow> reducer_error + session_state" where
  "reduce_session_event env None e = reduce_first e"
| "reduce_session_event env (Some s) e = reduce_next env s e"

fun replay_from ::
  "replay_env \<Rightarrow> session_state \<Rightarrow> stored_event list \<Rightarrow> reducer_error + session_state" where
  "replay_from env s [] = Inr s"
| "replay_from env s (e # es) = bind_result (reduce_session_event env (Some s) e) (\<lambda>s'. replay_from env s' es)"

fun replay_session :: "replay_env \<Rightarrow> stored_event list \<Rightarrow> reducer_error + session_state" where
  "replay_session env [] = Inl (Grammar Empty_stream)"
| "replay_session env (e # es) =
     bind_result (reduce_session_event env None e) (\<lambda>s. replay_from env s es)"

end
