(* ===== verification/Replay.thy ===== *)
theory Replay
  imports Prelude
begin

text \<open>
  The interface of a state that is rebuilt from a log: a fallible step and the run of a
  list of events with it. Sessions, the campaigns of the budget ledger and the operations of
  the credential journal are such states. The facts hold for every provider of the two laws.
\<close>

locale event_replay =
  fixes step :: "'s \<Rightarrow> 'e \<Rightarrow> 'err + 's"
    and run :: "'s \<Rightarrow> 'e list \<Rightarrow> 'err + 's"
  assumes run_Nil: "run s [] = Inr s"
    and run_Cons: "run s (e # es) = bind_result (step s e) (\<lambda>s'. run s' es)"
begin

lemma run_append: "run s (es @ fs) = bind_result (run s es) (\<lambda>s'. run s' fs)"
proof (induction es arbitrary: s)
  case Nil
  then show ?case by (simp add: run_Nil)
next
  case (Cons e es)
  then show ?case by (cases "step s e") (simp_all add: run_Cons)
qed

lemma run_snoc: "run s (es @ [e]) = bind_result (run s es) (\<lambda>s'. step s' e)"
proof -
  have "run s' [e] = step s' e" for s'
    by (cases "step s' e") (simp_all add: run_Cons run_Nil)
  then show ?thesis by (simp add: run_append)
qed

text \<open>An invariant of the step is one of the run.\<close>

lemma run_invariant:
  assumes step: "\<And>s e s'. P s \<Longrightarrow> step s e = Inr s' \<Longrightarrow> P s'"
    and start: "P s" and run: "run s es = Inr s'"
  shows "P s'"
  using start run
proof (induction es arbitrary: s)
  case Nil
  then show ?case by (simp add: run_Nil)
next
  case (Cons e es)
  from Cons.prems(2) obtain m where "step s e = Inr m" "run m es = Inr s'"
    by (auto simp: run_Cons bind_result_Inr)
  with Cons.IH Cons.prems(1) step show ?case by blast
qed

text \<open>So is a reflexive and transitive relation between the two ends of every step.\<close>

lemma run_relation:
  assumes step: "\<And>s e s'. step s e = Inr s' \<Longrightarrow> R s s'"
    and refl: "\<And>s. R s s" and trans: "\<And>a b c. R a b \<Longrightarrow> R b c \<Longrightarrow> R a c"
    and run: "run s es = Inr s'"
  shows "R s s'"
  using run
proof (induction es arbitrary: s)
  case Nil
  then show ?case by (simp add: run_Nil refl)
next
  case (Cons e es)
  from Cons.prems obtain m where "step s e = Inr m" "run m es = Inr s'"
    by (auto simp: run_Cons bind_result_Inr)
  with Cons.IH step trans show ?case by blast
qed

lemma run_prefix:
  assumes "run s (es @ fs) = Inr s'"
  obtains m where "run s es = Inr m" "run m fs = Inr s'"
  using assms by (auto simp: run_append bind_result_Inr)

end

text \<open>A state that grows an invariant from its first event.\<close>

locale replay_invariant = event_replay step run
  for step :: "'s \<Rightarrow> 'e \<Rightarrow> 'err + 's" and run :: "'s \<Rightarrow> 'e list \<Rightarrow> 'err + 's" +
  fixes start :: "'e \<Rightarrow> 'err + 's" and inv :: "'s \<Rightarrow> bool"
  assumes start_inv: "start e = Inr s \<Longrightarrow> inv s"
    and step_inv: "inv s \<Longrightarrow> step s e = Inr s' \<Longrightarrow> inv s'"
begin

lemma replay_inv:
  assumes "bind_result (start e) (\<lambda>s. run s es) = Inr s'"
  shows "inv s'"
proof -
  obtain s where s: "start e = Inr s" "run s es = Inr s'"
    using assms by (auto simp: bind_result_Inr)
  show ?thesis by (rule run_invariant [where P = inv, OF _ start_inv [OF s(1)] s(2)]) (rule step_inv)
qed

end

end
