(* ===== verification/ReducerFacts.thy ===== *)
theory ReducerFacts
  imports SessionReducer Replay
begin

text \<open>
  What the invariants of a session share: the fields the frame of the reducer leaves alone,
  the result of every handler that does not throw (\<open>handler_ok\<close>), and how the lookups react
  to the updates of the message list.
\<close>

named_theorems handler_ok \<open>the success of a handler as its checks and its new state\<close>
named_theorems frame_simps \<open>fields and queries an update leaves alone\<close>

lemma next_state_fields [simp, frame_simps]:
  "st_id (next_state s e) = st_id s"
  "st_taskTrack (next_state s e) = st_taskTrack s"
  "st_status (next_state s e) = st_status s"
  "st_updatedAt (next_state s e) = ev_createdAt e"
  "st_lastSequence (next_state s e) = ev_sequence e"
  "st_messages (next_state s e) = st_messages s"
  "st_routes (next_state s e) = st_routes s"
  "st_contextCompilations (next_state s e) = st_contextCompilations s"
  "st_cloudEgressAdmissions (next_state s e) = st_cloudEgressAdmissions s"
  "st_routingDecisions (next_state s e) = st_routingDecisions s"
  "st_inferenceAttempts (next_state s e) = st_inferenceAttempts s"
  "st_synthesisCheckpointImport (next_state s e) = st_synthesisCheckpointImport s"
  "st_executionPolicy (next_state s e) = st_executionPolicy s"
  "st_hybridSimulation (next_state s e) = st_hybridSimulation s"
  "st_completionObligations (next_state s e) = st_completionObligations s"
  "st_completionChecks (next_state s e) = st_completionChecks s"
  "st_usage (next_state s e) = st_usage s"
  "st_costScopes (next_state s e) = st_costScopes s"
  "st_result (next_state s e) = st_result s"
  "st_error (next_state s e) = st_error s"
  "st_lastV2EventType (next_state s e) = st_lastV2EventType s"
  "st_startedAt (next_state s e) = st_startedAt s"
  "st_deadlineAt (next_state s e) = st_deadlineAt s"
  by (simp_all add: next_state_def)

lemma mark_v2_fields [simp, frame_simps]:
  "st_id (mark_v2 e s) = st_id s"
  "st_taskTrack (mark_v2 e s) = st_taskTrack s"
  "st_status (mark_v2 e s) = st_status s"
  "st_updatedAt (mark_v2 e s) = st_updatedAt s"
  "st_lastSequence (mark_v2 e s) = st_lastSequence s"
  "st_messages (mark_v2 e s) = st_messages s"
  "st_routes (mark_v2 e s) = st_routes s"
  "st_contextCompilations (mark_v2 e s) = st_contextCompilations s"
  "st_cloudEgressAdmissions (mark_v2 e s) = st_cloudEgressAdmissions s"
  "st_routingDecisions (mark_v2 e s) = st_routingDecisions s"
  "st_inferenceAttempts (mark_v2 e s) = st_inferenceAttempts s"
  "st_synthesisCheckpointImport (mark_v2 e s) = st_synthesisCheckpointImport s"
  "st_executionPolicy (mark_v2 e s) = st_executionPolicy s"
  "st_hybridSimulation (mark_v2 e s) = st_hybridSimulation s"
  "st_completionObligations (mark_v2 e s) = st_completionObligations s"
  "st_completionChecks (mark_v2 e s) = st_completionChecks s"
  "st_usage (mark_v2 e s) = st_usage s"
  "st_costScopes (mark_v2 e s) = st_costScopes s"
  "st_result (mark_v2 e s) = st_result s"
  "st_error (mark_v2 e s) = st_error s"
  "st_startedAt (mark_v2 e s) = st_startedAt s"
  "st_deadlineAt (mark_v2 e s) = st_deadlineAt s"
  by (simp_all add: mark_v2_def)

lemma v2_policy_cong: "st_executionPolicy s = st_executionPolicy t \<Longrightarrow> v2_policy s = v2_policy t"
  by (simp add: v2_policy_def)

lemma query_frames [simp, frame_simps]:
  "v2_policy (next_state s e) = v2_policy s"
  "v2_policy (mark_v2 e s) = v2_policy s"
  "assistants (next_state s e) = assistants s"
  "assistants (mark_v2 e s) = assistants s"
  "all_tool_calls (next_state s e) = all_tool_calls s"
  "all_tool_calls (mark_v2 e s) = all_tool_calls s"
  "latest_assistant (next_state s e) = latest_assistant s"
  "latest_assistant (mark_v2 e s) = latest_assistant s"
  "open_inference_attempts (next_state s e) = open_inference_attempts s"
  "open_inference_attempts (mark_v2 e s) = open_inference_attempts s"
  "open_inference_attempt (next_state s e) = open_inference_attempt s"
  "latest_attempt (next_state s e) = latest_attempt s"
  "latest_attempt (mark_v2 e s) = latest_attempt s"
  "active_route (next_state s e) = active_route s"
  "active_route (mark_v2 e s) = active_route s"
  "route_providers (next_state s e) = route_providers s"
  "route_providers (mark_v2 e s) = route_providers s"
  "find_decision (next_state s e) = find_decision s"
  "find_decision (mark_v2 e s) = find_decision s"
  by (simp_all add: v2_policy_def assistants_def all_tool_calls_def latest_assistant_def
      open_inference_attempts_def open_inference_attempt_def latest_attempt_def active_route_def
      route_providers_def find_decision_def fun_eq_iff)

lemma mark_v2_last: "st_lastV2EventType (mark_v2 e s) =
    (if is_v2 s then Some (event_type e) else st_lastV2EventType s)"
  by (simp add: mark_v2_def)

section \<open>Successful handlers\<close>

lemma find_message_Inr [check_simps]:
  "find_message s mid = Inr m \<longleftrightarrow> find (\<lambda>m. msg_id m = mid) (st_messages s) = Some m"
  by (simp add: find_message_def split: option.split)

lemma find_inference_attempt_Inr [check_simps]:
  "find_inference_attempt s aid = Inr a \<longleftrightarrow>
     find (\<lambda>a. at_attemptId (attempt_of a) = aid) (st_inferenceAttempts s) = Some a"
  by (simp add: find_inference_attempt_def split: option.split)

lemma handle_session_started_ok [handler_ok]:
  "handle_session_started s e p = Inr s' \<Longrightarrow>
     st_status s = Created \<and>
     (case v2_policy s of
        None \<Rightarrow> sp_startedAt p = None \<and> sp_deadlineAt p = None \<and>
          s' = s\<lparr>st_status := Running, st_error := None\<rparr>
      | Some policy \<Rightarrow> \<exists>deadline. sp_startedAt p = Some (ev_createdAt e) \<and>
          sp_deadlineAt p = Some deadline \<and>
          expected_deadline (ev_createdAt e) (p2_maxEpisodeDurationMs policy) = Some deadline \<and>
          s' = s\<lparr>st_startedAt := Some (ev_createdAt e), st_deadlineAt := Some deadline,
                 st_status := Running, st_error := None\<rparr>)"
  by (auto simp: handle_session_started_def check_simps split: option.splits)

lemma handle_user_message_ok [handler_ok]:
  "handle_user_message s p = Inr s' \<Longrightarrow>
     (\<forall>m\<in>set (st_messages s). msg_id m \<noteq> um_messageId p) \<and>
     s' = s\<lparr>st_messages := st_messages s @ [new_message (um_messageId p) User (um_content p) Msg_completed]\<rparr>"
  by (auto simp: handle_user_message_def check_simps assert_unique_message_id_def list_ex_iff)

lemma handle_routing_decision_ok [handler_ok]:
  "handle_routing_decision env s e d = Inr s' \<Longrightarrow>
     \<exists>policy costs. v2_policy s = Some policy \<and> routing_checks env s e policy d = None \<and>
       reserve_decision_cost s d = Inr costs \<and>
       s' = s\<lparr>st_routingDecisions := st_routingDecisions s @ [recorded e d], st_costScopes := costs\<rparr>"
  by (auto simp: handle_routing_decision_def check_simps split: option.splits)

lemma handle_attempt_started_ok [handler_ok]:
  "handle_attempt_started s e p = Inr s' \<Longrightarrow>
     \<exists>policy. v2_policy s = Some policy \<and> attempt_start_checks s e policy p = None \<and>
       s' = s\<lparr>st_inferenceAttempts := st_inferenceAttempts s @
               [\<lparr>ar_start = recorded e p, ar_finished = None\<rparr>]\<rparr>"
  by (auto simp: handle_attempt_started_def check_simps split: option.splits)

lemma record_finish_ok [handler_ok]:
  "record_finish s e a p = Inr s' \<Longrightarrow>
     \<exists>costs. add_scoped_cost (st_costScopes s) (effective_cost_scope (co_costScope (fin_cost p)))
         Settled_cost (co_amountMicrousd (fin_cost p)) = Inr costs \<and>
       s' = s\<lparr>st_messages := update_first (\<lambda>m. msg_id m = at_messageId a) (finish_message p)
                (st_messages s),
              st_inferenceAttempts := update_first (\<lambda>r. at_attemptId (attempt_of r) = fin_attemptId p)
                (finish_attempt e p) (st_inferenceAttempts s),
              st_usage := finish_usage p (st_usage s), st_costScopes := costs\<rparr>"
  by (auto simp: record_finish_def check_simps)

lemma handle_attempt_finished_ok [handler_ok]:
  "handle_attempt_finished s e p = Inr s' \<Longrightarrow>
     \<exists>policy a m costs. v2_policy s = Some policy \<and>
       find (\<lambda>a. at_attemptId (attempt_of a) = fin_attemptId p) (st_inferenceAttempts s) = Some a \<and>
       finish_start_checks s a p = None \<and> finish_cost_checks s policy (attempt_of a) p = None \<and>
       find (\<lambda>m. msg_id m = at_messageId (attempt_of a)) (st_messages s) = Some m \<and>
       finish_message_checks (attempt_of a) p m = None \<and>
       add_scoped_cost (st_costScopes s) (effective_cost_scope (co_costScope (fin_cost p)))
         Settled_cost (co_amountMicrousd (fin_cost p)) = Inr costs \<and>
       s' = s\<lparr>st_messages := update_first (\<lambda>m. msg_id m = at_messageId (attempt_of a))
                (finish_message p) (st_messages s),
              st_inferenceAttempts := update_first (\<lambda>r. at_attemptId (attempt_of r) = fin_attemptId p)
                (finish_attempt e p) (st_inferenceAttempts s),
              st_usage := finish_usage p (st_usage s), st_costScopes := costs\<rparr>"
  unfolding handle_attempt_finished_def
  by (auto simp only: check_simps simp_thms split: option.splits dest!: record_finish_ok)

lemma handle_checkpoint_imported_ok [handler_ok]:
  "handle_checkpoint_imported s e p = Inr s' \<Longrightarrow>
     st_lastV2EventType s = Some T_session_started \<and> st_routes s = [] \<and>
     st_synthesisCheckpointImport s = None \<and> is_v2 s \<and>
     (\<exists>r. s' = s\<lparr>st_synthesisCheckpointImport := Some (recorded e p),
                st_routes := st_routes s @ [recorded e r]\<rparr>)"
  by (auto simp: handle_checkpoint_imported_def check_simps split: option.splits)

lemma handle_egress_admission_ok [handler_ok]:
  "handle_egress_admission env s e p = Inr s' \<Longrightarrow>
     is_v2 s \<and> (has_complete_routing_evidence env s \<or> imported_checkpoint_matches_admission s p) \<and>
     (\<forall>r\<in>set (st_cloudEgressAdmissions s). ea_admissionId (rec_payload r) \<noteq> ea_admissionId p \<and>
        ea_checkpointId (rec_payload r) \<noteq> ea_checkpointId p) \<and>
     s' = s\<lparr>st_cloudEgressAdmissions := st_cloudEgressAdmissions s @ [recorded e p]\<rparr>"
  by (auto simp: handle_egress_admission_def check_simps list_ex_iff split: option.splits)

lemma handle_route_assigned_ok [handler_ok]:
  "handle_route_assigned s e p = Inr s' \<Longrightarrow>
     (\<forall>policy. v2_policy s = Some policy \<longrightarrow>
        holds (at_last (st_routingDecisions s)) (route_matches_decision e p) \<and>
        (\<forall>r\<in>set (st_routes s). ro_leaseId (rec_payload r) \<noteq> ro_leaseId p) \<and>
        int (provider_changes_with s (ro_providerId p)) \<le> p2_maxProviderChanges policy) \<and>
     s' = s\<lparr>st_routes := st_routes s @ [recorded e p]\<rparr>"
  by (auto simp: handle_route_assigned_def check_simps list_ex_iff split: option.splits)

lemma handle_assistant_started_ok [handler_ok]:
  "handle_assistant_started s e p = Inr s' \<Longrightarrow>
     (\<forall>m\<in>set (st_messages s). msg_id m \<noteq> as_messageId p) \<and>
     (is_v2 s \<longrightarrow> assistant_v2_checks s e p = None) \<and> assistant_policy_checks s p = None \<and>
     (\<forall>m\<in>set (st_messages s). \<not> streaming m) \<and>
     (\<forall>t\<in>set (all_tool_calls s). \<not> pending_tool t) \<and>
     s' = s\<lparr>st_messages := st_messages s @ [new_assistant_message p]\<rparr>"
  by (auto simp: handle_assistant_started_def check_simps assert_unique_message_id_def list_ex_iff)

lemma handle_assistant_delta_ok [handler_ok]:
  "handle_assistant_delta s p = Inr s' \<Longrightarrow>
     \<exists>m. find (\<lambda>m. msg_id m = de_messageId p) (st_messages s) = Some m \<and>
       msg_role m = Assistant \<and> msg_status m = Msg_streaming \<and>
       (is_v2 s \<longrightarrow> (\<exists>a. open_inference_attempt s = Some a \<and>
          at_messageId (attempt_of a) = msg_id m)) \<and>
       s' = update_message (de_messageId p) (\<lambda>m. m\<lparr>msg_content := msg_content m @ de_delta p\<rparr>) s"
  by (auto simp: handle_assistant_delta_def check_simps)

lemma handle_assistant_completed_ok [handler_ok]:
  "handle_assistant_completed s p = Inr s' \<Longrightarrow>
     \<exists>m. find (\<lambda>m. msg_id m = ac_messageId p) (st_messages s) = Some m \<and>
       msg_role m = Assistant \<and> msg_status m = Msg_streaming \<and>
       (is_v2 s \<longrightarrow> completion_v2_checks s m p = None) \<and>
       s' = update_message (ac_messageId p) (complete_message p) s"
  by (auto simp: handle_assistant_completed_def check_simps)

lemma handle_tool_requested_ok [handler_ok]:
  "handle_tool_requested env s p = Inr s' \<Longrightarrow>
     \<exists>mid m. find (\<lambda>m. msg_id m = mid) (st_messages s) = Some m \<and>
       tool_request_checks env s m p = None \<and> s' = update_message mid (add_tool_call p) s"
  by (auto simp: handle_tool_requested_def check_simps split: option.splits)

lemma handle_tool_completed_ok [handler_ok]:
  "handle_tool_completed s e p = Inr s' \<Longrightarrow>
     \<exists>parent t. matching_tool_calls s (td_toolCallId p) = [(parent, t)] \<and>
       tool_completion_checks s e parent t p = None \<and>
       s' = s\<lparr>st_messages := map (finish_message_tool_calls p) (st_messages s) @ [new_tool_message e p]\<rparr>"
  by (auto simp: handle_tool_completed_def check_simps split: list.splits prod.splits)

lemma handle_context_compiled_ok [handler_ok]:
  "handle_context_compiled s e p = Inr s' \<Longrightarrow> context_checks s e p = None \<and>
     s' = s\<lparr>st_contextCompilations := st_contextCompilations s @ [recorded e p]\<rparr>"
  by (auto simp: handle_context_compiled_def check_simps)

lemma handle_obligations_checked_ok [handler_ok]:
  "handle_obligations_checked env s e p = Inr s' \<Longrightarrow> check_order_checks s e p = None \<and>
     (\<exists>m. find (\<lambda>m. msg_id m = ck_messageId p) (st_messages s) = Some m \<and>
       check_message_checks s m p = None \<and> check_evidence_checks env s m p = None) \<and>
     s' = s\<lparr>st_completionChecks := st_completionChecks s @ [recorded e p]\<rparr>"
  by (auto simp: handle_obligations_checked_def check_simps)

lemma handle_usage_recorded_ok [handler_ok]:
  "handle_usage_recorded s p = Inr s' \<Longrightarrow> \<not> is_v2 s \<and> s' = s\<lparr>st_usage := record_usage p (st_usage s)\<rparr>"
  by (auto simp: handle_usage_recorded_def check_simps)

lemma handle_session_completed_ok [handler_ok]:
  "handle_session_completed s e r = Inr s' \<Longrightarrow>
     assert_v2_terminal_ready s T_session_completed = None \<and>
     (is_v2 s \<longrightarrow> (\<exists>m. latest_assistant s = Some m \<and> msg_status m = Msg_completed \<and>
        \<not> result_differs r m)) \<and>
     (has_completion_obligations (st_completionObligations s) \<longrightarrow>
       (\<exists>m c. latest_assistant s = Some m \<and> at_last (st_completionChecks s) = Some c \<and>
          accepted_check_for e m c \<and> \<not> result_differs r m)) \<and>
     s' = s\<lparr>st_status := Completed,
            st_result := coalesce_opt r (map_option msg_content (latest_assistant s))\<rparr>"
  by (auto simp: handle_session_completed_def check_simps)

lemma handle_session_failed_ok [handler_ok]:
  "handle_session_failed s err = Inr s' \<Longrightarrow> assert_v2_terminal_ready s T_session_failed = None \<and>
     s' = s\<lparr>st_status := Failed, st_error := Some err\<rparr>"
  by (auto simp: handle_session_failed_def check_simps)

lemma handle_session_cancelled_ok [handler_ok]:
  "handle_session_cancelled s r = Inr s' \<Longrightarrow> assert_v2_terminal_ready s T_session_cancelled = None \<and>
     s' = s\<lparr>st_status := Cancelled, st_error := r\<rparr>"
  by (auto simp: handle_session_cancelled_def check_simps)

lemma handle_session_interrupted_ok [handler_ok]:
  "handle_session_interrupted s r = Inr s' \<Longrightarrow>
     assert_v2_terminal_ready s T_session_interrupted = None \<and>
     s' = s\<lparr>st_status := Interrupted, st_error := Some r,
            st_messages := map fail_streaming (st_messages s)\<rparr>"
  by (auto simp: handle_session_interrupted_def check_simps)

lemma reduce_next_ok:
  "reduce_next env s e = Inr s' \<Longrightarrow>
     \<exists>t. event_guards s e = None \<and> handle_event env (next_state s e) e (ev_data e) = Inr t \<and>
       s' = mark_v2 e t"
  by (auto simp: reduce_next_def check_simps)

lemma reduce_first_ok:
  "reduce_first e = Inr s' \<Longrightarrow>
     \<exists>p. ev_data e = SessionCreated p \<and> ev_sequence e = 1 \<and> s' = create_initial_session_state e p"
  by (auto simp: reduce_first_def check_simps split: session_event_data.splits)

section \<open>The replay as an instance of the interface\<close>

interpretation session_replay: event_replay "reduce_next env" "replay_from env"
  by unfold_locales simp_all

lemma replay_session_Cons:
  "replay_session env (e # es) = bind_result (reduce_first e) (\<lambda>s. replay_from env s es)"
  by simp

lemma replay_session_start:
  assumes "replay_session env es = Inr s"
  obtains e es' where "es = e # es'" "bind_result (reduce_first e) (\<lambda>m. replay_from env m es') = Inr s"
  using assms by (cases es) auto

text \<open>An invariant of the reducer holds of every replayed session.\<close>

lemma session_invariant:
  assumes first: "\<And>e s. reduce_first e = Inr s \<Longrightarrow> P s"
    and step: "\<And>s e s'. P s \<Longrightarrow> reduce_next env s e = Inr s' \<Longrightarrow> P s'"
    and run: "replay_session env es = Inr s"
  shows "P s"
proof (cases es)
  case Nil
  with run show ?thesis by simp
next
  case (Cons e es')
  with run obtain m where m: "reduce_first e = Inr m" "replay_from env m es' = Inr s"
    by (auto simp: bind_result_Inr)
  show ?thesis
    by (rule session_replay.run_invariant [where P = P, OF _ first [OF m(1)] m(2)]) (rule step)
qed

end
