(* ===== verification/ReducerInvariants.thy ===== *)
theory ReducerInvariants
  imports ReducerFacts
begin

text \<open>
  How each list of a session grows in one step of the reducer, and the invariants of every
  replayed session that need no more: the stream is numbered without gaps, the identity of
  a session and its policy never change, identities are unique, limits are kept.
\<close>

section \<open>One step\<close>

lemma handle_event_frame:
  "handle_event env s e d = Inr s' \<Longrightarrow>
     st_id s' = st_id s \<and> st_taskTrack s' = st_taskTrack s \<and> st_updatedAt s' = st_updatedAt s \<and>
     st_lastSequence s' = st_lastSequence s \<and> st_executionPolicy s' = st_executionPolicy s \<and>
     st_hybridSimulation s' = st_hybridSimulation s \<and>
     st_completionObligations s' = st_completionObligations s \<and>
     st_lastV2EventType s' = st_lastV2EventType s"
  by (cases d) (auto dest!: handler_ok simp: update_message_def split: option.splits)

lemma event_guards_None:
  "event_guards s e = None \<Longrightarrow>
     st_id s = ev_sessionId e \<and> ev_sequence e = st_lastSequence s + 1 \<and>
     \<not> (is_v2 s \<and> time_less (ev_createdAt e) (st_updatedAt s)) \<and>
     \<not> is_terminal_status (st_status s) \<and> ensure_checked_transition s (event_type e) = None \<and>
     ensure_running s (event_type e) = None \<and> assert_v2_start_grammar s (event_type e) = None"
  by (simp add: event_guards_def ensure_active_def check_simps)

lemma step_frame:
  assumes "reduce_next env s e = Inr s'"
  shows "st_id s' = st_id s" "st_taskTrack s' = st_taskTrack s"
    and "st_executionPolicy s' = st_executionPolicy s"
    and "st_hybridSimulation s' = st_hybridSimulation s"
    and "st_completionObligations s' = st_completionObligations s"
    and "v2_policy s' = v2_policy s"
    and "st_updatedAt s' = ev_createdAt e" "st_lastSequence s' = st_lastSequence s + 1"
    and "ev_sequence e = st_lastSequence s + 1" "ev_sessionId e = st_id s"
    and "st_lastV2EventType s' =
      (if is_v2 s then Some (event_type e) else st_lastV2EventType s)"
proof -
  obtain t where t: "event_guards s e = None" "handle_event env (next_state s e) e (ev_data e) = Inr t"
    "s' = mark_v2 e t"
    using reduce_next_ok [OF assms] by blast
  note f = handle_event_frame [OF t(2)] event_guards_None [OF t(1)]
  have p: "v2_policy t = v2_policy s" using f by (simp add: v2_policy_def)
  show "st_id s' = st_id s" "st_taskTrack s' = st_taskTrack s"
    "st_executionPolicy s' = st_executionPolicy s" "st_hybridSimulation s' = st_hybridSimulation s"
    "st_completionObligations s' = st_completionObligations s" "st_updatedAt s' = ev_createdAt e"
    "st_lastSequence s' = st_lastSequence s + 1" "ev_sequence e = st_lastSequence s + 1"
    "ev_sessionId e = st_id s"
    using f t(3) by simp_all
  show "v2_policy s' = v2_policy s" using p t(3) by simp
  show "st_lastV2EventType s' = (if is_v2 s then Some (event_type e) else st_lastV2EventType s)"
    using f p t(3) by (simp add: mark_v2_last)
qed

text \<open>How each field moves. The handler and its event are split once, here.\<close>

lemma reduce_nextE:
  assumes "reduce_next env s e = Inr s'"
  obtains t where "event_guards s e = None" "handle_event env (next_state s e) e (ev_data e) = Inr t"
    "s' = mark_v2 e t"
  using reduce_next_ok [OF assms] by blast

lemma decisions_step:
  "reduce_next env s e = Inr s' \<Longrightarrow>
     st_routingDecisions s' = st_routingDecisions s \<or>
     (\<exists>d policy. ev_data e = RoutingDecisionRecorded d \<and> v2_policy s = Some policy \<and>
        routing_checks env (next_state s e) e policy d = None \<and>
        st_routingDecisions s' = st_routingDecisions s @ [recorded e d])"
  by (erule reduce_nextE, cases "ev_data e")
    (auto dest!: handler_ok simp: update_message_def split: option.splits)

lemma routes_step:
  "reduce_next env s e = Inr s' \<Longrightarrow>
     st_routes s' = st_routes s \<or>
     (\<exists>r. st_routes s = [] \<and> st_routes s' = [recorded e r]) \<or>
     (\<exists>p. ev_data e = RouteAssigned p \<and> st_routes s' = st_routes s @ [recorded e p] \<and>
        (\<forall>policy. v2_policy s = Some policy \<longrightarrow>
          holds (at_last (st_routingDecisions s)) (route_matches_decision e p) \<and>
          (\<forall>r\<in>set (st_routes s). ro_leaseId (rec_payload r) \<noteq> ro_leaseId p) \<and>
          int (provider_changes_with (next_state s e) (ro_providerId p)) \<le> p2_maxProviderChanges policy))"
  by (erule reduce_nextE, cases "ev_data e")
    (auto dest!: handler_ok simp: update_message_def split: option.splits)

lemma contexts_step:
  "reduce_next env s e = Inr s' \<Longrightarrow>
     st_contextCompilations s' = st_contextCompilations s \<or>
     (\<exists>p. ev_data e = ContextCompiled p \<and> context_checks (next_state s e) e p = None \<and>
        st_contextCompilations s' = st_contextCompilations s @ [recorded e p])"
  by (erule reduce_nextE, cases "ev_data e")
    (auto dest!: handler_ok simp: update_message_def split: option.splits)

lemma admissions_step:
  "reduce_next env s e = Inr s' \<Longrightarrow>
     st_cloudEgressAdmissions s' = st_cloudEgressAdmissions s \<or>
     (\<exists>p. ev_data e = CloudEgressAdmissionRecorded p \<and>
        (\<forall>r\<in>set (st_cloudEgressAdmissions s). ea_admissionId (rec_payload r) \<noteq> ea_admissionId p \<and>
          ea_checkpointId (rec_payload r) \<noteq> ea_checkpointId p) \<and>
        st_cloudEgressAdmissions s' = st_cloudEgressAdmissions s @ [recorded e p])"
  by (erule reduce_nextE, cases "ev_data e")
    (auto dest!: handler_ok simp: update_message_def split: option.splits)

lemma checks_step:
  "reduce_next env s e = Inr s' \<Longrightarrow>
     st_completionChecks s' = st_completionChecks s \<or>
     (\<exists>p. ev_data e = CompletionObligationsChecked p \<and> check_order_checks (next_state s e) e p = None \<and>
        (\<exists>m. find (\<lambda>m. msg_id m = ck_messageId p) (st_messages s) = Some m \<and>
          check_message_checks (next_state s e) m p = None \<and>
          check_evidence_checks env (next_state s e) m p = None) \<and>
        st_completionChecks s' = st_completionChecks s @ [recorded e p])"
  by (erule reduce_nextE, cases "ev_data e")
    (auto dest!: handler_ok simp: update_message_def split: option.splits)

lemma attempts_step:
  "reduce_next env s e = Inr s' \<Longrightarrow>
     st_inferenceAttempts s' = st_inferenceAttempts s \<or>
     (\<exists>p policy. ev_data e = InferenceAttemptStarted p \<and> v2_policy s = Some policy \<and>
        attempt_start_checks (next_state s e) e policy p = None \<and>
        st_inferenceAttempts s' = st_inferenceAttempts s @
          [\<lparr>ar_start = recorded e p, ar_finished = None\<rparr>]) \<or>
     (\<exists>p a. ev_data e = InferenceAttemptFinished p \<and> is_v2 s \<and>
        find (\<lambda>a. at_attemptId (attempt_of a) = fin_attemptId p) (st_inferenceAttempts s) = Some a \<and>
        finish_start_checks (next_state s e) a p = None \<and>
        st_inferenceAttempts s' = update_first (\<lambda>r. at_attemptId (attempt_of r) = fin_attemptId p)
          (finish_attempt e p) (st_inferenceAttempts s))"
  by (erule reduce_nextE, cases "ev_data e")
    (auto dest!: handler_ok simp: update_message_def split: option.splits)

lemma status_step:
  "reduce_next env s e = Inr s' \<Longrightarrow>
     st_status s' =
       (case ev_data e of SessionStarted _ \<Rightarrow> Running | SessionCompleted _ \<Rightarrow> Completed
        | SessionFailed _ \<Rightarrow> Failed | SessionCancelled _ \<Rightarrow> Cancelled
        | SessionInterrupted _ \<Rightarrow> Interrupted | _ \<Rightarrow> st_status s)"
  by (erule reduce_nextE, cases "ev_data e")
    (auto dest!: handler_ok simp: update_message_def split: option.splits)

lemma costs_step:
  "reduce_next env s e = Inr s' \<Longrightarrow>
     (st_costScopes s' = st_costScopes s \<and> us_costUsd (st_usage s') = us_costUsd (st_usage s) \<and>
        (\<forall>p. ev_data e \<noteq> RoutingDecisionRecorded p) \<and> (\<forall>p. ev_data e \<noteq> InferenceAttemptFinished p)) \<or>
     (\<exists>d. ev_data e = RoutingDecisionRecorded d \<and>
        reserve_decision_cost (next_state s e) d = Inr (st_costScopes s') \<and>
        us_costUsd (st_usage s') = us_costUsd (st_usage s)) \<or>
     (\<exists>p. ev_data e = InferenceAttemptFinished p \<and>
        add_scoped_cost (st_costScopes s) (effective_cost_scope (co_costScope (fin_cost p)))
          Settled_cost (co_amountMicrousd (fin_cost p)) = Inr (st_costScopes s') \<and>
        st_usage s' = finish_usage p (st_usage s))"
  by (erule reduce_nextE, cases "ev_data e")
    (auto dest!: handler_ok simp: update_message_def record_usage_def split: option.splits)

section \<open>The message list\<close>

definition calls_of :: "message list \<Rightarrow> tool_call list" where
  "calls_of ms = concat (map message_tool_calls ms)"

lemma all_tool_calls_calls_of: "all_tool_calls s = calls_of (st_messages s)"
  by (simp add: all_tool_calls_def calls_of_def)

lemma calls_of_simps [simp]:
  "calls_of [] = []" "calls_of (m # ms) = message_tool_calls m @ calls_of ms"
  "calls_of (ms @ ns) = calls_of ms @ calls_of ns"
  by (simp_all add: calls_of_def)

text \<open>An update that keeps what identifies a message and its calls.\<close>

definition keeps_calls :: "(message \<Rightarrow> message) \<Rightarrow> bool" where
  "keeps_calls f \<longleftrightarrow> (\<forall>m. msg_id (f m) = msg_id m \<and> msg_role (f m) = msg_role m \<and>
     msg_toolCalls (f m) = msg_toolCalls m)"

lemma keeps_calls_handlers [simp, intro]:
  "keeps_calls (complete_message p)" "keeps_calls (finish_message q)" "keeps_calls fail_streaming"
  "keeps_calls (\<lambda>m. m\<lparr>msg_content := msg_content m @ d\<rparr>)"
  by (simp_all add: keeps_calls_def complete_message_def finish_message_def fail_streaming_def Let_def)

lemma message_tool_calls_new [simp]:
  "message_tool_calls (new_message i r c st) = []"
  "message_tool_calls (new_assistant_message p) = []"
  "message_tool_calls (new_tool_message e q) = []"
  "msg_id (new_message i r c st) = i" "msg_role (new_message i r c st) = r"
  "msg_id (new_assistant_message p) = as_messageId p" "msg_role (new_assistant_message p) = Assistant"
  "msg_id (new_tool_message e q) = tool_message_id (ev_sessionId e) (td_toolCallId q)"
  "msg_role (new_tool_message e q) = Tool"
  by (simp_all add: message_tool_calls_def new_message_def new_assistant_message_def
      new_tool_message_def)

lemma calls_of_update_first:
  assumes "keeps_calls f"
  shows "calls_of (update_first p f ms) = calls_of ms"
  using assms by (induction ms) (simp_all add: keeps_calls_def message_tool_calls_def)

lemma calls_of_map: "keeps_calls f \<Longrightarrow> calls_of (map f ms) = calls_of ms"
  by (induction ms) (simp_all add: keeps_calls_def message_tool_calls_def)

lemma calls_of_finish:
  "calls_of (map (finish_message_tool_calls p) ms) = map (finish_tool_call p) (calls_of ms)"
  by (induction ms)
    (simp_all add: finish_message_tool_calls_def message_tool_calls_def coalesce_def split: option.splits)

lemma calls_of_add:
  assumes "find p ms = Some m"
  obtains xs ys where "calls_of ms = xs @ ys"
    "calls_of (update_first p (add_tool_call q) ms) = xs @ new_tool_call q # ys"
  using assms
proof (induction ms arbitrary: thesis)
  case Nil
  then show ?case by simp
next
  case (Cons m' ms)
  show ?case
  proof (cases "p m'")
    case True
    show ?thesis
      by (rule Cons.prems(1) [of "message_tool_calls m'" "calls_of ms"])
        (simp_all add: True add_tool_call_def message_tool_calls_def)
  next
    case False
    with Cons.prems(2) have "find p ms = Some m" by simp
    with Cons.IH obtain xs ys where "calls_of ms = xs @ ys"
      "calls_of (update_first p (add_tool_call q) ms) = xs @ new_tool_call q # ys"
      by blast
    then show ?thesis
      using False by (intro Cons.prems(1) [of "message_tool_calls m' @ xs" ys]) simp_all
  qed
qed

lemma msg_keys_updates:
  "keeps_calls f \<Longrightarrow> map msg_id (update_first p f ms) = map msg_id ms"
  "keeps_calls f \<Longrightarrow> map msg_role (update_first p f ms) = map msg_role ms"
  "keeps_calls f \<Longrightarrow> map msg_id (map f ms) = map msg_id ms"
  "keeps_calls f \<Longrightarrow> map msg_role (map f ms) = map msg_role ms"
  "map msg_id (map (finish_message_tool_calls q) ms) = map msg_id ms"
  "map msg_role (map (finish_message_tool_calls q) ms) = map msg_role ms"
  "map msg_id (update_first p (add_tool_call r) ms) = map msg_id ms"
  "map msg_role (update_first p (add_tool_call r) ms) = map msg_role ms"
  by (auto simp: keeps_calls_def finish_message_tool_calls_def add_tool_call_def
      intro!: map_update_first)

definition assistant_count :: "message list \<Rightarrow> nat" where
  "assistant_count ms = length (filter (\<lambda>r. r = Assistant) (map msg_role ms))"

lemma length_assistants: "length (assistants s) = assistant_count (st_messages s)"
  unfolding assistants_def assistant_count_def filter_map length_map is_assistant_def comp_def ..

lemma assistant_count_simps [simp]:
  "assistant_count [] = 0"
  "assistant_count (ms @ [m]) = assistant_count ms + (if msg_role m = Assistant then 1 else 0)"
  "keeps_calls f \<Longrightarrow> assistant_count (update_first p f ms) = assistant_count ms"
  "keeps_calls f \<Longrightarrow> assistant_count (map f ms) = assistant_count ms"
  "assistant_count (map (finish_message_tool_calls q) ms) = assistant_count ms"
  "assistant_count (update_first p (add_tool_call r) ms) = assistant_count ms"
  unfolding assistant_count_def msg_keys_updates by simp_all

text \<open>The ways the message list moves in one step.\<close>

lemma messages_step:
  assumes "reduce_next env s e = Inr s'"
  obtains (same) "st_messages s' = st_messages s" "\<forall>p. ev_data e \<noteq> AssistantMessageStarted p"
      "\<forall>p. ev_data e \<noteq> ToolCallRequested p" "\<forall>p. ev_data e \<noteq> ToolCallCompleted p"
    | (user) p where "ev_data e = UserMessage p" "\<forall>m\<in>set (st_messages s). msg_id m \<noteq> um_messageId p"
      "st_messages s' = st_messages s @ [new_message (um_messageId p) User (um_content p) Msg_completed]"
    | (assistant) p where "ev_data e = AssistantMessageStarted p"
      "handle_assistant_started (next_state s e) e p =
         Inr ((next_state s e)\<lparr>st_messages := st_messages s @ [new_assistant_message p]\<rparr>)"
      "st_messages s' = st_messages s @ [new_assistant_message p]"
    | (update) mid f where "keeps_calls f" "st_messages s' = update_first (\<lambda>m. msg_id m = mid) f (st_messages s)"
      "(\<exists>p. ev_data e = AssistantMessageDelta p) \<or> (\<exists>p. ev_data e = AssistantMessageCompleted p) \<or>
         (\<exists>p. ev_data e = InferenceAttemptFinished p)"
    | (request) p mid m where "ev_data e = ToolCallRequested p"
      "find (\<lambda>m. msg_id m = mid) (st_messages s) = Some m"
      "tool_request_checks env (next_state s e) m p = None"
      "st_messages s' = update_first (\<lambda>m. msg_id m = mid) (add_tool_call p) (st_messages s)"
    | (result) p parent t where "ev_data e = ToolCallCompleted p"
      "matching_tool_calls (next_state s e) (td_toolCallId p) = [(parent, t)]"
      "tool_completion_checks (next_state s e) e parent t p = None"
      "st_messages s' = map (finish_message_tool_calls p) (st_messages s) @ [new_tool_message e p]"
    | (interrupt) p where "ev_data e = SessionInterrupted p"
      "st_messages s' = map fail_streaming (st_messages s)"
proof -
  obtain t where t: "handle_event env (next_state s e) e (ev_data e) = Inr t" "s' = mark_v2 e t"
    using assms by (rule reduce_nextE)
  show thesis
  proof (cases "ev_data e")
    case (AssistantMessageStarted p)
    then have h: "handle_assistant_started (next_state s e) e p = Inr t" using t by simp
    then have "t = (next_state s e)\<lparr>st_messages := st_messages s @ [new_assistant_message p]\<rparr>"
      using handle_assistant_started_ok by fastforce
    with h t(2) AssistantMessageStarted show thesis by (intro assistant [of p]) simp_all
  next
    case (ToolCallRequested p)
    then show thesis using t request by (fastforce dest!: handle_tool_requested_ok simp: update_message_def)
  next
    case (ToolCallCompleted p)
    then show thesis using t result by (fastforce dest!: handle_tool_completed_ok)
  next
    case (AssistantMessageDelta p)
    then show thesis using t update
      by (fastforce dest!: handle_assistant_delta_ok simp: update_message_def)
  next
    case (AssistantMessageCompleted p)
    then show thesis using t update
      by (fastforce dest!: handle_assistant_completed_ok simp: update_message_def)
  next
    case (InferenceAttemptFinished p)
    then show thesis using t update by (fastforce dest!: handle_attempt_finished_ok)
  next
    case (UserMessage p)
    then show thesis using t user by (fastforce dest!: handle_user_message_ok)
  next
    case (SessionInterrupted p)
    then show thesis using t interrupt by (fastforce dest!: handle_session_interrupted_ok)
  qed (use t same in \<open>auto dest!: handler_ok split: option.splits\<close>)
qed

end
