(* ===== verification/SessionInvariants.thy ===== *)
theory SessionInvariants
  imports ReducerInvariants
begin

text \<open>
  Invariants of replayed sessions: identities are unique, the limits of the policy are kept,
  the cost totals are the sums of what was recorded, attempts start before the deadline.
  Each is a predicate of the state, shown of a new session and of one step.
\<close>

lemma create_initial_fields [simp]:
  "st_id (create_initial_session_state e p) = ev_sessionId e"
  "st_taskTrack (create_initial_session_state e p) = cr_taskTrack p"
  "st_status (create_initial_session_state e p) = Created"
  "st_updatedAt (create_initial_session_state e p) = ev_createdAt e"
  "st_lastSequence (create_initial_session_state e p) = ev_sequence e"
  "st_messages (create_initial_session_state e p) = []"
  "st_routes (create_initial_session_state e p) = []"
  "st_contextCompilations (create_initial_session_state e p) = []"
  "st_cloudEgressAdmissions (create_initial_session_state e p) = []"
  "st_routingDecisions (create_initial_session_state e p) = []"
  "st_inferenceAttempts (create_initial_session_state e p) = []"
  "st_executionPolicy (create_initial_session_state e p) = cr_executionPolicy p"
  "st_completionChecks (create_initial_session_state e p) = []"
  "st_usage (create_initial_session_state e p) = empty_usage"
  "st_costScopes (create_initial_session_state e p) = empty_cost_scopes"
  "st_startedAt (create_initial_session_state e p) = None"
  "st_deadlineAt (create_initial_session_state e p) = None"
  "assistants (create_initial_session_state e p) = []"
  "all_tool_calls (create_initial_session_state e p) = []"
  "open_inference_attempts (create_initial_session_state e p) = []"
  "route_providers (create_initial_session_state e p) = []"
  by (simp_all add: create_initial_session_state_def assistants_def all_tool_calls_def
      open_inference_attempts_def route_providers_def)

lemma create_initial_last:
  "st_lastV2EventType (create_initial_session_state e p) =
     (if is_v2 (create_initial_session_state e p) then Some T_session_created else None)"
  by (simp add: create_initial_session_state_def policy_is_v2_def v2_policy_def
      split: option.split execution_policy.split)

text \<open>The shape every proof that a property holds of all replayed sessions has.\<close>

lemma invariantI:
  assumes "replay_session env es = Inr s"
    and "\<And>e p. ev_data e = SessionCreated p \<Longrightarrow> ev_sequence e = 1 \<Longrightarrow> P (create_initial_session_state e p)"
    and "\<And>s e s'. P s \<Longrightarrow> reduce_next env s e = Inr s' \<Longrightarrow> P s'"
  shows "P s"
  by (rule session_invariant [OF _ assms(3) assms(1)]) (auto dest!: reduce_first_ok intro: assms(2))

section \<open>The numbering of the stream\<close>

lemma replay_from_numbering:
  "replay_from env s es = Inr s' \<Longrightarrow>
     st_id s' = st_id s \<and> st_lastSequence s' = st_lastSequence s + int (length es) \<and>
     map ev_sequence es = map (\<lambda>i. st_lastSequence s + 1 + int i) [0..<length es] \<and>
     (\<forall>e\<in>set es. ev_sessionId e = st_id s)"
proof (induction es arbitrary: s)
  case Nil
  then show ?case by simp
next
  case (Cons e es)
  then obtain m where m: "reduce_next env s e = Inr m" "replay_from env m es = Inr s'"
    by (auto simp: bind_result_Inr)
  note f = step_frame [OF m(1)] and ih = Cons.IH [OF m(2)]
  have "map ev_sequence (e # es) =
      (st_lastSequence s + 1) # map (\<lambda>i. st_lastSequence s + 1 + int (Suc i)) [0..<length es]"
    using f ih by (simp add: algebra_simps)
  also have "\<dots> = map (\<lambda>i. st_lastSequence s + 1 + int i) [0..<length (e # es)]"
    by (simp add: upt_conv_Cons map_Suc_upt [symmetric] comp_def del: upt_Suc)
  finally show ?case using f ih by simp
qed

lemma replay_session_split:
  assumes "replay_session env es = Inr s"
  obtains e es' m p where "es = e # es'" "ev_data e = SessionCreated p" "ev_sequence e = 1"
    "m = create_initial_session_state e p" "replay_from env m es' = Inr s"
proof (cases es)
  case Nil
  with assms show thesis by simp
next
  case (Cons e es')
  then obtain m where m: "reduce_first e = Inr m" "replay_from env m es' = Inr s"
    using assms by (auto simp: bind_result_Inr)
  with Cons that reduce_first_ok [OF m(1)] show thesis by blast
qed

lemma stream_numbering:
  assumes "replay_session env es = Inr s"
  shows "map ev_sequence es = map int [1..<Suc (length es)] \<and> st_lastSequence s = int (length es) \<and>
    list_all (\<lambda>e. ev_sessionId e = st_id s) es"
proof -
  obtain e es' m p where m: "es = e # es'" "ev_sequence e = 1"
    "m = create_initial_session_state e p" "replay_from env m es' = Inr s"
    by (rule replay_session_split [OF assms])
  note n = replay_from_numbering [OF m(4)]
  have "map int [1..<Suc (length es)] = 1 # map (\<lambda>i. 1 + 1 + int i) [0..<length es']"
    by (simp add: m(1) upt_conv_Cons map_Suc_upt [symmetric] comp_def del: upt_Suc)
  then show ?thesis using n m by (auto simp: list_all_iff)
qed

section \<open>Times\<close>

lemma replay_from_times:
  "replay_from env s es = Inr s' \<Longrightarrow> is_v2 s \<Longrightarrow>
     successively (\<lambda>a b. \<not> time_less b a) (st_updatedAt s # map ev_createdAt es)"
proof (induction es arbitrary: s)
  case Nil
  then show ?case by simp
next
  case (Cons e es)
  obtain m where m: "reduce_next env s e = Inr m" "replay_from env m es = Inr s'"
    using Cons.prems by (auto simp: bind_result_Inr)
  have "\<not> time_less (ev_createdAt e) (st_updatedAt s)"
    using reduce_next_ok [OF m(1)] event_guards_None Cons.prems(2) by blast
  moreover have "successively (\<lambda>a b. \<not> time_less b a) (ev_createdAt e # map ev_createdAt es)"
    using Cons.IH [OF m(2)] step_frame(6,7) [OF m(1)] Cons.prems(2) by simp
  ultimately show ?case by simp
qed

lemma v2_times:
  assumes "replay_session env es = Inr s" "is_v2 s"
  shows "successively (\<lambda>a b. \<not> time_less (ev_createdAt b) (ev_createdAt a)) es"
proof -
  obtain e es' m p where m: "es = e # es'" "m = create_initial_session_state e p"
    "replay_from env m es' = Inr s"
    by (rule replay_session_split [OF assms(1)])
  have "v2_policy s = v2_policy m"
    using session_replay.run_invariant [where P = "\<lambda>t. v2_policy t = v2_policy m", OF _ refl m(3)]
      step_frame(6) by metis
  with assms(2) have "successively (\<lambda>a b. \<not> time_less b a) (map ev_createdAt es)"
    using replay_from_times [OF m(3)] m(1,2) by simp
  then show ?thesis by (simp add: successively_map)
qed

lemma replay_from_updatedAt:
  "replay_from env s es = Inr s' \<Longrightarrow>
     st_updatedAt s' = (if es = [] then st_updatedAt s else ev_createdAt (last es))"
proof (induction es arbitrary: s)
  case Nil
  then show ?case by simp
next
  case (Cons e es)
  then obtain m where "reduce_next env s e = Inr m" "replay_from env m es = Inr s'"
    by (auto simp: bind_result_Inr)
  with Cons.IH step_frame(7) show ?case by fastforce
qed

lemma replay_updatedAt: "replay_session env es = Inr s \<Longrightarrow> st_updatedAt s = ev_createdAt (last es)"
  by (elim replay_session_split) (auto dest: replay_from_updatedAt simp: create_initial_session_state_def)

text \<open>Times that can be read are in order when no neighbours are out of order.\<close>

lemma readable_times_sorted:
  assumes "list_all (\<lambda>e. date_parse (f e) \<noteq> None) es"
    and "successively (\<lambda>a b. \<not> time_less (f b) (f a)) es"
  shows "sorted (map (\<lambda>e. the (date_parse (f e))) es)"
proof -
  have "successively (\<lambda>a b. the (date_parse (f a)) \<le> the (date_parse (f b))) es"
    by (rule successively_mono [OF assms(2)]) (use assms(1) in \<open>auto simp: list_all_iff time_less_def split: option.splits\<close>)
  then have "successively (\<le>) (map (\<lambda>e. the (date_parse (f e))) es)"
    by (simp add: successively_map)
  then show ?thesis by (simp add: successively_conv_sorted_wrt)
qed

section \<open>Unique identities\<close>

lemma distinct_map_snoc:
  "distinct (map f (xs @ [x])) \<longleftrightarrow> distinct (map f xs) \<and> (\<forall>y\<in>set xs. f y \<noteq> f x)"
  by (simp add: image_iff) metis

definition unique_messages :: "session_state \<Rightarrow> bool" where
  "unique_messages s \<longleftrightarrow> distinct (map msg_id (st_messages s)) \<and>
     distinct (map tc_id (calls_of (st_messages s)))"

lemma map_finish_tool_call_id: "map tc_id (map (finish_tool_call p) ts) = map tc_id ts"
  by (induction ts) (simp_all add: finish_tool_call_def)

lemma unique_messages_step:
  assumes "unique_messages s" "reduce_next env s e = Inr s'"
  shows "unique_messages s'"
  using assms(2)
proof (cases rule: messages_step)
  case same
  then show ?thesis using assms(1) by (simp add: unique_messages_def)
next
  case (user p)
  then show ?thesis using assms(1) by (auto simp: unique_messages_def)
next
  case (assistant p)
  then show ?thesis using assms(1) by (auto simp: unique_messages_def dest!: handle_assistant_started_ok)
next
  case (update mid f)
  then show ?thesis using assms(1) by (simp add: unique_messages_def msg_keys_updates calls_of_update_first)
next
  case (request p mid m)
  obtain xs ys where xs: "calls_of (st_messages s) = xs @ ys"
    "calls_of (st_messages s') = xs @ new_tool_call p # ys"
    using calls_of_add [OF request(2)] request(4) by metis
  have "\<forall>t\<in>set (calls_of (st_messages s)). tc_id t \<noteq> tq_toolCallId p"
    using request(3) by (auto simp: tool_request_checks_def check_simps list_ex_iff all_tool_calls_calls_of)
  then have "tq_toolCallId p \<notin> tc_id ` set xs \<union> tc_id ` set ys" by (auto simp: xs)
  then have "distinct (map tc_id (calls_of (st_messages s')))"
    using assms(1) unfolding unique_messages_def xs by (simp add: new_tool_call_def) blast?
  moreover have "map msg_id (st_messages s') = map msg_id (st_messages s)"
    unfolding request(4) msg_keys_updates ..
  ultimately show ?thesis using assms(1) by (simp add: unique_messages_def)
next
  case (result p parent t)
  have "\<forall>m\<in>set (st_messages s). msg_id m \<noteq> tool_message_id (ev_sessionId e) (td_toolCallId p)"
    using result(3) by (auto simp: tool_completion_checks_def assert_unique_message_id_def check_simps list_ex_iff)
  moreover have "map msg_id (st_messages s') =
      map msg_id (st_messages s) @ [tool_message_id (ev_sessionId e) (td_toolCallId p)]"
    unfolding result(4) map_append msg_keys_updates by simp
  moreover have "map tc_id (calls_of (st_messages s')) = map tc_id (calls_of (st_messages s))"
    unfolding result(4) calls_of_simps calls_of_finish message_tool_calls_new append_Nil2
    by (simp only: map_finish_tool_call_id append_Nil2)
  ultimately show ?thesis using assms(1) by (auto simp: unique_messages_def)
next
  case (interrupt p)
  then have "map msg_id (st_messages s') = map msg_id (st_messages s)"
    "calls_of (st_messages s') = calls_of (st_messages s)"
    by (simp_all only: msg_keys_updates calls_of_map keeps_calls_handlers)
  then show ?thesis using assms(1) by (simp add: unique_messages_def)
qed

definition unique_records :: "session_state \<Rightarrow> bool" where
  "unique_records s \<longleftrightarrow>
     distinct (map (\<lambda>r. rd_decisionId (rec_payload r)) (st_routingDecisions s)) \<and>
     distinct (map (\<lambda>r. rd_boundary (rec_payload r)) (st_routingDecisions s)) \<and>
     distinct (map (\<lambda>a. at_attemptId (attempt_of a)) (st_inferenceAttempts s)) \<and>
     distinct (map (\<lambda>r. ea_admissionId (rec_payload r)) (st_cloudEgressAdmissions s)) \<and>
     distinct (map (\<lambda>r. ck_messageId (rec_payload r)) (st_completionChecks s))"

lemma attempt_of_finish [simp]: "attempt_of (finish_attempt e p a) = attempt_of a"
  by (simp add: finish_attempt_def)

lemma unique_decisions_step:
  assumes "reduce_next env s e = Inr s'"
  shows "distinct (map (\<lambda>r. rd_decisionId (rec_payload r)) (st_routingDecisions s)) \<Longrightarrow>
      distinct (map (\<lambda>r. rd_decisionId (rec_payload r)) (st_routingDecisions s'))"
    and "distinct (map (\<lambda>r. rd_boundary (rec_payload r)) (st_routingDecisions s)) \<Longrightarrow>
      distinct (map (\<lambda>r. rd_boundary (rec_payload r)) (st_routingDecisions s'))"
  using decisions_step [OF assms]
  by (auto simp: routing_checks_def decision_duplicate_checks_def check_simps list_ex_iff distinct_map_snoc
      simp del: map_append)

lemma open_inference_attempt_None [check_simps]:
  "open_inference_attempt s = None \<longleftrightarrow> open_inference_attempts s = []"
  by (simp add: open_inference_attempt_def split: list.split)

lemma attempt_start_checks_facts:
  "attempt_start_checks s e policy p = None \<Longrightarrow>
     open_inference_attempts s = [] \<and>
     (\<forall>a\<in>set (st_inferenceAttempts s). at_attemptId (attempt_of a) \<noteq> at_attemptId p) \<and>
     (\<exists>c. at_last (st_contextCompilations s) = Some c \<and> attempt_checkpoint_links e p c) \<and>
     (\<exists>m. latest_assistant s = Some m \<and> attempt_message_links p m) \<and>
     (\<exists>d. find_decision s (at_decisionId p) = Some d \<and> attempt_decision_checks s e policy p d = None)"
  by (auto simp: attempt_start_checks_def check_simps list_ex_iff split: option.splits)

lemma unique_attempts_step:
  assumes "reduce_next env s e = Inr s'"
    and "distinct (map (\<lambda>a. at_attemptId (attempt_of a)) (st_inferenceAttempts s))"
  shows "distinct (map (\<lambda>a. at_attemptId (attempt_of a)) (st_inferenceAttempts s'))"
  using attempts_step [OF assms(1)] assms(2)
  by (auto dest!: attempt_start_checks_facts simp: map_update_first distinct_map_snoc simp del: map_append)

lemma unique_records_step:
  assumes "unique_records s" "reduce_next env s e = Inr s'"
  shows "unique_records s'"
proof -
  have "distinct (map (\<lambda>r. ea_admissionId (rec_payload r)) (st_cloudEgressAdmissions s'))"
    using admissions_step [OF assms(2)] assms(1)
    by (auto simp: unique_records_def distinct_map_snoc simp del: map_append)
  moreover have "distinct (map (\<lambda>r. ck_messageId (rec_payload r)) (st_completionChecks s'))"
    using checks_step [OF assms(2)] assms(1)
    by (auto simp: unique_records_def check_order_checks_def check_simps list_ex_iff distinct_map_snoc
        simp del: map_append)
  ultimately show ?thesis
    using unique_decisions_step [OF assms(2)] unique_attempts_step [OF assms(2)] assms(1)
    by (simp add: unique_records_def)
qed

end
