(* ===== verification/SessionProtocol.thy ===== *)
theory SessionProtocol
  imports SessionInvariants
begin

text \<open>
  The protocol of a version 2 session as an abstract machine over event types, and the
  proof that the reducer implements it. The state of the machine is the type of the last
  event; what the reducer counts (assistants, checkpoints, attempts, open attempts, pending
  tool calls) is a function of that state, which is the invariant \<open>v2_shape\<close>.
\<close>

section \<open>The abstract protocol\<close>

definition idle_successors :: "session_event_type list" where
  "idle_successors =
     [T_user_message, T_session_completed, T_session_failed, T_session_cancelled, T_session_interrupted]"

fun v2_successors :: "session_event_type \<Rightarrow> session_event_type list" where
  "v2_successors T_session_created = T_session_started # idle_successors"
| "v2_successors T_session_started =
     [T_synthesis_checkpoint_imported, T_cloud_egress_admission, T_routing_decision] @ idle_successors"
| "v2_successors T_user_message =
     [T_session_started, T_cloud_egress_admission, T_routing_decision] @ idle_successors"
| "v2_successors T_synthesis_checkpoint_imported = [T_cloud_egress_admission, T_session_cancelled]"
| "v2_successors T_cloud_egress_admission = [T_routing_decision]"
| "v2_successors T_routing_decision = [T_route_assigned, T_assistant_started]"
| "v2_successors T_route_assigned = [T_assistant_started]"
| "v2_successors T_assistant_started = [T_context_compiled]"
| "v2_successors T_context_compiled = [T_attempt_started]"
| "v2_successors T_attempt_started = [T_assistant_delta, T_assistant_completed, T_attempt_finished]"
| "v2_successors T_assistant_delta = [T_assistant_delta, T_assistant_completed, T_attempt_finished]"
| "v2_successors T_assistant_completed = [T_attempt_finished]"
| "v2_successors T_attempt_finished =
     [T_tool_requested, T_obligations_checked, T_cloud_egress_admission, T_routing_decision] @ idle_successors"
| "v2_successors T_tool_requested = [T_tool_completed]"
| "v2_successors T_tool_completed =
     [T_assistant_started, T_cloud_egress_admission, T_routing_decision] @ idle_successors"
| "v2_successors T_obligations_checked =
     [T_assistant_started, T_cloud_egress_admission, T_routing_decision] @ idle_successors"
| "v2_successors _ = []"

text \<open>A list of types is a path of the machine.\<close>

fun v2_path :: "session_event_type list \<Rightarrow> bool" where
  "v2_path (t # u # ts) = (u \<in> set (v2_successors t) \<and> v2_path (u # ts))"
| "v2_path _ = True"

definition terminal_type :: "session_event_type \<Rightarrow> bool" where
  "terminal_type t \<longleftrightarrow> t = T_session_completed \<or> t = T_session_failed \<or> t = T_session_cancelled \<or>
     t = T_session_interrupted"

definition attempt_open_type :: "session_event_type \<Rightarrow> bool" where
  "attempt_open_type t \<longleftrightarrow> t = T_attempt_started \<or> t = T_assistant_delta \<or> t = T_assistant_completed"

section \<open>The invariant\<close>

definition pending_count :: "session_state \<Rightarrow> nat" where
  "pending_count s = length (filter pending_tool (calls_of (st_messages s)))"

text \<open>A record made at the last sequence number was made by the last event.\<close>

definition last_record_marks :: "session_state \<Rightarrow> session_event_type \<Rightarrow> bool" where
  "last_record_marks s t \<longleftrightarrow>
     (\<forall>r\<in>set (st_contextCompilations s). rec_sequence r \<le> st_lastSequence s \<and>
        (rec_sequence r = st_lastSequence s \<longrightarrow> t = T_context_compiled)) \<and>
     (\<forall>r\<in>set (st_routingDecisions s). rec_sequence r \<le> st_lastSequence s \<and>
        (rec_sequence r = st_lastSequence s \<longrightarrow> t = T_routing_decision))"

definition v2_counts :: "session_state \<Rightarrow> session_event_type \<Rightarrow> bool" where
  "v2_counts s t \<longleftrightarrow>
     assistant_count (st_messages s) =
       length (st_contextCompilations s) + (if t = T_assistant_started then 1 else 0) \<and>
     length (st_contextCompilations s) =
       length (st_inferenceAttempts s) + (if t = T_context_compiled then 1 else 0) \<and>
     length (open_inference_attempts s) = (if attempt_open_type t then 1 else 0) \<and>
     pending_count s = (if t = T_tool_requested then 1 else 0)"

definition v2_status :: "session_state \<Rightarrow> session_event_type \<Rightarrow> bool" where
  "v2_status s t \<longleftrightarrow>
     (is_terminal_status (st_status s) \<longleftrightarrow> terminal_type t) \<and>
     (st_status s = Created \<longrightarrow> t = T_session_created \<or> t = T_user_message) \<and>
     (t = T_session_created \<longrightarrow> st_status s = Created)"

definition v2_shape :: "session_state \<Rightarrow> bool" where
  "v2_shape s \<longleftrightarrow> (is_v2 s \<longrightarrow> (\<exists>t. st_lastV2EventType s = Some t \<and> t \<noteq> T_usage_recorded \<and>
     v2_counts s t \<and> v2_status s t \<and> last_record_marks s t))"

section \<open>How one event moves the counts\<close>

lemma event_type_simps [simp]:
  "event_type e = event_data_type (ev_data e)"
  by (simp add: event_type_def)

lemma data_of_type:
  "event_type e = T_context_compiled \<longleftrightarrow> (\<exists>p. ev_data e = ContextCompiled p)"
  "event_type e = T_attempt_started \<longleftrightarrow> (\<exists>p. ev_data e = InferenceAttemptStarted p)"
  "event_type e = T_attempt_finished \<longleftrightarrow> (\<exists>p. ev_data e = InferenceAttemptFinished p)"
  "event_type e = T_assistant_started \<longleftrightarrow> (\<exists>p. ev_data e = AssistantMessageStarted p)"
  "event_type e = T_assistant_delta \<longleftrightarrow> (\<exists>p. ev_data e = AssistantMessageDelta p)"
  "event_type e = T_assistant_completed \<longleftrightarrow> (\<exists>p. ev_data e = AssistantMessageCompleted p)"
  "event_type e = T_tool_requested \<longleftrightarrow> (\<exists>p. ev_data e = ToolCallRequested p)"
  "event_type e = T_tool_completed \<longleftrightarrow> (\<exists>p. ev_data e = ToolCallCompleted p)"
  "event_type e = T_routing_decision \<longleftrightarrow> (\<exists>p. ev_data e = RoutingDecisionRecorded p)"
  "event_type e = T_route_assigned \<longleftrightarrow> (\<exists>p. ev_data e = RouteAssigned p)"
  by (cases "ev_data e"; simp)+

lemma assistant_count_step:
  assumes "reduce_next env s e = Inr s'"
  shows "assistant_count (st_messages s') =
    assistant_count (st_messages s) + (if event_type e = T_assistant_started then 1 else 0)"
  using assms by (cases rule: messages_step) (auto simp: data_of_type simp del: event_type_simps)

lemma context_count_step:
  assumes "reduce_next env s e = Inr s'"
  shows "length (st_contextCompilations s') =
    length (st_contextCompilations s) + (if event_type e = T_context_compiled then 1 else 0)"
proof (cases "ev_data e")
  case (ContextCompiled p)
  then show ?thesis using reduce_next_ok [OF assms] by (auto dest!: handle_context_compiled_ok)
qed (use contexts_step [OF assms] in auto)

lemma attempt_count_step:
  assumes "reduce_next env s e = Inr s'"
  shows "length (st_inferenceAttempts s') =
    length (st_inferenceAttempts s) + (if event_type e = T_attempt_started then 1 else 0)"
proof (cases "ev_data e")
  case (InferenceAttemptStarted p)
  then show ?thesis using reduce_next_ok [OF assms] by (auto dest!: handle_attempt_started_ok)
qed (use attempts_step [OF assms] in auto)

lemma filter_update_first_closes:
  assumes "find p xs = Some a" "q a" "\<not> q (f a)"
  shows "length (filter q (update_first p f xs)) = length (filter q xs) - 1"
  using assms
proof (induction xs)
  case Nil
  then show ?case by simp
next
  case (Cons x xs)
  show ?case
  proof (cases "p x")
    case True
    with Cons.prems show ?thesis by simp
  next
    case False
    with Cons.prems have h: "find p xs = Some a" by simp
    then have "a \<in> set (filter q xs)" using find_SomeD Cons.prems(2) by fastforce
    then have "0 < length (filter q xs)" by (cases "filter q xs") simp_all
    with Cons.IH [OF h Cons.prems(2,3)] False show ?thesis by simp
  qed
qed

lemma open_count_step:
  assumes "reduce_next env s e = Inr s'"
  shows "length (open_inference_attempts s') =
    (if event_type e = T_attempt_started then 1
     else if event_type e = T_attempt_finished then length (open_inference_attempts s) - 1
     else length (open_inference_attempts s))"
    and "event_type e = T_attempt_started \<Longrightarrow> open_inference_attempts s = []"
proof -
  have "(event_type e = T_attempt_started \<longrightarrow> open_inference_attempts s = []) \<and>
    length (open_inference_attempts s') =
    (if event_type e = T_attempt_started then 1
     else if event_type e = T_attempt_finished then length (open_inference_attempts s) - 1
     else length (open_inference_attempts s))"
  proof (cases "ev_data e")
    case (InferenceAttemptStarted p)
    then obtain policy where "attempt_start_checks (next_state s e) e policy p = None"
      "st_inferenceAttempts s' = st_inferenceAttempts s @ [\<lparr>ar_start = recorded e p, ar_finished = None\<rparr>]"
      using reduce_next_ok [OF assms] by (auto dest!: handle_attempt_started_ok)
    with InferenceAttemptStarted show ?thesis
      by (auto dest!: attempt_start_checks_facts simp: open_inference_attempts_def attempt_is_open_def)
  next
    case (InferenceAttemptFinished p)
    then obtain a where a: "find (\<lambda>a. at_attemptId (attempt_of a) = fin_attemptId p)
        (st_inferenceAttempts s) = Some a" "finish_start_checks (next_state s e) a p = None"
      "st_inferenceAttempts s' = update_first (\<lambda>r. at_attemptId (attempt_of r) = fin_attemptId p)
        (finish_attempt e p) (st_inferenceAttempts s)"
      using reduce_next_ok [OF assms] by (auto dest!: handle_attempt_finished_ok)
    have "attempt_is_open a" using a(2) by (simp add: finish_start_checks_def attempt_is_open_def check_simps)
    moreover have "\<not> attempt_is_open (finish_attempt e p a)"
      by (simp add: finish_attempt_def attempt_is_open_def)
    ultimately show ?thesis
      using filter_update_first_closes [OF a(1)] InferenceAttemptFinished
      by (simp add: open_inference_attempts_def a(3))
  qed (use attempts_step [OF assms] in \<open>auto simp: open_inference_attempts_def\<close>)
  then show "length (open_inference_attempts s') =
    (if event_type e = T_attempt_started then 1
     else if event_type e = T_attempt_finished then length (open_inference_attempts s) - 1
     else length (open_inference_attempts s))"
    "event_type e = T_attempt_started \<Longrightarrow> open_inference_attempts s = []" by blast+
qed

lemma pending_finish: "pending_tool (finish_tool_call p t) \<Longrightarrow> pending_tool t \<and> tc_id t \<noteq> td_toolCallId p"
  by (auto simp: pending_tool_def finish_tool_call_def split: if_splits)

lemma matching_tool_calls_mem:
  assumes "matching_tool_calls s i = [(m, t)]"
  shows "t \<in> set (calls_of (st_messages s))" "tc_id t = i" "m \<in> set (st_messages s)"
proof -
  have "(m, t) \<in> set (matching_tool_calls s i)" using assms by simp
  then show "t \<in> set (calls_of (st_messages s))" "tc_id t = i" "m \<in> set (st_messages s)"
    by (auto simp: matching_tool_calls_def calls_of_def)
qed

lemma tool_completed_pending:
  assumes "reduce_next env s e = Inr s'" "event_type e = T_tool_completed"
  shows "0 < pending_count s" "pending_count s = 1 \<Longrightarrow> pending_count s' = 0"
proof -
  obtain p where p: "ev_data e = ToolCallCompleted p"
    using assms(2) by (auto simp: data_of_type simp del: event_type_simps)
  with assms(1) obtain parent t where t: "matching_tool_calls (next_state s e) (td_toolCallId p) = [(parent, t)]"
    "tool_completion_checks (next_state s e) e parent t p = None"
    "st_messages s' = map (finish_message_tool_calls p) (st_messages s) @ [new_tool_message e p]"
    by (cases rule: messages_step) auto
  have mem: "t \<in> set (calls_of (st_messages s))" "tc_id t = td_toolCallId p" "pending_tool t"
    using matching_tool_calls_mem [OF t(1)] t(2)
    by (simp_all add: tool_completion_checks_def pending_tool_def check_simps)
  then have in_pending: "t \<in> set (filter pending_tool (calls_of (st_messages s)))" by simp
  then show "0 < pending_count s" unfolding pending_count_def by (metis length_pos_if_in_set)
  assume "pending_count s = 1"
  then obtain u where u: "filter pending_tool (calls_of (st_messages s)) = [u]"
    by (auto simp: pending_count_def length_Suc_conv)
  with in_pending have only: "filter pending_tool (calls_of (st_messages s)) = [t]"
    unfolding u by simp
  have "\<not> pending_tool u" if u: "u \<in> set (map (finish_tool_call p) (calls_of (st_messages s)))" for u
  proof
    assume "pending_tool u"
    with u obtain v where v: "v \<in> set (calls_of (st_messages s))" "pending_tool v" "tc_id v \<noteq> td_toolCallId p"
      using pending_finish by auto
    then have "v \<in> set (filter pending_tool (calls_of (st_messages s)))" by simp
    with only have "v = t" by simp
    with v mem show False by simp
  qed
  then show "pending_count s' = 0"
    by (simp add: pending_count_def t(3) calls_of_finish filter_empty_conv)
qed

lemma pending_count_step:
  assumes "reduce_next env s e = Inr s'" "event_type e \<noteq> T_tool_completed"
  shows "pending_count s' = pending_count s + (if event_type e = T_tool_requested then 1 else 0)"
  using assms(1)
proof (cases rule: messages_step)
  case same
  then show ?thesis by (auto simp: pending_count_def data_of_type simp del: event_type_simps)
next
  case (user p)
  then show ?thesis by (simp add: pending_count_def)
next
  case (assistant p)
  then show ?thesis by (simp add: pending_count_def)
next
  case (update mid f)
  then show ?thesis by (auto simp: pending_count_def calls_of_update_first)
next
  case (request p mid m)
  obtain xs ys where "calls_of (st_messages s) = xs @ ys"
    "calls_of (st_messages s') = xs @ new_tool_call p # ys"
    using calls_of_add [OF request(2)] request(4) by metis
  then show ?thesis by (simp add: pending_count_def request(1) pending_tool_def new_tool_call_def)
next
  case (result p parent t)
  then show ?thesis using assms(2) by simp
next
  case (interrupt p)
  then show ?thesis by (simp add: pending_count_def calls_of_map)
qed

section \<open>What may precede an event\<close>

lemma guards_v2:
  assumes "event_guards s e = None" "is_v2 s" "st_lastV2EventType s = Some t"
  shows "open_inference_attempts s \<noteq> [] \<Longrightarrow>
      event_type e = T_assistant_delta \<or> event_type e = T_assistant_completed \<or> event_type e = T_attempt_finished"
    and "t = T_cloud_egress_admission \<Longrightarrow> event_type e = T_routing_decision"
    and "t = T_synthesis_checkpoint_imported \<Longrightarrow>
      event_type e = T_cloud_egress_admission \<or> event_type e = T_session_cancelled"
    and "t = T_routing_decision \<Longrightarrow> event_type e = T_route_assigned \<or> event_type e = T_assistant_started"
    and "t = T_route_assigned \<Longrightarrow> event_type e = T_assistant_started"
    and "t = T_assistant_started \<Longrightarrow> event_type e = T_context_compiled"
    and "t = T_tool_requested \<Longrightarrow> event_type e = T_tool_completed"
    and "t = T_context_compiled \<Longrightarrow> event_type e = T_attempt_started"
    and "t = T_assistant_completed \<Longrightarrow> event_type e = T_attempt_finished"
  using event_guards_None [OF assms(1)] assms(2,3)
  by (auto simp: assert_v2_start_grammar_def check_simps decision_successor_def split: if_splits)

lemma open_inference_attempt_Some:
  "open_inference_attempt s = Some a \<Longrightarrow> open_inference_attempts s \<noteq> []"
  by (simp add: open_inference_attempt_def split: list.splits)

lemma streaming_events_open:
  assumes "reduce_next env s e = Inr s'" "is_v2 s"
    and "event_type e = T_assistant_delta \<or> event_type e = T_assistant_completed \<or>
      event_type e = T_attempt_finished"
  shows "open_inference_attempts s \<noteq> []"
proof (cases "ev_data e")
  case (AssistantMessageDelta p)
  then show ?thesis using reduce_next_ok [OF assms(1)] assms(2)
    by (auto dest!: handle_assistant_delta_ok open_inference_attempt_Some)
next
  case (AssistantMessageCompleted p)
  then show ?thesis using reduce_next_ok [OF assms(1)] assms(2)
    by (auto dest!: handle_assistant_completed_ok open_inference_attempt_Some
        simp: completion_v2_checks_def check_simps split: option.splits)
next
  case (InferenceAttemptFinished p)
  then show ?thesis using reduce_next_ok [OF assms(1)]
    by (auto dest!: handle_attempt_finished_ok open_inference_attempt_Some
        simp: finish_start_checks_def check_simps)
qed (use assms(3) in simp_all)

lemma context_precondition:
  assumes "reduce_next env s e = Inr s'" "is_v2 s" "event_type e = T_context_compiled"
  shows "int (length (st_contextCompilations s)) = int (assistant_count (st_messages s)) - 1"
proof -
  obtain p where p: "ev_data e = ContextCompiled p"
    using assms(3) by (auto simp: data_of_type simp del: event_type_simps)
  have "st_executionPolicy s \<noteq> None" using assms(2) by (auto simp: v2_policy_def split: option.splits)
  then show ?thesis using reduce_next_ok [OF assms(1)] p
    by (auto dest!: handle_context_compiled_ok simp: context_checks_def check_simps length_assistants [symmetric]
        split: option.splits)
qed

text \<open>Every event of a version 2 session has the predecessor the protocol names.\<close>

lemma last_record_context:
  assumes "last_record_marks s t" "at_last (st_contextCompilations s) = Some c"
    "rec_sequence c = st_lastSequence s"
  shows "t = T_context_compiled"
  using assms at_last_mem by (fastforce simp: last_record_marks_def)

lemma last_record_decision:
  assumes "last_record_marks s t" "at_last (st_routingDecisions s) = Some c"
    "rec_sequence c = st_lastSequence s"
  shows "t = T_routing_decision"
  using assms at_last_mem by (fastforce simp: last_record_marks_def)

lemma attempt_started_after:
  assumes "reduce_next env s e = Inr s'" "last_record_marks s t" "event_type e = T_attempt_started"
  shows "t = T_context_compiled"
proof -
  obtain p where p: "ev_data e = InferenceAttemptStarted p"
    using assms(3) by (auto simp: data_of_type simp del: event_type_simps)
  then obtain policy where "attempt_start_checks (next_state s e) e policy p = None"
    using reduce_next_ok [OF assms(1)] by (auto dest!: handle_attempt_started_ok)
  then obtain c where "at_last (st_contextCompilations s) = Some c" "attempt_checkpoint_links e p c"
    by (auto dest!: attempt_start_checks_facts)
  with last_record_context [OF assms(2)] step_frame(9) [OF assms(1)] show ?thesis
    by (simp add: attempt_checkpoint_links_def Let_def)
qed

lemma route_assigned_after:
  assumes "reduce_next env s e = Inr s'" "is_v2 s" "last_record_marks s t"
    "event_type e = T_route_assigned"
  shows "t = T_routing_decision"
proof -
  obtain p where p: "ev_data e = RouteAssigned p"
    using assms(4) by (auto simp: data_of_type simp del: event_type_simps)
  then obtain d where "at_last (st_routingDecisions s) = Some d" "route_matches_decision e p d"
    using reduce_next_ok [OF assms(1)] assms(2) by (auto dest!: handle_route_assigned_ok simp: holds_iff)
  with last_record_decision [OF assms(3)] step_frame(9) [OF assms(1)] show ?thesis
    by (simp add: route_matches_decision_def Let_def)
qed

lemma last_type_preconditions:
  assumes "reduce_next env s e = Inr s'" "is_v2 s" "st_lastV2EventType s = Some t"
  shows "event_type e = T_assistant_started \<Longrightarrow> t = T_routing_decision \<or> t = T_route_assigned \<or>
      t = T_tool_completed \<or> t = T_obligations_checked"
    and "event_type e = T_tool_requested \<Longrightarrow> t = T_attempt_finished"
    and "event_type e = T_obligations_checked \<Longrightarrow> t = T_attempt_finished"
    and "event_type e = T_synthesis_checkpoint_imported \<Longrightarrow> t = T_session_started"
    and "event_type e = T_session_started \<Longrightarrow> st_status s = Created"
    and "event_type e \<noteq> T_session_created" "event_type e \<noteq> T_usage_recorded"
proof -
  obtain u where u: "handle_event env (next_state s e) e (ev_data e) = Inr u"
    using reduce_next_ok [OF assms(1)] by blast
  show "t = T_routing_decision \<or> t = T_route_assigned \<or> t = T_tool_completed \<or> t = T_obligations_checked"
    if "event_type e = T_assistant_started"
    using u assms(2,3) that
    by (cases "ev_data e") (auto dest!: handle_assistant_started_ok simp: assistant_v2_checks_def
        check_simps boundary_start_def obligation_retry_def split: option.splits)
  show "t = T_attempt_finished" if "event_type e = T_tool_requested"
    using u assms(2,3) that
    by (cases "ev_data e") (auto dest!: handle_tool_requested_ok simp: tool_request_checks_def
        tool_attempt_checks_def check_simps)
  show "t = T_attempt_finished" if "event_type e = T_obligations_checked"
    using u assms(2,3) that
    by (cases "ev_data e") (auto dest!: handle_obligations_checked_ok simp: check_order_checks_def check_simps)
  show "t = T_session_started" if "event_type e = T_synthesis_checkpoint_imported"
    using u assms(2,3) that by (cases "ev_data e") (auto dest!: handle_checkpoint_imported_ok)
  show "st_status s = Created" if "event_type e = T_session_started"
    using u that by (cases "ev_data e") (auto dest!: handle_session_started_ok)
  show "event_type e \<noteq> T_session_created" "event_type e \<noteq> T_usage_recorded"
    using u assms(2) by (cases "ev_data e"; auto dest!: handle_usage_recorded_ok)+
qed

lemma running_only:
  assumes "reduce_next env s e = Inr s'" "st_status s = Created"
  shows "event_type e = T_session_started \<or> event_type e \<in> set idle_successors"
proof -
  have "ensure_running s (event_type e) = None" "event_type e \<noteq> T_session_created"
  proof -
    obtain u where u: "event_guards s e = None" "handle_event env (next_state s e) e (ev_data e) = Inr u"
      using reduce_next_ok [OF assms(1)] by blast
    show "ensure_running s (event_type e) = None" using event_guards_None [OF u(1)] by blast
    show "event_type e \<noteq> T_session_created" using u(2) by (cases "ev_data e") simp_all
  qed
  then show ?thesis using assms(2)
    by (cases "ev_data e")
      (auto simp: ensure_running_def running_only_types_def idle_successors_def check_simps)
qed

section \<open>The reducer follows the protocol\<close>

lemma successor_table:
  assumes "attempt_open_type t \<Longrightarrow> u = T_assistant_delta \<or> u = T_assistant_completed \<or> u = T_attempt_finished"
    "u = T_assistant_delta \<or> u = T_assistant_completed \<or> u = T_attempt_finished \<Longrightarrow> attempt_open_type t"
    "t = T_cloud_egress_admission \<Longrightarrow> u = T_routing_decision"
    "t = T_synthesis_checkpoint_imported \<Longrightarrow> u = T_cloud_egress_admission \<or> u = T_session_cancelled"
    "t = T_routing_decision \<Longrightarrow> u = T_route_assigned \<or> u = T_assistant_started"
    "t = T_route_assigned \<Longrightarrow> u = T_assistant_started"
    "t = T_assistant_started \<longleftrightarrow> u = T_context_compiled"
    "t = T_tool_requested \<longleftrightarrow> u = T_tool_completed"
    "t = T_context_compiled \<longleftrightarrow> u = T_attempt_started"
    "t = T_assistant_completed \<Longrightarrow> u = T_attempt_finished"
    "u = T_route_assigned \<Longrightarrow> t = T_routing_decision"
    "u = T_assistant_started \<Longrightarrow> t = T_routing_decision \<or> t = T_route_assigned \<or>
      t = T_tool_completed \<or> t = T_obligations_checked"
    "u = T_tool_requested \<Longrightarrow> t = T_attempt_finished"
    "u = T_obligations_checked \<Longrightarrow> t = T_attempt_finished"
    "u = T_synthesis_checkpoint_imported \<Longrightarrow> t = T_session_started"
    "u = T_session_started \<Longrightarrow> t = T_session_created \<or> t = T_user_message"
    "u \<noteq> T_session_created" "u \<noteq> T_usage_recorded" "\<not> terminal_type t" "t \<noteq> T_usage_recorded"
    "t = T_session_created \<Longrightarrow> u = T_session_started \<or> u \<in> set idle_successors"
  shows "u \<in> set (v2_successors t)"
proof -
  have not_open: "u \<noteq> T_assistant_delta \<and> u \<noteq> T_assistant_completed \<and> u \<noteq> T_attempt_finished"
    if "\<not> attempt_open_type t" using assms(2) that by blast
  have free: "u \<in> set (v2_successors t)"
    if t: "t = T_session_started \<or> t = T_user_message \<or> t = T_attempt_finished \<or>
      t = T_tool_completed \<or> t = T_obligations_checked"
  proof -
    have n: "\<not> attempt_open_type t" "t \<noteq> T_assistant_started" "t \<noteq> T_tool_requested"
      "t \<noteq> T_context_compiled" "t \<noteq> T_routing_decision" "t \<noteq> T_route_assigned" "t \<noteq> T_session_created"
      using t by (auto simp: attempt_open_type_def)
    note no = not_open [OF n(1)] assms(7-9,11) n assms(17,18)
    have u: "u \<noteq> T_assistant_delta" "u \<noteq> T_assistant_completed" "u \<noteq> T_attempt_finished"
      "u \<noteq> T_context_compiled" "u \<noteq> T_tool_completed" "u \<noteq> T_attempt_started" "u \<noteq> T_route_assigned"
      "u \<noteq> T_session_created" "u \<noteq> T_usage_recorded"
      using no by blast+
    show ?thesis
      using t assms(12-16) n(5-7) u
      by (cases u) (auto simp: idle_successors_def)
  qed
  show ?thesis
  proof (cases t)
    case T_session_created
    then show ?thesis using assms(21) by auto
  next
    case T_attempt_started
    then show ?thesis using assms(1) by (auto simp: attempt_open_type_def)
  next
    case T_assistant_delta
    then show ?thesis using assms(1) by (auto simp: attempt_open_type_def)
  qed (use free assms(3-10,19,20) in \<open>auto simp: terminal_type_def\<close>)
qed

lemma step_successor:
  assumes step: "reduce_next env s e = Inr s'" and v2: "is_v2 s"
    and t: "st_lastV2EventType s = Some t" "t \<noteq> T_usage_recorded"
    and inv: "v2_counts s t" "v2_status s t" "last_record_marks s t"
  shows "event_type e \<in> set (v2_successors t)"
proof -
  have u: "event_guards s e = None" using reduce_next_ok [OF step] by blast
  note g = guards_v2 [OF u v2 t(1)] and pre = last_type_preconditions [OF step v2 t(1)]
  note c = inv(1) [unfolded v2_counts_def] and st = inv(2) [unfolded v2_status_def]
  have open_iff: "open_inference_attempts s \<noteq> [] \<longleftrightarrow> attempt_open_type t"
    using c by (auto split: if_splits)
  show ?thesis
  proof (rule successor_table)
    show "\<not> terminal_type t" using event_guards_None [OF u] st by blast
    show "event_type e = T_assistant_delta \<or> event_type e = T_assistant_completed \<or>
        event_type e = T_attempt_finished \<Longrightarrow> attempt_open_type t"
      using streaming_events_open [OF step v2] open_iff by blast
    have "event_type e = T_context_compiled \<Longrightarrow> t = T_assistant_started"
      using context_precondition [OF step v2] c by (cases "t = T_assistant_started") simp_all
    then show "t = T_assistant_started \<longleftrightarrow> event_type e = T_context_compiled" using g(6) by blast
    have "event_type e = T_tool_completed \<Longrightarrow> t = T_tool_requested"
      using tool_completed_pending(1) [OF step] c by (cases "t = T_tool_requested") simp_all
    then show "t = T_tool_requested \<longleftrightarrow> event_type e = T_tool_completed" using g(7) by blast
    show "t = T_context_compiled \<longleftrightarrow> event_type e = T_attempt_started"
      using attempt_started_after [OF step inv(3)] g(8) by blast
    show "event_type e = T_route_assigned \<Longrightarrow> t = T_routing_decision"
      by (rule route_assigned_after [OF step v2 inv(3)])
    show "event_type e = T_session_started \<Longrightarrow> t = T_session_created \<or> t = T_user_message"
      using pre(5) st by blast
    show "t = T_session_created \<Longrightarrow> event_type e = T_session_started \<or> event_type e \<in> set idle_successors"
      using running_only [OF step] st by blast
    show "attempt_open_type t \<Longrightarrow> event_type e = T_assistant_delta \<or>
        event_type e = T_assistant_completed \<or> event_type e = T_attempt_finished"
      using g(1) open_iff by blast
  qed (fact g(2-5) g(9) pre(1-4,6,7) t(2))+
qed

lemma last_record_marks_step:
  assumes "reduce_next env s e = Inr s'" "last_record_marks s t"
  shows "last_record_marks s' (event_type e)"
proof -
  note f = step_frame(8,9) [OF assms(1)]
  have "rec_sequence r \<le> st_lastSequence s' \<and> (rec_sequence r = st_lastSequence s' \<longrightarrow> event_type e = T_context_compiled)"
    if "r \<in> set (st_contextCompilations s')" for r
    using contexts_step [OF assms(1)] assms(2) that f by (fastforce simp: last_record_marks_def)
  moreover have "rec_sequence r \<le> st_lastSequence s' \<and> (rec_sequence r = st_lastSequence s' \<longrightarrow> event_type e = T_routing_decision)"
    if "r \<in> set (st_routingDecisions s')" for r
    using decisions_step [OF assms(1)] assms(2) that f by (fastforce simp: last_record_marks_def)
  ultimately show ?thesis by (simp add: last_record_marks_def)
qed

lemma v2_status_step:
  assumes "reduce_next env s e = Inr s'" "v2_status s t" "event_type e \<in> set (v2_successors t)"
  shows "v2_status s' (event_type e)"
proof -
  have u: "\<not> is_terminal_status (st_status s)" "event_type e \<noteq> T_session_created"
    using reduce_next_ok [OF assms(1)] event_guards_None [of s e] by (blast, cases "ev_data e") auto
  have created: "st_status s = Created \<Longrightarrow> event_type e = T_session_started \<or> event_type e \<in> set idle_successors"
    by (rule running_only [OF assms(1)])
  show ?thesis
    unfolding v2_status_def status_step [OF assms(1)]
    using u created
    by (cases "ev_data e") (auto simp: terminal_type_def is_terminal_status_def idle_successors_def)
qed

lemma v2_counts_step:
  assumes "reduce_next env s e = Inr s'" "v2_counts s t" "event_type e \<in> set (v2_successors t)"
  shows "v2_counts s' (event_type e)"
proof -
  note steps = assistant_count_step [OF assms(1)] context_count_step [OF assms(1)]
    attempt_count_step [OF assms(1)] open_count_step(1) [OF assms(1)]
  have pend: "event_type e \<noteq> T_tool_completed \<Longrightarrow>
      pending_count s' = pending_count s + (if event_type e = T_tool_requested then 1 else 0)"
    by (rule pending_count_step [OF assms(1)])
  have result: "event_type e = T_tool_completed \<Longrightarrow> pending_count s = 1 \<Longrightarrow> pending_count s' = 0"
    by (rule tool_completed_pending(2) [OF assms(1)])
  show ?thesis
    using assms(2,3) pend result unfolding v2_counts_def steps
    by (cases t; simp add: attempt_open_type_def idle_successors_def; elim disjE; simp)
qed

lemma v2_shape_successor:
  assumes "v2_shape s" "is_v2 s" "reduce_next env s e = Inr s'"
  obtains t where "st_lastV2EventType s = Some t" "v2_counts s t" "v2_status s t"
    "last_record_marks s t" "event_type e \<in> set (v2_successors t)"
  using assms step_successor [OF assms(3,2)] unfolding v2_shape_def by blast

lemma v2_shape_step:
  assumes "v2_shape s" "reduce_next env s e = Inr s'"
  shows "v2_shape s'"
proof (cases "is_v2 s")
  case True
  with assms obtain t where t: "v2_counts s t" "v2_status s t" "last_record_marks s t"
    "event_type e \<in> set (v2_successors t)" "st_lastV2EventType s = Some t"
    using v2_shape_successor by blast
  have "event_type e \<noteq> T_usage_recorded" by (rule last_type_preconditions(7) [OF assms(2) True t(5)])
  then show ?thesis
    using step_frame(6,11) [OF assms(2)] True v2_counts_step [OF assms(2) t(1,4)]
      v2_status_step [OF assms(2) t(2,4)] last_record_marks_step [OF assms(2) t(3)]
    unfolding v2_shape_def by simp
next
  case False
  then show ?thesis using step_frame(6) [OF assms(2)] by (simp add: v2_shape_def)
qed

lemma v2_shape_initial: "ev_data e = SessionCreated p \<Longrightarrow> v2_shape (create_initial_session_state e p)"
  using create_initial_last [of e p]
  by (auto simp: v2_shape_def v2_counts_def v2_status_def last_record_marks_def pending_count_def
      attempt_open_type_def terminal_type_def is_terminal_status_def)

lemma v2_shape_replay: "replay_session env es = Inr s \<Longrightarrow> v2_shape s"
  by (rule invariantI [where P = v2_shape]) (auto intro: v2_shape_initial v2_shape_step)

lemma v2_path_from:
  "replay_from env s es = Inr s' \<Longrightarrow> v2_shape s \<Longrightarrow> v2_policy s = Some p \<Longrightarrow>
     st_lastV2EventType s = Some t \<Longrightarrow> v2_path (t # map event_type es)"
proof (induction es arbitrary: s t)
  case Nil
  then show ?case by simp
next
  case (Cons e es)
  obtain m where m: "reduce_next env s e = Inr m" "replay_from env m es = Inr s'"
    using Cons.prems(1) by (auto simp: bind_result_Inr)
  have v2: "is_v2 s" using Cons.prems(3) by simp
  have "event_type e \<in> set (v2_successors t)"
    using v2_shape_successor [OF Cons.prems(2) v2 m(1)] Cons.prems(4) by auto
  moreover have "v2_path (event_type e # map event_type es)"
    using step_frame(6,11) [OF m(1)] v2 Cons.prems(3)
    by (intro Cons.IH [OF m(2) v2_shape_step [OF Cons.prems(2) m(1)]]) simp_all
  ultimately show ?case by (simp del: event_type_simps)
qed

end
