(* ===== verification/SessionLimits.thy ===== *)
theory SessionLimits
  imports SessionProtocol
begin

text \<open>
  What a session's policy bounds and what its totals mean: rounds, tool calls, paid attempts
  and provider changes stay within the policy; the reserved and settled amounts of every cost
  scope are the sums of what decisions and finished attempts recorded; no attempt starts at
  or after the deadline; no decision admits the cloud without consent.
\<close>

section \<open>Rounds and tool calls\<close>

definition within_rounds :: "session_state \<Rightarrow> bool" where
  "within_rounds s \<longleftrightarrow> (\<forall>policy. st_executionPolicy s = Some policy \<longrightarrow>
     int (assistant_count (st_messages s)) \<le> max 0 (policy_inference_rounds policy) \<and>
     int (length (calls_of (st_messages s))) \<le> max 0 (policy_tool_calls policy))"

lemma tool_call_count_step:
  assumes "reduce_next env s e = Inr s'"
  shows "length (calls_of (st_messages s')) = length (calls_of (st_messages s)) \<or>
    length (calls_of (st_messages s')) = length (calls_of (st_messages s)) + 1 \<and>
    (\<forall>policy. st_executionPolicy s = Some policy \<longrightarrow>
      int (length (calls_of (st_messages s))) < policy_tool_calls policy)"
  using assms
proof (cases rule: messages_step)
  case (request p mid m)
  obtain xs ys where "calls_of (st_messages s) = xs @ ys"
    "calls_of (st_messages s') = xs @ new_tool_call p # ys"
    using calls_of_add [OF request(2)] request(4) by metis
  then show ?thesis using request(3)
    by (auto simp: tool_request_checks_def check_simps all_tool_calls_calls_of)
qed (simp_all add: calls_of_update_first calls_of_map calls_of_finish)

lemma assistant_started_below:
  assumes "reduce_next env s e = Inr s'" "event_type e = T_assistant_started"
    "st_executionPolicy s = Some policy"
  shows "int (assistant_count (st_messages s)) < policy_inference_rounds policy"
proof -
  obtain p where "ev_data e = AssistantMessageStarted p"
    using assms(2) by (auto simp: data_of_type simp del: event_type_simps)
  then have "assistant_policy_checks (next_state s e) p = None"
    using reduce_next_ok [OF assms(1)] by (auto dest!: handle_assistant_started_ok)
  then show ?thesis using assms(3)
    by (simp add: assistant_policy_checks_def check_simps length_assistants)
qed

lemma within_rounds_step:
  assumes "within_rounds s" "reduce_next env s e = Inr s'"
  shows "within_rounds s'"
  unfolding within_rounds_def
proof (intro allI impI conjI)
  fix policy
  assume "st_executionPolicy s' = Some policy"
  then have p: "st_executionPolicy s = Some policy" using step_frame(3) [OF assms(2)] by simp
  note bounds = assms(1) [unfolded within_rounds_def, rule_format, OF p]
  show "int (assistant_count (st_messages s')) \<le> max 0 (policy_inference_rounds policy)"
    using assistant_count_step [OF assms(2)] assistant_started_below [OF assms(2) _ p] bounds
    by (cases "event_type e = T_assistant_started") (simp_all del: event_type_simps)
  show "int (length (calls_of (st_messages s'))) \<le> max 0 (policy_tool_calls policy)"
    using tool_call_count_step [OF assms(2)] p bounds by fastforce
qed

section \<open>Paid attempts and provider changes\<close>

definition within_paid_limits :: "session_state \<Rightarrow> bool" where
  "within_paid_limits s \<longleftrightarrow> (\<forall>policy. v2_policy s = Some policy \<longrightarrow>
     int (length (filter is_paid (st_inferenceAttempts s))) \<le> max 0 (p2_maxPaidAttempts policy) \<and>
     int (adjacent_changes (route_providers s)) \<le> max 0 (p2_maxProviderChanges policy))"

lemma adjacent_changes_snoc:
  "adjacent_changes (xs @ [x]) =
     (if xs \<noteq> [] \<and> last xs \<noteq> x then 1 else 0) + adjacent_changes xs"
  by (induction xs rule: adjacent_changes.induct) auto

lemma is_paid_finish [simp]: "is_paid (finish_attempt e p a) = is_paid a"
  by (simp add: is_paid_def)

lemma attempt_decision_checks_facts:
  "attempt_decision_checks s e policy p d = None \<Longrightarrow>
     attempt_decision_links p d \<and>
     effective_cost_scope (at_costScope p) = effective_cost_scope (rd_costScope d) \<and>
     (p2_routingPolicy policy = Hybrid_simulation_v1 \<longrightarrow> at_costScope p = Some Rt_simulation) \<and>
     (\<exists>dl. st_deadlineAt s = Some dl \<and> \<not> time_less_eq dl (ev_createdAt e)) \<and>
     (at_budgetReservationId p = None \<or>
       int (length (filter is_paid (st_inferenceAttempts s))) < p2_maxPaidAttempts policy) \<and>
     rd_budgetReservationId d = at_budgetReservationId p"
  by (cases "at_budgetReservationId p") (auto simp: attempt_decision_checks_def check_simps)

lemma paid_count_step:
  assumes "reduce_next env s e = Inr s'" "v2_policy s = Some policy"
  shows "length (filter is_paid (st_inferenceAttempts s')) = length (filter is_paid (st_inferenceAttempts s)) \<or>
    length (filter is_paid (st_inferenceAttempts s')) = length (filter is_paid (st_inferenceAttempts s)) + 1 \<and>
    int (length (filter is_paid (st_inferenceAttempts s))) < p2_maxPaidAttempts policy"
proof -
  consider (same) "st_inferenceAttempts s' = st_inferenceAttempts s"
    | (start) p d where "attempt_decision_checks (next_state s e) e policy p d = None"
      "st_inferenceAttempts s' = st_inferenceAttempts s @ [\<lparr>ar_start = recorded e p, ar_finished = None\<rparr>]"
    | (finish) p where "st_inferenceAttempts s' =
        update_first (\<lambda>r. at_attemptId (attempt_of r) = fin_attemptId p) (finish_attempt e p) (st_inferenceAttempts s)"
    using attempts_step [OF assms(1)] assms(2) by (auto dest!: attempt_start_checks_facts)
  then show ?thesis
  proof cases
    case (start p d)
    then show ?thesis using attempt_decision_checks_facts [OF start(1)] by (auto simp: is_paid_def)
  qed (simp_all add: filter_map_update_first)
qed

lemma provider_changes_step:
  assumes "reduce_next env s e = Inr s'" "v2_policy s = Some policy"
  shows "adjacent_changes (route_providers s') \<le> adjacent_changes (route_providers s) \<or>
    int (adjacent_changes (route_providers s')) \<le> p2_maxProviderChanges policy"
proof -
  consider (same) "st_routes s' = st_routes s" | (first) r where "st_routes s' = [recorded e r]"
    | (assigned) p where "st_routes s' = st_routes s @ [recorded e p]"
      "int (provider_changes_with (next_state s e) (ro_providerId p)) \<le> p2_maxProviderChanges policy"
    using routes_step [OF assms(1)] assms(2) by blast
  then show ?thesis
  proof cases
    case assigned
    have "adjacent_changes (route_providers s') = provider_changes_with (next_state s e) (ro_providerId p)"
      by (simp add: provider_changes_with_def route_providers_def assigned(1) adjacent_changes_snoc
          active_route_def at_last_def last_map)
    with assigned(2) show ?thesis by simp
  qed (simp_all add: route_providers_def)
qed

lemma within_paid_limits_step:
  assumes "within_paid_limits s" "reduce_next env s e = Inr s'"
  shows "within_paid_limits s'"
  unfolding within_paid_limits_def
proof (intro allI impI)
  fix policy
  assume "v2_policy s' = Some policy"
  then have p: "v2_policy s = Some policy" using step_frame(6) [OF assms(2)] by simp
  show "int (length (filter is_paid (st_inferenceAttempts s'))) \<le> max 0 (p2_maxPaidAttempts policy) \<and>
     int (adjacent_changes (route_providers s')) \<le> max 0 (p2_maxProviderChanges policy)"
    using paid_count_step [OF assms(2) p] provider_changes_step [OF assms(2) p]
      assms(1) [unfolded within_paid_limits_def, rule_format, OF p]
    by linarith
qed

end
