(* ===== verification/SessionCosts.thy ===== *)
theory SessionCosts
  imports SessionLimits
begin

text \<open>
  The totals of a session: the reserved and settled amounts of every cost scope are the sums
  of what its routing decisions reserved and its finished attempts cost, and stay in the
  range of exact JavaScript integers; the dollar amount counts the actual scope only; a
  Hybrid simulation never moves the other two scopes.
\<close>

definition decision_reserves :: "cost_scope \<Rightarrow> routing_decision \<Rightarrow> int" where
  "decision_reserves scope d =
     (case (rd_billing d, rd_budgetReservationId d) of
        (Some b, Some _) \<Rightarrow>
          if effective_cost_scope (rd_costScope d) = scope then bl_projectedCostMicrousd b else 0
      | _ \<Rightarrow> 0)"

definition attempt_settles :: "cost_scope \<Rightarrow> attempt_record \<Rightarrow> int" where
  "attempt_settles scope a =
     (case finish_of a of
        None \<Rightarrow> 0
      | Some f \<Rightarrow> if effective_cost_scope (co_costScope (fin_cost f)) = scope
          then co_amountMicrousd (fin_cost f) else 0)"

definition total_reserved :: "cost_scope \<Rightarrow> session_state \<Rightarrow> int" where
  "total_reserved scope s =
     sum_list (map (\<lambda>r. decision_reserves scope (rec_payload r)) (st_routingDecisions s))"

definition total_settled :: "cost_scope \<Rightarrow> session_state \<Rightarrow> int" where
  "total_settled scope s = sum_list (map (attempt_settles scope) (st_inferenceAttempts s))"

definition cost_totals_of :: "session_state \<Rightarrow> cost_scope \<Rightarrow> bool" where
  "cost_totals_of s scope \<longleftrightarrow>
     (let a = scoped_amounts (st_costScopes s) scope in
      sc_reservedMicrousd a = total_reserved scope s \<and> sc_settledMicrousd a = total_settled scope s \<and>
      safe_non_negative (sc_reservedMicrousd a) \<and> safe_non_negative (sc_settledMicrousd a))"

definition cost_totals :: "session_state \<Rightarrow> bool" where
  "cost_totals s \<longleftrightarrow> (\<forall>scope. cost_totals_of s scope) \<and>
     us_costUsd (st_usage s) = of_int (total_settled Scope_actual s) / 1000000"

lemma add_scoped_cost_ok:
  assumes "add_scoped_cost p scope kind amount = Inr q"
  shows "scoped_amounts q sc =
      (if sc = scope then set_cost_of_kind kind (cost_of_kind kind (scoped_amounts p sc) + amount) (scoped_amounts p sc)
       else scoped_amounts p sc)"
    and "safe_non_negative (cost_of_kind kind (scoped_amounts p scope) + amount)"
proof -
  let ?n = "cost_of_kind kind (scoped_amounts p scope) + amount"
  have ok: "\<not> (\<not> is_safe_integer ?n \<or> ?n < 0)"
  proof
    assume b: "\<not> is_safe_integer ?n \<or> ?n < 0"
    from assms show False unfolding add_scoped_cost_def Let_def if_P [OF b] by simp
  qed
  then show "safe_non_negative ?n" by (auto simp: is_safe_integer_def safe_non_negative_def)
  have q: "q = (case scope of
       Scope_actual \<Rightarrow> p\<lparr>cs_actual := set_cost_of_kind kind ?n (cs_actual p)\<rparr>
     | Scope_simulation \<Rightarrow> p\<lparr>cs_simulation := set_cost_of_kind kind ?n (cs_simulation p)\<rparr>
     | Scope_legacy_unclassified \<Rightarrow>
         p\<lparr>cs_legacyUnclassified := set_cost_of_kind kind ?n (cs_legacyUnclassified p),
           cs_legacyPresent := True\<rparr>)"
    using assms unfolding add_scoped_cost_def Let_def if_not_P [OF ok] sum.inject by (rule sym)
  show "scoped_amounts q sc =
      (if sc = scope then set_cost_of_kind kind (cost_of_kind kind (scoped_amounts p sc) + amount) (scoped_amounts p sc)
       else scoped_amounts p sc)"
    unfolding q by (cases scope; cases sc) simp_all
qed

lemma sum_list_update_first:
  fixes g :: "'a \<Rightarrow> int"
  assumes "find p xs = Some a"
  shows "sum_list (map g (update_first p f xs)) = sum_list (map g xs) - g a + g (f a)"
  using assms by (induction xs) (auto split: if_splits)

lemma attempt_settles_finish [simp]:
  "attempt_settles scope (finish_attempt e p a) =
     (if effective_cost_scope (co_costScope (fin_cost p)) = scope then co_amountMicrousd (fin_cost p) else 0)"
  by (simp add: attempt_settles_def finish_attempt_def)

lemma total_settled_step:
  assumes "reduce_next env s e = Inr s'"
  shows "total_settled scope s' = total_settled scope s +
    (case ev_data e of InferenceAttemptFinished p \<Rightarrow>
        if effective_cost_scope (co_costScope (fin_cost p)) = scope then co_amountMicrousd (fin_cost p) else 0
      | _ \<Rightarrow> 0)"
proof (cases "ev_data e")
  case (InferenceAttemptFinished p)
  then obtain a where a: "find (\<lambda>a. at_attemptId (attempt_of a) = fin_attemptId p)
      (st_inferenceAttempts s) = Some a" "finish_start_checks (next_state s e) a p = None"
    "st_inferenceAttempts s' = update_first (\<lambda>r. at_attemptId (attempt_of r) = fin_attemptId p)
      (finish_attempt e p) (st_inferenceAttempts s)"
    using reduce_next_ok [OF assms] by (auto dest!: handle_attempt_finished_ok)
  have "attempt_settles scope a = 0"
    using a(2) by (simp add: finish_start_checks_def check_simps attempt_settles_def)
  then show ?thesis
    by (simp add: InferenceAttemptFinished total_settled_def a(3) sum_list_update_first [OF a(1)])
qed (use attempts_step [OF assms] in \<open>auto simp: total_settled_def attempt_settles_def\<close>)

lemma total_reserved_step:
  assumes "reduce_next env s e = Inr s'"
  shows "total_reserved scope s' = total_reserved scope s +
    (case ev_data e of RoutingDecisionRecorded d \<Rightarrow> decision_reserves scope d | _ \<Rightarrow> 0)"
proof (cases "ev_data e")
  case (RoutingDecisionRecorded d)
  then show ?thesis using reduce_next_ok [OF assms]
    by (auto dest!: handle_routing_decision_ok simp: total_reserved_def)
qed (use decisions_step [OF assms] in \<open>auto simp: total_reserved_def\<close>)

lemma reserve_decision_cost_ok:
  assumes "reserve_decision_cost s d = Inr q"
  shows "sc_reservedMicrousd (scoped_amounts q sc) =
      sc_reservedMicrousd (scoped_amounts (st_costScopes s) sc) + decision_reserves sc d"
    and "sc_settledMicrousd (scoped_amounts q sc) = sc_settledMicrousd (scoped_amounts (st_costScopes s) sc)"
    and "safe_non_negative (sc_reservedMicrousd (scoped_amounts (st_costScopes s) sc)) \<Longrightarrow>
      safe_non_negative (sc_reservedMicrousd (scoped_amounts q sc))"
  using assms
  by (auto simp: reserve_decision_cost_def decision_reserves_def add_scoped_cost_ok(1)
      dest: add_scoped_cost_ok(2) split: option.splits)

lemma cost_totals_step:
  assumes "cost_totals s" "reduce_next env s e = Inr s'"
  shows "cost_totals s'"
proof -
  have inv: "cost_totals_of s sc" "us_costUsd (st_usage s) = of_int (total_settled Scope_actual s) / 1000000"
    for sc using assms(1) by (simp_all add: cost_totals_def)
  note inv_of = inv(1) [unfolded cost_totals_of_def Let_def]
  note tot = total_settled_step [OF assms(2)] total_reserved_step [OF assms(2)]
  consider (same) "st_costScopes s' = st_costScopes s" "us_costUsd (st_usage s') = us_costUsd (st_usage s)"
      "\<forall>p. ev_data e \<noteq> RoutingDecisionRecorded p" "\<forall>p. ev_data e \<noteq> InferenceAttemptFinished p"
    | (reserve) d where "ev_data e = RoutingDecisionRecorded d"
      "reserve_decision_cost (next_state s e) d = Inr (st_costScopes s')"
      "us_costUsd (st_usage s') = us_costUsd (st_usage s)"
    | (settle) p where "ev_data e = InferenceAttemptFinished p"
      "add_scoped_cost (st_costScopes s) (effective_cost_scope (co_costScope (fin_cost p)))
         Settled_cost (co_amountMicrousd (fin_cost p)) = Inr (st_costScopes s')"
      "st_usage s' = finish_usage p (st_usage s)"
    using costs_step [OF assms(2)] by blast
  then show ?thesis
  proof cases
    case same
    then have t: "total_settled sc s' = total_settled sc s" "total_reserved sc s' = total_reserved sc s" for sc
      using tot [of sc] by (auto split: session_event_data.split)
    have "cost_totals_of s' sc" for sc
      using inv_of [of sc] by (auto simp: cost_totals_of_def Let_def same(1) t)
    with same(2) inv(2) t show ?thesis by (simp add: cost_totals_def)
  next
    case (reserve d)
    then have t: "total_settled sc s' = total_settled sc s"
      "total_reserved sc s' = total_reserved sc s + decision_reserves sc d" for sc
      using tot [of sc] by simp_all
    have "cost_totals_of s' sc" for sc
      using inv_of [of sc] reserve_decision_cost_ok [OF reserve(2), of sc]
      by (auto simp: cost_totals_of_def Let_def t)
    with reserve(3) inv(2) t show ?thesis by (simp add: cost_totals_def)
  next
    case (settle p)
    then have t: "total_reserved sc s' = total_reserved sc s"
      "total_settled sc s' = total_settled sc s + (if effective_cost_scope (co_costScope (fin_cost p)) = sc
        then co_amountMicrousd (fin_cost p) else 0)" for sc
      using tot [of sc] by simp_all
    have "cost_totals_of s' sc" for sc
      using inv_of [of sc] add_scoped_cost_ok [OF settle(2)] t [of sc]
      by (cases "sc = effective_cost_scope (co_costScope (fin_cost p))")
        (auto simp: cost_totals_of_def Let_def)
    moreover have "effective_cost_scope (co_costScope (fin_cost p)) = Scope_actual \<longleftrightarrow>
        co_costScope (fin_cost p) = Some Rt_actual"
      by (cases "co_costScope (fin_cost p)" rule: effective_cost_scope.cases) simp_all
    ultimately show ?thesis using inv(2) t [of Scope_actual]
      by (simp add: cost_totals_def settle(3) finish_usage_def add_divide_distrib)
  qed
qed

lemma cost_totals_initial: "cost_totals (create_initial_session_state e p)"
proof -
  have "cost_totals_of (create_initial_session_state e p) sc" for sc
    by (cases sc) (simp_all add: cost_totals_of_def Let_def empty_cost_scopes_def no_scoped_cost_def
        total_reserved_def total_settled_def safe_non_negative_def max_safe_integer_def)
  then show ?thesis by (simp add: cost_totals_def empty_usage_def total_settled_def)
qed

interpretation cost_replay: replay_invariant "reduce_next env" "replay_from env" reduce_first cost_totals
  by unfold_locales (auto dest!: reduce_first_ok intro: cost_totals_initial cost_totals_step)

lemma cost_totals_replay: "replay_session env es = Inr s \<Longrightarrow> cost_totals s"
  by (erule replay_session_start) (rule cost_replay.replay_inv)

section \<open>Simulated cost is never actual cost\<close>

definition is_simulation :: "session_state \<Rightarrow> bool" where
  "is_simulation s \<longleftrightarrow> holds (v2_policy s) (\<lambda>p. p2_routingPolicy p = Hybrid_simulation_v1)"

definition simulated_scopes :: "session_state \<Rightarrow> bool" where
  "simulated_scopes s \<longleftrightarrow> (is_simulation s \<longrightarrow>
     list_all (\<lambda>r. rd_costScope (rec_payload r) = Some Rt_simulation) (st_routingDecisions s) \<and>
     list_all (\<lambda>a. at_costScope (attempt_of a) = Some Rt_simulation \<and>
       (case finish_of a of None \<Rightarrow> True | Some f \<Rightarrow> co_costScope (fin_cost f) = Some Rt_simulation))
       (st_inferenceAttempts s))"

lemma list_all_update_first: "list_all q xs \<Longrightarrow> (\<And>x. q x \<Longrightarrow> p x \<Longrightarrow> q (f x)) \<Longrightarrow> list_all q (update_first p f xs)"
  by (induction xs) auto

lemma simulated_scopes_step:
  assumes "simulated_scopes s" "reduce_next env s e = Inr s'"
  shows "simulated_scopes s'"
  unfolding simulated_scopes_def
proof (intro impI conjI)
  assume "is_simulation s'"
  then have sim: "is_simulation s" using step_frame(6) [OF assms(2)] by (simp add: is_simulation_def)
  note inv = assms(1) [unfolded simulated_scopes_def, rule_format, OF sim]
  obtain policy where policy: "v2_policy s = Some policy" "p2_routingPolicy policy = Hybrid_simulation_v1"
    using sim by (auto simp: is_simulation_def holds_iff)
  show "list_all (\<lambda>r. rd_costScope (rec_payload r) = Some Rt_simulation) (st_routingDecisions s')"
    using decisions_step [OF assms(2)] inv policy
    by (auto simp: routing_checks_def scope_checks_def simulation_checks_def check_simps split: option.splits)
  show "list_all (\<lambda>a. at_costScope (attempt_of a) = Some Rt_simulation \<and>
       (case finish_of a of None \<Rightarrow> True | Some f \<Rightarrow> co_costScope (fin_cost f) = Some Rt_simulation))
       (st_inferenceAttempts s')"
  proof (cases "ev_data e")
    case (InferenceAttemptStarted p)
    then show ?thesis using reduce_next_ok [OF assms(2)] inv policy
      by (auto dest!: handle_attempt_started_ok attempt_start_checks_facts attempt_decision_checks_facts)
  next
    case (InferenceAttemptFinished p)
    then obtain a where a: "finish_cost_checks (next_state s e) policy a p = None"
      "st_inferenceAttempts s' = update_first (\<lambda>r. at_attemptId (attempt_of r) = fin_attemptId p)
        (finish_attempt e p) (st_inferenceAttempts s)"
      using reduce_next_ok [OF assms(2)] policy by (auto dest!: handle_attempt_finished_ok)
    have "co_costScope (fin_cost p) = Some Rt_simulation"
      using a(1) policy(2) by (simp add: finish_cost_checks_def check_simps)
    then show ?thesis unfolding a(2) using inv
      by (intro list_all_update_first) (auto simp: finish_attempt_def)
  qed (use attempts_step [OF assms(2)] inv in auto)
qed

lemma simulated_scopes_replay: "replay_session env es = Inr s \<Longrightarrow> simulated_scopes s"
  by (rule invariantI [where P = simulated_scopes])
    (auto intro: simulated_scopes_step, simp add: simulated_scopes_def)

lemma simulation_settles_nothing_else:
  assumes "simulated_scopes s" "is_simulation s" "scope \<noteq> Scope_simulation"
  shows "total_settled scope s = 0" "total_reserved scope s = 0"
proof -
  note inv = assms(1) [unfolded simulated_scopes_def, rule_format, OF assms(2)]
  have "attempt_settles scope a = 0" if "a \<in> set (st_inferenceAttempts s)" for a
    using inv that assms(3) by (auto simp: attempt_settles_def list_all_iff split: option.splits)
  then show "total_settled scope s = 0"
    unfolding total_settled_def by (simp cong: map_cong add: sum_list_0)
  have "decision_reserves scope (rec_payload r) = 0" if "r \<in> set (st_routingDecisions s)" for r
    using inv that assms(3) by (auto simp: decision_reserves_def list_all_iff split: option.splits)
  then show "total_reserved scope s = 0"
    unfolding total_reserved_def by (simp cong: map_cong add: sum_list_0)
qed

end
