(* ===== verification/SessionGuarantees.thy ===== *)
theory SessionGuarantees
  imports SessionCosts "HOL-Library.Sublist"
begin

text \<open>
  What a replayed session guarantees beyond its counts: attempts stay inside the episode,
  the cloud needs consent, a paid attempt belongs to the decision that reserved its budget,
  history only grows, a completed session has earned it.
\<close>

section \<open>The episode deadline\<close>

lemma deadline_step:
  assumes "reduce_next env s e = Inr s'"
  shows "(\<forall>p. ev_data e \<noteq> SessionStarted p) \<Longrightarrow>
      st_deadlineAt s' = st_deadlineAt s \<and> st_startedAt s' = st_startedAt s"
    and "ev_data e = SessionStarted p \<Longrightarrow> v2_policy s = Some policy \<Longrightarrow>
      st_status s = Created \<and> st_startedAt s' = Some (ev_createdAt e) \<and> (\<exists>dl. st_deadlineAt s' = Some dl \<and>
        expected_deadline (ev_createdAt e) (p2_maxEpisodeDurationMs policy) = Some dl) \<and>
      st_inferenceAttempts s' = st_inferenceAttempts s"
proof -
  obtain t where t: "handle_event env (next_state s e) e (ev_data e) = Inr t" "s' = mark_v2 e t"
    using reduce_next_ok [OF assms] by blast
  show "st_deadlineAt s' = st_deadlineAt s \<and> st_startedAt s' = st_startedAt s"
    if "\<forall>p. ev_data e \<noteq> SessionStarted p"
    using t that by (cases "ev_data e") (auto dest!: handler_ok simp: update_message_def)
  show "st_status s = Created \<and> st_startedAt s' = Some (ev_createdAt e) \<and> (\<exists>dl. st_deadlineAt s' = Some dl \<and>
        expected_deadline (ev_createdAt e) (p2_maxEpisodeDurationMs policy) = Some dl) \<and>
      st_inferenceAttempts s' = st_inferenceAttempts s"
    if "ev_data e = SessionStarted p" "v2_policy s = Some policy"
    using t that by (auto dest!: handle_session_started_ok)
qed

definition within_deadline :: "session_state \<Rightarrow> bool" where
  "within_deadline s \<longleftrightarrow> (\<forall>policy. v2_policy s = Some policy \<longrightarrow>
     (st_status s = Created \<longrightarrow> st_inferenceAttempts s = []) \<and>
     (\<forall>started. st_startedAt s = Some started \<longrightarrow> (\<exists>dl. st_deadlineAt s = Some dl \<and>
        expected_deadline started (p2_maxEpisodeDurationMs policy) = Some dl)) \<and>
     (st_startedAt s = None \<longrightarrow> st_deadlineAt s = None) \<and>
     list_all (\<lambda>a. holds (st_deadlineAt s) (\<lambda>dl. \<not> time_less_eq dl (rec_createdAt (ar_start a))))
       (st_inferenceAttempts s))"

lemma attempts_unless_created:
  assumes "reduce_next env s e = Inr s'" "st_status s' = Created"
  shows "st_status s = Created" "st_inferenceAttempts s' = st_inferenceAttempts s"
proof -
  show c: "st_status s = Created"
    using status_step [OF assms(1)] assms(2) by (cases "ev_data e") simp_all
  show "st_inferenceAttempts s' = st_inferenceAttempts s"
    using running_only [OF assms(1) c] attempts_step [OF assms(1)]
    by (auto simp: idle_successors_def)
qed

lemma started_record:
  assumes "attempt_start_checks s e policy p = None"
  shows "\<exists>dl. st_deadlineAt s = Some dl \<and> \<not> time_less_eq dl (ev_createdAt e)"
  using attempt_start_checks_facts [OF assms] attempt_decision_checks_facts by blast

lemma within_deadline_step:
  assumes "within_deadline s" "reduce_next env s e = Inr s'"
  shows "within_deadline s'"
  unfolding within_deadline_def
proof (intro allI impI)
  fix policy
  assume "v2_policy s' = Some policy"
  then have p: "v2_policy s = Some policy" using step_frame(6) [OF assms(2)] by simp
  note inv = assms(1) [unfolded within_deadline_def, rule_format, OF p]
  let ?ok = "\<lambda>dl a. holds dl (\<lambda>dl. \<not> time_less_eq dl (rec_createdAt (ar_start a)))"
  have created: "st_status s' = Created \<longrightarrow> st_inferenceAttempts s' = []"
    using attempts_unless_created [OF assms(2)] inv by auto
  have attempts: "list_all (?ok (st_deadlineAt s)) (st_inferenceAttempts s')"
  proof -
    consider (same) "st_inferenceAttempts s' = st_inferenceAttempts s"
      | (start) p policy where "attempt_start_checks (next_state s e) e policy p = None"
        "st_inferenceAttempts s' = st_inferenceAttempts s @ [\<lparr>ar_start = recorded e p, ar_finished = None\<rparr>]"
      | (finish) p where "st_inferenceAttempts s' =
          update_first (\<lambda>r. at_attemptId (attempt_of r) = fin_attemptId p) (finish_attempt e p) (st_inferenceAttempts s)"
      using attempts_step [OF assms(2)] by blast
    then show ?thesis
    proof cases
      case (start p policy)
      then show ?thesis using inv started_record [OF start(1)] by auto
    next
      case (finish p)
      then show ?thesis unfolding finish
        by (intro list_all_update_first) (use inv in \<open>auto simp: finish_attempt_def\<close>)
    qed (use inv in simp)
  qed
  show "(st_status s' = Created \<longrightarrow> st_inferenceAttempts s' = []) \<and>
     (\<forall>started. st_startedAt s' = Some started \<longrightarrow> (\<exists>dl. st_deadlineAt s' = Some dl \<and>
        expected_deadline started (p2_maxEpisodeDurationMs policy) = Some dl)) \<and>
     (st_startedAt s' = None \<longrightarrow> st_deadlineAt s' = None) \<and>
     list_all (?ok (st_deadlineAt s')) (st_inferenceAttempts s')"
  proof (cases "\<exists>q. ev_data e = SessionStarted q")
    case True
    then obtain q where q: "ev_data e = SessionStarted q" by blast
    note d = deadline_step(2) [OF assms(2) q p]
    then have "st_inferenceAttempts s' = []" using inv by simp
    with d show ?thesis by auto
  next
    case False
    then show ?thesis using deadline_step(1) [OF assms(2)] inv attempts created by auto
  qed
qed

lemma within_deadline_replay: "replay_session env es = Inr s \<Longrightarrow> within_deadline s"
  by (rule invariantI [where P = within_deadline])
    (auto intro: within_deadline_step, simp add: within_deadline_def)

section \<open>Consent\<close>

definition cloud_consented :: "session_state \<Rightarrow> bool" where
  "cloud_consented s \<longleftrightarrow> (\<forall>r\<in>set (st_routingDecisions s).
     rd_reasonCode (rec_payload r) = Rr_cloud_admitted \<longrightarrow>
     (\<exists>policy b. v2_policy s = Some policy \<and> (real_consent policy \<or> simulated_consent policy) \<and>
        rd_billing (rec_payload r) = Some b \<and>
        bl_projectedCostMicrousd b \<le> p2_maxPaidEpisodeMicrousd policy))"

lemma cloud_consented_step:
  assumes "cloud_consented s" "reduce_next env s e = Inr s'"
  shows "cloud_consented s'"
proof -
  note p = step_frame(6) [OF assms(2)]
  show ?thesis
    using decisions_step [OF assms(2)] assms(1) unfolding cloud_consented_def p
    by (auto simp: routing_checks_def consent_checks_def check_simps)
qed

text \<open>In a Hybrid simulation the egress policy has passed the very packet.\<close>

definition egress_passed_for :: "session_state \<Rightarrow> routing_decision \<Rightarrow> bool" where
  "egress_passed_for s d \<longleftrightarrow> (\<exists>r\<in>set (st_cloudEgressAdmissions s).
     ea_decision (rec_payload r) = Egress_pass \<and>
     rd_cloudEgressAdmissionId d = Some (ea_admissionId (rec_payload r)) \<and>
     packet_checkpoint_id d = Some (ea_checkpointId (rec_payload r)) \<and>
     packet_messages_sha256 d = Some (ea_messagesSemanticSha256 (rec_payload r)) \<and>
     rd_provenanceSemanticSha256 d = Some (ea_provenanceSemanticSha256 (rec_payload r)))"

definition simulation_egress :: "session_state \<Rightarrow> bool" where
  "simulation_egress s \<longleftrightarrow> (is_simulation s \<longrightarrow> (\<forall>r\<in>set (st_routingDecisions s).
     rd_reasonCode (rec_payload r) = Rr_cloud_admitted \<and> rd_boundary (rec_payload r) = Evidence_complete \<longrightarrow>
     egress_passed_for s (rec_payload r)))"

lemma evidence_admission_passed:
  assumes "evidence_admission_checks s e d = None" "rd_reasonCode d = Rr_cloud_admitted"
  shows "egress_passed_for s d"
proof -
  obtain r where r: "at_last (st_cloudEgressAdmissions s) = Some r" "\<not> admission_mismatch s e d r"
    "\<not> egress_consequence_wrong d (rec_payload r)"
    using assms by (auto simp: evidence_admission_checks_def check_simps split: option.splits)
  have "ea_decision (rec_payload r) = Egress_pass"
    using r(3) assms(2) by (cases "ea_decision (rec_payload r)") (simp_all add: egress_consequence_wrong_def)
  with r show ?thesis unfolding egress_passed_for_def
    by (intro bexI [OF _ at_last_mem [OF r(1)]]) (simp add: admission_mismatch_def)
qed

lemma egress_passed_mono:
  assumes "egress_passed_for s d" "reduce_next env s e = Inr s'"
  shows "egress_passed_for s' d"
  using admissions_step [OF assms(2)] assms(1) by (auto simp: egress_passed_for_def)

lemma simulation_egress_step:
  assumes "simulation_egress s" "reduce_next env s e = Inr s'"
  shows "simulation_egress s'"
  unfolding simulation_egress_def
proof (intro impI ballI)
  fix r
  assume "is_simulation s'" and r: "r \<in> set (st_routingDecisions s')"
    and cloud: "rd_reasonCode (rec_payload r) = Rr_cloud_admitted \<and> rd_boundary (rec_payload r) = Evidence_complete"
  then have sim: "is_simulation s" using step_frame(6) [OF assms(2)] by (simp add: is_simulation_def)
  have "egress_passed_for s (rec_payload r)"
  proof (cases "r \<in> set (st_routingDecisions s)")
    case True
    then show ?thesis using assms(1) sim cloud by (simp add: simulation_egress_def)
  next
    case False
    with r decisions_step [OF assms(2)] obtain d policy where d: "v2_policy s = Some policy"
      "routing_checks env (next_state s e) e policy d = None" "r = recorded e d"
      by auto
    then have "evidence_admission_checks (next_state s e) e d = None"
      using sim cloud by (auto simp: is_simulation_def routing_checks_def scope_checks_def
          simulation_checks_def check_simps split: option.splits)
    from evidence_admission_passed [OF this] cloud d(3) show ?thesis
      by (simp add: egress_passed_for_def)
  qed
  then show "egress_passed_for s' (rec_payload r)" using assms(2) by (rule egress_passed_mono)
qed

section \<open>Attempts and their decisions\<close>

definition decision_backs_attempt :: "attempt_start \<Rightarrow> routing_decision \<Rightarrow> bool" where
  "decision_backs_attempt a d \<longleftrightarrow>
     rd_decisionId d = at_decisionId a \<and> attempt_decision_links a d \<and>
     rd_budgetReservationId d = at_budgetReservationId a \<and>
     effective_cost_scope (at_costScope a) = effective_cost_scope (rd_costScope d)"

definition attempts_backed :: "session_state \<Rightarrow> bool" where
  "attempts_backed s \<longleftrightarrow> (\<forall>a\<in>set (st_inferenceAttempts s). \<exists>r\<in>set (st_routingDecisions s).
     decision_backs_attempt (attempt_of a) (rec_payload r))"

lemma find_decision_mem:
  assumes "find_decision s did = Some d"
  shows "\<exists>r\<in>set (st_routingDecisions s). rec_payload r = d" "rd_decisionId d = did"
  using find_SomeD [OF assms [unfolded find_decision_def]] by auto

lemma decisions_mono:
  "reduce_next env s e = Inr s' \<Longrightarrow> set (st_routingDecisions s) \<subseteq> set (st_routingDecisions s')"
  using decisions_step by fastforce

lemma attempts_backed_step:
  assumes "attempts_backed s" "reduce_next env s e = Inr s'"
  shows "attempts_backed s'"
  unfolding attempts_backed_def
proof
  fix a
  assume a: "a \<in> set (st_inferenceAttempts s')"
  have "\<exists>r\<in>set (st_routingDecisions s). decision_backs_attempt (attempt_of a) (rec_payload r)"
  proof (cases "\<exists>b\<in>set (st_inferenceAttempts s). attempt_of b = attempt_of a")
    case True
    then show ?thesis using assms(1) unfolding attempts_backed_def by metis
  next
    case False
    consider (same) "st_inferenceAttempts s' = st_inferenceAttempts s"
      | (start) p policy where "attempt_start_checks (next_state s e) e policy p = None"
        "st_inferenceAttempts s' = st_inferenceAttempts s @ [\<lparr>ar_start = recorded e p, ar_finished = None\<rparr>]"
      | (finish) p where "st_inferenceAttempts s' =
          update_first (\<lambda>r. at_attemptId (attempt_of r) = fin_attemptId p) (finish_attempt e p) (st_inferenceAttempts s)"
      using attempts_step [OF assms(2)] by blast
    then obtain p policy where p: "attempt_start_checks (next_state s e) e policy p = None" "attempt_of a = p"
    proof cases
      case same
      then show ?thesis using a False by auto
    next
      case (start p policy)
      with a False have "a = \<lparr>ar_start = recorded e p, ar_finished = None\<rparr>" by auto
      with start that show ?thesis by simp
    next
      case (finish p)
      then show ?thesis using a False set_update_first attempt_of_finish by metis
    qed
    obtain d where d: "find_decision s (at_decisionId p) = Some d"
      "attempt_decision_checks (next_state s e) e policy p d = None"
      using attempt_start_checks_facts [OF p(1)] by auto
    show ?thesis
      using find_decision_mem [OF d(1)] attempt_decision_checks_facts [OF d(2)] p(2)
      by (auto simp: decision_backs_attempt_def)
  qed
  then show "\<exists>r\<in>set (st_routingDecisions s'). decision_backs_attempt (attempt_of a) (rec_payload r)"
    using decisions_mono [OF assms(2)] by blast
qed

end
