(* ===== verification/SessionCompletion.thy ===== *)
theory SessionCompletion
  imports SessionGuarantees
begin

text \<open>
  What a session has when it ends: its attempts are closed, nothing streams or is pending,
  and a completed one has a successful last attempt, a completed last message that is its
  result, and, where it has completion obligations, an accepted check whose evidence still
  holds. And what replay keeps: records are never changed or removed.
\<close>

section \<open>Accepted checks\<close>

definition required_tools :: "session_state \<Rightarrow> tool_name list" where
  "required_tools s = ob_requiredSuccessfulTools (st_completionObligations s)"

definition obligations_met :: "replay_env \<Rightarrow> session_state \<Rightarrow> obligation_check \<Rightarrow> bool" where
  "obligations_met env s c \<longleftrightarrow>
     completed_required_tool_prefix env (st_messages s) (required_tools s) = required_tools s \<and>
     int (length (ck_verifiedPathLineCitations c)) \<ge>
       ob_minimumVerifiedPathLineCitations (st_completionObligations s) \<and>
     ck_unresolvedCitationCount c = 0"

text \<open>The last check, while it is the last event, speaks of the current messages.\<close>

definition check_current :: "replay_env \<Rightarrow> session_state \<Rightarrow> bool" where
  "check_current env s \<longleftrightarrow> (\<forall>c\<in>set (st_completionChecks s). rec_sequence c \<le> st_lastSequence s \<and>
     (rec_sequence c = st_lastSequence s \<and> ck_outcome (rec_payload c) = Obl_accepted \<longrightarrow>
        obligations_met env s (rec_payload c)))"

lemma accepted_check_met:
  assumes "check_evidence_checks env s m c = None" "ck_outcome c = Obl_accepted"
  shows "obligations_met env s c"
proof -
  let ?req = "required_tools s"
  let ?done = "completed_required_tool_prefix env (st_messages s) ?req"
  have "ck_outcome c = expected_outcome s (drop (length ?done) ?req) c"
    using assms(1) by (simp add: check_evidence_checks_def required_tools_def Let_def check_simps)
  then have sat: "obligations_satisfied s (drop (length ?done) ?req) c"
    using assms(2) by (simp add: expected_outcome_def split: if_splits)
  have "?done = take (length ?done) ?req"
    by (simp add: completed_required_tool_prefix_def min_def)
  with sat have "?done = ?req" by (simp add: obligations_satisfied_def)
  with sat show ?thesis by (simp add: obligations_met_def obligations_satisfied_def)
qed

lemma check_current_step:
  assumes "check_current env s" "reduce_next env s e = Inr s'"
  shows "check_current env s'"
  unfolding check_current_def
proof
  fix c
  assume c: "c \<in> set (st_completionChecks s')"
  note f = step_frame [OF assms(2)]
  show "rec_sequence c \<le> st_lastSequence s' \<and>
     (rec_sequence c = st_lastSequence s' \<and> ck_outcome (rec_payload c) = Obl_accepted \<longrightarrow>
        obligations_met env s' (rec_payload c))"
  proof (cases "c \<in> set (st_completionChecks s)")
    case True
    then show ?thesis using assms(1) f(8) by (auto simp: check_current_def)
  next
    case False
    with c checks_step [OF assms(2)] obtain p m where p: "ev_data e = CompletionObligationsChecked p"
      "check_evidence_checks env (next_state s e) m p = None" "c = recorded e p"
      by auto
    have "st_messages s' = st_messages s"
      using reduce_next_ok [OF assms(2)] p(1) by (auto dest!: handle_obligations_checked_ok)
    then have "obligations_met env s' p = obligations_met env (next_state s e) p"
      using f(5) by (simp add: obligations_met_def required_tools_def)
    then show ?thesis using accepted_check_met [OF p(2)] f(8,9) p(3) by simp
  qed
qed

lemma check_current_replay: "replay_session env es = Inr s \<Longrightarrow> check_current env s"
  by (rule invariantI [where P = "check_current env"])
    (auto intro: check_current_step, simp add: check_current_def)

section \<open>Terminal sessions\<close>

definition quiescent :: "session_state \<Rightarrow> bool" where
  "quiescent s \<longleftrightarrow>
     list_all (\<lambda>a. \<not> attempt_is_open a) (st_inferenceAttempts s) \<and>
     list_all (\<lambda>m. \<not> streaming m) (st_messages s) \<and>
     list_all (\<lambda>t. \<not> pending_tool t) (all_tool_calls s) \<and>
     length (st_contextCompilations s) = length (st_inferenceAttempts s)"

lemma terminal_ready_quiescent:
  "assert_v2_terminal_ready s t = None \<Longrightarrow> is_v2 s \<Longrightarrow> quiescent s"
  by (auto simp: assert_v2_terminal_ready_def check_simps quiescent_def list_all_iff list_ex_iff)

definition earned_completion :: "replay_env \<Rightarrow> session_state \<Rightarrow> bool" where
  "earned_completion env s \<longleftrightarrow>
     (is_v2 s \<longrightarrow> holds (latest_attempt s) attempt_succeeded \<and>
       holds (latest_assistant s) (\<lambda>m. msg_status m = Msg_completed \<and> st_result s = Some (msg_content m)) \<and>
       (st_taskTrack s = Some Change_review_v1 \<longrightarrow>
          holds (latest_attempt s) (\<lambda>a. final_review_accepted s (attempt_of a)))) \<and>
     (has_completion_obligations (st_completionObligations s) \<longrightarrow>
       holds (at_last (st_completionChecks s)) (\<lambda>c.
         ck_outcome (rec_payload c) = Obl_accepted \<and> obligations_met env s (rec_payload c) \<and>
         holds (latest_assistant s) (\<lambda>m. ck_messageId (rec_payload c) = msg_id m)))"

definition terminal_facts :: "replay_env \<Rightarrow> session_state \<Rightarrow> bool" where
  "terminal_facts env s \<longleftrightarrow>
     (is_terminal_status (st_status s) \<and> is_v2 s \<longrightarrow> quiescent s) \<and>
     (st_status s = Completed \<longrightarrow> earned_completion env s)"

lemma quiescent_frames [simp]:
  "quiescent (s\<lparr>st_status := x\<rparr>) = quiescent s" "quiescent (s\<lparr>st_error := y\<rparr>) = quiescent s"
  "quiescent (s\<lparr>st_result := y\<rparr>) = quiescent s" "quiescent (mark_v2 e s) = quiescent s"
  "quiescent (next_state s e) = quiescent s"
  by (simp_all add: quiescent_def all_tool_calls_def)

lemma quiescent_interrupt: "quiescent s \<Longrightarrow> quiescent (s\<lparr>st_messages := map fail_streaming (st_messages s)\<rparr>)"
  by (auto simp: quiescent_def all_tool_calls_calls_of calls_of_map list_all_iff fail_streaming_def)

lemma session_completed_earned:
  assumes "handle_session_completed s e r = Inr t" "check_current env s0" "s = next_state s0 e"
    "ev_sequence e = st_lastSequence s0 + 1"
  shows "earned_completion env (mark_v2 e t)"
proof -
  note h = handle_session_completed_ok [OF assms(1)]
  have t: "t = s\<lparr>st_status := Completed,
      st_result := coalesce_opt r (map_option msg_content (latest_assistant s))\<rparr>" using h by blast
  have frames: "latest_attempt (mark_v2 e t) = latest_attempt s" "latest_assistant (mark_v2 e t) = latest_assistant s"
    "v2_policy (mark_v2 e t) = v2_policy s" "final_review_accepted (mark_v2 e t) a = final_review_accepted s a"
    "obligations_met env (mark_v2 e t) c = obligations_met env s c" for a c
    by (simp_all add: t latest_attempt_def latest_assistant_def v2_policy_def final_review_accepted_def
        obligations_met_def required_tools_def)
  have result: "holds (latest_assistant s) (\<lambda>m. msg_status m = Msg_completed \<and>
      st_result (mark_v2 e t) = Some (msg_content m))" if "is_v2 s"
    using h that by (cases r) (auto simp: t result_differs_def)
  have attempt: "holds (latest_attempt s) attempt_succeeded \<and>
      (st_taskTrack s = Some Change_review_v1 \<longrightarrow>
        holds (latest_attempt s) (\<lambda>a. final_review_accepted s (attempt_of a)))" if "is_v2 s"
    using h that by (auto simp: assert_v2_terminal_ready_def check_simps)
  have check: "holds (at_last (st_completionChecks s)) (\<lambda>c.
         ck_outcome (rec_payload c) = Obl_accepted \<and> obligations_met env s (rec_payload c) \<and>
         holds (latest_assistant s) (\<lambda>m. ck_messageId (rec_payload c) = msg_id m))"
    if ob: "has_completion_obligations (st_completionObligations s)"
  proof -
    obtain m c where mc: "latest_assistant s = Some m" "at_last (st_completionChecks s) = Some c"
      "accepted_check_for e m c"
      using h ob by blast
    then have "obligations_met env s0 (rec_payload c)"
      using assms(2-4) at_last_mem [OF mc(2)] by (auto simp: check_current_def accepted_check_for_def)
    then have "obligations_met env s (rec_payload c)"
      by (simp add: assms(3) obligations_met_def required_tools_def)
    with mc show ?thesis by (simp add: accepted_check_for_def)
  qed
  show ?thesis
    unfolding earned_completion_def frames
    using result attempt check by (simp add: t)
qed

lemma terminal_facts_step:
  assumes "check_current env s" "reduce_next env s e = Inr s'"
  shows "terminal_facts env s'"
proof -
  obtain t where t: "event_guards s e = None" "handle_event env (next_state s e) e (ev_data e) = Inr t"
    "s' = mark_v2 e t"
    using reduce_next_ok [OF assms(2)] by blast
  note active = event_guards_None [OF t(1)]
  have ready: "assert_v2_terminal_ready (next_state s e) k = None \<Longrightarrow> is_v2 s \<Longrightarrow> quiescent s" for k
    using terminal_ready_quiescent [of "next_state s e" k] by simp
  show ?thesis
  proof (cases "ev_data e")
    case (SessionCompleted r)
    with t have h: "handle_session_completed (next_state s e) e r = Inr t" by simp
    then have "is_v2 s \<Longrightarrow> quiescent s'"
      using handle_session_completed_ok [OF h] ready t(3) by auto
    moreover have "earned_completion env s'"
      using session_completed_earned [OF h assms(1)] active t(3) by simp
    ultimately show ?thesis using step_frame(6) [OF assms(2)] by (simp add: terminal_facts_def)
  next
    case (SessionFailed r)
    then have h: "assert_v2_terminal_ready (next_state s e) T_session_failed = None"
      "t = (next_state s e)\<lparr>st_status := Failed, st_error := Some r\<rparr>"
      using t(2) handle_session_failed_ok [of "next_state s e" r t] by simp_all
    show ?thesis
      using ready [OF h(1)] step_frame(6) [OF assms(2)]
      by (simp add: terminal_facts_def t(3) h(2))
  next
    case (SessionCancelled r)
    then have h: "assert_v2_terminal_ready (next_state s e) T_session_cancelled = None"
      "t = (next_state s e)\<lparr>st_status := Cancelled, st_error := r\<rparr>"
      using t(2) handle_session_cancelled_ok [of "next_state s e" r t] by simp_all
    show ?thesis
      using ready [OF h(1)] step_frame(6) [OF assms(2)]
      by (simp add: terminal_facts_def t(3) h(2))
  next
    case (SessionInterrupted r)
    then have h: "assert_v2_terminal_ready (next_state s e) T_session_interrupted = None"
      "t = (next_state s e)\<lparr>st_status := Interrupted, st_error := Some r, st_messages := map fail_streaming (st_messages s)\<rparr>"
      using t(2) handle_session_interrupted_ok [of "next_state s e" r t] by simp_all
    show ?thesis
      using ready [OF h(1)] step_frame(6) [OF assms(2)]
        quiescent_interrupt [of "(next_state s e)\<lparr>st_status := Interrupted, st_error := Some r\<rparr>"]
      by (simp add: terminal_facts_def t(3) h(2))
  qed (use status_step [OF assms(2)] active in
      \<open>auto simp: terminal_facts_def is_terminal_status_def\<close>)
qed

lemma terminal_facts_replay:
  assumes "replay_session env es = Inr s"
  shows "terminal_facts env s"
proof -
  have "terminal_facts env s \<and> check_current env s"
    by (rule invariantI [where P = "\<lambda>s. terminal_facts env s \<and> check_current env s", OF assms])
      (auto simp: terminal_facts_def [of env "create_initial_session_state _ _"] is_terminal_status_def
        check_current_def [of env "create_initial_session_state _ _"]
        intro: terminal_facts_step check_current_step)
  then show ?thesis ..
qed

section \<open>History only grows\<close>

definition finished_kept :: "attempt_record list \<Rightarrow> attempt_record list \<Rightarrow> bool" where
  "finished_kept as bs \<longleftrightarrow> length as \<le> length bs \<and>
     list_all (\<lambda>(a, b). ar_start b = ar_start a \<and> (ar_finished a \<noteq> None \<longrightarrow> b = a)) (zip as bs)"

definition history_kept :: "session_state \<Rightarrow> session_state \<Rightarrow> bool" where
  "history_kept s s' \<longleftrightarrow>
     prefix (st_routes s) (st_routes s') \<and>
     prefix (st_routingDecisions s) (st_routingDecisions s') \<and>
     prefix (st_contextCompilations s) (st_contextCompilations s') \<and>
     prefix (st_cloudEgressAdmissions s) (st_cloudEgressAdmissions s') \<and>
     prefix (st_completionChecks s) (st_completionChecks s') \<and>
     finished_kept (st_inferenceAttempts s) (st_inferenceAttempts s')"

lemma finished_kept_iff:
  "finished_kept as bs \<longleftrightarrow> length as \<le> length bs \<and>
     (\<forall>i<length as. ar_start (bs ! i) = ar_start (as ! i) \<and> (ar_finished (as ! i) \<noteq> None \<longrightarrow> bs ! i = as ! i))"
  unfolding finished_kept_def list_all_length by auto

lemma finished_kept_refl [simp]: "finished_kept as as"
  by (simp add: finished_kept_iff)

lemma finished_kept_trans: "finished_kept as bs \<Longrightarrow> finished_kept bs cs \<Longrightarrow> finished_kept as cs"
  unfolding finished_kept_iff by (metis order_less_le_trans order_trans)

lemma finished_kept_snoc [simp]: "finished_kept as (as @ [a])"
  by (simp add: finished_kept_iff nth_append)

lemma nth_update_first:
  assumes "find p xs = Some a" "i < length xs" "update_first p f xs ! i \<noteq> xs ! i"
  shows "xs ! i = a \<and> update_first p f xs ! i = f a"
  using assms
proof (induction xs arbitrary: i)
  case Nil
  then show ?case by simp
next
  case (Cons x xs)
  then show ?case by (cases i) (auto split: if_splits)
qed

lemma finished_kept_finish:
  assumes "find p as = Some a" "ar_finished a = None" "\<And>x. ar_start (f x) = ar_start x"
  shows "finished_kept as (update_first p f as)"
  unfolding finished_kept_iff
proof (intro conjI allI impI)
  fix i
  assume i: "i < length as"
  show "ar_start (update_first p f as ! i) = ar_start (as ! i)"
    using nth_update_first [OF assms(1) i, of f] assms(3) by (cases "update_first p f as ! i = as ! i") simp_all
  assume "ar_finished (as ! i) \<noteq> None"
  with assms(2) nth_update_first [OF assms(1) i, of f] show "update_first p f as ! i = as ! i"
    by (cases "update_first p f as ! i = as ! i") auto
qed simp

lemma history_kept_step:
  assumes "reduce_next env s e = Inr s'"
  shows "history_kept s s'"
proof -
  have "finished_kept (st_inferenceAttempts s) (st_inferenceAttempts s')"
  proof -
    consider (same) "st_inferenceAttempts s' = st_inferenceAttempts s"
      | (start) a where "st_inferenceAttempts s' = st_inferenceAttempts s @ [a]"
      | (finish) p a where "find (\<lambda>a. at_attemptId (attempt_of a) = fin_attemptId p) (st_inferenceAttempts s) = Some a"
        "finish_start_checks (next_state s e) a p = None" "st_inferenceAttempts s' =
          update_first (\<lambda>r. at_attemptId (attempt_of r) = fin_attemptId p) (finish_attempt e p) (st_inferenceAttempts s)"
      using attempts_step [OF assms] by blast
    then show ?thesis
    proof cases
      case (finish p a)
      have "ar_finished a = None" using finish(2) by (simp add: finish_start_checks_def check_simps)
      then show ?thesis unfolding finish(3)
        by (rule finished_kept_finish [OF finish(1)]) (simp add: finish_attempt_def)
    qed simp_all
  qed
  then show ?thesis
    unfolding history_kept_def
    using routes_step [OF assms] decisions_step [OF assms] contexts_step [OF assms]
      admissions_step [OF assms] checks_step [OF assms]
    by (intro conjI) (auto simp del: event_type_simps)
qed

lemma history_kept_refl: "history_kept s s"
  by (simp add: history_kept_def)

lemma history_kept_trans: "history_kept a b \<Longrightarrow> history_kept b c \<Longrightarrow> history_kept a c"
  unfolding history_kept_def using finished_kept_trans prefix_order.trans by metis

lemma history_kept_from: "replay_from env s es = Inr s' \<Longrightarrow> history_kept s s'"
  by (rule session_replay.run_relation [where R = history_kept, OF history_kept_step history_kept_refl
        history_kept_trans])

end
