(* ===== verification/SampleSession.thy ===== *)
theory SampleSession
  imports SessionReducer
begin

text \<open>
  Concrete streams for the witnesses: a hybrid session that investigates locally with one
  tool call, is admitted to the cloud with a reservation of 1000 micro-dollars, and ends
  with a cost of 800; and the same session as a Hybrid simulation, with its authority and the
  record of the egress policy. Nothing here models code.
\<close>

definition sample_env :: replay_env where
  "sample_env =
     \<lparr>env_json_parse = (\<lambda>_. None), env_inspect_request_ok = (\<lambda>_. False),
      env_inspect_result_ok = (\<lambda>_. False), env_repository_observation_ok = (\<lambda>_ _ _. True),
      env_normalize_citations =
        (\<lambda>c _. \<lparr>ci_content = c, ci_verifiedCitations = [], ci_unresolved = []\<rparr>)\<rparr>"

definition sample_policy :: policy_v2 where
  "sample_policy =
     \<lparr>p2_inferenceRounds = 4, p2_toolCalls = 4, p2_routingPolicy = Hybrid_v0,
      p2_maxProviderChanges = 2, p2_maxPaidAttempts = 1, p2_maxPaidEpisodeMicrousd = 250000,
      p2_maxEpisodeDurationMs = 600000, p2_attemptTimeoutMs = 60000,
      p2_egressConsent = Session_cloud_synthesis_v1, p2_simulationConsent = None\<rparr>"

definition sample_time :: string where
  "sample_time = ''2026-09-01T00:00:00.000Z''"

definition sample_deadline :: string where
  "sample_deadline = ''2026-09-01T00:10:00.000Z''"

definition sample_event :: "int \<Rightarrow> session_event_data \<Rightarrow> stored_event" where
  "sample_event n d = \<lparr>ev_id = ''e'', ev_sessionId = ''s'', ev_sequence = n,
     ev_createdAt = sample_time, ev_data = d\<rparr>"

definition sample_check :: "admission_reason \<Rightarrow> admission_check" where
  "sample_check r = \<lparr>ac_status = Passed, ac_reasonCode = r\<rparr>"

definition sample_skip :: admission_check where
  "sample_skip = \<lparr>ac_status = Not_applicable, ac_reasonCode = Ar_not_applicable\<rparr>"

definition sample_created :: session_event_data where
  "sample_created = SessionCreated
     \<lparr>cr_title = ''t'', cr_objective = ''o'', cr_workspaceRoot = ''/w'', cr_profile = Balanced,
      cr_taskTrack = None, cr_completionObligations = None,
      cr_executionPolicy = Some (Policy_v2 sample_policy), cr_hybridSimulation = None\<rparr>"

definition sample_start_decision :: routing_decision where
  "sample_start_decision =
     \<lparr>rd_decisionId = ''d1'', rd_costScope = Some Rt_actual, rd_cloudEgressAdmissionId = None,
      rd_boundary = Session_start, rd_phase = Investigation, rd_action = Assign_new_lease,
      rd_reasonCode = Rr_local_investigation, rd_candidateProviderIds = [''cloud'', ''local''],
      rd_selectedProviderId = ''local'', rd_selectedModel = ''lm'', rd_proposedProviderId = None,
      rd_proposedModel = None, rd_priorLeaseId = None, rd_selectedLeaseId = ''l1'',
      rd_riskPolicyId = None, rd_riskScore = None, rd_riskSignals = [],
      rd_riskIncompleteReason = None, rd_triggerFacts = [],
      rd_admission = \<lparr>ad_capability = sample_check Ar_capability_ok, ad_credential = sample_skip,
        ad_health = sample_skip, ad_pricing = None, ad_egress = sample_skip,
        ad_deadline = sample_check Ar_deadline_ok, ad_budget = sample_skip\<rparr>,
      rd_routerInputSnapshot = None, rd_healthSnapshotId = None, rd_pricingSnapshotId = None,
      rd_campaignId = None, rd_budgetReservationId = None, rd_credentialMetadataId = None,
      rd_billing = None, rd_checkpointId = None, rd_packetSha256 = None, rd_messagesSha256 = None,
      rd_provenanceSemanticSha256 = None, rd_proposalCheckpointId = None,
      rd_proposalPacketSha256 = None, rd_proposalMessagesSha256 = None\<rparr>"

definition sample_billing :: billing where
  "sample_billing =
     \<lparr>bl_billableInputTokens = 500, bl_billableCacheReadTokens = 0, bl_requestedMaxOutputTokens = 500,
      bl_inputRate = 1000000, bl_outputRate = 1000000, bl_cacheReadRate = None,
      bl_providerFeeCeilingMicrousd = 0, bl_projectedCostMicrousd = 1000,
      bl_remainingEpisodeMicrousd = 250000, bl_remainingCampaignMicrousd = 250000\<rparr>"

definition sample_cloud_decision :: routing_decision where
  "sample_cloud_decision = sample_start_decision
     \<lparr>rd_decisionId := ''d2'', rd_boundary := Evidence_complete, rd_phase := Synthesis,
      rd_reasonCode := Rr_cloud_admitted, rd_selectedProviderId := ''cloud'',
      rd_selectedModel := ''cm'', rd_priorLeaseId := Some ''l1'', rd_selectedLeaseId := ''l2'',
      rd_admission := \<lparr>ad_capability = sample_check Ar_capability_ok,
        ad_credential = sample_check Ar_credential_ok, ad_health = sample_check Ar_health_ok,
        ad_pricing = Some (sample_check Ar_pricing_ok), ad_egress = sample_check Ar_egress_ok,
        ad_deadline = sample_check Ar_deadline_ok, ad_budget = sample_check Ar_budget_ok\<rparr>,
      rd_healthSnapshotId := Some ''h'', rd_pricingSnapshotId := Some ''p'',
      rd_campaignId := Some ''c'', rd_budgetReservationId := Some ''r1'',
      rd_credentialMetadataId := Some ''k'', rd_billing := Some sample_billing,
      rd_checkpointId := Some ''s:context:2'', rd_packetSha256 := Some ''h2'',
      rd_messagesSha256 := Some ''m2''\<rparr>"

definition sample_route :: "routing_decision \<Rightarrow> session_event_data" where
  "sample_route d = RouteAssigned
     \<lparr>ro_providerId = rd_selectedProviderId d, ro_model = rd_selectedModel d, ro_reason = ''r'',
      ro_leaseId = Some (rd_selectedLeaseId d), ro_decisionId = Some (rd_decisionId d),
      ro_phase = Some (rd_phase d)\<rparr>"

definition sample_assistant :: "routing_decision \<Rightarrow> string \<Rightarrow> string \<Rightarrow> string \<Rightarrow> session_event_data" where
  "sample_assistant d m c a = AssistantMessageStarted
     \<lparr>as_messageId = m, as_providerId = rd_selectedProviderId d, as_model = rd_selectedModel d,
      as_decisionId = Some (rd_decisionId d), as_leaseId = Some (rd_selectedLeaseId d),
      as_checkpointId = Some c, as_attemptId = Some a\<rparr>"

definition sample_context ::
  "routing_decision \<Rightarrow> string \<Rightarrow> string \<Rightarrow> string \<Rightarrow> compilation_reason \<Rightarrow> compilation_mode \<Rightarrow> session_event_data" where
  "sample_context d m c a reason mode = ContextCompiled
     \<lparr>cc_checkpointId = c, cc_compilerVersion = Context_compiler_v1, cc_reason = reason,
      cc_mode = mode, cc_providerId = rd_selectedProviderId d, cc_model = rd_selectedModel d,
      cc_maxTokens = 1000, cc_estimatedTokens = 400, cc_reservedInputTokens = 100,
      cc_effectiveInputTokenBudget = 900, cc_sourceMessageCount = 1, cc_messageCount = 1,
      cc_evidenceCount = 0, cc_deduplicatedEvidenceCount = 0, cc_omittedEvidenceCount = 0,
      cc_packetSha256 = ''h2'', cc_messagesSha256 = ''m2'', cc_safetyMargin = 0,
      cc_decisionId = Some (rd_decisionId d), cc_leaseId = Some (rd_selectedLeaseId d),
      cc_messageId = Some m, cc_attemptId = Some a, cc_reviewSnapshotId = None,
      cc_reviewEvidenceSetId = None, cc_reviewProvenanceSha256 = None,
      cc_structuredOutputContract = None, cc_structuredOutputSchemaSha256 = None\<rparr>"

definition sample_attempt ::
  "routing_decision \<Rightarrow> int \<Rightarrow> string \<Rightarrow> string \<Rightarrow> string \<Rightarrow> bool \<Rightarrow> session_event_data" where
  "sample_attempt d n m c a tools = InferenceAttemptStarted
     \<lparr>at_attemptId = a, at_round = n, at_checkpointId = c, at_messageId = m,
      at_decisionId = rd_decisionId d, at_leaseId = rd_selectedLeaseId d,
      at_providerId = rd_selectedProviderId d, at_requestedModel = rd_selectedModel d,
      at_phase = rd_phase d, at_requestedMaxOutputTokens = 500, at_allowTools = tools,
      at_allowedToolNames = (if tools then Some [''list_files''] else None),
      at_requireToolCall = False, at_structuredOutputContract = None,
      at_structuredOutputSchemaSha256 = None, at_budgetReservationId = rd_budgetReservationId d,
      at_costScope = rd_costScope d,
      at_cloudEgressAdmissionId = rd_cloudEgressAdmissionId d\<rparr>"

definition sample_answer :: "string \<Rightarrow> string \<Rightarrow> string \<Rightarrow> session_event_data" where
  "sample_answer m a reason = AssistantMessageCompleted
     \<lparr>ac_messageId = m, ac_content = Some ''done'', ac_stopReason = Some (Some reason),
      ac_completionState = None, ac_citationCorrections = None, ac_reviewParseStatus = None,
      ac_reviewResult = None, ac_reviewCoverage = None, ac_attemptId = Some a\<rparr>"

definition sample_finish ::
  "string \<Rightarrow> string \<Rightarrow> string \<Rightarrow> string \<Rightarrow> attempt_cost \<Rightarrow> session_event_data" where
  "sample_finish c a model reason cost = InferenceAttemptFinished
     \<lparr>fin_attemptId = a, fin_checkpointId = c, fin_outcome = Succeeded,
      fin_requestDisposition = Sent, fin_finishReason = Some (Some reason),
      fin_servedModel = Some model,
      fin_usage = \<lparr>au_inputTokens = 10, au_outputTokens = 5, au_reasoningTokens = 0,
        au_cacheReadTokens = None, au_reported = True\<rparr>,
      fin_cost = cost, fin_latencyMs = 3, fin_ttftMs = None, fin_errorCode = None,
      fin_responseBodySha256 = None, fin_reviewResultSha256 = None\<rparr>"

definition sample_local_cost :: "runtime_cost_scope \<Rightarrow> attempt_cost" where
  "sample_local_cost scope = \<lparr>co_amountMicrousd = 0, co_provenance = Local_zero_cost_policy,
     co_reservationId = None, co_costScope = Some scope\<rparr>"

definition sample_cloud_cost :: "runtime_cost_scope \<Rightarrow> attempt_cost" where
  "sample_cloud_cost scope = \<lparr>co_amountMicrousd = 800, co_provenance = Host_pricing_snapshot,
     co_reservationId = Some ''r1'', co_costScope = Some scope\<rparr>"

definition sample_steps ::
  "session_event_data \<Rightarrow> routing_decision \<Rightarrow> routing_decision \<Rightarrow> session_event_data list \<Rightarrow>
     runtime_cost_scope \<Rightarrow> session_event_data list" where
  "sample_steps created d1 d2 admission scope =
     [created,
      SessionStarted \<lparr>sp_startedAt = Some sample_time, sp_deadlineAt = Some sample_deadline\<rparr>,
      UserMessage \<lparr>um_messageId = ''u'', um_content = ''hi''\<rparr>,
      RoutingDecisionRecorded d1, sample_route d1,
      sample_assistant d1 ''m1'' ''s:context:1'' ''a1'',
      sample_context d1 ''m1'' ''s:context:1'' ''a1'' Reason_session_start Working,
      sample_attempt d1 1 ''m1'' ''s:context:1'' ''a1'' True,
      AssistantMessageDelta \<lparr>de_messageId = ''m1'', de_delta = ''x''\<rparr>,
      sample_answer ''m1'' ''a1'' ''tool_calls'',
      sample_finish ''s:context:1'' ''a1'' ''lm'' ''tool_calls'' (sample_local_cost scope),
      ToolCallRequested \<lparr>tq_toolCallId = ''t1'', tq_name = ''list_files'', tq_arguments = JObject [],
        tq_messageId = None\<rparr>,
      ToolCallCompleted \<lparr>td_toolCallId = ''t1'', td_name = ''list_files'', td_content = ''ok'',
        td_isError = False, td_durationMs = None\<rparr>] @
     admission @
     [RoutingDecisionRecorded d2, sample_route d2,
      sample_assistant d2 ''m2'' ''s:context:2'' ''a2'',
      sample_context d2 ''m2'' ''s:context:2'' ''a2'' Reason_finalization_boundary Finalization,
      sample_attempt d2 2 ''m2'' ''s:context:2'' ''a2'' False,
      sample_answer ''m2'' ''a2'' ''stop'',
      sample_finish ''s:context:2'' ''a2'' ''cm'' ''stop'' (sample_cloud_cost scope),
      SessionCompleted (Some ''done'')]"

fun number_from :: "int \<Rightarrow> session_event_data list \<Rightarrow> stored_event list" where
  "number_from n [] = []"
| "number_from n (d # ds) = sample_event n d # number_from (n + 1) ds"

definition sample_events :: "stored_event list" where
  "sample_events = number_from 1
     (sample_steps sample_created sample_start_decision sample_cloud_decision [] Rt_actual)"

section \<open>The simulation\<close>

definition sample_authority :: simulation_authority where
  "sample_authority =
     \<lparr>ha_simulationAuthorityId = ''auth'',
      ha_fakeLocalProvider = \<lparr>pid_providerId = ''local'', pid_model = ''lm''\<rparr>,
      ha_fakeCloudProvider = \<lparr>pid_providerId = ''cloud'', pid_model = ''cm''\<rparr>,
      ha_riskPolicyId = ''risk'', ha_healthSnapshotId = ''h'', ha_pricingSnapshotId = ''p'',
      ha_credentialMetadataId = ''k'', ha_campaignId = ''c''\<rparr>"

definition simulated_policy :: policy_v2 where
  "simulated_policy = sample_policy
     \<lparr>p2_routingPolicy := Hybrid_simulation_v1, p2_egressConsent := Consent_none,
      p2_simulationConsent := Some Simulation_cloud_synthesis_v1\<rparr>"

definition simulated_created :: session_event_data where
  "simulated_created = SessionCreated
     \<lparr>cr_title = ''t'', cr_objective = ''o'', cr_workspaceRoot = ''/w'', cr_profile = Balanced,
      cr_taskTrack = None, cr_completionObligations = None,
      cr_executionPolicy = Some (Policy_v2 simulated_policy),
      cr_hybridSimulation = Some sample_authority\<rparr>"

definition simulated_start_decision :: routing_decision where
  "simulated_start_decision = sample_start_decision\<lparr>rd_costScope := Some Rt_simulation\<rparr>"

definition simulated_cloud_decision :: routing_decision where
  "simulated_cloud_decision = sample_cloud_decision
     \<lparr>rd_costScope := Some Rt_simulation, rd_cloudEgressAdmissionId := Some ''ad'',
      rd_provenanceSemanticSha256 := Some ''pv''\<rparr>"

definition simulated_admission :: session_event_data where
  "simulated_admission = CloudEgressAdmissionRecorded
     \<lparr>ea_admissionId = ''ad'', ea_decision = Egress_pass, ea_reasonCodes = [],
      ea_messagesSemanticSha256 = ''m2'', ea_provenanceSemanticSha256 = ''pv'',
      ea_checkpointId = ''s:context:2'', ea_simulationAuthorityId = ''auth'',
      ea_evaluatedAt = sample_time\<rparr>"

definition simulated_events :: "stored_event list" where
  "simulated_events = number_from 1
     (sample_steps simulated_created simulated_start_decision simulated_cloud_decision
        [simulated_admission] Rt_simulation)"

section \<open>What the replays end in\<close>

definition final_state :: "stored_event list \<Rightarrow> session_state" where
  "final_state es = (case replay_session sample_env es of Inl _ \<Rightarrow> undefined | Inr s \<Rightarrow> s)"

definition observed :: "session_state \<Rightarrow>
    session_status \<times> execution_policy option \<times> (routing_reason \<times> routing_boundary) list \<times>
    string list \<times> string option" where
  "observed s = (st_status s, st_executionPolicy s,
     map (\<lambda>r. (rd_reasonCode (rec_payload r), rd_boundary (rec_payload r))) (st_routingDecisions s),
     map (\<lambda>a. rec_createdAt (ar_start a)) (st_inferenceAttempts s), st_startedAt s)"

lemma final_stateI:
  assumes "(case replay_session sample_env es of Inl _ \<Rightarrow> None | Inr s \<Rightarrow> Some (observed s)) = Some x"
  shows "replay_session sample_env es = Inr (final_state es)" "observed (final_state es) = x"
  using assms by (auto simp: final_state_def split: sum.splits)

section \<open>Stored streams\<close>

text \<open>The sample session as the store would hold it: its hashes have the form of the schema, and
  the cost of its paid attempt is the one the provider reported.\<close>

definition sample_sha :: string where
  "sample_sha = replicate 64 CHR ''a''"

fun stored_data :: "session_event_data \<Rightarrow> session_event_data" where
  "stored_data (ContextCompiled c) = ContextCompiled (c\<lparr>cc_packetSha256 := sample_sha, cc_messagesSha256 := sample_sha\<rparr>)"
| "stored_data (RoutingDecisionRecorded d) = RoutingDecisionRecorded
     (if rd_checkpointId d = None then d
      else d\<lparr>rd_packetSha256 := Some sample_sha, rd_messagesSha256 := Some sample_sha\<rparr>)"
| "stored_data (InferenceAttemptFinished f) = InferenceAttemptFinished
     (if co_reservationId (fin_cost f) = None then f
      else f\<lparr>fin_cost := (fin_cost f)\<lparr>co_provenance := Provider_reported\<rparr>\<rparr>)"
| "stored_data d = d"

end
