(* ===== verification/SampleSessionRuns.thy ===== *)
theory SampleSessionRuns
  imports SampleSession
begin

text \<open>The two concrete streams, evaluated.\<close>

lemma sample_run:
  "(case replay_session sample_env sample_events of Inl _ \<Rightarrow> None | Inr s \<Rightarrow> Some (observed s)) =
     Some (Completed, Some (Policy_v2 sample_policy), [(Rr_local_investigation, Session_start), (Rr_cloud_admitted, Evidence_complete)],
       [sample_time, sample_time], Some sample_time)"
  by code_simp

lemma simulated_run:
  "(case replay_session sample_env simulated_events of Inl _ \<Rightarrow> None | Inr s \<Rightarrow> Some (observed s)) =
     Some (Completed, Some (Policy_v2 simulated_policy), [(Rr_local_investigation, Session_start), (Rr_cloud_admitted, Evidence_complete)],
       [sample_time, sample_time], Some sample_time)"
  by code_simp

lemmas sample_replay = final_stateI [OF sample_run]
lemmas simulated_replay = final_stateI [OF simulated_run]

end
