(* ===== verification/SessionProperties.thy ===== *)
theory SessionProperties
  imports SessionCompletion SampleSessionRuns
begin

text \<open>
  The properties of the session reducer (\<open>shared/session-reducer.ts\<close>), each with a witness
  on one of the sample streams. \<open>replay_session env es = Inr s\<close> says that the stream \<open>es\<close> is
  accepted and ends in the state \<open>s\<close>; \<open>env\<close> stands for the code the reducer calls.
\<close>

lemma final_facts:
  "is_v2 (final_state sample_events)" "is_v2 (final_state simulated_events)"
  "v2_policy (final_state sample_events) = Some sample_policy"
  "v2_policy (final_state simulated_events) = Some simulated_policy"
  "st_status (final_state sample_events) = Completed"
  "is_simulation (final_state simulated_events)"
  using sample_replay(2) simulated_replay(2)
  by (simp_all add: observed_def v2_policy_def is_simulation_def simulated_policy_def)

lemma replay_from_status:
  "replay_from env s es = Inr s' \<Longrightarrow>
     list_all (\<lambda>e. \<not> terminal_type (event_type e)) (butlast es) \<and>
     (es \<noteq> [] \<longrightarrow> is_terminal_status (st_status s') = terminal_type (event_type (last es)))"
proof (induction es arbitrary: s)
  case Nil
  then show ?case by simp
next
  case (Cons e es)
  obtain m where m: "reduce_next env s e = Inr m" "replay_from env m es = Inr s'"
    using Cons.prems by (auto simp: bind_result_Inr)
  have active: "\<not> is_terminal_status (st_status s)"
    using reduce_next_ok [OF m(1)] event_guards_None by blast
  have me: "is_terminal_status (st_status m) = terminal_type (event_type e)"
    using status_step [OF m(1)] active
    by (cases "ev_data e") (simp_all add: terminal_type_def is_terminal_status_def)
  show ?case
  proof (cases es)
    case Nil
    with m me show ?thesis by simp
  next
    case (Cons e2 es2)
    with m(2) obtain m2 where "reduce_next env m e2 = Inr m2" by (auto simp: bind_result_Inr)
    then have "\<not> is_terminal_status (st_status m)"
      using reduce_next_ok event_guards_None by blast
    with Cons.IH [OF m(2)] me Cons show ?thesis by (simp del: event_type_simps)
  qed
qed

section \<open>Protocol and order\<close>

text \<open>C1. The reducer implements the event protocol of version 2 sessions: the types of the
  events of every stream it accepts form a path of the abstract machine \<open>v2_successors\<close>, so
  each inference runs as assistant start, context checkpoint, attempt start, deltas,
  completion and attempt finish, a tool result follows its request at once, and a routing
  decision is followed by its route or its assistant.\<close>

theorem v2_stream_follows_protocol:
  assumes "replay_session env es = Inr s" "is_v2 s"
  shows "v2_path (map event_type es)"
proof -
  obtain e es' m p where m: "es = e # es'" "ev_data e = SessionCreated p"
    "m = create_initial_session_state e p" "replay_from env m es' = Inr s"
    by (rule replay_session_split [OF assms(1)])
  have v2: "is_v2 m"
    using session_replay.run_invariant [where P = "\<lambda>t. v2_policy t = v2_policy m", OF _ refl m(4)]
      step_frame(6) assms(2) by metis
  then have "st_lastV2EventType m = Some (event_type e)"
    using create_initial_last [of e p] m(2,3) by simp
  with v2 show ?thesis
    using v2_path_from [OF m(4)] v2_shape_initial [OF m(2)] m(1,3) by (auto simp del: event_type_simps)
qed

theorem v2_stream_follows_protocol_witness: "v2_path (map event_type sample_events)"
  by (rule v2_stream_follows_protocol [OF sample_replay(1) final_facts(1)])

text \<open>C2. The type of the last event determines what is open in a version 2 session: the
  assistants, context checkpoints and attempts differ by at most the one step in progress, an
  attempt is open exactly after its start, a delta or the completion of its message, and a
  tool call is pending exactly after its request.\<close>

theorem last_event_determines_counts:
  assumes "replay_session env es = Inr s" "is_v2 s"
  shows "\<exists>t. st_lastV2EventType s = Some t \<and> v2_counts s t"
  using v2_shape_replay [OF assms(1)] assms(2) by (auto simp: v2_shape_def)

theorem last_event_determines_counts_witness:
  "\<exists>t. st_lastV2EventType (final_state sample_events) = Some t \<and> v2_counts (final_state sample_events) t"
  by (rule last_event_determines_counts [OF sample_replay(1) final_facts(1)])

text \<open>C3. An accepted stream is numbered 1, 2, 3 and so on without a gap, belongs to one
  session, and the state remembers its length as the last sequence number.\<close>

theorem stream_is_contiguous:
  assumes "replay_session env es = Inr s"
  shows "map ev_sequence es = map int [1..<Suc (length es)] \<and> st_lastSequence s = int (length es) \<and>
    list_all (\<lambda>e. ev_sessionId e = st_id s) es"
  by (rule stream_numbering [OF assms])

theorem stream_is_contiguous_witness:
  "map ev_sequence sample_events = map int [1..<Suc (length sample_events)] \<and>
   st_lastSequence (final_state sample_events) = int (length sample_events) \<and>
   list_all (\<lambda>e. ev_sessionId e = st_id (final_state sample_events)) sample_events"
  by (rule stream_is_contiguous [OF sample_replay(1)])

text \<open>C4. A terminal status is final: in an accepted stream only the last event can complete,
  fail, cancel or interrupt the session, and the session is terminal exactly when it did.\<close>

theorem terminal_event_is_last:
  assumes "replay_session env es = Inr s"
  shows "list_all (\<lambda>e. \<not> terminal_type (event_type e)) (butlast es) \<and>
    is_terminal_status (st_status s) = terminal_type (event_type (last es))"
proof -
  obtain e es' m p where m: "es = e # es'" "ev_data e = SessionCreated p"
    "m = create_initial_session_state e p" "replay_from env m es' = Inr s"
    by (rule replay_session_split [OF assms])
  have "\<not> terminal_type (event_type e)" "\<not> is_terminal_status (st_status m)"
    by (simp_all add: m(2,3) terminal_type_def is_terminal_status_def)
  with replay_from_status [OF m(4)] m(1,4) show ?thesis
    by (cases es') (auto simp del: event_type_simps)
qed

theorem terminal_event_is_last_witness:
  "list_all (\<lambda>e. \<not> terminal_type (event_type e)) (butlast sample_events) \<and>
   is_terminal_status (st_status (final_state sample_events)) = terminal_type (event_type (last sample_events))"
  by (rule terminal_event_is_last [OF sample_replay(1)])

text \<open>Replaying a stream from the start and applying its last event to the stored state
  are the same computation, errors included.\<close>

theorem incremental_replay:
  assumes "es \<noteq> []"
  shows "replay_session env (es @ [e]) =
    bind_result (replay_session env es) (\<lambda>s. reduce_session_event env (Some s) e)"
proof -
  obtain f fs where es: "es = f # fs" using assms by (cases es) simp_all
  show ?thesis
    by (cases "reduce_first f") (simp_all add: es session_replay.run_snoc)
qed

theorem incremental_replay_witness:
  "replay_session sample_env (sample_events @ [sample_event 23 (SessionFailed ''x'')]) =
     bind_result (replay_session sample_env sample_events)
       (\<lambda>s. reduce_session_event sample_env (Some s) (sample_event 23 (SessionFailed ''x'')))"
  by (rule incremental_replay) (simp add: sample_events_def sample_steps_def)

section \<open>Ending a session\<close>

text \<open>C7. A completed session has earned it: a version 2 session's last attempt succeeded, its
  result is the content of its completed last assistant message and a change review was
  accepted by the host; and wherever completion obligations exist, the last check accepted
  that very message while every required tool had succeeded in order and enough verified
  citations were there.\<close>

theorem completed_session_is_earned:
  assumes "replay_session env es = Inr s" "st_status s = Completed"
  shows "earned_completion env s"
  using terminal_facts_replay [OF assms(1)] assms(2) by (simp add: terminal_facts_def)

theorem completed_session_is_earned_witness: "earned_completion sample_env (final_state sample_events)"
  by (rule completed_session_is_earned [OF sample_replay(1) final_facts(5)])

text \<open>C8. No version 2 session ends with work in progress: in a terminal state every attempt
  is finished, no message streams, no tool call waits, and every context checkpoint had its
  one attempt.\<close>

theorem terminal_session_is_quiescent:
  assumes "replay_session env es = Inr s" "is_v2 s" "is_terminal_status (st_status s)"
  shows "quiescent s"
  using terminal_facts_replay [OF assms(1)] assms(2,3) by (simp add: terminal_facts_def)

theorem terminal_session_is_quiescent_witness: "quiescent (final_state sample_events)"
  by (rule terminal_session_is_quiescent [OF sample_replay(1) final_facts(1)])
    (simp add: final_facts is_terminal_status_def)

text \<open>C9. History only grows: continuing a stream keeps every route, decision, checkpoint,
  admission and check in place, keeps every attempt's start, and never touches an attempt
  that has finished.\<close>

theorem history_is_append_only:
  assumes "replay_session env es = Inr s" "replay_session env (es @ fs) = Inr s'"
  shows "history_kept s s'"
proof -
  obtain e es' m p where m: "es = e # es'" "ev_data e = SessionCreated p"
    "m = create_initial_session_state e p" "replay_from env m es' = Inr s"
    by (rule replay_session_split [OF assms(1)])
  with assms(1,2) obtain m' where "reduce_first e = Inr m'" "replay_from env m' (es' @ fs) = Inr s'"
    "replay_from env m' es' = Inr s"
    by (auto simp: bind_result_Inr)
  then have "replay_from env s fs = Inr s'" by (simp add: session_replay.run_append)
  then show ?thesis by (rule history_kept_from)
qed

lemma sample_prefix_replay:
  obtains m where "replay_session sample_env (take 8 sample_events) = Inr m"
proof -
  have "sample_events = take 8 sample_events @ drop 8 sample_events" by simp
  then have "is_ok (replay_session sample_env (take 8 sample_events @ drop 8 sample_events))"
    using sample_replay(1) by simp
  moreover have "take 8 sample_events \<noteq> []" by (simp add: sample_events_def sample_steps_def)
  ultimately show thesis
    using that by (cases "take 8 sample_events")
      (auto simp: is_ok_def bind_result_def session_replay.run_append split: sum.splits)
qed

theorem history_is_append_only_witness:
  "\<exists>m. replay_session sample_env (take 8 sample_events) = Inr m \<and>
     history_kept m (final_state sample_events)"
proof -
  obtain m where m: "replay_session sample_env (take 8 sample_events) = Inr m"
    by (rule sample_prefix_replay)
  have "replay_session sample_env (take 8 sample_events @ drop 8 sample_events) =
      Inr (final_state sample_events)"
    using sample_replay(1) by simp
  from history_is_append_only [OF m this] m show ?thesis by blast
qed

section \<open>Money\<close>

text \<open>C10. Cost is conserved by scope: what the projection of a session calls reserved (settled)
  in a scope is exactly the sum of the projected costs of its reserving decisions (of the
  costs of its finished attempts) in that scope, a safe non-negative integer; the dollar
  amount of the session is the settled actual scope and nothing else.\<close>

theorem scoped_costs_are_conserved:
  assumes "replay_session env es = Inr s"
  shows "sc_reservedMicrousd (scoped_amounts (st_costScopes s) scope) = total_reserved scope s \<and>
    sc_settledMicrousd (scoped_amounts (st_costScopes s) scope) = total_settled scope s \<and>
    safe_non_negative (total_reserved scope s) \<and> safe_non_negative (total_settled scope s) \<and>
    us_costUsd (st_usage s) = of_int (total_settled Scope_actual s) / 1000000"
proof -
  have "cost_totals_of s scope" "us_costUsd (st_usage s) = of_int (total_settled Scope_actual s) / 1000000"
    using cost_totals_replay [OF assms] by (simp_all add: cost_totals_def)
  then show ?thesis by (auto simp: cost_totals_of_def Let_def)
qed

theorem scoped_costs_are_conserved_witness:
  "sc_settledMicrousd (cs_actual (st_costScopes (final_state sample_events))) =
     total_settled Scope_actual (final_state sample_events)"
  using scoped_costs_are_conserved [OF sample_replay(1), of Scope_actual] by simp

text \<open>C11. Simulated money is never real money: a Hybrid simulation session reserves and settles
  nothing in the actual scope or in the legacy scope, and its dollar amount is zero.\<close>

theorem simulation_costs_nothing:
  assumes "replay_session env es = Inr s" "is_simulation s"
  shows "us_costUsd (st_usage s) = 0 \<and>
    sc_reservedMicrousd (cs_actual (st_costScopes s)) = 0 \<and>
    sc_settledMicrousd (cs_actual (st_costScopes s)) = 0 \<and>
    sc_reservedMicrousd (cs_legacyUnclassified (st_costScopes s)) = 0 \<and>
    sc_settledMicrousd (cs_legacyUnclassified (st_costScopes s)) = 0"
proof -
  note none = simulation_settles_nothing_else [OF simulated_scopes_replay [OF assms(1)] assms(2)]
  have tot: "cost_totals_of s scope" "us_costUsd (st_usage s) = of_int (total_settled Scope_actual s) / 1000000"
    for scope using cost_totals_replay [OF assms(1)] by (simp_all add: cost_totals_def)
  show ?thesis
    using tot(1) [of Scope_actual] tot(1) [of Scope_legacy_unclassified] tot(2)
      none [of Scope_actual] none [of Scope_legacy_unclassified]
    by (simp add: cost_totals_of_def Let_def)
qed

theorem simulation_costs_nothing_witness:
  "us_costUsd (st_usage (final_state simulated_events)) = 0 \<and>
   sc_settledMicrousd (cs_actual (st_costScopes (final_state simulated_events))) = 0"
  using simulation_costs_nothing [OF simulated_replay(1) final_facts(6)] by simp

section \<open>Consent, limits, deadlines\<close>

lemma cloud_consented_replay: "replay_session env es = Inr s \<Longrightarrow> cloud_consented s"
  by (rule invariantI [where P = cloud_consented])
    (auto intro: cloud_consented_step, simp add: cloud_consented_def)

lemma simulation_egress_replay: "replay_session env es = Inr s \<Longrightarrow> simulation_egress s"
  by (rule invariantI [where P = simulation_egress])
    (auto intro: simulation_egress_step, simp add: simulation_egress_def)

lemma attempts_backed_replay: "replay_session env es = Inr s \<Longrightarrow> attempts_backed s"
  by (rule invariantI [where P = attempts_backed])
    (auto intro: attempts_backed_step, simp add: attempts_backed_def)

lemma within_paid_limits_replay: "replay_session env es = Inr s \<Longrightarrow> within_paid_limits s"
  by (rule invariantI [where P = within_paid_limits])
    (auto intro: within_paid_limits_step, simp add: within_paid_limits_def)

lemma within_rounds_replay: "replay_session env es = Inr s \<Longrightarrow> within_rounds s"
  by (rule invariantI [where P = within_rounds])
    (auto intro: within_rounds_step, simp add: within_rounds_def)

lemma unique_messages_replay: "replay_session env es = Inr s \<Longrightarrow> unique_messages s"
  by (rule invariantI [where P = unique_messages])
    (auto intro: unique_messages_step, simp add: unique_messages_def)

lemma unique_records_replay: "replay_session env es = Inr s \<Longrightarrow> unique_records s"
  by (rule invariantI [where P = unique_records])
    (auto intro: unique_records_step, simp add: unique_records_def)

text \<open>C12. No session reaches the cloud without consent: every cloud-admitted decision of a
  session stands under a policy with the real consent of a hybrid session or the simulated
  consent of a Hybrid simulation, and its projected cost is within the episode's cap.\<close>

theorem cloud_admission_needs_consent:
  assumes "replay_session env es = Inr s" "r \<in> set (st_routingDecisions s)"
    and "rd_reasonCode (rec_payload r) = Rr_cloud_admitted"
  shows "\<exists>policy b. v2_policy s = Some policy \<and> (real_consent policy \<or> simulated_consent policy) \<and>
    rd_billing (rec_payload r) = Some b \<and> bl_projectedCostMicrousd b \<le> p2_maxPaidEpisodeMicrousd policy"
  using cloud_consented_replay [OF assms(1)] assms(2,3) by (simp add: cloud_consented_def)

lemma final_decision:
  "st_routingDecisions (final_state sample_events) \<noteq> []"
  "rd_reasonCode (rec_payload (last (st_routingDecisions (final_state sample_events)))) = Rr_cloud_admitted"
  "st_routingDecisions (final_state simulated_events) \<noteq> []"
  "rd_reasonCode (rec_payload (last (st_routingDecisions (final_state simulated_events)))) = Rr_cloud_admitted"
  "rd_boundary (rec_payload (last (st_routingDecisions (final_state simulated_events)))) = Evidence_complete"
proof -
  let ?f = "\<lambda>r. (rd_reasonCode (rec_payload r), rd_boundary (rec_payload r))"
  have r: "map ?f (st_routingDecisions (final_state sample_events)) =
      [(Rr_local_investigation, Session_start), (Rr_cloud_admitted, Evidence_complete)]"
    "map ?f (st_routingDecisions (final_state simulated_events)) =
      [(Rr_local_investigation, Session_start), (Rr_cloud_admitted, Evidence_complete)]"
    using sample_replay(2) simulated_replay(2) by (simp_all add: observed_def)
  show ne: "st_routingDecisions (final_state sample_events) \<noteq> []"
    "st_routingDecisions (final_state simulated_events) \<noteq> []" using r by auto
  show "rd_reasonCode (rec_payload (last (st_routingDecisions (final_state sample_events)))) = Rr_cloud_admitted"
    "rd_reasonCode (rec_payload (last (st_routingDecisions (final_state simulated_events)))) = Rr_cloud_admitted"
    "rd_boundary (rec_payload (last (st_routingDecisions (final_state simulated_events)))) = Evidence_complete"
    using arg_cong [OF r(1), of last] arg_cong [OF r(2), of last] ne by (simp_all add: last_map)
qed

theorem cloud_admission_needs_consent_witness:
  "\<exists>policy b. v2_policy (final_state sample_events) = Some policy \<and>
     (real_consent policy \<or> simulated_consent policy) \<and>
     rd_billing (rec_payload (last (st_routingDecisions (final_state sample_events)))) = Some b \<and>
     bl_projectedCostMicrousd b \<le> p2_maxPaidEpisodeMicrousd policy"
  by (rule cloud_admission_needs_consent [OF sample_replay(1) last_in_set [OF final_decision(1)]
        final_decision(2)])

text \<open>C13. A simulated cloud synthesis has passed the egress policy: in a Hybrid simulation
  every cloud-admitted decision at the evidence boundary names a recorded admission that
  passed, for the same checkpoint, the same messages and the same provenance.\<close>

theorem simulated_cloud_passed_egress:
  assumes "replay_session env es = Inr s" "is_simulation s" "r \<in> set (st_routingDecisions s)"
    and "rd_reasonCode (rec_payload r) = Rr_cloud_admitted" "rd_boundary (rec_payload r) = Evidence_complete"
  shows "egress_passed_for s (rec_payload r)"
  using simulation_egress_replay [OF assms(1)] assms(2-5) by (simp add: simulation_egress_def)

theorem simulated_cloud_passed_egress_witness:
  "egress_passed_for (final_state simulated_events)
     (rec_payload (last (st_routingDecisions (final_state simulated_events))))"
  by (rule simulated_cloud_passed_egress [OF simulated_replay(1) final_facts(6)
        last_in_set [OF final_decision(3)] final_decision(4,5)])

text \<open>C14. Paid work is bounded: the attempts that carry a budget reservation, and the changes of
  provider along the routes, never exceed what the persisted policy allows.\<close>

theorem paid_attempts_and_provider_changes_bounded:
  assumes "replay_session env es = Inr s" "v2_policy s = Some policy"
  shows "int (length (filter is_paid (st_inferenceAttempts s))) \<le> max 0 (p2_maxPaidAttempts policy) \<and>
    int (adjacent_changes (route_providers s)) \<le> max 0 (p2_maxProviderChanges policy)"
  using within_paid_limits_replay [OF assms(1)] assms(2) by (simp add: within_paid_limits_def)

theorem paid_attempts_and_provider_changes_bounded_witness:
  "length (filter is_paid (st_inferenceAttempts (final_state sample_events))) \<le> 1 \<and>
   adjacent_changes (route_providers (final_state sample_events)) \<le> 2"
  using paid_attempts_and_provider_changes_bounded [OF sample_replay(1) final_facts(3)]
  by (simp add: sample_policy_def)

text \<open>C15. The assistant rounds and the tool calls of a session with an execution policy stay
  within the persisted limits.\<close>

theorem rounds_and_tool_calls_bounded:
  assumes "replay_session env es = Inr s" "st_executionPolicy s = Some policy"
  shows "int (length (assistants s)) \<le> max 0 (policy_inference_rounds policy) \<and>
    int (length (all_tool_calls s)) \<le> max 0 (policy_tool_calls policy)"
  using within_rounds_replay [OF assms(1)] assms(2)
  by (simp add: within_rounds_def length_assistants all_tool_calls_calls_of)

theorem rounds_and_tool_calls_bounded_witness:
  "length (assistants (final_state sample_events)) \<le> 4 \<and>
   length (all_tool_calls (final_state sample_events)) \<le> 4"
proof -
  have "st_executionPolicy (final_state sample_events) = Some (Policy_v2 sample_policy)"
    using sample_replay(2) by (simp add: observed_def)
  from rounds_and_tool_calls_bounded [OF sample_replay(1) this] show ?thesis
    by (simp add: sample_policy_def)
qed

text \<open>C16. No attempt starts after its episode: the deadline of a version 2 session is its start
  plus the persisted duration, and every attempt whose time is readable began strictly
  before it (for episodes that end before the year 10000).\<close>

theorem attempts_start_before_deadline:
  assumes "replay_session env es = Inr s" "v2_policy s = Some policy"
    and "a \<in> set (st_inferenceAttempts s)"
    and "st_startedAt s = Some started" "date_parse started = Some t0"
    and "date_parse (rec_createdAt (ar_start a)) = Some t"
    and "0 \<le> year_of_day ((t0 + p2_maxEpisodeDurationMs policy) div 86400000)"
    and "year_of_day ((t0 + p2_maxEpisodeDurationMs policy) div 86400000) \<le> 9999"
  shows "t < t0 + p2_maxEpisodeDurationMs policy"
proof -
  note inv = within_deadline_replay [OF assms(1), unfolded within_deadline_def, rule_format, OF assms(2)]
  obtain dl where dl: "st_deadlineAt s = Some dl"
    "to_iso (t0 + p2_maxEpisodeDurationMs policy) = Some dl"
    using inv assms(4,5) by (auto simp: expected_deadline_def)
  have "date_parse dl = Some (t0 + p2_maxEpisodeDurationMs policy)"
    by (rule date_parse_to_iso [OF dl(2) assms(7,8)])
  moreover have "\<not> time_less_eq dl (rec_createdAt (ar_start a))"
    using inv assms(3) dl(1) by (simp add: list_all_iff)
  ultimately show ?thesis using assms(6) by (simp add: time_less_eq_def)
qed

lemma sample_times:
  "date_parse sample_time = Some 1788220800000"
  "year_of_day ((1788220800000 + 600000) div 86400000) = 2026"
  by code_simp+

theorem attempts_start_before_deadline_witness:
  "\<exists>a\<in>set (st_inferenceAttempts (final_state sample_events)). \<exists>t.
     date_parse (rec_createdAt (ar_start a)) = Some t \<and>
     t < 1788220800000 + p2_maxEpisodeDurationMs sample_policy"
proof -
  let ?as = "st_inferenceAttempts (final_state sample_events)"
  have times: "map (\<lambda>a. rec_createdAt (ar_start a)) ?as = [sample_time, sample_time]"
    and started: "st_startedAt (final_state sample_events) = Some sample_time"
    using sample_replay(2) by (simp_all add: observed_def)
  have ne: "?as \<noteq> []" using times by auto
  have "rec_createdAt (ar_start (hd ?as)) = sample_time"
    using arg_cong [OF times, of hd] ne by (simp add: hd_map)
  then have first: "date_parse (rec_createdAt (ar_start (hd ?as))) = Some 1788220800000"
    by (simp add: sample_times)
  have "1788220800000 < 1788220800000 + p2_maxEpisodeDurationMs sample_policy"
    using sample_times(2)
    by (intro attempts_start_before_deadline [OF sample_replay(1) final_facts(3) hd_in_set [OF ne]
          started sample_times(1) first]) (simp_all add: sample_policy_def)
  with first hd_in_set [OF ne] show ?thesis by blast
qed

section \<open>Identities and links\<close>

text \<open>C17. Identities are unique in every session: messages, tool calls, decisions, attempts and
  egress admissions; a routing boundary is decided once, so a session has at most three
  decisions, and no message is checked twice.\<close>

theorem identities_are_unique:
  assumes "replay_session env es = Inr s"
  shows "distinct (map msg_id (st_messages s)) \<and> distinct (map tc_id (all_tool_calls s)) \<and>
    unique_records s \<and> length (st_routingDecisions s) \<le> 3"
proof -
  note rec = unique_records_replay [OF assms]
  let ?bs = "map (\<lambda>r. rd_boundary (rec_payload r)) (st_routingDecisions s)"
  have "set ?bs \<subseteq> {Session_start, Evidence_complete, Provider_failure}"
    using routing_boundary.exhaust by auto
  from card_mono [OF _ this] have "card (set ?bs) \<le> 3" by simp
  moreover have "distinct ?bs" using rec by (simp add: unique_records_def)
  then have "card (set ?bs) = length (st_routingDecisions s)"
    using distinct_card [of ?bs] by (simp only: length_map)
  ultimately show ?thesis
    using rec unique_messages_replay [OF assms]
    by (simp add: unique_messages_def all_tool_calls_calls_of)
qed

theorem identities_are_unique_witness:
  "distinct (map msg_id (st_messages (final_state sample_events))) \<and>
   unique_records (final_state sample_events)"
  using identities_are_unique [OF sample_replay(1)] by simp

text \<open>C18. Every attempt is backed by a recorded decision that selected the same lease, provider,
  model and phase, reserved the same budget and has the same cost scope.\<close>

theorem attempts_are_backed_by_decisions:
  assumes "replay_session env es = Inr s" "a \<in> set (st_inferenceAttempts s)"
  shows "\<exists>r\<in>set (st_routingDecisions s). decision_backs_attempt (attempt_of a) (rec_payload r)"
  using attempts_backed_replay [OF assms(1)] assms(2) by (simp add: attempts_backed_def)

theorem attempts_are_backed_by_decisions_witness:
  "\<exists>r\<in>set (st_routingDecisions (final_state sample_events)).
     decision_backs_attempt (attempt_of (hd (st_inferenceAttempts (final_state sample_events)))) (rec_payload r)"
proof (rule attempts_are_backed_by_decisions [OF sample_replay(1)])
  have "map (\<lambda>a. rec_createdAt (ar_start a)) (st_inferenceAttempts (final_state sample_events)) =
      [sample_time, sample_time]"
    using sample_replay(2) by (simp add: observed_def)
  then show "hd (st_inferenceAttempts (final_state sample_events)) \<in>
      set (st_inferenceAttempts (final_state sample_events))"
    by (intro hd_in_set) auto
qed

end
