(* ===== verification/RoutingSchemas.thy ===== *)
theory RoutingSchemas
  imports SessionEvents "HOL-Library.Log_Nat"
begin

text \<open>
  The schemas of \<open>shared/session-events.ts\<close> that a routing decision passes: the scalar schemas,
  execution policies, admission checks, provider, health and pricing snapshots, the router input
  and the decision itself, with every cross-field refinement. \<open>clean_...\<close> is the trimming that
  \<open>z.string().trim()\<close> does before its other checks, \<open>valid_...\<close> says that a trimmed value raises
  no issue, and \<open>parse_...\<close> is the schema's \<open>parse\<close>, with \<open>None\<close> for a throw. Structural
  typing (a number where a string is expected, an unknown key) is the types of the records.
\<close>

section \<open>Scalars\<close>

definition trimmed :: "string option \<Rightarrow> string option" where
  "trimmed = map_option js_trim"

definition required_id :: "string \<Rightarrow> bool" where
  "required_id s \<longleftrightarrow> 1 \<le> length s"

definition bounded_v2_id :: "string \<Rightarrow> bool" where
  "bounded_v2_id s \<longleftrightarrow> required_id s \<and> length s \<le> 256"

definition bounded_code :: "string \<Rightarrow> bool" where
  "bounded_code s \<longleftrightarrow> 1 \<le> length s \<and> length s \<le> 128 \<and> reason_code_chars s"

definition optionally :: "('a \<Rightarrow> bool) \<Rightarrow> 'a option \<Rightarrow> bool" where
  "optionally p a \<longleftrightarrow> (case a of None \<Rightarrow> True | Some x \<Rightarrow> p x)"

text \<open>\<open>z.string().datetime({ offset: true })\<close> accepts what \<open>Date.parse\<close> reads of that form.\<close>

definition zod_datetime :: "string \<Rightarrow> bool" where
  "zod_datetime s \<longleftrightarrow> date_parse s \<noteq> None"

lemma optionally_simps [simp]: "optionally p None" "optionally p (Some x) = p x"
  by (simp_all add: optionally_def)

section \<open>Execution policies\<close>

definition valid_policy_v1 :: "policy_v1 \<Rightarrow> bool" where
  "valid_policy_v1 p \<longleftrightarrow>
     1 \<le> p1_inferenceRounds p \<and> p1_inferenceRounds p \<le> maximum_agentic_policy_steps \<and>
     1 \<le> p1_toolCalls p \<and> p1_toolCalls p \<le> maximum_agentic_policy_steps"

definition valid_simulation_policy :: "policy_v2 \<Rightarrow> bool" where
  "valid_simulation_policy p \<longleftrightarrow>
     (if p2_routingPolicy p = Hybrid_simulation_v1
      then p2_egressConsent p = Consent_none \<and>
           p2_simulationConsent p = Some Simulation_cloud_synthesis_v1 \<and>
           p2_maxPaidAttempts p = 1 \<and>
           p2_maxPaidEpisodeMicrousd p = hybrid_simulation_max_spend_microusd
      else p2_simulationConsent p = None)"

definition valid_policy_v2 :: "policy_v2 \<Rightarrow> bool" where
  "valid_policy_v2 p \<longleftrightarrow>
     1 \<le> p2_inferenceRounds p \<and> p2_inferenceRounds p \<le> maximum_agentic_policy_steps \<and>
     1 \<le> p2_toolCalls p \<and> p2_toolCalls p \<le> maximum_agentic_policy_steps \<and>
     p2_maxProviderChanges p = 2 \<and> p2_maxPaidAttempts p = 1 \<and>
     safe_non_negative (p2_maxPaidEpisodeMicrousd p) \<and>
     safe_positive (p2_maxEpisodeDurationMs p) \<and> safe_positive (p2_attemptTimeoutMs p) \<and>
     p2_attemptTimeoutMs p \<le> p2_maxEpisodeDurationMs p \<and>
     (p2_routingPolicy p = Local_only_v1 \<longrightarrow> p2_egressConsent p = Consent_none) \<and>
     valid_simulation_policy p"

fun valid_execution_policy :: "execution_policy \<Rightarrow> bool" where
  "valid_execution_policy (Policy_v1 p) = valid_policy_v1 p"
| "valid_execution_policy (Policy_v2 p) = valid_policy_v2 p"

section \<open>Admission checks\<close>

definition ok_reason :: "admission_reason \<Rightarrow> bool" where
  "ok_reason r = list_ex (\<lambda>x. x = r)
     [Ar_capability_ok, Ar_credential_ok, Ar_health_ok, Ar_pricing_ok, Ar_egress_ok,
      Ar_deadline_ok, Ar_budget_ok]"

definition valid_admission_check :: "admission_check \<Rightarrow> bool" where
  "valid_admission_check c \<longleftrightarrow>
     (ac_status c = Not_applicable) = (ac_reasonCode c = Ar_not_applicable) \<and>
     (ac_status c = Passed \<longrightarrow> ok_reason (ac_reasonCode c)) \<and>
     (ac_status c = Denied \<longrightarrow> \<not> ok_reason (ac_reasonCode c) \<and> ac_reasonCode c \<noteq> Ar_not_applicable)"

text \<open>The table \<open>routingAdmissionExpectations\<close>: the reason a gate gives when it passes and when
  it denies.\<close>

definition expected_check :: "admission_reason \<Rightarrow> admission_reason \<Rightarrow> admission_check \<Rightarrow> bool" where
  "expected_check ok no c \<longleftrightarrow> (case ac_status c of
       Passed \<Rightarrow> ac_reasonCode c = ok
     | Denied \<Rightarrow> ac_reasonCode c = no
     | Not_applicable \<Rightarrow> True)"

definition admission_checks :: "routing_admission \<Rightarrow> admission_check list" where
  "admission_checks a =
     [ad_capability a, ad_credential a, ad_health a] @
     (case ad_pricing a of None \<Rightarrow> [] | Some c \<Rightarrow> [c]) @
     [ad_egress a, ad_deadline a, ad_budget a]"

definition valid_admission :: "routing_admission \<Rightarrow> bool" where
  "valid_admission a \<longleftrightarrow>
     list_all valid_admission_check (admission_checks a) \<and>
     expected_check Ar_capability_ok Ar_capability_mismatch (ad_capability a) \<and>
     expected_check Ar_credential_ok Ar_missing_credential (ad_credential a) \<and>
     expected_check Ar_health_ok Ar_unhealthy_provider (ad_health a) \<and>
     optionally (expected_check Ar_pricing_ok Ar_pricing_denial) (ad_pricing a) \<and>
     expected_check Ar_egress_ok Ar_egress_denial (ad_egress a) \<and>
     expected_check Ar_deadline_ok Ar_deadline_denial (ad_deadline a) \<and>
     expected_check Ar_budget_ok Ar_budget_denial (ad_budget a)"

section \<open>Signals and facts\<close>

definition risk_signal_names :: "string list" where
  "risk_signal_names =
     [''changed_file_count'', ''changed_line_count'', ''changed_surface_count'',
      ''runtime_without_relevant_test'', ''sensitive_subsystem'']"

definition safe_integer_rat :: "rat \<Rightarrow> bool" where
  "safe_integer_rat r \<longleftrightarrow> of_int (floor r) = r \<and> is_safe_integer (floor r)"

fun valid_signal_value :: "json \<Rightarrow> bool" where
  "valid_signal_value (JBool b) = True"
| "valid_signal_value (JNumber r) = (safe_integer_rat r \<and> 0 \<le> r)"
| "valid_signal_value _ = False"

definition valid_risk_signal :: "risk_signal \<Rightarrow> bool" where
  "valid_risk_signal s \<longleftrightarrow>
     rs_name s \<in> set risk_signal_names \<and> valid_signal_value (rs_value s) \<and>
     0 \<le> rs_weight s \<and> rs_weight s \<le> 10 \<and> 0 \<le> rs_contribution s \<and> rs_contribution s \<le> 10"

definition valid_risk_signals :: "nat \<Rightarrow> risk_signal list \<Rightarrow> bool" where
  "valid_risk_signals bound ss \<longleftrightarrow>
     length ss \<le> bound \<and> list_all valid_risk_signal ss \<and> strictly_increasing rs_name ss"

fun valid_fact_value :: "json \<Rightarrow> bool" where
  "valid_fact_value (JBool b) = True"
| "valid_fact_value (JNumber r) = safe_integer_rat r"
| "valid_fact_value (JString s) = (length s \<le> 256)"
| "valid_fact_value _ = False"

definition valid_trigger_fact :: "trigger_fact \<Rightarrow> bool" where
  "valid_trigger_fact f \<longleftrightarrow> bounded_code (tf_key f) \<and> valid_fact_value (tf_value f)"

definition clean_fact :: "trigger_fact \<Rightarrow> trigger_fact" where
  "clean_fact f = f\<lparr>tf_key := js_trim (tf_key f)\<rparr>"

definition valid_trigger_facts :: "nat \<Rightarrow> trigger_fact list \<Rightarrow> bool" where
  "valid_trigger_facts bound fs \<longleftrightarrow>
     length fs \<le> bound \<and> list_all valid_trigger_fact fs \<and> strictly_increasing tf_key fs"

definition valid_sorted_ids :: "string list \<Rightarrow> bool" where
  "valid_sorted_ids ids \<longleftrightarrow>
     1 \<le> length ids \<and> length ids \<le> 32 \<and> list_all bounded_v2_id ids \<and> strictly_increasing id ids"

definition valid_capabilities :: "string list \<Rightarrow> bool" where
  "valid_capabilities cs \<longleftrightarrow>
     1 \<le> length cs \<and> length cs \<le> 32 \<and> list_all bounded_code cs \<and> strictly_increasing id cs"

section \<open>Snapshots\<close>

definition valid_router_provider :: "router_provider \<Rightarrow> bool" where
  "valid_router_provider p \<longleftrightarrow>
     bounded_v2_id (rp_providerId p) \<and> bounded_v2_id (rp_model p) \<and>
     valid_capabilities (rp_capabilities p) \<and>
     safe_positive (rp_contextWindowTokens p) \<and> safe_positive (rp_maxOutputTokens p) \<and>
     safe_non_negative (rp_requestReserveTokens p) \<and>
     (rp_locality p = Local_provider) = (rp_accountingKind p = Local_zero_cost) \<and>
     rp_maxOutputTokens p + rp_requestReserveTokens p < rp_contextWindowTokens p"

definition clean_router_provider :: "router_provider \<Rightarrow> router_provider" where
  "clean_router_provider p =
     p\<lparr>rp_providerId := js_trim (rp_providerId p), rp_model := js_trim (rp_model p),
       rp_capabilities := map js_trim (rp_capabilities p)\<rparr>"

definition valid_health_snapshot :: "health_snapshot \<Rightarrow> bool" where
  "valid_health_snapshot h \<longleftrightarrow>
     bounded_v2_id (hs_snapshotId h) \<and> bounded_v2_id (hs_providerId h) \<and> bounded_v2_id (hs_model h) \<and>
     zod_datetime (hs_checkedAt h) \<and> zod_datetime (hs_expiresAt h) \<and> bounded_code (hs_resultCode h)"

definition clean_health_snapshot :: "health_snapshot \<Rightarrow> health_snapshot" where
  "clean_health_snapshot h =
     h\<lparr>hs_snapshotId := js_trim (hs_snapshotId h), hs_providerId := js_trim (hs_providerId h),
       hs_model := js_trim (hs_model h), hs_resultCode := js_trim (hs_resultCode h)\<rparr>"

definition valid_pricing_snapshot :: "pricing_snapshot \<Rightarrow> bool" where
  "valid_pricing_snapshot p \<longleftrightarrow>
     bounded_v2_id (ps_snapshotId p) \<and> bounded_v2_id (ps_providerId p) \<and> bounded_v2_id (ps_model p) \<and>
     zod_datetime (ps_verifiedAt p) \<and> zod_datetime (ps_expiresAt p) \<and>
     safe_non_negative (ps_inputRate p) \<and> safe_non_negative (ps_outputRate p) \<and>
     safe_non_negative (ps_cacheReadRate p) \<and> sha256_hex (ps_pricingSourceSha256 p) \<and>
     \<not> (ps_status p = Pricing_available \<and> (ps_inputRate p = 0 \<or> ps_outputRate p = 0)) \<and>
     ps_cacheReadRate p \<le> ps_inputRate p"

definition clean_pricing_snapshot :: "pricing_snapshot \<Rightarrow> pricing_snapshot" where
  "clean_pricing_snapshot p =
     p\<lparr>ps_snapshotId := js_trim (ps_snapshotId p), ps_providerId := js_trim (ps_providerId p),
       ps_model := js_trim (ps_model p)\<rparr>"

text \<open>\<open>Math.max(0, Date.parse(deadlineAt) - Date.parse(asOf))\<close>; \<open>None\<close> is \<open>NaN\<close>.\<close>

definition remaining_between :: "string \<Rightarrow> string \<Rightarrow> int option" where
  "remaining_between asOf deadlineAt =
     (case (date_parse asOf, date_parse deadlineAt) of
        (Some a, Some d) \<Rightarrow> Some (max 0 (d - a))
      | _ \<Rightarrow> None)"

definition valid_deadline_shape :: "router_deadline \<Rightarrow> bool" where
  "valid_deadline_shape d \<longleftrightarrow>
     zod_datetime (dl_deadlineAt d) \<and> safe_non_negative (dl_remainingMs d) \<and>
     safe_positive (dl_attemptTimeoutMs d) \<and> safe_positive (dl_requiredRemainingMs d)"

definition deadline_derived :: "string \<Rightarrow> router_deadline \<Rightarrow> bool" where
  "deadline_derived asOf d \<longleftrightarrow>
     (case remaining_between asOf (dl_deadlineAt d) of
        None \<Rightarrow> False
      | Some remaining \<Rightarrow>
          is_safe_integer remaining \<and> dl_remainingMs d = remaining \<and>
          dl_sufficient d = (remaining \<ge> dl_requiredRemainingMs d)) \<and>
     dl_requiredRemainingMs d \<le> dl_attemptTimeoutMs d"

definition find_provider :: "router_provider list \<Rightarrow> string \<Rightarrow> router_provider option" where
  "find_provider ps i = find (\<lambda>p. rp_providerId p = i) ps"

definition valid_router_input :: "router_input \<Rightarrow> bool" where
  "valid_router_input i \<longleftrightarrow>
     zod_datetime (ri_asOf i) \<and>
     1 \<le> length (ri_providers i) \<and> length (ri_providers i) \<le> 32 \<and>
     list_all valid_router_provider (ri_providers i) \<and>
     bounded_v2_id (ri_targetProviderId i) \<and> bounded_v2_id (ri_targetModel i) \<and>
     valid_capabilities (ri_requiredCapabilities i) \<and> valid_deadline_shape (ri_deadline i) \<and>
     length (ri_healthSnapshots i) \<le> 2 \<and> list_all valid_health_snapshot (ri_healthSnapshots i) \<and>
     optionally valid_pricing_snapshot (ri_pricingSnapshot i) \<and>
     strictly_increasing rp_providerId (ri_providers i) \<and>
     strictly_increasing hs_providerId (ri_healthSnapshots i) \<and>
     holds (find_provider (ri_providers i) (ri_targetProviderId i))
       (\<lambda>p. rp_model p = ri_targetModel i) \<and>
     deadline_derived (ri_asOf i) (ri_deadline i)"

definition clean_router_input :: "router_input \<Rightarrow> router_input" where
  "clean_router_input i =
     i\<lparr>ri_providers := map clean_router_provider (ri_providers i),
       ri_targetProviderId := js_trim (ri_targetProviderId i),
       ri_targetModel := js_trim (ri_targetModel i),
       ri_requiredCapabilities := map js_trim (ri_requiredCapabilities i),
       ri_healthSnapshots := map clean_health_snapshot (ri_healthSnapshots i),
       ri_pricingSnapshot := map_option clean_pricing_snapshot (ri_pricingSnapshot i)\<rparr>"

section \<open>Billing\<close>

text \<open>A token component in micro-dollars, rounded up, in \<open>BigInt\<close> arithmetic on non-negative
  numbers.\<close>

definition ceil_component :: "int \<Rightarrow> int \<Rightarrow> int" where
  "ceil_component tokens rate = (tokens * rate + 1000000 - 1) div 1000000"

definition worst_case_cost :: "billing \<Rightarrow> int" where
  "worst_case_cost b =
     ceil_component (bl_billableInputTokens b) (bl_inputRate b) +
     ceil_component (bl_requestedMaxOutputTokens b) (bl_outputRate b) +
     ceil_component (bl_billableCacheReadTokens b) (coalesce (bl_cacheReadRate b) 0) +
     bl_providerFeeCeilingMicrousd b"

definition valid_billing :: "billing \<Rightarrow> bool" where
  "valid_billing b \<longleftrightarrow>
     safe_non_negative (bl_billableInputTokens b) \<and> safe_non_negative (bl_billableCacheReadTokens b) \<and>
     safe_positive (bl_requestedMaxOutputTokens b) \<and>
     safe_non_negative (bl_inputRate b) \<and> safe_non_negative (bl_outputRate b) \<and>
     optionally safe_non_negative (bl_cacheReadRate b) \<and>
     safe_non_negative (bl_providerFeeCeilingMicrousd b) \<and>
     safe_non_negative (bl_projectedCostMicrousd b) \<and>
     safe_non_negative (bl_remainingEpisodeMicrousd b) \<and>
     safe_non_negative (bl_remainingCampaignMicrousd b) \<and>
     \<not> (bl_cacheReadRate b = None \<and> bl_billableCacheReadTokens b \<noteq> 0) \<and>
     coalesce (bl_cacheReadRate b) 0 \<le> bl_inputRate b \<and>
     worst_case_cost b \<le> max_safe_integer \<and>
     bl_projectedCostMicrousd b = worst_case_cost b"

section \<open>Trimming twice\<close>

lemma trimmed_idem [simp]: "trimmed (trimmed x) = trimmed x" "trimmed \<circ> trimmed = trimmed"
  by (simp_all add: trimmed_def option.map_comp fun_eq_iff)

lemma clean_parts_idem [simp]:
  "clean_fact (clean_fact f) = clean_fact f"
  "clean_router_provider (clean_router_provider p) = clean_router_provider p"
  "clean_health_snapshot (clean_health_snapshot h) = clean_health_snapshot h"
  "clean_pricing_snapshot (clean_pricing_snapshot q) = clean_pricing_snapshot q"
  by (simp_all add: clean_fact_def clean_router_provider_def clean_health_snapshot_def
      clean_pricing_snapshot_def)

lemma clean_router_input_idem [simp]: "clean_router_input (clean_router_input i) = clean_router_input i"
  by (simp add: clean_router_input_def option.map_comp comp_def)

end
