(* ===== verification/DecisionSchema.thy ===== *)
theory DecisionSchema
  imports RoutingSchemas
begin

text \<open>
  \<open>RoutingDecisionPayloadSchema\<close> of \<open>shared/session-events.ts\<close>: the fields of a routing
  decision, and its refinements group by group in the order of the source: the leases, the
  agreement with the persisted router input, the risk data, what a cloud admission requires and
  forbids, what a denied cloud proposal requires and forbids, the budget, and the denied gate
  every denial names.
\<close>

definition valid_decision_fields :: "routing_decision \<Rightarrow> bool" where
  "valid_decision_fields d \<longleftrightarrow>
     bounded_v2_id (rd_decisionId d) \<and> optionally bounded_v2_id (rd_cloudEgressAdmissionId d) \<and>
     valid_sorted_ids (rd_candidateProviderIds d) \<and>
     bounded_v2_id (rd_selectedProviderId d) \<and> bounded_v2_id (rd_selectedModel d) \<and>
     optionally bounded_v2_id (rd_proposedProviderId d) \<and> optionally bounded_v2_id (rd_proposedModel d) \<and>
     optionally bounded_v2_id (rd_priorLeaseId d) \<and> bounded_v2_id (rd_selectedLeaseId d) \<and>
     optionally bounded_code (rd_riskPolicyId d) \<and> optionally safe_non_negative (rd_riskScore d) \<and>
     valid_risk_signals 16 (rd_riskSignals d) \<and>
     optionally (\<lambda>r. 1 \<le> length r \<and> length r \<le> 512) (rd_riskIncompleteReason d) \<and>
     valid_trigger_facts 32 (rd_triggerFacts d) \<and> valid_admission (rd_admission d) \<and>
     optionally valid_router_input (rd_routerInputSnapshot d) \<and>
     optionally bounded_v2_id (rd_healthSnapshotId d) \<and> optionally bounded_v2_id (rd_pricingSnapshotId d) \<and>
     optionally bounded_v2_id (rd_campaignId d) \<and> optionally bounded_v2_id (rd_budgetReservationId d) \<and>
     optionally bounded_v2_id (rd_credentialMetadataId d) \<and> optionally valid_billing (rd_billing d) \<and>
     optionally bounded_v2_id (rd_checkpointId d) \<and> optionally sha256_hex (rd_packetSha256 d) \<and>
     optionally sha256_hex (rd_messagesSha256 d) \<and> optionally sha256_hex (rd_provenanceSemanticSha256 d) \<and>
     optionally bounded_v2_id (rd_proposalCheckpointId d) \<and> optionally sha256_hex (rd_proposalPacketSha256 d) \<and>
     optionally sha256_hex (rd_proposalMessagesSha256 d)"

definition valid_leases :: "routing_decision \<Rightarrow> bool" where
  "valid_leases d \<longleftrightarrow>
     rd_selectedProviderId d \<in> set (rd_candidateProviderIds d) \<and>
     optionally (\<lambda>p. p \<in> set (rd_candidateProviderIds d)) (rd_proposedProviderId d) \<and>
     (rd_action d = Retain_lease \<longrightarrow> rd_priorLeaseId d = Some (rd_selectedLeaseId d)) \<and>
     (rd_action d = Assign_new_lease \<longrightarrow> rd_priorLeaseId d \<noteq> Some (rd_selectedLeaseId d)) \<and>
     (rd_boundary d = Session_start) = (rd_phase d = Investigation)"

section \<open>Agreement with the router input\<close>

definition selected_provider_agrees :: "routing_decision \<Rightarrow> router_input \<Rightarrow> bool" where
  "selected_provider_agrees d i \<longleftrightarrow>
     (let cloud = rd_reasonCode d = Rr_cloud_admitted
      in holds (find_provider (ri_providers i) (rd_selectedProviderId d)) (\<lambda>p.
           rp_model p = rd_selectedModel d \<and>
           rp_locality p = (if cloud then Cloud_provider else Local_provider) \<and>
           rp_accountingKind p = (if cloud then Metered else Local_zero_cost)))"

definition proposed_provider_agrees :: "routing_decision \<Rightarrow> router_input \<Rightarrow> bool" where
  "proposed_provider_agrees d i \<longleftrightarrow>
     optionally (\<lambda>proposed.
       holds (find_provider (ri_providers i) proposed) (\<lambda>p.
         Some (rp_model p) = rd_proposedModel d \<and> rp_locality p = Cloud_provider \<and>
         rp_accountingKind p = Metered)) (rd_proposedProviderId d)"

definition health_agrees :: "routing_decision \<Rightarrow> router_input \<Rightarrow> bool" where
  "health_agrees d i \<longleftrightarrow>
     optionally (\<lambda>snapshot.
       holds (find (\<lambda>h. hs_snapshotId h = snapshot) (ri_healthSnapshots i)) (\<lambda>h.
         hs_providerId h = ri_targetProviderId i \<and> hs_model h = ri_targetModel i)) (rd_healthSnapshotId d)"

definition pricing_agrees :: "routing_decision \<Rightarrow> router_input \<Rightarrow> bool" where
  "pricing_agrees d i \<longleftrightarrow>
     optionally (\<lambda>snapshot. holds (ri_pricingSnapshot i) (\<lambda>p.
         snapshot = ps_snapshotId p \<and> ps_providerId p = ri_targetProviderId i \<and>
         ps_model p = ri_targetModel i)) (rd_pricingSnapshotId d) \<and>
     optionally (\<lambda>b. holds (ri_pricingSnapshot i) (\<lambda>p.
         bl_inputRate b = ps_inputRate p \<and> bl_outputRate b = ps_outputRate p \<and>
         coalesce (bl_cacheReadRate b) 0 = ps_cacheReadRate p)) (rd_billing d)"

definition snapshot_agrees :: "routing_decision \<Rightarrow> router_input \<Rightarrow> bool" where
  "snapshot_agrees d i \<longleftrightarrow>
     ri_boundary i = rd_boundary d \<and>
     map rp_providerId (ri_providers i) = rd_candidateProviderIds d \<and>
     selected_provider_agrees d i \<and> proposed_provider_agrees d i \<and>
     health_agrees d i \<and> pricing_agrees d i \<and>
     (ac_status (ad_deadline (rd_admission d)) \<noteq> Not_applicable \<longrightarrow>
        (ac_status (ad_deadline (rd_admission d)) = Passed) = dl_sufficient (ri_deadline i))"

section \<open>Risk\<close>

definition valid_risk_data :: "routing_decision \<Rightarrow> bool" where
  "valid_risk_data d \<longleftrightarrow>
     (rd_riskPolicyId d = None \<longrightarrow>
        rd_riskScore d = None \<and> rd_riskIncompleteReason d = None \<and> rd_riskSignals d = []) \<and>
     (rd_riskPolicyId d \<noteq> None \<longrightarrow> (rd_riskScore d \<noteq> None) \<noteq> (rd_riskIncompleteReason d \<noteq> None)) \<and>
     (rd_riskPolicyId d \<noteq> None \<longrightarrow> rd_boundary d = Evidence_complete) \<and>
     optionally (\<lambda>score. sum_list (map rs_contribution (rd_riskSignals d)) = score) (rd_riskScore d)"

section \<open>Cloud admissions\<close>

definition cloud_admission_fields :: "routing_decision \<Rightarrow> bool" where
  "cloud_admission_fields d \<longleftrightarrow>
     rd_healthSnapshotId d \<noteq> None \<and> rd_pricingSnapshotId d \<noteq> None \<and> rd_campaignId d \<noteq> None \<and>
     rd_budgetReservationId d \<noteq> None \<and> rd_credentialMetadataId d \<noteq> None \<and> rd_billing d \<noteq> None \<and>
     rd_checkpointId d \<noteq> None \<and> rd_packetSha256 d \<noteq> None \<and> rd_messagesSha256 d \<noteq> None \<and>
     rd_proposedProviderId d = None \<and> rd_proposedModel d = None \<and> rd_proposalCheckpointId d = None \<and>
     rd_proposalPacketSha256 d = None \<and> rd_proposalMessagesSha256 d = None"

definition valid_cloud_admission :: "routing_decision \<Rightarrow> bool" where
  "valid_cloud_admission d \<longleftrightarrow>
     rd_action d = Assign_new_lease \<and> rd_boundary d = Evidence_complete \<and>
     list_all (\<lambda>c. ac_status c = Passed) (admission_checks (rd_admission d)) \<and>
     (rd_routerInputSnapshot d \<noteq> None \<longrightarrow>
        holds (ad_pricing (rd_admission d)) (\<lambda>c. ac_status c = Passed)) \<and>
     cloud_admission_fields d"

section \<open>Denied cloud proposals\<close>

definition proposal_fields :: "routing_decision \<Rightarrow> string option list" where
  "proposal_fields d =
     [rd_proposalCheckpointId d, rd_proposalPacketSha256 d, rd_proposalMessagesSha256 d]"

definition proposal_field_count :: "routing_decision \<Rightarrow> nat" where
  "proposal_field_count d = length (filter (\<lambda>f. f \<noteq> None) (proposal_fields d))"

definition reached :: "admission_check \<Rightarrow> bool" where
  "reached c \<longleftrightarrow> ac_status c \<noteq> Not_applicable"

definition denial_evidence :: "routing_decision \<Rightarrow> bool" where
  "denial_evidence d \<longleftrightarrow>
     (proposal_field_count d = 0 \<or> proposal_field_count d = length (proposal_fields d)) \<and>
     (reached (ad_credential (rd_admission d)) \<longrightarrow> rd_credentialMetadataId d \<noteq> None) \<and>
     (reached (ad_health (rd_admission d)) \<longrightarrow> rd_healthSnapshotId d \<noteq> None) \<and>
     (holds (ad_pricing (rd_admission d)) reached \<longrightarrow> rd_pricingSnapshotId d \<noteq> None) \<and>
     (reached (ad_egress (rd_admission d)) \<longrightarrow> proposal_field_count d = length (proposal_fields d)) \<and>
     (rd_billing d \<noteq> None \<longrightarrow>
        rd_pricingSnapshotId d \<noteq> None \<and> rd_campaignId d \<noteq> None \<and>
        proposal_field_count d = length (proposal_fields d))"

text \<open>The reasons the budget ledger refuses a request for, and their text.\<close>

datatype budget_denial = Campaign_overrun | Episode_cap | Campaign_automatic_stop | Campaign_hard_ceiling

fun denial_text :: "budget_denial \<Rightarrow> string" where
  "denial_text Campaign_overrun = ''campaign_overrun''"
| "denial_text Episode_cap = ''episode_cap''"
| "denial_text Campaign_automatic_stop = ''campaign_automatic_stop''"
| "denial_text Campaign_hard_ceiling = ''campaign_hard_ceiling''"

definition ledger_denial_reasons :: "string list" where
  "ledger_denial_reasons =
     [''campaign_overrun'', ''episode_cap'', ''campaign_automatic_stop'', ''campaign_hard_ceiling'']"

definition recorded_denial_fact :: "routing_decision \<Rightarrow> json option" where
  "recorded_denial_fact d =
     map_option tf_value (find (\<lambda>f. tf_key f = ''budget_denial_reason'') (rd_triggerFacts d))"

definition valid_budget_denial :: "routing_decision \<Rightarrow> bool" where
  "valid_budget_denial d \<longleftrightarrow>
     (rd_routerInputSnapshot d \<noteq> None \<longrightarrow>
        list_ex (\<lambda>r. recorded_denial_fact d = Some (JString r)) ledger_denial_reasons) \<and>
     holds (rd_billing d) (\<lambda>b.
       recorded_denial_fact d = Some (JString ''campaign_overrun'') \<or>
       \<not> (bl_projectedCostMicrousd b \<le> bl_remainingEpisodeMicrousd b \<and>
          bl_projectedCostMicrousd b \<le> bl_remainingCampaignMicrousd b))"

definition valid_proposal_denial :: "routing_decision \<Rightarrow> bool" where
  "valid_proposal_denial d \<longleftrightarrow>
     rd_boundary d = Evidence_complete \<and> rd_action d = Retain_lease \<and>
     rd_proposedProviderId d \<noteq> None \<and> rd_proposedModel d \<noteq> None \<and>
     rd_proposedProviderId d \<noteq> Some (rd_selectedProviderId d) \<and>
     optionally (\<lambda>i. Some (ri_targetProviderId i) = rd_proposedProviderId d \<and>
        Some (ri_targetModel i) = rd_proposedModel d) (rd_routerInputSnapshot d) \<and>
     rd_budgetReservationId d = None \<and> denial_evidence d \<and>
     (rd_reasonCode d = Rr_budget_denial \<longrightarrow> valid_budget_denial d) \<and>
     rd_checkpointId d = None \<and> rd_packetSha256 d = None \<and> rd_messagesSha256 d = None"

section \<open>The remaining rules\<close>

definition target_is_selected :: "routing_decision \<Rightarrow> bool" where
  "target_is_selected d \<longleftrightarrow>
     optionally (\<lambda>i. ri_targetProviderId i = rd_selectedProviderId d \<and>
        ri_targetModel i = rd_selectedModel d) (rd_routerInputSnapshot d)"

definition passed_budget_fits :: "routing_decision \<Rightarrow> bool" where
  "passed_budget_fits d \<longleftrightarrow>
     (ac_status (ad_budget (rd_admission d)) = Passed \<longrightarrow>
      optionally (\<lambda>b. bl_projectedCostMicrousd b \<le> bl_remainingEpisodeMicrousd b \<and>
        bl_projectedCostMicrousd b \<le> bl_remainingCampaignMicrousd b) (rd_billing d))"

definition no_paid_fields :: "routing_decision \<Rightarrow> bool" where
  "no_paid_fields d \<longleftrightarrow>
     rd_pricingSnapshotId d = None \<and> rd_campaignId d = None \<and> rd_budgetReservationId d = None \<and>
     rd_credentialMetadataId d = None \<and> rd_billing d = None \<and> rd_checkpointId d = None \<and>
     rd_packetSha256 d = None \<and> rd_messagesSha256 d = None \<and> rd_proposedProviderId d = None \<and>
     rd_proposedModel d = None \<and> rd_proposalCheckpointId d = None \<and>
     rd_proposalPacketSha256 d = None \<and> rd_proposalMessagesSha256 d = None"

text \<open>The table \<open>denialCheckByReason\<close>: the gate a denial names. \<open>disabled_provider\<close> names none.\<close>

definition denied_gate :: "routing_decision \<Rightarrow> admission_check option option" where
  "denied_gate d = (let a = rd_admission d in case rd_reasonCode d of
       Rr_missing_credential \<Rightarrow> Some (Some (ad_credential a))
     | Rr_unhealthy_provider \<Rightarrow> Some (Some (ad_health a))
     | Rr_pricing_denial \<Rightarrow> Some (ad_pricing a)
     | Rr_capability_mismatch \<Rightarrow> Some (Some (ad_capability a))
     | Rr_egress_denial \<Rightarrow> Some (Some (ad_egress a))
     | Rr_budget_denial \<Rightarrow> Some (Some (ad_budget a))
     | Rr_deadline_denial \<Rightarrow> Some (Some (ad_deadline a))
     | _ \<Rightarrow> None)"

definition denied_gate_ok :: "routing_decision \<Rightarrow> bool" where
  "denied_gate_ok d \<longleftrightarrow>
     optionally (\<lambda>gate. holds gate (\<lambda>c. ac_status c = Denied)) (denied_gate d)"

definition valid_routing_decision :: "routing_decision \<Rightarrow> bool" where
  "valid_routing_decision d \<longleftrightarrow>
     valid_decision_fields d \<and> valid_leases d \<and>
     optionally (snapshot_agrees d) (rd_routerInputSnapshot d) \<and> valid_risk_data d \<and>
     (rd_reasonCode d = Rr_cloud_admitted \<longrightarrow> valid_cloud_admission d) \<and>
     (\<not> is_cloud_proposal_denial (rd_reasonCode d) \<longrightarrow> target_is_selected d) \<and>
     (is_cloud_proposal_denial (rd_reasonCode d) \<longrightarrow> valid_proposal_denial d) \<and>
     passed_budget_fits d \<and>
     (rd_reasonCode d \<noteq> Rr_cloud_admitted \<and> \<not> is_cloud_proposal_denial (rd_reasonCode d) \<longrightarrow>
        no_paid_fields d) \<and>
     denied_gate_ok d"

definition clean_routing_decision :: "routing_decision \<Rightarrow> routing_decision" where
  "clean_routing_decision d =
     d\<lparr>rd_decisionId := js_trim (rd_decisionId d),
       rd_cloudEgressAdmissionId := trimmed (rd_cloudEgressAdmissionId d),
       rd_candidateProviderIds := map js_trim (rd_candidateProviderIds d),
       rd_selectedProviderId := js_trim (rd_selectedProviderId d),
       rd_selectedModel := js_trim (rd_selectedModel d),
       rd_proposedProviderId := trimmed (rd_proposedProviderId d),
       rd_proposedModel := trimmed (rd_proposedModel d),
       rd_priorLeaseId := trimmed (rd_priorLeaseId d),
       rd_selectedLeaseId := js_trim (rd_selectedLeaseId d),
       rd_riskPolicyId := trimmed (rd_riskPolicyId d),
       rd_riskIncompleteReason := trimmed (rd_riskIncompleteReason d),
       rd_triggerFacts := map clean_fact (rd_triggerFacts d),
       rd_routerInputSnapshot := map_option clean_router_input (rd_routerInputSnapshot d),
       rd_healthSnapshotId := trimmed (rd_healthSnapshotId d),
       rd_pricingSnapshotId := trimmed (rd_pricingSnapshotId d),
       rd_campaignId := trimmed (rd_campaignId d),
       rd_budgetReservationId := trimmed (rd_budgetReservationId d),
       rd_credentialMetadataId := trimmed (rd_credentialMetadataId d),
       rd_checkpointId := trimmed (rd_checkpointId d),
       rd_proposalCheckpointId := trimmed (rd_proposalCheckpointId d)\<rparr>"

definition parse_routing_decision :: "routing_decision \<Rightarrow> routing_decision option" where
  "parse_routing_decision d =
     (let c = clean_routing_decision d in if valid_routing_decision c then Some c else None)"

lemma clean_routing_decision_idem [simp]:
  "clean_routing_decision (clean_routing_decision d) = clean_routing_decision d"
  by (simp add: clean_routing_decision_def option.map_comp comp_def)

lemma parse_routing_decision_valid: "parse_routing_decision d = Some c \<Longrightarrow> valid_routing_decision c"
  by (simp add: parse_routing_decision_def Let_def split: if_splits)

end
