(* ===== verification/RouterSchemas.thy ===== *)
theory RouterSchemas
  imports DecisionSchema
begin

text \<open>
  The data of the checkpoint router, \<open>shared/checkpoint-router.ts\<close>, and the schemas its input
  and its results pass: providers with their capabilities, the view of the session state, the
  risk assessment with its frozen signal table, the proposal and resolution inputs, the cloud
  admission, the proposal and the attempt plan. As in \<open>RoutingSchemas\<close>, \<open>clean_...\<close> trims,
  \<open>valid_...\<close> says that the trimmed value raises no issue and \<open>parse_...\<close> is \<open>parse\<close>. The
  input of a resolution extends the input of a proposal, as in the source.
\<close>

section \<open>Capabilities and providers\<close>

definition checkpoint_provider_capabilities :: "string list" where
  "checkpoint_provider_capabilities =
     [''chat_completions'', ''reasoning_effort'', ''streaming'', ''structured_json_schema'',
      ''tool_calling'']"

definition local_investigation_capabilities :: "string list" where
  "local_investigation_capabilities = [''chat_completions'', ''streaming'', ''tool_calling'']"

definition synthesis_capabilities :: "string list" where
  "synthesis_capabilities = [''chat_completions'', ''streaming'']"

definition change_review_synthesis_capabilities :: "string list" where
  "change_review_synthesis_capabilities =
     [''chat_completions'', ''streaming'', ''structured_json_schema'']"

definition provider_health_max_age_ms :: int where
  "provider_health_max_age_ms = 60000"

definition provider_pricing_max_age_ms :: int where
  "provider_pricing_max_age_ms = 24 * 60 * 60 * 1000"

definition canonical_capabilities :: "string list \<Rightarrow> bool" where
  "canonical_capabilities cs \<longleftrightarrow>
     1 \<le> length cs \<and> length cs \<le> length checkpoint_provider_capabilities \<and>
     list_all (\<lambda>c. c \<in> set checkpoint_provider_capabilities) cs \<and> strictly_increasing id cs"

text \<open>The extended provider schema replaces the schema of the capabilities. A canonical list
  also satisfies the schema it replaces (\<open>canonical_capabilities_valid\<close> below).\<close>

definition valid_checkpoint_provider :: "router_provider \<Rightarrow> bool" where
  "valid_checkpoint_provider p \<longleftrightarrow>
     canonical_capabilities (rp_capabilities p) \<and> valid_router_provider p"

definition clean_checkpoint_provider :: "router_provider \<Rightarrow> router_provider" where
  "clean_checkpoint_provider p =
     p\<lparr>rp_providerId := js_trim (rp_providerId p), rp_model := js_trim (rp_model p)\<rparr>"

section \<open>The view of the session state\<close>

record lease_view =
  al_leaseId :: string
  al_decisionId :: string
  al_providerId :: string
  al_model :: string
  al_phase :: routing_phase

record last_attempt =
  la_attemptId :: string
  la_providerId :: string
  la_leaseId :: string
  la_decisionReasonCode :: string
  la_outcome :: attempt_outcome
  la_requestDisposition :: request_disposition
  la_budgetReservationId :: "string option"
  la_costScope :: "runtime_cost_scope option"
  la_cloudEgressAdmissionId :: "string option"

record router_state =
  st_activeLease :: "lease_view option"
  st_completedBoundaries :: "routing_boundary list"
  st_providerChangeCount :: int
  st_paidAttemptCount :: int
  st_hasStreamingAssistant :: bool
  st_hasOpenAttempt :: bool
  st_hasPendingToolCall :: bool
  st_finishedAttemptCount :: int
  st_successfulInvestigationAttemptCount :: int
  st_evidenceReady :: bool
  st_lastAttempt :: "last_attempt option"

definition clean_lease_view :: "lease_view \<Rightarrow> lease_view" where
  "clean_lease_view a =
     a\<lparr>al_leaseId := js_trim (al_leaseId a), al_decisionId := js_trim (al_decisionId a),
       al_providerId := js_trim (al_providerId a), al_model := js_trim (al_model a)\<rparr>"

definition valid_lease_view :: "lease_view \<Rightarrow> bool" where
  "valid_lease_view a \<longleftrightarrow>
     bounded_v2_id (al_leaseId a) \<and> bounded_v2_id (al_decisionId a) \<and>
     bounded_v2_id (al_providerId a) \<and> bounded_v2_id (al_model a)"

definition clean_last_attempt :: "last_attempt \<Rightarrow> last_attempt" where
  "clean_last_attempt l =
     l\<lparr>la_attemptId := js_trim (la_attemptId l), la_providerId := js_trim (la_providerId l),
       la_leaseId := js_trim (la_leaseId l), la_decisionReasonCode := js_trim (la_decisionReasonCode l),
       la_budgetReservationId := trimmed (la_budgetReservationId l),
       la_cloudEgressAdmissionId := trimmed (la_cloudEgressAdmissionId l)\<rparr>"

definition valid_last_attempt :: "last_attempt \<Rightarrow> bool" where
  "valid_last_attempt l \<longleftrightarrow>
     bounded_v2_id (la_attemptId l) \<and> bounded_v2_id (la_providerId l) \<and>
     bounded_v2_id (la_leaseId l) \<and> bounded_code (la_decisionReasonCode l) \<and>
     optionally bounded_v2_id (la_budgetReservationId l) \<and>
     optionally bounded_v2_id (la_cloudEgressAdmissionId l)"

definition clean_router_state :: "router_state \<Rightarrow> router_state" where
  "clean_router_state s =
     s\<lparr>st_activeLease := map_option clean_lease_view (st_activeLease s),
       st_lastAttempt := map_option clean_last_attempt (st_lastAttempt s)\<rparr>"

definition valid_router_state :: "router_state \<Rightarrow> bool" where
  "valid_router_state s \<longleftrightarrow>
     optionally valid_lease_view (st_activeLease s) \<and>
     length (st_completedBoundaries s) \<le> 3 \<and> distinct (st_completedBoundaries s) \<and>
     0 \<le> st_providerChangeCount s \<and> st_providerChangeCount s \<le> 2 \<and>
     0 \<le> st_paidAttemptCount s \<and> st_paidAttemptCount s \<le> 1 \<and>
     safe_non_negative (st_finishedAttemptCount s) \<and>
     safe_non_negative (st_successfulInvestigationAttemptCount s) \<and>
     optionally valid_last_attempt (st_lastAttempt s) \<and>
     (st_evidenceReady s \<longrightarrow> 1 \<le> st_successfulInvestigationAttemptCount s)"

section \<open>Risk\<close>

datatype risk_classification = Low_risk | High_risk | Risk_incomplete

record router_risk =
  rk_snapshotId :: string
  rk_classification :: risk_classification
  rk_score :: "int option"
  rk_signals :: "risk_signal list"
  rk_incompleteReason :: "string option"
  rk_triggerFacts :: "trigger_fact list"

datatype signal_trigger = At_least int | When_true

record signal_definition =
  sd_name :: string
  sd_weight :: int
  sd_trigger :: signal_trigger

definition router_risk_signal_definitions :: "signal_definition list" where
  "router_risk_signal_definitions =
     [\<lparr>sd_name = ''changed_file_count'', sd_weight = 1, sd_trigger = At_least 8\<rparr>,
      \<lparr>sd_name = ''changed_line_count'', sd_weight = 1, sd_trigger = At_least 300\<rparr>,
      \<lparr>sd_name = ''changed_surface_count'', sd_weight = 2, sd_trigger = At_least 3\<rparr>,
      \<lparr>sd_name = ''runtime_without_relevant_test'', sd_weight = 2, sd_trigger = When_true\<rparr>,
      \<lparr>sd_name = ''sensitive_subsystem'', sd_weight = 2, sd_trigger = When_true\<rparr>]"

text \<open>\<open>typeof signal.value === definition.value\<close>.\<close>

fun signal_value_type :: "signal_trigger \<Rightarrow> json \<Rightarrow> bool" where
  "signal_value_type (At_least n) (JNumber r) = True"
| "signal_value_type When_true (JBool b) = True"
| "signal_value_type _ _ = False"

fun signal_triggered :: "signal_trigger \<Rightarrow> json \<Rightarrow> bool" where
  "signal_triggered (At_least n) (JNumber r) = (of_int n \<le> r)"
| "signal_triggered When_true (JBool b) = b"
| "signal_triggered _ _ = False"

definition signal_matches :: "risk_signal \<Rightarrow> signal_definition \<Rightarrow> bool" where
  "signal_matches s d \<longleftrightarrow>
     rs_name s = sd_name d \<and> rs_weight s = sd_weight d \<and>
     signal_value_type (sd_trigger d) (rs_value s) \<and>
     rs_contribution s = (if signal_triggered (sd_trigger d) (rs_value s) then sd_weight d else 0)"

definition string_fact :: "string \<Rightarrow> string \<Rightarrow> trigger_fact" where
  "string_fact k v = \<lparr>tf_key = k, tf_value = JString v\<rparr>"

definition int_fact :: "string \<Rightarrow> int \<Rightarrow> trigger_fact" where
  "int_fact k v = \<lparr>tf_key = k, tf_value = JNumber (of_int v)\<rparr>"

definition bool_fact :: "string \<Rightarrow> bool \<Rightarrow> trigger_fact" where
  "bool_fact k v = \<lparr>tf_key = k, tf_value = JBool v\<rparr>"

fun classification_text :: "risk_classification \<Rightarrow> string" where
  "classification_text Low_risk = ''low_risk''"
| "classification_text High_risk = ''high_risk''"
| "classification_text Risk_incomplete = ''incomplete''"

text \<open>The match of \<open>^review-risk-v1-incomplete:([1-9][0-9]*):([a-f0-9]{64})$\<close>: the count and the
  digest.\<close>

definition incomplete_prefix :: string where
  "incomplete_prefix = ''review-risk-v1-incomplete:''"

definition match_incomplete :: "string \<Rightarrow> (int \<times> string) option" where
  "match_incomplete s =
     (if take (length incomplete_prefix) s \<noteq> incomplete_prefix then None
      else
        let r = drop (length incomplete_prefix) s;
            ds = takeWhile is_digit r; q = dropWhile is_digit r
        in if ds \<noteq> [] \<and> hd ds \<noteq> CHR ''0'' \<and> q \<noteq> [] \<and> hd q = CHR '':'' \<and> sha256_hex (tl q)
           then Some (int (read_nat 0 ds), tl q) else None)"

definition incomplete_facts :: "router_risk \<Rightarrow> trigger_fact list option" where
  "incomplete_facts r =
     (case Option.bind (rk_incompleteReason r) match_incomplete of
        None \<Rightarrow> None
      | Some (count, digest) \<Rightarrow>
          if \<not> is_safe_integer count then None
          else Some
            [string_fact ''risk_classification'' ''incomplete'',
             int_fact ''risk_incomplete_count'' count,
             string_fact ''risk_incomplete_sha256'' digest,
             string_fact ''risk_snapshot_id'' (rk_snapshotId r)])"

definition scored_facts :: "router_risk \<Rightarrow> trigger_fact list" where
  "scored_facts r =
     [string_fact ''risk_classification'' (classification_text (rk_classification r)),
      string_fact ''risk_snapshot_id'' (rk_snapshotId r)]"

definition valid_incomplete_risk :: "router_risk \<Rightarrow> bool" where
  "valid_incomplete_risk r \<longleftrightarrow>
     rk_signals r = [] \<and> incomplete_facts r = Some (rk_triggerFacts r)"

definition valid_scored_risk :: "router_risk \<Rightarrow> bool" where
  "valid_scored_risk r \<longleftrightarrow>
     list_all (\<lambda>(s, d). signal_matches s d) (zip (rk_signals r) router_risk_signal_definitions) \<and>
     length (rk_signals r) = 5 \<and>
     rk_score r = Some (sum_list (map rs_contribution (rk_signals r))) \<and>
     optionally (\<lambda>score. rk_classification r = (if 3 \<le> score then High_risk else Low_risk)) (rk_score r) \<and>
     rk_triggerFacts r = scored_facts r"

definition clean_router_risk :: "router_risk \<Rightarrow> router_risk" where
  "clean_router_risk r =
     r\<lparr>rk_incompleteReason := trimmed (rk_incompleteReason r),
       rk_triggerFacts := map clean_fact (rk_triggerFacts r)\<rparr>"

definition valid_router_risk :: "router_risk \<Rightarrow> bool" where
  "valid_router_risk r \<longleftrightarrow>
     sha256_hex (rk_snapshotId r) \<and> optionally safe_non_negative (rk_score r) \<and>
     valid_risk_signals 5 (rk_signals r) \<and>
     optionally (\<lambda>x. 1 \<le> length x \<and> length x \<le> 512) (rk_incompleteReason r) \<and>
     valid_trigger_facts 16 (rk_triggerFacts r) \<and>
     (rk_classification r = Risk_incomplete) = (rk_incompleteReason r \<noteq> None) \<and>
     (rk_classification r = Risk_incomplete) \<noteq> (rk_score r \<noteq> None) \<and>
     (if rk_classification r = Risk_incomplete then valid_incomplete_risk r else valid_scored_risk r)"

section \<open>The input of a proposal\<close>

text \<open>The discriminated union on \<open>boundary\<close>: only one boundary carries a risk.\<close>

datatype route_point = At_session_start | At_evidence_complete router_risk | At_provider_failure

fun point_boundary :: "route_point \<Rightarrow> routing_boundary" where
  "point_boundary At_session_start = Session_start"
| "point_boundary (At_evidence_complete r) = Evidence_complete"
| "point_boundary At_provider_failure = Provider_failure"

fun point_risk :: "route_point \<Rightarrow> router_risk option" where
  "point_risk (At_evidence_complete r) = Some r"
| "point_risk _ = None"

fun clean_point :: "route_point \<Rightarrow> route_point" where
  "clean_point (At_evidence_complete r) = At_evidence_complete (clean_router_risk r)"
| "clean_point p = p"

record proposal_input =
  pi_policy :: policy_v2
  pi_asOf :: string
  pi_deadlineAt :: string
  pi_providers :: "router_provider list"
  pi_localProviderId :: string
  pi_cloudProviderId :: "string option"
  pi_structuredOutputContract :: "structured_output_contract option"
  pi_state :: router_state
  pi_point :: route_point

definition clean_proposal_input :: "'a proposal_input_scheme \<Rightarrow> 'a proposal_input_scheme" where
  "clean_proposal_input i =
     i\<lparr>pi_providers := map clean_checkpoint_provider (pi_providers i),
       pi_localProviderId := js_trim (pi_localProviderId i),
       pi_cloudProviderId := trimmed (pi_cloudProviderId i),
       pi_state := clean_router_state (pi_state i),
       pi_point := clean_point (pi_point i)\<rparr>"

definition valid_proposal_input :: "'a proposal_input_scheme \<Rightarrow> bool" where
  "valid_proposal_input i \<longleftrightarrow>
     valid_policy_v2 (pi_policy i) \<and> zod_datetime (pi_asOf i) \<and> zod_datetime (pi_deadlineAt i) \<and>
     1 \<le> length (pi_providers i) \<and> length (pi_providers i) \<le> 32 \<and>
     list_all valid_checkpoint_provider (pi_providers i) \<and>
     bounded_v2_id (pi_localProviderId i) \<and> optionally bounded_v2_id (pi_cloudProviderId i) \<and>
     valid_router_state (pi_state i) \<and> optionally valid_router_risk (point_risk (pi_point i))"

section \<open>Proposals\<close>

datatype route_intent =
  Local_investigation | Local_policy | Low_risk_local_review | Cloud_synthesis | Local_fallback

record route_proposal =
  pr_boundary :: routing_boundary
  pr_phase :: routing_phase
  pr_intent :: route_intent
  pr_action :: routing_action
  pr_targetProviderId :: string
  pr_targetModel :: string
  pr_targetLocality :: locality
  pr_candidateProviderIds :: "string list"
  pr_priorLeaseId :: "string option"
  pr_requiredCapabilities :: "string list"
  pr_allowTools :: bool
  pr_requireToolCall :: bool

definition clean_proposal :: "route_proposal \<Rightarrow> route_proposal" where
  "clean_proposal p =
     p\<lparr>pr_targetProviderId := js_trim (pr_targetProviderId p),
       pr_targetModel := js_trim (pr_targetModel p),
       pr_candidateProviderIds := map js_trim (pr_candidateProviderIds p),
       pr_priorLeaseId := trimmed (pr_priorLeaseId p)\<rparr>"

definition valid_proposal :: "route_proposal \<Rightarrow> bool" where
  "valid_proposal p \<longleftrightarrow>
     bounded_v2_id (pr_targetProviderId p) \<and> bounded_v2_id (pr_targetModel p) \<and>
     1 \<le> length (pr_candidateProviderIds p) \<and> length (pr_candidateProviderIds p) \<le> 32 \<and>
     list_all bounded_v2_id (pr_candidateProviderIds p) \<and>
     optionally bounded_v2_id (pr_priorLeaseId p) \<and>
     canonical_capabilities (pr_requiredCapabilities p)"

section \<open>Cloud admissions and the input of a resolution\<close>

record packet_admission =
  pk_checkpointId :: string
  pk_packetSha256 :: string
  pk_messagesSha256 :: string
  pk_egressAllowed :: bool
  pk_cloudEgressAdmissionId :: "string option"

record budget_admission =
  ba_campaignId :: string
  ba_reservationId :: string
  ba_billableInputTokens :: int
  ba_billableCacheReadTokens :: int
  ba_requestedMaxOutputTokens :: int
  ba_providerFeeCeilingMicrousd :: int
  ba_remainingEpisodeMicrousd :: int
  ba_remainingCampaignMicrousd :: int
  ba_budgetDenialReason :: "budget_denial option"

record cloud_admission =
  cl_credentialMetadataId :: string
  cl_credentialAvailable :: bool
  cl_retainedLocalHealthSnapshot :: health_snapshot
  cl_pricingSnapshot :: pricing_snapshot
  cl_packet :: packet_admission
  cl_budget :: budget_admission

definition clean_packet_admission :: "packet_admission \<Rightarrow> packet_admission" where
  "clean_packet_admission p =
     p\<lparr>pk_checkpointId := js_trim (pk_checkpointId p),
       pk_cloudEgressAdmissionId := trimmed (pk_cloudEgressAdmissionId p)\<rparr>"

definition valid_packet_admission :: "packet_admission \<Rightarrow> bool" where
  "valid_packet_admission p \<longleftrightarrow>
     bounded_v2_id (pk_checkpointId p) \<and> sha256_hex (pk_packetSha256 p) \<and>
     sha256_hex (pk_messagesSha256 p) \<and> optionally bounded_v2_id (pk_cloudEgressAdmissionId p)"

definition clean_budget_admission :: "budget_admission \<Rightarrow> budget_admission" where
  "clean_budget_admission b =
     b\<lparr>ba_campaignId := js_trim (ba_campaignId b), ba_reservationId := js_trim (ba_reservationId b)\<rparr>"

definition valid_budget_admission :: "budget_admission \<Rightarrow> bool" where
  "valid_budget_admission b \<longleftrightarrow>
     bounded_v2_id (ba_campaignId b) \<and> bounded_v2_id (ba_reservationId b) \<and>
     safe_non_negative (ba_billableInputTokens b) \<and> safe_non_negative (ba_billableCacheReadTokens b) \<and>
     safe_positive (ba_requestedMaxOutputTokens b) \<and>
     safe_non_negative (ba_providerFeeCeilingMicrousd b) \<and>
     safe_non_negative (ba_remainingEpisodeMicrousd b) \<and>
     safe_non_negative (ba_remainingCampaignMicrousd b)"

definition clean_cloud_admission :: "cloud_admission \<Rightarrow> cloud_admission" where
  "clean_cloud_admission c =
     c\<lparr>cl_credentialMetadataId := js_trim (cl_credentialMetadataId c),
       cl_retainedLocalHealthSnapshot := clean_health_snapshot (cl_retainedLocalHealthSnapshot c),
       cl_pricingSnapshot := clean_pricing_snapshot (cl_pricingSnapshot c),
       cl_packet := clean_packet_admission (cl_packet c),
       cl_budget := clean_budget_admission (cl_budget c)\<rparr>"

definition valid_cloud_admission_input :: "cloud_admission \<Rightarrow> bool" where
  "valid_cloud_admission_input c \<longleftrightarrow>
     bounded_v2_id (cl_credentialMetadataId c) \<and>
     valid_health_snapshot (cl_retainedLocalHealthSnapshot c) \<and>
     valid_pricing_snapshot (cl_pricingSnapshot c) \<and>
     valid_packet_admission (cl_packet c) \<and> valid_budget_admission (cl_budget c)"

record resolution_input = proposal_input +
  rz_decisionId :: string
  rz_selectedLeaseId :: string
  rz_targetHealthSnapshot :: health_snapshot
  rz_cloudAdmission :: "cloud_admission option"

definition clean_resolution_input :: "resolution_input \<Rightarrow> resolution_input" where
  "clean_resolution_input i =
     (clean_proposal_input i)
       \<lparr>rz_decisionId := js_trim (rz_decisionId i),
        rz_selectedLeaseId := js_trim (rz_selectedLeaseId i),
        rz_targetHealthSnapshot := clean_health_snapshot (rz_targetHealthSnapshot i),
        rz_cloudAdmission := map_option clean_cloud_admission (rz_cloudAdmission i)\<rparr>"

definition valid_resolution_input :: "resolution_input \<Rightarrow> bool" where
  "valid_resolution_input i \<longleftrightarrow>
     valid_proposal_input i \<and> bounded_v2_id (rz_decisionId i) \<and>
     bounded_v2_id (rz_selectedLeaseId i) \<and> valid_health_snapshot (rz_targetHealthSnapshot i) \<and>
     optionally valid_cloud_admission_input (rz_cloudAdmission i)"

section \<open>Attempt plans and results\<close>

record attempt_plan =
  pl_providerId :: string
  pl_model :: string
  pl_leaseId :: string
  pl_phase :: routing_phase
  pl_requestedMaxOutputTokens :: int
  pl_allowTools :: bool
  pl_allowedToolNames :: "tool_name list option"
  pl_requireToolCall :: bool
  pl_budgetReservationId :: "string option"
  pl_costScope :: "runtime_cost_scope option"
  pl_cloudEgressAdmissionId :: "string option"

definition clean_attempt_plan :: "attempt_plan \<Rightarrow> attempt_plan" where
  "clean_attempt_plan a =
     a\<lparr>pl_providerId := js_trim (pl_providerId a), pl_model := js_trim (pl_model a),
       pl_leaseId := js_trim (pl_leaseId a),
       pl_budgetReservationId := trimmed (pl_budgetReservationId a),
       pl_cloudEgressAdmissionId := trimmed (pl_cloudEgressAdmissionId a)\<rparr>"

definition valid_attempt_plan :: "attempt_plan \<Rightarrow> bool" where
  "valid_attempt_plan a \<longleftrightarrow>
     bounded_v2_id (pl_providerId a) \<and> bounded_v2_id (pl_model a) \<and> bounded_v2_id (pl_leaseId a) \<and>
     safe_positive (pl_requestedMaxOutputTokens a) \<and>
     optionally (list_all (\<lambda>n. n \<in> set completion_obligation_tool_names)) (pl_allowedToolNames a) \<and>
     optionally bounded_v2_id (pl_budgetReservationId a) \<and>
     optionally bounded_v2_id (pl_cloudEgressAdmissionId a) \<and>
     \<not> (pl_phase a = Synthesis \<and> pl_allowTools a) \<and>
     \<not> (\<not> pl_allowTools a \<and> pl_allowedToolNames a \<noteq> None)"

definition parse_attempt_plan :: "attempt_plan \<Rightarrow> attempt_plan option" where
  "parse_attempt_plan a =
     (let c = clean_attempt_plan a in if valid_attempt_plan c then Some c else None)"

datatype terminal_code =
    Busy_boundary | Deadline_exhausted | Invalid_boundary_state | Local_provider_unavailable
  | Provider_change_limit

datatype router_result = Decision_result routing_decision attempt_plan | Terminal_denial terminal_code

text \<open>\<open>CheckpointRouterResultV0Schema.parse\<close>.\<close>

fun parse_router_result :: "router_result \<Rightarrow> router_result option" where
  "parse_router_result (Terminal_denial c) = Some (Terminal_denial c)"
| "parse_router_result (Decision_result d a) =
     (case (parse_routing_decision d, parse_attempt_plan a) of
        (Some d', Some a') \<Rightarrow> Some (Decision_result d' a')
      | _ \<Rightarrow> None)"

section \<open>Facts about the schemas\<close>

lemma capability_is_code: "c \<in> set checkpoint_provider_capabilities \<Longrightarrow> bounded_code c"
  by (auto simp: checkpoint_provider_capabilities_def bounded_code_def reason_code_chars_def
      lower_alnum_def)

lemma canonical_capabilities_valid: "canonical_capabilities cs \<Longrightarrow> valid_capabilities cs"
  by (auto simp: canonical_capabilities_def valid_capabilities_def list_all_iff
      capability_is_code checkpoint_provider_capabilities_def [THEN arg_cong [where f = length]])

lemma required_capabilities_canonical [simp]:
  "canonical_capabilities local_investigation_capabilities"
  "canonical_capabilities synthesis_capabilities"
  "canonical_capabilities change_review_synthesis_capabilities"
  by (simp_all add: canonical_capabilities_def checkpoint_provider_capabilities_def
      local_investigation_capabilities_def synthesis_capabilities_def
      change_review_synthesis_capabilities_def)

end
