(* ===== verification/RouterProposal.thy ===== *)
theory RouterProposal
  imports RouterSchemas
begin

text \<open>
  The first half of \<open>shared/checkpoint-router.ts\<close>: what a boundary requires of the session
  state, and \<open>proposeCheckpointRouteV0\<close>, which picks the target provider, the intent and the
  lease action. Each \<open>throw\<close> is an error of \<open>router_error\<close>; freezing the returned object has no
  counterpart, since values do not change here.
\<close>

datatype router_error =
    Input_rejected | Duplicate_provider_ids | Provider_not_configured locality
  | Session_work_is_open | Boundary_already_ran routing_boundary | Start_not_pristine
  | Evidence_needs_investigation | Lease_not_configured_local
  | Failure_scope_mismatch | Failure_without_egress_identity | Failure_without_cloud_attempt
  | No_cloud_provider | Proposal_rejected | Deadline_not_safe | Snapshot_rejected
  | Duplicate_trigger_fact | Lease_not_retained | Lease_reused | No_local_reason
  | Result_rejected | Plan_rejected | Egress_identity_missing | Allowances_exceed_provider
  | Cost_not_safe | Denial_reason_missing | Denial_reason_unexpected | Billing_missing

section \<open>Providers\<close>

definition normalize_providers :: "router_provider list \<Rightarrow> router_error + router_provider list" where
  "normalize_providers providers =
     (let parsed = map clean_checkpoint_provider providers
      in guarded
           (checks
             [throw_if (\<not> list_all valid_checkpoint_provider parsed) Input_rejected,
              throw_if (\<not> distinct (map rp_providerId parsed)) Duplicate_provider_ids])
           (Inr (sort_key rp_providerId parsed)))"

definition require_provider ::
  "router_provider list \<Rightarrow> string \<Rightarrow> locality \<Rightarrow> router_error + router_provider" where
  "require_provider providers i loc =
     (case find_provider providers i of
        None \<Rightarrow> Inl (Provider_not_configured loc)
      | Some p \<Rightarrow> if rp_locality p \<noteq> loc then Inl (Provider_not_configured loc) else Inr p)"

section \<open>What a boundary requires\<close>

definition assert_safe_boundary :: "'a proposal_input_scheme \<Rightarrow> router_error option" where
  "assert_safe_boundary i =
     (let s = pi_state i; b = point_boundary (pi_point i)
      in checks
           [throw_if (st_hasStreamingAssistant s \<or> st_hasOpenAttempt s \<or> st_hasPendingToolCall s)
              Session_work_is_open,
            throw_if (b \<in> set (st_completedBoundaries s)) (Boundary_already_ran b)])"

definition pristine_state :: "router_state \<Rightarrow> bool" where
  "pristine_state s \<longleftrightarrow>
     st_activeLease s = None \<and> st_completedBoundaries s = [] \<and> st_finishedAttemptCount s = 0 \<and>
     st_successfulInvestigationAttemptCount s = 0 \<and> \<not> st_evidenceReady s \<and>
     st_lastAttempt s = None \<and> st_providerChangeCount s = 0 \<and> st_paidAttemptCount s = 0"

definition assert_session_start_state :: "'a proposal_input_scheme \<Rightarrow> router_error option" where
  "assert_session_start_state i =
     check_when (pi_point i = At_session_start)
       (throw_if (\<not> pristine_state (pi_state i)) Start_not_pristine)"

definition investigation_finished :: "router_state \<Rightarrow> bool" where
  "investigation_finished s \<longleftrightarrow>
     holds (st_activeLease s) (\<lambda>a. al_phase a = Investigation) \<and>
     1 \<le> st_finishedAttemptCount s \<and> 1 \<le> st_successfulInvestigationAttemptCount s \<and>
     st_evidenceReady s \<and> Session_start \<in> set (st_completedBoundaries s)"

definition lease_of_local :: "'a proposal_input_scheme \<Rightarrow> router_provider list \<Rightarrow> bool" where
  "lease_of_local i providers \<longleftrightarrow>
     holds (st_activeLease (pi_state i)) (\<lambda>a.
       holds (find_provider providers (al_providerId a))
         (\<lambda>p. rp_locality p = Local_provider \<and> rp_model p = al_model a) \<and>
       al_providerId a = pi_localProviderId i)"

definition assert_evidence_complete_state ::
  "'a proposal_input_scheme \<Rightarrow> router_provider list \<Rightarrow> router_error option" where
  "assert_evidence_complete_state i providers =
     check_when (point_boundary (pi_point i) = Evidence_complete)
       (checks
         [throw_if (\<not> investigation_finished (pi_state i)) Evidence_needs_investigation,
          throw_if (\<not> lease_of_local i providers) Lease_not_configured_local])"

definition routing_cost_scope :: "policy_v2 \<Rightarrow> runtime_cost_scope" where
  "routing_cost_scope p =
     (if p2_routingPolicy p = Hybrid_simulation_v1 then Rt_simulation else Rt_actual)"

definition fallback_outcomes :: "attempt_outcome list" where
  "fallback_outcomes = [Provider_error, Protocol_error, Timeout]"

definition failed_admitted_attempt :: "router_state \<Rightarrow> router_provider list \<Rightarrow> bool" where
  "failed_admitted_attempt s providers \<longleftrightarrow>
     holds (st_activeLease s) (\<lambda>a.
       al_phase a = Synthesis \<and>
       holds (find_provider providers (al_providerId a))
         (\<lambda>p. rp_locality p = Cloud_provider \<and> rp_model p = al_model a) \<and>
       holds (st_lastAttempt s) (\<lambda>l.
         la_providerId l = al_providerId a \<and> la_leaseId l = al_leaseId a \<and>
         la_decisionReasonCode l = ''cloud_admitted'' \<and> la_budgetReservationId l \<noteq> None \<and>
         la_outcome l \<in> set fallback_outcomes)) \<and>
     Session_start \<in> set (st_completedBoundaries s) \<and>
     Evidence_complete \<in> set (st_completedBoundaries s) \<and> st_paidAttemptCount s = 1"

definition assert_provider_failure_state ::
  "'a proposal_input_scheme \<Rightarrow> router_provider list \<Rightarrow> router_error option" where
  "assert_provider_failure_state i providers =
     check_when (pi_point i = At_provider_failure)
       (let s = pi_state i; scope = routing_cost_scope (pi_policy i)
        in checks
             [throw_if
                (holds (st_lastAttempt s) (\<lambda>l.
                   (la_costScope l \<noteq> None \<and> la_costScope l \<noteq> Some scope) \<or>
                   (scope = Rt_simulation \<and> la_costScope l \<noteq> Some Rt_simulation)))
                Failure_scope_mismatch,
              throw_if
                (scope = Rt_simulation \<and>
                 holds (st_lastAttempt s) (\<lambda>l. la_cloudEgressAdmissionId l = None))
                Failure_without_egress_identity,
              throw_if (\<not> failed_admitted_attempt s providers) Failure_without_cloud_attempt])"

section \<open>The proposal\<close>

text \<open>The variables the branches of \<open>proposeCheckpointRouteV0\<close> assign.\<close>

record route_choice =
  ch_target :: router_provider
  ch_phase :: routing_phase
  ch_intent :: route_intent
  ch_action :: routing_action
  ch_allowTools :: bool
  ch_requireToolCall :: bool
  ch_requiredCapabilities :: "string list"

definition default_choice :: "structured_output_contract option \<Rightarrow> router_provider \<Rightarrow> route_choice" where
  "default_choice contract local_provider =
     \<lparr>ch_target = local_provider, ch_phase = Synthesis, ch_intent = Local_policy,
      ch_action = Retain_lease, ch_allowTools = False, ch_requireToolCall = False,
      ch_requiredCapabilities =
        (if contract = Some Change_review_result_v1 then change_review_synthesis_capabilities
         else synthesis_capabilities)\<rparr>"

definition hybrid_policy :: "policy_v2 \<Rightarrow> bool" where
  "hybrid_policy p \<longleftrightarrow>
     p2_routingPolicy p = Hybrid_v0 \<or> p2_routingPolicy p = Hybrid_simulation_v1"

definition choose_route ::
  "'a proposal_input_scheme \<Rightarrow> router_provider list \<Rightarrow> router_provider \<Rightarrow> router_error + route_choice" where
  "choose_route i providers local_provider =
     (let c = default_choice (pi_structuredOutputContract i) local_provider
      in case pi_point i of
           At_session_start \<Rightarrow>
             Inr (c\<lparr>ch_phase := Investigation, ch_intent := Local_investigation,
                    ch_action := Assign_new_lease, ch_allowTools := True,
                    ch_requireToolCall := True,
                    ch_requiredCapabilities := local_investigation_capabilities\<rparr>)
         | At_evidence_complete risk \<Rightarrow>
             if rk_classification risk = Low_risk then Inr (c\<lparr>ch_intent := Low_risk_local_review\<rparr>)
             else if rk_classification risk = High_risk \<and> hybrid_policy (pi_policy i) then
               (case pi_cloudProviderId i of
                  None \<Rightarrow> Inl No_cloud_provider
                | Some cid \<Rightarrow>
                    bind_result (require_provider providers cid Cloud_provider) (\<lambda>target.
                      Inr (c\<lparr>ch_target := target, ch_intent := Cloud_synthesis,
                             ch_action := Assign_new_lease\<rparr>)))
             else Inr c
         | At_provider_failure \<Rightarrow>
             Inr (c\<lparr>ch_intent := Local_fallback, ch_action := Assign_new_lease\<rparr>))"

definition proposal_of ::
  "'a proposal_input_scheme \<Rightarrow> router_provider list \<Rightarrow> route_choice \<Rightarrow> route_proposal" where
  "proposal_of i providers c =
     \<lparr>pr_boundary = point_boundary (pi_point i), pr_phase = ch_phase c, pr_intent = ch_intent c,
      pr_action = ch_action c, pr_targetProviderId = rp_providerId (ch_target c),
      pr_targetModel = rp_model (ch_target c), pr_targetLocality = rp_locality (ch_target c),
      pr_candidateProviderIds = map rp_providerId providers,
      pr_priorLeaseId = map_option al_leaseId (st_activeLease (pi_state i)),
      pr_requiredCapabilities = ch_requiredCapabilities c, pr_allowTools = ch_allowTools c,
      pr_requireToolCall = ch_requireToolCall c\<rparr>"

definition parse_proposal :: "route_proposal \<Rightarrow> router_error + route_proposal" where
  "parse_proposal p =
     (let c = clean_proposal p in if valid_proposal c then Inr c else Inl Proposal_rejected)"

definition parse_proposal_input :: "proposal_input \<Rightarrow> router_error + proposal_input" where
  "parse_proposal_input i =
     (let c = clean_proposal_input i in if valid_proposal_input c then Inr c else Inl Input_rejected)"

definition propose_checkpoint_route :: "proposal_input \<Rightarrow> router_error + route_proposal" where
  "propose_checkpoint_route inputValue =
     bind_result (parse_proposal_input inputValue) (\<lambda>i.
     bind_result (normalize_providers (pi_providers i)) (\<lambda>providers.
     guarded
       (checks
         [assert_safe_boundary i, assert_session_start_state i,
          assert_evidence_complete_state i providers, assert_provider_failure_state i providers])
       (bind_result (require_provider providers (pi_localProviderId i) Local_provider) (\<lambda>local_provider.
        bind_result (choose_route i providers local_provider) (\<lambda>c.
        parse_proposal (proposal_of i providers c))))))"

end
