(* ===== verification/CheckpointRouter.thy ===== *)
theory CheckpointRouter
  imports RouterProposal
begin

text \<open>
  The second half of \<open>shared/checkpoint-router.ts\<close>: the admission gates, the routing decision
  and the attempt plan. \<open>resolve_checkpoint_route\<close> is \<open>resolveCheckpointRouteV0\<close>: it proposes a
  route again from its own input, then decides a local route, or runs the cloud proposal
  through the gates in their order and falls back to the retained local lease at the first
  denial. Every object the code passes through a schema is parsed here too, so a decision that
  its own schema refused would be the error \<open>Result_rejected\<close>.
\<close>

section \<open>Facts of one provider\<close>

definition has_capabilities :: "router_provider \<Rightarrow> string list \<Rightarrow> bool" where
  "has_capabilities p required = list_all (\<lambda>c. c \<in> set (rp_capabilities p)) required"

definition remaining_milliseconds :: "string \<Rightarrow> string \<Rightarrow> router_error + int" where
  "remaining_milliseconds asOf deadlineAt =
     (case remaining_between asOf deadlineAt of
        None \<Rightarrow> Inl Deadline_not_safe
      | Some remaining \<Rightarrow> if is_safe_integer remaining then Inr remaining else Inl Deadline_not_safe)"

text \<open>A snapshot is fresh from its time of checking, up to but not including its expiry, when it
  was issued for exactly the fixed lifetime.\<close>

definition fresh_window :: "string \<Rightarrow> string \<Rightarrow> string \<Rightarrow> int \<Rightarrow> bool" where
  "fresh_window checkedAt expiresAt asOf lifetime \<longleftrightarrow>
     (case (date_parse checkedAt, date_parse expiresAt, date_parse asOf) of
        (Some c, Some e, Some t) \<Rightarrow> c \<le> t \<and> t < e \<and> e - c = lifetime
      | _ \<Rightarrow> False)"

definition health_is_usable :: "health_snapshot \<Rightarrow> router_provider \<Rightarrow> string \<Rightarrow> bool" where
  "health_is_usable h p asOf \<longleftrightarrow>
     hs_providerId h = rp_providerId p \<and> hs_model h = rp_model p \<and> hs_status h = Healthy \<and>
     fresh_window (hs_checkedAt h) (hs_expiresAt h) asOf provider_health_max_age_ms"

definition pricing_is_usable :: "pricing_snapshot \<Rightarrow> router_provider \<Rightarrow> string \<Rightarrow> bool" where
  "pricing_is_usable s p asOf \<longleftrightarrow>
     ps_providerId s = rp_providerId p \<and> ps_model s = rp_model p \<and> ps_status s = Pricing_available \<and>
     fresh_window (ps_verifiedAt s) (ps_expiresAt s) asOf provider_pricing_max_age_ms"

definition check_not_applicable :: admission_check where
  "check_not_applicable = \<lparr>ac_status = Not_applicable, ac_reasonCode = Ar_not_applicable\<rparr>"

definition check_passed :: "admission_reason \<Rightarrow> admission_check" where
  "check_passed r = \<lparr>ac_status = Passed, ac_reasonCode = r\<rparr>"

definition check_denied :: "admission_reason \<Rightarrow> admission_check" where
  "check_denied r = \<lparr>ac_status = Denied, ac_reasonCode = r\<rparr>"

definition initial_admission :: routing_admission where
  "initial_admission =
     \<lparr>ad_capability = check_not_applicable, ad_credential = check_not_applicable,
      ad_health = check_not_applicable, ad_pricing = Some check_not_applicable,
      ad_egress = check_not_applicable, ad_deadline = check_not_applicable,
      ad_budget = check_not_applicable\<rparr>"

section \<open>Facts and risk fields\<close>

fun boundary_text :: "routing_boundary \<Rightarrow> string" where
  "boundary_text Session_start = ''session_start''"
| "boundary_text Evidence_complete = ''evidence_complete''"
| "boundary_text Provider_failure = ''provider_failure''"

fun locality_text :: "locality \<Rightarrow> string" where
  "locality_text Local_provider = ''local''"
| "locality_text Cloud_provider = ''cloud''"

fun outcome_text :: "attempt_outcome \<Rightarrow> string" where
  "outcome_text Succeeded = ''succeeded''"
| "outcome_text Provider_error = ''provider_error''"
| "outcome_text Protocol_error = ''protocol_error''"
| "outcome_text Attempt_cancelled = ''cancelled''"
| "outcome_text Timeout = ''timeout''"
| "outcome_text Attempt_interrupted = ''interrupted''"

definition router_facts :: "router_state \<Rightarrow> route_proposal \<Rightarrow> trigger_fact list" where
  "router_facts s p =
     [string_fact ''router_boundary'' (boundary_text (pr_boundary p)),
      bool_fact ''router_evidence_ready'' (st_evidenceReady s),
      int_fact ''router_paid_attempt_count'' (st_paidAttemptCount s),
      int_fact ''router_provider_change_count'' (st_providerChangeCount s),
      int_fact ''router_successful_investigation_attempt_count''
        (st_successfulInvestigationAttemptCount s),
      string_fact ''router_target_locality'' (locality_text (pr_targetLocality p))]"

text \<open>The loop that adds the facts of the risk to the map, which throws on a repeated key.\<close>

fun add_facts :: "trigger_fact list \<Rightarrow> trigger_fact list \<Rightarrow> router_error + trigger_fact list" where
  "add_facts fs [] = Inr fs"
| "add_facts fs (x # xs) =
     (if tf_key x \<in> set (map tf_key fs) then Inl Duplicate_trigger_fact else add_facts (fs @ [x]) xs)"

definition fallback_facts :: "'a proposal_input_scheme \<Rightarrow> trigger_fact list" where
  "fallback_facts i =
     (if pi_point i = At_provider_failure
      then (case st_lastAttempt (pi_state i) of
              None \<Rightarrow> []
            | Some l \<Rightarrow> [string_fact ''fallback_attempt_id'' (la_attemptId l),
                         string_fact ''fallback_outcome'' (outcome_text (la_outcome l))])
      else [])"

definition canonical_facts ::
  "'a proposal_input_scheme \<Rightarrow> route_proposal \<Rightarrow> router_error + trigger_fact list" where
  "canonical_facts i p =
     bind_result
       (add_facts (router_facts (pi_state i) p)
         (case point_risk (pi_point i) of None \<Rightarrow> [] | Some r \<Rightarrow> rk_triggerFacts r))
       (\<lambda>fs. Inr (sort_key tf_key (fs @ fallback_facts i)))"

definition risk_fields :: "'a proposal_input_scheme \<Rightarrow> routing_decision \<Rightarrow> routing_decision" where
  "risk_fields i d =
     (case point_risk (pi_point i) of
        None \<Rightarrow> d\<lparr>rd_riskSignals := []\<rparr>
      | Some r \<Rightarrow>
          d\<lparr>rd_riskPolicyId := Some ''review-risk-v1'', rd_riskScore := rk_score r,
            rd_riskSignals := rk_signals r, rd_riskIncompleteReason := rk_incompleteReason r\<rparr>)"

section \<open>The router input snapshot and the billing projection\<close>

definition parse_router_input :: "router_input \<Rightarrow> router_error + router_input" where
  "parse_router_input x =
     (let c = clean_router_input x in if valid_router_input c then Inr c else Inl Snapshot_rejected)"

definition router_snapshot ::
  "'a proposal_input_scheme \<Rightarrow> route_proposal \<Rightarrow> router_provider list \<Rightarrow> health_snapshot list \<Rightarrow>
   pricing_snapshot option \<Rightarrow> int \<Rightarrow> int \<Rightarrow> router_input" where
  "router_snapshot i p providers healths pricing requiredRemainingMs remainingMs =
     \<lparr>ri_boundary = point_boundary (pi_point i), ri_asOf = pi_asOf i, ri_providers = providers,
      ri_targetProviderId = pr_targetProviderId p, ri_targetModel = pr_targetModel p,
      ri_requiredCapabilities = pr_requiredCapabilities p,
      ri_deadline =
        \<lparr>dl_deadlineAt = pi_deadlineAt i, dl_remainingMs = remainingMs,
         dl_attemptTimeoutMs = p2_attemptTimeoutMs (pi_policy i),
         dl_requiredRemainingMs = requiredRemainingMs,
         dl_sufficient = (requiredRemainingMs \<le> remainingMs)\<rparr>,
      ri_healthSnapshots = sort_key hs_providerId healths,
      ri_pricingSnapshot = pricing\<rparr>"

definition build_router_input ::
  "'a proposal_input_scheme \<Rightarrow> route_proposal \<Rightarrow> router_provider list \<Rightarrow> health_snapshot list \<Rightarrow>
   pricing_snapshot option \<Rightarrow> int \<Rightarrow> router_error + router_input" where
  "build_router_input i p providers healths pricing requiredRemainingMs =
     bind_result (remaining_milliseconds (pi_asOf i) (pi_deadlineAt i)) (\<lambda>remainingMs.
     parse_router_input
       (router_snapshot i p providers healths pricing requiredRemainingMs remainingMs))"

definition billing_projection ::
  "'a proposal_input_scheme \<Rightarrow> pricing_snapshot \<Rightarrow> budget_admission \<Rightarrow> router_error + billing" where
  "billing_projection i pricing b =
     (let projected =
        ceil_component (ba_billableInputTokens b) (ps_inputRate pricing) +
        ceil_component (ba_requestedMaxOutputTokens b) (ps_outputRate pricing) +
        ceil_component (ba_billableCacheReadTokens b) (ps_cacheReadRate pricing) +
        ba_providerFeeCeilingMicrousd b
      in guarded (throw_if (max_safe_integer < projected) Cost_not_safe)
        (Inr
          \<lparr>bl_billableInputTokens = ba_billableInputTokens b,
           bl_billableCacheReadTokens = ba_billableCacheReadTokens b,
           bl_requestedMaxOutputTokens = ba_requestedMaxOutputTokens b,
           bl_inputRate = ps_inputRate pricing, bl_outputRate = ps_outputRate pricing,
           bl_cacheReadRate = Some (ps_cacheReadRate pricing),
           bl_providerFeeCeilingMicrousd = ba_providerFeeCeilingMicrousd b,
           bl_projectedCostMicrousd = projected,
           bl_remainingEpisodeMicrousd =
             (if p2_maxPaidAttempts (pi_policy i) \<le> st_paidAttemptCount (pi_state i) then 0
              else min (ba_remainingEpisodeMicrousd b) (p2_maxPaidEpisodeMicrousd (pi_policy i))),
           bl_remainingCampaignMicrousd = ba_remainingCampaignMicrousd b\<rparr>))"

section \<open>Results\<close>

definition decision_result :: "routing_decision \<Rightarrow> attempt_plan \<Rightarrow> router_error + router_result" where
  "decision_result d a =
     (case parse_router_result (Decision_result d a) of
        None \<Rightarrow> Inl Result_rejected
      | Some r \<Rightarrow> Inr r)"

definition parse_decision :: "routing_decision \<Rightarrow> router_error + routing_decision" where
  "parse_decision d = (case parse_routing_decision d of None \<Rightarrow> Inl Result_rejected | Some c \<Rightarrow> Inr c)"

definition parse_plan :: "attempt_plan \<Rightarrow> router_error + attempt_plan" where
  "parse_plan a = (case parse_attempt_plan a of None \<Rightarrow> Inl Plan_rejected | Some c \<Rightarrow> Inr c)"

definition publish :: "routing_decision \<Rightarrow> attempt_plan \<Rightarrow> router_error + router_result" where
  "publish decision plan =
     bind_result (parse_decision decision) (\<lambda>d.
     bind_result (parse_plan plan) (\<lambda>a. decision_result d a))"

fun local_reason :: "route_intent \<Rightarrow> router_error + routing_reason" where
  "local_reason Local_investigation = Inr Rr_local_investigation"
| "local_reason Low_risk_local_review = Inr Rr_low_risk_local_review"
| "local_reason Local_fallback = Inr Rr_local_fallback"
| "local_reason Local_policy = Inr Rr_local_policy"
| "local_reason Cloud_synthesis = Inl No_local_reason"

text \<open>The properties that every decision of the router has in common; the optional ones start
  absent.\<close>

definition base_decision ::
  "resolution_input \<Rightarrow> route_proposal \<Rightarrow> routing_reason \<Rightarrow> trigger_fact list \<Rightarrow> routing_admission \<Rightarrow>
   router_input \<Rightarrow> routing_decision" where
  "base_decision i p reason facts admission snapshot =
     risk_fields i
     \<lparr>rd_decisionId = rz_decisionId i, rd_costScope = Some (routing_cost_scope (pi_policy i)),
      rd_cloudEgressAdmissionId = None, rd_boundary = pr_boundary p, rd_phase = pr_phase p,
      rd_action = pr_action p, rd_reasonCode = reason,
      rd_candidateProviderIds = pr_candidateProviderIds p,
      rd_selectedProviderId = pr_targetProviderId p, rd_selectedModel = pr_targetModel p,
      rd_proposedProviderId = None, rd_proposedModel = None, rd_priorLeaseId = pr_priorLeaseId p,
      rd_selectedLeaseId = rz_selectedLeaseId i, rd_riskPolicyId = None, rd_riskScore = None,
      rd_riskSignals = [], rd_riskIncompleteReason = None, rd_triggerFacts = facts,
      rd_admission = admission, rd_routerInputSnapshot = Some snapshot,
      rd_healthSnapshotId = None, rd_pricingSnapshotId = None, rd_campaignId = None,
      rd_budgetReservationId = None, rd_credentialMetadataId = None, rd_billing = None,
      rd_checkpointId = None, rd_packetSha256 = None, rd_messagesSha256 = None,
      rd_provenanceSemanticSha256 = None, rd_proposalCheckpointId = None,
      rd_proposalPacketSha256 = None, rd_proposalMessagesSha256 = None\<rparr>"

section \<open>Local decisions\<close>

definition fallback_egress_identity :: "resolution_input \<Rightarrow> string option" where
  "fallback_egress_identity i =
     (if pi_point i = At_provider_failure
      then Option.bind (st_lastAttempt (pi_state i)) la_cloudEgressAdmissionId else None)"

definition local_admission :: routing_admission where
  "local_admission =
     initial_admission
       \<lparr>ad_capability := check_passed Ar_capability_ok, ad_health := check_passed Ar_health_ok,
        ad_deadline := check_passed Ar_deadline_ok\<rparr>"

definition local_plan :: "resolution_input \<Rightarrow> route_proposal \<Rightarrow> router_provider \<Rightarrow> attempt_plan" where
  "local_plan i p target =
     \<lparr>pl_providerId = rp_providerId target, pl_model = rp_model target,
      pl_leaseId = rz_selectedLeaseId i, pl_phase = pr_phase p,
      pl_requestedMaxOutputTokens = rp_maxOutputTokens target, pl_allowTools = pr_allowTools p,
      pl_allowedToolNames =
        (if pr_allowTools p then Some [''list_files'', ''read_text_file'', ''search_text''] else None),
      pl_requireToolCall = pr_requireToolCall p, pl_budgetReservationId = None,
      pl_costScope = Some (routing_cost_scope (pi_policy i)),
      pl_cloudEgressAdmissionId = fallback_egress_identity i\<rparr>"

definition local_route ::
  "resolution_input \<Rightarrow> route_proposal \<Rightarrow> router_provider \<Rightarrow> routing_reason \<Rightarrow> trigger_fact list \<Rightarrow>
   router_input \<Rightarrow> health_snapshot \<Rightarrow> routing_decision" where
  "local_route i p target reason facts snapshot health =
     (base_decision i p reason facts local_admission snapshot)
       \<lparr>rd_cloudEgressAdmissionId := fallback_egress_identity i,
        rd_selectedProviderId := rp_providerId target, rd_selectedModel := rp_model target,
        rd_healthSnapshotId := Some (hs_snapshotId health)\<rparr>"

definition local_lease_checks :: "resolution_input \<Rightarrow> route_proposal \<Rightarrow> router_error option" where
  "local_lease_checks i p =
     checks
       [throw_if (pr_action p = Retain_lease \<and> Some (rz_selectedLeaseId i) \<noteq> pr_priorLeaseId p)
          Lease_not_retained,
        throw_if (pr_action p = Assign_new_lease \<and> Some (rz_selectedLeaseId i) = pr_priorLeaseId p)
          Lease_reused]"

definition local_decision ::
  "resolution_input \<Rightarrow> route_proposal \<Rightarrow> router_provider list \<Rightarrow> router_provider \<Rightarrow> int \<Rightarrow>
   router_error + router_result" where
  "local_decision i p providers target requiredRemainingMs =
     (let health = clean_health_snapshot (rz_targetHealthSnapshot i)
      in guarded (throw_if (\<not> valid_health_snapshot health) Input_rejected)
        (bind_result (remaining_milliseconds (pi_asOf i) (pi_deadlineAt i)) (\<lambda>remainingMs.
         if remainingMs < requiredRemainingMs then Inr (Terminal_denial Deadline_exhausted)
         else if \<not> rp_enabled target \<or> \<not> has_capabilities target (pr_requiredCapabilities p) \<or>
           \<not> health_is_usable health target (pi_asOf i)
         then Inr (Terminal_denial Local_provider_unavailable)
         else guarded (local_lease_checks i p)
           (if pr_boundary p \<noteq> Session_start \<and> pr_action p = Assign_new_lease \<and>
              p2_maxProviderChanges (pi_policy i) < st_providerChangeCount (pi_state i) + 1
            then Inr (Terminal_denial Provider_change_limit)
            else
              bind_result (build_router_input i p providers [health] None requiredRemainingMs) (\<lambda>snapshot.
              bind_result (local_reason (pr_intent p)) (\<lambda>reason.
              bind_result (canonical_facts i p) (\<lambda>facts.
              publish (local_route i p target reason facts snapshot health) (local_plan i p target))))))))"

section \<open>The gates of a cloud proposal\<close>

text \<open>The admission record so far and the reason of the first denial.\<close>

type_synonym gate_state = "routing_admission \<times> routing_reason option"

definition simulation_consent_given :: "policy_v2 \<Rightarrow> bool" where
  "simulation_consent_given p \<longleftrightarrow>
     p2_egressConsent p = Consent_none \<and>
     p2_simulationConsent p = Some Simulation_cloud_synthesis_v1"

definition hybrid_consent_given :: "policy_v2 \<Rightarrow> bool" where
  "hybrid_consent_given p \<longleftrightarrow>
     p2_routingPolicy p = Hybrid_v0 \<and> p2_egressConsent p = Session_cloud_synthesis_v1"

definition egress_gate :: "bool \<Rightarrow> routing_admission \<Rightarrow> gate_state" where
  "egress_gate open_gate a =
     (if open_gate then (a\<lparr>ad_egress := check_passed Ar_egress_ok\<rparr>, None)
      else (a\<lparr>ad_egress := check_denied Ar_egress_denial\<rparr>, Some Rr_egress_denial))"

definition simulation_gate :: "policy_v2 \<Rightarrow> packet_admission \<Rightarrow> gate_state" where
  "simulation_gate policy packet =
     (if p2_routingPolicy policy = Hybrid_simulation_v1
      then egress_gate (simulation_consent_given policy \<and> pk_egressAllowed packet) initial_admission
      else (initial_admission, None))"

text \<open>The chain of nested conditions after the simulated egress gate.\<close>

definition provider_gates ::
  "resolution_input \<Rightarrow> route_proposal \<Rightarrow> router_provider \<Rightarrow> cloud_admission \<Rightarrow> health_snapshot \<Rightarrow>
   pricing_snapshot \<Rightarrow> int \<Rightarrow> routing_admission \<Rightarrow> gate_state" where
  "provider_gates i p cloud adm health pricing remainingMs a0 =
     (if \<not> rp_enabled cloud then (a0, Some Rr_disabled_provider)
      else if \<not> has_capabilities cloud (pr_requiredCapabilities p)
      then (a0\<lparr>ad_capability := check_denied Ar_capability_mismatch\<rparr>, Some Rr_capability_mismatch)
      else
        let a1 = a0\<lparr>ad_capability := check_passed Ar_capability_ok\<rparr>
        in if remainingMs < p2_attemptTimeoutMs (pi_policy i)
        then (a1\<lparr>ad_deadline := check_denied Ar_deadline_denial\<rparr>, Some Rr_deadline_denial)
        else
          let a2 = a1\<lparr>ad_deadline := check_passed Ar_deadline_ok\<rparr>
          in if \<not> cl_credentialAvailable adm
          then (a2\<lparr>ad_credential := check_denied Ar_missing_credential\<rparr>, Some Rr_missing_credential)
          else
            let a3 = a2\<lparr>ad_credential := check_passed Ar_credential_ok\<rparr>
            in if \<not> health_is_usable health cloud (pi_asOf i)
            then (a3\<lparr>ad_health := check_denied Ar_unhealthy_provider\<rparr>, Some Rr_unhealthy_provider)
            else
              let a4 = a3\<lparr>ad_health := check_passed Ar_health_ok\<rparr>
              in if \<not> pricing_is_usable pricing cloud (pi_asOf i)
              then (a4\<lparr>ad_pricing := Some (check_denied Ar_pricing_denial)\<rparr>, Some Rr_pricing_denial)
              else
                let a5 = a4\<lparr>ad_pricing := Some (check_passed Ar_pricing_ok)\<rparr>
                in if p2_routingPolicy (pi_policy i) \<noteq> Hybrid_simulation_v1
                then egress_gate
                  (hybrid_consent_given (pi_policy i) \<and> pk_egressAllowed (cl_packet adm)) a5
                else (a5, None))"

definition cloud_gates ::
  "resolution_input \<Rightarrow> route_proposal \<Rightarrow> router_provider \<Rightarrow> cloud_admission \<Rightarrow> health_snapshot \<Rightarrow>
   pricing_snapshot \<Rightarrow> int \<Rightarrow> gate_state" where
  "cloud_gates i p cloud adm health pricing remainingMs =
     (case simulation_gate (pi_policy i) (cl_packet adm) of
        (a, Some reason) \<Rightarrow> (a, Some reason)
      | (a, None) \<Rightarrow> provider_gates i p cloud adm health pricing remainingMs a)"

definition exceeds_budget :: "billing \<Rightarrow> bool" where
  "exceeds_budget b \<longleftrightarrow>
     bl_remainingEpisodeMicrousd b < bl_projectedCostMicrousd b \<or>
     bl_remainingCampaignMicrousd b < bl_projectedCostMicrousd b"

text \<open>The budget gate, which runs when no other gate denied: the billing projection, and the
  agreement with the reason of the locked ledger.\<close>

definition budget_gate ::
  "resolution_input \<Rightarrow> router_provider \<Rightarrow> cloud_admission \<Rightarrow> pricing_snapshot \<Rightarrow> routing_admission \<Rightarrow>
   router_error + gate_state \<times> billing" where
  "budget_gate i cloud adm pricing a =
     (let b = cl_budget adm; locked = ba_budgetDenialReason b
      in guarded
        (throw_if
           (rp_maxOutputTokens cloud < ba_requestedMaxOutputTokens b \<or>
            rp_contextWindowTokens cloud < ba_billableInputTokens b + ba_requestedMaxOutputTokens b)
           Allowances_exceed_provider)
        (bind_result (billing_projection i pricing b) (\<lambda>bill.
         if exceeds_budget bill \<or> locked = Some Campaign_overrun
         then guarded (throw_if (locked = None) Denial_reason_missing)
           (Inr ((a\<lparr>ad_budget := check_denied Ar_budget_denial\<rparr>, Some Rr_budget_denial), bill))
         else guarded (throw_if (locked \<noteq> None) Denial_reason_unexpected)
           (Inr ((a\<lparr>ad_budget := check_passed Ar_budget_ok\<rparr>, None), bill)))))"

section \<open>Cloud decisions\<close>

text \<open>The properties a denied cloud proposal leaves in the decision, by the gates it reached.\<close>

definition denial_fields ::
  "cloud_admission \<Rightarrow> health_snapshot \<Rightarrow> pricing_snapshot \<Rightarrow> routing_admission \<Rightarrow> billing option \<Rightarrow>
   routing_decision \<Rightarrow> routing_decision" where
  "denial_fields adm health pricing a bill d =
     (let packet = cl_packet adm; seen = reached (ad_egress a) \<or> bill \<noteq> None
      in d\<lparr>rd_healthSnapshotId :=
             (if reached (ad_health a) then Some (hs_snapshotId health) else None),
           rd_pricingSnapshotId :=
             (if holds (ad_pricing a) reached \<or> bill \<noteq> None then Some (ps_snapshotId pricing) else None),
           rd_credentialMetadataId :=
             (if reached (ad_credential a) then Some (cl_credentialMetadataId adm) else None),
           rd_proposalCheckpointId := (if seen then Some (pk_checkpointId packet) else None),
           rd_proposalPacketSha256 := (if seen then Some (pk_packetSha256 packet) else None),
           rd_proposalMessagesSha256 := (if seen then Some (pk_messagesSha256 packet) else None),
           rd_campaignId :=
             (if bill \<noteq> None then Some (ba_campaignId (cl_budget adm)) else None),
           rd_billing := bill\<rparr>)"

definition denied_route ::
  "resolution_input \<Rightarrow> route_proposal \<Rightarrow> router_provider \<Rightarrow> router_provider \<Rightarrow> cloud_admission \<Rightarrow>
   health_snapshot \<Rightarrow> pricing_snapshot \<Rightarrow> router_input \<Rightarrow> routing_admission \<Rightarrow> routing_reason \<Rightarrow>
   billing option \<Rightarrow> trigger_fact list \<Rightarrow> string \<Rightarrow> routing_decision" where
  "denied_route i p cloud local_provider adm health pricing snapshot a reason bill facts lease =
     denial_fields adm health pricing a bill
       ((base_decision i p reason facts a snapshot)
          \<lparr>rd_cloudEgressAdmissionId := pk_cloudEgressAdmissionId (cl_packet adm),
           rd_action := Retain_lease, rd_selectedProviderId := rp_providerId local_provider,
           rd_selectedModel := rp_model local_provider,
           rd_proposedProviderId := Some (rp_providerId cloud),
           rd_proposedModel := Some (rp_model cloud), rd_selectedLeaseId := lease\<rparr>)"

definition denied_plan ::
  "resolution_input \<Rightarrow> router_provider \<Rightarrow> cloud_admission \<Rightarrow> string \<Rightarrow> attempt_plan" where
  "denied_plan i local_provider adm lease =
     \<lparr>pl_providerId = rp_providerId local_provider, pl_model = rp_model local_provider,
      pl_leaseId = lease, pl_phase = Synthesis,
      pl_requestedMaxOutputTokens = rp_maxOutputTokens local_provider,
      pl_allowTools = False, pl_allowedToolNames = None, pl_requireToolCall = False,
      pl_budgetReservationId = None, pl_costScope = Some (routing_cost_scope (pi_policy i)),
      pl_cloudEgressAdmissionId = pk_cloudEgressAdmissionId (cl_packet adm)\<rparr>"

definition denial_facts ::
  "cloud_admission \<Rightarrow> routing_reason \<Rightarrow> trigger_fact list \<Rightarrow> trigger_fact list" where
  "denial_facts adm reason facts =
     (if reason = Rr_budget_denial
      then sort_key tf_key
        (facts @ (case ba_budgetDenialReason (cl_budget adm) of
                    None \<Rightarrow> []
                  | Some r \<Rightarrow> [string_fact ''budget_denial_reason'' (denial_text r)]))
      else facts)"

text \<open>The prior lease is a string here, as the schema of the decision forces: without one the
  code's object would fail its parse.\<close>

definition denied_cloud_decision ::
  "resolution_input \<Rightarrow> route_proposal \<Rightarrow> router_provider \<Rightarrow> router_provider \<Rightarrow> cloud_admission \<Rightarrow>
   health_snapshot \<Rightarrow> pricing_snapshot \<Rightarrow> router_input \<Rightarrow> routing_admission \<Rightarrow> routing_reason \<Rightarrow>
   billing option \<Rightarrow> router_error + router_result" where
  "denied_cloud_decision i p cloud local_provider adm health pricing snapshot a reason bill =
     bind_result (canonical_facts i p) (\<lambda>facts.
     case pr_priorLeaseId p of
       None \<Rightarrow> Inl Result_rejected
     | Some lease \<Rightarrow>
         publish
           (denied_route i p cloud local_provider adm health pricing snapshot a reason bill
              (denial_facts adm reason facts) lease)
           (denied_plan i local_provider adm lease))"

definition admitted_route ::
  "resolution_input \<Rightarrow> route_proposal \<Rightarrow> router_provider \<Rightarrow> cloud_admission \<Rightarrow> health_snapshot \<Rightarrow>
   pricing_snapshot \<Rightarrow> router_input \<Rightarrow> routing_admission \<Rightarrow> billing \<Rightarrow> trigger_fact list \<Rightarrow>
   routing_decision" where
  "admitted_route i p cloud adm health pricing snapshot a bill facts =
     (base_decision i p Rr_cloud_admitted facts a snapshot)
       \<lparr>rd_cloudEgressAdmissionId := pk_cloudEgressAdmissionId (cl_packet adm),
        rd_action := Assign_new_lease, rd_selectedProviderId := rp_providerId cloud,
        rd_selectedModel := rp_model cloud, rd_healthSnapshotId := Some (hs_snapshotId health),
        rd_pricingSnapshotId := Some (ps_snapshotId pricing),
        rd_campaignId := Some (ba_campaignId (cl_budget adm)),
        rd_budgetReservationId := Some (ba_reservationId (cl_budget adm)),
        rd_credentialMetadataId := Some (cl_credentialMetadataId adm),
        rd_billing := Some bill, rd_checkpointId := Some (pk_checkpointId (cl_packet adm)),
        rd_packetSha256 := Some (pk_packetSha256 (cl_packet adm)),
        rd_messagesSha256 := Some (pk_messagesSha256 (cl_packet adm))\<rparr>"

definition admitted_plan ::
  "resolution_input \<Rightarrow> router_provider \<Rightarrow> cloud_admission \<Rightarrow> billing \<Rightarrow> attempt_plan" where
  "admitted_plan i cloud adm bill =
     \<lparr>pl_providerId = rp_providerId cloud, pl_model = rp_model cloud,
      pl_leaseId = rz_selectedLeaseId i, pl_phase = Synthesis,
      pl_requestedMaxOutputTokens = bl_requestedMaxOutputTokens bill,
      pl_allowTools = False, pl_allowedToolNames = None, pl_requireToolCall = False,
      pl_budgetReservationId = Some (ba_reservationId (cl_budget adm)),
      pl_costScope = Some (routing_cost_scope (pi_policy i)),
      pl_cloudEgressAdmissionId = pk_cloudEgressAdmissionId (cl_packet adm)\<rparr>"

definition admitted_cloud_decision ::
  "resolution_input \<Rightarrow> route_proposal \<Rightarrow> router_provider \<Rightarrow> cloud_admission \<Rightarrow> health_snapshot \<Rightarrow>
   pricing_snapshot \<Rightarrow> router_input \<Rightarrow> routing_admission \<Rightarrow> billing \<Rightarrow> router_error + router_result" where
  "admitted_cloud_decision i p cloud adm health pricing snapshot a bill =
     guarded (throw_if (Some (rz_selectedLeaseId i) = pr_priorLeaseId p) Lease_reused)
       (if p2_maxProviderChanges (pi_policy i) < st_providerChangeCount (pi_state i) + 1
        then Inr (Terminal_denial Provider_change_limit)
        else
          bind_result (canonical_facts i p) (\<lambda>facts.
          publish (admitted_route i p cloud adm health pricing snapshot a bill facts)
            (admitted_plan i cloud adm bill)))"

definition local_can_retain ::
  "resolution_input \<Rightarrow> route_proposal \<Rightarrow> router_provider \<Rightarrow> health_snapshot \<Rightarrow> int \<Rightarrow> bool" where
  "local_can_retain i p local_provider localHealth remainingMs \<longleftrightarrow>
     1 \<le> remainingMs \<and> rp_enabled local_provider \<and>
     has_capabilities local_provider (pr_requiredCapabilities p) \<and>
     health_is_usable localHealth local_provider (pi_asOf i)"

text \<open>The route after the gates: a denial retains the local lease, or is terminal when the local
  provider cannot go on.\<close>

definition after_gates ::
  "resolution_input \<Rightarrow> route_proposal \<Rightarrow> router_provider \<Rightarrow> router_provider \<Rightarrow> cloud_admission \<Rightarrow>
   health_snapshot \<Rightarrow> health_snapshot \<Rightarrow> pricing_snapshot \<Rightarrow> int \<Rightarrow> router_input \<Rightarrow>
   gate_state \<Rightarrow> billing option \<Rightarrow> router_error + router_result" where
  "after_gates i p cloud local_provider adm health localHealth pricing remainingMs snapshot g bill =
     (case (g, bill) of
        ((a, Some reason), _) \<Rightarrow>
          if \<not> local_can_retain i p local_provider localHealth remainingMs
          then Inr (Terminal_denial
            (if remainingMs < 1 then Deadline_exhausted else Local_provider_unavailable))
          else denied_cloud_decision i p cloud local_provider adm health pricing snapshot a reason bill
      | ((a, None), Some b) \<Rightarrow> admitted_cloud_decision i p cloud adm health pricing snapshot a b
      | ((a, None), None) \<Rightarrow> Inl Billing_missing)"

definition cloud_decision ::
  "resolution_input \<Rightarrow> route_proposal \<Rightarrow> router_provider list \<Rightarrow> router_provider \<Rightarrow> router_provider \<Rightarrow>
   cloud_admission \<Rightarrow> router_error + router_result" where
  "cloud_decision i p providers cloud local_provider admissionInput =
     (let adm = clean_cloud_admission admissionInput;
          health = clean_health_snapshot (rz_targetHealthSnapshot i);
          localHealth = clean_health_snapshot (cl_retainedLocalHealthSnapshot adm);
          pricing = clean_pricing_snapshot (cl_pricingSnapshot adm)
      in guarded
        (checks
          [throw_if (\<not> valid_cloud_admission_input adm) Input_rejected,
           throw_if
             (p2_routingPolicy (pi_policy i) = Hybrid_simulation_v1 \<and>
              pk_cloudEgressAdmissionId (cl_packet adm) = None) Egress_identity_missing,
           throw_if
             (\<not> (valid_health_snapshot health \<and> valid_health_snapshot localHealth \<and>
                 valid_pricing_snapshot pricing)) Input_rejected])
        (bind_result (remaining_milliseconds (pi_asOf i) (pi_deadlineAt i)) (\<lambda>remainingMs.
         bind_result
           (build_router_input i p providers [health, localHealth] (Some pricing)
              (p2_attemptTimeoutMs (pi_policy i))) (\<lambda>snapshot.
         case cloud_gates i p cloud adm health pricing remainingMs of
           (a, Some reason) \<Rightarrow>
             after_gates i p cloud local_provider adm health localHealth pricing remainingMs snapshot
               (a, Some reason) None
         | (a, None) \<Rightarrow>
             bind_result (budget_gate i cloud adm pricing a) (\<lambda>(g, bill).
             after_gates i p cloud local_provider adm health localHealth pricing remainingMs snapshot
               g (Some bill))))))"

section \<open>Resolution\<close>

definition parse_resolution_input :: "resolution_input \<Rightarrow> router_error + resolution_input" where
  "parse_resolution_input i =
     (let c = clean_resolution_input i
      in if valid_resolution_input c then Inr c else Inl Input_rejected)"

text \<open>\<open>proposalInputFromResolution\<close> copies the properties of the proposal.\<close>

definition proposal_input_from_resolution :: "resolution_input \<Rightarrow> proposal_input" where
  "proposal_input_from_resolution i = proposal_input.truncate i"

definition resolve_checkpoint_route :: "resolution_input \<Rightarrow> router_error + router_result" where
  "resolve_checkpoint_route inputValue =
     bind_result (parse_resolution_input inputValue) (\<lambda>i.
     bind_result (propose_checkpoint_route (proposal_input_from_resolution i)) (\<lambda>p.
     bind_result (normalize_providers (pi_providers i)) (\<lambda>providers.
     bind_result (require_provider providers (pr_targetProviderId p) (pr_targetLocality p)) (\<lambda>target.
     if pr_intent p \<noteq> Cloud_synthesis
     then local_decision i p providers target
       (if pr_intent p = Local_fallback then p2_attemptTimeoutMs (pi_policy i) else 1)
     else case (point_boundary (pi_point i), rz_cloudAdmission i) of
         (Evidence_complete, Some admission) \<Rightarrow>
           bind_result (require_provider providers (pi_localProviderId i) Local_provider)
             (\<lambda>local_provider. cloud_decision i p providers target local_provider admission)
       | _ \<Rightarrow> Inr (Terminal_denial Invalid_boundary_state)))))"

end
