(* ===== verification/RouterFacts.thy ===== *)
theory RouterFacts
  imports CheckpointRouter
begin

text \<open>
  Facts about the checkpoint router that its properties share: what a parsed input provides, the
  order of the normalised providers, the proposal in each case, the trigger facts, and the
  admission records the gates can end in.
\<close>

section \<open>Parsed inputs\<close>

text \<open>An input that \<open>parse\<close> returned: trimming changes nothing and it raises no issue.\<close>

definition parsed_input :: "resolution_input \<Rightarrow> bool" where
  "parsed_input i \<longleftrightarrow> clean_resolution_input i = i \<and> valid_resolution_input i"

lemma clean_checkpoint_idem [simp]:
  "clean_checkpoint_provider (clean_checkpoint_provider p) = clean_checkpoint_provider p"
  "clean_lease_view (clean_lease_view a) = clean_lease_view a"
  "clean_last_attempt (clean_last_attempt l) = clean_last_attempt l"
  "clean_router_risk (clean_router_risk r) = clean_router_risk r"
  "clean_packet_admission (clean_packet_admission k) = clean_packet_admission k"
  "clean_budget_admission (clean_budget_admission b) = clean_budget_admission b"
  by (simp_all add: clean_checkpoint_provider_def clean_lease_view_def clean_last_attempt_def
      clean_router_risk_def clean_packet_admission_def clean_budget_admission_def)

lemma clean_inputs_idem [simp]:
  "clean_router_state (clean_router_state s) = clean_router_state s"
  "clean_cloud_admission (clean_cloud_admission c) = clean_cloud_admission c"
  "clean_point (clean_point q) = clean_point q"
  by (simp_all add: clean_router_state_def clean_cloud_admission_def option.map_comp comp_def)
    (cases q; simp)

lemma clean_resolution_idem [simp]:
  "clean_resolution_input (clean_resolution_input i) = clean_resolution_input i"
  by (simp add: clean_resolution_input_def clean_proposal_input_def option.map_comp comp_def)

lemma parse_resolution_input: "parse_resolution_input i = Inr c \<Longrightarrow> parsed_input c"
  by (auto simp: parse_resolution_input_def parsed_input_def Let_def split: if_splits)

lemma parsed_trimmed:
  assumes "parsed_input i"
  shows "map clean_checkpoint_provider (pi_providers i) = pi_providers i"
    and "js_trim (pi_localProviderId i) = pi_localProviderId i"
    and "trimmed (pi_cloudProviderId i) = pi_cloudProviderId i"
    and "clean_router_state (pi_state i) = pi_state i"
    and "clean_point (pi_point i) = pi_point i"
    and "js_trim (rz_decisionId i) = rz_decisionId i"
    and "js_trim (rz_selectedLeaseId i) = rz_selectedLeaseId i"
    and "clean_health_snapshot (rz_targetHealthSnapshot i) = rz_targetHealthSnapshot i"
    and "map_option clean_cloud_admission (rz_cloudAdmission i) = rz_cloudAdmission i"
proof -
  have c: "clean_resolution_input i = i" using assms by (simp add: parsed_input_def)
  note a = clean_resolution_input_def clean_proposal_input_def
  show "map clean_checkpoint_provider (pi_providers i) = pi_providers i"
    using arg_cong [OF c, of pi_providers] by (simp add: a)
  show "js_trim (pi_localProviderId i) = pi_localProviderId i"
    using arg_cong [OF c, of pi_localProviderId] by (simp add: a)
  show "trimmed (pi_cloudProviderId i) = pi_cloudProviderId i"
    using arg_cong [OF c, of pi_cloudProviderId] by (simp add: a)
  show "clean_router_state (pi_state i) = pi_state i"
    using arg_cong [OF c, of pi_state] by (simp add: a)
  show "clean_point (pi_point i) = pi_point i"
    using arg_cong [OF c, of pi_point] by (simp add: a)
  show "js_trim (rz_decisionId i) = rz_decisionId i"
    using arg_cong [OF c, of rz_decisionId] by (simp add: a)
  show "js_trim (rz_selectedLeaseId i) = rz_selectedLeaseId i"
    using arg_cong [OF c, of rz_selectedLeaseId] by (simp add: a)
  show "clean_health_snapshot (rz_targetHealthSnapshot i) = rz_targetHealthSnapshot i"
    using arg_cong [OF c, of rz_targetHealthSnapshot] by (simp add: a)
  show "map_option clean_cloud_admission (rz_cloudAdmission i) = rz_cloudAdmission i"
    using arg_cong [OF c, of rz_cloudAdmission] by (simp add: a)
qed

lemma parsed_valid:
  assumes "parsed_input i"
  shows "valid_policy_v2 (pi_policy i)" "zod_datetime (pi_asOf i)" "zod_datetime (pi_deadlineAt i)"
    and "pi_providers i \<noteq> []" "length (pi_providers i) \<le> 32"
    and "list_all valid_checkpoint_provider (pi_providers i)"
    and "bounded_v2_id (pi_localProviderId i)" "optionally bounded_v2_id (pi_cloudProviderId i)"
    and "valid_router_state (pi_state i)" "optionally valid_router_risk (point_risk (pi_point i))"
    and "bounded_v2_id (rz_decisionId i)" "bounded_v2_id (rz_selectedLeaseId i)"
    and "valid_health_snapshot (rz_targetHealthSnapshot i)"
    and "optionally valid_cloud_admission_input (rz_cloudAdmission i)"
  using assms
  by (auto simp: parsed_input_def valid_resolution_input_def valid_proposal_input_def)

lemma truncate_proposal_simps [simp]:
  "pi_policy (proposal_input.truncate i) = pi_policy i"
  "pi_asOf (proposal_input.truncate i) = pi_asOf i"
  "pi_deadlineAt (proposal_input.truncate i) = pi_deadlineAt i"
  "pi_providers (proposal_input.truncate i) = pi_providers i"
  "pi_localProviderId (proposal_input.truncate i) = pi_localProviderId i"
  "pi_cloudProviderId (proposal_input.truncate i) = pi_cloudProviderId i"
  "pi_structuredOutputContract (proposal_input.truncate i) = pi_structuredOutputContract i"
  "pi_state (proposal_input.truncate i) = pi_state i"
  "pi_point (proposal_input.truncate i) = pi_point i"
  by (simp_all add: proposal_input.truncate_def)

lemma parse_truncated:
  assumes "parsed_input i"
  shows "parse_proposal_input (proposal_input.truncate i) = Inr (proposal_input.truncate i)"
  using parsed_trimmed [OF assms] parsed_valid [OF assms]
  by (simp add: parse_proposal_input_def clean_proposal_input_def valid_proposal_input_def
      Suc_le_eq proposal_input.truncate_def)

section \<open>Providers\<close>

lemma normalize_parsed:
  assumes "map clean_checkpoint_provider ps = ps" "list_all valid_checkpoint_provider ps"
    and "normalize_providers ps = Inr qs"
  shows "qs = sort_key rp_providerId ps" "strictly_increasing rp_providerId qs"
    and "set qs = set ps" "length qs = length ps"
  using assms
  by (auto simp: normalize_providers_def Let_def check_simps intro: strictly_increasing_sort_key)

lemma find_provider_SomeD:
  "find_provider ps x = Some p \<Longrightarrow> p \<in> set ps \<and> rp_providerId p = x"
  unfolding find_provider_def by (drule find_SomeD) simp

lemma find_provider_self:
  "find_provider ps x = Some p \<Longrightarrow> find_provider ps (rp_providerId p) = Some p"
  using find_provider_SomeD by metis

lemma require_provider_Inr [check_simps]:
  "require_provider ps x loc = Inr p \<longleftrightarrow> find_provider ps x = Some p \<and> rp_locality p = loc"
  by (auto simp: require_provider_def split: option.splits if_splits)

section \<open>Proposals\<close>

text \<open>What a resolution knows when it comes to its decision.\<close>

definition proposed :: "resolution_input \<Rightarrow> route_proposal \<Rightarrow> router_provider list \<Rightarrow> bool" where
  "proposed i p ps \<longleftrightarrow>
     parsed_input i \<and> normalize_providers (pi_providers i) = Inr ps \<and>
     propose_checkpoint_route (proposal_input.truncate i) = Inr p"

text \<open>The choice each boundary makes.\<close>

lemma choose_route_cases:
  assumes "choose_route i ps lp = Inr c"
  obtains (start) "pi_point i = At_session_start" "ch_intent c = Local_investigation"
      "ch_phase c = Investigation" "ch_action c = Assign_new_lease" "ch_allowTools c" "ch_target c = lp"
      "ch_requiredCapabilities c = local_investigation_capabilities"
  | (low) r where "pi_point i = At_evidence_complete r" "rk_classification r = Low_risk"
      "ch_intent c = Low_risk_local_review" "ch_action c = Retain_lease" "ch_target c = lp"
      "ch_phase c = Synthesis" "\<not> ch_allowTools c"
  | (cloud) r cid where "pi_point i = At_evidence_complete r" "rk_classification r = High_risk"
      "hybrid_policy (pi_policy i)" "pi_cloudProviderId i = Some cid"
      "find_provider ps cid = Some (ch_target c)" "rp_locality (ch_target c) = Cloud_provider"
      "ch_intent c = Cloud_synthesis" "ch_action c = Assign_new_lease" "ch_phase c = Synthesis"
      "\<not> ch_allowTools c"
  | (policy) r where "pi_point i = At_evidence_complete r" "rk_classification r \<noteq> Low_risk"
      "\<not> (rk_classification r = High_risk \<and> hybrid_policy (pi_policy i))"
      "ch_intent c = Local_policy" "ch_action c = Retain_lease" "ch_target c = lp"
      "ch_phase c = Synthesis" "\<not> ch_allowTools c"
  | (failure) "pi_point i = At_provider_failure" "ch_intent c = Local_fallback"
      "ch_action c = Assign_new_lease" "ch_target c = lp" "ch_phase c = Synthesis"
      "\<not> ch_allowTools c"
  using assms
  by (auto simp: choose_route_def default_choice_def Let_def check_simps
      split: route_point.splits if_splits option.splits)

lemma choose_route_capabilities:
  "choose_route i ps lp = Inr c \<Longrightarrow> canonical_capabilities (ch_requiredCapabilities c)"
  by (auto simp: choose_route_def default_choice_def Let_def check_simps
      split: route_point.splits if_splits option.splits)

lemma proposed_providers:
  assumes "proposed i p ps"
  shows "ps = sort_key rp_providerId (pi_providers i)" "strictly_increasing rp_providerId ps"
    and "list_all valid_checkpoint_provider ps" "ps \<noteq> []" "length ps \<le> 32"
    and "q \<in> set ps \<Longrightarrow> clean_checkpoint_provider q = q"
proof -
  have pi: "parsed_input i" and n: "normalize_providers (pi_providers i) = Inr ps"
    using assms by (simp_all add: proposed_def)
  note t = parsed_trimmed(1) [OF pi] and v = parsed_valid(4-6) [OF pi]
  note f = normalize_parsed [OF t v(3) n]
  show "ps = sort_key rp_providerId (pi_providers i)" "strictly_increasing rp_providerId ps"
    by (rule f)+
  show "list_all valid_checkpoint_provider ps" using v(3) f(3) by (simp add: list_all_iff)
  show "ps \<noteq> []" "length ps \<le> 32" using v(1,2) f(4) by auto
  show "q \<in> set ps \<Longrightarrow> clean_checkpoint_provider q = q"
    using t f(3) map_eq_conv [of clean_checkpoint_provider "pi_providers i" id] by simp
qed

lemma clean_checkpoint_providerD:
  "clean_checkpoint_provider q = q \<Longrightarrow> js_trim (rp_providerId q) = rp_providerId q"
  "clean_checkpoint_provider q = q \<Longrightarrow> js_trim (rp_model q) = rp_model q"
  by (drule arg_cong [where f = rp_providerId], simp add: clean_checkpoint_provider_def)
    (drule arg_cong [where f = rp_model], simp add: clean_checkpoint_provider_def)

lemma proposedE:
  assumes "proposed i p ps"
  obtains lp c where "find_provider ps (pi_localProviderId i) = Some lp"
    "rp_locality lp = Local_provider" "choose_route i ps lp = Inr c" "p = proposal_of i ps c"
    "assert_safe_boundary i = None" "assert_session_start_state i = None"
    "assert_evidence_complete_state i ps = None" "assert_provider_failure_state i ps = None"
    "find_provider ps (rp_providerId (ch_target c)) = Some (ch_target c)"
proof -
  let ?t = "proposal_input.truncate i"
  have pi: "parsed_input i" and n: "normalize_providers (pi_providers i) = Inr ps"
    and r: "propose_checkpoint_route ?t = Inr p"
    using assms by (simp_all add: proposed_def)
  obtain lp c where lp: "find_provider ps (pi_localProviderId i) = Some lp"
      "rp_locality lp = Local_provider" and c: "choose_route ?t ps lp = Inr c"
    and p: "parse_proposal (proposal_of ?t ps c) = Inr p"
    and a: "assert_safe_boundary ?t = None" "assert_session_start_state ?t = None"
      "assert_evidence_complete_state ?t ps = None" "assert_provider_failure_state ?t ps = None"
    using r n by (auto simp: propose_checkpoint_route_def parse_truncated [OF pi] check_simps)
  have c': "choose_route i ps lp = Inr c" using c unfolding choose_route_def truncate_proposal_simps .
  have a': "assert_safe_boundary i = None" "assert_session_start_state i = None"
      "assert_evidence_complete_state i ps = None" "assert_provider_failure_state i ps = None"
    using a by (simp_all add: assert_safe_boundary_def assert_session_start_state_def
        assert_evidence_complete_state_def assert_provider_failure_state_def lease_of_local_def)
  have t: "find_provider ps (rp_providerId (ch_target c)) = Some (ch_target c)"
    using c' lp(1) by (cases rule: choose_route_cases) (auto intro: find_provider_self)
  then have m: "ch_target c \<in> set ps" by (rule find_provider_SomeD [THEN conjunct1])
  note pr = proposed_providers [OF assms]
  have "map_option (\<lambda>x. js_trim (al_leaseId x)) (st_activeLease (pi_state i)) =
      map_option al_leaseId (st_activeLease (pi_state i))"
    using arg_cong [OF parsed_trimmed(4) [OF pi], of "\<lambda>s. map_option al_leaseId (st_activeLease s)"]
    by (simp add: clean_router_state_def option.map_comp comp_def clean_lease_view_def)
  then have "clean_proposal (proposal_of i ps c) = proposal_of i ps c"
    using pr(6) m by (auto simp: clean_proposal_def proposal_of_def trimmed_def option.map_comp comp_def
        clean_checkpoint_providerD intro!: map_cong)
  moreover have "proposal_of ?t ps c = proposal_of i ps c" by (simp add: proposal_of_def)
  ultimately have "p = proposal_of i ps c"
    using p by (simp add: parse_proposal_def Let_def split: if_splits)
  with that lp c' a' t show thesis by blast
qed

lemma proposal_of_simps [simp]:
  "pr_boundary (proposal_of i ps c) = point_boundary (pi_point i)"
  "pr_phase (proposal_of i ps c) = ch_phase c" "pr_intent (proposal_of i ps c) = ch_intent c"
  "pr_action (proposal_of i ps c) = ch_action c"
  "pr_targetProviderId (proposal_of i ps c) = rp_providerId (ch_target c)"
  "pr_targetModel (proposal_of i ps c) = rp_model (ch_target c)"
  "pr_targetLocality (proposal_of i ps c) = rp_locality (ch_target c)"
  "pr_candidateProviderIds (proposal_of i ps c) = map rp_providerId ps"
  "pr_priorLeaseId (proposal_of i ps c) = map_option al_leaseId (st_activeLease (pi_state i))"
  "pr_requiredCapabilities (proposal_of i ps c) = ch_requiredCapabilities c"
  "pr_allowTools (proposal_of i ps c) = ch_allowTools c"
  by (simp_all add: proposal_of_def)

section \<open>Trigger facts\<close>

lemma safe_integer_of_int [simp]: "safe_integer_rat (of_int n) = is_safe_integer n"
  by (simp add: safe_integer_rat_def)

lemma bounded_literals:
  "bounded_code ''router_boundary''" "bounded_code ''router_evidence_ready''"
  "bounded_code ''router_paid_attempt_count''" "bounded_code ''router_provider_change_count''"
  "bounded_code ''router_successful_investigation_attempt_count''"
  "bounded_code ''router_target_locality''" "bounded_code ''fallback_attempt_id''"
  "bounded_code ''fallback_outcome''" "bounded_code ''budget_denial_reason''"
  "bounded_code ''review-risk-v1''"
  by (simp_all add: bounded_code_def reason_code_chars_def lower_alnum_code)

definition route_fact_keys :: "string list" where
  "route_fact_keys =
     [''router_boundary'', ''router_evidence_ready'', ''router_paid_attempt_count'',
      ''router_provider_change_count'', ''router_successful_investigation_attempt_count'',
      ''router_target_locality'', ''risk_classification'', ''risk_incomplete_count'',
      ''risk_incomplete_sha256'', ''risk_snapshot_id'', ''fallback_attempt_id'', ''fallback_outcome'']"

lemma add_facts_disjoint:
  "distinct (map tf_key (fs @ xs)) \<Longrightarrow> add_facts fs xs = Inr (fs @ xs)"
  by (induction fs xs rule: add_facts.induct) auto

lemma incomplete_fact_keys:
  "incomplete_facts r = Some fs \<Longrightarrow> map tf_key fs =
    [''risk_classification'', ''risk_incomplete_count'', ''risk_incomplete_sha256'', ''risk_snapshot_id'']"
  by (auto simp: incomplete_facts_def string_fact_def int_fact_def split: option.splits if_splits)

lemma scored_fact_keys: "map tf_key (scored_facts r) = [''risk_classification'', ''risk_snapshot_id'']"
  by (simp add: scored_facts_def string_fact_def)

lemma risk_fact_keys:
  assumes "valid_router_risk r"
  shows "map tf_key (rk_triggerFacts r) = [''risk_classification'', ''risk_snapshot_id''] \<or>
    map tf_key (rk_triggerFacts r) =
      [''risk_classification'', ''risk_incomplete_count'', ''risk_incomplete_sha256'', ''risk_snapshot_id'']"
proof (cases "rk_classification r = Risk_incomplete")
  case True
  with assms have "incomplete_facts r = Some (rk_triggerFacts r)"
    by (simp add: valid_router_risk_def valid_incomplete_risk_def)
  then show ?thesis by (simp add: incomplete_fact_keys)
next
  case False
  with assms have "rk_triggerFacts r = scored_facts r"
    by (simp add: valid_router_risk_def valid_scored_risk_def)
  then show ?thesis by (simp add: scored_fact_keys)
qed

lemma canonical_facts_ok:
  assumes pi: "parsed_input i" and b: "pr_boundary p = point_boundary (pi_point i)"
  obtains fs where "canonical_facts i p = Inr fs" "strictly_increasing tf_key fs"
    "length fs \<le> 10" "list_all valid_trigger_fact fs" "set (map tf_key fs) \<subseteq> set route_fact_keys"
proof -
  define risk where "risk = (case point_risk (pi_point i) of None \<Rightarrow> [] | Some r \<Rightarrow> rk_triggerFacts r)"
  define fs where "fs = router_facts (pi_state i) p @ risk @ fallback_facts i"
  note st = parsed_valid(9) [OF pi]
  have keys: "map tf_key (router_facts (pi_state i) p) = take 6 route_fact_keys"
    by (simp add: router_facts_def route_fact_keys_def string_fact_def bool_fact_def int_fact_def)
  have rk: "map tf_key risk \<in> {[], [''risk_classification'', ''risk_snapshot_id''],
      [''risk_classification'', ''risk_incomplete_count'', ''risk_incomplete_sha256'', ''risk_snapshot_id'']}"
  proof (cases "point_risk (pi_point i)")
    case (Some r)
    with parsed_valid(10) [OF pi] risk_fact_keys [of r] show ?thesis by (simp add: risk_def)
  qed (simp add: risk_def)
  have fk: "map tf_key (fallback_facts i) \<in> {[], [''fallback_attempt_id'', ''fallback_outcome'']}"
    by (auto simp: fallback_facts_def string_fact_def split: option.splits)
  have one: "risk = [] \<or> fallback_facts i = []"
    by (cases "pi_point i") (simp_all add: risk_def fallback_facts_def)
  have d: "distinct (map tf_key fs)" and l: "length (map tf_key fs) \<le> 10"
    and k: "set (map tf_key fs) \<subseteq> set route_fact_keys"
    using rk fk one by (auto simp: fs_def keys route_fact_keys_def simp del: length_map)
  have v1: "list_all valid_trigger_fact (router_facts (pi_state i) p)"
    using st by (cases "pr_boundary p"; cases "pr_targetLocality p")
      (simp_all add: router_facts_def valid_trigger_fact_def string_fact_def bool_fact_def int_fact_def
        bounded_literals valid_router_state_def is_safe_integer_def max_safe_integer_def safe_non_negative_def)
  have v2: "list_all valid_trigger_fact risk"
    using parsed_valid(10) [OF pi]
    by (auto simp: risk_def valid_router_risk_def valid_trigger_facts_def split: option.splits)
  have out: "length (outcome_text x) \<le> 256" for x by (cases x) simp_all
  have v3: "list_all valid_trigger_fact (fallback_facts i)"
    using st out by (auto simp: fallback_facts_def valid_trigger_fact_def string_fact_def bounded_literals
        valid_router_state_def valid_last_attempt_def bounded_v2_id_def split: option.splits)
  have c: "canonical_facts i p = Inr (sort_key tf_key fs)"
  proof -
    have "distinct (map tf_key (router_facts (pi_state i) p @ risk))" using d by (auto simp: fs_def)
    from add_facts_disjoint [OF this] show ?thesis
      by (simp add: canonical_facts_def risk_def [symmetric] fs_def)
  qed
  show thesis
  proof (rule that [OF c])
    show "strictly_increasing tf_key (sort_key tf_key fs)" by (rule strictly_increasing_sort_key [OF d])
    show "length (sort_key tf_key fs) \<le> 10" using l by simp
    show "list_all valid_trigger_fact (sort_key tf_key fs)"
      using v1 v2 v3 by (auto simp: fs_def list_all_iff)
    show "set (map tf_key (sort_key tf_key fs)) \<subseteq> set route_fact_keys" using k by simp
  qed
qed

lemma valid_fact_clean: "valid_trigger_fact f \<Longrightarrow> clean_fact f = f"
  by (simp add: clean_fact_def valid_trigger_fact_def bounded_code_def reason_code_trimmed)

end
