(* ===== verification/RouterSoundness.thy ===== *)
theory RouterSoundness
  imports RouterFacts
begin

text \<open>
  The decisions the router builds satisfy the schema they are parsed with. The lemmas follow
  the groups of \<open>valid_routing_decision\<close>: the router input, the facts and fields common to all
  decisions, then a local route, a denied cloud proposal and an admitted one.
\<close>

section \<open>Fields of a decision\<close>

lemma base_decision_simps [simp]:
  "rd_decisionId (base_decision i p reason facts a x) = rz_decisionId i"
  "rd_costScope (base_decision i p reason facts a x) = Some (routing_cost_scope (pi_policy i))"
  "rd_cloudEgressAdmissionId (base_decision i p reason facts a x) = None"
  "rd_boundary (base_decision i p reason facts a x) = pr_boundary p"
  "rd_phase (base_decision i p reason facts a x) = pr_phase p"
  "rd_action (base_decision i p reason facts a x) = pr_action p"
  "rd_reasonCode (base_decision i p reason facts a x) = reason"
  "rd_candidateProviderIds (base_decision i p reason facts a x) = pr_candidateProviderIds p"
  "rd_selectedProviderId (base_decision i p reason facts a x) = pr_targetProviderId p"
  "rd_selectedModel (base_decision i p reason facts a x) = pr_targetModel p"
  "rd_proposedProviderId (base_decision i p reason facts a x) = None"
  "rd_proposedModel (base_decision i p reason facts a x) = None"
  "rd_priorLeaseId (base_decision i p reason facts a x) = pr_priorLeaseId p"
  "rd_selectedLeaseId (base_decision i p reason facts a x) = rz_selectedLeaseId i"
  "rd_riskPolicyId (base_decision i p reason facts a x) = map_option (\<lambda>_. ''review-risk-v1'') (point_risk (pi_point i))"
  "rd_riskScore (base_decision i p reason facts a x) = Option.bind (point_risk (pi_point i)) rk_score"
  "rd_riskSignals (base_decision i p reason facts a x) = (case point_risk (pi_point i) of None \<Rightarrow> [] | Some r \<Rightarrow> rk_signals r)"
  "rd_riskIncompleteReason (base_decision i p reason facts a x) = Option.bind (point_risk (pi_point i)) rk_incompleteReason"
  "rd_triggerFacts (base_decision i p reason facts a x) = facts"
  "rd_admission (base_decision i p reason facts a x) = a"
  "rd_routerInputSnapshot (base_decision i p reason facts a x) = Some x"
  "rd_healthSnapshotId (base_decision i p reason facts a x) = None"
  "rd_pricingSnapshotId (base_decision i p reason facts a x) = None"
  "rd_campaignId (base_decision i p reason facts a x) = None"
  "rd_budgetReservationId (base_decision i p reason facts a x) = None"
  "rd_credentialMetadataId (base_decision i p reason facts a x) = None"
  "rd_billing (base_decision i p reason facts a x) = None"
  "rd_checkpointId (base_decision i p reason facts a x) = None"
  "rd_packetSha256 (base_decision i p reason facts a x) = None"
  "rd_messagesSha256 (base_decision i p reason facts a x) = None"
  "rd_provenanceSemanticSha256 (base_decision i p reason facts a x) = None"
  "rd_proposalCheckpointId (base_decision i p reason facts a x) = None"
  "rd_proposalPacketSha256 (base_decision i p reason facts a x) = None"
  "rd_proposalMessagesSha256 (base_decision i p reason facts a x) = None"
  by (simp_all add: base_decision_def risk_fields_def split: option.split)

lemma clean_decisionI:
  assumes "js_trim (rd_decisionId d) = rd_decisionId d" "js_trim (rd_selectedProviderId d) = rd_selectedProviderId d"
    and "js_trim (rd_selectedModel d) = rd_selectedModel d" "js_trim (rd_selectedLeaseId d) = rd_selectedLeaseId d"
    and "trimmed (rd_cloudEgressAdmissionId d) = rd_cloudEgressAdmissionId d"
    and "trimmed (rd_proposedProviderId d) = rd_proposedProviderId d"
    and "trimmed (rd_proposedModel d) = rd_proposedModel d"
    and "trimmed (rd_priorLeaseId d) = rd_priorLeaseId d"
    and "trimmed (rd_riskPolicyId d) = rd_riskPolicyId d"
    and "trimmed (rd_riskIncompleteReason d) = rd_riskIncompleteReason d"
    and "trimmed (rd_healthSnapshotId d) = rd_healthSnapshotId d"
    and "trimmed (rd_pricingSnapshotId d) = rd_pricingSnapshotId d"
    and "trimmed (rd_campaignId d) = rd_campaignId d"
    and "trimmed (rd_budgetReservationId d) = rd_budgetReservationId d"
    and "trimmed (rd_credentialMetadataId d) = rd_credentialMetadataId d"
    and "trimmed (rd_checkpointId d) = rd_checkpointId d"
    and "trimmed (rd_proposalCheckpointId d) = rd_proposalCheckpointId d"
    and "map js_trim (rd_candidateProviderIds d) = rd_candidateProviderIds d"
    and "map clean_fact (rd_triggerFacts d) = rd_triggerFacts d"
    and "map_option clean_router_input (rd_routerInputSnapshot d) = rd_routerInputSnapshot d"
  shows "clean_routing_decision d = d"
  by (rule routing_decision.equality) (simp_all add: clean_routing_decision_def assms)

section \<open>The router input\<close>

lemma canonical_capabilities_trimmed:
  assumes "canonical_capabilities cs"
  shows "map js_trim cs = cs"
proof (rule map_idI)
  fix c assume "c \<in> set cs"
  with assms have "bounded_code c" by (auto simp: canonical_capabilities_def list_all_iff capability_is_code)
  then show "js_trim c = c" by (simp add: bounded_code_def reason_code_trimmed)
qed

lemma checkpoint_provider_clean:
  assumes "clean_checkpoint_provider q = q" "valid_checkpoint_provider q"
  shows "clean_router_provider q = q" "valid_router_provider q"
  using clean_checkpoint_providerD [OF assms(1)] assms(2)
  by (simp_all add: clean_router_provider_def valid_checkpoint_provider_def canonical_capabilities_trimmed)

lemma remaining_milliseconds_Inr:
  assumes "remaining_milliseconds a d = Inr remaining"
  shows "remaining_between a d = Some remaining" "is_safe_integer remaining" "0 \<le> remaining"
  using assms
  by (auto simp: remaining_milliseconds_def remaining_between_def split: option.splits if_splits)

text \<open>The target of a proposal is one of the providers.\<close>

lemma proposed_target:
  assumes "proposed i p ps"
  obtains q where "find_provider ps (pr_targetProviderId p) = Some q" "rp_model q = pr_targetModel p"
    "rp_locality q = pr_targetLocality p" "rp_providerId q = pr_targetProviderId p" "q \<in> set ps"
  using assms
proof (cases rule: proposedE)
  case (1 lp c)
  from 1(9) have "ch_target c \<in> set ps" by (rule find_provider_SomeD [THEN conjunct1])
  then show thesis by (intro that [of "ch_target c"]) (simp_all only: 1(4,9) proposal_of_simps)
qed

lemma proposed_capabilities:
  assumes "proposed i p ps"
  shows "canonical_capabilities (pr_requiredCapabilities p)"
  using assms by (cases rule: proposedE) (simp add: choose_route_capabilities)

lemma proposed_common:
  assumes "proposed i p ps"
  shows "pr_boundary p = point_boundary (pi_point i)"
    and "pr_candidateProviderIds p = map rp_providerId ps"
    and "pr_priorLeaseId p = map_option al_leaseId (st_activeLease (pi_state i))"
  using assms by (cases rule: proposedE; simp)+

lemma router_snapshot_valid:
  assumes pr: "proposed i p ps"
    and rem: "remaining_milliseconds (pi_asOf i) (pi_deadlineAt i) = Inr remaining"
    and hs: "list_all valid_health_snapshot hs" "\<And>h. h \<in> set hs \<Longrightarrow> clean_health_snapshot h = h"
      "distinct (map hs_providerId hs)" "length hs \<le> 2"
    and pricing: "optionally valid_pricing_snapshot q" "map_option clean_pricing_snapshot q = q"
    and req: "1 \<le> req" "req \<le> p2_attemptTimeoutMs (pi_policy i)"
  shows "clean_router_input (router_snapshot i p ps hs q req remaining) =
      router_snapshot i p ps hs q req remaining"
    and "valid_router_input (router_snapshot i p ps hs q req remaining)"
    and "build_router_input i p ps hs q req = Inr (router_snapshot i p ps hs q req remaining)"
proof -
  let ?x = "router_snapshot i p ps hs q req remaining"
  have pi: "parsed_input i" using pr by (simp add: proposed_def)
  note pv = proposed_providers [OF pr] and r = remaining_milliseconds_Inr [OF rem]
    and v = parsed_valid [OF pi] and caps = proposed_capabilities [OF pr]
  obtain t where t: "find_provider ps (pr_targetProviderId p) = Some t" "rp_model t = pr_targetModel p"
    "rp_providerId t = pr_targetProviderId p" "t \<in> set ps"
    using proposed_target [OF pr] by metis
  have tv: "clean_checkpoint_provider t = t" "valid_checkpoint_provider t"
    using pv(3,6) t(4) by (auto simp: list_all_iff)
  note tc = clean_checkpoint_providerD [OF tv(1)] and tr = checkpoint_provider_clean(2) [OF tv]
  have ids: "js_trim (pr_targetProviderId p) = pr_targetProviderId p" "js_trim (pr_targetModel p) = pr_targetModel p"
    "bounded_v2_id (pr_targetProviderId p)" "bounded_v2_id (pr_targetModel p)"
    using tc tr t(2,3) by (auto simp: valid_router_provider_def)
  have m: "map clean_router_provider ps = ps"
    using pv(3,6) by (auto simp: list_all_iff intro!: map_idI checkpoint_provider_clean(1))
  have h: "map clean_health_snapshot (sort_key hs_providerId hs) = sort_key hs_providerId hs"
    using hs(2) by (auto intro!: map_idI)
  show clean: "clean_router_input ?x = ?x"
    using m h ids pricing(2) canonical_capabilities_trimmed [OF caps]
    by (simp add: clean_router_input_def router_snapshot_def)
  have timeout: "safe_positive (p2_attemptTimeoutMs (pi_policy i))" using v(1) by (simp add: valid_policy_v2_def)
  have req': "safe_positive req"
    using timeout req by (simp add: safe_positive_def)
  have deadline: "valid_deadline_shape (ri_deadline ?x)" "deadline_derived (ri_asOf ?x) (ri_deadline ?x)"
    using r v(3) timeout req' req(2)
    by (simp_all add: valid_deadline_shape_def deadline_derived_def router_snapshot_def
        safe_non_negative_def is_safe_integer_def)
  have provs: "list_all valid_router_provider ps"
    using pv(3) by (simp add: list_all_iff valid_checkpoint_provider_def)
  show valid: "valid_router_input ?x"
    using deadline provs pv(2,4,5) v(2) ids(3,4) canonical_capabilities_valid [OF caps] hs(1,4) pricing(1)
      strictly_increasing_sort_key [OF hs(3)] t(1,2)
    by (simp add: valid_router_input_def router_snapshot_def list_all_iff Suc_le_eq)
  show "build_router_input i p ps hs q req = Inr ?x"
    using rem clean valid by (simp add: build_router_input_def parse_router_input_def)
qed

section \<open>What every decision has\<close>

lemma proposed_risk:
  assumes "proposed i p ps" "point_risk (pi_point i) = Some r"
  shows "valid_router_risk r" "trimmed (rk_incompleteReason r) = rk_incompleteReason r"
    and "pr_boundary p = Evidence_complete"
proof -
  have pi: "parsed_input i" using assms by (simp add: proposed_def)
  obtain r' where q: "pi_point i = At_evidence_complete r'" "r' = r"
    using assms(2) by (cases "pi_point i") auto
  have "clean_router_risk r = r" using parsed_trimmed(5) [OF pi] q by simp
  from arg_cong [OF this, of rk_incompleteReason]
  show "trimmed (rk_incompleteReason r) = rk_incompleteReason r" by (simp add: clean_router_risk_def)
  show "valid_router_risk r" using parsed_valid(10) [OF pi] assms(2) by simp
  show "pr_boundary p = Evidence_complete" using proposed_common(1) [OF assms(1)] q by simp
qed

lemma proposed_lease:
  assumes "proposed i p ps"
  shows "optionally bounded_v2_id (pr_priorLeaseId p)" "trimmed (pr_priorLeaseId p) = pr_priorLeaseId p"
proof -
  have pi: "parsed_input i" using assms by (simp add: proposed_def)
  show "optionally bounded_v2_id (pr_priorLeaseId p)"
    using parsed_valid(9) [OF pi]
    by (auto simp: proposed_common(3) [OF assms] valid_router_state_def valid_lease_view_def
        optionally_def split: option.splits)
  show "trimmed (pr_priorLeaseId p) = pr_priorLeaseId p"
    using arg_cong [OF parsed_trimmed(4) [OF pi], of "\<lambda>s. map_option al_leaseId (st_activeLease s)"]
    by (simp add: proposed_common(3) [OF assms] clean_router_state_def option.map_comp comp_def
        clean_lease_view_def trimmed_def)
qed

lemma valid_risk_signals_mono: "valid_risk_signals m ss \<Longrightarrow> m \<le> n \<Longrightarrow> valid_risk_signals n ss"
  by (simp add: valid_risk_signals_def)

text \<open>The fields that do not depend on the kind of the decision.\<close>

definition common_part :: "resolution_input \<Rightarrow> route_proposal \<Rightarrow> trigger_fact list \<Rightarrow> routing_decision \<Rightarrow> bool" where
  "common_part i p facts d \<longleftrightarrow>
     rd_decisionId d = rz_decisionId i \<and> rd_boundary d = pr_boundary p \<and> rd_phase d = pr_phase p \<and>
     rd_candidateProviderIds d = pr_candidateProviderIds p \<and> rd_priorLeaseId d = pr_priorLeaseId p \<and>
     rd_riskPolicyId d = map_option (\<lambda>_. ''review-risk-v1'') (point_risk (pi_point i)) \<and>
     rd_riskScore d = Option.bind (point_risk (pi_point i)) rk_score \<and>
     rd_riskSignals d = (case point_risk (pi_point i) of None \<Rightarrow> [] | Some r \<Rightarrow> rk_signals r) \<and>
     rd_riskIncompleteReason d = Option.bind (point_risk (pi_point i)) rk_incompleteReason \<and>
     rd_triggerFacts d = facts \<and> rd_provenanceSemanticSha256 d = None"

definition facts_ok :: "trigger_fact list \<Rightarrow> bool" where
  "facts_ok facts \<longleftrightarrow> valid_trigger_facts 32 facts \<and> map clean_fact facts = facts"

lemma facts_okI:
  "strictly_increasing tf_key fs \<Longrightarrow> length fs \<le> 32 \<Longrightarrow> list_all valid_trigger_fact fs \<Longrightarrow> facts_ok fs"
  by (auto simp: facts_ok_def valid_trigger_facts_def list_all_iff valid_fact_clean intro!: map_idI)

lemma common_valid:
  assumes pr: "proposed i p ps" and c: "common_part i p facts d" and f: "facts_ok facts"
  shows "bounded_v2_id (rd_decisionId d)" "valid_sorted_ids (rd_candidateProviderIds d)"
    and "optionally bounded_v2_id (rd_priorLeaseId d)"
    and "optionally bounded_code (rd_riskPolicyId d)" "optionally safe_non_negative (rd_riskScore d)"
    and "valid_risk_signals 16 (rd_riskSignals d)"
    and "optionally (\<lambda>r. 1 \<le> length r \<and> length r \<le> 512) (rd_riskIncompleteReason d)"
    and "valid_trigger_facts 32 (rd_triggerFacts d)" "valid_risk_data d"
proof -
  have pi: "parsed_input i" using pr by (simp add: proposed_def)
  note pv = proposed_providers [OF pr] and pc = proposed_common [OF pr]
  show "bounded_v2_id (rd_decisionId d)" "optionally bounded_v2_id (rd_priorLeaseId d)"
    "valid_trigger_facts 32 (rd_triggerFacts d)"
    using parsed_valid(11) [OF pi] proposed_lease [OF pr] c f by (simp_all add: common_part_def facts_ok_def)
  have "list_all bounded_v2_id (map rp_providerId ps)"
    using pv(3) by (auto simp: list_all_iff valid_checkpoint_provider_def valid_router_provider_def)
  then show "valid_sorted_ids (rd_candidateProviderIds d)"
    using pv(2,4,5) c by (simp add: common_part_def pc valid_sorted_ids_def Suc_le_eq
        strictly_increasing_sorted_wrt)
  show "optionally bounded_code (rd_riskPolicyId d)"
    using c by (cases "point_risk (pi_point i)") (simp_all add: common_part_def bounded_literals)
  show "optionally safe_non_negative (rd_riskScore d)" "valid_risk_signals 16 (rd_riskSignals d)"
    "optionally (\<lambda>r. 1 \<le> length r \<and> length r \<le> 512) (rd_riskIncompleteReason d)"
    using c proposed_risk(1) [OF pr]
    by (cases "point_risk (pi_point i)";
        auto simp: common_part_def valid_router_risk_def valid_risk_signals_def)+
  show "valid_risk_data d"
  proof (cases "point_risk (pi_point i)")
    case None
    with c show ?thesis by (simp add: common_part_def valid_risk_data_def)
  next
    case (Some r)
    with proposed_risk [OF pr Some] c show ?thesis
      by (cases "rk_classification r = Risk_incomplete")
        (auto simp: common_part_def valid_risk_data_def valid_router_risk_def valid_scored_risk_def)
  qed
qed

lemma common_clean:
  assumes pr: "proposed i p ps" and c: "common_part i p facts d" and f: "facts_ok facts"
  shows "js_trim (rd_decisionId d) = rd_decisionId d" "trimmed (rd_priorLeaseId d) = rd_priorLeaseId d"
    and "trimmed (rd_riskPolicyId d) = rd_riskPolicyId d"
    and "trimmed (rd_riskIncompleteReason d) = rd_riskIncompleteReason d"
    and "map js_trim (rd_candidateProviderIds d) = rd_candidateProviderIds d"
    and "map clean_fact (rd_triggerFacts d) = rd_triggerFacts d"
proof -
  have pi: "parsed_input i" using pr by (simp add: proposed_def)
  show "js_trim (rd_decisionId d) = rd_decisionId d" "trimmed (rd_priorLeaseId d) = rd_priorLeaseId d"
    "map clean_fact (rd_triggerFacts d) = rd_triggerFacts d"
    using parsed_trimmed(6) [OF pi] proposed_lease [OF pr] c f by (simp_all add: common_part_def facts_ok_def)
  have "js_trim ''review-risk-v1'' = ''review-risk-v1''"
    using bounded_literals(10) by (simp only: bounded_code_def reason_code_trimmed)
  then show "trimmed (rd_riskPolicyId d) = rd_riskPolicyId d"
    using c by (cases "point_risk (pi_point i)") (simp_all add: common_part_def trimmed_def)
  show "trimmed (rd_riskIncompleteReason d) = rd_riskIncompleteReason d"
    using c proposed_risk(2) [OF pr]
    by (cases "point_risk (pi_point i)") (simp_all add: common_part_def trimmed_def)
  show "map js_trim (rd_candidateProviderIds d) = rd_candidateProviderIds d"
    using c proposed_providers(6) [OF pr] clean_checkpoint_providerD
    by (simp add: common_part_def proposed_common(2) [OF pr])
qed

section \<open>Local decisions\<close>

text \<open>A proposal with a local intent: its target, phase, action and reason.\<close>

lemma local_proposal:
  assumes pr: "proposed i p ps" and "pr_intent p \<noteq> Cloud_synthesis"
  shows "pr_targetLocality p = Local_provider"
    and "(pr_boundary p = Session_start) = (pr_phase p = Investigation)"
    and "pr_allowTools p = (pr_boundary p = Session_start)"
    and "local_reason (pr_intent p) = Inr reason \<Longrightarrow> \<not> is_cloud_proposal_denial reason \<and> reason \<noteq> Rr_cloud_admitted"
    and "\<exists>reason. local_reason (pr_intent p) = Inr reason"
proof -
  obtain lp c where lp: "find_provider ps (pi_localProviderId i) = Some lp" "rp_locality lp = Local_provider"
      "choose_route i ps lp = Inr c" "p = proposal_of i ps c"
    by (rule proposedE [OF pr])
  have ni: "ch_intent c \<noteq> Cloud_synthesis" using assms(2) lp(4) by simp
  show "pr_targetLocality p = Local_provider" "(pr_boundary p = Session_start) = (pr_phase p = Investigation)"
    "pr_allowTools p = (pr_boundary p = Session_start)"
    using lp(3) ni lp(2) unfolding lp(4)
    by (cases rule: choose_route_cases; simp)+
  show "\<exists>reason. local_reason (pr_intent p) = Inr reason"
    using assms(2) by (cases "pr_intent p") simp_all
  show "local_reason (pr_intent p) = Inr reason \<Longrightarrow>
      \<not> is_cloud_proposal_denial reason \<and> reason \<noteq> Rr_cloud_admitted"
    by (cases "pr_intent p") (auto simp: is_cloud_proposal_denial_def cloud_proposal_denial_reasons_def)
qed

lemma fallback_identity_ok:
  assumes "proposed i p ps"
  shows "optionally bounded_v2_id (fallback_egress_identity i)"
    and "trimmed (fallback_egress_identity i) = fallback_egress_identity i"
proof -
  have pi: "parsed_input i" using assms by (simp add: proposed_def)
  show "optionally bounded_v2_id (fallback_egress_identity i)"
    using parsed_valid(9) [OF pi]
    by (cases "st_lastAttempt (pi_state i)")
      (auto simp: fallback_egress_identity_def valid_router_state_def valid_last_attempt_def)
  show "trimmed (fallback_egress_identity i) = fallback_egress_identity i"
    using arg_cong [OF parsed_trimmed(4) [OF pi],
        of "\<lambda>s. Option.bind (st_lastAttempt s) la_cloudEgressAdmissionId"]
    by (cases "st_lastAttempt (pi_state i)")
      (auto simp: fallback_egress_identity_def clean_router_state_def clean_last_attempt_def trimmed_def)
qed

lemma local_admission_valid [simp]: "valid_admission local_admission"
  by (simp add: local_admission_def initial_admission_def valid_admission_def admission_checks_def
      valid_admission_check_def expected_check_def check_not_applicable_def check_passed_def ok_reason_def)

lemma local_common: "common_part i p facts (local_route i p target reason facts x health)"
  by (simp add: common_part_def local_route_def)

lemma local_route_simps [simp]:
  "rd_selectedProviderId (local_route i p target reason facts x health) = rp_providerId target"
  "rd_selectedModel (local_route i p target reason facts x health) = rp_model target"
  "rd_selectedLeaseId (local_route i p target reason facts x health) = rz_selectedLeaseId i"
  "rd_cloudEgressAdmissionId (local_route i p target reason facts x health) = fallback_egress_identity i"
  "rd_healthSnapshotId (local_route i p target reason facts x health) = Some (hs_snapshotId health)"
  "rd_routerInputSnapshot (local_route i p target reason facts x health) = Some x"
  "rd_admission (local_route i p target reason facts x health) = local_admission"
  "rd_action (local_route i p target reason facts x health) = pr_action p"
  "rd_reasonCode (local_route i p target reason facts x health) = reason"
  "rd_boundary (local_route i p target reason facts x health) = pr_boundary p"
  "rd_phase (local_route i p target reason facts x health) = pr_phase p"
  "rd_candidateProviderIds (local_route i p target reason facts x health) = pr_candidateProviderIds p"
  "rd_priorLeaseId (local_route i p target reason facts x health) = pr_priorLeaseId p"
  "rd_provenanceSemanticSha256 (local_route i p target reason facts x health) = None"
  by (simp_all add: local_route_def)

lemma local_no_paid: "no_paid_fields (local_route i p target reason facts x health)"
  by (simp add: no_paid_fields_def local_route_def)

lemma health_clean_ids:
  assumes "clean_health_snapshot h = h" "valid_health_snapshot h"
  shows "js_trim (hs_snapshotId h) = hs_snapshotId h" "bounded_v2_id (hs_snapshotId h)"
  using arg_cong [OF assms(1), of hs_snapshotId] assms(2)
  by (simp_all add: clean_health_snapshot_def valid_health_snapshot_def)

lemma target_clean:
  assumes pr: "proposed i p ps" and t: "find_provider ps x = Some t"
  shows "js_trim (rp_providerId t) = rp_providerId t" "js_trim (rp_model t) = rp_model t"
    and "bounded_v2_id (rp_providerId t)" "bounded_v2_id (rp_model t)"
    and "rp_providerId t \<in> set (map rp_providerId ps)" "safe_positive (rp_maxOutputTokens t)"
    and "(rp_locality t = Local_provider) = (rp_accountingKind t = Local_zero_cost)"
    and "rp_providerId t = x"
proof -
  have m: "t \<in> set ps" "rp_providerId t = x" using find_provider_SomeD [OF t] by simp_all
  note pv = proposed_providers(3,6) [OF pr]
  have v: "clean_checkpoint_provider t = t" "valid_checkpoint_provider t" using pv m by (auto simp: list_all_iff)
  note c = checkpoint_provider_clean(2) [OF v]
  show "js_trim (rp_providerId t) = rp_providerId t" "js_trim (rp_model t) = rp_model t"
    by (rule clean_checkpoint_providerD [OF v(1)])+
  show "bounded_v2_id (rp_providerId t)" "bounded_v2_id (rp_model t)" "safe_positive (rp_maxOutputTokens t)"
    "(rp_locality t = Local_provider) = (rp_accountingKind t = Local_zero_cost)" "rp_providerId t = x"
    "rp_providerId t \<in> set (map rp_providerId ps)"
    using c m by (auto simp: valid_router_provider_def)
qed

lemma no_denied_gate: "\<not> is_cloud_proposal_denial (rd_reasonCode d) \<Longrightarrow> denied_gate_ok d"
  by (cases "rd_reasonCode d")
    (simp_all add: denied_gate_ok_def denied_gate_def is_cloud_proposal_denial_def
      cloud_proposal_denial_reasons_def)

lemma local_route_valid:
  assumes pr: "proposed i p ps" and local: "pr_intent p \<noteq> Cloud_synthesis"
    and t: "find_provider ps (pr_targetProviderId p) = Some t" "rp_locality t = pr_targetLocality p"
      "rp_model t = pr_targetModel p"
    and rem: "remaining_milliseconds (pi_asOf i) (pi_deadlineAt i) = Inr remaining" "req \<le> remaining"
      "1 \<le> req" "req \<le> p2_attemptTimeoutMs (pi_policy i)"
    and h: "health_is_usable h t (pi_asOf i)" "h = rz_targetHealthSnapshot i"
    and lease: "local_lease_checks i p = None" and f: "facts_ok facts"
    and reason: "local_reason (pr_intent p) = Inr reason"
    and x: "x = router_snapshot i p ps [h] None req remaining"
  shows "clean_routing_decision (local_route i p t reason facts x h) = local_route i p t reason facts x h"
    and "valid_routing_decision (local_route i p t reason facts x h)"
proof -
  let ?d = "local_route i p t reason facts x h"
  have pi: "parsed_input i" using pr by (simp add: proposed_def)
  note lp = local_proposal [OF pr local] and cm = common_valid [OF pr local_common f]
    and cc = common_clean [OF pr local_common f] and tc = target_clean [OF pr t(1)]
  have hv: "clean_health_snapshot h = h" "valid_health_snapshot h"
    using parsed_trimmed(8) [OF pi] parsed_valid(13) [OF pi] h(2) by simp_all
  note hc = health_clean_ids [OF hv]
  have snap: "clean_router_input x = x" "valid_router_input x"
    unfolding x using router_snapshot_valid [OF pr rem(1), of "[h]" None req] hv rem(3,4) by simp_all
  show "clean_routing_decision ?d = ?d"
    using cc tc parsed_trimmed(7) [OF pi] fallback_identity_ok(2) [OF pr] hc(1) snap(1)
    by (intro clean_decisionI) (simp_all add: trimmed_def local_route_def)
  have fields: "valid_decision_fields ?d"
    using cm tc parsed_valid(12) [OF pi] fallback_identity_ok(1) [OF pr] hc(2) snap(2)
      local_no_paid [of i p t reason facts x h]
    by (simp add: valid_decision_fields_def no_paid_fields_def)
  have leases: "valid_leases ?d"
    using lease lp(2) tc(5) local_no_paid [of i p t reason facts x h]
    by (auto simp: valid_leases_def local_lease_checks_def check_simps proposed_common(2) [OF pr]
        no_paid_fields_def)
  have risk: "valid_risk_data ?d" by (rule cm)
  have agrees: "snapshot_agrees ?d x"
    using t tc(7,8) lp(1) reason lp(4) [OF reason] h(1) rem(2) proposed_common [OF pr]
      local_no_paid [of i p t reason facts x h]
    by (auto simp: snapshot_agrees_def x router_snapshot_def selected_provider_agrees_def
        proposed_provider_agrees_def health_agrees_def pricing_agrees_def no_paid_fields_def
        health_is_usable_def local_admission_def initial_admission_def check_passed_def)
  have rest: "target_is_selected ?d" "passed_budget_fits ?d" "no_paid_fields ?d" "denied_gate_ok ?d"
    using t(3) tc(8) lp(4) [OF reason] local_no_paid no_denied_gate [of ?d]
    by (simp_all add: target_is_selected_def x router_snapshot_def passed_budget_fits_def local_admission_def
        initial_admission_def check_not_applicable_def)
  show "valid_routing_decision ?d"
    using fields leases risk agrees rest lp(4) [OF reason] by (simp add: valid_routing_decision_def)
qed

lemma local_plan_valid:
  assumes pr: "proposed i p ps" and local: "pr_intent p \<noteq> Cloud_synthesis"
    and t: "find_provider ps (pr_targetProviderId p) = Some t"
  shows "clean_attempt_plan (local_plan i p t) = local_plan i p t" "valid_attempt_plan (local_plan i p t)"
proof -
  have pi: "parsed_input i" using pr by (simp add: proposed_def)
  note tc = target_clean [OF pr t] and fb = fallback_identity_ok [OF pr] and lp = local_proposal [OF pr local]
  show "clean_attempt_plan (local_plan i p t) = local_plan i p t"
    using tc parsed_trimmed(7) [OF pi] fb by (simp add: clean_attempt_plan_def local_plan_def trimmed_def)
  show "valid_attempt_plan (local_plan i p t)"
    using tc parsed_valid(12) [OF pi] fb lp(2,3)
    by (auto simp: valid_attempt_plan_def local_plan_def completion_obligation_tool_names_def)
qed

lemma publish_ok:
  assumes "clean_routing_decision d = d" "valid_routing_decision d" "clean_attempt_plan a = a"
    "valid_attempt_plan a"
  shows "publish d a = Inr (Decision_result d a)"
  using assms
  by (simp add: publish_def parse_decision_def parse_plan_def decision_result_def
      parse_routing_decision_def parse_attempt_plan_def)

end
