(* ===== verification/RouterCloud.thy ===== *)
theory RouterCloud
  imports RouterSoundness
begin

text \<open>
  The cloud half of the router's decisions: where the gates can end, the billing projection, and
  the validity of a denied and of an admitted cloud decision.
\<close>

section \<open>The gates\<close>

definition gates_passed :: "routing_admission \<Rightarrow> bool" where
  "gates_passed a \<longleftrightarrow>
     list_all (\<lambda>c. ac_status c = Passed)
       [ad_capability a, ad_credential a, ad_health a, ad_egress a, ad_deadline a] \<and>
     holds (ad_pricing a) (\<lambda>c. ac_status c = Passed)"

text \<open>The denied gate of a reason, as \<open>denied_gate_ok\<close> looks it up.\<close>

definition names_denied_gate :: "routing_admission \<Rightarrow> routing_reason \<Rightarrow> bool" where
  "names_denied_gate a r \<longleftrightarrow> (case r of
       Rr_missing_credential \<Rightarrow> ac_status (ad_credential a) = Denied
     | Rr_unhealthy_provider \<Rightarrow> ac_status (ad_health a) = Denied
     | Rr_pricing_denial \<Rightarrow> holds (ad_pricing a) (\<lambda>c. ac_status c = Denied)
     | Rr_capability_mismatch \<Rightarrow> ac_status (ad_capability a) = Denied
     | Rr_egress_denial \<Rightarrow> ac_status (ad_egress a) = Denied
     | Rr_budget_denial \<Rightarrow> ac_status (ad_budget a) = Denied
     | Rr_deadline_denial \<Rightarrow> ac_status (ad_deadline a) = Denied
     | _ \<Rightarrow> True)"

lemma denied_gate_okI: "names_denied_gate (rd_admission d) (rd_reasonCode d) \<Longrightarrow> denied_gate_ok d"
  by (cases "rd_reasonCode d")
    (auto simp: names_denied_gate_def denied_gate_ok_def denied_gate_def Let_def check_simps)

definition gate_state_ok :: "int \<Rightarrow> int \<Rightarrow> gate_state \<Rightarrow> bool" where
  "gate_state_ok timeout remaining g \<longleftrightarrow> (case g of (a, r) \<Rightarrow>
     valid_admission a \<and> ac_status (ad_budget a) = Not_applicable \<and>
     (reached (ad_deadline a) \<longrightarrow> (ac_status (ad_deadline a) = Passed) = (timeout \<le> remaining)) \<and>
     (case r of None \<Rightarrow> gates_passed a
      | Some reason \<Rightarrow> is_cloud_proposal_denial reason \<and> reason \<noteq> Rr_budget_denial \<and>
          names_denied_gate a reason))"

lemmas admission_simps =
  initial_admission_def valid_admission_def admission_checks_def valid_admission_check_def
  expected_check_def check_not_applicable_def check_passed_def check_denied_def ok_reason_def

lemma gate_state_ok_if:
  "gate_state_ok t r (if c then x else y) = ((c \<longrightarrow> gate_state_ok t r x) \<and> (\<not> c \<longrightarrow> gate_state_ok t r y))"
  by simp

lemma provider_gates_ok:
  assumes "a = initial_admission \<and> p2_routingPolicy (pi_policy i) \<noteq> Hybrid_simulation_v1 \<or>
    a = initial_admission\<lparr>ad_egress := check_passed Ar_egress_ok\<rparr> \<and>
      p2_routingPolicy (pi_policy i) = Hybrid_simulation_v1"
  shows "gate_state_ok (p2_attemptTimeoutMs (pi_policy i)) remaining
     (provider_gates i p cloud adm health pricing remaining a)"
  using assms
  apply (simp only: provider_gates_def Let_def gate_state_ok_if egress_gate_def)
  apply (intro conjI impI)
  by (elim disjE conjE; simp add: gate_state_ok_def admission_simps gates_passed_def names_denied_gate_def
      reached_def is_cloud_proposal_denial_def cloud_proposal_denial_reasons_def)+

lemma cloud_gates_ok:
  "gate_state_ok (p2_attemptTimeoutMs (pi_policy i)) remaining
     (cloud_gates i p cloud adm health pricing remaining)"
proof -
  define b where "b = (simulation_consent_given (pi_policy i) \<and> pk_egressAllowed (cl_packet adm))"
  have g: "simulation_gate (pi_policy i) (cl_packet adm) =
      (if p2_routingPolicy (pi_policy i) = Hybrid_simulation_v1 then egress_gate b initial_admission
       else (initial_admission, None))"
    by (simp add: simulation_gate_def b_def)
  have denied: "gate_state_ok t remaining (initial_admission\<lparr>ad_egress := check_denied Ar_egress_denial\<rparr>,
      Some Rr_egress_denial)" for t
    by (simp add: gate_state_ok_def admission_simps names_denied_gate_def reached_def
        is_cloud_proposal_denial_def cloud_proposal_denial_reasons_def)
  show ?thesis
    by (cases "p2_routingPolicy (pi_policy i) = Hybrid_simulation_v1"; cases b)
      (simp_all add: cloud_gates_def g egress_gate_def provider_gates_ok denied)
qed

text \<open>The gates in the order the code runs them.\<close>

definition gate_list ::
  "resolution_input \<Rightarrow> route_proposal \<Rightarrow> router_provider \<Rightarrow> cloud_admission \<Rightarrow> health_snapshot \<Rightarrow>
   pricing_snapshot \<Rightarrow> int \<Rightarrow> (routing_reason \<times> bool) list" where
  "gate_list i p cloud adm health pricing remaining =
     (let simulated = p2_routingPolicy (pi_policy i) = Hybrid_simulation_v1;
          consent = (if simulated then simulation_consent_given (pi_policy i)
                     else hybrid_consent_given (pi_policy i));
          egress = [(Rr_egress_denial, consent \<and> pk_egressAllowed (cl_packet adm))]
      in (if simulated then egress else []) @
         [(Rr_disabled_provider, rp_enabled cloud),
          (Rr_capability_mismatch, has_capabilities cloud (pr_requiredCapabilities p)),
          (Rr_deadline_denial, p2_attemptTimeoutMs (pi_policy i) \<le> remaining),
          (Rr_missing_credential, cl_credentialAvailable adm),
          (Rr_unhealthy_provider, health_is_usable health cloud (pi_asOf i)),
          (Rr_pricing_denial, pricing_is_usable pricing cloud (pi_asOf i))] @
         (if simulated then [] else egress))"

lemma gates_deny_first_failure:
  "snd (cloud_gates i p cloud adm health pricing remaining) =
     map_option fst (find (\<lambda>g. \<not> snd g) (gate_list i p cloud adm health pricing remaining))"
  by (simp add: gate_list_def cloud_gates_def simulation_gate_def egress_gate_def provider_gates_def Let_def)

lemma all_gates_open:
  assumes "cloud_gates i p cloud adm health pricing remaining = (a, None)"
  shows "list_all snd (gate_list i p cloud adm health pricing remaining)"
  using gates_deny_first_failure [of i p cloud adm health pricing remaining] assms
  by (simp add: find_None_iff list_all_iff) (metis prod.collapse)

section \<open>Billing\<close>

lemma billing_projection_valid:
  assumes pi: "parsed_input i" and q: "valid_pricing_snapshot q" and b: "valid_budget_admission b"
    and bill: "billing_projection i q b = Inr bill"
  shows "valid_billing bill" "bl_inputRate bill = ps_inputRate q" "bl_outputRate bill = ps_outputRate q"
    and "bl_cacheReadRate bill = Some (ps_cacheReadRate q)"
proof -
  have pol: "valid_policy_v2 (pi_policy i)" by (rule parsed_valid [OF pi])
  show "bl_inputRate bill = ps_inputRate q" "bl_outputRate bill = ps_outputRate q"
    "bl_cacheReadRate bill = Some (ps_cacheReadRate q)"
    using bill by (auto simp: billing_projection_def Let_def check_simps)
  have nn: "0 \<le> ceil_component t r" if "0 \<le> t" "0 \<le> r" for t r
    using that by (simp add: ceil_component_def pos_imp_zdiv_nonneg_iff)
  define c where "c = ceil_component (ba_billableInputTokens b) (ps_inputRate q) +
      ceil_component (ba_requestedMaxOutputTokens b) (ps_outputRate q) +
      ceil_component (ba_billableCacheReadTokens b) (ps_cacheReadRate q) + ba_providerFeeCeilingMicrousd b"
  have rates: "0 \<le> ps_inputRate q" "0 \<le> ps_outputRate q" "0 \<le> ps_cacheReadRate q"
    "ps_cacheReadRate q \<le> ps_inputRate q" "safe_non_negative (ps_inputRate q)"
    "safe_non_negative (ps_outputRate q)" "safe_non_negative (ps_cacheReadRate q)"
    using q by (simp_all add: valid_pricing_snapshot_def safe_non_negative_def)
  have toks: "0 \<le> ba_billableInputTokens b" "0 \<le> ba_requestedMaxOutputTokens b"
    "0 \<le> ba_billableCacheReadTokens b" "0 \<le> ba_providerFeeCeilingMicrousd b"
    using b by (simp_all add: valid_budget_admission_def safe_non_negative_def safe_positive_def)
  have c0: "0 \<le> c" unfolding c_def using nn rates toks by (intro add_nonneg_nonneg) simp_all
  have proj: "c \<le> max_safe_integer" "bl_projectedCostMicrousd bill = c" "worst_case_cost bill = c"
    using bill by (auto simp: billing_projection_def Let_def check_simps c_def worst_case_cost_def)
  have rem: "safe_non_negative (bl_remainingEpisodeMicrousd bill)"
    "safe_non_negative (bl_remainingCampaignMicrousd bill)"
    using bill b pol
    by (auto simp: billing_projection_def Let_def check_simps valid_budget_admission_def valid_policy_v2_def
        safe_non_negative_def max_safe_integer_def)
  have same: "bl_billableInputTokens bill = ba_billableInputTokens b"
    "bl_billableCacheReadTokens bill = ba_billableCacheReadTokens b"
    "bl_requestedMaxOutputTokens bill = ba_requestedMaxOutputTokens b"
    "bl_providerFeeCeilingMicrousd bill = ba_providerFeeCeilingMicrousd b"
    "bl_inputRate bill = ps_inputRate q" "bl_outputRate bill = ps_outputRate q"
    "bl_cacheReadRate bill = Some (ps_cacheReadRate q)"
    using bill by (auto simp: billing_projection_def Let_def check_simps)
  show "valid_billing bill"
    unfolding valid_billing_def same proj
    using rates rem c0 proj(1) b
    by (simp add: valid_budget_admission_def safe_non_negative_def)
qed

lemma valid_admission_budget:
  assumes "valid_admission a"
  shows "valid_admission (a\<lparr>ad_budget := check_passed Ar_budget_ok\<rparr>)"
    and "valid_admission (a\<lparr>ad_budget := check_denied Ar_budget_denial\<rparr>)"
  using assms
  by (simp_all add: valid_admission_def admission_checks_def expected_check_def check_passed_def
      check_denied_def valid_admission_check_def ok_reason_def)

lemma budget_gate_cases:
  assumes "budget_gate i cloud adm q a = Inr ((a', r), bill)"
  obtains (passed) "billing_projection i q (cl_budget adm) = Inr bill" "r = None"
      "a' = a\<lparr>ad_budget := check_passed Ar_budget_ok\<rparr>" "\<not> exceeds_budget bill"
  | (denied) denial where "billing_projection i q (cl_budget adm) = Inr bill" "r = Some Rr_budget_denial"
      "a' = a\<lparr>ad_budget := check_denied Ar_budget_denial\<rparr>"
      "ba_budgetDenialReason (cl_budget adm) = Some denial"
      "exceeds_budget bill \<or> denial = Campaign_overrun"
proof -
  obtain b where b: "billing_projection i q (cl_budget adm) = Inr b"
    and g: "(if exceeds_budget b \<or> ba_budgetDenialReason (cl_budget adm) = Some Campaign_overrun
       then guarded (throw_if (ba_budgetDenialReason (cl_budget adm) = None) Denial_reason_missing)
         (Inr ((a\<lparr>ad_budget := check_denied Ar_budget_denial\<rparr>, Some Rr_budget_denial), b))
       else guarded (throw_if (ba_budgetDenialReason (cl_budget adm) \<noteq> None) Denial_reason_unexpected)
         (Inr ((a\<lparr>ad_budget := check_passed Ar_budget_ok\<rparr>, None), b))) = Inr ((a', r), bill)"
    using assms by (auto simp: budget_gate_def Let_def guarded_Inr bind_result_Inr)
  show thesis
  proof (cases "exceeds_budget b \<or> ba_budgetDenialReason (cl_budget adm) = Some Campaign_overrun")
    case True
    with g b obtain denial where "ba_budgetDenialReason (cl_budget adm) = Some denial" "bill = b"
        "r = Some Rr_budget_denial" "a' = a\<lparr>ad_budget := check_denied Ar_budget_denial\<rparr>"
      by (auto simp: check_simps)
    with True b show thesis by (intro denied [of denial]) auto
  next
    case False
    with g b show thesis by (intro passed) (auto simp: check_simps)
  qed
qed

section \<open>Fields of a cloud decision\<close>

lemma denied_route_simps [simp]:
  "rd_decisionId (denied_route i p cloud lp adm h q x a reason bill facts lease) = rz_decisionId i"
  "rd_costScope (denied_route i p cloud lp adm h q x a reason bill facts lease) = Some (routing_cost_scope (pi_policy i))"
  "rd_cloudEgressAdmissionId (denied_route i p cloud lp adm h q x a reason bill facts lease) = pk_cloudEgressAdmissionId (cl_packet adm)"
  "rd_boundary (denied_route i p cloud lp adm h q x a reason bill facts lease) = pr_boundary p"
  "rd_phase (denied_route i p cloud lp adm h q x a reason bill facts lease) = pr_phase p"
  "rd_action (denied_route i p cloud lp adm h q x a reason bill facts lease) = Retain_lease"
  "rd_reasonCode (denied_route i p cloud lp adm h q x a reason bill facts lease) = reason"
  "rd_candidateProviderIds (denied_route i p cloud lp adm h q x a reason bill facts lease) = pr_candidateProviderIds p"
  "rd_selectedProviderId (denied_route i p cloud lp adm h q x a reason bill facts lease) = rp_providerId lp"
  "rd_selectedModel (denied_route i p cloud lp adm h q x a reason bill facts lease) = rp_model lp"
  "rd_proposedProviderId (denied_route i p cloud lp adm h q x a reason bill facts lease) = Some (rp_providerId cloud)"
  "rd_proposedModel (denied_route i p cloud lp adm h q x a reason bill facts lease) = Some (rp_model cloud)"
  "rd_priorLeaseId (denied_route i p cloud lp adm h q x a reason bill facts lease) = pr_priorLeaseId p"
  "rd_selectedLeaseId (denied_route i p cloud lp adm h q x a reason bill facts lease) = lease"
  "rd_triggerFacts (denied_route i p cloud lp adm h q x a reason bill facts lease) = facts"
  "rd_admission (denied_route i p cloud lp adm h q x a reason bill facts lease) = a"
  "rd_routerInputSnapshot (denied_route i p cloud lp adm h q x a reason bill facts lease) = Some x"
  "rd_healthSnapshotId (denied_route i p cloud lp adm h q x a reason bill facts lease) = (if reached (ad_health a) then Some (hs_snapshotId h) else None)"
  "rd_pricingSnapshotId (denied_route i p cloud lp adm h q x a reason bill facts lease) = (if holds (ad_pricing a) reached \<or> bill \<noteq> None then Some (ps_snapshotId q) else None)"
  "rd_campaignId (denied_route i p cloud lp adm h q x a reason bill facts lease) = (if bill \<noteq> None then Some (ba_campaignId (cl_budget adm)) else None)"
  "rd_budgetReservationId (denied_route i p cloud lp adm h q x a reason bill facts lease) = None"
  "rd_credentialMetadataId (denied_route i p cloud lp adm h q x a reason bill facts lease) = (if reached (ad_credential a) then Some (cl_credentialMetadataId adm) else None)"
  "rd_billing (denied_route i p cloud lp adm h q x a reason bill facts lease) = bill"
  "rd_checkpointId (denied_route i p cloud lp adm h q x a reason bill facts lease) = None"
  "rd_packetSha256 (denied_route i p cloud lp adm h q x a reason bill facts lease) = None"
  "rd_messagesSha256 (denied_route i p cloud lp adm h q x a reason bill facts lease) = None"
  "rd_provenanceSemanticSha256 (denied_route i p cloud lp adm h q x a reason bill facts lease) = None"
  "rd_proposalCheckpointId (denied_route i p cloud lp adm h q x a reason bill facts lease) = (if reached (ad_egress a) \<or> bill \<noteq> None then Some (pk_checkpointId (cl_packet adm)) else None)"
  "rd_proposalPacketSha256 (denied_route i p cloud lp adm h q x a reason bill facts lease) = (if reached (ad_egress a) \<or> bill \<noteq> None then Some (pk_packetSha256 (cl_packet adm)) else None)"
  "rd_proposalMessagesSha256 (denied_route i p cloud lp adm h q x a reason bill facts lease) = (if reached (ad_egress a) \<or> bill \<noteq> None then Some (pk_messagesSha256 (cl_packet adm)) else None)"
  by (simp_all add: denied_route_def denial_fields_def Let_def)

lemma admitted_route_simps [simp]:
  "rd_decisionId (admitted_route i p cloud adm h q x a b facts) = rz_decisionId i"
  "rd_costScope (admitted_route i p cloud adm h q x a b facts) = Some (routing_cost_scope (pi_policy i))"
  "rd_cloudEgressAdmissionId (admitted_route i p cloud adm h q x a b facts) = pk_cloudEgressAdmissionId (cl_packet adm)"
  "rd_boundary (admitted_route i p cloud adm h q x a b facts) = pr_boundary p"
  "rd_phase (admitted_route i p cloud adm h q x a b facts) = pr_phase p"
  "rd_action (admitted_route i p cloud adm h q x a b facts) = Assign_new_lease"
  "rd_reasonCode (admitted_route i p cloud adm h q x a b facts) = Rr_cloud_admitted"
  "rd_candidateProviderIds (admitted_route i p cloud adm h q x a b facts) = pr_candidateProviderIds p"
  "rd_selectedProviderId (admitted_route i p cloud adm h q x a b facts) = rp_providerId cloud"
  "rd_selectedModel (admitted_route i p cloud adm h q x a b facts) = rp_model cloud"
  "rd_proposedProviderId (admitted_route i p cloud adm h q x a b facts) = None"
  "rd_proposedModel (admitted_route i p cloud adm h q x a b facts) = None"
  "rd_priorLeaseId (admitted_route i p cloud adm h q x a b facts) = pr_priorLeaseId p"
  "rd_selectedLeaseId (admitted_route i p cloud adm h q x a b facts) = rz_selectedLeaseId i"
  "rd_triggerFacts (admitted_route i p cloud adm h q x a b facts) = facts"
  "rd_admission (admitted_route i p cloud adm h q x a b facts) = a"
  "rd_routerInputSnapshot (admitted_route i p cloud adm h q x a b facts) = Some x"
  "rd_healthSnapshotId (admitted_route i p cloud adm h q x a b facts) = Some (hs_snapshotId h)"
  "rd_pricingSnapshotId (admitted_route i p cloud adm h q x a b facts) = Some (ps_snapshotId q)"
  "rd_campaignId (admitted_route i p cloud adm h q x a b facts) = Some (ba_campaignId (cl_budget adm))"
  "rd_budgetReservationId (admitted_route i p cloud adm h q x a b facts) = Some (ba_reservationId (cl_budget adm))"
  "rd_credentialMetadataId (admitted_route i p cloud adm h q x a b facts) = Some (cl_credentialMetadataId adm)"
  "rd_billing (admitted_route i p cloud adm h q x a b facts) = Some b"
  "rd_checkpointId (admitted_route i p cloud adm h q x a b facts) = Some (pk_checkpointId (cl_packet adm))"
  "rd_packetSha256 (admitted_route i p cloud adm h q x a b facts) = Some (pk_packetSha256 (cl_packet adm))"
  "rd_messagesSha256 (admitted_route i p cloud adm h q x a b facts) = Some (pk_messagesSha256 (cl_packet adm))"
  "rd_provenanceSemanticSha256 (admitted_route i p cloud adm h q x a b facts) = None"
  "rd_proposalCheckpointId (admitted_route i p cloud adm h q x a b facts) = None"
  "rd_proposalPacketSha256 (admitted_route i p cloud adm h q x a b facts) = None"
  "rd_proposalMessagesSha256 (admitted_route i p cloud adm h q x a b facts) = None"
  by (simp_all add: admitted_route_def)

lemma cloud_common:
  "common_part i p facts (denied_route i p cloud lp adm h q x a reason bill facts lease)"
  "common_part i p facts (admitted_route i p cloud adm h q x a b facts)"
  by (simp_all add: common_part_def) (simp_all add: denied_route_def admitted_route_def denial_fields_def Let_def)

section \<open>Cloud decisions\<close>

text \<open>Everything the cloud branch of a resolution has at hand when it decides. The last group is
  the condition on the caller: the snapshots are those of the providers they are used for.\<close>

definition cloud_branch ::
  "resolution_input \<Rightarrow> route_proposal \<Rightarrow> router_provider list \<Rightarrow> router_provider \<Rightarrow> router_provider \<Rightarrow>
   cloud_admission \<Rightarrow> bool" where
  "cloud_branch i p ps cloud lp adm \<longleftrightarrow>
     proposed i p ps \<and> pr_intent p = Cloud_synthesis \<and>
     find_provider ps (pr_targetProviderId p) = Some cloud \<and> rp_locality cloud = pr_targetLocality p \<and>
     find_provider ps (pi_localProviderId i) = Some lp \<and> rp_locality lp = Local_provider \<and>
     rz_cloudAdmission i = Some adm"

definition snapshots_match ::
  "resolution_input \<Rightarrow> router_provider \<Rightarrow> cloud_admission \<Rightarrow> bool" where
  "snapshots_match i cloud adm \<longleftrightarrow>
     (let h = rz_targetHealthSnapshot i; l = cl_retainedLocalHealthSnapshot adm; q = cl_pricingSnapshot adm
      in hs_providerId h = rp_providerId cloud \<and> hs_model h = rp_model cloud \<and>
         hs_providerId l \<noteq> rp_providerId cloud \<and> hs_snapshotId l \<noteq> hs_snapshotId h \<and>
         ps_providerId q = rp_providerId cloud \<and> ps_model q = rp_model cloud)"

lemma cloud_proposal:
  assumes "cloud_branch i p ps cloud lp adm"
  shows "pr_boundary p = Evidence_complete" "pr_phase p = Synthesis" "pr_action p = Assign_new_lease"
    and "rp_locality cloud = Cloud_provider" "rp_model cloud = pr_targetModel p"
    and "\<exists>r. pi_point i = At_evidence_complete r \<and> rk_classification r = High_risk"
    and "hybrid_policy (pi_policy i)" "pi_cloudProviderId i = Some (rp_providerId cloud)"
    and "\<exists>lease. pr_priorLeaseId p = Some lease"
    and "rp_providerId cloud \<noteq> rp_providerId lp"
proof -
  have pr: "proposed i p ps" and cl: "pr_intent p = Cloud_synthesis"
    and t: "find_provider ps (pr_targetProviderId p) = Some cloud" "rp_locality cloud = pr_targetLocality p"
    and lp: "find_provider ps (pi_localProviderId i) = Some lp" "rp_locality lp = Local_provider"
    using assms by (simp_all add: cloud_branch_def)
  obtain lp' c where c: "find_provider ps (pi_localProviderId i) = Some lp'" "choose_route i ps lp' = Inr c"
      "p = proposal_of i ps c" "assert_evidence_complete_state i ps = None"
      "find_provider ps (rp_providerId (ch_target c)) = Some (ch_target c)"
    by (rule proposedE [OF pr])
  have target: "cloud = ch_target c" using t(1) c(3,5) by simp
  have ci: "ch_intent c = Cloud_synthesis" using cl c(3) by simp
  obtain r cid where r: "pi_point i = At_evidence_complete r" "rk_classification r = High_risk"
      "hybrid_policy (pi_policy i)" "pi_cloudProviderId i = Some cid" "find_provider ps cid = Some (ch_target c)"
      "rp_locality (ch_target c) = Cloud_provider" "ch_action c = Assign_new_lease" "ch_phase c = Synthesis"
    using c(2) ci by (cases rule: choose_route_cases) auto
  show "pr_boundary p = Evidence_complete" "pr_phase p = Synthesis" "pr_action p = Assign_new_lease"
    "rp_locality cloud = Cloud_provider" "rp_model cloud = pr_targetModel p"
    using r c(3) target by simp_all
  show "\<exists>r. pi_point i = At_evidence_complete r \<and> rk_classification r = High_risk"
    "hybrid_policy (pi_policy i)" using r by blast+
  show "pi_cloudProviderId i = Some (rp_providerId cloud)"
    using r(4) find_provider_SomeD [OF r(5)] target by simp
  show "\<exists>lease. pr_priorLeaseId p = Some lease"
    using c(3,4) r(1)
    by (auto simp: assert_evidence_complete_state_def check_simps investigation_finished_def)
  show "rp_providerId cloud \<noteq> rp_providerId lp"
  proof
    assume e: "rp_providerId cloud = rp_providerId lp"
    have "Some cloud = Some lp"
      using trans [OF find_provider_self [OF t(1), symmetric] find_provider_self [OF lp(1), folded e]] .
    then show False using lp(2) r(6) target by simp
  qed
qed

lemma cloud_inputs:
  assumes "cloud_branch i p ps cloud lp adm"
  defines "h \<equiv> rz_targetHealthSnapshot i" and "l \<equiv> cl_retainedLocalHealthSnapshot adm"
    and "q \<equiv> cl_pricingSnapshot adm"
  shows "clean_cloud_admission adm = adm" "valid_cloud_admission_input adm"
    and "clean_health_snapshot h = h" "valid_health_snapshot h"
    and "clean_health_snapshot l = l" "valid_health_snapshot l"
    and "clean_pricing_snapshot q = q" "valid_pricing_snapshot q"
proof -
  have pi: "parsed_input i" and a: "rz_cloudAdmission i = Some adm"
    using assms by (simp_all add: cloud_branch_def proposed_def)
  show c: "clean_cloud_admission adm = adm" using parsed_trimmed(9) [OF pi] a by simp
  show v: "valid_cloud_admission_input adm" using parsed_valid(14) [OF pi] a by simp
  show "clean_health_snapshot h = h" "valid_health_snapshot h"
    unfolding h_def by (rule parsed_trimmed(8) [OF pi], rule parsed_valid(13) [OF pi])
  show "clean_health_snapshot l = l" "clean_pricing_snapshot q = q"
    using arg_cong [OF c, of cl_retainedLocalHealthSnapshot] arg_cong [OF c, of cl_pricingSnapshot]
    by (simp_all add: clean_cloud_admission_def l_def q_def)
  show "valid_health_snapshot l" "valid_pricing_snapshot q"
    using v by (simp_all add: valid_cloud_admission_input_def l_def q_def)
qed

lemma admission_ids:
  assumes "clean_cloud_admission adm = adm" "valid_cloud_admission_input adm"
  shows "js_trim (cl_credentialMetadataId adm) = cl_credentialMetadataId adm"
    and "bounded_v2_id (cl_credentialMetadataId adm)"
    and "js_trim (ba_campaignId (cl_budget adm)) = ba_campaignId (cl_budget adm)"
    and "bounded_v2_id (ba_campaignId (cl_budget adm))"
    and "js_trim (ba_reservationId (cl_budget adm)) = ba_reservationId (cl_budget adm)"
    and "bounded_v2_id (ba_reservationId (cl_budget adm))"
    and "js_trim (pk_checkpointId (cl_packet adm)) = pk_checkpointId (cl_packet adm)"
    and "bounded_v2_id (pk_checkpointId (cl_packet adm))"
    and "sha256_hex (pk_packetSha256 (cl_packet adm))" "sha256_hex (pk_messagesSha256 (cl_packet adm))"
    and "trimmed (pk_cloudEgressAdmissionId (cl_packet adm)) = pk_cloudEgressAdmissionId (cl_packet adm)"
    and "optionally bounded_v2_id (pk_cloudEgressAdmissionId (cl_packet adm))"
    and "valid_budget_admission (cl_budget adm)"
proof -
  note c = assms(1)
  show "js_trim (cl_credentialMetadataId adm) = cl_credentialMetadataId adm"
    using arg_cong [OF c, of cl_credentialMetadataId] by (simp add: clean_cloud_admission_def)
  show "js_trim (ba_campaignId (cl_budget adm)) = ba_campaignId (cl_budget adm)"
    using arg_cong [OF c, of "\<lambda>x. ba_campaignId (cl_budget x)"]
    by (simp add: clean_cloud_admission_def clean_budget_admission_def)
  show "js_trim (ba_reservationId (cl_budget adm)) = ba_reservationId (cl_budget adm)"
    using arg_cong [OF c, of "\<lambda>x. ba_reservationId (cl_budget x)"]
    by (simp add: clean_cloud_admission_def clean_budget_admission_def)
  show "js_trim (pk_checkpointId (cl_packet adm)) = pk_checkpointId (cl_packet adm)"
    using arg_cong [OF c, of "\<lambda>x. pk_checkpointId (cl_packet x)"]
    by (simp add: clean_cloud_admission_def clean_packet_admission_def)
  show "trimmed (pk_cloudEgressAdmissionId (cl_packet adm)) = pk_cloudEgressAdmissionId (cl_packet adm)"
    using arg_cong [OF c, of "\<lambda>x. pk_cloudEgressAdmissionId (cl_packet x)"]
    by (simp add: clean_cloud_admission_def clean_packet_admission_def)
  show "bounded_v2_id (cl_credentialMetadataId adm)" "bounded_v2_id (ba_campaignId (cl_budget adm))"
    "bounded_v2_id (ba_reservationId (cl_budget adm))" "bounded_v2_id (pk_checkpointId (cl_packet adm))"
    "sha256_hex (pk_packetSha256 (cl_packet adm))" "sha256_hex (pk_messagesSha256 (cl_packet adm))"
    "optionally bounded_v2_id (pk_cloudEgressAdmissionId (cl_packet adm))"
    "valid_budget_admission (cl_budget adm)"
    using assms(2)
    by (simp_all add: valid_cloud_admission_input_def valid_budget_admission_def valid_packet_admission_def)
qed

lemma pricing_clean_ids:
  assumes "clean_pricing_snapshot q = q" "valid_pricing_snapshot q"
  shows "js_trim (ps_snapshotId q) = ps_snapshotId q" "bounded_v2_id (ps_snapshotId q)"
  using arg_cong [OF assms(1), of ps_snapshotId] assms(2)
  by (simp_all add: clean_pricing_snapshot_def valid_pricing_snapshot_def)

section \<open>The router input of a cloud decision\<close>

definition cloud_snapshot ::
  "resolution_input \<Rightarrow> route_proposal \<Rightarrow> router_provider list \<Rightarrow> cloud_admission \<Rightarrow> int \<Rightarrow> router_input" where
  "cloud_snapshot i p ps adm remaining =
     router_snapshot i p ps [rz_targetHealthSnapshot i, cl_retainedLocalHealthSnapshot adm]
       (Some (cl_pricingSnapshot adm)) (p2_attemptTimeoutMs (pi_policy i)) remaining"

lemma cloud_snapshot_valid:
  assumes b: "cloud_branch i p ps cloud lp adm" and m: "snapshots_match i cloud adm"
    and rem: "remaining_milliseconds (pi_asOf i) (pi_deadlineAt i) = Inr remaining"
  shows "clean_router_input (cloud_snapshot i p ps adm remaining) = cloud_snapshot i p ps adm remaining"
    and "valid_router_input (cloud_snapshot i p ps adm remaining)"
    and "build_router_input i p ps [rz_targetHealthSnapshot i, cl_retainedLocalHealthSnapshot adm]
       (Some (cl_pricingSnapshot adm)) (p2_attemptTimeoutMs (pi_policy i)) =
      Inr (cloud_snapshot i p ps adm remaining)"
proof -
  have pr: "proposed i p ps" using b by (simp add: cloud_branch_def)
  then have pol: "valid_policy_v2 (pi_policy i)" by (intro parsed_valid) (simp add: proposed_def)
  note ci = cloud_inputs [OF b]
  let ?hs = "[rz_targetHealthSnapshot i, cl_retainedLocalHealthSnapshot adm]"
  let ?q = "Some (cl_pricingSnapshot adm)"
  have hs: "list_all valid_health_snapshot ?hs" "\<And>h. h \<in> set ?hs \<Longrightarrow> clean_health_snapshot h = h"
    "distinct (map hs_providerId ?hs)" "length ?hs \<le> 2"
    using ci m by (auto simp: snapshots_match_def Let_def)
  have q: "optionally valid_pricing_snapshot ?q" "map_option clean_pricing_snapshot ?q = ?q" using ci by simp_all
  have t: "1 \<le> p2_attemptTimeoutMs (pi_policy i)" using pol by (simp add: valid_policy_v2_def safe_positive_def)
  note r = router_snapshot_valid [OF pr rem hs q t order_refl]
  show "clean_router_input (cloud_snapshot i p ps adm remaining) = cloud_snapshot i p ps adm remaining"
    "valid_router_input (cloud_snapshot i p ps adm remaining)"
    "build_router_input i p ps [rz_targetHealthSnapshot i, cl_retainedLocalHealthSnapshot adm]
       (Some (cl_pricingSnapshot adm)) (p2_attemptTimeoutMs (pi_policy i)) =
      Inr (cloud_snapshot i p ps adm remaining)"
    unfolding cloud_snapshot_def using r by simp_all
qed

lemma cloud_snapshot_simps [simp]:
  "ri_boundary (cloud_snapshot i p ps adm remaining) = point_boundary (pi_point i)"
  "ri_providers (cloud_snapshot i p ps adm remaining) = ps"
  "ri_targetProviderId (cloud_snapshot i p ps adm remaining) = pr_targetProviderId p"
  "ri_targetModel (cloud_snapshot i p ps adm remaining) = pr_targetModel p"
  "ri_pricingSnapshot (cloud_snapshot i p ps adm remaining) = Some (cl_pricingSnapshot adm)"
  "dl_sufficient (ri_deadline (cloud_snapshot i p ps adm remaining)) =
     (p2_attemptTimeoutMs (pi_policy i) \<le> remaining)"
  by (simp_all add: cloud_snapshot_def router_snapshot_def)

lemma cloud_health_found:
  assumes "snapshots_match i cloud adm"
  shows "find (\<lambda>h. hs_snapshotId h = hs_snapshotId (rz_targetHealthSnapshot i))
      (ri_healthSnapshots (cloud_snapshot i p ps adm remaining)) = Some (rz_targetHealthSnapshot i)"
  using assms by (auto simp: cloud_snapshot_def router_snapshot_def snapshots_match_def Let_def)

lemma cloud_agrees:
  assumes b: "cloud_branch i p ps cloud lp adm" and m: "snapshots_match i cloud adm"
    and d: "common_part i p facts d" "rd_routerInputSnapshot d = Some (cloud_snapshot i p ps adm remaining)"
    and selected: "rd_reasonCode d = Rr_cloud_admitted \<and> rd_selectedProviderId d = rp_providerId cloud \<and>
        rd_selectedModel d = rp_model cloud \<and> rd_proposedProviderId d = None \<or>
      rd_reasonCode d \<noteq> Rr_cloud_admitted \<and> rd_selectedProviderId d = rp_providerId lp \<and>
        rd_selectedModel d = rp_model lp \<and> rd_proposedProviderId d = Some (rp_providerId cloud) \<and>
        rd_proposedModel d = Some (rp_model cloud)"
    and health: "rd_healthSnapshotId d \<in> {None, Some (hs_snapshotId (rz_targetHealthSnapshot i))}"
    and pricing: "rd_pricingSnapshotId d \<in> {None, Some (ps_snapshotId (cl_pricingSnapshot adm))}"
    and bill: "optionally (\<lambda>bl. bl_inputRate bl = ps_inputRate (cl_pricingSnapshot adm) \<and>
        bl_outputRate bl = ps_outputRate (cl_pricingSnapshot adm) \<and>
        bl_cacheReadRate bl = Some (ps_cacheReadRate (cl_pricingSnapshot adm))) (rd_billing d)"
    and deadline: "reached (ad_deadline (rd_admission d)) \<Longrightarrow>
      (ac_status (ad_deadline (rd_admission d)) = Passed) = (p2_attemptTimeoutMs (pi_policy i) \<le> remaining)"
  shows "snapshot_agrees d (cloud_snapshot i p ps adm remaining)"
proof -
  let ?x = "cloud_snapshot i p ps adm remaining"
  have pr: "proposed i p ps" and t: "find_provider ps (pr_targetProviderId p) = Some cloud"
    and lp: "find_provider ps (pi_localProviderId i) = Some lp" "rp_locality lp = Local_provider"
    using b by (simp_all add: cloud_branch_def)
  note cp = cloud_proposal [OF b] and tc = target_clean [OF pr t] and lc = target_clean [OF pr lp(1)]
  have fc: "find_provider ps (rp_providerId cloud) = Some cloud" by (rule find_provider_self [OF t])
  have fl: "find_provider ps (rp_providerId lp) = Some lp" by (rule find_provider_self [OF lp(1)])
  have metered: "rp_accountingKind cloud = Metered" "rp_accountingKind lp = Local_zero_cost"
    using cp(4) tc(7) lc(7) lp(2) accounting_kind.exhaust by auto
  have sel: "selected_provider_agrees d ?x" "proposed_provider_agrees d ?x"
    using selected fc fl cp(4) lp(2) metered
    by (auto simp: selected_provider_agrees_def proposed_provider_agrees_def Let_def)
  have match: "hs_providerId (rz_targetHealthSnapshot i) = pr_targetProviderId p"
    "hs_model (rz_targetHealthSnapshot i) = pr_targetModel p"
    "ps_providerId (cl_pricingSnapshot adm) = pr_targetProviderId p"
    "ps_model (cl_pricingSnapshot adm) = pr_targetModel p"
    using m cp(5) tc(8) by (simp_all add: snapshots_match_def Let_def)
  have h: "health_agrees d ?x"
    using health cloud_health_found [OF m] match by (auto simp: health_agrees_def)
  have q: "pricing_agrees d ?x"
    using pricing bill match by (auto simp: pricing_agrees_def optionally_def split: option.splits)
  show ?thesis
    unfolding snapshot_agrees_def
    using sel h q deadline d(1) proposed_common [OF pr]
    by (simp add: common_part_def reached_def)
qed

section \<open>A denied cloud proposal\<close>

lemma find_distinct_key:
  "distinct (map f xs) \<Longrightarrow> x \<in> set xs \<Longrightarrow> find (\<lambda>y. f y = f x) xs = Some x"
proof (induction xs)
  case (Cons z zs)
  then show ?case by (cases "x = z") (auto simp: image_iff)
qed simp

lemma canonical_facts_accepted:
  assumes "canonical_facts i p = Inr facts" "parsed_input i" "pr_boundary p = point_boundary (pi_point i)"
  shows "facts_ok facts"
proof -
  obtain fs where "canonical_facts i p = Inr fs" "strictly_increasing tf_key fs" "length fs \<le> 10"
    "list_all valid_trigger_fact fs"
    by (rule canonical_facts_ok [OF assms(2,3)])
  with assms(1) show ?thesis by (intro facts_okI) simp_all
qed

lemma denial_facts_ok:
  assumes "canonical_facts i p = Inr facts" "parsed_input i" "pr_boundary p = point_boundary (pi_point i)"
  shows "facts_ok (denial_facts adm reason facts)"
    and "reason = Rr_budget_denial \<Longrightarrow> ba_budgetDenialReason (cl_budget adm) = Some r \<Longrightarrow>
      rd_triggerFacts d = denial_facts adm reason facts \<Longrightarrow>
      recorded_denial_fact d = Some (JString (denial_text r))"
proof -
  obtain fs where "canonical_facts i p = Inr fs" "strictly_increasing tf_key fs" "length fs \<le> 10"
    "list_all valid_trigger_fact fs" "set (map tf_key fs) \<subseteq> set route_fact_keys"
    by (rule canonical_facts_ok [OF assms(2,3)])
  with assms(1) have fs: "strictly_increasing tf_key facts" "length facts \<le> 10"
    "list_all valid_trigger_fact facts" "set (map tf_key facts) \<subseteq> set route_fact_keys" by simp_all
  have new: "''budget_denial_reason'' \<notin> set (map tf_key facts)"
    using fs(4) by (auto simp: route_fact_keys_def)
  have len: "length (denial_text x) \<le> 256" for x by (cases x) simp_all
  define extra where "extra = (case ba_budgetDenialReason (cl_budget adm) of None \<Rightarrow> []
      | Some r \<Rightarrow> [string_fact ''budget_denial_reason'' (denial_text r)])"
  have ex: "list_all valid_trigger_fact extra" "length extra \<le> 1" "distinct (map tf_key (facts @ extra))"
    using new len strictly_increasing_distinct [OF fs(1)]
    by (auto simp: extra_def valid_trigger_fact_def string_fact_def bounded_literals split: option.split)
  have sorted: "strictly_increasing tf_key (sort_key tf_key (facts @ extra))"
    by (rule strictly_increasing_sort_key [OF ex(3)])
  have df: "denial_facts adm reason facts =
      (if reason = Rr_budget_denial then sort_key tf_key (facts @ extra) else facts)"
    by (simp add: denial_facts_def extra_def)
  show "facts_ok (denial_facts adm reason facts)"
    unfolding df using sorted fs ex by (auto simp: list_all_iff intro!: facts_okI)
  assume r: "reason = Rr_budget_denial" "ba_budgetDenialReason (cl_budget adm) = Some r"
    "rd_triggerFacts d = denial_facts adm reason facts"
  let ?f = "string_fact ''budget_denial_reason'' (denial_text r)"
  have "?f \<in> set (sort_key tf_key (facts @ extra))" using r(2) by (simp add: extra_def)
  from find_distinct_key [OF strictly_increasing_distinct [OF sorted] this]
  show "recorded_denial_fact d = Some (JString (denial_text r))"
    unfolding recorded_denial_fact_def r(3) df using r(1) by (simp add: string_fact_def)
qed

lemma denial_text_known: "denial_text r \<in> set ledger_denial_reasons"
  by (cases r) (simp_all add: ledger_denial_reasons_def)

lemma denial_text_overrun: "denial_text Campaign_overrun = ''campaign_overrun''"
  by simp

lemma denied_route_valid:
  assumes b: "cloud_branch i p ps cloud lp adm" and m: "snapshots_match i cloud adm"
    and rem: "remaining_milliseconds (pi_asOf i) (pi_deadlineAt i) = Inr remaining"
    and facts: "canonical_facts i p = Inr facts" and lease: "pr_priorLeaseId p = Some lease"
    and adm: "valid_admission a" "names_denied_gate a reason" "is_cloud_proposal_denial reason"
      "reached (ad_deadline a) \<Longrightarrow>
        (ac_status (ad_deadline a) = Passed) = (p2_attemptTimeoutMs (pi_policy i) \<le> remaining)"
      "ac_status (ad_budget a) \<noteq> Passed"
    and bill: "bill = None \<and> reason \<noteq> Rr_budget_denial \<or>
      (\<exists>bl denial. bill = Some bl \<and> reason = Rr_budget_denial \<and>
        billing_projection i (cl_pricingSnapshot adm) (cl_budget adm) = Inr bl \<and>
        ba_budgetDenialReason (cl_budget adm) = Some denial \<and>
        (exceeds_budget bl \<or> denial = Campaign_overrun))"
  defines "d \<equiv> denied_route i p cloud lp adm (rz_targetHealthSnapshot i) (cl_pricingSnapshot adm)
      (cloud_snapshot i p ps adm remaining) a reason bill (denial_facts adm reason facts) lease"
  shows "clean_routing_decision d = d" "valid_routing_decision d"
proof -
  have pr: "proposed i p ps" and t: "find_provider ps (pr_targetProviderId p) = Some cloud"
    and lp: "find_provider ps (pi_localProviderId i) = Some lp" "rp_locality lp = Local_provider"
    using b by (simp_all add: cloud_branch_def)
  have pi: "parsed_input i" using pr by (simp add: proposed_def)
  note cp = cloud_proposal [OF b] and tc = target_clean [OF pr t] and lc = target_clean [OF pr lp(1)]
    and ci = cloud_inputs [OF b] and pc = proposed_common [OF pr]
  note ids = admission_ids [OF ci(1,2)] and hc = health_clean_ids [OF ci(3,4)]
    and qc = pricing_clean_ids [OF ci(7,8)] and sv = cloud_snapshot_valid [OF b m rem]
  have pb: "pr_boundary p = point_boundary (pi_point i)" by (rule pc)
  note fo = denial_facts_ok(1) [OF facts pi pb]
  have cmn: "common_part i p (denial_facts adm reason facts) d" unfolding d_def by (rule cloud_common)
  note cm = common_valid [OF pr cmn fo] and cc = common_clean [OF pr cmn fo]
  have lease': "bounded_v2_id lease" "js_trim lease = lease"
    using proposed_lease [OF pr] lease by (simp_all add: trimmed_def)
  have reason: "reason \<noteq> Rr_cloud_admitted"
    using adm(3) by (auto simp: is_cloud_proposal_denial_def cloud_proposal_denial_reasons_def)
  have bv: "optionally valid_billing bill" and rates: "optionally (\<lambda>bl. bl_inputRate bl = ps_inputRate (cl_pricingSnapshot adm) \<and>
        bl_outputRate bl = ps_outputRate (cl_pricingSnapshot adm) \<and>
        bl_cacheReadRate bl = Some (ps_cacheReadRate (cl_pricingSnapshot adm))) bill"
    using bill billing_projection_valid [OF pi ci(8) ids(13)] by auto
  show "clean_routing_decision d = d"
    using cc tc lc lease' ids hc qc sv(1) by (intro clean_decisionI) (simp_all add: d_def trimmed_def)
  have fields: "valid_decision_fields d"
    using cm lc tc lease' ids hc qc sv(2) adm(1) bv
    by (simp add: valid_decision_fields_def d_def)
  have leases: "valid_leases d"
    using tc(5) lc(5) cp(1,2) lease by (simp add: valid_leases_def d_def pc)
  have agrees: "snapshot_agrees d (cloud_snapshot i p ps adm remaining)"
    using reason adm(4) rates
    by (intro cloud_agrees [OF b m cmn]) (auto simp: d_def)
  have proposal: "valid_proposal_denial d"
  proof -
    have "valid_budget_denial d" if r: "reason = Rr_budget_denial"
    proof -
      from bill r obtain bl denial where bl: "bill = Some bl"
        "ba_budgetDenialReason (cl_budget adm) = Some denial" "exceeds_budget bl \<or> denial = Campaign_overrun"
        by auto
      have rec: "recorded_denial_fact d = Some (JString (denial_text denial))"
        by (rule denial_facts_ok(2) [OF facts pi pb r bl(2)]) (simp add: d_def)
      have "rd_billing d = Some bl" by (simp add: d_def bl(1))
      with rec bl(3) denial_text_known [of denial] show ?thesis
        by (auto simp: valid_budget_denial_def list_ex_iff exceeds_budget_def)
    qed
    moreover have "denial_evidence d"
      by (auto simp: denial_evidence_def d_def proposal_field_count_def proposal_fields_def)
    ultimately show ?thesis
      using cp(1,5,10) tc(8) by (auto simp: valid_proposal_denial_def d_def)
  qed
  have "rd_reasonCode d = reason" "rd_admission d = a" by (simp_all add: d_def)
  then have "denied_gate_ok d" using adm(2) by (intro denied_gate_okI) simp
  then show "valid_routing_decision d"
    using fields leases agrees proposal cm(9) reason adm(3,5)
    by (simp add: valid_routing_decision_def d_def passed_budget_fits_def)
qed

section \<open>An admitted cloud decision\<close>

lemma admitted_route_valid:
  assumes b: "cloud_branch i p ps cloud lp adm" and m: "snapshots_match i cloud adm"
    and rem: "remaining_milliseconds (pi_asOf i) (pi_deadlineAt i) = Inr remaining"
    and facts: "canonical_facts i p = Inr facts" and lease: "Some (rz_selectedLeaseId i) \<noteq> pr_priorLeaseId p"
    and adm: "valid_admission a" "gates_passed a" "ac_status (ad_budget a) = Passed"
      "reached (ad_deadline a) \<Longrightarrow>
        (ac_status (ad_deadline a) = Passed) = (p2_attemptTimeoutMs (pi_policy i) \<le> remaining)"
    and bill: "billing_projection i (cl_pricingSnapshot adm) (cl_budget adm) = Inr bl" "\<not> exceeds_budget bl"
  defines "d \<equiv> admitted_route i p cloud adm (rz_targetHealthSnapshot i) (cl_pricingSnapshot adm)
      (cloud_snapshot i p ps adm remaining) a bl facts"
  shows "clean_routing_decision d = d" "valid_routing_decision d"
proof -
  have pr: "proposed i p ps" and t: "find_provider ps (pr_targetProviderId p) = Some cloud"
    using b by (simp_all add: cloud_branch_def)
  have pi: "parsed_input i" using pr by (simp add: proposed_def)
  note cp = cloud_proposal [OF b] and tc = target_clean [OF pr t]
    and ci = cloud_inputs [OF b] and pc = proposed_common [OF pr]
  note ids = admission_ids [OF ci(1,2)] and hc = health_clean_ids [OF ci(3,4)]
    and qc = pricing_clean_ids [OF ci(7,8)] and sv = cloud_snapshot_valid [OF b m rem]
  have pb: "pr_boundary p = point_boundary (pi_point i)" by (rule pc)
  have fo: "facts_ok facts"
    by (rule canonical_facts_accepted [OF facts pi pb])
  have cmn: "common_part i p facts d" unfolding d_def by (rule cloud_common)
  note cm = common_valid [OF pr cmn fo] and cc = common_clean [OF pr cmn fo]
  note bp = billing_projection_valid [OF pi ci(8) ids(13) bill(1)]
  show "clean_routing_decision d = d"
    using cc tc ids hc qc sv(1) parsed_trimmed(7) [OF pi]
    by (intro clean_decisionI) (simp_all add: d_def trimmed_def)
  have fields: "valid_decision_fields d"
    using cm tc ids hc qc sv(2) adm(1) bp(1) parsed_valid(12) [OF pi]
    by (simp add: valid_decision_fields_def d_def)
  have leases: "valid_leases d"
    using tc(5) cp(1,2) lease by (auto simp: valid_leases_def d_def pc)
  have agrees: "snapshot_agrees d (cloud_snapshot i p ps adm remaining)"
    using adm(4) bp by (intro cloud_agrees [OF b m cmn]) (auto simp: d_def)
  have "valid_cloud_admission d"
    using adm(2,3) cp(1)
    by (auto simp: valid_cloud_admission_def d_def gates_passed_def admission_checks_def
        cloud_admission_fields_def check_simps)
  moreover have "\<not> is_cloud_proposal_denial Rr_cloud_admitted"
    by (simp add: is_cloud_proposal_denial_def cloud_proposal_denial_reasons_def)
  moreover from this have "denied_gate_ok d" by (intro no_denied_gate) (simp add: d_def)
  moreover have "target_is_selected d" using tc(8) cp(5) by (simp add: target_is_selected_def d_def)
  ultimately show "valid_routing_decision d"
    using fields leases agrees cm(9) bill(2)
    by (simp add: valid_routing_decision_def d_def passed_budget_fits_def exceeds_budget_def)
qed

end
