(* ===== verification/RouterResults.thy ===== *)
theory RouterResults
  imports RouterCloud
begin

text \<open>
  The outcomes of a resolution: which errors each part can end with, and what a published
  decision is made of.
\<close>

section \<open>Internal errors\<close>

text \<open>The errors that would mean that the router built something its own schemas refuse.\<close>

definition internal_error :: "router_error \<Rightarrow> bool" where
  "internal_error e \<longleftrightarrow>
     list_ex (\<lambda>x. x = e)
       [Input_rejected, Proposal_rejected, Snapshot_rejected, Duplicate_trigger_fact, No_local_reason,
        Result_rejected, Plan_rejected, Billing_missing]"

lemma internal_error_simps [simp]:
  "\<not> internal_error Duplicate_provider_ids" "\<not> internal_error (Provider_not_configured loc)"
  "\<not> internal_error Session_work_is_open" "\<not> internal_error (Boundary_already_ran b)"
  "\<not> internal_error Start_not_pristine" "\<not> internal_error Evidence_needs_investigation"
  "\<not> internal_error Lease_not_configured_local" "\<not> internal_error Failure_scope_mismatch"
  "\<not> internal_error Failure_without_egress_identity" "\<not> internal_error Failure_without_cloud_attempt"
  "\<not> internal_error No_cloud_provider" "\<not> internal_error Deadline_not_safe"
  "\<not> internal_error Lease_not_retained" "\<not> internal_error Lease_reused"
  "\<not> internal_error Egress_identity_missing" "\<not> internal_error Allowances_exceed_provider"
  "\<not> internal_error Cost_not_safe" "\<not> internal_error Denial_reason_missing"
  "\<not> internal_error Denial_reason_unexpected"
  by (simp_all add: internal_error_def)

lemma boundary_errors:
  assumes "checks [assert_safe_boundary i, assert_session_start_state i,
      assert_evidence_complete_state i ps, assert_provider_failure_state i ps] = Some e"
  shows "\<not> internal_error e"
  using checks_Some [OF assms]
  by (auto simp: assert_safe_boundary_def assert_session_start_state_def assert_evidence_complete_state_def
      assert_provider_failure_state_def Let_def check_when_Some throw_if_Some dest!: checks_Some)

lemma require_provider_errors: "require_provider ps x loc = Inl e \<Longrightarrow> \<not> internal_error e"
  by (auto simp: require_provider_def split: option.splits if_splits)

lemma choose_route_errors: "choose_route i ps lp = Inl e \<Longrightarrow> \<not> internal_error e"
  by (auto simp: choose_route_def Let_def bind_result_Inl dest: require_provider_errors
      split: route_point.splits if_splits option.splits)

lemma normalize_parsed_errors:
  assumes "parsed_input i" "normalize_providers (pi_providers i) = Inl e"
  shows "\<not> internal_error e"
  using assms(2) parsed_trimmed(1) [OF assms(1)] parsed_valid(6) [OF assms(1)]
  by (auto simp: normalize_providers_def Let_def error_simps dest!: checks_Some)

lemma proposal_accepted:
  assumes pi: "parsed_input i" and n: "normalize_providers (pi_providers i) = Inr ps"
    and lp: "find_provider ps (pi_localProviderId i) = Some lp"
    and c: "choose_route i ps lp = Inr c"
  shows "\<exists>p. parse_proposal (proposal_of (proposal_input.truncate i) ps c) = Inr p"
proof -
  let ?q = "proposal_of (proposal_input.truncate i) ps c"
  note f = normalize_parsed [OF parsed_trimmed(1) [OF pi] parsed_valid(6) [OF pi] n]
  have valid: "list_all valid_checkpoint_provider ps"
    using parsed_valid(6) [OF pi] f(3) by (simp add: list_all_iff)
  have clean: "clean_checkpoint_provider q = q" if "q \<in> set ps" for q
    using that parsed_trimmed(1) [OF pi] f(3)
      map_eq_conv [of clean_checkpoint_provider "pi_providers i" id] by simp
  have "\<exists>x. find_provider ps x = Some (ch_target c)"
    using c lp by (cases rule: choose_route_cases) auto
  then have m: "ch_target c \<in> set ps" using find_provider_SomeD by blast
  have ids: "bounded_v2_id (rp_providerId q) \<and> bounded_v2_id (rp_model q) \<and>
      js_trim (rp_providerId q) = rp_providerId q \<and> js_trim (rp_model q) = rp_model q"
    if "q \<in> set ps" for q
    using valid clean [OF that] that clean_checkpoint_providerD [of q]
    by (auto simp: list_all_iff valid_checkpoint_provider_def valid_router_provider_def)
  have lease: "optionally bounded_v2_id (map_option al_leaseId (st_activeLease (pi_state i)))"
    using parsed_valid(9) [OF pi]
    by (cases "st_activeLease (pi_state i)") (auto simp: valid_router_state_def valid_lease_view_def)
  have lt: "map_option (\<lambda>x. js_trim (al_leaseId x)) (st_activeLease (pi_state i)) =
      map_option al_leaseId (st_activeLease (pi_state i))"
    using arg_cong [OF parsed_trimmed(4) [OF pi], of "\<lambda>s. map_option al_leaseId (st_activeLease s)"]
    by (simp add: clean_router_state_def option.map_comp comp_def clean_lease_view_def)
  have "clean_proposal ?q = ?q"
    using ids m lt by (auto simp: clean_proposal_def proposal_of_def trimmed_def option.map_comp comp_def
        intro!: map_cong)
  moreover have "valid_proposal ?q"
    using ids m lease f(4) parsed_valid(4,5) [OF pi] choose_route_capabilities [OF c]
    by (auto simp: valid_proposal_def proposal_of_def list_all_iff Suc_le_eq)
  ultimately show ?thesis by (simp add: parse_proposal_def)
qed

lemma propose_errors:
  assumes pi: "parsed_input i" and e: "propose_checkpoint_route (proposal_input.truncate i) = Inl e"
  shows "\<not> internal_error e"
proof (cases "normalize_providers (pi_providers i)")
  case (Inl e')
  with e pi show ?thesis
    by (simp add: propose_checkpoint_route_def parse_truncated normalize_parsed_errors)
next
  case (Inr ps)
  let ?t = "proposal_input.truncate i"
  from e Inr consider
      "checks [assert_safe_boundary ?t, assert_session_start_state ?t,
         assert_evidence_complete_state ?t ps, assert_provider_failure_state ?t ps] = Some e"
    | "require_provider ps (pi_localProviderId i) Local_provider = Inl e"
    | lp where "find_provider ps (pi_localProviderId i) = Some lp" "choose_route ?t ps lp = Inl e"
    | lp c where "find_provider ps (pi_localProviderId i) = Some lp" "choose_route ?t ps lp = Inr c"
        "parse_proposal (proposal_of ?t ps c) = Inl e"
    by (auto simp: propose_checkpoint_route_def parse_truncated [OF pi] error_simps require_provider_Inr)
  then show ?thesis
  proof cases
    case 4
    from 4(2) have "choose_route i ps lp = Inr c" unfolding choose_route_def truncate_proposal_simps .
    with proposal_accepted [OF pi Inr 4(1)] 4(3) show ?thesis by auto
  qed (auto dest: boundary_errors require_provider_errors choose_route_errors)
qed

section \<open>Published decisions\<close>

lemma publish_Inr:
  assumes "publish d0 a0 = Inr r"
  obtains "r = Decision_result (clean_routing_decision d0) (clean_attempt_plan a0)"
    "valid_routing_decision (clean_routing_decision d0)" "valid_attempt_plan (clean_attempt_plan a0)"
proof -
  have idem: "clean_attempt_plan (clean_attempt_plan a0) = clean_attempt_plan a0"
    by (simp add: clean_attempt_plan_def)
  show thesis
    using assms idem that
    by (auto simp: publish_def parse_decision_def parse_plan_def decision_result_def check_simps
        parse_routing_decision_def parse_attempt_plan_def Let_def split: option.splits if_splits)
qed

text \<open>The attempt plan asks for exactly what the decision selected.\<close>

definition plan_agrees :: "routing_decision \<Rightarrow> attempt_plan \<Rightarrow> bool" where
  "plan_agrees d a \<longleftrightarrow>
     pl_providerId a = rd_selectedProviderId d \<and> pl_model a = rd_selectedModel d \<and>
     pl_leaseId a = rd_selectedLeaseId d \<and> pl_phase a = rd_phase d \<and>
     pl_budgetReservationId a = rd_budgetReservationId d \<and> pl_costScope a = rd_costScope d \<and>
     pl_cloudEgressAdmissionId a = rd_cloudEgressAdmissionId d"

lemma plan_agrees_clean:
  "plan_agrees d a \<Longrightarrow> plan_agrees (clean_routing_decision d) (clean_attempt_plan a)"
  by (simp add: plan_agrees_def clean_routing_decision_def clean_attempt_plan_def)

lemma routes_agree_with_plans:
  "plan_agrees (local_route i p t reason facts x h) (local_plan i p t)"
  "pr_phase p = Synthesis \<Longrightarrow>
   plan_agrees (denied_route i p cloud lp adm h q x a reason bill facts lease) (denied_plan i lp adm lease)"
  "pr_phase p = Synthesis \<Longrightarrow>
   plan_agrees (admitted_route i p cloud adm h q x a b facts) (admitted_plan i cloud adm b)"
  by (simp_all add: plan_agrees_def local_plan_def denied_plan_def admitted_plan_def)
    (simp_all add: local_route_def)

section \<open>Local resolutions\<close>

lemma local_decision_errors:
  assumes pr: "proposed i p ps" and local: "pr_intent p \<noteq> Cloud_synthesis"
    and t: "find_provider ps (pr_targetProviderId p) = Some t" "rp_locality t = pr_targetLocality p"
    and req: "1 \<le> req" "req \<le> p2_attemptTimeoutMs (pi_policy i)"
    and e: "local_decision i p ps t req = Inl e"
  shows "\<not> internal_error e"
proof -
  have pi: "parsed_input i" using pr by (simp add: proposed_def)
  let ?h = "rz_targetHealthSnapshot i"
  have hc: "clean_health_snapshot ?h = ?h" "valid_health_snapshot ?h"
    using parsed_trimmed(8) [OF pi] parsed_valid(13) [OF pi] by simp_all
  have tm: "rp_model t = pr_targetModel p"
    using proposed_target [OF pr] t(1) by (metis option.inject)
  show ?thesis
  proof (cases "remaining_milliseconds (pi_asOf i) (pi_deadlineAt i)")
    case (Inl e')
    with e hc show ?thesis
      by (auto simp: local_decision_def Let_def error_simps remaining_milliseconds_def
          split: option.splits if_splits)
  next
    case (Inr remaining)
    show ?thesis
    proof (rule ccontr)
      assume bad: "\<not> \<not> internal_error e"
      with e hc Inr have l: "req \<le> remaining" "health_is_usable ?h t (pi_asOf i)"
          "local_lease_checks i p = None"
        and k: "bind_result (build_router_input i p ps [?h] None req) (\<lambda>snapshot.
              bind_result (local_reason (pr_intent p)) (\<lambda>reason.
              bind_result (canonical_facts i p) (\<lambda>facts.
              publish (local_route i p t reason facts snapshot ?h) (local_plan i p t)))) = Inl e"
        by (auto simp: local_decision_def Let_def guarded_Inl throw_if_Some local_lease_checks_def
            dest!: checks_Some split: if_splits)
      obtain reason where r: "local_reason (pr_intent p) = Inr reason"
        using local_proposal(5) [OF pr local] by blast
      obtain facts where f: "canonical_facts i p = Inr facts"
        using canonical_facts_ok [OF pi proposed_common(1) [OF pr]] by metis
      have fo: "facts_ok facts" by (rule canonical_facts_accepted [OF f pi proposed_common(1) [OF pr]])
      let ?x = "router_snapshot i p ps [?h] None req remaining"
      have b: "build_router_input i p ps [?h] None req = Inr ?x"
        by (rule router_snapshot_valid(3) [OF pr Inr]) (use hc req in simp_all)
      note v = local_route_valid [OF pr local t tm Inr l(1) req l(2) refl l(3) fo r refl]
        and w = local_plan_valid [OF pr local t(1)]
      show False using k b r f publish_ok [OF v w] by simp
    qed
  qed
qed

section \<open>Cloud resolutions\<close>

lemma billing_errors: "billing_projection i q b = Inl e \<Longrightarrow> e = Cost_not_safe"
  by (auto simp: billing_projection_def Let_def error_simps)

lemma budget_gate_errors: "budget_gate i cloud adm q a = Inl e \<Longrightarrow> \<not> internal_error e"
  by (auto simp: budget_gate_def Let_def error_simps dest: billing_errors split: if_splits)

lemma denied_decision_ok:
  assumes b: "cloud_branch i p ps cloud lp adm" and m: "snapshots_match i cloud adm"
    and rem: "remaining_milliseconds (pi_asOf i) (pi_deadlineAt i) = Inr remaining"
    and v: "valid_admission a" "names_denied_gate a reason" "is_cloud_proposal_denial reason"
      "reached (ad_deadline a) \<Longrightarrow>
        (ac_status (ad_deadline a) = Passed) = (p2_attemptTimeoutMs (pi_policy i) \<le> remaining)"
      "ac_status (ad_budget a) \<noteq> Passed"
    and bill: "bill = None \<and> reason \<noteq> Rr_budget_denial \<or>
      (\<exists>bl denial. bill = Some bl \<and> reason = Rr_budget_denial \<and>
        billing_projection i (cl_pricingSnapshot adm) (cl_budget adm) = Inr bl \<and>
        ba_budgetDenialReason (cl_budget adm) = Some denial \<and>
        (exceeds_budget bl \<or> denial = Campaign_overrun))"
  shows "\<exists>res. denied_cloud_decision i p cloud lp adm (rz_targetHealthSnapshot i) (cl_pricingSnapshot adm)
      (cloud_snapshot i p ps adm remaining) a reason bill = Inr res"
proof -
  have pr: "proposed i p ps" and lpf: "find_provider ps (pi_localProviderId i) = Some lp"
    using b by (simp_all add: cloud_branch_def)
  have pi: "parsed_input i" using pr by (simp add: proposed_def)
  note ci = cloud_inputs [OF b]
  note lc = target_clean [OF pr lpf] and ids = admission_ids [OF ci(1,2)]
  obtain facts where f: "canonical_facts i p = Inr facts"
    using canonical_facts_ok [OF pi proposed_common(1) [OF pr]] by metis
  obtain lease where lease: "pr_priorLeaseId p = Some lease" using cloud_proposal(9) [OF b] by blast
  have lease': "bounded_v2_id lease" "js_trim lease = lease"
    using proposed_lease [OF pr] lease by (simp_all add: trimmed_def)
  have plan: "clean_attempt_plan (denied_plan i lp adm lease) = denied_plan i lp adm lease"
    "valid_attempt_plan (denied_plan i lp adm lease)"
    using lc lease' ids by (simp_all add: denied_plan_def clean_attempt_plan_def valid_attempt_plan_def trimmed_def)
  show ?thesis
    using publish_ok [OF denied_route_valid [OF b m rem f lease v bill] plan] f lease
    by (simp add: denied_cloud_decision_def)
qed

lemma admitted_decision_ok:
  assumes b: "cloud_branch i p ps cloud lp adm" and m: "snapshots_match i cloud adm"
    and rem: "remaining_milliseconds (pi_asOf i) (pi_deadlineAt i) = Inr remaining"
    and v: "valid_admission a" "gates_passed a" "ac_status (ad_budget a) = Passed"
      "reached (ad_deadline a) \<Longrightarrow>
        (ac_status (ad_deadline a) = Passed) = (p2_attemptTimeoutMs (pi_policy i) \<le> remaining)"
    and bill: "billing_projection i (cl_pricingSnapshot adm) (cl_budget adm) = Inr bl" "\<not> exceeds_budget bl"
    and e: "admitted_cloud_decision i p cloud adm (rz_targetHealthSnapshot i) (cl_pricingSnapshot adm)
      (cloud_snapshot i p ps adm remaining) a bl = Inl e"
  shows "e = Lease_reused"
proof (cases "Some (rz_selectedLeaseId i) = pr_priorLeaseId p")
  case True
  with e show ?thesis by (simp add: admitted_cloud_decision_def throw_if_def)
next
  case False
  have pr: "proposed i p ps" and t: "find_provider ps (pr_targetProviderId p) = Some cloud"
    using b by (simp_all add: cloud_branch_def)
  have pi: "parsed_input i" using pr by (simp add: proposed_def)
  note ci = cloud_inputs [OF b]
  note tc = target_clean [OF pr t] and ids = admission_ids [OF ci(1,2)]
  obtain facts where f: "canonical_facts i p = Inr facts"
    using canonical_facts_ok [OF pi proposed_common(1) [OF pr]] by metis
  have plan: "clean_attempt_plan (admitted_plan i cloud adm bl) = admitted_plan i cloud adm bl"
    "valid_attempt_plan (admitted_plan i cloud adm bl)"
    using tc ids parsed_trimmed(7) [OF pi] parsed_valid(12) [OF pi]
      billing_projection_valid(1) [OF pi ci(8) ids(13) bill(1)]
    by (simp_all add: admitted_plan_def clean_attempt_plan_def valid_attempt_plan_def trimmed_def
        valid_billing_def)
  show ?thesis
    using publish_ok [OF admitted_route_valid [OF b m rem f False v bill] plan] f False e
    by (simp add: admitted_cloud_decision_def throw_if_def split: if_splits)
qed

lemma after_gates_errors:
  assumes b: "cloud_branch i p ps cloud lp adm" and m: "snapshots_match i cloud adm"
    and rem: "remaining_milliseconds (pi_asOf i) (pi_deadlineAt i) = Inr remaining"
    and g: "cloud_gates i p cloud adm (rz_targetHealthSnapshot i) (cl_pricingSnapshot adm) remaining = (a, r)"
    and out: "r \<noteq> None \<and> g' = (a, r) \<and> bill = None \<or>
      (\<exists>bl. r = None \<and> bill = Some bl \<and>
        budget_gate i cloud adm (cl_pricingSnapshot adm) a = Inr (g', bl))"
    and e: "after_gates i p cloud lp adm (rz_targetHealthSnapshot i) l (cl_pricingSnapshot adm) remaining
      (cloud_snapshot i p ps adm remaining) g' bill = Inl e"
  shows "\<not> internal_error e"
proof -
  have gs: "gate_state_ok (p2_attemptTimeoutMs (pi_policy i)) remaining (a, r)"
    using cloud_gates_ok [of i remaining] g by metis
  note retained = denied_decision_ok [OF b m rem]
  from out show ?thesis
  proof (elim disjE conjE exE)
    assume r: "r \<noteq> None" "g' = (a, r)" "bill = None"
    then obtain reason where reason: "r = Some reason" by blast
    from gs reason e r show ?thesis
      using retained [of a reason None] by (auto simp: after_gates_def gate_state_ok_def split: if_splits)
  next
    fix bl assume r: "r = None" "bill = Some bl" "budget_gate i cloud adm (cl_pricingSnapshot adm) a = Inr (g', bl)"
    obtain a' r' where g': "g' = (a', r')" by fastforce
    have ga: "valid_admission a" "gates_passed a"
      "reached (ad_deadline a) \<Longrightarrow>
        (ac_status (ad_deadline a) = Passed) = (p2_attemptTimeoutMs (pi_policy i) \<le> remaining)"
      using gs r(1) by (simp_all add: gate_state_ok_def)
    from r(3) [unfolded g'] show ?thesis
    proof (cases rule: budget_gate_cases)
      case passed
      have "e = Lease_reused"
        using e g' r(2) passed ga valid_admission_budget(1) [OF ga(1)]
        by (intro admitted_decision_ok [OF b m rem, of a' bl])
          (simp_all add: gates_passed_def check_passed_def after_gates_def)
      then show ?thesis by simp
    next
      case (denied denial)
      have "\<exists>res. denied_cloud_decision i p cloud lp adm (rz_targetHealthSnapshot i) (cl_pricingSnapshot adm)
          (cloud_snapshot i p ps adm remaining) a' Rr_budget_denial (Some bl) = Inr res"
        using denied ga valid_admission_budget(2) [OF ga(1)]
        by (intro retained) (auto simp: names_denied_gate_def check_denied_def is_cloud_proposal_denial_def
            cloud_proposal_denial_reasons_def)
      with e g' r(2) denied(2) show ?thesis by (auto simp: after_gates_def split: if_splits)
    qed
  qed
qed

lemma cloud_decision_unfold:
  assumes b: "cloud_branch i p ps cloud lp adm"
  shows "cloud_decision i p ps cloud lp adm =
    guarded
      (throw_if (p2_routingPolicy (pi_policy i) = Hybrid_simulation_v1 \<and>
         pk_cloudEgressAdmissionId (cl_packet adm) = None) Egress_identity_missing)
      (bind_result (remaining_milliseconds (pi_asOf i) (pi_deadlineAt i)) (\<lambda>remaining.
       bind_result
         (build_router_input i p ps [rz_targetHealthSnapshot i, cl_retainedLocalHealthSnapshot adm]
            (Some (cl_pricingSnapshot adm)) (p2_attemptTimeoutMs (pi_policy i))) (\<lambda>x.
       case cloud_gates i p cloud adm (rz_targetHealthSnapshot i) (cl_pricingSnapshot adm) remaining of
         (a, Some reason) \<Rightarrow>
           after_gates i p cloud lp adm (rz_targetHealthSnapshot i) (cl_retainedLocalHealthSnapshot adm)
             (cl_pricingSnapshot adm) remaining x (a, Some reason) None
       | (a, None) \<Rightarrow>
           bind_result (budget_gate i cloud adm (cl_pricingSnapshot adm) a) (\<lambda>(g, bill).
           after_gates i p cloud lp adm (rz_targetHealthSnapshot i) (cl_retainedLocalHealthSnapshot adm)
             (cl_pricingSnapshot adm) remaining x g (Some bill)))))"
  using cloud_inputs [OF b]
  by (cases "p2_routingPolicy (pi_policy i) = Hybrid_simulation_v1 \<and>
      pk_cloudEgressAdmissionId (cl_packet adm) = None")
    (simp_all add: cloud_decision_def Let_def throw_if_def checks.simps)

lemma cloud_decision_errors:
  assumes b: "cloud_branch i p ps cloud lp adm" and m: "snapshots_match i cloud adm"
    and e: "cloud_decision i p ps cloud lp adm = Inl e"
  shows "\<not> internal_error e"
proof (cases "remaining_milliseconds (pi_asOf i) (pi_deadlineAt i)")
  case (Inl e')
  with e show ?thesis
    by (auto simp: cloud_decision_unfold [OF b] error_simps remaining_milliseconds_def
        split: option.splits if_splits)
next
  case (Inr remaining)
  note x = cloud_snapshot_valid(3) [OF b m Inr]
  obtain a r where g: "cloud_gates i p cloud adm (rz_targetHealthSnapshot i) (cl_pricingSnapshot adm) remaining = (a, r)"
    by fastforce
  note after = after_gates_errors [OF b m Inr g]
  show ?thesis
  proof (cases r)
    case (Some reason)
    with e Inr x g have "e = Egress_identity_missing \<or>
        after_gates i p cloud lp adm (rz_targetHealthSnapshot i) (cl_retainedLocalHealthSnapshot adm)
          (cl_pricingSnapshot adm) remaining (cloud_snapshot i p ps adm remaining) (a, r) None = Inl e"
      by (auto simp: cloud_decision_unfold [OF b] guarded_Inl throw_if_Some)
    with Some show ?thesis by (auto dest: after [rotated])
  next
    case None
    with e Inr x g have "e = Egress_identity_missing \<or> budget_gate i cloud adm (cl_pricingSnapshot adm) a = Inl e \<or>
        (\<exists>g' bl. budget_gate i cloud adm (cl_pricingSnapshot adm) a = Inr (g', bl) \<and>
          after_gates i p cloud lp adm (rz_targetHealthSnapshot i) (cl_retainedLocalHealthSnapshot adm)
            (cl_pricingSnapshot adm) remaining (cloud_snapshot i p ps adm remaining) g' (Some bl) = Inl e)"
      by (auto simp: cloud_decision_unfold [OF b] error_simps)
    with None show ?thesis by (auto dest: after [rotated] budget_gate_errors)
  qed
qed

section \<open>Resolutions\<close>

lemma parsed_timeout:
  assumes "parsed_input i"
  shows "1 \<le> p2_attemptTimeoutMs (pi_policy i)" "p2_maxPaidAttempts (pi_policy i) = 1"
  using parsed_valid(1) [OF assms] by (simp_all add: valid_policy_v2_def safe_positive_def)

lemma resolve_cases:
  assumes parsed: "parse_resolution_input i0 = Inr i" and r: "resolve_checkpoint_route i0 = r"
  obtains (proposal) e where "propose_checkpoint_route (proposal_input.truncate i) = Inl e" "r = Inl e"
  | (local) p ps t req where "proposed i p ps" "pr_intent p \<noteq> Cloud_synthesis"
      "find_provider ps (pr_targetProviderId p) = Some t" "rp_locality t = pr_targetLocality p"
      "1 \<le> req" "req \<le> p2_attemptTimeoutMs (pi_policy i)" "r = local_decision i p ps t req"
  | (no_admission) "r = Inr (Terminal_denial Invalid_boundary_state)"
  | (cloud) p ps cloud lp adm where "cloud_branch i p ps cloud lp adm" "r = cloud_decision i p ps cloud lp adm"
proof -
  have pi: "parsed_input i" by (rule parse_resolution_input [OF parsed])
  show thesis
  proof (cases "propose_checkpoint_route (proposal_input.truncate i)")
    case (Inl e)
    with r parsed show thesis
      by (intro proposal) (auto simp: resolve_checkpoint_route_def proposal_input_from_resolution_def)
  next
    case (Inr p)
    then obtain ps where n: "normalize_providers (pi_providers i) = Inr ps"
      by (auto simp: propose_checkpoint_route_def parse_truncated [OF pi] bind_result_Inr)
    with Inr pi have pr: "proposed i p ps" by (simp add: proposed_def)
    obtain t where t: "find_provider ps (pr_targetProviderId p) = Some t" "rp_locality t = pr_targetLocality p"
      using proposed_target [OF pr] by metis
    obtain lp where lp: "find_provider ps (pi_localProviderId i) = Some lp" "rp_locality lp = Local_provider"
      using proposedE [OF pr] by metis
    have req: "require_provider ps (pr_targetProviderId p) (pr_targetLocality p) = Inr t"
      "require_provider ps (pi_localProviderId i) Local_provider = Inr lp"
      using t lp by (simp_all add: check_simps)
    note u = resolve_checkpoint_route_def proposal_input_from_resolution_def
    show thesis
    proof (cases "pr_intent p = Cloud_synthesis")
      case False
      define k where "k = (if pr_intent p = Local_fallback then p2_attemptTimeoutMs (pi_policy i) else 1)"
      have "r = local_decision i p ps t k" using r parsed Inr n req False by (simp add: u k_def)
      moreover have "1 \<le> k" "k \<le> p2_attemptTimeoutMs (pi_policy i)"
        using parsed_timeout(1) [OF pi] by (simp_all add: k_def)
      ultimately show thesis using local [OF pr False t] by blast
    next
      case True
      show thesis
      proof (cases "rz_cloudAdmission i")
        case None
        with r parsed Inr n req True have "r = Inr (Terminal_denial Invalid_boundary_state)"
          by (cases "point_boundary (pi_point i)") (simp_all add: u)
        then show thesis by (rule no_admission)
      next
        case (Some adm)
        have b: "cloud_branch i p ps t lp adm"
          using pr True t lp Some by (simp add: cloud_branch_def)
        have "point_boundary (pi_point i) = Evidence_complete"
          using cloud_proposal(1) [OF b] proposed_common(1) [OF pr] by simp
        with r parsed Inr n req True Some have "r = cloud_decision i p ps t lp adm" by (simp add: u)
        with b show thesis by (rule cloud)
      qed
    qed
  qed
qed

text \<open>The providers of an input, before and after the normalisation.\<close>

lemma find_provider_sorted:
  assumes "proposed i p ps"
  shows "find_provider ps x = find_provider (pi_providers i) x"
proof -
  have pi: "parsed_input i" and n: "normalize_providers (pi_providers i) = Inr ps"
    using assms by (simp_all add: proposed_def)
  have d: "distinct (map rp_providerId (pi_providers i))"
    using n parsed_trimmed(1) [OF pi] by (auto simp: normalize_providers_def Let_def check_simps)
  have ds: "distinct (map rp_providerId ps)"
    using strictly_increasing_distinct [OF proposed_providers(2) [OF assms]] .
  have set: "set ps = set (pi_providers i)" using proposed_providers(1) [OF assms] by simp
  show ?thesis
  proof (cases "\<exists>q \<in> set ps. rp_providerId q = x")
    case True
    then obtain q where q: "q \<in> set ps" "rp_providerId q = x" by blast
    then have "find_provider ps x = Some q" "find_provider (pi_providers i) x = Some q"
      using find_distinct_key [OF ds, of q] find_distinct_key [OF d, of q] set
      by (simp_all add: find_provider_def)
    then show ?thesis by simp
  next
    case False
    then have "find_provider ps x = None" "find_provider (pi_providers i) x = None"
      using set by (auto simp: find_provider_def find_None_iff)
    then show ?thesis by simp
  qed
qed

text \<open>The caller's side of a cloud proposal: the snapshots it passes are those of the providers
  it passes them for.\<close>

definition cloud_intended :: "resolution_input \<Rightarrow> bool" where
  "cloud_intended i \<longleftrightarrow>
     holds (point_risk (pi_point i)) (\<lambda>r. rk_classification r = High_risk) \<and> hybrid_policy (pi_policy i)"

definition snapshots_named :: "resolution_input \<Rightarrow> bool" where
  "snapshots_named i \<longleftrightarrow>
     (cloud_intended i \<longrightarrow>
      optionally (\<lambda>adm.
        optionally (\<lambda>cloud. snapshots_match i cloud adm)
          (Option.bind (pi_cloudProviderId i) (find_provider (pi_providers i))))
        (rz_cloudAdmission i))"

lemma snapshots_named_match:
  assumes b: "cloud_branch i p ps cloud lp adm" and n: "snapshots_named i"
  shows "snapshots_match i cloud adm"
proof -
  have pr: "proposed i p ps" and t: "find_provider ps (pr_targetProviderId p) = Some cloud"
    and a: "rz_cloudAdmission i = Some adm"
    using b by (simp_all add: cloud_branch_def)
  note cp = cloud_proposal [OF b]
  have "cloud_intended i" using cp(6,7) by (auto simp: cloud_intended_def)
  moreover have "Option.bind (pi_cloudProviderId i) (find_provider (pi_providers i)) = Some cloud"
    using cp(8) find_provider_self [OF t] find_provider_sorted [OF pr] by simp
  ultimately show ?thesis using n a by (simp add: snapshots_named_def)
qed

section \<open>What a published decision is\<close>

lemma local_decision_Inr:
  assumes "local_decision i p ps t req = Inr (Decision_result d a)"
  obtains reason facts x where "local_reason (pr_intent p) = Inr reason"
    "d = clean_routing_decision (local_route i p t reason facts x (clean_health_snapshot (rz_targetHealthSnapshot i)))"
    "a = clean_attempt_plan (local_plan i p t)" "valid_routing_decision d" "valid_attempt_plan a"
proof -
  let ?h = "clean_health_snapshot (rz_targetHealthSnapshot i)"
  obtain x reason facts where r: "local_reason (pr_intent p) = Inr reason"
    and pub: "publish (local_route i p t reason facts x ?h) (local_plan i p t) = Inr (Decision_result d a)"
    using assms by (auto simp: local_decision_def Let_def guarded_Inr bind_result_Inr split: if_splits)
  from pub show thesis by (rule publish_Inr) (use that [OF r] in auto)
qed

lemma cloud_decision_Inr:
  assumes b: "cloud_branch i p ps cloud lp adm"
    and r: "cloud_decision i p ps cloud lp adm = Inr (Decision_result d a)"
  defines "h \<equiv> rz_targetHealthSnapshot i" and "q \<equiv> cl_pricingSnapshot adm"
  obtains (denied) remaining g reason facts x bill lease where
      "remaining_milliseconds (pi_asOf i) (pi_deadlineAt i) = Inr remaining"
      "cloud_gates i p cloud adm h q remaining = (g, Some reason) \<and> bill = None \<or>
       (\<exists>g0 bl. cloud_gates i p cloud adm h q remaining = (g0, None) \<and> bill = Some bl \<and>
         budget_gate i cloud adm q g0 = Inr ((g, Some reason), bl))"
      "pr_priorLeaseId p = Some lease"
      "d = clean_routing_decision (denied_route i p cloud lp adm h q x g reason bill facts lease)"
      "a = clean_attempt_plan (denied_plan i lp adm lease)" "valid_routing_decision d" "valid_attempt_plan a"
  | (admitted) remaining g0 g facts x bl where
      "remaining_milliseconds (pi_asOf i) (pi_deadlineAt i) = Inr remaining"
      "cloud_gates i p cloud adm h q remaining = (g0, None)"
      "budget_gate i cloud adm q g0 = Inr ((g, None), bl)"
      "d = clean_routing_decision (admitted_route i p cloud adm h q x g bl facts)"
      "a = clean_attempt_plan (admitted_plan i cloud adm bl)" "valid_routing_decision d" "valid_attempt_plan a"
proof -
  let ?l = "cl_retainedLocalHealthSnapshot adm"
  define branch where "branch = (\<lambda>remaining x.
      case cloud_gates i p cloud adm h q remaining of
         (g, Some reason) \<Rightarrow> after_gates i p cloud lp adm h ?l q remaining x (g, Some reason) None
       | (g, None) \<Rightarrow> bind_result (budget_gate i cloud adm q g) (\<lambda>(g, bill).
           after_gates i p cloud lp adm h ?l q remaining x g (Some bill)))"
  have "\<exists>remaining x. remaining_milliseconds (pi_asOf i) (pi_deadlineAt i) = Inr remaining \<and>
      branch remaining x = Inr (Decision_result d a)"
    using r unfolding cloud_decision_unfold [OF b] guarded_Inr bind_result_Inr branch_def h_def q_def
    by blast
  then obtain remaining x where rem: "remaining_milliseconds (pi_asOf i) (pi_deadlineAt i) = Inr remaining"
    and k: "branch remaining x = Inr (Decision_result d a)" by blast
  note k = k [unfolded branch_def]
  have den: thesis if dec: "after_gates i p cloud lp adm h ?l q remaining x (g, Some reason) bill = Inr (Decision_result d a)"
    and src: "cloud_gates i p cloud adm h q remaining = (g, Some reason) \<and> bill = None \<or>
       (\<exists>g0 bl. cloud_gates i p cloud adm h q remaining = (g0, None) \<and> bill = Some bl \<and>
         budget_gate i cloud adm q g0 = Inr ((g, Some reason), bl))" for g reason bill
  proof -
    obtain facts lease where f: "pr_priorLeaseId p = Some lease"
      "publish (denied_route i p cloud lp adm h q x g reason bill (denial_facts adm reason facts) lease)
         (denied_plan i lp adm lease) = Inr (Decision_result d a)"
      using dec by (auto simp: after_gates_def denied_cloud_decision_def bind_result_Inr
          split: if_splits option.splits)
    from f(2) show thesis by (rule publish_Inr) (use denied [OF rem src f(1)] in auto)
  qed
  obtain g r' where g: "cloud_gates i p cloud adm h q remaining = (g, r')" by fastforce
  show thesis
  proof (cases r')
    case (Some reason)
    with k g show thesis by (intro den [of g reason None]) auto
  next
    case None
    with k g obtain g2 r2 bl where bg: "budget_gate i cloud adm q g = Inr ((g2, r2), bl)"
      and k2: "after_gates i p cloud lp adm h ?l q remaining x (g2, r2) (Some bl) = Inr (Decision_result d a)"
      by (auto simp: bind_result_Inr)
    show thesis
    proof (cases r2)
      case (Some reason)
      with k2 bg g None show thesis by (intro den [of g2 reason "Some bl"]) auto
    next
      case r2: None
      with k2 obtain facts where "publish (admitted_route i p cloud adm h q x g2 bl facts)
          (admitted_plan i cloud adm bl) = Inr (Decision_result d a)"
        by (auto simp: after_gates_def admitted_cloud_decision_def guarded_Inr bind_result_Inr split: if_splits)
      then show thesis
        by (rule publish_Inr) (use admitted [OF rem g [unfolded None] bg [unfolded r2]] in auto)
    qed
  qed
qed

end
