(* ===== verification/RouterOrder.thy ===== *)
theory RouterOrder
  imports RouterResults "HOL-Library.Multiset"
begin

text \<open>
  The order in which the caller lists the providers does not matter: after the normalisation no
  function of the router looks at the providers of its input any more, and the normalised list
  is the same.
\<close>

section \<open>Functions that do not look at the providers of the input\<close>

lemma providers_select:
  "pi_policy (i\<lparr>pi_providers := r\<rparr>) = pi_policy i" "pi_asOf (i\<lparr>pi_providers := r\<rparr>) = pi_asOf i"
  "pi_deadlineAt (i\<lparr>pi_providers := r\<rparr>) = pi_deadlineAt i"
  "pi_localProviderId (i\<lparr>pi_providers := r\<rparr>) = pi_localProviderId i"
  "pi_cloudProviderId (i\<lparr>pi_providers := r\<rparr>) = pi_cloudProviderId i"
  "pi_structuredOutputContract (i\<lparr>pi_providers := r\<rparr>) = pi_structuredOutputContract i"
  "pi_state (i\<lparr>pi_providers := r\<rparr>) = pi_state i" "pi_point (i\<lparr>pi_providers := r\<rparr>) = pi_point i"
  by simp_all

lemma resolution_select:
  "rz_decisionId (j\<lparr>pi_providers := r\<rparr>) = rz_decisionId j"
  "rz_selectedLeaseId (j\<lparr>pi_providers := r\<rparr>) = rz_selectedLeaseId j"
  "rz_targetHealthSnapshot (j\<lparr>pi_providers := r\<rparr>) = rz_targetHealthSnapshot j"
  "rz_cloudAdmission (j\<lparr>pi_providers := r\<rparr>) = rz_cloudAdmission j"
  by simp_all

lemma providers_frame1 [simp]:
  "assert_safe_boundary (i\<lparr>pi_providers := r\<rparr>) = assert_safe_boundary i"
  "assert_session_start_state (i\<lparr>pi_providers := r\<rparr>) = assert_session_start_state i"
  "lease_of_local (i\<lparr>pi_providers := r\<rparr>) ps = lease_of_local i ps"
  "assert_provider_failure_state (i\<lparr>pi_providers := r\<rparr>) ps = assert_provider_failure_state i ps"
  "choose_route (i\<lparr>pi_providers := r\<rparr>) ps lp = choose_route i ps lp"
  "proposal_of (i\<lparr>pi_providers := r\<rparr>) ps c = proposal_of i ps c"
  "fallback_facts (i\<lparr>pi_providers := r\<rparr>) = fallback_facts i"
  "risk_fields (i\<lparr>pi_providers := r\<rparr>) d = risk_fields i d"
  "router_snapshot (i\<lparr>pi_providers := r\<rparr>) p ps hs sq req remaining = router_snapshot i p ps hs sq req remaining"
  "billing_projection (i\<lparr>pi_providers := r\<rparr>) q b = billing_projection i q b"
  unfolding assert_safe_boundary_def assert_session_start_state_def lease_of_local_def
    assert_provider_failure_state_def choose_route_def proposal_of_def fallback_facts_def
    risk_fields_def router_snapshot_def billing_projection_def Let_def providers_select
  by (rule refl)+

lemma providers_frame2 [simp]:
  "assert_evidence_complete_state (i\<lparr>pi_providers := r\<rparr>) ps = assert_evidence_complete_state i ps"
  "canonical_facts (i\<lparr>pi_providers := r\<rparr>) p = canonical_facts i p"
  "build_router_input (i\<lparr>pi_providers := r\<rparr>) p ps hs sq req = build_router_input i p ps hs sq req"
  unfolding assert_evidence_complete_state_def canonical_facts_def build_router_input_def
    Let_def providers_select providers_frame1
  by (rule refl)+

lemma providers_frame3 [simp]:
  "local_plan (i\<lparr>pi_providers := r\<rparr>) p t = local_plan i p t"
  "fallback_egress_identity (i\<lparr>pi_providers := r\<rparr>) = fallback_egress_identity i"
  "local_lease_checks (i\<lparr>pi_providers := r\<rparr>) p = local_lease_checks i p"
  "provider_gates (i\<lparr>pi_providers := r\<rparr>) p cloud adm h q remaining a = provider_gates i p cloud adm h q remaining a"
  "denied_plan (i\<lparr>pi_providers := r\<rparr>) lp adm lease = denied_plan i lp adm lease"
  "admitted_plan (i\<lparr>pi_providers := r\<rparr>) cloud adm bl = admitted_plan i cloud adm bl"
  "local_can_retain (i\<lparr>pi_providers := r\<rparr>) p lp h remaining = local_can_retain i p lp h remaining"
  "base_decision (i\<lparr>pi_providers := r\<rparr>) p reason facts a x = base_decision i p reason facts a x"
  unfolding local_plan_def fallback_egress_identity_def local_lease_checks_def
    provider_gates_def denied_plan_def admitted_plan_def local_can_retain_def base_decision_def
    Let_def providers_select resolution_select providers_frame1 providers_frame2
  by (rule refl)+

lemma providers_frame4 [simp]:
  "cloud_gates (i\<lparr>pi_providers := r\<rparr>) p cloud adm h q remaining = cloud_gates i p cloud adm h q remaining"
  "budget_gate (i\<lparr>pi_providers := r\<rparr>) cloud adm q a = budget_gate i cloud adm q a"
  "local_route (i\<lparr>pi_providers := r\<rparr>) p t reason facts x h = local_route i p t reason facts x h"
  "denied_route (i\<lparr>pi_providers := r\<rparr>) p cloud lp adm h q x a reason bill facts lease =
     denied_route i p cloud lp adm h q x a reason bill facts lease"
  "admitted_route (i\<lparr>pi_providers := r\<rparr>) p cloud adm h q x a b facts =
     admitted_route i p cloud adm h q x a b facts"
  unfolding cloud_gates_def budget_gate_def local_route_def denied_route_def admitted_route_def
    Let_def providers_select resolution_select providers_frame1 providers_frame2
    providers_frame3
  by (rule refl)+

lemma providers_frame5 [simp]:
  "local_decision (i\<lparr>pi_providers := r\<rparr>) p ps t req = local_decision i p ps t req"
  "denied_cloud_decision (i\<lparr>pi_providers := r\<rparr>) p cloud lp adm h q x a reason bill =
     denied_cloud_decision i p cloud lp adm h q x a reason bill"
  "admitted_cloud_decision (i\<lparr>pi_providers := r\<rparr>) p cloud adm h q x a b =
     admitted_cloud_decision i p cloud adm h q x a b"
  unfolding local_decision_def denied_cloud_decision_def admitted_cloud_decision_def Let_def
    providers_select resolution_select providers_frame1 providers_frame2 providers_frame3
    providers_frame4
  by (rule refl)+

lemma providers_frame6 [simp]:
  "after_gates (i\<lparr>pi_providers := r\<rparr>) p cloud lp adm h l q remaining x g bill =
     after_gates i p cloud lp adm h l q remaining x g bill"
  unfolding after_gates_def Let_def providers_select resolution_select providers_frame1
    providers_frame2 providers_frame3 providers_frame4 providers_frame5
  by (rule refl)+

lemma providers_frame7 [simp]:
  "cloud_decision (i\<lparr>pi_providers := r\<rparr>) p ps cloud lp adm = cloud_decision i p ps cloud lp adm"
  unfolding cloud_decision_def Let_def providers_select resolution_select providers_frame1
    providers_frame2 providers_frame3 providers_frame4 providers_frame5 providers_frame6
  by (rule refl)+

section \<open>Normalisation and parsing\<close>

lemma normalize_providers_permute:
  assumes "mset ps = mset qs"
  shows "normalize_providers ps = normalize_providers qs"
proof -
  let ?c = "map clean_checkpoint_provider"
  have m: "mset (?c ps) = mset (?c qs)" using assms by simp
  have all: "list_all valid_checkpoint_provider (?c ps) = list_all valid_checkpoint_provider (?c qs)"
    using mset_eq_setD [OF assms] by (simp add: list_all_iff)
  have ids: "mset (map rp_providerId (?c ps)) = mset (map rp_providerId (?c qs))"
    using m by (simp only: mset_map [of rp_providerId])
  have d: "distinct (map rp_providerId (?c ps)) = distinct (map rp_providerId (?c qs))"
    using ids by (rule mset_eq_imp_distinct_iff)
  have "sort_key rp_providerId (?c ps) = sort_key rp_providerId (?c qs)"
    if "distinct (map rp_providerId (?c qs))"
  proof (rule sort_key_inj_key_eq)
    show "mset (?c ps) = mset (sort_key rp_providerId (?c qs))" using m by simp
    show "inj_on rp_providerId (set (?c ps))"
      using that d by (metis distinct_map)
    show "sorted (map rp_providerId (sort_key rp_providerId (?c qs)))" by simp
  qed
  then show ?thesis
    unfolding normalize_providers_def Let_def all d
    by (cases "distinct (map rp_providerId (?c qs))")
      (simp_all add: guarded_def checks.simps throw_if_def)
qed

lemma clean_resolution_providers:
  "clean_resolution_input (i\<lparr>pi_providers := qs\<rparr>) =
     (clean_resolution_input i)\<lparr>pi_providers := map clean_checkpoint_provider qs\<rparr>"
  by (simp add: clean_resolution_input_def clean_proposal_input_def)

lemma valid_resolution_providers:
  assumes "mset qs = mset (pi_providers i)"
  shows "valid_resolution_input (i\<lparr>pi_providers := qs\<rparr>) = valid_resolution_input i"
  using mset_eq_length [OF assms] mset_eq_setD [OF assms]
  by (simp add: valid_resolution_input_def valid_proposal_input_def list_all_iff)

lemma parse_resolution_permute:
  assumes "mset qs = mset (pi_providers i)"
  shows "parse_resolution_input (i\<lparr>pi_providers := qs\<rparr>) =
    map_sum (\<lambda>e. e) (\<lambda>c. c\<lparr>pi_providers := map clean_checkpoint_provider qs\<rparr>) (parse_resolution_input i)"
proof -
  have m: "mset (map clean_checkpoint_provider qs) = mset (pi_providers (clean_resolution_input i))"
    using assms by (simp add: clean_resolution_input_def clean_proposal_input_def)
  show ?thesis
    using valid_resolution_providers [OF m]
    by (simp add: parse_resolution_input_def clean_resolution_providers Let_def)
qed

lemma propose_permute:
  assumes pi: "parsed_input i" and m: "mset qs = mset (pi_providers i)"
    and pq: "parsed_input (i\<lparr>pi_providers := qs\<rparr>)"
  shows "propose_checkpoint_route (proposal_input.truncate (i\<lparr>pi_providers := qs\<rparr>)) =
    propose_checkpoint_route (proposal_input.truncate i)"
proof -
  have t: "proposal_input.truncate (i\<lparr>pi_providers := qs\<rparr>) = (proposal_input.truncate i)\<lparr>pi_providers := qs\<rparr>"
    by (simp add: proposal_input.truncate_def)
  have "parse_proposal_input ((proposal_input.truncate i)\<lparr>pi_providers := qs\<rparr>) =
      Inr ((proposal_input.truncate i)\<lparr>pi_providers := qs\<rparr>)"
    using parse_truncated [OF pq] by (simp add: t)
  with parse_truncated [OF pi] normalize_providers_permute [OF m] show ?thesis
    by (simp add: t propose_checkpoint_route_def)
qed

lemma resolve_permuted:
  assumes m: "mset qs = mset (pi_providers i)"
  shows "resolve_checkpoint_route (i\<lparr>pi_providers := qs\<rparr>) = resolve_checkpoint_route i"
proof (cases "parse_resolution_input i")
  case (Inl e)
  then show ?thesis by (simp add: resolve_checkpoint_route_def parse_resolution_permute [OF m])
next
  case (Inr c)
  let ?qs = "map clean_checkpoint_provider qs"
  have c: "c = clean_resolution_input i"
    using Inr by (auto simp: parse_resolution_input_def Let_def split: if_splits)
  have mc: "mset ?qs = mset (pi_providers c)"
    using m unfolding c by (simp add: clean_resolution_input_def clean_proposal_input_def)
  have pr: "parse_resolution_input (i\<lparr>pi_providers := qs\<rparr>) = Inr (c\<lparr>pi_providers := ?qs\<rparr>)"
    by (simp add: parse_resolution_permute [OF m] Inr)
  note pc = parse_resolution_input [OF Inr] and pq = parse_resolution_input [OF pr]
  have n: "normalize_providers (pi_providers (c\<lparr>pi_providers := ?qs\<rparr>)) = normalize_providers (pi_providers c)"
    using normalize_providers_permute [OF mc] by simp
  show ?thesis
    unfolding resolve_checkpoint_route_def pr Inr bind_result_simps proposal_input_from_resolution_def
      propose_permute [OF pc mc pq] n providers_select resolution_select providers_frame5 providers_frame7
    by (rule refl)
qed

end
