(* ===== verification/SampleRoutes.thy ===== *)
theory SampleRoutes
  imports CheckpointRouter
begin

text \<open>
  A concrete boundary for the witnesses: a high-risk review under a consenting hybrid policy, with
  an open cloud provider, and the same boundary with a packet that egress refuses. Nothing here
  models code.
\<close>

definition route_time :: string where
  "route_time = ''2026-09-01T00:00:00.000Z''"

definition route_policy :: policy_v2 where
  "route_policy =
     \<lparr>p2_inferenceRounds = 4, p2_toolCalls = 4, p2_routingPolicy = Hybrid_v0,
      p2_maxProviderChanges = 2, p2_maxPaidAttempts = 1, p2_maxPaidEpisodeMicrousd = 250000,
      p2_maxEpisodeDurationMs = 600000, p2_attemptTimeoutMs = 60000,
      p2_egressConsent = Session_cloud_synthesis_v1, p2_simulationConsent = None\<rparr>"

definition route_local :: router_provider where
  "route_local =
     \<lparr>rp_providerId = ''local'', rp_model = ''lm'', rp_locality = Local_provider, rp_enabled = True,
      rp_capabilities = [''chat_completions'', ''streaming'', ''tool_calling''],
      rp_accountingKind = Local_zero_cost, rp_contextWindowTokens = 9000, rp_maxOutputTokens = 1000,
      rp_requestReserveTokens = 10\<rparr>"

definition route_cloud :: router_provider where
  "route_cloud =
     \<lparr>rp_providerId = ''cloud'', rp_model = ''cm'', rp_locality = Cloud_provider, rp_enabled = True,
      rp_capabilities = [''chat_completions'', ''streaming''],
      rp_accountingKind = Metered, rp_contextWindowTokens = 9000, rp_maxOutputTokens = 1000,
      rp_requestReserveTokens = 10\<rparr>"

definition route_health :: "string \<Rightarrow> string \<Rightarrow> string \<Rightarrow> health_snapshot" where
  "route_health s p m =
     \<lparr>hs_snapshotId = s, hs_providerId = p, hs_model = m, hs_checkedAt = route_time,
      hs_expiresAt = ''2026-09-01T00:01:00.000Z'', hs_status = Healthy, hs_resultCode = ''ok''\<rparr>"

definition route_pricing :: pricing_snapshot where
  "route_pricing =
     \<lparr>ps_snapshotId = ''p1'', ps_providerId = ''cloud'', ps_model = ''cm'', ps_verifiedAt = route_time,
      ps_expiresAt = ''2026-09-02T00:00:00.000Z'', ps_status = Pricing_available, ps_inputRate = 100,
      ps_outputRate = 200, ps_cacheReadRate = 10,
      ps_pricingSourceSha256 = replicate 64 (CHR ''a'')\<rparr>"

definition route_signal :: "string \<Rightarrow> json \<Rightarrow> int \<Rightarrow> int \<Rightarrow> risk_signal" where
  "route_signal n v w c = \<lparr>rs_name = n, rs_value = v, rs_weight = w, rs_contribution = c\<rparr>"

definition route_risk :: router_risk where
  "route_risk =
     \<lparr>rk_snapshotId = replicate 64 (CHR ''b''), rk_classification = High_risk, rk_score = Some 4,
      rk_signals =
        [route_signal ''changed_file_count'' (JNumber 10) 1 1,
         route_signal ''changed_line_count'' (JNumber 500) 1 1,
         route_signal ''changed_surface_count'' (JNumber 3) 2 2,
         route_signal ''runtime_without_relevant_test'' (JBool False) 2 0,
         route_signal ''sensitive_subsystem'' (JBool False) 2 0],
      rk_incompleteReason = None,
      rk_triggerFacts =
        [string_fact ''risk_classification'' ''high_risk'',
         string_fact ''risk_snapshot_id'' (replicate 64 (CHR ''b''))]\<rparr>"

definition route_state :: router_state where
  "route_state =
     \<lparr>st_activeLease = Some \<lparr>al_leaseId = ''l1'', al_decisionId = ''d1'', al_providerId = ''local'',
        al_model = ''lm'', al_phase = Investigation\<rparr>,
      st_completedBoundaries = [Session_start], st_providerChangeCount = 0, st_paidAttemptCount = 0,
      st_hasStreamingAssistant = False, st_hasOpenAttempt = False, st_hasPendingToolCall = False,
      st_finishedAttemptCount = 1, st_successfulInvestigationAttemptCount = 1,
      st_evidenceReady = True, st_lastAttempt = None\<rparr>"

definition route_admission :: "bool \<Rightarrow> cloud_admission" where
  "route_admission egress =
     \<lparr>cl_credentialMetadataId = ''c1'', cl_credentialAvailable = True,
      cl_retainedLocalHealthSnapshot = route_health ''h2'' ''local'' ''lm'',
      cl_pricingSnapshot = route_pricing,
      cl_packet = \<lparr>pk_checkpointId = ''k1'', pk_packetSha256 = replicate 64 (CHR ''c''),
        pk_messagesSha256 = replicate 64 (CHR ''d''), pk_egressAllowed = egress,
        pk_cloudEgressAdmissionId = None\<rparr>,
      cl_budget = \<lparr>ba_campaignId = ''camp'', ba_reservationId = ''r1'', ba_billableInputTokens = 1000,
        ba_billableCacheReadTokens = 0, ba_requestedMaxOutputTokens = 500,
        ba_providerFeeCeilingMicrousd = 0, ba_remainingEpisodeMicrousd = 250000,
        ba_remainingCampaignMicrousd = 250000, ba_budgetDenialReason = None\<rparr>\<rparr>"

definition route_input :: "bool \<Rightarrow> resolution_input" where
  "route_input egress =
     \<lparr>pi_policy = route_policy, pi_asOf = route_time, pi_deadlineAt = ''2026-09-01T00:10:00.000Z'',
      pi_providers = [route_local, route_cloud], pi_localProviderId = ''local'',
      pi_cloudProviderId = Some ''cloud'', pi_structuredOutputContract = None,
      pi_state = route_state, pi_point = At_evidence_complete route_risk,
      rz_decisionId = ''d2'', rz_selectedLeaseId = ''l2'',
      rz_targetHealthSnapshot = route_health ''h1'' ''cloud'' ''cm'',
      rz_cloudAdmission = Some (route_admission egress)\<rparr>"

definition route_reason :: "resolution_input \<Rightarrow> routing_reason option" where
  "route_reason i = (case resolve_checkpoint_route i of
       Inr (Decision_result d a) \<Rightarrow> Some (rd_reasonCode d)
     | _ \<Rightarrow> None)"

end
