(* ===== verification/SampleRouteRuns.thy ===== *)
theory SampleRouteRuns
  imports SampleRoutes
begin

text \<open>The concrete boundaries, resolved.\<close>

lemma route_reasons:
  "route_reason (route_input True) = Some Rr_cloud_admitted \<and>
   route_reason (route_input False) = Some Rr_egress_denial \<and>
   is_ok (parse_resolution_input (route_input True)) \<and> is_ok (parse_resolution_input (route_input False))"
  by code_simp

end
