(* ===== verification/RouterProperties.thy ===== *)
theory RouterProperties
  imports RouterOrder SampleRouteRuns
begin

text \<open>
  The properties of the checkpoint router; their witnesses use the two concrete boundaries.
\<close>

lemma route_snapshots: "snapshots_named (clean_resolution_input (route_input True))"
  by code_simp

lemma route_run:
  assumes "route_reason i = Some reason" "is_ok (parse_resolution_input i)"
  obtains c d a where "parse_resolution_input i = Inr c" "resolve_checkpoint_route i = Inr (Decision_result d a)"
    "rd_reasonCode d = reason"
  using assms by (auto simp: route_reason_def elim!: is_okE split: sum.splits router_result.splits)

section \<open>Results are well formed\<close>

text \<open>C34. Whatever the router returns fits the schemas of the event log, and it never fails
  because of a value it built itself: for every input that parses, and a caller that passes the
  snapshots of the providers it names, a resolution ends with a terminal denial, with a decision
  and an attempt plan that both satisfy their schemas and agree on provider, model, lease, phase,
  reservation, cost scope and egress identity, or with an error about the caller's input.\<close>

theorem router_results_are_well_formed:
  assumes "parse_resolution_input i = Inr c" "snapshots_named c"
  shows "case resolve_checkpoint_route i of
      Inl e \<Rightarrow> \<not> internal_error e
    | Inr (Terminal_denial code) \<Rightarrow> True
    | Inr (Decision_result d a) \<Rightarrow> valid_routing_decision d \<and> valid_attempt_plan a \<and> plan_agrees d a"
  using assms(1) refl
proof (cases rule: resolve_cases)
  case (proposal e)
  with propose_errors [OF parse_resolution_input [OF assms(1)]] show ?thesis by simp
next
  case (local p ps t req)
  note e = local_decision_errors [OF local(1-6)]
  have r: "valid_routing_decision d \<and> valid_attempt_plan a \<and> plan_agrees d a"
    if "local_decision c p ps t req = Inr (Decision_result d a)" for d a
    using that by (rule local_decision_Inr) (simp add: plan_agrees_clean routes_agree_with_plans)
  show ?thesis
    using e r by (auto simp: local(7) split: sum.split router_result.split)
next
  case (cloud p ps cl lp adm)
  note e = cloud_decision_errors [OF cloud(1) snapshots_named_match [OF cloud(1) assms(2)]]
  have r: "valid_routing_decision d \<and> valid_attempt_plan a \<and> plan_agrees d a"
    if "cloud_decision c p ps cl lp adm = Inr (Decision_result d a)" for d a
    using cloud(1) that
    by (rule cloud_decision_Inr)
      (simp_all add: plan_agrees_clean routes_agree_with_plans cloud_proposal [OF cloud(1)])
  show ?thesis
    using e r by (auto simp: cloud(2) split: sum.split router_result.split)
qed simp

theorem router_results_are_well_formed_witness:
  "\<exists>d a. resolve_checkpoint_route (route_input True) = Inr (Decision_result d a) \<and>
     valid_routing_decision d \<and> plan_agrees d a"
proof -
  have ok: "route_reason (route_input True) = Some Rr_cloud_admitted"
    "is_ok (parse_resolution_input (route_input True))" using route_reasons by simp_all
  obtain c d a where r: "parse_resolution_input (route_input True) = Inr c"
    "resolve_checkpoint_route (route_input True) = Inr (Decision_result d a)" by (rule route_run [OF ok])
  have "c = clean_resolution_input (route_input True)"
    using r(1) by (auto simp: parse_resolution_input_def Let_def split: if_splits)
  with router_results_are_well_formed [OF r(1)] route_snapshots r(2) show ?thesis by simp
qed

section \<open>Admission to the cloud\<close>

lemma output_costs_something:
  assumes "parsed_input i" "valid_pricing_snapshot q" "ps_status q = Pricing_available"
    and "valid_budget_admission b" "billing_projection i q b = Inr bill"
  shows "1 \<le> bl_projectedCostMicrousd bill"
proof -
  have nn: "0 \<le> ceil_component t r" if "0 \<le> t" "0 \<le> r" for t r
    using that by (simp add: ceil_component_def pos_imp_zdiv_nonneg_iff)
  have q: "0 \<le> ps_inputRate q" "1 \<le> ps_outputRate q" "0 \<le> ps_cacheReadRate q"
    using assms(2,3) by (auto simp: valid_pricing_snapshot_def safe_non_negative_def)
  have b: "0 \<le> ba_billableInputTokens b" "1 \<le> ba_requestedMaxOutputTokens b"
    "0 \<le> ba_billableCacheReadTokens b" "0 \<le> ba_providerFeeCeilingMicrousd b"
    using assms(4) by (auto simp: valid_budget_admission_def safe_non_negative_def safe_positive_def)
  have "1 \<le> ba_requestedMaxOutputTokens b * ps_outputRate q"
    using mult_mono [of 1 "ba_requestedMaxOutputTokens b" 1 "ps_outputRate q"] q b by simp
  then have "1 \<le> ceil_component (ba_requestedMaxOutputTokens b) (ps_outputRate q)"
    using zdiv_mono1 [of 1000000 "ba_requestedMaxOutputTokens b * ps_outputRate q + 1000000 - 1" 1000000]
    by (simp add: ceil_component_def)
  moreover have "0 \<le> ceil_component (ba_billableInputTokens b) (ps_inputRate q)"
    "0 \<le> ceil_component (ba_billableCacheReadTokens b) (ps_cacheReadRate q)" using nn q b by simp_all
  moreover have "bl_projectedCostMicrousd bill = ceil_component (ba_billableInputTokens b) (ps_inputRate q) +
      ceil_component (ba_requestedMaxOutputTokens b) (ps_outputRate q) +
      ceil_component (ba_billableCacheReadTokens b) (ps_cacheReadRate q) + ba_providerFeeCeilingMicrousd b"
    using assms(5) by (auto simp: billing_projection_def Let_def check_simps)
  ultimately show ?thesis using b(4) by linarith
qed

text \<open>The conditions of a cloud admission, on the parsed input.\<close>

definition cloud_gates_open :: "resolution_input \<Rightarrow> router_provider \<Rightarrow> cloud_admission \<Rightarrow> bool" where
  "cloud_gates_open i cloud adm \<longleftrightarrow>
     rp_enabled cloud \<and> {''chat_completions'', ''streaming''} \<subseteq> set (rp_capabilities cloud) \<and>
     (\<exists>remaining. remaining_between (pi_asOf i) (pi_deadlineAt i) = Some remaining \<and>
        p2_attemptTimeoutMs (pi_policy i) \<le> remaining) \<and>
     cl_credentialAvailable adm \<and> health_is_usable (rz_targetHealthSnapshot i) cloud (pi_asOf i) \<and>
     pricing_is_usable (cl_pricingSnapshot adm) cloud (pi_asOf i) \<and>
     pk_egressAllowed (cl_packet adm) \<and>
     (simulation_consent_given (pi_policy i) \<and> p2_routingPolicy (pi_policy i) = Hybrid_simulation_v1 \<or>
      hybrid_consent_given (pi_policy i))"

lemma synthesis_needs_chat:
  assumes "cloud_branch i p ps cloud lp adm" "has_capabilities cloud (pr_requiredCapabilities p)"
  shows "{''chat_completions'', ''streaming''} \<subseteq> set (rp_capabilities cloud)"
proof -
  have pr: "proposed i p ps" and ci: "pr_intent p = Cloud_synthesis" using assms(1) by (simp_all add: cloud_branch_def)
  obtain lp' c where c: "choose_route i ps lp' = Inr c" "p = proposal_of i ps c" by (rule proposedE [OF pr])
  have "ch_requiredCapabilities c \<in> {synthesis_capabilities, change_review_synthesis_capabilities}"
    using c(1) ci unfolding c(2)
    by (auto simp: choose_route_def default_choice_def Let_def check_simps
        split: route_point.splits if_splits option.splits)
  with assms(2) show ?thesis
    unfolding c(2) by (auto simp: has_capabilities_def synthesis_capabilities_def
        change_review_synthesis_capabilities_def)
qed

lemma gates_open:
  assumes b: "cloud_branch i p ps cloud lp adm"
    and rem: "remaining_milliseconds (pi_asOf i) (pi_deadlineAt i) = Inr remaining"
    and g: "cloud_gates i p cloud adm (rz_targetHealthSnapshot i) (cl_pricingSnapshot adm) remaining = (a, None)"
  shows "cloud_gates_open i cloud adm"
proof -
  have every: "list_all snd (gate_list i p cloud adm (rz_targetHealthSnapshot i) (cl_pricingSnapshot adm) remaining)"
    by (rule all_gates_open [OF g])
  then have "has_capabilities cloud (pr_requiredCapabilities p)" by (simp add: gate_list_def Let_def)
  with every synthesis_needs_chat [OF b] remaining_milliseconds_Inr(1) [OF rem] show ?thesis
    by (auto simp: gate_list_def Let_def cloud_gates_open_def split: if_splits)
qed

lemma admitted_budget:
  assumes b: "cloud_branch i p ps cloud lp adm"
    and g: "budget_gate i cloud adm (cl_pricingSnapshot adm) g0 = Inr ((a, None), bl)"
    and opn: "cloud_gates_open i cloud adm"
  shows "billing_projection i (cl_pricingSnapshot adm) (cl_budget adm) = Inr bl"
    and "ba_budgetDenialReason (cl_budget adm) \<noteq> Some Campaign_overrun"
    and "1 \<le> bl_projectedCostMicrousd bl" "st_paidAttemptCount (pi_state i) = 0"
    and "bl_projectedCostMicrousd bl \<le> p2_maxPaidEpisodeMicrousd (pi_policy i)"
    and "bl_projectedCostMicrousd bl \<le> ba_remainingEpisodeMicrousd (cl_budget adm)"
    and "bl_projectedCostMicrousd bl \<le> ba_remainingCampaignMicrousd (cl_budget adm)"
proof -
  have pi: "parsed_input i" using b by (simp add: cloud_branch_def proposed_def)
  note ci = cloud_inputs [OF b]
  note ids = admission_ids [OF ci(1,2)]
  show bg: "billing_projection i (cl_pricingSnapshot adm) (cl_budget adm) = Inr bl"
    and "ba_budgetDenialReason (cl_budget adm) \<noteq> Some Campaign_overrun"
    using g by (auto simp: budget_gate_def Let_def check_simps split: if_splits)
  have fits: "\<not> exceeds_budget bl"
    using g by (auto simp: budget_gate_def Let_def check_simps split: if_splits)
  show one: "1 \<le> bl_projectedCostMicrousd bl"
    using opn by (intro output_costs_something [OF pi ci(8) _ ids(13) bg])
      (simp add: cloud_gates_open_def pricing_is_usable_def)
  have rem: "bl_remainingEpisodeMicrousd bl = (if 1 \<le> st_paidAttemptCount (pi_state i) then 0
      else min (ba_remainingEpisodeMicrousd (cl_budget adm)) (p2_maxPaidEpisodeMicrousd (pi_policy i)))"
    "bl_remainingCampaignMicrousd bl = ba_remainingCampaignMicrousd (cl_budget adm)"
    using bg parsed_timeout(2) [OF pi] by (auto simp: billing_projection_def Let_def check_simps)
  show paid: "st_paidAttemptCount (pi_state i) = 0"
    using one fits rem(1) parsed_valid(9) [OF pi]
    by (auto simp: exceeds_budget_def valid_router_state_def split: if_splits)
  show "bl_projectedCostMicrousd bl \<le> p2_maxPaidEpisodeMicrousd (pi_policy i)"
    "bl_projectedCostMicrousd bl \<le> ba_remainingEpisodeMicrousd (cl_budget adm)"
    "bl_projectedCostMicrousd bl \<le> ba_remainingCampaignMicrousd (cl_budget adm)"
    using fits rem paid by (simp_all add: exceeds_budget_def not_less)
qed

text \<open>C35. A cloud route is admitted only for a high-risk review under a hybrid policy, to an
  enabled configured cloud provider with the capabilities, a healthy and a priced snapshot that
  are fresh, a credential, consent and an allowed packet, enough time for one attempt, no paid
  attempt before, a campaign that no overrun has closed, and a projected cost within the limit of
  the episode and both remaining budgets; the decision carries exactly this cost and reserves it.\<close>

theorem admitted_cloud_passed_every_gate:
  assumes "parse_resolution_input i = Inr c"
    and "resolve_checkpoint_route i = Inr (Decision_result d a)" "rd_reasonCode d = Rr_cloud_admitted"
  shows "\<exists>risk cloud adm bill.
    pi_point c = At_evidence_complete risk \<and> rk_classification risk = High_risk \<and> hybrid_policy (pi_policy c) \<and>
    cloud \<in> set (pi_providers c) \<and> rp_locality cloud = Cloud_provider \<and>
    rp_providerId cloud = rd_selectedProviderId d \<and> rz_cloudAdmission c = Some adm \<and>
    cloud_gates_open c cloud adm \<and> st_paidAttemptCount (pi_state c) = 0 \<and>
    ba_budgetDenialReason (cl_budget adm) \<noteq> Some Campaign_overrun \<and>
    billing_projection c (cl_pricingSnapshot adm) (cl_budget adm) = Inr bill \<and> rd_billing d = Some bill \<and>
    1 \<le> bl_projectedCostMicrousd bill \<and>
    bl_projectedCostMicrousd bill \<le> p2_maxPaidEpisodeMicrousd (pi_policy c) \<and>
    bl_projectedCostMicrousd bill \<le> ba_remainingEpisodeMicrousd (cl_budget adm) \<and>
    bl_projectedCostMicrousd bill \<le> ba_remainingCampaignMicrousd (cl_budget adm) \<and>
    rd_budgetReservationId d = Some (ba_reservationId (cl_budget adm))"
  using assms(1,2)
proof (cases rule: resolve_cases)
  case (local p ps t req)
  from local(7) [symmetric] show ?thesis
  proof (rule local_decision_Inr)
    fix reason facts x
    assume r: "local_reason (pr_intent p) = Inr reason"
      "d = clean_routing_decision (local_route c p t reason facts x (clean_health_snapshot (rz_targetHealthSnapshot c)))"
    from local_proposal(4) [OF local(1,2) r(1)] assms(3) show ?thesis
      by (simp add: r(2) clean_routing_decision_def)
  qed
next
  case (cloud p ps cl lp adm)
  have pr: "proposed c p ps" and t: "find_provider ps (pr_targetProviderId p) = Some cl"
    and adm: "rz_cloudAdmission c = Some adm" using cloud(1) by (simp_all add: cloud_branch_def)
  have pi: "parsed_input c" using pr by (simp add: proposed_def)
  note cp = cloud_proposal [OF cloud(1)] and ci = cloud_inputs [OF cloud(1)] and tc = target_clean [OF pr t]
  note ids = admission_ids [OF ci(1,2)]
  from cloud(1) cloud(2) [symmetric] show ?thesis
  proof (cases rule: cloud_decision_Inr)
    case (denied remaining g reason facts x bill lease)
    have "is_cloud_proposal_denial reason"
      using denied(2) cloud_gates_ok [of c remaining p cl adm "rz_targetHealthSnapshot c" "cl_pricingSnapshot adm"]
      by (auto simp: gate_state_ok_def is_cloud_proposal_denial_def cloud_proposal_denial_reasons_def
          elim!: budget_gate_cases)
    with denied(4) assms(3) show ?thesis
      by (auto simp: clean_routing_decision_def is_cloud_proposal_denial_def cloud_proposal_denial_reasons_def)
  next
    case (admitted remaining g0 g facts x bl)
    have opn: "cloud_gates_open c cl adm" by (rule gates_open [OF cloud(1) admitted(1,2)])
    note bg = admitted_budget [OF cloud(1) admitted(3) opn]
    have mem: "cl \<in> set (pi_providers c)"
      using find_provider_SomeD [OF t] proposed_providers(1) [OF pr] by simp
    have d: "rp_providerId cl = rd_selectedProviderId d" "rd_billing d = Some bl"
      "rd_budgetReservationId d = Some (ba_reservationId (cl_budget adm))"
      using tc ids by (simp_all add: admitted(4) clean_routing_decision_def trimmed_def)
    show ?thesis
      using cp(4,6,7) mem adm opn bg d by blast
  qed
qed (use assms in auto)

theorem admitted_cloud_passed_every_gate_witness:
  "\<exists>c d a adm. parse_resolution_input (route_input True) = Inr c \<and>
     resolve_checkpoint_route (route_input True) = Inr (Decision_result d a) \<and>
     rz_cloudAdmission c = Some adm \<and> rd_budgetReservationId d = Some (ba_reservationId (cl_budget adm))"
proof -
  have ok: "route_reason (route_input True) = Some Rr_cloud_admitted"
    "is_ok (parse_resolution_input (route_input True))" using route_reasons by simp_all
  obtain c d a where r: "parse_resolution_input (route_input True) = Inr c"
    "resolve_checkpoint_route (route_input True) = Inr (Decision_result d a)"
    "rd_reasonCode d = Rr_cloud_admitted" by (rule route_run [OF ok])
  from admitted_cloud_passed_every_gate [OF this] r show ?thesis by blast
qed

section \<open>Denied cloud proposals\<close>

lemma find_none_open: "list_all snd xs \<Longrightarrow> find (\<lambda>g. \<not> snd g) xs = None"
  by (auto simp: find_None_iff list_all_iff)

lemma denied_reason:
  assumes "cloud_gates i p cloud adm h q remaining = (g, Some reason) \<and> bill = None \<or>
     (\<exists>g0 bl. cloud_gates i p cloud adm h q remaining = (g0, None) \<and> bill = Some bl \<and>
       budget_gate i cloud adm q g0 = Inr ((g, Some reason), bl))"
  shows "case find (\<lambda>g. \<not> snd g) (gate_list i p cloud adm h q remaining) of
      Some gate \<Rightarrow> reason = fst gate
    | None \<Rightarrow> reason = Rr_budget_denial \<and>
        (\<exists>bl. billing_projection i q (cl_budget adm) = Inr bl \<and>
          (exceeds_budget bl \<or> ba_budgetDenialReason (cl_budget adm) = Some Campaign_overrun))"
  using assms
proof (elim disjE conjE exE)
  assume g: "cloud_gates i p cloud adm h q remaining = (g, Some reason)"
  have "map_option fst (find (\<lambda>g. \<not> snd g) (gate_list i p cloud adm h q remaining)) = Some reason"
    using gates_deny_first_failure [of i p cloud adm h q remaining] g by simp
  then show ?thesis by auto
next
  fix g0 bl
  assume g: "cloud_gates i p cloud adm h q remaining = (g0, None)"
    and bg: "budget_gate i cloud adm q g0 = Inr ((g, Some reason), bl)"
  show ?thesis
    using find_none_open [OF all_gates_open [OF g]] bg by (auto elim!: budget_gate_cases)
qed

text \<open>C36. A denied cloud proposal names the first gate that is closed, in the order egress (in
  a simulation), enabled provider, capabilities, deadline, credential, health, pricing, egress
  (outside a simulation), budget; it keeps the session on its local provider and its lease,
  reserves nothing, and its plan is tool-free.\<close>

theorem denial_names_first_closed_gate:
  assumes "parse_resolution_input i = Inr c"
    and "resolve_checkpoint_route i = Inr (Decision_result d a)" "is_cloud_proposal_denial (rd_reasonCode d)"
  shows "\<exists>p cloud adm remaining lease.
    propose_checkpoint_route (proposal_input_from_resolution c) = Inr p \<and>
    cloud \<in> set (pi_providers c) \<and> rp_locality cloud = Cloud_provider \<and> rz_cloudAdmission c = Some adm \<and>
    remaining_between (pi_asOf c) (pi_deadlineAt c) = Some remaining \<and>
    (case find (\<lambda>g. \<not> snd g)
        (gate_list c p cloud adm (rz_targetHealthSnapshot c) (cl_pricingSnapshot adm) remaining) of
      Some gate \<Rightarrow> rd_reasonCode d = fst gate
    | None \<Rightarrow> rd_reasonCode d = Rr_budget_denial \<and>
        (\<exists>bl. billing_projection c (cl_pricingSnapshot adm) (cl_budget adm) = Inr bl \<and>
          (exceeds_budget bl \<or> ba_budgetDenialReason (cl_budget adm) = Some Campaign_overrun))) \<and>
    st_activeLease (pi_state c) = Some lease \<and> rd_selectedLeaseId d = al_leaseId lease \<and>
    rd_selectedProviderId d = pi_localProviderId c \<and> rd_budgetReservationId d = None \<and>
    pl_leaseId a = al_leaseId lease \<and> pl_budgetReservationId a = None \<and> \<not> pl_allowTools a"
  using assms(1,2)
proof (cases rule: resolve_cases)
  case (local p ps t req)
  from local(7) [symmetric] show ?thesis
  proof (rule local_decision_Inr)
    fix reason facts x
    assume r: "local_reason (pr_intent p) = Inr reason"
      "d = clean_routing_decision (local_route c p t reason facts x (clean_health_snapshot (rz_targetHealthSnapshot c)))"
    from local_proposal(4) [OF local(1,2) r(1)] assms(3) show ?thesis
      by (simp add: r(2) clean_routing_decision_def)
  qed
next
  case (cloud p ps cl lp adm)
  have pr: "proposed c p ps" and t: "find_provider ps (pr_targetProviderId p) = Some cl"
    and lp: "find_provider ps (pi_localProviderId c) = Some lp"
    and adm: "rz_cloudAdmission c = Some adm" using cloud(1) by (simp_all add: cloud_branch_def)
  note cp = cloud_proposal [OF cloud(1)] and lc = target_clean [OF pr lp] and lease = proposed_lease [OF pr]
  from cloud(1) cloud(2) [symmetric] show ?thesis
  proof (cases rule: cloud_decision_Inr)
    case (admitted remaining g0 g facts x bl)
    with assms(3) show ?thesis
      by (simp add: clean_routing_decision_def is_cloud_proposal_denial_def cloud_proposal_denial_reasons_def)
  next
    case (denied remaining g reason facts x bill l)
    obtain al where al: "st_activeLease (pi_state c) = Some al" "l = al_leaseId al" "js_trim l = l"
      using denied(3) lease(2) proposed_common(3) [OF pr] by (auto simp: trimmed_def)
    have d: "rd_reasonCode d = reason" "rd_selectedLeaseId d = l" "rd_selectedProviderId d = pi_localProviderId c"
      "rd_budgetReservationId d = None" "pl_leaseId a = l" "pl_budgetReservationId a = None" "\<not> pl_allowTools a"
      using lc al(3) by (simp_all add: denied(4,5) clean_routing_decision_def clean_attempt_plan_def
          denied_plan_def trimmed_def)
    have mem: "cl \<in> set (pi_providers c)"
      using find_provider_SomeD [OF t] proposed_providers(1) [OF pr] by simp
    have p: "propose_checkpoint_route (proposal_input_from_resolution c) = Inr p"
      using pr by (simp add: proposed_def proposal_input_from_resolution_def)
    show ?thesis
      using denied_reason [OF denied(2)] p mem cp(4) adm remaining_milliseconds_Inr(1) [OF denied(1)] al(1,2) d
      by blast
  qed
qed (use assms in auto)

theorem denial_names_first_closed_gate_witness:
  "\<exists>c d a. parse_resolution_input (route_input False) = Inr c \<and>
     resolve_checkpoint_route (route_input False) = Inr (Decision_result d a) \<and>
     rd_selectedProviderId d = pi_localProviderId c \<and> pl_budgetReservationId a = None"
proof -
  have ok: "route_reason (route_input False) = Some Rr_egress_denial"
    "is_ok (parse_resolution_input (route_input False))" using route_reasons by simp_all
  obtain c d a where r: "parse_resolution_input (route_input False) = Inr c"
    "resolve_checkpoint_route (route_input False) = Inr (Decision_result d a)"
    "rd_reasonCode d = Rr_egress_denial" by (rule route_run [OF ok])
  have "is_cloud_proposal_denial (rd_reasonCode d)"
    using r(3) by (simp add: is_cloud_proposal_denial_def cloud_proposal_denial_reasons_def)
  from denial_names_first_closed_gate [OF r(1,2) this] r show ?thesis by blast
qed

section \<open>Order of the providers\<close>

text \<open>C37. The order in which the caller lists the providers never matters: every reordering of
  the list gives the same result, errors and terminal denials included.\<close>

theorem provider_order_is_irrelevant:
  assumes "mset qs = mset (pi_providers i)"
  shows "resolve_checkpoint_route (i\<lparr>pi_providers := qs\<rparr>) = resolve_checkpoint_route i"
  by (rule resolve_permuted [OF assms])

theorem provider_order_is_irrelevant_witness:
  "resolve_checkpoint_route ((route_input True)\<lparr>pi_providers := [route_cloud, route_local]\<rparr>) =
     resolve_checkpoint_route (route_input True)"
  by (rule provider_order_is_irrelevant) (simp add: route_input_def)

end
