(* ===== verification/SqlChecks.thy ===== *)
theory SqlChecks
  imports Prelude
begin

text \<open>
  The part of SQL the table definitions of \<open>main/database.ts\<close> rest on: the three truth values
  (\<open>None\<close> is NULL), comparisons that are NULL when an operand is, conjunctions, the rule that a
  CHECK rejects a row only when it is false (a NULL check passes), and the rule that a trigger's
  WHEN fires only when it is true.
\<close>

type_synonym sql_bool = "bool option"

definition sql_cmp :: "('a \<Rightarrow> 'b \<Rightarrow> bool) \<Rightarrow> 'a option \<Rightarrow> 'b option \<Rightarrow> sql_bool" where
  "sql_cmp f a b = (case (a, b) of (Some x, Some y) \<Rightarrow> Some (f x y) | _ \<Rightarrow> None)"

definition sql_test :: "('a \<Rightarrow> bool) \<Rightarrow> 'a option \<Rightarrow> sql_bool" where
  "sql_test p a = map_option p a"

definition is_null :: "'a option \<Rightarrow> sql_bool" where
  "is_null a = Some (a = None)"

definition not_null :: "'a option \<Rightarrow> sql_bool" where
  "not_null a = Some (a \<noteq> None)"

definition sql_all :: "sql_bool list \<Rightarrow> sql_bool" where
  "sql_all cs =
     (if list_ex (\<lambda>c. c = Some False) cs then Some False
      else if list_ex (\<lambda>c. c = None) cs then None else Some True)"

definition check_passes :: "sql_bool \<Rightarrow> bool" where
  "check_passes c \<longleftrightarrow> c \<noteq> Some False"

text \<open>\<open>column IS NULL OR p(column)\<close>.\<close>

definition null_or :: "('a \<Rightarrow> bool) \<Rightarrow> 'a option \<Rightarrow> bool" where
  "null_or p a \<longleftrightarrow> (case a of None \<Rightarrow> True | Some x \<Rightarrow> p x)"

named_theorems sql_simps \<open>what a passed check says of the columns it names\<close>

lemma check_passes_all [sql_simps]:
  "check_passes (sql_all cs) \<longleftrightarrow> list_all check_passes cs"
  by (auto simp: check_passes_def sql_all_def list_ex_iff list_all_iff)

lemma check_passes_Some [sql_simps]: "check_passes (Some b) \<longleftrightarrow> b"
  by (simp add: check_passes_def)

lemma check_passes_null [sql_simps]:
  "check_passes (is_null a) \<longleftrightarrow> a = None" "check_passes (not_null a) \<longleftrightarrow> a \<noteq> None"
  by (simp_all add: check_passes_def is_null_def not_null_def)

lemma check_passes_cmp [sql_simps]:
  "check_passes (sql_cmp f a b) \<longleftrightarrow> (\<forall>x y. a = Some x \<longrightarrow> b = Some y \<longrightarrow> f x y)"
  by (auto simp: check_passes_def sql_cmp_def split: option.split)

lemma check_passes_test [sql_simps]:
  "check_passes (sql_test p a) \<longleftrightarrow> (\<forall>x. a = Some x \<longrightarrow> p x)"
  by (cases a) (simp_all add: check_passes_def sql_test_def)

lemma null_or_simps [simp]: "null_or p None" "null_or p (Some x) = p x"
  by (simp_all add: null_or_def)

section \<open>Text\<close>

text \<open>\<open>created_at GLOB '????-??-??T??:??:??.???Z'\<close>: the punctuation of a canonical time.\<close>

fun glob_matches :: "string \<Rightarrow> string \<Rightarrow> bool" where
  "glob_matches [] [] = True"
| "glob_matches (p # ps) (c # cs) = ((p = CHR ''?'' \<or> p = c) \<and> glob_matches ps cs)"
| "glob_matches _ _ = False"

definition timestamp_glob :: "string \<Rightarrow> bool" where
  "timestamp_glob = glob_matches ''????-??-??T??:??:??.???Z''"

definition nonempty_text :: "string \<Rightarrow> bool" where
  "nonempty_text s \<longleftrightarrow> length s > 0"

text \<open>A unique index: no row has the same value in the indexed column, and NULL never clashes.\<close>

definition clashes :: "('r \<Rightarrow> 'a option) \<Rightarrow> 'r list \<Rightarrow> 'r \<Rightarrow> bool" where
  "clashes key rows r \<longleftrightarrow> key r \<noteq> None \<and> list_ex (\<lambda>x. key x = key r) rows"

definition unique_by :: "('r \<Rightarrow> 'a option) \<Rightarrow> 'r list \<Rightarrow> bool" where
  "unique_by key rows \<longleftrightarrow> distinct (map key (filter (\<lambda>x. key x \<noteq> None) rows))"

lemma unique_by_Nil [simp]: "unique_by key []"
  by (simp add: unique_by_def)

lemma unique_by_snoc: "unique_by key rows \<Longrightarrow> \<not> clashes key rows r \<Longrightarrow> unique_by key (rows @ [r])"
  by (auto simp: unique_by_def clashes_def list_ex_iff)

lemma unique_byD:
  assumes "unique_by key rows" "x \<in> set rows" "y \<in> set rows" "key x = Some k" "key y = Some k"
  shows "x = y"
proof -
  let ?f = "filter (\<lambda>x. key x \<noteq> None) rows"
  have "inj_on key (set ?f)" using assms(1) by (simp add: unique_by_def distinct_map)
  then show ?thesis using assms(2-5) by (auto dest: inj_onD [where x = x and y = y])
qed

end
