(* ===== verification/JournalTable.thy ===== *)
theory JournalTable
  imports SqlChecks
begin

text \<open>
  The table \<open>credential_operation_journal\<close> of \<open>main/database.ts\<close>: one record per row, the CHECK
  constraints with the text functions of SQL they use, the partial unique index that admits one
  unresolved operation, and the triggers on updates. Rows are a list in the order of insertion;
  they are inserted and updated, and the trigger \<open>credential_operation_journal_no_delete\<close>
  aborts every deletion.
\<close>

datatype operation_kind = Store_protected | Replace_protected | Remove_protected | Remove_legacy_staged

datatype operation_state = Op_pending | Op_confirmed | Op_outcome_unknown | Op_superseded

datatype operation_result =
    Native_success_confirmed | Native_failure_confirmed | Metadata_match_confirmed
  | Caller_abandoned | Process_interrupted | Metadata_mismatch | Native_completion_unknown
  | Manual_supersession_confirmed

datatype recovery_code = Await_native_completion | Manual_recovery_required

record journal_row =
  jr_operationId :: string
  jr_kind :: operation_kind
  jr_generation :: "string option"
  jr_startedAt :: string
  jr_updatedAt :: string
  jr_state :: operation_state
  jr_resultCode :: "operation_result option"
  jr_recoveryCode :: "recovery_code option"
  jr_capabilityVersion :: string

datatype journal_sql_error =
    Journal_column_check | Journal_kind_check | Journal_state_check | Journal_primary_key
  | Journal_one_unresolved | Journal_immutable | Journal_time_backward | Journal_bad_transition

definition authority_capability_version :: string where
  "authority_capability_version = ''credential-lease-authority-v1''"

section \<open>Text functions of SQL\<close>

text \<open>\<open>substr(s, from, len)\<close>, counting from 1, and \<open>replace(s, '-', '')\<close>.\<close>

definition sql_substr :: "string \<Rightarrow> nat \<Rightarrow> nat \<Rightarrow> string" where
  "sql_substr s from len = take len (drop (from - 1) s)"

definition without_dashes :: "string \<Rightarrow> string" where
  "without_dashes s = filter (\<lambda>c. c \<noteq> CHR ''-'') s"

text \<open>\<open>GLOB '[89ab]'\<close>: a single character of the variant position.\<close>

definition variant_glob :: "string \<Rightarrow> bool" where
  "variant_glob s \<longleftrightarrow> list_ex (\<lambda>c. s = [c]) ''89ab''"

text \<open>The check of an identifier column: a prefix, then 36 characters with four dashes in place,
  32 of \<open>[0-9a-f]\<close>, the version and the variant. Positions count from 1.\<close>

definition branded_uuid_check :: "string \<Rightarrow> string \<Rightarrow> bool" where
  "branded_uuid_check prefix s \<longleftrightarrow> (let n = length prefix in
     length s = n + 36 \<and>
     sql_substr s 1 n = prefix \<and>
     sql_substr s (n + 9) 1 = ''-'' \<and> sql_substr s (n + 14) 1 = ''-'' \<and>
     sql_substr s (n + 19) 1 = ''-'' \<and> sql_substr s (n + 24) 1 = ''-'' \<and>
     length (without_dashes (drop n s)) = 32 \<and>
     list_all lower_hex (without_dashes (drop n s)) \<and>
     sql_substr s (n + 15) 1 = ''4'' \<and> variant_glob (sql_substr s (n + 20) 1))"

definition operation_id_check :: "string \<Rightarrow> bool" where
  "operation_id_check = branded_uuid_check ''operation-''"

definition generation_check :: "string \<Rightarrow> bool" where
  "generation_check = branded_uuid_check ''generation-''"

section \<open>Checks of a row\<close>

definition journal_column_checks :: "journal_row \<Rightarrow> bool" where
  "journal_column_checks r \<longleftrightarrow>
     operation_id_check (jr_operationId r) \<and>
     null_or generation_check (jr_generation r) \<and>
     timestamp_glob (jr_startedAt r) \<and>
     timestamp_glob (jr_updatedAt r) \<and> jr_startedAt r \<le> jr_updatedAt r \<and>
     jr_capabilityVersion r = authority_capability_version"

definition kind_check :: "journal_row \<Rightarrow> sql_bool" where
  "kind_check r = (case jr_kind r of
       Store_protected \<Rightarrow> not_null (jr_generation r)
     | Replace_protected \<Rightarrow> not_null (jr_generation r)
     | Remove_protected \<Rightarrow> is_null (jr_generation r)
     | Remove_legacy_staged \<Rightarrow> is_null (jr_generation r))"

text \<open>\<open>a OR b\<close>: true when one side is, false when both are, else NULL.\<close>

definition sql_or :: "sql_bool \<Rightarrow> sql_bool \<Rightarrow> sql_bool" where
  "sql_or a b =
     (if a = Some True \<or> b = Some True then Some True
      else if a = Some False \<and> b = Some False then Some False else None)"

definition state_check :: "journal_row \<Rightarrow> sql_bool" where
  "state_check r = (case jr_state r of
       Op_pending \<Rightarrow> sql_all [is_null (jr_resultCode r), is_null (jr_recoveryCode r)]
     | Op_confirmed \<Rightarrow> sql_all
         [sql_test (\<lambda>c. c \<in> set [Native_success_confirmed, Native_failure_confirmed,
            Metadata_match_confirmed]) (jr_resultCode r), is_null (jr_recoveryCode r)]
     | Op_outcome_unknown \<Rightarrow> sql_or
         (sql_all
           [sql_test (\<lambda>c. c \<in> set [Caller_abandoned, Native_completion_unknown]) (jr_resultCode r),
            sql_test (\<lambda>c. c = Await_native_completion) (jr_recoveryCode r)])
         (sql_all
           [sql_test (\<lambda>c. c \<in> set [Process_interrupted, Metadata_mismatch]) (jr_resultCode r),
            sql_test (\<lambda>c. c = Manual_recovery_required) (jr_recoveryCode r)])
     | Op_superseded \<Rightarrow> sql_all
         [sql_test (\<lambda>c. c = Manual_supersession_confirmed) (jr_resultCode r),
          is_null (jr_recoveryCode r)])"

definition is_unresolved :: "journal_row \<Rightarrow> bool" where
  "is_unresolved r \<longleftrightarrow> jr_state r = Op_pending \<or> jr_state r = Op_outcome_unknown"

text \<open>The expression of \<open>credential_operation_journal_one_unresolved_idx\<close>: 1 on its rows.\<close>

definition unresolved_key :: "journal_row \<Rightarrow> nat option" where
  "unresolved_key r = (if is_unresolved r then Some 1 else None)"

text \<open>The constraints on a new version of a row, beside the other rows of the table.\<close>

definition journal_constraints :: "journal_row list \<Rightarrow> journal_row \<Rightarrow> journal_sql_error option" where
  "journal_constraints others r = checks
     [throw_if (\<not> journal_column_checks r) Journal_column_check,
      throw_if (\<not> check_passes (kind_check r)) Journal_kind_check,
      throw_if (\<not> check_passes (state_check r)) Journal_state_check,
      throw_if (clashes (\<lambda>x. Some (jr_operationId x)) others r) Journal_primary_key,
      throw_if (clashes unresolved_key others r) Journal_one_unresolved]"

section \<open>Triggers\<close>

definition identity_kept :: "journal_row \<Rightarrow> journal_row \<Rightarrow> bool" where
  "identity_kept old new \<longleftrightarrow>
     jr_operationId new = jr_operationId old \<and> jr_kind new = jr_kind old \<and>
     jr_generation new = jr_generation old \<and> jr_startedAt new = jr_startedAt old \<and>
     jr_capabilityVersion new = jr_capabilityVersion old"

text \<open>The states are NOT NULL columns; a recovery code that is NULL makes its comparison NULL, the
  disjunction not true, and \<open>NOT\<close> of it either true or NULL: a NULL does not fire the trigger.\<close>

definition transition_allowed :: "journal_row \<Rightarrow> journal_row \<Rightarrow> sql_bool" where
  "transition_allowed old new =
     sql_or (sql_or
       (Some (jr_state old = Op_pending \<and>
              (jr_state new = Op_confirmed \<or> jr_state new = Op_outcome_unknown)))
       (Some (jr_state old = Op_outcome_unknown \<and>
              (jr_state new = Op_confirmed \<or> jr_state new = Op_superseded))))
       (sql_all
         [Some (jr_state old = Op_outcome_unknown),
          sql_test (\<lambda>c. c = Await_native_completion) (jr_recoveryCode old),
          Some (jr_state new = Op_outcome_unknown),
          sql_test (\<lambda>c. c = Manual_recovery_required) (jr_recoveryCode new)])"

definition update_triggers :: "journal_row \<Rightarrow> journal_row \<Rightarrow> journal_sql_error option" where
  "update_triggers old new = checks
     [throw_if (\<not> identity_kept old new) Journal_immutable,
      throw_if (jr_updatedAt new < jr_updatedAt old) Journal_time_backward,
      throw_if (transition_allowed old new = Some False) Journal_bad_transition]"

section \<open>Statements\<close>

definition insert_journal_row :: "journal_row list \<Rightarrow> journal_row \<Rightarrow> journal_sql_error + journal_row list" where
  "insert_journal_row rows r = guarded (journal_constraints rows r) (Inr (rows @ [r]))"

text \<open>\<open>UPDATE ... SET ... WHERE ...\<close>: the matching rows are replaced one after the other, each with
  its triggers and the constraints against the table as it is then; a failure undoes the statement.
  The result has the number of changed rows.\<close>

fun update_rows_from :: "(journal_row \<Rightarrow> bool) \<Rightarrow> (journal_row \<Rightarrow> journal_row) \<Rightarrow>
    journal_row list \<Rightarrow> journal_row list \<Rightarrow> journal_sql_error + (journal_row list \<times> nat)" where
  "update_rows_from p f before [] = Inr (before, 0)"
| "update_rows_from p f before (r # rest) =
     (if p r then
        guarded (checks [update_triggers r (f r), journal_constraints (before @ rest) (f r)])
          (bind_result (update_rows_from p f (before @ [f r]) rest) (\<lambda>(rows, n). Inr (rows, n + 1)))
      else update_rows_from p f (before @ [r]) rest)"

definition update_journal_rows :: "(journal_row \<Rightarrow> bool) \<Rightarrow> (journal_row \<Rightarrow> journal_row) \<Rightarrow>
    journal_row list \<Rightarrow> journal_sql_error + (journal_row list \<times> nat)" where
  "update_journal_rows p f rows = update_rows_from p f [] rows"

section \<open>The table's own invariant\<close>

text \<open>What the constraints say of one row, with the NULL cases resolved: with no result code or no
  recovery code, a check of an unresolved outcome is NULL and passes.\<close>

definition journal_row_ok :: "journal_row \<Rightarrow> bool" where
  "journal_row_ok r \<longleftrightarrow>
     journal_column_checks r \<and> check_passes (kind_check r) \<and> check_passes (state_check r)"

definition journal_table_ok :: "journal_row list \<Rightarrow> bool" where
  "journal_table_ok rows \<longleftrightarrow>
     list_all journal_row_ok rows \<and> distinct (map jr_operationId rows) \<and>
     unique_by unresolved_key rows"

end
