(* ===== verification/CredentialJournal.thy ===== *)
theory CredentialJournal
  imports JournalTable Timestamps "HOL-Library.Monad_Syntax"
begin

text \<open>
  \<open>main/credentials/credential-operation-journal.ts\<close>: the journal of credential operations kept
  beside the native key store. Every method is a function on the rows of the table that gives the
  rows afterwards together with its result or its error, because a method can throw after its
  statement has been committed. The random identifier of \<open>begin\<close> and the times, which default to
  the clock, are arguments.
\<close>

section \<open>The record schema\<close>

text \<open>The regular expression of a lower-case version 4 UUID, one set of characters per position.\<close>

definition char_is :: "char \<Rightarrow> char \<Rightarrow> bool" where
  "char_is c d \<longleftrightarrow> d = c"

definition uuid_v4_pattern :: "(char \<Rightarrow> bool) list" where
  "uuid_v4_pattern =
     replicate 8 lower_hex @ [char_is CHR ''-''] @ replicate 4 lower_hex @ [char_is CHR ''-''] @
     [char_is CHR ''4''] @ replicate 3 lower_hex @ [char_is CHR ''-''] @
     [\<lambda>c. c \<in> set ''89ab''] @ replicate 3 lower_hex @ [char_is CHR ''-''] @ replicate 12 lower_hex"

fun matches_pattern :: "(char \<Rightarrow> bool) list \<Rightarrow> string \<Rightarrow> bool" where
  "matches_pattern [] [] = True"
| "matches_pattern (p # ps) (c # cs) = (p c \<and> matches_pattern ps cs)"
| "matches_pattern _ _ = False"

definition branded_uuid :: "string \<Rightarrow> string \<Rightarrow> bool" where
  "branded_uuid prefix s \<longleftrightarrow> matches_pattern (map char_is prefix @ uuid_v4_pattern) s"

definition valid_operation_id :: "string \<Rightarrow> bool" where
  "valid_operation_id = branded_uuid ''operation-''"

definition valid_generation_id :: "string \<Rightarrow> bool" where
  "valid_generation_id = branded_uuid ''generation-''"

text \<open>A record is a row whose absent columns are absent properties: the fields are the same.\<close>

type_synonym operation_record = journal_row

definition needs_generation :: "operation_record \<Rightarrow> bool" where
  "needs_generation r \<longleftrightarrow> jr_kind r = Store_protected \<or> jr_kind r = Replace_protected"

definition code_shape_is_valid :: "operation_record \<Rightarrow> bool" where
  "code_shape_is_valid r \<longleftrightarrow>
     (jr_state r = Op_pending \<and> jr_resultCode r = None \<and> jr_recoveryCode r = None) \<or>
     (jr_state r = Op_confirmed \<and>
        (jr_resultCode r = Some Native_success_confirmed \<or> jr_resultCode r = Some Native_failure_confirmed \<or>
         jr_resultCode r = Some Metadata_match_confirmed) \<and> jr_recoveryCode r = None) \<or>
     (jr_state r = Op_outcome_unknown \<and>
        (if jr_resultCode r = Some Caller_abandoned \<or> jr_resultCode r = Some Native_completion_unknown
         then jr_recoveryCode r = Some Await_native_completion
         else (jr_resultCode r = Some Process_interrupted \<or> jr_resultCode r = Some Metadata_mismatch) \<and>
              jr_recoveryCode r = Some Manual_recovery_required)) \<or>
     (jr_state r = Op_superseded \<and> jr_resultCode r = Some Manual_supersession_confirmed \<and>
        jr_recoveryCode r = None)"

definition valid_operation_record :: "operation_record \<Rightarrow> bool" where
  "valid_operation_record r \<longleftrightarrow>
     valid_operation_id (jr_operationId r) \<and>
     (case jr_generation r of None \<Rightarrow> True | Some g \<Rightarrow> valid_generation_id g) \<and>
     canonical_timestamp (jr_startedAt r) \<and> canonical_timestamp (jr_updatedAt r) \<and>
     jr_capabilityVersion r = authority_capability_version \<and>
     needs_generation r = (jr_generation r \<noteq> None) \<and>
     \<not> jr_updatedAt r < jr_startedAt r \<and>
     code_shape_is_valid r"

section \<open>Reading\<close>

datatype journal_error =
    Timestamp_not_canonical | Operation_record_invalid | Operation_id_invalid | Generation_id_invalid
  | Operation_not_found | Live_completion_refused | Generation_proves_nothing
  | Only_unknown_stays_ambiguous | Transition_denied | Journal_sql journal_sql_error

definition parse_operation_id :: "string \<Rightarrow> journal_error + string" where
  "parse_operation_id i = guarded (throw_if (\<not> valid_operation_id i) Operation_id_invalid) (Inr i)"

definition to_record :: "journal_row \<Rightarrow> journal_error + operation_record" where
  "to_record r = guarded (throw_if (\<not> valid_operation_record r) Operation_record_invalid) (Inr r)"

text \<open>A row that may be \<open>undefined\<close>.\<close>

definition to_optional_record :: "journal_row option \<Rightarrow> journal_error + operation_record option" where
  "to_optional_record row =
     (case row of None \<Rightarrow> Inr None | Some r \<Rightarrow> bind_result (to_record r) (\<lambda>x. Inr (Some x)))"

definition get_operation :: "journal_row list \<Rightarrow> string \<Rightarrow> journal_error + operation_record option" where
  "get_operation rows i =
     bind_result (parse_operation_id i)
       (\<lambda>canonical. to_optional_record (find (\<lambda>r. jr_operationId r = canonical) rows))"

definition require_operation :: "journal_row list \<Rightarrow> string \<Rightarrow> journal_error + operation_record" where
  "require_operation rows i =
     bind_result (get_operation rows i)
       (\<lambda>found. case found of None \<Rightarrow> Inl Operation_not_found | Some r \<Rightarrow> Inr r)"

text \<open>\<open>ORDER BY updated_at DESC, operation_id DESC LIMIT 1\<close>: the last in ascending order.\<close>

definition latest_operation :: "journal_row list \<Rightarrow> journal_error + operation_record option" where
  "latest_operation rows =
     to_optional_record (at_last (sort_key jr_updatedAt (sort_key jr_operationId rows)))"

text \<open>\<open>WHERE state IN ('pending', 'outcome_unknown') LIMIT 1\<close>.\<close>

definition unresolved_operation :: "journal_row list \<Rightarrow> journal_error + operation_record option" where
  "unresolved_operation rows = to_optional_record (find is_unresolved rows)"

text \<open>\<open>rows.map(toRecord)\<close>: the first row that does not parse throws.\<close>

fun to_records :: "journal_row list \<Rightarrow> journal_error + operation_record list" where
  "to_records [] = Inr []"
| "to_records (r # rs) =
     bind_result (to_record r) (\<lambda>x. bind_result (to_records rs) (\<lambda>xs. Inr (x # xs)))"

definition list_operations :: "journal_row list \<Rightarrow> journal_error + operation_record list" where
  "list_operations rows = to_records (sort_key jr_startedAt (sort_key jr_operationId rows))"

text \<open>What the renderer may see of the latest operation.\<close>

datatype operation_projection =
    Projected_none
  | Projected_pending operation_kind
  | Projected_confirmed operation_kind
  | Projected_unknown operation_kind recovery_code
  | Projected_superseded operation_kind

text \<open>The projection schema needs the recovery code of an unknown outcome.\<close>

definition to_projection :: "operation_record option \<Rightarrow> journal_error + operation_projection" where
  "to_projection record = (case record of
       None \<Rightarrow> Inr Projected_none
     | Some r \<Rightarrow> (case jr_state r of
         Op_outcome_unknown \<Rightarrow> (case jr_recoveryCode r of
             None \<Rightarrow> Inl Operation_record_invalid
           | Some c \<Rightarrow> Inr (Projected_unknown (jr_kind r) c))
       | Op_pending \<Rightarrow> Inr (Projected_pending (jr_kind r))
       | Op_confirmed \<Rightarrow> Inr (Projected_confirmed (jr_kind r))
       | Op_superseded \<Rightarrow> Inr (Projected_superseded (jr_kind r))))"

definition latest_projection :: "journal_row list \<Rightarrow> journal_error + operation_projection" where
  "latest_projection rows = bind_result (latest_operation rows) to_projection"

section \<open>Writing\<close>

text \<open>A method: the rows it leaves and what it returns or throws.\<close>

type_synonym 'a journal_method = "journal_row list \<Rightarrow> journal_row list \<times> (journal_error + 'a)"

definition begin_operation ::
    "string \<Rightarrow> operation_kind \<Rightarrow> string option \<Rightarrow> string \<Rightarrow> operation_record journal_method" where
  "begin_operation i kind generation started rows =
     (let candidate = \<lparr>jr_operationId = i, jr_kind = kind, jr_generation = generation,
        jr_startedAt = started, jr_updatedAt = started, jr_state = Op_pending,
        jr_resultCode = None, jr_recoveryCode = None,
        jr_capabilityVersion = authority_capability_version\<rparr>
      in case guarded (checks
           [throw_if (\<not> canonical_timestamp started) Timestamp_not_canonical,
            throw_if (\<not> valid_operation_record candidate) Operation_record_invalid])
           (map_error Journal_sql (insert_journal_row rows candidate)) of
         Inl e \<Rightarrow> (rows, Inl e)
       | Inr rows' \<Rightarrow> (rows', require_operation rows' i))"

text \<open>The update of the private \<open>transition\<close>.\<close>

definition transition_row ::
    "operation_state \<Rightarrow> operation_result \<Rightarrow> recovery_code option \<Rightarrow> string \<Rightarrow> journal_row \<Rightarrow> journal_row" where
  "transition_row st result recovery t r =
     r\<lparr>jr_state := st, jr_resultCode := Some result, jr_recoveryCode := recovery, jr_updatedAt := t\<rparr>"

definition transition ::
    "string \<Rightarrow> operation_state list \<Rightarrow> operation_state \<Rightarrow> operation_result \<Rightarrow> recovery_code option \<Rightarrow>
     string \<Rightarrow> operation_record journal_method" where
  "transition i from_states st result recovery updated rows =
     (case guarded (checks
         [throw_if (\<not> valid_operation_id i) Operation_id_invalid,
          throw_if (\<not> canonical_timestamp updated) Timestamp_not_canonical])
         (map_error Journal_sql
           (update_journal_rows (\<lambda>r. jr_operationId r = i \<and> jr_state r \<in> set from_states)
              (transition_row st result recovery updated) rows)) of
       Inl e \<Rightarrow> (rows, Inl e)
     | Inr (rows', changed) \<Rightarrow>
         (rows', guarded (throw_if (changed \<noteq> 1) Transition_denied) (require_operation rows' i)))"

definition mark_caller_abandoned :: "string \<Rightarrow> string \<Rightarrow> operation_record journal_method" where
  "mark_caller_abandoned i updated =
     transition i [Op_pending] Op_outcome_unknown Caller_abandoned (Some Await_native_completion) updated"

definition mark_native_completion_unknown :: "string \<Rightarrow> string \<Rightarrow> operation_record journal_method" where
  "mark_native_completion_unknown i updated =
     transition i [Op_pending] Op_outcome_unknown Native_completion_unknown
       (Some Await_native_completion) updated"

text \<open>A method that first reads the current record and throws before it writes.\<close>

definition with_current :: "string \<Rightarrow> (operation_record \<Rightarrow> journal_error option) \<Rightarrow>
    (operation_record \<Rightarrow> operation_record journal_method) \<Rightarrow> operation_record journal_method" where
  "with_current i check k rows =
     (case require_operation rows i of
        Inl e \<Rightarrow> (rows, Inl e)
      | Inr current \<Rightarrow> (case check current of
            Some e \<Rightarrow> (rows, Inl e)
          | None \<Rightarrow> k current rows))"

definition awaits_native_completion :: "operation_record \<Rightarrow> bool" where
  "awaits_native_completion r \<longleftrightarrow>
     jr_state r = Op_outcome_unknown \<and> jr_recoveryCode r = Some Await_native_completion"

datatype live_outcome = Live_success | Live_failure

definition confirm_from_live_completion ::
    "string \<Rightarrow> live_outcome \<Rightarrow> string \<Rightarrow> operation_record journal_method" where
  "confirm_from_live_completion i outcome updated =
     with_current i
       (\<lambda>current. throw_if (jr_state current \<noteq> Op_pending \<and> \<not> awaits_native_completion current)
          Live_completion_refused)
       (\<lambda>current. transition i [jr_state current] Op_confirmed
          (case outcome of Live_success \<Rightarrow> Native_success_confirmed | Live_failure \<Rightarrow> Native_failure_confirmed)
          None updated)"

definition confirm_from_exact_generation ::
    "string \<Rightarrow> string \<Rightarrow> string \<Rightarrow> operation_record journal_method" where
  "confirm_from_exact_generation i observed updated =
     with_current i
       (\<lambda>current. checks
          [throw_if (\<not> valid_generation_id observed) Generation_id_invalid,
           throw_if (jr_state current \<noteq> Op_outcome_unknown \<or> jr_generation current = None \<or>
             jr_generation current \<noteq> Some observed) Generation_proves_nothing])
       (\<lambda>current. transition i [Op_outcome_unknown] Op_confirmed Metadata_match_confirmed None updated)"

definition mark_metadata_mismatch :: "string \<Rightarrow> string \<Rightarrow> operation_record journal_method" where
  "mark_metadata_mismatch i updated =
     with_current i
       (\<lambda>current. throw_if (jr_state current \<noteq> Op_outcome_unknown) Only_unknown_stays_ambiguous)
       (\<lambda>current rows.
          if jr_recoveryCode current = Some Manual_recovery_required then (rows, Inr current)
          else transition i [Op_outcome_unknown] Op_outcome_unknown Metadata_mismatch
                 (Some Manual_recovery_required) updated rows)"

text \<open>The \<open>WHERE\<close> and the \<open>SET\<close> of the recovery after a restart: the update time never goes back.\<close>

definition lost_its_observer :: "journal_row \<Rightarrow> bool" where
  "lost_its_observer r \<longleftrightarrow> jr_state r = Op_pending \<or> awaits_native_completion r"

definition interrupted_row :: "string \<Rightarrow> journal_row \<Rightarrow> journal_row" where
  "interrupted_row t r = r\<lparr>jr_state := Op_outcome_unknown, jr_resultCode := Some Process_interrupted,
     jr_recoveryCode := Some Manual_recovery_required,
     jr_updatedAt := (if t < jr_updatedAt r then jr_updatedAt r else t)\<rparr>"

definition recover_after_restart :: "string \<Rightarrow> operation_record option journal_method" where
  "recover_after_restart updated rows =
     (case guarded (throw_if (\<not> canonical_timestamp updated) Timestamp_not_canonical)
         (map_error Journal_sql (update_journal_rows lost_its_observer (interrupted_row updated) rows)) of
       Inl e \<Rightarrow> (rows, Inl e)
     | Inr (rows', changed) \<Rightarrow> (rows', unresolved_operation rows'))"

section \<open>Histories\<close>

text \<open>The calls a caller can make, and the rows each leaves, whether it returns or throws.\<close>

datatype journal_call =
    Begin_operation string operation_kind "string option" string
  | Caller_abandons string string
  | Completion_unknown string string
  | Live_completion string live_outcome string
  | Exact_generation string string string
  | Mismatch string string
  | Restart string

definition journal_call_result ::
    "journal_row list \<Rightarrow> journal_call \<Rightarrow> journal_row list \<times> (journal_error + operation_record option)" where
  "journal_call_result rows call =
     (let some = (\<lambda>(rows', result). (rows', bind_result result (\<lambda>r. Inr (Some r)))) in
      case call of
        Begin_operation i kind g t \<Rightarrow> some (begin_operation i kind g t rows)
      | Caller_abandons i t \<Rightarrow> some (mark_caller_abandoned i t rows)
      | Completion_unknown i t \<Rightarrow> some (mark_native_completion_unknown i t rows)
      | Live_completion i outcome t \<Rightarrow> some (confirm_from_live_completion i outcome t rows)
      | Exact_generation i g t \<Rightarrow> some (confirm_from_exact_generation i g t rows)
      | Mismatch i t \<Rightarrow> some (mark_metadata_mismatch i t rows)
      | Restart t \<Rightarrow> recover_after_restart t rows)"

definition journal_after :: "journal_row list \<Rightarrow> journal_call \<Rightarrow> journal_row list" where
  "journal_after rows call = fst (journal_call_result rows call)"

definition journal_run :: "journal_row list \<Rightarrow> journal_call list \<Rightarrow> journal_row list" where
  "journal_run = foldl journal_after"

text \<open>The rows a journal can hold: the table starts empty, and a call that throws may be followed
  by others.\<close>

inductive reachable_journal :: "journal_row list \<Rightarrow> bool" where
  new_journal: "reachable_journal []"
| after_call: "reachable_journal rows \<Longrightarrow> reachable_journal (journal_after rows call)"

end
