(* ===== verification/JournalFacts.thy ===== *)
theory JournalFacts
  imports CredentialJournal
begin

text \<open>
  Lemmas about the credential journal: the identifier check of the table against the regular
  expression of the schema, what an update of at most one row does, and what each method does to
  a table whose rows are valid records with at most one unresolved operation.
\<close>

section \<open>Identifiers and times\<close>

lemma lower_hex_not_dash: "lower_hex c \<Longrightarrow> c \<noteq> CHR ''-''"
  by (auto simp: lower_hex_code)

lemma matches_append:
  "matches_pattern (ps @ qs) s \<longleftrightarrow>
     (\<exists>a b. s = a @ b \<and> matches_pattern ps a \<and> matches_pattern qs b)"
proof (induction ps arbitrary: s)
  case Nil
  have "matches_pattern [] a \<longleftrightarrow> a = []" for a by (cases a) simp_all
  then show ?case by simp
next
  case (Cons p ps)
  show ?case
  proof (cases s)
    case Nil
    then show ?thesis by simp
  next
    case s: (Cons c cs)
    show ?thesis (is "?l \<longleftrightarrow> ?r")
    proof
      assume ?l
      then obtain a b where "p c" "cs = a @ b" "matches_pattern ps a" "matches_pattern qs b"
        by (auto simp: s Cons.IH)
      then show ?r by (intro exI [of _ "c # a"] exI [of _ b]) (simp add: s)
    next
      assume ?r
      then obtain a b where ab: "s = a @ b" "matches_pattern (p # ps) a" "matches_pattern qs b" by blast
      then show ?l by (cases a) (auto simp: s Cons.IH)
    qed
  qed
qed

lemma matches_replicate: "matches_pattern (replicate n q) s \<longleftrightarrow> length s = n \<and> list_all q s"
proof (induction n arbitrary: s)
  case 0
  then show ?case by (cases s) simp_all
next
  case (Suc n)
  then show ?case by (cases s) auto
qed

lemma matches_text: "matches_pattern (map char_is t) s \<longleftrightarrow> s = t"
proof (induction t arbitrary: s)
  case Nil
  then show ?case by (cases s) simp_all
next
  case (Cons c t)
  then show ?case by (cases s) (auto simp: char_is_def)
qed

lemma matches_one: "matches_pattern [p] s \<longleftrightarrow> (\<exists>c. s = [c] \<and> p c)"
  using matches_replicate [of 1 p s] by (auto simp: length_Suc_conv)

text \<open>The shape the regular expression describes: the hexadecimal parts, the dashes between them,
  the version and the variant.\<close>

lemma branded_uuid_shape:
  assumes "branded_uuid prefix s"
  obtains a b c w e f
  where "s = prefix @ a @ ''-'' @ b @ ''-'' @ ''4'' @ c @ ''-'' @ [w] @ e @ ''-'' @ f"
    "length a = 8" "length b = 4" "length c = 3" "length e = 3" "length f = 12"
    "list_all lower_hex (a @ b @ c @ e @ f)" "w \<in> set ''89ab''"
  using assms unfolding branded_uuid_def uuid_v4_pattern_def matches_append matches_text
    matches_replicate matches_one char_is_def
  by (elim exE conjE, hypsubst, intro that) (rule refl | simp)+

lemma filter_full: "length (filter p xs) = length xs \<Longrightarrow> list_all p xs"
  by (metis length_filter_less less_irrefl list_all_iff)

lemma dashless: "list_all lower_hex xs \<Longrightarrow> without_dashes xs = xs"
  by (auto simp: without_dashes_def list_all_iff lower_hex_not_dash filter_id_conv)

lemma branded_uuid_check:
  assumes "branded_uuid prefix s"
  shows "branded_uuid_check prefix s"
proof -
  obtain a b c w e f where s: "s = prefix @ a @ ''-'' @ b @ ''-'' @ ''4'' @ c @ ''-'' @ [w] @ e @ ''-'' @ f"
    and n: "length a = 8" "length b = 4" "length c = 3" "length e = 3" "length f = 12"
    and h: "list_all lower_hex (a @ b @ c @ e @ f)" and w: "w \<in> set ''89ab''"
    using assms by (rule branded_uuid_shape)
  have hw: "lower_hex w" "lower_hex CHR ''4''" "w \<noteq> CHR ''-''" using w by (auto simp: lower_hex_code)
  have nd: "without_dashes (drop (length prefix) s) = a @ b @ ''4'' @ c @ [w] @ e @ f"
    using h hw(3) dashless [of a] dashless [of b] dashless [of c] dashless [of e] dashless [of f]
    unfolding s by (simp add: without_dashes_def)
  have d: "sql_substr s (length prefix + k) 1 = take 1 (drop (k - 1) (drop (length prefix) s))" if "0 < k" for k
    using that by (simp add: sql_substr_def add.commute)
  show ?thesis
    unfolding branded_uuid_check_def Let_def nd using n h hw w
    by (simp add: d) (auto simp: s sql_substr_def variant_glob_def)
qed


lemma glob_any: "length a = n \<Longrightarrow> glob_matches (replicate n (CHR ''?'') @ p) (a @ s) = glob_matches p s"
proof (induction n arbitrary: a)
  case (Suc n)
  then show ?case by (cases a) simp_all
qed simp

lemma length_show_fixed [simp]: "length (show_fixed n v) = n"
  by (induction n v rule: show_fixed.induct) simp_all

lemma to_iso_shape:
  assumes "to_iso t = Some v"
  obtains mo d h mi sec ms where "v = show_year (year_of_day (t div 86400000)) @ ''-'' @
    show_fixed 2 mo @ ''-'' @ show_fixed 2 d @ ''T'' @ show_fixed 2 h @ '':'' @ show_fixed 2 mi @ '':'' @
    show_fixed 2 sec @ ''.'' @ show_fixed 3 ms @ ''Z''"
proof -
  have "\<not> 8640000000000000 < \<bar>t\<bar>" using assms by (auto simp only: to_iso_def if_True option.distinct)
  with assms show thesis
    unfolding to_iso_def Let_def if_False if_not_P [OF \<open>\<not> 8640000000000000 < \<bar>t\<bar>\<close>] option.inject
    by (intro that) (rule sym)
qed

lemma shown_glob:
  assumes "length y = 4"
  shows "timestamp_glob (y @ ''-'' @ show_fixed 2 mo @ ''-'' @ show_fixed 2 d @ ''T'' @
    show_fixed 2 h @ '':'' @ show_fixed 2 mi @ '':'' @ show_fixed 2 sec @ ''.'' @ show_fixed 3 ms @ ''Z'')"
proof -
  have p: "''????-??-??T??:??:??.???Z'' =
      replicate 4 CHR ''?'' @ CHR ''-'' # replicate 2 CHR ''?'' @ CHR ''-'' # replicate 2 CHR ''?'' @
      CHR ''T'' # replicate 2 CHR ''?'' @ CHR '':'' # replicate 2 CHR ''?'' @ CHR '':'' #
      replicate 2 CHR ''?'' @ CHR ''.'' # replicate 3 CHR ''?'' @ ''Z''"
    by (simp add: numeral_eq_Suc)
  show ?thesis
    unfolding timestamp_glob_def p using assms
    by (simp add: glob_any del: show_fixed.simps replicate.simps)
qed

lemma canonical_timestamp_glob:
  assumes "canonical_timestamp v"
  shows "timestamp_glob v"
proof -
  obtain t where t: "date_parse v = Some t" "to_iso t = Some v"
    using assms by (auto simp: canonical_timestamp_def split: option.splits)
  obtain tail where v: "v = show_year (year_of_day (t div 86400000)) @ tail"
    by (rule to_iso_shape [OF t(2)]) blast
  have y: "length (show_year y) = 4" if e: "v = show_year y @ tail" for y
  proof (cases "0 \<le> y \<and> y \<le> 9999")
    case True
    then show ?thesis by (simp add: show_year_def del: show_fixed.simps)
  next
    case False
    then have "v = (if y < 0 then CHR ''-'' else CHR ''+'') # show_fixed 6 \<bar>y\<bar> @ tail"
      unfolding e show_year_def by (simp only: if_not_P append_Cons if_False)
    then obtain c cs where "v = c # cs" "\<not> is_digit c" by (auto simp: is_digit_code)
    then have "read_fixed 4 0 v = None" by (simp add: numeral_eq_Suc)
    with t(1) show ?thesis by (simp add: date_parse_def)
  qed
  show ?thesis
    by (rule to_iso_shape [OF t(2)]) (simp only: shown_glob y [OF v])
qed

section \<open>Updates of one row\<close>

lemma update_rows_none:
  "list_all (\<lambda>r. \<not> p r) rest \<Longrightarrow> update_rows_from p f before rest = Inr (before @ rest, 0)"
  by (induction rest arbitrary: before) simp_all

lemma update_rows_skip:
  "list_all (\<lambda>r. \<not> p r) xs \<Longrightarrow>
     update_rows_from p f before (xs @ rest) = update_rows_from p f (before @ xs) rest"
  by (induction xs arbitrary: before) simp_all

lemma update_journal_rows_one:
  assumes "list_all (\<lambda>r. \<not> p r) xs" "p r" "list_all (\<lambda>r. \<not> p r) ys"
  shows "update_journal_rows p f (xs @ r # ys) =
    guarded (checks [update_triggers r (f r), journal_constraints (xs @ ys) (f r)])
      (Inr (xs @ f r # ys, 1))"
  using assms by (simp add: update_journal_rows_def update_rows_skip update_rows_none)

lemma update_journal_rows_zero:
  "list_all (\<lambda>r. \<not> p r) rows \<Longrightarrow> update_journal_rows p f rows = Inr (rows, 0)"
  by (simp add: update_journal_rows_def update_rows_none)

text \<open>A condition that at most one row satisfies updates nothing or that row.\<close>

lemma split_single:
  assumes "\<And>x y. x \<in> set rows \<Longrightarrow> y \<in> set rows \<Longrightarrow> p x \<Longrightarrow> p y \<Longrightarrow> key x = key y"
    and "distinct (map key rows)"
  obtains "list_all (\<lambda>r. \<not> p r) rows"
  | xs r ys where "rows = xs @ r # ys" "p r" "list_all (\<lambda>r. \<not> p r) xs" "list_all (\<lambda>r. \<not> p r) ys"
proof (cases "list_all (\<lambda>r. \<not> p r) rows")
  case False
  then obtain r where "r \<in> set rows" "p r" by (auto simp: list_all_iff)
  then obtain xs ys where rows: "rows = xs @ r # ys" by (auto dest: split_list)
  have "\<not> p x" if x: "x \<in> set xs \<union> set ys" for x
  proof
    assume "p x"
    with x \<open>p r\<close> have "key x = key r" using assms(1) [of x r] by (auto simp: rows)
    moreover have "key x \<in> key ` (set xs \<union> set ys)" using x by (rule imageI)
    ultimately show False using assms(2) by (auto simp: rows)
  qed
  with rows \<open>p r\<close> show thesis by (intro that(2)) (auto simp: list_all_iff)
qed (rule that(1))

section \<open>The invariant of the journal\<close>

definition journal_ok :: "journal_row list \<Rightarrow> bool" where
  "journal_ok rows \<longleftrightarrow>
     list_all valid_operation_record rows \<and> distinct (map jr_operationId rows) \<and>
     unique_by unresolved_key rows"

lemma journal_ok_Nil: "journal_ok []"
  by (simp add: journal_ok_def)

lemma valid_record_row_ok: "valid_operation_record r \<Longrightarrow> journal_row_ok r"
proof -
  assume r: "valid_operation_record r"
  then have c: "journal_column_checks r"
    by (auto simp: valid_operation_record_def journal_column_checks_def operation_id_check_def
        generation_check_def valid_operation_id_def valid_generation_id_def null_or_def
        branded_uuid_check canonical_timestamp_glob split: option.splits)
  have k: "check_passes (kind_check r)"
    using r by (cases "jr_kind r") (auto simp: valid_operation_record_def needs_generation_def kind_check_def sql_simps)
  have "check_passes (state_check r)"
    using r by (cases "jr_state r")
      (auto simp: valid_operation_record_def code_shape_is_valid_def state_check_def sql_simps
        sql_or_def sql_all_def sql_test_def check_passes_def is_null_def split: if_splits)
  with c k show ?thesis by (simp add: journal_row_ok_def)
qed

lemma journal_ok_table: "journal_ok rows \<Longrightarrow> journal_table_ok rows"
  by (auto simp: journal_ok_def journal_table_ok_def valid_record_row_ok list_all_iff)

lemma journal_constraints_None:
  "journal_constraints others r = None \<longleftrightarrow>
     journal_row_ok r \<and> jr_operationId r \<notin> jr_operationId ` set others \<and>
     (is_unresolved r \<longrightarrow> (\<forall>x \<in> set others. \<not> is_unresolved x))"
  by (auto simp: journal_constraints_def check_simps journal_row_ok_def clashes_def unresolved_key_def
      list_ex_iff image_iff)

lemma one_unresolved:
  assumes "journal_ok rows" "x \<in> set rows" "y \<in> set rows" "is_unresolved x" "is_unresolved y"
  shows "x = y"
  by (rule unique_byD [where key = unresolved_key and k = 1])
    (use assms in \<open>simp_all add: journal_ok_def unresolved_key_def\<close>)

lemma journal_ok_insert:
  assumes "journal_ok rows" "valid_operation_record r" "journal_constraints rows r = None"
  shows "journal_ok (rows @ [r])"
  using assms unique_by_snoc [of unresolved_key rows r]
  by (auto simp: journal_ok_def journal_constraints_None clashes_def unresolved_key_def list_ex_iff
      split: if_splits)

lemma unique_unresolved:
  "unique_by unresolved_key rows \<longleftrightarrow> length (filter is_unresolved rows) \<le> 1"
proof -
  have e: "filter (\<lambda>x. unresolved_key x \<noteq> None) rows = filter is_unresolved rows"
    by (rule filter_cong) (auto simp: unresolved_key_def)
  have m: "map unresolved_key (filter is_unresolved rows) =
      replicate (length (filter is_unresolved rows)) (Some 1)"
    by (rule map_replicate_const [THEN subst]) (auto simp: unresolved_key_def intro!: map_cong)
  have d: "distinct (replicate n (Some (1 :: nat))) \<longleftrightarrow> n \<le> 1" for n
    by (induction n) auto
  show ?thesis unfolding unique_by_def e m d ..
qed

lemma journal_ok_replace:
  assumes ok: "journal_ok (xs @ r # ys)" and v: "valid_operation_record r'"
    and i: "jr_operationId r' = jr_operationId r" and u: "is_unresolved r"
  shows "journal_ok (xs @ r' # ys)" "journal_constraints (xs @ ys) r' = None"
proof -
  have none: "\<not> is_unresolved x" if x: "x \<in> set (xs @ ys)" for x
  proof
    assume "is_unresolved x"
    with ok u x have "x = r" by (intro one_unresolved [OF ok]) auto
    with ok x show False by (auto simp: journal_ok_def)
  qed
  then have "filter is_unresolved xs = []" "filter is_unresolved ys = []" by (simp_all add: filter_empty_conv)
  with ok v i show "journal_ok (xs @ r' # ys)" by (simp add: journal_ok_def unique_unresolved)
  show "journal_constraints (xs @ ys) r' = None"
    using ok none valid_record_row_ok [OF v]
    by (auto simp: journal_constraints_None i journal_ok_def)
qed

section \<open>Reading a sound journal\<close>

lemma to_record_valid: "valid_operation_record r \<Longrightarrow> to_record r = Inr r"
  by (simp add: to_record_def throw_if_def)

lemma to_records_valid: "list_all valid_operation_record rs \<Longrightarrow> to_records rs = Inr rs"
  by (induction rs) (simp_all add: to_record_valid)

lemma require_row:
  assumes "journal_ok rows" "r \<in> set rows"
  shows "require_operation rows (jr_operationId r) = Inr r"
proof -
  have v: "valid_operation_record r" using assms by (simp add: journal_ok_def list_all_iff)
  then have i: "valid_operation_id (jr_operationId r)" by (simp add: valid_operation_record_def)
  obtain x where f: "find (\<lambda>x. jr_operationId x = jr_operationId r) rows = Some x"
    using assms(2) by (cases "find (\<lambda>x. jr_operationId x = jr_operationId r) rows") (auto simp: find_None_iff)
  then have "x \<in> set rows" "jr_operationId x = jr_operationId r" by (auto dest: find_SomeD)
  with assms have "x = r" by (auto simp: journal_ok_def distinct_map dest: inj_onD)
  with f i v show ?thesis
    by (simp add: require_operation_def get_operation_def parse_operation_id_def throw_if_def
        to_optional_record_def to_record_valid)
qed

lemma require_SomeD:
  assumes "require_operation rows i = Inr r"
  shows "r \<in> set rows" "jr_operationId r = i"
  using assms
  by (auto simp: require_operation_def get_operation_def parse_operation_id_def to_optional_record_def
      to_record_def bind_result_Inr check_simps split: option.splits dest: find_SomeD)

end
