(* ===== verification/JournalSteps.thy ===== *)
theory JournalSteps
  imports JournalFacts Replay
begin

text \<open>
  The abstract specification of the credential journal and the proof that every call implements
  it: an operation is running, then perhaps awaits the completion of the native call, then perhaps
  needs manual recovery, and is resolved for good; a call leaves the journal as it is or begins one
  operation or moves the one that is unresolved.
\<close>

section \<open>The specification\<close>

datatype operation_phase = Running | Awaiting | Manual | Resolved

definition operation_phase :: "journal_row \<Rightarrow> operation_phase" where
  "operation_phase r = (case jr_state r of
       Op_pending \<Rightarrow> Running
     | Op_outcome_unknown \<Rightarrow> if jr_recoveryCode r = Some Await_native_completion then Awaiting else Manual
     | Op_confirmed \<Rightarrow> Resolved
     | Op_superseded \<Rightarrow> Resolved)"

inductive phase_step :: "operation_phase \<Rightarrow> operation_phase \<Rightarrow> bool" where
  abandoned: "phase_step Running Awaiting"
| interrupted: "phase_step Running Manual"
| escalated: "phase_step Awaiting Manual"
| completed: "phase_step Running Resolved"
| completed_late: "phase_step Awaiting Resolved"
| observed: "phase_step Manual Resolved"

inductive_simps phase_step_simps [simp]:
  "phase_step Running p" "phase_step Awaiting p" "phase_step Manual p" "phase_step Resolved p"

text \<open>How many moves an operation has left at most.\<close>

definition phase_rank :: "operation_phase \<Rightarrow> nat" where
  "phase_rank p = (case p of Running \<Rightarrow> 3 | Awaiting \<Rightarrow> 2 | Manual \<Rightarrow> 1 | Resolved \<Rightarrow> 0)"

lemma phase_step_rank: "phase_step p q \<Longrightarrow> phase_rank q < phase_rank p"
  by (cases p) (auto simp: phase_rank_def)

definition operation_moves :: "journal_row \<Rightarrow> journal_row \<Rightarrow> bool" where
  "operation_moves old new \<longleftrightarrow>
     identity_kept old new \<and> jr_updatedAt old \<le> jr_updatedAt new \<and>
     phase_step (operation_phase old) (operation_phase new)"

inductive journal_move :: "journal_row list \<Rightarrow> journal_row list \<Rightarrow> bool" where
  begins: "\<lbrakk>list_all (\<lambda>x. \<not> is_unresolved x) rows; operation_phase r = Running;
    jr_operationId r \<notin> jr_operationId ` set rows\<rbrakk> \<Longrightarrow> journal_move rows (rows @ [r])"
| moves: "operation_moves r r' \<Longrightarrow> journal_move (xs @ r # ys) (xs @ r' # ys)"

lemma unresolved_phase: "is_unresolved r \<longleftrightarrow> operation_phase r \<noteq> Resolved"
  by (cases "jr_state r") (auto simp: is_unresolved_def operation_phase_def)

lemma lost_observer_phase: "lost_its_observer r \<longleftrightarrow> operation_phase r = Running \<or> operation_phase r = Awaiting"
  by (cases "jr_state r") (auto simp: lost_its_observer_def awaits_native_completion_def operation_phase_def)

section \<open>Transitions\<close>

text \<open>The validity of a moved row: its identity is kept, its time and its codes are right.\<close>

lemma transition_row_valid:
  assumes "valid_operation_record r" "canonical_timestamp t" "jr_updatedAt r \<le> t"
    and "code_shape_is_valid (transition_row st result recovery t r)"
  shows "valid_operation_record (transition_row st result recovery t r)"
  using assms by (auto simp: valid_operation_record_def transition_row_def needs_generation_def)

text \<open>An update that replaces the single unresolved row by a valid version of it succeeds exactly
  when the triggers let it.\<close>

lemma update_single:
  assumes ok: "journal_ok (xs @ r # ys)" and u: "is_unresolved r" and p: "p r"
    and others: "list_all (\<lambda>x. \<not> p x) xs" "list_all (\<lambda>x. \<not> p x) ys"
    and v: "update_triggers r (f r) = None \<Longrightarrow> valid_operation_record (f r)"
    and i: "jr_operationId (f r) = jr_operationId r"
  shows "update_journal_rows p f (xs @ r # ys) =
    guarded (update_triggers r (f r)) (Inr (xs @ f r # ys, 1))"
proof (cases "update_triggers r (f r)")
  case None
  from journal_ok_replace(2) [OF ok v [OF None] i u]
  show ?thesis using others p
    by (simp add: update_journal_rows_one None checks.simps)
next
  case (Some e)
  then show ?thesis using others p by (simp add: update_journal_rows_one checks.simps)
qed

lemma transition_run:
  assumes "valid_operation_id i" "canonical_timestamp t"
  shows "transition i froms st result recovery t rows =
    (case map_error Journal_sql (update_journal_rows
        (\<lambda>r. jr_operationId r = i \<and> jr_state r \<in> set froms) (transition_row st result recovery t) rows) of
       Inl e \<Rightarrow> (rows, Inl e)
     | Inr (rows', changed) \<Rightarrow>
         (rows', guarded (throw_if (changed \<noteq> 1) Transition_denied) (require_operation rows' i)))"
  using assms by (simp add: transition_def checks.simps throw_if_def)

text \<open>On the operation it names, a transition is the update of its row.\<close>

lemma transition_on:
  assumes ok: "journal_ok (xs @ r # ys)" and st: "jr_state r \<in> set froms"
    and froms: "set froms \<subseteq> {Op_pending, Op_outcome_unknown}"
    and t: "canonical_timestamp t" and r': "r' = transition_row st result recovery t r"
    and code: "code_shape_is_valid r'"
  shows "transition (jr_operationId r) froms st result recovery t (xs @ r # ys) =
      (case update_triggers r r' of
         Some e \<Rightarrow> (xs @ r # ys, Inl (Journal_sql e))
       | None \<Rightarrow> (xs @ r' # ys, Inr r'))"
    and "update_triggers r r' = None \<Longrightarrow> journal_ok (xs @ r' # ys)"
proof -
  let ?p = "\<lambda>x. jr_operationId x = jr_operationId r \<and> jr_state x \<in> set froms"
  have rv: "valid_operation_record r" "\<forall>x \<in> set xs \<union> set ys. jr_operationId x \<noteq> jr_operationId r"
    using ok by (auto simp: journal_ok_def) (metis image_eqI)+
  have others: "list_all (\<lambda>x. \<not> ?p x) xs" "list_all (\<lambda>x. \<not> ?p x) ys"
    using rv(2) by (auto simp: list_all_iff)
  have u: "is_unresolved r" using st froms by (auto simp: is_unresolved_def)
  have i: "jr_operationId r' = jr_operationId r" by (simp add: r' transition_row_def)
  have v: "valid_operation_record r'" if "update_triggers r r' = None"
    unfolding r' using that rv(1) t code
    by (intro transition_row_valid) (auto simp: r' update_triggers_def check_simps transition_row_def)
  have up: "update_journal_rows ?p (transition_row st result recovery t) (xs @ r # ys) =
      guarded (update_triggers r r') (Inr (xs @ r' # ys, 1))"
    unfolding r' by (rule update_single [OF ok u _ others])
      (use st v i in \<open>simp_all add: r'\<close>)
  show ok': "update_triggers r r' = None \<Longrightarrow> journal_ok (xs @ r' # ys)"
    using journal_ok_replace(1) [OF ok v i u] .
  have req: "update_triggers r r' = None \<Longrightarrow> require_operation (xs @ r' # ys) (jr_operationId r) = Inr r'"
    using require_row [OF ok', of r'] i by simp
  have "valid_operation_id (jr_operationId r)" using rv(1) by (simp add: valid_operation_record_def)
  with t st show "transition (jr_operationId r) froms st result recovery t (xs @ r # ys) =
      (case update_triggers r r' of
         Some e \<Rightarrow> (xs @ r # ys, Inl (Journal_sql e))
       | None \<Rightarrow> (xs @ r' # ys, Inr r'))"
    by (cases "update_triggers r r'") (simp_all add: transition_run up req throw_if_def)
qed

text \<open>With no such operation it is denied.\<close>

lemma transition_off:
  assumes "\<And>r. r \<in> set rows \<Longrightarrow> jr_operationId r = i \<Longrightarrow> jr_state r \<in> set froms \<Longrightarrow>
      valid_operation_id i \<Longrightarrow> canonical_timestamp t \<Longrightarrow> False"
  obtains e where "transition i froms st result recovery t rows = (rows, Inl e)"
proof (cases "valid_operation_id i \<and> canonical_timestamp t")
  case False
  then show thesis
    by (intro that [of "if valid_operation_id i then Timestamp_not_canonical else Operation_id_invalid"])
      (auto simp: transition_def checks.simps throw_if_def)
next
  case True
  then have "list_all (\<lambda>r. \<not> (jr_operationId r = i \<and> jr_state r \<in> set froms)) rows"
    using assms by (auto simp: list_all_iff)
  with True show thesis
    by (intro that [of Transition_denied]) (simp add: transition_run update_journal_rows_zero throw_if_def)
qed

lemma transition_cases:
  assumes ok: "journal_ok rows" and froms: "set froms \<subseteq> {Op_pending, Op_outcome_unknown}"
    and code: "\<And>r. code_shape_is_valid (transition_row st result recovery t r)"
  obtains (denied) e where "transition i froms st result recovery t rows = (rows, Inl e)"
  | (moved) xs r ys r' where "rows = xs @ r # ys" "jr_operationId r = i" "jr_state r \<in> set froms"
    "r' = transition_row st result recovery t r" "update_triggers r r' = None"
    "transition i froms st result recovery t rows = (xs @ r' # ys, Inr r')"
    "journal_ok (xs @ r' # ys)"
proof (cases "canonical_timestamp t \<and> (\<exists>r \<in> set rows. jr_operationId r = i \<and> jr_state r \<in> set froms)")
  case False
  obtain e where "transition i froms st result recovery t rows = (rows, Inl e)"
    by (rule transition_off [of rows i froms t]) (use False in blast)
  then show thesis by (rule denied)
next
  case True
  then obtain xs r ys where r: "rows = xs @ r # ys" "jr_operationId r = i" "jr_state r \<in> set froms"
    and t: "canonical_timestamp t" by (auto dest: split_list)
  note on = transition_on [OF ok [unfolded r(1)] r(3) froms t refl code]
  show thesis
  proof (cases "update_triggers r (transition_row st result recovery t r)")
    case None
    with on r show thesis by (intro moved [OF r refl None]) simp_all
  next
    case (Some e)
    with on(1) r show thesis by (intro denied) simp
  qed
qed

section \<open>Calls\<close>

text \<open>What a method may do: keep the rows, or return after one move. \<close>

definition keeps_or_moves :: "journal_row list \<Rightarrow> journal_row list \<times> (journal_error + 'a) \<Rightarrow> bool" where
  "keeps_or_moves rows out \<longleftrightarrow>
     journal_ok (fst out) \<and> (fst out = rows \<or> is_ok (snd out) \<and> journal_move rows (fst out))"

lemma keeps: "journal_ok rows \<Longrightarrow> keeps_or_moves rows (rows, r)"
  by (simp add: keeps_or_moves_def)

lemma update_triggers_move:
  "update_triggers r r' = None \<Longrightarrow> phase_step (operation_phase r) (operation_phase r') \<Longrightarrow>
     operation_moves r r'"
  by (auto simp: update_triggers_def check_simps operation_moves_def)

lemma transition_keeps_or_moves:
  assumes ok: "journal_ok rows" and froms: "set froms \<subseteq> {Op_pending, Op_outcome_unknown}"
    and code: "\<And>r. code_shape_is_valid (transition_row st result recovery t r)"
    and phase: "\<And>r. valid_operation_record r \<Longrightarrow> update_triggers r (transition_row st result recovery t r) = None \<Longrightarrow>
      jr_state r \<in> set froms \<Longrightarrow>
      phase_step (operation_phase r) (operation_phase (transition_row st result recovery t r))"
  shows "keeps_or_moves rows (transition i froms st result recovery t rows)"
proof (rule transition_cases [where i = i, OF ok froms code])
  fix e assume "transition i froms st result recovery t rows = (rows, Inl e)"
  then show ?thesis by (simp add: keeps ok)
next
  fix xs r ys r'
  assume "rows = xs @ r # ys" "jr_state r \<in> set froms" "r' = transition_row st result recovery t r"
    "update_triggers r r' = None" "transition i froms st result recovery t rows = (xs @ r' # ys, Inr r')"
    "journal_ok (xs @ r' # ys)"
  then show ?thesis
    using phase [of r] ok
    by (auto simp: keeps_or_moves_def journal_ok_def intro!: moves update_triggers_move)
qed

lemmas code_shape_simps = code_shape_is_valid_def transition_row_def

text \<open>The state trigger lets an unknown outcome stay unknown only to be escalated.\<close>

lemma escalation_only:
  "update_triggers r r' = None \<Longrightarrow> jr_state r = Op_outcome_unknown \<Longrightarrow> jr_state r' = Op_outcome_unknown \<Longrightarrow>
     jr_recoveryCode r \<noteq> None \<Longrightarrow> jr_recoveryCode r = Some Await_native_completion"
  by (cases "jr_recoveryCode r")
    (auto simp: update_triggers_def check_simps transition_allowed_def sql_or_def sql_all_def sql_test_def
      split: if_splits)

lemma abandoned_moves:
  assumes "journal_ok rows"
  shows "keeps_or_moves rows (mark_caller_abandoned i t rows)"
    and "keeps_or_moves rows (mark_native_completion_unknown i t rows)"
  unfolding mark_caller_abandoned_def mark_native_completion_unknown_def
  by (rule transition_keeps_or_moves [OF assms];
      simp add: code_shape_simps operation_phase_def)+

lemma with_current_keeps_or_moves:
  assumes "journal_ok rows"
    and "\<And>r. r \<in> set rows \<Longrightarrow> jr_operationId r = i \<Longrightarrow> check r = None \<Longrightarrow> keeps_or_moves rows (k r rows)"
  shows "keeps_or_moves rows (with_current i check k rows)"
  using assms
  by (auto simp: with_current_def keeps split: sum.split option.split dest: require_SomeD)

lemma live_completion_moves:
  assumes ok: "journal_ok rows"
  shows "keeps_or_moves rows (confirm_from_live_completion i outcome t rows)"
  unfolding confirm_from_live_completion_def
proof (rule with_current_keeps_or_moves [OF ok])
  fix r
  assume "r \<in> set rows" "throw_if (jr_state r \<noteq> Op_pending \<and> \<not> awaits_native_completion r)
    Live_completion_refused = None"
  then have st: "set [jr_state r] \<subseteq> {Op_pending, Op_outcome_unknown}"
    by (auto simp: check_simps awaits_native_completion_def)
  show "keeps_or_moves rows (transition i [jr_state r] Op_confirmed
      (case outcome of Live_success \<Rightarrow> Native_success_confirmed | Live_failure \<Rightarrow> Native_failure_confirmed)
      None t rows)"
    by (rule transition_keeps_or_moves [OF ok st])
      (use st in \<open>auto simp: code_shape_simps operation_phase_def split: live_outcome.split\<close>)
qed

lemma exact_generation_moves:
  assumes ok: "journal_ok rows"
  shows "keeps_or_moves rows (confirm_from_exact_generation i g t rows)"
  unfolding confirm_from_exact_generation_def
  by (rule with_current_keeps_or_moves [OF ok], rule transition_keeps_or_moves [OF ok])
    (auto simp: code_shape_simps operation_phase_def)

lemma mismatch_moves:
  assumes ok: "journal_ok rows"
  shows "keeps_or_moves rows (mark_metadata_mismatch i t rows)"
  unfolding mark_metadata_mismatch_def
proof (rule with_current_keeps_or_moves [OF ok])
  fix r
  have "keeps_or_moves rows (transition i [Op_outcome_unknown] Op_outcome_unknown Metadata_mismatch
      (Some Manual_recovery_required) t rows)"
  proof (rule transition_keeps_or_moves [OF ok])
    fix x
    assume x: "valid_operation_record x" "jr_state x \<in> set [Op_outcome_unknown]"
      and tr: "update_triggers x (transition_row Op_outcome_unknown Metadata_mismatch
        (Some Manual_recovery_required) t x) = None"
    from x have "jr_recoveryCode x \<noteq> None"
      by (auto simp: valid_operation_record_def code_shape_is_valid_def split: if_splits)
    then have "jr_recoveryCode x = Some Await_native_completion"
      using escalation_only [OF tr] x by (simp add: transition_row_def)
    with x show "phase_step (operation_phase x) (operation_phase (transition_row Op_outcome_unknown
        Metadata_mismatch (Some Manual_recovery_required) t x))"
      by (simp add: operation_phase_def transition_row_def)
  qed (simp_all add: code_shape_simps)
  then show "keeps_or_moves rows (if jr_recoveryCode r = Some Manual_recovery_required then (rows, Inr r)
    else transition i [Op_outcome_unknown] Op_outcome_unknown Metadata_mismatch (Some Manual_recovery_required) t rows)"
    by (simp add: keeps ok)
qed

lemma begin_moves:
  assumes ok: "journal_ok rows"
  shows "keeps_or_moves rows (begin_operation i kind g t rows)"
proof -
  define r where "r = \<lparr>jr_operationId = i, jr_kind = kind, jr_generation = g, jr_startedAt = t,
    jr_updatedAt = t, jr_state = Op_pending, jr_resultCode = None, jr_recoveryCode = None,
    jr_capabilityVersion = authority_capability_version\<rparr>"
  have b: "begin_operation i kind g t rows = (case guarded (checks
      [throw_if (\<not> canonical_timestamp t) Timestamp_not_canonical,
       throw_if (\<not> valid_operation_record r) Operation_record_invalid])
      (map_error Journal_sql (insert_journal_row rows r)) of
        Inl e \<Rightarrow> (rows, Inl e) | Inr rows' \<Rightarrow> (rows', require_operation rows' i))"
    unfolding begin_operation_def Let_def r_def by (rule refl)
  show ?thesis
  proof (cases "canonical_timestamp t \<and> valid_operation_record r \<and> journal_constraints rows r = None")
    case True
    then have ok': "journal_ok (rows @ [r])" by (intro journal_ok_insert [OF ok]) simp_all
    have i: "jr_operationId r = i" and p: "operation_phase r = Running" "is_unresolved r"
      by (simp_all add: r_def operation_phase_def is_unresolved_def)
    have "journal_move rows (rows @ [r])"
      using True p by (intro begins) (auto simp: journal_constraints_None list_all_iff)
    moreover have "begin_operation i kind g t rows = (rows @ [r], Inr r)"
      using True require_row [OF ok', of r] i
      by (simp add: b checks.simps throw_if_def insert_journal_row_def)
    ultimately show ?thesis using ok' by (simp add: keeps_or_moves_def)
  next
    case False
    then show ?thesis
      by (cases "journal_constraints rows r")
        (auto simp: b checks.simps throw_if_def insert_journal_row_def keeps ok)
  qed
qed

section \<open>Restart\<close>

lemma interrupted_row_valid: "valid_operation_record r \<Longrightarrow> canonical_timestamp t \<Longrightarrow>
    valid_operation_record (interrupted_row t r)"
  by (auto simp: valid_operation_record_def interrupted_row_def needs_generation_def code_shape_is_valid_def)

lemma interrupted_triggers: "lost_its_observer r \<Longrightarrow> update_triggers r (interrupted_row t r) = None"
  by (auto simp: update_triggers_def check_simps identity_kept_def interrupted_row_def transition_allowed_def
      lost_its_observer_def awaits_native_completion_def sql_or_def sql_all_def sql_test_def)

text \<open>What a restart leaves: the row of the unresolved operation, escalated when it waited for its
  observer.\<close>

lemma unresolved_operation_ok: "journal_ok rows \<Longrightarrow> unresolved_operation rows = Inr (find is_unresolved rows)"
  by (cases "find is_unresolved rows")
    (auto simp: unresolved_operation_def to_optional_record_def journal_ok_def list_all_iff
      to_record_valid dest: find_SomeD)

lemma find_unresolved:
  assumes "journal_ok rows" "r \<in> set rows" "is_unresolved r"
  shows "find is_unresolved rows = Some r"
proof (cases "find is_unresolved rows")
  case None
  with assms show ?thesis by (auto simp: find_None_iff)
next
  case (Some x)
  with assms one_unresolved [OF assms(1), of x r] show ?thesis by (auto dest: find_SomeD)
qed

lemma recover_run:
  assumes "canonical_timestamp t" "update_journal_rows lost_its_observer (interrupted_row t) rows = Inr (rows', n)"
  shows "recover_after_restart t rows = (rows', unresolved_operation rows')"
  using assms by (simp add: recover_after_restart_def throw_if_def)

lemma recover_cases:
  assumes ok: "journal_ok rows" and t: "canonical_timestamp t"
  obtains (idle) "list_all (\<lambda>r. \<not> lost_its_observer r) rows"
    "recover_after_restart t rows = (rows, Inr (find is_unresolved rows))"
  | (escalated) xs r ys r' where "rows = xs @ r # ys" "lost_its_observer r" "r' = interrupted_row t r"
    "list_all (\<lambda>r. \<not> lost_its_observer r) (xs @ ys)"
    "recover_after_restart t rows = (xs @ r' # ys, Inr (Some r'))"
    "journal_ok (xs @ r' # ys)"
proof (rule split_single [where p = lost_its_observer and key = jr_operationId and rows = rows])
  show "distinct (map jr_operationId rows)" using ok by (simp add: journal_ok_def)
  show "jr_operationId x = jr_operationId y"
    if "x \<in> set rows" "y \<in> set rows" "lost_its_observer x" "lost_its_observer y" for x y
    using one_unresolved [OF ok, of x y] that by (auto simp: lost_observer_phase unresolved_phase)
next
  assume none: "list_all (\<lambda>r. \<not> lost_its_observer r) rows"
  then show thesis
    by (intro idle) (simp_all add: recover_run [OF t update_journal_rows_zero] unresolved_operation_ok ok)
next
  fix xs r ys
  assume rows: "rows = xs @ r # ys" and lost: "lost_its_observer r"
    and others: "list_all (\<lambda>r. \<not> lost_its_observer r) xs" "list_all (\<lambda>r. \<not> lost_its_observer r) ys"
  let ?r' = "interrupted_row t r"
  have u: "is_unresolved r" using lost by (auto simp: lost_observer_phase unresolved_phase)
  have u': "is_unresolved ?r'" by (simp add: is_unresolved_def interrupted_row_def)
  have i: "jr_operationId ?r' = jr_operationId r" by (simp add: interrupted_row_def)
  have v: "valid_operation_record ?r'"
    using ok t by (intro interrupted_row_valid) (simp_all add: journal_ok_def rows)
  have up: "update_journal_rows lost_its_observer (interrupted_row t) rows = Inr (xs @ ?r' # ys, 1)"
    unfolding rows using update_single [of xs r ys lost_its_observer "interrupted_row t"] ok u lost others v i
    by (simp add: rows interrupted_triggers)
  have ok': "journal_ok (xs @ ?r' # ys)"
    by (rule journal_ok_replace(1) [OF ok [unfolded rows] v i u])
  have "find is_unresolved (xs @ ?r' # ys) = Some ?r'"
    by (rule find_unresolved [OF ok' _ u']) simp
  then have "recover_after_restart t rows = (xs @ ?r' # ys, Inr (Some ?r'))"
    by (simp add: recover_run [OF t up] unresolved_operation_ok ok')
  with ok' rows lost others show thesis by (intro escalated [of xs r ys ?r']) simp_all
qed

lemma interrupted_moves: "lost_its_observer r \<Longrightarrow> operation_moves r (interrupted_row t r)"
  by (rule update_triggers_move [OF interrupted_triggers])
    (auto simp: lost_observer_phase, simp_all add: operation_phase_def interrupted_row_def)

lemma recover_moves:
  assumes ok: "journal_ok rows"
  shows "keeps_or_moves rows (recover_after_restart t rows)"
proof (cases "canonical_timestamp t")
  case True
  show ?thesis
    by (rule recover_cases [OF ok True])
      (auto simp: keeps_or_moves_def ok intro!: moves interrupted_moves)
next
  case False
  then show ?thesis by (simp add: recover_after_restart_def throw_if_def keeps ok)
qed

section \<open>The journal implements its specification\<close>

lemma call_moves:
  assumes ok: "journal_ok rows"
  shows "keeps_or_moves rows (journal_call_result rows call)"
proof -
  have k: "keeps_or_moves rows (case out of (rows', result) \<Rightarrow> (rows', bind_result result (\<lambda>r. Inr (Some r))))"
    if "keeps_or_moves rows out" for out :: "journal_row list \<times> (journal_error + operation_record)"
    using that by (cases out; cases "snd out") (auto simp: keeps_or_moves_def)
  show ?thesis
    by (cases call)
      (simp_all add: journal_call_result_def k begin_moves abandoned_moves live_completion_moves
        exact_generation_moves mismatch_moves recover_moves ok)
qed

lemma after_ok: "journal_ok rows \<Longrightarrow> journal_ok (journal_after rows call)"
  using call_moves [of rows call] by (simp add: keeps_or_moves_def journal_after_def)

lemma after_moves:
  "journal_ok rows \<Longrightarrow> journal_after rows call = rows \<or> journal_move rows (journal_after rows call)"
  using call_moves [of rows call] by (auto simp: keeps_or_moves_def journal_after_def)

lemma reachable_ok: "reachable_journal rows \<Longrightarrow> journal_ok rows"
  by (induction rule: reachable_journal.induct) (simp_all add: journal_ok_Nil after_ok)

text \<open>The journal as a state rebuilt from its calls, which never fail as a whole.\<close>

definition journal_step :: "journal_row list \<Rightarrow> journal_call \<Rightarrow> journal_error + journal_row list" where
  "journal_step rows call = Inr (journal_after rows call)"

interpretation journal: event_replay journal_step "\<lambda>rows calls. Inr (journal_run rows calls)"
  by unfold_locales (simp_all add: journal_run_def journal_step_def)

lemma run_ok: "journal_ok rows \<Longrightarrow> journal_ok (journal_run rows calls)"
  by (rule journal.run_invariant [where P = journal_ok and s = rows and es = calls])
    (auto simp: journal_step_def after_ok)

end
