(* ===== verification/JournalProperties.thy ===== *)
theory JournalProperties
  imports JournalSteps
begin

text \<open>
  What the credential journal guarantees: it implements the specification of \<open>JournalSteps\<close>, its
  calls stop changing it, and which unresolved operations can still be resolved. The witnesses run
  one history on concrete identifiers.
\<close>

section \<open>How often a journal can change\<close>

text \<open>The calls of a history that change a row or add one.\<close>

fun effective_calls :: "journal_row list \<Rightarrow> journal_call list \<Rightarrow> nat" where
  "effective_calls rows [] = 0"
| "effective_calls rows (call # calls) =
     (if journal_after rows call = rows then 0 else 1) + effective_calls (journal_after rows call) calls"

definition journal_effort :: "journal_row list \<Rightarrow> nat" where
  "journal_effort rows = sum_list (map (\<lambda>r. phase_rank (operation_phase r)) rows)"

lemma move_effort:
  "journal_move rows rows' \<Longrightarrow>
     length rows \<le> length rows' \<and>
     Suc (journal_effort rows' + 4 * length rows) \<le> journal_effort rows + 4 * length rows'"
proof (induction rule: journal_move.induct)
  case (begins rows r)
  then show ?case by (simp add: journal_effort_def phase_rank_def)
next
  case (moves r r' xs ys)
  then have "phase_rank (operation_phase r') < phase_rank (operation_phase r)"
    by (simp add: operation_moves_def phase_step_rank)
  then show ?case by (simp add: journal_effort_def)
qed

lemma run_effort:
  assumes "journal_ok rows"
  shows "length rows \<le> length (journal_run rows calls) \<and>
    effective_calls rows calls + journal_effort (journal_run rows calls) + 4 * length rows
      \<le> journal_effort rows + 4 * length (journal_run rows calls)"
  using assms
proof (induction calls arbitrary: rows)
  case Nil
  then show ?case by (simp add: journal_run_def)
next
  case (Cons call calls)
  let ?m = "journal_after rows call"
  have r: "journal_run rows (call # calls) = journal_run ?m calls" by (simp add: journal_run_def)
  note ih = Cons.IH [OF after_ok [OF Cons.prems], of call]
  show ?case
  proof (cases "?m = rows")
    case True
    with ih show ?thesis by (simp add: r)
  next
    case False
    with after_moves [OF Cons.prems] have "journal_move rows ?m" by blast
    with ih False show ?thesis by (auto simp: r dest!: move_effort)
  qed
qed

lemma effort_bound:
  assumes "journal_ok rows"
  shows "journal_effort rows \<le> 3"
proof (cases "find is_unresolved rows")
  case None
  then have "journal_effort rows = 0"
    by (auto simp: journal_effort_def find_None_iff unresolved_phase phase_rank_def)
  then show ?thesis by simp
next
  case (Some r)
  then have "r \<in> set rows" "is_unresolved r" by (auto dest: find_SomeD)
  then obtain xs ys where rows: "rows = xs @ r # ys" by (auto dest: split_list)
  have rest: "\<not> is_unresolved x" if x: "x \<in> set xs \<union> set ys" for x
  proof
    assume "is_unresolved x"
    with x \<open>is_unresolved r\<close> have "x = r" by (intro one_unresolved [OF assms]) (auto simp: rows)
    with x assms show False by (auto simp: rows journal_ok_def)
  qed
  have "journal_effort zs = 0" if "set zs \<subseteq> set xs \<union> set ys" for zs
    using rest that by (auto simp: journal_effort_def unresolved_phase phase_rank_def subset_iff)
  then have "journal_effort xs = 0" "journal_effort ys = 0" by blast+
  then have "journal_effort rows = phase_rank (operation_phase r)" by (simp add: journal_effort_def rows)
  then show ?thesis by (simp add: phase_rank_def split: operation_phase.split)
qed

section \<open>What can still change\<close>

lemma transition_changes:
  assumes "journal_ok rows" "set froms \<subseteq> {Op_pending, Op_outcome_unknown}"
    and "\<And>r. code_shape_is_valid (transition_row st result recovery t r)"
    and "fst (transition i froms st result recovery t rows) \<noteq> rows"
  obtains r where "r \<in> set rows" "jr_operationId r = i" "jr_state r \<in> set froms"
    "update_triggers r (transition_row st result recovery t r) = None"
  by (rule transition_cases [OF assms(1-3), where i = i]) (use assms(4) that in auto)

lemma with_current_changes:
  assumes "fst (with_current i check k rows) \<noteq> rows"
  obtains r where "r \<in> set rows" "jr_operationId r = i" "check r = None" "fst (k r rows) \<noteq> rows"
  using assms by (auto simp: with_current_def dest: require_SomeD split: sum.splits option.splits)

text \<open>An operation whose observer is lost and which has no generation to compare is final.\<close>

definition can_be_resolved :: "journal_row \<Rightarrow> bool" where
  "can_be_resolved r \<longleftrightarrow> lost_its_observer r \<or> jr_generation r \<noteq> None"

lemma begin_changes:
  assumes "fst (begin_operation i kind g t rows) \<noteq> rows"
  shows "\<forall>r \<in> set rows. \<not> is_unresolved r"
  using assms
  by (auto simp: begin_operation_def Let_def insert_journal_row_def check_simps journal_constraints_None
      is_unresolved_def split: sum.splits)

lemma live_completion_changes:
  assumes "fst (confirm_from_live_completion i outcome t rows) \<noteq> rows"
  shows "\<exists>r \<in> set rows. lost_its_observer r"
  using assms unfolding confirm_from_live_completion_def
  by (elim with_current_changes) (auto simp: check_simps lost_its_observer_def)

lemma exact_generation_changes:
  assumes "fst (confirm_from_exact_generation i g t rows) \<noteq> rows"
  shows "\<exists>r \<in> set rows. is_unresolved r \<and> jr_generation r \<noteq> None"
  using assms unfolding confirm_from_exact_generation_def
  by (elim with_current_changes) (auto simp: check_simps is_unresolved_def)

lemma abandoned_changes:
  assumes "journal_ok rows"
    and "fst (mark_caller_abandoned i t rows) \<noteq> rows \<or> fst (mark_native_completion_unknown i t rows) \<noteq> rows"
  shows "\<exists>r \<in> set rows. lost_its_observer r"
  using assms(2) unfolding mark_caller_abandoned_def mark_native_completion_unknown_def
  by (elim disjE; elim transition_changes [OF assms(1), rotated 2];
      auto simp: code_shape_simps lost_its_observer_def)

lemma mismatch_changes:
  assumes ok: "journal_ok rows" and ch: "fst (mark_metadata_mismatch i t rows) \<noteq> rows"
  shows "\<exists>r \<in> set rows. lost_its_observer r"
  using ch unfolding mark_metadata_mismatch_def
proof (elim with_current_changes)
  fix r
  assume r: "fst (if jr_recoveryCode r = Some Manual_recovery_required then (rows, Inr r)
    else transition i [Op_outcome_unknown] Op_outcome_unknown Metadata_mismatch
      (Some Manual_recovery_required) t rows) \<noteq> rows"
  then have "fst (transition i [Op_outcome_unknown] Op_outcome_unknown Metadata_mismatch
      (Some Manual_recovery_required) t rows) \<noteq> rows" by (auto split: if_splits)
  then obtain x where x: "x \<in> set rows" "jr_state x = Op_outcome_unknown"
    "update_triggers x (transition_row Op_outcome_unknown Metadata_mismatch
      (Some Manual_recovery_required) t x) = None"
    by (elim transition_changes [OF ok, rotated 2]) (auto simp: code_shape_simps)
  have "jr_recoveryCode x \<noteq> None"
    using x ok by (auto simp: journal_ok_def list_all_iff valid_operation_record_def code_shape_is_valid_def
        split: if_splits)
  with x escalation_only [OF x(3)] have "lost_its_observer x"
    by (auto simp: lost_its_observer_def awaits_native_completion_def transition_row_def)
  with x(1) show ?thesis by blast
qed

lemma recover_changes:
  assumes ok: "journal_ok rows" and ch: "fst (recover_after_restart t rows) \<noteq> rows"
  shows "\<exists>r \<in> set rows. lost_its_observer r"
proof (cases "canonical_timestamp t")
  case True
  show ?thesis by (rule recover_cases [OF ok True]) (use ch in auto)
next
  case False
  with ch show ?thesis by (simp add: recover_after_restart_def throw_if_def)
qed

lemma lost_unresolved: "lost_its_observer r \<Longrightarrow> is_unresolved r"
  by (auto simp: lost_its_observer_def awaits_native_completion_def is_unresolved_def)

lemma change_needs:
  assumes ok: "journal_ok rows" and ch: "journal_after rows call \<noteq> rows"
  shows "(\<forall>r \<in> set rows. \<not> is_unresolved r) \<or> (\<exists>r \<in> set rows. is_unresolved r \<and> can_be_resolved r)"
proof (cases "\<exists>r \<in> set rows. lost_its_observer r")
  case True
  then show ?thesis unfolding can_be_resolved_def using lost_unresolved by blast
next
  case False
  with ch show ?thesis
    by (cases call)
      (auto simp: journal_after_def journal_call_result_def can_be_resolved_def split_beta
        dest!: begin_changes live_completion_changes exact_generation_changes mismatch_changes [OF ok]
          recover_changes [OF ok] abandoned_changes [OF ok, OF disjI1] abandoned_changes [OF ok, OF disjI2])
qed

lemma stuck_run:
  assumes ok: "journal_ok rows" and r: "r \<in> set rows" "is_unresolved r" "\<not> can_be_resolved r"
  shows "journal_run rows calls = rows"
proof (induction calls)
  case Nil
  show ?case by (simp add: journal_run_def)
next
  case (Cons call calls)
  have "journal_after rows call = rows"
    using change_needs [OF ok, of call] r one_unresolved [OF ok r(1)] by blast
  with Cons show ?case by (simp add: journal_run_def)
qed

section \<open>Reading\<close>

lemma reads_list: "list_all valid_operation_record rows \<Longrightarrow> is_ok (list_operations rows)"
  by (simp add: list_operations_def list_all_iff to_records_valid)

lemma reads_latest: "list_all valid_operation_record rows \<Longrightarrow> is_ok (latest_projection rows)"
proof -
  assume v: "list_all valid_operation_record rows"
  have "is_ok (to_projection (Some r))" if "valid_operation_record r" for r
    using that by (cases "jr_state r")
      (auto simp: to_projection_def valid_operation_record_def code_shape_is_valid_def split: if_splits)
  moreover have "valid_operation_record r"
    if "at_last (sort_key jr_updatedAt (sort_key jr_operationId rows)) = Some r" for r
    using at_last_mem [OF that] v by (simp add: list_all_iff)
  ultimately show ?thesis
    by (cases "at_last (sort_key jr_updatedAt (sort_key jr_operationId rows))")
      (auto simp: latest_projection_def latest_operation_def to_optional_record_def to_record_valid
        to_projection_def)
qed

section \<open>Resolving an operation\<close>

lemma confirm_triggers:
  assumes "is_unresolved r"
  shows "update_triggers r (transition_row Op_confirmed result None (jr_updatedAt r) r) = None"
  using assms
  by (auto simp: update_triggers_def check_simps identity_kept_def transition_row_def transition_allowed_def
      is_unresolved_def sql_or_def)

lemma confirm_resolves:
  assumes ok: "journal_ok rows" and r: "r \<in> set rows" "is_unresolved r"
    and code: "result \<in> {Native_success_confirmed, Native_failure_confirmed, Metadata_match_confirmed}"
    and froms: "jr_state r \<in> set froms" "set froms \<subseteq> {Op_pending, Op_outcome_unknown}"
  shows "\<forall>x \<in> set (fst (transition (jr_operationId r) froms Op_confirmed result None (jr_updatedAt r) rows)).
    \<not> is_unresolved x"
proof -
  obtain xs ys where rows: "rows = xs @ r # ys" using r(1) by (auto dest: split_list)
  let ?r' = "transition_row Op_confirmed result None (jr_updatedAt r) r"
  have t: "canonical_timestamp (jr_updatedAt r)"
    using ok r(1) by (auto simp: journal_ok_def list_all_iff valid_operation_record_def)
  have c: "code_shape_is_valid ?r'" using code by (auto simp: code_shape_simps)
  have "transition (jr_operationId r) froms Op_confirmed result None (jr_updatedAt r) rows =
      (xs @ ?r' # ys, Inr ?r')"
    unfolding rows transition_on(1) [OF ok [unfolded rows] froms t refl c] confirm_triggers [OF r(2)] by simp
  moreover have "\<not> is_unresolved x" if x: "x \<in> set xs \<union> set ys" for x
  proof
    assume "is_unresolved x"
    with x r(2) have "x = r" by (intro one_unresolved [OF ok]) (auto simp: rows)
    with x ok show False by (auto simp: rows journal_ok_def)
  qed
  ultimately show ?thesis by (auto simp: is_unresolved_def transition_row_def)
qed

lemma resolve_call:
  assumes ok: "journal_ok rows" and r: "r \<in> set rows" "is_unresolved r" "can_be_resolved r"
  shows "\<exists>call. \<forall>x \<in> set (journal_after rows call). \<not> is_unresolved x"
proof (cases "lost_its_observer r")
  case True
  have e: "journal_after rows (Live_completion (jr_operationId r) Live_success (jr_updatedAt r)) =
      fst (transition (jr_operationId r) [jr_state r] Op_confirmed Native_success_confirmed None (jr_updatedAt r) rows)"
    using True
    by (auto simp: journal_after_def journal_call_result_def confirm_from_live_completion_def with_current_def
        require_row [OF ok r(1)] throw_if_def lost_its_observer_def split_beta)
  have "set [jr_state r] \<subseteq> {Op_pending, Op_outcome_unknown}" using r(2) by (auto simp: is_unresolved_def)
  then have "\<forall>x \<in> set (journal_after rows (Live_completion (jr_operationId r) Live_success (jr_updatedAt r))).
      \<not> is_unresolved x"
    unfolding e by (intro confirm_resolves [OF ok r(1,2)]) simp_all
  then show ?thesis by (rule exI)
next
  case False
  then obtain g where g: "jr_generation r = Some g" and st: "jr_state r = Op_outcome_unknown"
    using r(2,3) by (auto simp: can_be_resolved_def is_unresolved_def lost_its_observer_def)
  have "valid_generation_id g"
    using ok r(1) g by (auto simp: journal_ok_def list_all_iff valid_operation_record_def)
  then have e: "journal_after rows (Exact_generation (jr_operationId r) g (jr_updatedAt r)) =
      fst (transition (jr_operationId r) [Op_outcome_unknown] Op_confirmed Metadata_match_confirmed None
        (jr_updatedAt r) rows)"
    using g st
    by (simp add: journal_after_def journal_call_result_def confirm_from_exact_generation_def with_current_def
        require_row [OF ok r(1)] throw_if_def checks.simps split_beta)
  have "\<forall>x \<in> set (journal_after rows (Exact_generation (jr_operationId r) g (jr_updatedAt r))).
      \<not> is_unresolved x"
    unfolding e using st by (intro confirm_resolves [OF ok r(1,2)]) simp_all
  then show ?thesis by (rule exI)
qed

section \<open>One history\<close>

definition sample_operation :: string where
  "sample_operation = ''operation-00000000-0000-4000-8000-000000000001''"

definition sample_generation :: string where
  "sample_generation = ''generation-00000000-0000-4000-8000-00000000000a''"

text \<open>A store that the caller abandons, a restart, and the observation of its generation.\<close>

definition sample_calls :: "journal_call list" where
  "sample_calls =
     [Begin_operation sample_operation Store_protected (Some sample_generation) ''2026-09-01T00:00:00.000Z'',
      Caller_abandons sample_operation ''2026-09-01T00:00:01.000Z'',
      Restart ''2026-09-01T00:00:02.000Z'',
      Exact_generation sample_operation sample_generation ''2026-09-01T00:00:03.000Z'']"

definition sample_rows :: "operation_state \<Rightarrow> operation_result option \<Rightarrow> recovery_code option \<Rightarrow> string \<Rightarrow> journal_row list" where
  "sample_rows st result recovery t =
     [\<lparr>jr_operationId = sample_operation, jr_kind = Store_protected, jr_generation = Some sample_generation,
       jr_startedAt = ''2026-09-01T00:00:00.000Z'', jr_updatedAt = t, jr_state = st,
       jr_resultCode = result, jr_recoveryCode = recovery,
       jr_capabilityVersion = authority_capability_version\<rparr>]"

lemma reachable_run: "reachable_journal rows \<Longrightarrow> reachable_journal (journal_run rows calls)"
  by (induction calls arbitrary: rows) (auto simp: journal_run_def intro: after_call)

lemma sample_history:
  "journal_run [] (take 3 sample_calls) =
     sample_rows Op_outcome_unknown (Some Process_interrupted) (Some Manual_recovery_required)
       ''2026-09-01T00:00:02.000Z'' \<and>
   journal_call_result (journal_run [] (take 3 sample_calls)) (sample_calls ! 3) =
     (sample_rows Op_confirmed (Some Metadata_match_confirmed) None ''2026-09-01T00:00:03.000Z'',
      Inr (Some (hd (sample_rows Op_confirmed (Some Metadata_match_confirmed) None
        ''2026-09-01T00:00:03.000Z'')))) \<and>
   effective_calls [] sample_calls = 4"
  by code_simp

section \<open>Properties\<close>

text \<open>
  C38: every call of the credential journal implements its specification. After any history the
  table holds rows that satisfy its constraints, all of which the schema reads, with at most one
  unresolved operation; and a call, whatever its arguments, either leaves the rows exactly as they
  were, as every call that throws does, or returns after one move of the specification: it begins
  an operation while none is unresolved, or takes one operation a step forward, its identity
  unchanged and its time not moved back.
\<close>

theorem journal_implements_its_specification:
  assumes "reachable_journal rows" and "journal_call_result rows call = (rows', result)"
  shows "journal_table_ok rows' \<and> length (filter is_unresolved rows') \<le> 1 \<and>
    is_ok (list_operations rows') \<and> is_ok (latest_projection rows') \<and>
    (rows' = rows \<or> is_ok result \<and> journal_move rows rows')"
proof -
  have m: "journal_ok rows'" "rows' = rows \<or> is_ok result \<and> journal_move rows rows'"
    using call_moves [OF reachable_ok [OF assms(1)], of call] by (simp_all add: assms(2) keeps_or_moves_def)
  then have "list_all valid_operation_record rows'" by (simp add: journal_ok_def)
  then have "is_ok (list_operations rows') \<and> is_ok (latest_projection rows')"
    by (auto simp: reads_list reads_latest)
  with m journal_ok_table [OF m(1)] show ?thesis by (simp add: journal_ok_def unique_unresolved)
qed

theorem journal_implements_its_specification_witness:
  "is_ok (list_operations (sample_rows Op_confirmed (Some Metadata_match_confirmed) None
     ''2026-09-01T00:00:03.000Z'')) \<and>
   journal_move
     (sample_rows Op_outcome_unknown (Some Process_interrupted) (Some Manual_recovery_required)
       ''2026-09-01T00:00:02.000Z'')
     (sample_rows Op_confirmed (Some Metadata_match_confirmed) None ''2026-09-01T00:00:03.000Z'')"
  using journal_implements_its_specification [OF reachable_run [OF new_journal]
      sample_history [THEN conjunct2, THEN conjunct1]] sample_history [THEN conjunct1]
  by (auto simp: sample_rows_def)

text \<open>
  C39: a journal settles. In any continuation of any history, the number of calls that change it
  is at most three and four for each operation begun in it; so between two operations it stops
  changing after three calls, however often callers repeat theirs.
\<close>

theorem journal_settles:
  assumes "reachable_journal rows"
  shows "effective_calls rows calls + 4 * length rows \<le> 3 + 4 * length (journal_run rows calls) \<and>
    length rows \<le> length (journal_run rows calls)"
  using run_effort [OF reachable_ok [OF assms], of calls] effort_bound [OF reachable_ok [OF assms]]
  by linarith

theorem journal_settles_witness:
  "effective_calls [] sample_calls \<le> 3 + 4 * length (journal_run [] sample_calls) \<and>
     effective_calls [] sample_calls = 4"
  using journal_settles [OF new_journal, of sample_calls] sample_history by simp

text \<open>
  C40: which unresolved operations can be resolved. From any reachable journal there is a history
  of calls after which no operation is unresolved exactly when its unresolved operation still
  waits for the native completion or names a generation that can be observed; a removal whose
  observer is lost keeps the journal as it is for ever, and with it every later operation out.
\<close>

theorem resolvable_operations:
  assumes "reachable_journal rows" and "r \<in> set rows" and "is_unresolved r"
  shows "((\<exists>calls. \<forall>x \<in> set (journal_run rows calls). \<not> is_unresolved x) \<longleftrightarrow>
      lost_its_observer r \<or> jr_generation r \<noteq> None) \<and>
    (\<not> (lost_its_observer r \<or> jr_generation r \<noteq> None) \<longrightarrow> (\<forall>calls. journal_run rows calls = rows))"
proof -
  note ok = reachable_ok [OF assms(1)]
  have "\<exists>calls. \<forall>x \<in> set (journal_run rows calls). \<not> is_unresolved x" if c: "can_be_resolved r"
  proof -
    obtain call where "\<forall>x \<in> set (journal_after rows call). \<not> is_unresolved x"
      using resolve_call [OF ok assms(2,3) c] by blast
    then show ?thesis by (intro exI [of _ "[call]"]) (simp add: journal_run_def)
  qed
  moreover have "\<forall>calls. journal_run rows calls = rows" if "\<not> can_be_resolved r"
    using stuck_run [OF ok assms(2,3) that] by blast
  ultimately show ?thesis using assms(2,3) unfolding can_be_resolved_def by metis
qed

theorem resolvable_operations_witness:
  "\<exists>calls. \<forall>x \<in> set (journal_run (journal_run [] (take 3 sample_calls)) calls). \<not> is_unresolved x"
  using resolvable_operations [OF reachable_run [OF new_journal],
      of "hd (sample_rows Op_outcome_unknown (Some Process_interrupted) (Some Manual_recovery_required)
        ''2026-09-01T00:00:02.000Z'')" "take 3 sample_calls"] sample_history
  by (simp add: sample_rows_def is_unresolved_def)

end
