(* ===== verification/EventSchemas.thy ===== *)
theory EventSchemas
  imports DecisionSchema
begin

text \<open>
  The schemas of the remaining events of \<open>shared/session-events.ts\<close>, of the session authority of
  \<open>shared/hybrid-simulation-contracts.ts\<close>, and \<open>parseSessionEventData\<close>, which every event passes
  before it is stored and again when it is read back. The two schemas of a structured review
  belong to other modules and are the parameter \<open>review_ok\<close>.
\<close>

section \<open>Floating-point rounding\<close>

text \<open>\<open>Math.ceil(a * b)\<close> of a safe integer and a fraction: the product is rounded to 53
  significant bits, ties to even, before the ceiling is taken. A positive product below 1 has
  ceiling 1 whatever its rounding.\<close>

definition round_half_even :: "rat \<Rightarrow> int" where
  "round_half_even x =
     (let n = floor x; r = x - of_int n
      in if r < 1/2 then n else if r > 1/2 then n + 1 else if even n then n else n + 1)"

definition double_ceil :: "rat \<Rightarrow> int" where
  "double_ceil x =
     (if x \<le> 0 then 0 else if x < 1 then 1
      else let k = bitlen (floor x)
        in if k \<le> 53 then ceiling (of_int (round_half_even (x * 2 ^ nat (53 - k))) / 2 ^ nat (53 - k) :: rat)
           else round_half_even (x / 2 ^ nat (k - 53)) * 2 ^ nat (k - 53))"

section \<open>Sessions\<close>

definition valid_obligations :: "completion_obligations \<Rightarrow> bool" where
  "valid_obligations ob \<longleftrightarrow>
     list_all (\<lambda>t. t \<in> set completion_obligation_tool_names) (ob_requiredSuccessfulTools ob) \<and>
     int (length (ob_requiredSuccessfulTools ob)) \<le> maximum_agentic_policy_steps \<and>
     0 \<le> ob_minimumVerifiedPathLineCitations ob \<and>
     ob_minimumVerifiedPathLineCitations ob \<le> maximum_verified_path_line_citations"

definition valid_provider_identity :: "provider_identity \<Rightarrow> bool" where
  "valid_provider_identity p \<longleftrightarrow> bounded_v2_id (pid_providerId p) \<and> bounded_v2_id (pid_model p)"

definition valid_simulation_authority :: "simulation_authority \<Rightarrow> bool" where
  "valid_simulation_authority a \<longleftrightarrow>
     bounded_code (ha_simulationAuthorityId a) \<and>
     valid_provider_identity (ha_fakeLocalProvider a) \<and> valid_provider_identity (ha_fakeCloudProvider a) \<and>
     bounded_code (ha_riskPolicyId a) \<and> bounded_v2_id (ha_healthSnapshotId a) \<and>
     bounded_v2_id (ha_pricingSnapshotId a) \<and> bounded_v2_id (ha_credentialMetadataId a) \<and>
     bounded_v2_id (ha_campaignId a) \<and>
     pid_providerId (ha_fakeLocalProvider a) \<noteq> pid_providerId (ha_fakeCloudProvider a)"

definition active_obligations :: "completion_obligations option \<Rightarrow> bool" where
  "active_obligations ob \<longleftrightarrow> holds ob (\<lambda>x. length (ob_requiredSuccessfulTools x) > 0 \<or>
     ob_minimumVerifiedPathLineCitations x > 0)"

definition minimum_tool_rounds :: "completion_obligations \<Rightarrow> int" where
  "minimum_tool_rounds ob =
     max (int (length (ob_requiredSuccessfulTools ob)))
       (if ob_minimumVerifiedPathLineCitations ob > 0 then 1 else 0)"

definition obligations_affordable :: "created_payload \<Rightarrow> bool" where
  "obligations_affordable p \<longleftrightarrow>
     (active_obligations (cr_completionObligations p) \<longrightarrow>
        holds (cr_executionPolicy p) (\<lambda>policy. holds (cr_completionObligations p) (\<lambda>ob.
          policy_tool_calls policy \<ge> minimum_tool_rounds ob \<and>
          policy_inference_rounds policy \<ge> minimum_tool_rounds ob + 1)))"

fun change_review_policy :: "execution_policy option \<Rightarrow> bool" where
  "change_review_policy (Some (Policy_v2 p)) =
     (p2_egressConsent p = Consent_none \<and>
      (p2_routingPolicy p = Local_only_v1 \<or> p2_routingPolicy p = Hybrid_simulation_v1))"
| "change_review_policy _ = False"

fun hybrid_simulation_policy :: "execution_policy option \<Rightarrow> bool" where
  "hybrid_simulation_policy (Some (Policy_v2 p)) = (p2_routingPolicy p = Hybrid_simulation_v1)"
| "hybrid_simulation_policy _ = False"

definition valid_created :: "created_payload \<Rightarrow> bool" where
  "valid_created p \<longleftrightarrow>
     required_id (cr_title p) \<and> required_id (cr_objective p) \<and> required_id (cr_workspaceRoot p) \<and>
     optionally valid_obligations (cr_completionObligations p) \<and>
     optionally valid_execution_policy (cr_executionPolicy p) \<and>
     optionally valid_simulation_authority (cr_hybridSimulation p) \<and>
     obligations_affordable p \<and>
     (cr_taskTrack p = Some Change_review_v1 \<longrightarrow>
        change_review_policy (cr_executionPolicy p) \<and>
        holds (cr_completionObligations p) (\<lambda>ob.
          ob_requiredSuccessfulTools ob = [''inspect_git_changes''] \<and>
          ob_minimumVerifiedPathLineCitations ob = 0)) \<and>
     hybrid_simulation_policy (cr_executionPolicy p) = (cr_hybridSimulation p \<noteq> None) \<and>
     (hybrid_simulation_policy (cr_executionPolicy p) \<longrightarrow> cr_taskTrack p = Some Change_review_v1)"

definition valid_started :: "started_payload \<Rightarrow> bool" where
  "valid_started p \<longleftrightarrow>
     optionally zod_datetime (sp_startedAt p) \<and> optionally zod_datetime (sp_deadlineAt p) \<and>
     (sp_startedAt p = None) = (sp_deadlineAt p = None) \<and>
     optionally (\<lambda>s. optionally (\<lambda>d. \<not> time_less_eq d s) (sp_deadlineAt p)) (sp_startedAt p)"

definition valid_synthesis_import :: "synthesis_import \<Rightarrow> bool" where
  "valid_synthesis_import i \<longleftrightarrow>
     bounded_v2_id (im_importId i) \<and> bounded_v2_id (im_parentSessionId i) \<and>
     safe_positive (im_parentLastSequence i) \<and> sha256_hex (im_commonInvestigationSha256 i) \<and>
     sha256_hex (im_commonCheckpointSha256 i) \<and> bounded_v2_id (im_checkpointId i) \<and>
     sha256_hex (im_packetSha256 i) \<and> sha256_hex (im_semanticMessagesSha256 i) \<and>
     sha256_hex (im_responseSchemaSha256 i) \<and> sha256_hex (im_provenanceSemanticSha256 i) \<and>
     sha256_hex (im_reviewSnapshotId i) \<and> sha256_hex (im_reviewEvidenceSetId i) \<and>
     sha256_hex (im_reviewProvenanceSha256 i) \<and>
     list_all (\<lambda>t. t \<in> set completion_obligation_tool_names) (im_completedRequiredToolNames i) \<and>
     int (length (im_completedRequiredToolNames i)) \<le> maximum_agentic_policy_steps \<and>
     strictly_increasing id (im_completedRequiredToolNames i) \<and>
     bounded_v2_id (im_retainedLocalLeaseId i) \<and> zod_datetime (im_importedAt i)"

definition valid_egress_admission :: "egress_admission \<Rightarrow> bool" where
  "valid_egress_admission a \<longleftrightarrow>
     bounded_v2_id (ea_admissionId a) \<and> length (ea_reasonCodes a) \<le> 64 \<and>
     list_all bounded_code (ea_reasonCodes a) \<and> strictly_increasing id (ea_reasonCodes a) \<and>
     sha256_hex (ea_messagesSemanticSha256 a) \<and> sha256_hex (ea_provenanceSemanticSha256 a) \<and>
     bounded_v2_id (ea_checkpointId a) \<and> bounded_code (ea_simulationAuthorityId a) \<and>
     zod_datetime (ea_evaluatedAt a) \<and>
     (ea_decision a = Egress_pass) = (ea_reasonCodes a = [])"

section \<open>Attempts\<close>

definition review_result_v1_json_schema_sha256 :: string where
  "review_result_v1_json_schema_sha256 =
     ''c9f6d3fc10fd3ab6d63c047fe0c58e87094ff232c5be46df014bc2e1cb079ed8''"

definition valid_tool_names :: "string list \<Rightarrow> bool" where
  "valid_tool_names names \<longleftrightarrow>
     length names \<le> 64 \<and> list_all bounded_code names \<and> strictly_increasing id names"

definition attempt_tools_ok :: "attempt_start \<Rightarrow> bool" where
  "attempt_tools_ok p \<longleftrightarrow>
     (if at_allowTools p
      then holds (at_allowedToolNames p) (\<lambda>names. names \<noteq> []) \<and> at_phase p \<noteq> Synthesis
      else at_allowedToolNames p = None \<and> \<not> at_requireToolCall p)"

definition valid_attempt_start :: "attempt_start \<Rightarrow> bool" where
  "valid_attempt_start p \<longleftrightarrow>
     bounded_v2_id (at_attemptId p) \<and> safe_positive (at_round p) \<and> bounded_v2_id (at_checkpointId p) \<and>
     bounded_v2_id (at_messageId p) \<and> bounded_v2_id (at_decisionId p) \<and> bounded_v2_id (at_leaseId p) \<and>
     bounded_v2_id (at_providerId p) \<and> bounded_v2_id (at_requestedModel p) \<and>
     safe_positive (at_requestedMaxOutputTokens p) \<and> optionally valid_tool_names (at_allowedToolNames p) \<and>
     optionally (\<lambda>h. h = review_result_v1_json_schema_sha256) (at_structuredOutputSchemaSha256 p) \<and>
     optionally bounded_v2_id (at_budgetReservationId p) \<and>
     optionally bounded_v2_id (at_cloudEgressAdmissionId p) \<and>
     attempt_tools_ok p \<and>
     (at_structuredOutputContract p \<noteq> None) = (at_structuredOutputSchemaSha256 p \<noteq> None) \<and>
     (at_structuredOutputContract p \<noteq> None \<longrightarrow> at_phase p = Synthesis \<and> \<not> at_allowTools p)"

definition valid_usage :: "attempt_usage \<Rightarrow> bool" where
  "valid_usage u \<longleftrightarrow>
     safe_non_negative (au_inputTokens u) \<and> safe_non_negative (au_outputTokens u) \<and>
     safe_non_negative (au_reasoningTokens u) \<and> optionally safe_non_negative (au_cacheReadTokens u)"

definition finish_outcome_ok :: "attempt_finish \<Rightarrow> bool" where
  "finish_outcome_ok f \<longleftrightarrow>
     (if fin_outcome f = Succeeded
      then fin_requestDisposition f = Sent \<and> fin_servedModel f \<noteq> None \<and> fin_errorCode f = None
      else fin_errorCode f \<noteq> None)"

definition unsent_is_free :: "attempt_finish \<Rightarrow> bool" where
  "unsent_is_free f \<longleftrightarrow>
     (fin_requestDisposition f = Not_sent \<longrightarrow>
        au_inputTokens (fin_usage f) = 0 \<and> au_outputTokens (fin_usage f) = 0 \<and>
        au_reasoningTokens (fin_usage f) = 0 \<and> coalesce (au_cacheReadTokens (fin_usage f)) 0 = 0 \<and>
        co_amountMicrousd (fin_cost f) = 0)"

definition finish_cost_ok :: "attempt_finish \<Rightarrow> bool" where
  "finish_cost_ok f \<longleftrightarrow>
     (co_provenance (fin_cost f) = Local_zero_cost_policy \<longrightarrow> co_amountMicrousd (fin_cost f) = 0) \<and>
     (co_provenance (fin_cost f) = Reserved_unknown \<longrightarrow>
        co_reservationId (fin_cost f) \<noteq> None \<and> fin_requestDisposition f \<noteq> Not_sent)"

definition finish_hashes_ok :: "attempt_finish \<Rightarrow> bool" where
  "finish_hashes_ok f \<longleftrightarrow>
     (fin_responseBodySha256 f \<noteq> None \<longrightarrow> fin_requestDisposition f = Sent) \<and>
     (fin_reviewResultSha256 f \<noteq> None \<longrightarrow>
        fin_responseBodySha256 f \<noteq> None \<and> fin_outcome f = Succeeded \<and> fin_requestDisposition f = Sent)"

definition valid_attempt_finish :: "attempt_finish \<Rightarrow> bool" where
  "valid_attempt_finish f \<longleftrightarrow>
     bounded_v2_id (fin_attemptId f) \<and> bounded_v2_id (fin_checkpointId f) \<and>
     optionally (optionally bounded_v2_id) (fin_finishReason f) \<and>
     optionally bounded_v2_id (fin_servedModel f) \<and> valid_usage (fin_usage f) \<and>
     safe_non_negative (co_amountMicrousd (fin_cost f)) \<and>
     optionally bounded_v2_id (co_reservationId (fin_cost f)) \<and>
     0 \<le> fin_latencyMs f \<and> optionally (\<lambda>t. 0 \<le> t) (fin_ttftMs f) \<and>
     optionally bounded_code (fin_errorCode f) \<and> optionally sha256_hex (fin_responseBodySha256 f) \<and>
     optionally sha256_hex (fin_reviewResultSha256 f) \<and>
     optionally (\<lambda>t. t \<le> fin_latencyMs f) (fin_ttftMs f) \<and>
     finish_outcome_ok f \<and> unsent_is_free f \<and> finish_cost_ok f \<and> finish_hashes_ok f"

section \<open>Messages, tools and context\<close>

definition valid_user_message :: "user_message_payload \<Rightarrow> bool" where
  "valid_user_message p \<longleftrightarrow> required_id (um_messageId p) \<and> 1 \<le> length (um_content p)"

definition valid_route :: "route_payload \<Rightarrow> bool" where
  "valid_route p \<longleftrightarrow>
     required_id (ro_providerId p) \<and> required_id (ro_model p) \<and> required_id (ro_reason p) \<and>
     optionally required_id (ro_leaseId p) \<and> optionally required_id (ro_decisionId p)"

definition valid_assistant_started :: "assistant_started_payload \<Rightarrow> bool" where
  "valid_assistant_started p \<longleftrightarrow>
     required_id (as_messageId p) \<and> required_id (as_providerId p) \<and> required_id (as_model p) \<and>
     optionally required_id (as_decisionId p) \<and> optionally required_id (as_leaseId p) \<and>
     optionally required_id (as_checkpointId p) \<and> optionally required_id (as_attemptId p)"

definition valid_correction :: "citation_correction \<Rightarrow> bool" where
  "valid_correction c \<longleftrightarrow> 1 \<le> length (corr_from c) \<and> 1 \<le> length (corr_to c)"

definition valid_assistant_completed ::
  "(review_payload \<Rightarrow> bool) \<Rightarrow> (review_payload \<Rightarrow> bool) \<Rightarrow> assistant_completed_payload \<Rightarrow> bool" where
  "valid_assistant_completed result_ok coverage_ok p \<longleftrightarrow>
     required_id (ac_messageId p) \<and> optionally (optionally required_id) (ac_stopReason p) \<and>
     optionally (list_all valid_correction) (ac_citationCorrections p) \<and>
     optionally result_ok (ac_reviewResult p) \<and> optionally coverage_ok (ac_reviewCoverage p) \<and>
     optionally required_id (ac_attemptId p) \<and>
     (ac_reviewResult p \<noteq> None) = (ac_reviewCoverage p \<noteq> None) \<and>
     (ac_reviewParseStatus p = Some Parse_accepted) =
       (ac_reviewResult p \<noteq> None \<and> ac_reviewCoverage p \<noteq> None) \<and>
     optionally (\<lambda>s. ac_completionState p =
       Some (if s = Parse_accepted then Complete else Incomplete)) (ac_reviewParseStatus p)"

definition valid_tool_requested :: "tool_requested_payload \<Rightarrow> bool" where
  "valid_tool_requested p \<longleftrightarrow>
     required_id (tq_toolCallId p) \<and> required_id (tq_name p) \<and> optionally required_id (tq_messageId p)"

definition valid_tool_completed :: "tool_completed_payload \<Rightarrow> bool" where
  "valid_tool_completed p \<longleftrightarrow>
     required_id (td_toolCallId p) \<and> required_id (td_name p) \<and> optionally (\<lambda>d. 0 \<le> d) (td_durationMs p)"

definition review_identities :: "context_compilation \<Rightarrow> bool list" where
  "review_identities c =
     [cc_reviewSnapshotId c \<noteq> None, cc_reviewEvidenceSetId c \<noteq> None, cc_reviewProvenanceSha256 c \<noteq> None,
      cc_structuredOutputContract c \<noteq> None, cc_structuredOutputSchemaSha256 c \<noteq> None]"

definition context_numbers_ok :: "context_compilation \<Rightarrow> bool" where
  "context_numbers_ok c \<longleftrightarrow>
     safe_positive (cc_maxTokens c) \<and> safe_non_negative (cc_estimatedTokens c) \<and>
     safe_non_negative (cc_reservedInputTokens c) \<and> safe_non_negative (cc_effectiveInputTokenBudget c) \<and>
     safe_non_negative (cc_sourceMessageCount c) \<and> safe_non_negative (cc_messageCount c) \<and>
     safe_non_negative (cc_evidenceCount c) \<and> safe_non_negative (cc_deduplicatedEvidenceCount c) \<and>
     safe_non_negative (cc_omittedEvidenceCount c) \<and> 0 \<le> cc_safetyMargin c \<and> cc_safetyMargin c < 1"

definition context_budget_ok :: "context_compilation \<Rightarrow> bool" where
  "context_budget_ok c \<longleftrightarrow>
     (let expected = cc_maxTokens c - double_ceil (of_int (cc_maxTokens c) * cc_safetyMargin c) -
            cc_reservedInputTokens c
      in 0 \<le> expected \<and> cc_effectiveInputTokenBudget c = expected) \<and>
     cc_estimatedTokens c \<le> cc_effectiveInputTokenBudget c"

definition valid_context_compiled :: "context_compilation \<Rightarrow> bool" where
  "valid_context_compiled c \<longleftrightarrow>
     required_id (cc_checkpointId c) \<and> required_id (cc_providerId c) \<and> required_id (cc_model c) \<and>
     context_numbers_ok c \<and> sha256_hex (cc_packetSha256 c) \<and> sha256_hex (cc_messagesSha256 c) \<and>
     optionally required_id (cc_decisionId c) \<and> optionally required_id (cc_leaseId c) \<and>
     optionally required_id (cc_messageId c) \<and> optionally required_id (cc_attemptId c) \<and>
     optionally sha256_hex (cc_reviewSnapshotId c) \<and> optionally sha256_hex (cc_reviewEvidenceSetId c) \<and>
     optionally sha256_hex (cc_reviewProvenanceSha256 c) \<and>
     optionally (\<lambda>h. h = review_result_v1_json_schema_sha256) (cc_structuredOutputSchemaSha256 c) \<and>
     context_budget_ok c \<and>
     (case cc_compilerVersion c of
        Review_context_compiler_v1 \<Rightarrow> list_all (\<lambda>b. b) (review_identities c)
      | Context_compiler_v1 \<Rightarrow> list_all (\<lambda>b. \<not> b) (review_identities c))"

text \<open>\<open>/^[^\r\n]+:[1-9][0-9]*$/u\<close>: the last colon is followed by a positive number.\<close>

definition path_line_citation :: "string \<Rightarrow> bool" where
  "path_line_citation s \<longleftrightarrow>
     3 \<le> length s \<and> length s \<le> 4096 \<and>
     (let digits = takeWhile is_digit (rev s); rest = dropWhile is_digit (rev s)
      in digits \<noteq> [] \<and> last digits \<noteq> CHR ''0'' \<and>
         (case rest of
            c # path \<Rightarrow> c = CHR '':'' \<and> path \<noteq> [] \<and>
              list_all (\<lambda>d. code_unit d \<noteq> 10 \<and> code_unit d \<noteq> 13) path
          | [] \<Rightarrow> False))"

definition valid_obligation_check :: "obligation_check \<Rightarrow> bool" where
  "valid_obligation_check p \<longleftrightarrow>
     required_id (ck_checkId p) \<and> required_id (ck_messageId p) \<and> safe_positive (ck_round p) \<and>
     safe_non_negative (ck_remainingRounds p) \<and>
     list_all (\<lambda>t. t \<in> set completion_obligation_tool_names) (ck_successfulRequiredTools p) \<and>
     int (length (ck_successfulRequiredTools p)) \<le> maximum_agentic_policy_steps \<and>
     list_all (\<lambda>t. t \<in> set completion_obligation_tool_names) (ck_missingRequiredTools p) \<and>
     int (length (ck_missingRequiredTools p)) \<le> maximum_agentic_policy_steps \<and>
     int (length (ck_verifiedPathLineCitations p)) \<le> maximum_verified_path_line_citations \<and>
     list_all path_line_citation (ck_verifiedPathLineCitations p) \<and>
     strictly_increasing id (ck_verifiedPathLineCitations p) \<and>
     safe_non_negative (ck_unresolvedCitationCount p) \<and>
     (ck_outcome p = Obl_accepted \<longrightarrow> ck_missingRequiredTools p = [] \<and> ck_unresolvedCitationCount p = 0) \<and>
     (ck_outcome p = Obl_retry \<longrightarrow> ck_remainingRounds p \<noteq> 0) \<and>
     (ck_outcome p = Obl_exhausted \<longrightarrow> ck_remainingRounds p = 0)"

definition valid_usage_recorded :: "usage_payload \<Rightarrow> bool" where
  "valid_usage_recorded p \<longleftrightarrow>
     safe_non_negative (ur_inputTokens p) \<and> safe_non_negative (ur_outputTokens p) \<and>
     safe_non_negative (ur_reasoningTokens p) \<and> 0 \<le> ur_costUsd p \<and>
     optionally required_id (ur_servedModel p) \<and> optionally (\<lambda>t. 0 \<le> t) (ur_latencyMs p) \<and>
     optionally (\<lambda>t. 0 \<le> t) (ur_ttftMs p)"

section \<open>Trimming\<close>

definition clean_created :: "created_payload \<Rightarrow> created_payload" where
  "clean_created p =
     p\<lparr>cr_title := js_trim (cr_title p), cr_objective := js_trim (cr_objective p),
       cr_workspaceRoot := js_trim (cr_workspaceRoot p),
       cr_hybridSimulation := map_option (\<lambda>a. a\<lparr>
          ha_simulationAuthorityId := js_trim (ha_simulationAuthorityId a),
          ha_fakeLocalProvider := \<lparr>pid_providerId = js_trim (pid_providerId (ha_fakeLocalProvider a)),
             pid_model = js_trim (pid_model (ha_fakeLocalProvider a))\<rparr>,
          ha_fakeCloudProvider := \<lparr>pid_providerId = js_trim (pid_providerId (ha_fakeCloudProvider a)),
             pid_model = js_trim (pid_model (ha_fakeCloudProvider a))\<rparr>,
          ha_riskPolicyId := js_trim (ha_riskPolicyId a),
          ha_healthSnapshotId := js_trim (ha_healthSnapshotId a),
          ha_pricingSnapshotId := js_trim (ha_pricingSnapshotId a),
          ha_credentialMetadataId := js_trim (ha_credentialMetadataId a),
          ha_campaignId := js_trim (ha_campaignId a)\<rparr>) (cr_hybridSimulation p)\<rparr>"

definition clean_synthesis_import :: "synthesis_import \<Rightarrow> synthesis_import" where
  "clean_synthesis_import i =
     i\<lparr>im_importId := js_trim (im_importId i), im_parentSessionId := js_trim (im_parentSessionId i),
       im_checkpointId := js_trim (im_checkpointId i),
       im_retainedLocalLeaseId := js_trim (im_retainedLocalLeaseId i)\<rparr>"

definition clean_egress_admission :: "egress_admission \<Rightarrow> egress_admission" where
  "clean_egress_admission a =
     a\<lparr>ea_admissionId := js_trim (ea_admissionId a), ea_reasonCodes := map js_trim (ea_reasonCodes a),
       ea_checkpointId := js_trim (ea_checkpointId a),
       ea_simulationAuthorityId := js_trim (ea_simulationAuthorityId a)\<rparr>"

definition clean_attempt_start :: "attempt_start \<Rightarrow> attempt_start" where
  "clean_attempt_start p =
     p\<lparr>at_attemptId := js_trim (at_attemptId p), at_checkpointId := js_trim (at_checkpointId p),
       at_messageId := js_trim (at_messageId p), at_decisionId := js_trim (at_decisionId p),
       at_leaseId := js_trim (at_leaseId p), at_providerId := js_trim (at_providerId p),
       at_requestedModel := js_trim (at_requestedModel p),
       at_allowedToolNames := map_option (map js_trim) (at_allowedToolNames p),
       at_budgetReservationId := trimmed (at_budgetReservationId p),
       at_cloudEgressAdmissionId := trimmed (at_cloudEgressAdmissionId p)\<rparr>"

definition clean_attempt_finish :: "attempt_finish \<Rightarrow> attempt_finish" where
  "clean_attempt_finish f =
     f\<lparr>fin_attemptId := js_trim (fin_attemptId f), fin_checkpointId := js_trim (fin_checkpointId f),
       fin_finishReason := map_option trimmed (fin_finishReason f),
       fin_servedModel := trimmed (fin_servedModel f), fin_errorCode := trimmed (fin_errorCode f),
       fin_cost := (fin_cost f)\<lparr>co_reservationId := trimmed (co_reservationId (fin_cost f))\<rparr>\<rparr>"

definition clean_context_compiled :: "context_compilation \<Rightarrow> context_compilation" where
  "clean_context_compiled c =
     c\<lparr>cc_checkpointId := js_trim (cc_checkpointId c), cc_providerId := js_trim (cc_providerId c),
       cc_model := js_trim (cc_model c), cc_decisionId := trimmed (cc_decisionId c),
       cc_leaseId := trimmed (cc_leaseId c), cc_messageId := trimmed (cc_messageId c),
       cc_attemptId := trimmed (cc_attemptId c)\<rparr>"

definition clean_assistant_started :: "assistant_started_payload \<Rightarrow> assistant_started_payload" where
  "clean_assistant_started p =
     p\<lparr>as_messageId := js_trim (as_messageId p), as_providerId := js_trim (as_providerId p),
       as_model := js_trim (as_model p), as_decisionId := trimmed (as_decisionId p),
       as_leaseId := trimmed (as_leaseId p), as_checkpointId := trimmed (as_checkpointId p),
       as_attemptId := trimmed (as_attemptId p)\<rparr>"

definition clean_route :: "route_payload \<Rightarrow> route_payload" where
  "clean_route p =
     p\<lparr>ro_providerId := js_trim (ro_providerId p), ro_model := js_trim (ro_model p),
       ro_reason := js_trim (ro_reason p), ro_leaseId := trimmed (ro_leaseId p),
       ro_decisionId := trimmed (ro_decisionId p)\<rparr>"

fun clean_event_data :: "session_event_data \<Rightarrow> session_event_data" where
  "clean_event_data (SessionCreated p) = SessionCreated (clean_created p)"
| "clean_event_data (SessionStarted p) = SessionStarted p"
| "clean_event_data (UserMessage p) = UserMessage (p\<lparr>um_messageId := js_trim (um_messageId p)\<rparr>)"
| "clean_event_data (SynthesisCheckpointImported p) = SynthesisCheckpointImported (clean_synthesis_import p)"
| "clean_event_data (CloudEgressAdmissionRecorded p) = CloudEgressAdmissionRecorded (clean_egress_admission p)"
| "clean_event_data (RoutingDecisionRecorded p) = RoutingDecisionRecorded (clean_routing_decision p)"
| "clean_event_data (RouteAssigned p) = RouteAssigned (clean_route p)"
| "clean_event_data (AssistantMessageStarted p) = AssistantMessageStarted (clean_assistant_started p)"
| "clean_event_data (AssistantMessageDelta p) =
     AssistantMessageDelta (p\<lparr>de_messageId := js_trim (de_messageId p)\<rparr>)"
| "clean_event_data (AssistantMessageCompleted p) =
     AssistantMessageCompleted (p\<lparr>ac_messageId := js_trim (ac_messageId p),
       ac_stopReason := map_option trimmed (ac_stopReason p), ac_attemptId := trimmed (ac_attemptId p)\<rparr>)"
| "clean_event_data (ToolCallRequested p) =
     ToolCallRequested (p\<lparr>tq_toolCallId := js_trim (tq_toolCallId p), tq_name := js_trim (tq_name p),
       tq_messageId := trimmed (tq_messageId p)\<rparr>)"
| "clean_event_data (ToolCallCompleted p) =
     ToolCallCompleted (p\<lparr>td_toolCallId := js_trim (td_toolCallId p), td_name := js_trim (td_name p)\<rparr>)"
| "clean_event_data (ContextCompiled p) = ContextCompiled (clean_context_compiled p)"
| "clean_event_data (InferenceAttemptStarted p) = InferenceAttemptStarted (clean_attempt_start p)"
| "clean_event_data (InferenceAttemptFinished p) = InferenceAttemptFinished (clean_attempt_finish p)"
| "clean_event_data (CompletionObligationsChecked p) =
     CompletionObligationsChecked (p\<lparr>ck_checkId := js_trim (ck_checkId p),
       ck_messageId := js_trim (ck_messageId p)\<rparr>)"
| "clean_event_data (UsageRecorded p) = UsageRecorded (p\<lparr>ur_servedModel := trimmed (ur_servedModel p)\<rparr>)"
| "clean_event_data (SessionCompleted r) = SessionCompleted r"
| "clean_event_data (SessionFailed err) = SessionFailed (js_trim err)"
| "clean_event_data (SessionCancelled r) = SessionCancelled (trimmed r)"
| "clean_event_data (SessionInterrupted r) = SessionInterrupted (js_trim r)"

section \<open>Events\<close>

text \<open>The schemas of the two bodies of a structured review.\<close>

record review_schemas =
  review_result_ok :: "review_payload \<Rightarrow> bool"
  review_coverage_ok :: "review_payload \<Rightarrow> bool"

fun valid_event_data :: "review_schemas \<Rightarrow> session_event_data \<Rightarrow> bool" where
  "valid_event_data rs (SessionCreated p) = valid_created p"
| "valid_event_data rs (SessionStarted p) = valid_started p"
| "valid_event_data rs (UserMessage p) = valid_user_message p"
| "valid_event_data rs (SynthesisCheckpointImported p) = valid_synthesis_import p"
| "valid_event_data rs (CloudEgressAdmissionRecorded p) = valid_egress_admission p"
| "valid_event_data rs (RoutingDecisionRecorded p) = valid_routing_decision p"
| "valid_event_data rs (RouteAssigned p) = valid_route p"
| "valid_event_data rs (AssistantMessageStarted p) = valid_assistant_started p"
| "valid_event_data rs (AssistantMessageDelta p) = required_id (de_messageId p)"
| "valid_event_data rs (AssistantMessageCompleted p) =
     valid_assistant_completed (review_result_ok rs) (review_coverage_ok rs) p"
| "valid_event_data rs (ToolCallRequested p) = valid_tool_requested p"
| "valid_event_data rs (ToolCallCompleted p) = valid_tool_completed p"
| "valid_event_data rs (ContextCompiled p) = valid_context_compiled p"
| "valid_event_data rs (InferenceAttemptStarted p) = valid_attempt_start p"
| "valid_event_data rs (InferenceAttemptFinished p) = valid_attempt_finish p"
| "valid_event_data rs (CompletionObligationsChecked p) = valid_obligation_check p"
| "valid_event_data rs (UsageRecorded p) = valid_usage_recorded p"
| "valid_event_data rs (SessionCompleted r) = True"
| "valid_event_data rs (SessionFailed err) = required_id err"
| "valid_event_data rs (SessionCancelled r) = optionally required_id r"
| "valid_event_data rs (SessionInterrupted r) = required_id r"

definition parse_session_event_data ::
  "review_schemas \<Rightarrow> session_event_data \<Rightarrow> session_event_data option" where
  "parse_session_event_data rs d =
     (let c = clean_event_data d in if valid_event_data rs c then Some c else None)"

definition valid_envelope :: "stored_event \<Rightarrow> bool" where
  "valid_envelope e \<longleftrightarrow>
     required_id (ev_id e) \<and> required_id (ev_sessionId e) \<and> safe_positive (ev_sequence e) \<and>
     zod_datetime (ev_createdAt e)"

definition parse_stored_session_event :: "review_schemas \<Rightarrow> stored_event \<Rightarrow> stored_event option" where
  "parse_stored_session_event rs e =
     (let c = e\<lparr>ev_id := js_trim (ev_id e), ev_sessionId := js_trim (ev_sessionId e)\<rparr>
      in if valid_envelope c
         then map_option (\<lambda>d. c\<lparr>ev_data := d\<rparr>) (parse_session_event_data rs (ev_data e))
         else None)"

section \<open>Parsing a parsed event changes nothing\<close>

lemma clean_payloads_idem [simp]:
  "clean_created (clean_created cr) = clean_created cr"
  "clean_synthesis_import (clean_synthesis_import im) = clean_synthesis_import im"
  "clean_egress_admission (clean_egress_admission ea) = clean_egress_admission ea"
  "clean_attempt_start (clean_attempt_start p) = clean_attempt_start p"
  "clean_attempt_finish (clean_attempt_finish fin) = clean_attempt_finish fin"
  "clean_context_compiled (clean_context_compiled cc) = clean_context_compiled cc"
  "clean_assistant_started (clean_assistant_started q) = clean_assistant_started q"
  "clean_route (clean_route ro) = clean_route ro"
  by (simp_all add: clean_created_def clean_synthesis_import_def clean_egress_admission_def
      clean_attempt_start_def clean_attempt_finish_def clean_context_compiled_def
      clean_assistant_started_def clean_route_def option.map_comp comp_def)

lemma clean_event_data_idem [simp]: "clean_event_data (clean_event_data d) = clean_event_data d"
  by (cases d) (simp_all add: option.map_comp comp_def)

lemma clean_event_data_type [simp]: "event_data_type (clean_event_data d) = event_data_type d"
  by (cases d) simp_all

lemma parse_session_event_data_Some:
  "parse_session_event_data rs d = Some c \<longleftrightarrow> c = clean_event_data d \<and> valid_event_data rs c"
  by (auto simp: parse_session_event_data_def Let_def)

lemma parse_parsed_event_data:
  "parse_session_event_data rs d = Some c \<Longrightarrow> parse_session_event_data rs c = Some c"
  by (auto simp: parse_session_event_data_Some)

lemma parse_parsed_event:
  "parse_stored_session_event rs e = Some c \<Longrightarrow> parse_stored_session_event rs c = Some c"
  by (auto simp: parse_stored_session_event_def Let_def parse_parsed_event_data valid_envelope_def
      split: if_splits)

end
