(* ===== verification/LedgerTable.thy ===== *)
theory LedgerTable
  imports SqlChecks SessionEvents
begin

text \<open>
  The table \<open>budget_ledger_entries\<close> of \<open>main/database.ts\<close> after its migrations: one record per
  row, the column checks, the shape of each kind of row, the unique indexes, the foreign keys
  and the triggers. The only way to change the table is to insert a row: the triggers
  \<open>budget_ledger_no_update\<close> and \<open>budget_ledger_no_delete\<close> abort everything else. The rows are
  a list in the order of insertion.
\<close>

datatype ledger_row_type = Row_campaign | Row_reservation | Row_settlement | Row_release | Row_overrun

record ledger_row =
  lr_id :: string
  lr_rowType :: ledger_row_type
  lr_campaignId :: string
  lr_reservationId :: "string option"
  lr_sessionId :: "string option"
  lr_attemptId :: "string option"
  lr_providerId :: "string option"
  lr_credentialMetadataId :: "string option"
  lr_pricingSnapshotId :: "string option"
  lr_amount :: int
  lr_openingExposure :: "int option"
  lr_automaticStop :: "int option"
  lr_hardCeiling :: "int option"
  lr_billableInputTokens :: "int option"
  lr_requestedMaxOutputTokens :: "int option"
  lr_cacheReadTokens :: "int option"
  lr_inputRate :: "int option"
  lr_outputRate :: "int option"
  lr_cacheReadRate :: "int option"
  lr_providerFeeCeiling :: "int option"
  lr_cacheAssumption :: "string option"
  lr_roundingPolicy :: "string option"
  lr_costProvenance :: "cost_provenance option"
  lr_requestDisposition :: "request_disposition option"
  lr_reasonCode :: "string option"
  lr_createdAt :: string
  lr_costScope :: cost_scope
  lr_cloudEgressAdmissionId :: "string option"

datatype ledger_sql_error =
    Column_check | Shape_check | Primary_key | Unique_terminal | Unique_credential
  | Unique_attempt | Unique_egress_admission | Foreign_session | Foreign_campaign
  | Foreign_reservation | Trigger_cost_scope | Trigger_egress_identity | Trigger_legacy_exposure
  | Trigger_reservation_parent | Trigger_terminal_parent | Trigger_settlement_amount
  | Trigger_overrun_amount | Trigger_reserved_unknown

definition rounding_policy_v1 :: string where
  "rounding_policy_v1 = ''ceil_each_component_v1''"

definition is_terminal_row :: "ledger_row \<Rightarrow> bool" where
  "is_terminal_row r \<longleftrightarrow> lr_rowType r = Row_settlement \<or> lr_rowType r = Row_release \<or> lr_rowType r = Row_overrun"

definition is_reservation_row :: "ledger_row \<Rightarrow> bool" where
  "is_reservation_row r \<longleftrightarrow> lr_rowType r = Row_reservation"

definition is_campaign_row :: "ledger_row \<Rightarrow> bool" where
  "is_campaign_row r \<longleftrightarrow> lr_rowType r = Row_campaign"

section \<open>Checks of a row\<close>

definition column_checks :: "ledger_row \<Rightarrow> bool" where
  "column_checks r \<longleftrightarrow>
     nonempty_text (lr_id r) \<and> nonempty_text (lr_campaignId r) \<and>
     null_or nonempty_text (lr_reservationId r) \<and> null_or nonempty_text (lr_attemptId r) \<and>
     null_or nonempty_text (lr_providerId r) \<and> null_or nonempty_text (lr_credentialMetadataId r) \<and>
     null_or nonempty_text (lr_pricingSnapshotId r) \<and>
     0 \<le> lr_amount r \<and>
     null_or (\<lambda>n. 0 \<le> n) (lr_openingExposure r) \<and> null_or (\<lambda>n. 0 \<le> n) (lr_automaticStop r) \<and>
     null_or (\<lambda>n. 0 < n) (lr_hardCeiling r) \<and>
     null_or (\<lambda>n. 0 \<le> n) (lr_billableInputTokens r) \<and>
     null_or (\<lambda>n. 0 < n) (lr_requestedMaxOutputTokens r) \<and>
     null_or (\<lambda>n. 0 \<le> n) (lr_cacheReadTokens r) \<and>
     null_or (\<lambda>n. 0 \<le> n) (lr_inputRate r) \<and> null_or (\<lambda>n. 0 \<le> n) (lr_outputRate r) \<and>
     null_or (\<lambda>n. 0 \<le> n) (lr_cacheReadRate r) \<and> null_or (\<lambda>n. 0 \<le> n) (lr_providerFeeCeiling r) \<and>
     null_or nonempty_text (lr_cacheAssumption r) \<and>
     null_or (\<lambda>p. p = rounding_policy_v1) (lr_roundingPolicy r) \<and>
     null_or (\<lambda>p. p \<noteq> Local_zero_cost_policy) (lr_costProvenance r) \<and>
     null_or nonempty_text (lr_reasonCode r) \<and>
     timestamp_glob (lr_createdAt r) \<and>
     null_or (\<lambda>a. 1 \<le> length a \<and> length a \<le> 256) (lr_cloudEgressAdmissionId r)"

text \<open>The columns of a reservation that are NULL in every other kind of row.\<close>

definition no_reservation_columns :: "ledger_row \<Rightarrow> sql_bool list" where
  "no_reservation_columns r =
     [is_null (lr_billableInputTokens r), is_null (lr_requestedMaxOutputTokens r),
      is_null (lr_cacheReadTokens r), is_null (lr_inputRate r), is_null (lr_outputRate r),
      is_null (lr_cacheReadRate r), is_null (lr_providerFeeCeiling r),
      is_null (lr_cacheAssumption r), is_null (lr_roundingPolicy r)]"

definition campaign_shape :: "ledger_row \<Rightarrow> sql_bool" where
  "campaign_shape r = sql_all
     ([Some (lr_id r = lr_campaignId r), is_null (lr_reservationId r), is_null (lr_sessionId r),
       is_null (lr_attemptId r), not_null (lr_providerId r), not_null (lr_credentialMetadataId r),
       is_null (lr_pricingSnapshotId r), not_null (lr_openingExposure r),
       sql_cmp (=) (Some (lr_amount r)) (lr_openingExposure r),
       not_null (lr_automaticStop r), not_null (lr_hardCeiling r),
       sql_cmp (\<le>) (lr_openingExposure r) (lr_automaticStop r),
       sql_cmp (\<le>) (lr_automaticStop r) (lr_hardCeiling r)] @
      no_reservation_columns r @
      [is_null (lr_costProvenance r), is_null (lr_requestDisposition r), is_null (lr_reasonCode r)])"

definition reservation_shape :: "ledger_row \<Rightarrow> sql_bool" where
  "reservation_shape r = sql_all
     [sql_test (\<lambda>x. lr_id r = x) (lr_reservationId r), Some (lr_id r \<noteq> lr_campaignId r),
      not_null (lr_sessionId r), not_null (lr_attemptId r), not_null (lr_providerId r),
      is_null (lr_credentialMetadataId r), not_null (lr_pricingSnapshotId r), Some (0 < lr_amount r),
      is_null (lr_openingExposure r), is_null (lr_automaticStop r), is_null (lr_hardCeiling r),
      not_null (lr_billableInputTokens r), not_null (lr_requestedMaxOutputTokens r),
      not_null (lr_cacheReadTokens r), not_null (lr_inputRate r), not_null (lr_outputRate r),
      not_null (lr_cacheReadRate r), not_null (lr_providerFeeCeiling r), not_null (lr_cacheAssumption r),
      sql_test (\<lambda>p. p = rounding_policy_v1) (lr_roundingPolicy r),
      is_null (lr_costProvenance r), is_null (lr_requestDisposition r), is_null (lr_reasonCode r)]"

text \<open>What the three terminal shapes share: the identities of the row, and no column of a
  campaign or a reservation.\<close>

definition terminal_shape :: "ledger_row \<Rightarrow> sql_bool list" where
  "terminal_shape r =
     [Some (lr_id r \<noteq> lr_campaignId r), sql_test (\<lambda>x. lr_id r \<noteq> x) (lr_reservationId r),
      not_null (lr_reservationId r), is_null (lr_sessionId r), is_null (lr_attemptId r),
      is_null (lr_providerId r), is_null (lr_credentialMetadataId r), is_null (lr_pricingSnapshotId r),
      is_null (lr_openingExposure r), is_null (lr_automaticStop r), is_null (lr_hardCeiling r)] @
     no_reservation_columns r"

definition settlement_shape :: "ledger_row \<Rightarrow> sql_bool" where
  "settlement_shape r = sql_all (terminal_shape r @
     [not_null (lr_costProvenance r),
      sql_test (\<lambda>d. d = Sent \<or> d = Unknown) (lr_requestDisposition r), is_null (lr_reasonCode r)])"

definition release_shape :: "ledger_row \<Rightarrow> sql_bool" where
  "release_shape r = sql_all (terminal_shape r @
     [Some (lr_amount r = 0), is_null (lr_costProvenance r),
      sql_test (\<lambda>d. d = Not_sent) (lr_requestDisposition r), not_null (lr_reasonCode r)])"

definition overrun_shape :: "ledger_row \<Rightarrow> sql_bool" where
  "overrun_shape r = sql_all (terminal_shape r @
     [Some (0 < lr_amount r),
      sql_test (\<lambda>p. p = Provider_reported \<or> p = Host_pricing_snapshot) (lr_costProvenance r),
      sql_test (\<lambda>d. d = Sent \<or> d = Unknown) (lr_requestDisposition r),
      sql_test (\<lambda>c. c = ''budget_overrun'') (lr_reasonCode r)])"

definition row_shape :: "ledger_row \<Rightarrow> sql_bool" where
  "row_shape r = (case lr_rowType r of
       Row_campaign \<Rightarrow> campaign_shape r
     | Row_reservation \<Rightarrow> reservation_shape r
     | Row_settlement \<Rightarrow> settlement_shape r
     | Row_release \<Rightarrow> release_shape r
     | Row_overrun \<Rightarrow> overrun_shape r)"

section \<open>Indexes and foreign keys\<close>

definition terminal_reservation_key :: "ledger_row \<Rightarrow> string option" where
  "terminal_reservation_key r = (if is_terminal_row r then lr_reservationId r else None)"

definition campaign_credential_key :: "ledger_row \<Rightarrow> string option" where
  "campaign_credential_key r = (if is_campaign_row r then lr_credentialMetadataId r else None)"

definition reservation_attempt_key :: "ledger_row \<Rightarrow> string option" where
  "reservation_attempt_key r = (if is_reservation_row r then lr_attemptId r else None)"

definition reservation_egress_key :: "ledger_row \<Rightarrow> string option" where
  "reservation_egress_key r = (if is_reservation_row r then lr_cloudEgressAdmissionId r else None)"

definition index_checks :: "ledger_row list \<Rightarrow> ledger_row \<Rightarrow> ledger_sql_error option" where
  "index_checks rows r = checks
     [throw_if (clashes (\<lambda>x. Some (lr_id x)) rows r) Primary_key,
      throw_if (clashes terminal_reservation_key rows r) Unique_terminal,
      throw_if (clashes campaign_credential_key rows r) Unique_credential,
      throw_if (clashes reservation_attempt_key rows r) Unique_attempt,
      throw_if (clashes reservation_egress_key rows r) Unique_egress_admission]"

definition foreign_key_checks :: "string list \<Rightarrow> ledger_row list \<Rightarrow> ledger_row \<Rightarrow> ledger_sql_error option" where
  "foreign_key_checks sessions rows r = checks
     [throw_if (\<not> null_or (\<lambda>s. s \<in> set sessions) (lr_sessionId r)) Foreign_session,
      throw_if (\<not> list_ex (\<lambda>x. lr_id x = lr_campaignId r) (rows @ [r])) Foreign_campaign,
      throw_if (\<not> null_or (\<lambda>i. list_ex (\<lambda>x. lr_id x = i) (rows @ [r])) (lr_reservationId r))
        Foreign_reservation]"

section \<open>Triggers\<close>

definition find_row :: "ledger_row list \<Rightarrow> string \<Rightarrow> ledger_row option" where
  "find_row rows i = find (\<lambda>x. lr_id x = i) rows"

text \<open>The reservation and its campaign that the guards of a terminal row join.\<close>

definition joins_parents :: "ledger_row list \<Rightarrow> ledger_row \<Rightarrow> cost_scope \<Rightarrow> bool" where
  "joins_parents rows r scope \<longleftrightarrow>
     list_ex (\<lambda>res. lr_reservationId r = Some (lr_id res) \<and> is_reservation_row res \<and>
        lr_campaignId res = lr_campaignId r \<and> lr_costScope res = scope \<and>
        list_ex (\<lambda>camp. lr_id camp = lr_campaignId res \<and> is_campaign_row camp \<and>
           lr_costScope camp = scope) rows) rows"

definition runtime_cost_scope_guard :: "ledger_row list \<Rightarrow> ledger_row \<Rightarrow> bool" where
  "runtime_cost_scope_guard rows r \<longleftrightarrow>
     lr_costScope r = Scope_legacy_unclassified \<longrightarrow>
     is_terminal_row r \<and> joins_parents rows r Scope_legacy_unclassified"

definition egress_identity_guard :: "ledger_row \<Rightarrow> bool" where
  "egress_identity_guard r \<longleftrightarrow>
     \<not> (is_reservation_row r \<and> lr_costScope r = Scope_simulation \<and> lr_cloudEgressAdmissionId r = None) \<and>
     \<not> (\<not> is_reservation_row r \<and> lr_cloudEgressAdmissionId r \<noteq> None)"

definition legacy_exposure_guard :: "ledger_row list \<Rightarrow> ledger_row \<Rightarrow> bool" where
  "legacy_exposure_guard rows r \<longleftrightarrow>
     \<not> (is_reservation_row r \<and> lr_costScope r = Scope_actual \<and>
        list_ex (\<lambda>x. lr_costScope x = Scope_legacy_unclassified) rows)"

definition reservation_parent_guard :: "ledger_row list \<Rightarrow> ledger_row \<Rightarrow> bool" where
  "reservation_parent_guard rows r \<longleftrightarrow>
     is_reservation_row r \<longrightarrow>
     list_ex (\<lambda>camp. lr_id camp = lr_campaignId r \<and> is_campaign_row camp \<and>
        lr_providerId camp = lr_providerId r \<and> lr_providerId r \<noteq> None \<and>
        lr_costScope camp = lr_costScope r) rows"

definition terminal_parent_guard :: "ledger_row list \<Rightarrow> ledger_row \<Rightarrow> bool" where
  "terminal_parent_guard rows r \<longleftrightarrow>
     is_terminal_row r \<longrightarrow> joins_parents rows r (lr_costScope r)"

text \<open>\<open>SELECT amount_microusd ... WHERE id = NEW.reservation_id\<close>, NULL when there is no such row.\<close>

definition parent_amount :: "ledger_row list \<Rightarrow> ledger_row \<Rightarrow> int option" where
  "parent_amount rows r = map_option lr_amount (Option.bind (lr_reservationId r) (find_row rows))"

definition settlement_amount_guard :: "ledger_row list \<Rightarrow> ledger_row \<Rightarrow> bool" where
  "settlement_amount_guard rows r \<longleftrightarrow>
     \<not> (lr_rowType r = Row_settlement \<and> sql_test (\<lambda>a. lr_amount r > a) (parent_amount rows r) = Some True)"

definition overrun_amount_guard :: "ledger_row list \<Rightarrow> ledger_row \<Rightarrow> bool" where
  "overrun_amount_guard rows r \<longleftrightarrow>
     \<not> (lr_rowType r = Row_overrun \<and> sql_test (\<lambda>a. lr_amount r \<le> a) (parent_amount rows r) = Some True)"

definition reserved_unknown_guard :: "ledger_row list \<Rightarrow> ledger_row \<Rightarrow> bool" where
  "reserved_unknown_guard rows r \<longleftrightarrow>
     \<not> (lr_rowType r = Row_settlement \<and> lr_costProvenance r = Some Reserved_unknown \<and>
        sql_test (\<lambda>a. lr_amount r \<noteq> a) (parent_amount rows r) = Some True)"

definition trigger_checks :: "ledger_row list \<Rightarrow> ledger_row \<Rightarrow> ledger_sql_error option" where
  "trigger_checks rows r = checks
     [throw_if (\<not> runtime_cost_scope_guard rows r) Trigger_cost_scope,
      throw_if (\<not> egress_identity_guard r) Trigger_egress_identity,
      throw_if (\<not> legacy_exposure_guard rows r) Trigger_legacy_exposure,
      throw_if (\<not> reservation_parent_guard rows r) Trigger_reservation_parent,
      throw_if (\<not> terminal_parent_guard rows r) Trigger_terminal_parent,
      throw_if (\<not> settlement_amount_guard rows r) Trigger_settlement_amount,
      throw_if (\<not> overrun_amount_guard rows r) Trigger_overrun_amount,
      throw_if (\<not> reserved_unknown_guard rows r) Trigger_reserved_unknown]"

text \<open>An insert: triggers run before the constraints, foreign keys are checked at the end of the
  statement. A failed insert leaves the table as it was.\<close>

definition insert_row :: "string list \<Rightarrow> ledger_row list \<Rightarrow> ledger_row \<Rightarrow> ledger_sql_error + ledger_row list" where
  "insert_row sessions rows r =
     guarded (checks
       [trigger_checks rows r,
        throw_if (\<not> column_checks r) Column_check,
        throw_if (\<not> check_passes (row_shape r)) Shape_check,
        index_checks rows r,
        foreign_key_checks sessions rows r])
       (Inr (rows @ [r]))"

section \<open>What every table built by inserts satisfies\<close>

definition row_ok :: "ledger_row \<Rightarrow> bool" where
  "row_ok r \<longleftrightarrow> column_checks r \<and> check_passes (row_shape r) \<and> egress_identity_guard r"

text \<open>Parents come before children, and every child fits its parent.\<close>

definition parent_ok :: "ledger_row list \<Rightarrow> ledger_row \<Rightarrow> bool" where
  "parent_ok rows r \<longleftrightarrow>
     reservation_parent_guard rows r \<and> terminal_parent_guard rows r \<and>
     settlement_amount_guard rows r \<and> overrun_amount_guard rows r \<and> reserved_unknown_guard rows r"

definition indexes_ok :: "ledger_row list \<Rightarrow> bool" where
  "indexes_ok rows \<longleftrightarrow>
     distinct (map lr_id rows) \<and> unique_by terminal_reservation_key rows \<and>
     unique_by campaign_credential_key rows \<and> unique_by reservation_attempt_key rows \<and>
     unique_by reservation_egress_key rows"

definition ledger_ok :: "ledger_row list \<Rightarrow> bool" where
  "ledger_ok rows \<longleftrightarrow>
     list_all row_ok rows \<and> list_all (parent_ok rows) rows \<and> indexes_ok rows"

lemma insert_row_Inr:
  "insert_row sessions rows r = Inr rows' \<longleftrightarrow>
     rows' = rows @ [r] \<and> trigger_checks rows r = None \<and> column_checks r \<and>
     check_passes (row_shape r) \<and> index_checks rows r = None \<and> foreign_key_checks sessions rows r = None"
  by (auto simp: insert_row_def check_simps)

lemma unique_by_id [simp]: "unique_by (\<lambda>x. Some (lr_id x)) rows \<longleftrightarrow> distinct (map lr_id rows)"
  by (simp add: unique_by_def distinct_map inj_on_def)

lemma index_checks_snoc: "indexes_ok rows \<Longrightarrow> index_checks rows r = None \<Longrightarrow> indexes_ok (rows @ [r])"
  unfolding indexes_ok_def index_checks_def
  by (auto simp: check_simps unique_by_snoc clashes_def list_ex_iff simp del: unique_by_id)

lemma find_row_append:
  "find_row (rows @ rs) i = (case find_row rows i of None \<Rightarrow> find_row rs i | Some x \<Rightarrow> Some x)"
  unfolding find_row_def by (induction rows) auto

lemma joins_parents_mono: "joins_parents rows r scope \<Longrightarrow> joins_parents (rows @ rs) r scope"
  unfolding joins_parents_def list_ex_iff set_append by blast

lemma parent_amount_mono: "parent_amount rows r = Some a \<Longrightarrow> parent_amount (rows @ rs) r = Some a"
  by (cases "lr_reservationId r") (auto simp: parent_amount_def find_row_append split: option.split)

lemma joins_parents_amount:
  assumes "joins_parents rows r scope"
  obtains a where "parent_amount rows r = Some a"
proof -
  obtain res where res: "res \<in> set rows" "lr_reservationId r = Some (lr_id res)"
    using assms by (auto simp: joins_parents_def list_ex_iff)
  then have "find_row rows (lr_id res) \<noteq> None" by (auto simp: find_row_def find_None_iff)
  with res(2) that show thesis by (auto simp: parent_amount_def)
qed

lemma amount_guards_mono:
  assumes "terminal_parent_guard rows r"
  shows "settlement_amount_guard rows r \<Longrightarrow> settlement_amount_guard (rows @ rs) r"
    and "overrun_amount_guard rows r \<Longrightarrow> overrun_amount_guard (rows @ rs) r"
    and "reserved_unknown_guard rows r \<Longrightarrow> reserved_unknown_guard (rows @ rs) r"
proof -
  have "parent_amount (rows @ rs) r = parent_amount rows r" if "is_terminal_row r"
    using assms that parent_amount_mono by (metis terminal_parent_guard_def joins_parents_amount)
  then show "settlement_amount_guard rows r \<Longrightarrow> settlement_amount_guard (rows @ rs) r"
    and "overrun_amount_guard rows r \<Longrightarrow> overrun_amount_guard (rows @ rs) r"
    and "reserved_unknown_guard rows r \<Longrightarrow> reserved_unknown_guard (rows @ rs) r"
    by (auto simp: settlement_amount_guard_def overrun_amount_guard_def reserved_unknown_guard_def
        is_terminal_row_def)
qed

lemma parent_ok_mono: "parent_ok rows r \<Longrightarrow> parent_ok (rows @ rs) r"
  unfolding parent_ok_def
  by (auto simp: reservation_parent_guard_def terminal_parent_guard_def joins_parents_mono
      intro: amount_guards_mono [unfolded terminal_parent_guard_def])

lemma trigger_checks_None:
  "trigger_checks rows r = None \<longleftrightarrow>
     runtime_cost_scope_guard rows r \<and> egress_identity_guard r \<and> legacy_exposure_guard rows r \<and>
     parent_ok rows r"
  by (simp add: trigger_checks_def check_simps parent_ok_def)

theorem insert_row_keeps_ledger_ok:
  assumes "insert_row sessions rows r = Inr rows'" "ledger_ok rows"
  shows "ledger_ok rows'"
  using assms parent_ok_mono index_checks_snoc
  by (auto simp: ledger_ok_def insert_row_Inr trigger_checks_None row_ok_def list_all_iff)

lemma ledger_ok_Nil [simp]: "ledger_ok []"
  by (simp add: ledger_ok_def indexes_ok_def)

end
