(* ===== verification/EventStore.thy ===== *)
theory EventStore
  imports SessionReducer EventSchemas LedgerTable
begin

text \<open>
  \<open>main/event-store.ts\<close>: the append-only event log of all sessions and the projection row each
  session has beside it. The database is the state: the rows of \<open>sessions\<close> and
  \<open>session_events\<close> and the budget ledger, whose rows other parts of the program write in the
  same transaction. A transaction is a function into a sum: an error leaves the database as it
  was. \<open>JSON.stringify\<close> of an event's payload or of a state and the \<open>JSON.parse\<close> that reads it
  back are the identity on the typed value; the schema that checks it on the way back is not.
  Event ids and times that the caller leaves out come from \<open>randomUUID\<close> and the clock; the model
  takes them as given.
\<close>

section \<open>Rows\<close>

record session_row =
  sw_id :: string
  sw_title :: string
  sw_objective :: string
  sw_workspaceRoot :: string
  sw_profile :: optimization_profile
  sw_status :: session_status
  sw_currentProviderId :: "string option"
  sw_currentModel :: "string option"
  sw_routeReason :: "string option"
  sw_lastSequence :: int
  sw_inputTokens :: int
  sw_outputTokens :: int
  sw_reasoningTokens :: int
  sw_costUsd :: rat
  sw_latencyMs :: rat
  sw_result :: "string option"
  sw_error :: "string option"
  sw_state :: session_state
  sw_createdAt :: string
  sw_updatedAt :: string

record database =
  db_sessions :: "session_row list"
  db_events :: "stored_event list"
  db_ledger :: "ledger_row list"

record store_env =
  se_replay :: replay_env
  se_reviews :: review_schemas

datatype store_error =
    Session_id_required
  | Invalid_event
  | Invalid_timestamp
  | No_canonical_history
  | Sequence_conflict int int
  | Session_exists
  | Session_not_found
  | Event_ids_length
  | Projection_rejected
  | Event_row_rejected
  | Projection_inconsistent
  | Reducing reducer_error

section \<open>The projection\<close>

definition projection_parameters :: "session_state \<Rightarrow> int \<Rightarrow> session_row" where
  "projection_parameters s lastSequence =
     (let route = map_option rec_payload (at_last (st_routes s))
      in \<lparr>sw_id = st_id s, sw_title = st_title s, sw_objective = st_objective s,
          sw_workspaceRoot = st_workspaceRoot s, sw_profile = st_profile s, sw_status = st_status s,
          sw_currentProviderId = map_option ro_providerId route,
          sw_currentModel = map_option ro_model route, sw_routeReason = map_option ro_reason route,
          sw_lastSequence = lastSequence, sw_inputTokens = us_inputTokens (st_usage s),
          sw_outputTokens = us_outputTokens (st_usage s),
          sw_reasoningTokens = us_reasoningTokens (st_usage s), sw_costUsd = us_costUsd (st_usage s),
          sw_latencyMs = us_latencyMs (st_usage s), sw_result = st_result s, sw_error = st_error s,
          sw_state = s, sw_createdAt = st_createdAt s, sw_updatedAt = st_updatedAt s\<rparr>)"

text \<open>The CHECK constraints of the table \<open>sessions\<close> (\<open>main/database.ts\<close>).\<close>

definition session_row_checks :: "session_row \<Rightarrow> bool" where
  "session_row_checks r \<longleftrightarrow>
     0 \<le> sw_lastSequence r \<and> 0 \<le> sw_inputTokens r \<and> 0 \<le> sw_outputTokens r \<and>
     0 \<le> sw_reasoningTokens r \<and> 0 \<le> sw_costUsd r \<and> 0 \<le> sw_latencyMs r"

definition find_session :: "database \<Rightarrow> string \<Rightarrow> session_row option" where
  "find_session db sid = find (\<lambda>r. sw_id r = sid) (db_sessions db)"

definition insert_session_projection :: "session_state \<Rightarrow> int \<Rightarrow> database \<Rightarrow> store_error + database" where
  "insert_session_projection s lastSequence db =
     (let r = projection_parameters s lastSequence
      in guarded (throw_if (\<not> session_row_checks r \<or> find_session db (sw_id r) \<noteq> None) Projection_rejected)
           (Inr (db\<lparr>db_sessions := db_sessions db @ [r]\<rparr>)))"

text \<open>\<open>UPDATE sessions SET ... WHERE id = @id AND last_sequence = @previousSequence\<close>, which leaves
  \<open>created_at\<close> alone; beside the new table the number of changed rows.\<close>

definition update_session_projection ::
  "session_state \<Rightarrow> int \<Rightarrow> database \<Rightarrow> store_error + (database \<times> nat)" where
  "update_session_projection s previous db =
     (let r = projection_parameters s (st_lastSequence s);
          hit = (\<lambda>x. sw_id x = st_id s \<and> sw_lastSequence x = previous)
      in guarded (throw_if (list_ex hit (db_sessions db) \<and> \<not> session_row_checks r) Projection_rejected)
           (Inr (db\<lparr>db_sessions := map (\<lambda>x. if hit x then r\<lparr>sw_createdAt := sw_createdAt x\<rparr> else x)
                    (db_sessions db)\<rparr>,
                 length (filter hit (db_sessions db)))))"

section \<open>Reading\<close>

definition parse_rows :: "store_env \<Rightarrow> stored_event list \<Rightarrow> store_error + stored_event list" where
  "parse_rows env rows =
     (if list_ex (\<lambda>e. parse_stored_session_event (se_reviews env) e = None) rows then Inl Invalid_event
      else Inr (map (\<lambda>e. the (parse_stored_session_event (se_reviews env) e)) rows))"

definition session_events :: "database \<Rightarrow> string \<Rightarrow> stored_event list" where
  "session_events db sid = filter (\<lambda>e. ev_sessionId e = sid) (db_events db)"

definition get_events :: "store_env \<Rightarrow> database \<Rightarrow> string \<Rightarrow> int \<Rightarrow> store_error + stored_event list" where
  "get_events env db sid afterSequence =
     parse_rows env (sort_key ev_sequence
       (filter (\<lambda>e. ev_sequence e > afterSequence) (session_events db sid)))"

definition replay_events :: "store_env \<Rightarrow> stored_event list \<Rightarrow> store_error + session_state" where
  "replay_events env es = map_error Reducing (replay_session (se_replay env) es)"

definition store_replay :: "store_env \<Rightarrow> database \<Rightarrow> string \<Rightarrow> store_error + session_state" where
  "store_replay env db sid =
     bind_result (get_events env db sid 0) (\<lambda>es.
       if es = [] then Inl Session_not_found else replay_events env es)"

definition require_session :: "database \<Rightarrow> string \<Rightarrow> store_error + session_row" where
  "require_session db sid =
     (case find_session db sid of None \<Rightarrow> Inl Session_not_found | Some r \<Rightarrow> Inr r)"

text \<open>The stored state with the nested records that \<open>parseState\<close> validates again.\<close>

definition parse_state :: "session_row \<Rightarrow> store_error + session_state" where
  "parse_state r = (let s = sw_state r in
     guarded (checks
       [throw_if (\<not> valid_obligations (st_completionObligations s)) Invalid_event,
        throw_if (\<not> optionally valid_execution_policy (st_executionPolicy s)) Invalid_event,
        throw_if (\<not> optionally valid_simulation_authority (st_hybridSimulation s)) Invalid_event,
        throw_if (st_id s \<noteq> sw_id r \<or> st_lastSequence s \<noteq> sw_lastSequence r) Projection_inconsistent])
       (Inr s))"

definition get_projected_state :: "database \<Rightarrow> string \<Rightarrow> store_error + session_state" where
  "get_projected_state db sid = bind_result (require_session db sid) parse_state"

text \<open>\<open>ORDER BY updated_at DESC LIMIT ?\<close>; rows with the same time keep their order.\<close>

definition list_sessions :: "database \<Rightarrow> session_status option \<Rightarrow> int option \<Rightarrow> session_row list" where
  "list_sessions db status limit =
     take (nat (max 1 (min (coalesce limit 100) 1000)))
       (rev (sort_key sw_updatedAt (rev
          (filter (\<lambda>r. status = None \<or> status = Some (sw_status r)) (db_sessions db)))))"

section \<open>Appending\<close>

record pending_event =
  pe_event :: session_event_data
  pe_eventId :: string
  pe_createdAt :: string

text \<open>Each pending event is parsed before the transaction, and its time must be canonical.\<close>

fun normalize_pending :: "store_env \<Rightarrow> pending_event list \<Rightarrow> store_error + pending_event list" where
  "normalize_pending env [] = Inr []"
| "normalize_pending env (p # ps) =
     (case parse_session_event_data (se_reviews env) (pe_event p) of
        None \<Rightarrow> Inl Invalid_event
      | Some d \<Rightarrow>
          guarded (throw_if (\<not> canonical_timestamp (pe_createdAt p)) Invalid_timestamp)
            (bind_result (normalize_pending env ps) (\<lambda>qs. Inr (p\<lparr>pe_event := d\<rparr> # qs))))"

text \<open>The constraints of the table \<open>session_events\<close>: both unique keys, the foreign key and
  \<open>sequence > 0\<close>.\<close>

definition event_row_ok :: "database \<Rightarrow> stored_event \<Rightarrow> bool" where
  "event_row_ok db c \<longleftrightarrow>
     \<not> list_ex (\<lambda>e. ev_id e = ev_id c) (db_events db) \<and>
     \<not> list_ex (\<lambda>e. ev_sessionId e = ev_sessionId c \<and> ev_sequence e = ev_sequence c) (db_events db) \<and>
     find_session db (ev_sessionId c) \<noteq> None \<and> 0 < ev_sequence c"

definition insert_event :: "stored_event \<Rightarrow> database \<Rightarrow> store_error + database" where
  "insert_event c db =
     guarded (throw_if (\<not> event_row_ok db c) Event_row_rejected)
       (Inr (db\<lparr>db_events := db_events db @ [c]\<rparr>))"

definition candidate_event :: "string \<Rightarrow> int \<Rightarrow> pending_event \<Rightarrow> stored_event" where
  "candidate_event sid sequence p =
     \<lparr>ev_id = pe_eventId p, ev_sessionId = sid, ev_sequence = sequence,
      ev_createdAt = pe_createdAt p, ev_data = pe_event p\<rparr>"

text \<open>One round of the loop: parse the envelope, reduce, insert the projection row if there is none
  under this id yet, insert the event. The state is the database, the replayed state, whether a row
  was found, and the events stored so far.\<close>

definition append_one ::
  "store_env \<Rightarrow> string \<Rightarrow> int \<Rightarrow> pending_event \<Rightarrow> database \<times> session_state option \<times> bool
     \<Rightarrow> store_error + stored_event \<times> database \<times> session_state option \<times> bool" where
  "append_one env sid sequence p st =
     (case st of (db, state, has_row) \<Rightarrow>
      case parse_stored_session_event (se_reviews env) (candidate_event sid sequence p) of
        None \<Rightarrow> Inl Invalid_event
      | Some c \<Rightarrow>
          bind_result (map_error Reducing (reduce_session_event (se_replay env) state c)) (\<lambda>s.
          bind_result (if has_row then Inr db else insert_session_projection s 0 db) (\<lambda>db1.
          bind_result (insert_event c db1) (\<lambda>db2.
            Inr (c, db2, Some s, has_row \<or> find_session db1 sid \<noteq> None)))))"

fun append_events ::
  "store_env \<Rightarrow> string \<Rightarrow> int \<Rightarrow> pending_event list \<Rightarrow> database \<times> session_state option \<times> bool
     \<Rightarrow> store_error + stored_event list \<times> database \<times> session_state option" where
  "append_events env sid sequence [] (db, state, has_row) = Inr ([], db, state)"
| "append_events env sid sequence (p # ps) st =
     bind_result (append_one env sid (sequence + 1) p st) (\<lambda>(c, st').
     bind_result (append_events env sid (sequence + 1) ps st') (\<lambda>(cs, rest). Inr (c # cs, rest)))"

definition load_session ::
  "store_env \<Rightarrow> database \<Rightarrow> string \<Rightarrow> store_error + session_state option" where
  "load_session env db sid =
     (case find_session db sid of
        None \<Rightarrow> Inr None
      | Some row \<Rightarrow>
          bind_result (get_events env db sid 0) (\<lambda>es.
            if es = [] then Inl No_canonical_history
            else bind_result (replay_events env es) (\<lambda>s. Inr (Some s))))"

definition append_guards ::
  "session_state option \<Rightarrow> int option \<Rightarrow> session_event_data \<Rightarrow> store_error option" where
  "append_guards state expected first =
     (let actual = (case state of None \<Rightarrow> 0 | Some s \<Rightarrow> st_lastSequence s);
          creates = event_data_type first = T_session_created
      in checks
       [throw_if (expected \<noteq> None \<and> expected \<noteq> Some actual)
          (Sequence_conflict (coalesce expected 0) actual),
        throw_if (state \<noteq> None \<and> creates) Session_exists,
        throw_if (state = None \<and> \<not> creates) Session_not_found])"

definition finish_append ::
  "int \<Rightarrow> int \<Rightarrow> stored_event list \<times> database \<times> session_state option
     \<Rightarrow> store_error + database \<times> stored_event list" where
  "finish_append projectionSequence actual out =
     (case out of
        (stored, db, None) \<Rightarrow> Inl Projection_inconsistent
      | (stored, db, Some s) \<Rightarrow>
          bind_result (update_session_projection s projectionSequence db) (\<lambda>(db', changes).
            if changes \<noteq> 1
            then Inl (Sequence_conflict actual
              (case find_session db' (st_id s) of None \<Rightarrow> 0 | Some r \<Rightarrow> sw_lastSequence r))
            else Inr (db', stored)))"

definition append_internal ::
  "store_env \<Rightarrow> string \<Rightarrow> pending_event list \<Rightarrow> int option \<Rightarrow> database
     \<Rightarrow> store_error + database \<times> stored_event list" where
  "append_internal env sid pending expected db =
     guarded (throw_if (js_trim sid = []) Session_id_required)
       (if pending = [] then Inr (db, [])
        else bind_result (normalize_pending env pending) (\<lambda>normalized.
          bind_result (load_session env db sid) (\<lambda>state.
            let actual = (case state of None \<Rightarrow> 0 | Some s \<Rightarrow> st_lastSequence s);
                projectionSequence = (case find_session db sid of None \<Rightarrow> 0 | Some r \<Rightarrow> sw_lastSequence r)
            in guarded (append_guards state expected (pe_event (hd normalized)))
              (bind_result (append_events env sid actual normalized (db, state, find_session db sid \<noteq> None))
                (finish_append projectionSequence actual)))))"

definition append_many ::
  "store_env \<Rightarrow> string \<Rightarrow> session_event_data list \<Rightarrow> string list \<Rightarrow> string \<Rightarrow> int option \<Rightarrow> database
     \<Rightarrow> store_error + database \<times> stored_event list" where
  "append_many env sid events ids createdAt expected db =
     guarded (throw_if (length ids \<noteq> length events) Event_ids_length)
       (append_internal env sid
         (map2 (\<lambda>d i. \<lparr>pe_event = d, pe_eventId = i, pe_createdAt = createdAt\<rparr>) events ids) expected db)"

definition create_session ::
  "store_env \<Rightarrow> string \<Rightarrow> created_payload \<Rightarrow> string \<Rightarrow> string \<Rightarrow> string \<Rightarrow> database
     \<Rightarrow> store_error + database \<times> session_row" where
  "create_session env sid p createdAt id1 id2 db =
     bind_result (append_internal env sid
       [\<lparr>pe_event = SessionCreated p, pe_eventId = id1, pe_createdAt = createdAt\<rparr>,
        \<lparr>pe_event = UserMessage \<lparr>um_messageId = sid @ '':objective'', um_content = cr_objective p\<rparr>,
         pe_eventId = id2, pe_createdAt = createdAt\<rparr>] (Some 0) db) (\<lambda>(db', stored).
     bind_result (require_session db' sid) (\<lambda>r. Inr (db', r)))"

end
