(* ===== verification/BudgetLedger.thy ===== *)
theory BudgetLedger
  imports EventStore
begin

text \<open>
  \<open>main/budget-ledger.ts\<close>: campaigns, reservations of projected worst-case cost, their one
  resolution as settlement, release or overrun, the exposure of a campaign and of an episode,
  and the reconciliation of the ledger with the event log. Each operation of
  \<open>BudgetLedgerTransaction\<close> works on the database of the transaction it runs in; an error rolls
  the transaction back. The flag that a transaction object is used only while its transaction is
  open is the shape of these functions and is not modelled.
\<close>

datatype reconciliation_failure =
    Rf_amount_not_positive | Rf_invalid_projection | Rf_amount_not_projection
  | Rf_duplicate_reservation | Rf_terminal_orphan | Rf_terminal_scope | Rf_multiple_terminals
  | Rf_invalid_reservation_id | Rf_attempt_without_reservation | Rf_multiple_attempts
  | Rf_start_mismatch | Rf_decision_mismatch | Rf_campaign_mismatch | Rf_impossible_remaining
  | Rf_egress_mismatch | Rf_terminal_while_open | Rf_finish_without_terminal
  | Rf_outstanding_not_running | Rf_finish_mismatch | Rf_release_mismatch
  | Rf_settlement_mismatch | Rf_invalid_usage | Rf_host_amount | Rf_overrun_not_failed
  | Rf_reservation_without_attempt

datatype ledger_error =
    Bad_id | Bad_reason_code | Bad_timestamp | Bad_integer | Campaign_limits | Unsafe_number
  | Cache_rate_above_input | Cache_rate_missing | Unsupported_accounting
  | Campaign_inconsistent | Unknown_campaign | Unknown_reservation | Terminal_without_reservation
  | Egress_identity_required | Zero_reservation | Campaign_mismatch | Legacy_exposure
  | Episode_already_reserved | Already_resolved | Release_fields | Terminal_fields
  | Settlement_exceeds | Overrun_within | Unknown_not_full | Unknown_overrun
  | Campaign_authority_differs | Not_v2_session | Outstanding_reservation
  | Ledger_sql ledger_sql_error
  | Ledger_store store_error
  | Reconciliation reconciliation_failure string

section \<open>Values\<close>

definition budget_cache_assumption :: string where
  "budget_cache_assumption = ''no_cache_credit''"

record budget_campaign =
  cam_id :: string
  cam_providerId :: string
  cam_credentialMetadataId :: string
  cam_openingExposure :: int
  cam_automaticStop :: int
  cam_hardCeiling :: int
  cam_costScope :: cost_scope
  cam_createdAt :: string

record campaign_input =
  ci_id :: string
  ci_providerId :: string
  ci_credentialMetadataId :: string
  ci_openingExposure :: int
  ci_automaticStop :: int
  ci_hardCeiling :: int
  ci_costScope :: runtime_cost_scope
  ci_createdAt :: string

record budget_projection =
  bp_billableInputTokens :: int
  bp_billableCacheReadTokens :: int
  bp_requestedMaxOutputTokens :: int
  bp_inputRate :: int
  bp_outputRate :: int
  bp_cacheReadRate :: "int option"
  bp_providerFeeCeiling :: int

record budget_position =
  pos_episodeCap :: int
  pos_episodeExposure :: int
  pos_campaignExposure :: int
  pos_remainingEpisode :: int
  pos_remainingAutomaticStop :: int
  pos_remainingHardCeiling :: int
  pos_remainingCampaign :: int
  pos_automaticStop :: int
  pos_hardCeiling :: int
  pos_campaignDisabled :: bool

record budget_reservation =
  res_id :: string
  res_campaignId :: string
  res_sessionId :: string
  res_attemptId :: string
  res_providerId :: string
  res_pricingSnapshotId :: string
  res_costScope :: cost_scope
  res_cloudEgressAdmissionId :: "string option"
  res_amount :: int
  res_billableInputTokens :: int
  res_requestedMaxOutputTokens :: int
  res_cacheReadTokens :: int
  res_inputRate :: int
  res_outputRate :: int
  res_cacheReadRate :: int
  res_providerFeeCeiling :: int
  res_createdAt :: string

record budget_terminal =
  te_id :: string
  te_rowType :: ledger_row_type
  te_campaignId :: string
  te_reservationId :: string
  te_costScope :: cost_scope
  te_amount :: int
  te_costProvenance :: "cost_provenance option"
  te_requestDisposition :: "request_disposition option"
  te_reasonCode :: "string option"
  te_createdAt :: string

datatype reservation_resolution =
    Admitted billing budget_position budget_reservation
  | Refused budget_denial billing budget_position

record reserve_input =
  rq_campaignId :: string
  rq_reservationId :: string
  rq_sessionId :: string
  rq_attemptId :: string
  rq_providerId :: string
  rq_pricingSnapshotId :: string
  rq_costScope :: runtime_cost_scope
  rq_cloudEgressAdmissionId :: "string option"
  rq_episodeCap :: int
  rq_projection :: budget_projection
  rq_createdAt :: string

record resolve_input =
  rs_terminalEntryId :: string
  rs_reservationId :: string
  rs_rowType :: ledger_row_type
  rs_amount :: int
  rs_costProvenance :: "cost_provenance option"
  rs_requestDisposition :: request_disposition
  rs_reasonCode :: "string option"
  rs_createdAt :: string

section \<open>Checks of inputs\<close>

definition assert_bounded_id :: "string \<Rightarrow> ledger_error option" where
  "assert_bounded_id v = throw_if (v \<noteq> js_trim v \<or> length v = 0 \<or> length v > 256) Bad_id"

definition assert_reason_code :: "string \<Rightarrow> ledger_error option" where
  "assert_reason_code v =
     throw_if (v \<noteq> js_trim v \<or> length v = 0 \<or> length v > 128 \<or> \<not> reason_code_chars v) Bad_reason_code"

definition assert_canonical_timestamp :: "string \<Rightarrow> ledger_error option" where
  "assert_canonical_timestamp v = throw_if (\<not> canonical_timestamp v) Bad_timestamp"

definition assert_safe_integer :: "int \<Rightarrow> ledger_error option" where
  "assert_safe_integer v = throw_if (\<not> safe_non_negative v) Bad_integer"

definition assert_safe_positive :: "int \<Rightarrow> ledger_error option" where
  "assert_safe_positive v = throw_if (\<not> safe_positive v) Bad_integer"

definition normalize_campaign_input :: "campaign_input \<Rightarrow> ledger_error option" where
  "normalize_campaign_input i = checks
     [assert_bounded_id (ci_id i), assert_bounded_id (ci_providerId i),
      assert_bounded_id (ci_credentialMetadataId i), assert_safe_integer (ci_openingExposure i),
      assert_safe_integer (ci_automaticStop i), assert_safe_positive (ci_hardCeiling i),
      assert_canonical_timestamp (ci_createdAt i),
      throw_if (ci_openingExposure i > ci_automaticStop i \<or> ci_automaticStop i > ci_hardCeiling i)
        Campaign_limits]"

definition runtime_scope :: "runtime_cost_scope \<Rightarrow> cost_scope" where
  "runtime_scope s = (case s of Rt_simulation \<Rightarrow> Scope_simulation | Rt_actual \<Rightarrow> Scope_actual)"

definition campaign_matches_input :: "budget_campaign \<Rightarrow> campaign_input \<Rightarrow> bool" where
  "campaign_matches_input c i \<longleftrightarrow>
     cam_id c = ci_id i \<and> cam_providerId c = ci_providerId i \<and>
     cam_credentialMetadataId c = ci_credentialMetadataId i \<and>
     cam_openingExposure c = ci_openingExposure i \<and> cam_automaticStop c = ci_automaticStop i \<and>
     cam_hardCeiling c = ci_hardCeiling i \<and> cam_costScope c = runtime_scope (ci_costScope i) \<and>
     cam_createdAt c = ci_createdAt i"

section \<open>Projected cost\<close>

definition safe_number :: "int \<Rightarrow> ledger_error + int" where
  "safe_number v = guarded (throw_if (v < 0 \<or> v > max_safe_integer) Unsafe_number) (Inr v)"

definition projection_checks :: "budget_projection \<Rightarrow> ledger_error option" where
  "projection_checks p = checks
     [assert_safe_integer (bp_billableInputTokens p), assert_safe_integer (bp_billableCacheReadTokens p),
      assert_safe_positive (bp_requestedMaxOutputTokens p), assert_safe_integer (bp_inputRate p),
      assert_safe_integer (bp_outputRate p),
      (case bp_cacheReadRate p of
         Some rate \<Rightarrow> checks [assert_safe_integer rate,
           throw_if (rate > bp_inputRate p) Cache_rate_above_input]
       | None \<Rightarrow> throw_if (bp_billableCacheReadTokens p \<noteq> 0) Cache_rate_missing),
      assert_safe_integer (bp_providerFeeCeiling p)]"

definition projected_cost :: "budget_projection \<Rightarrow> int" where
  "projected_cost p =
     ceil_component (bp_billableInputTokens p) (bp_inputRate p) +
     ceil_component (bp_requestedMaxOutputTokens p) (bp_outputRate p) +
     ceil_component (bp_billableCacheReadTokens p) (coalesce (bp_cacheReadRate p) 0) +
     bp_providerFeeCeiling p"

definition project_worst_case_cost :: "budget_projection \<Rightarrow> ledger_error + int" where
  "project_worst_case_cost p = guarded (projection_checks p) (safe_number (projected_cost p))"

section \<open>Reading rows\<close>

text \<open>A NULL column read as a number is 0 (\<open>Number(null)\<close>); the checks of the table exclude it.\<close>

definition number_column :: "int option \<Rightarrow> ledger_error + int" where
  "number_column c = safe_number (coalesce c 0)"

definition to_campaign :: "ledger_row \<Rightarrow> ledger_error + budget_campaign" where
  "to_campaign r =
     bind_result (number_column (lr_openingExposure r)) (\<lambda>opening.
     bind_result (number_column (lr_automaticStop r)) (\<lambda>stop.
     bind_result (number_column (lr_hardCeiling r)) (\<lambda>ceiling.
       Inr \<lparr>cam_id = lr_id r, cam_providerId = coalesce (lr_providerId r) [],
            cam_credentialMetadataId = coalesce (lr_credentialMetadataId r) [],
            cam_openingExposure = opening, cam_automaticStop = stop, cam_hardCeiling = ceiling,
            cam_costScope = lr_costScope r, cam_createdAt = lr_createdAt r\<rparr>)))"

definition to_reservation :: "ledger_row \<Rightarrow> ledger_error + budget_reservation" where
  "to_reservation r =
     guarded (throw_if (lr_cacheAssumption r \<noteq> Some budget_cache_assumption \<or>
         lr_roundingPolicy r \<noteq> Some rounding_policy_v1) Unsupported_accounting)
     (bind_result (safe_number (lr_amount r)) (\<lambda>amount.
      bind_result (number_column (lr_billableInputTokens r)) (\<lambda>input.
      bind_result (number_column (lr_requestedMaxOutputTokens r)) (\<lambda>output.
      bind_result (number_column (lr_cacheReadTokens r)) (\<lambda>cached.
      bind_result (number_column (lr_inputRate r)) (\<lambda>inRate.
      bind_result (number_column (lr_outputRate r)) (\<lambda>outRate.
      bind_result (number_column (lr_cacheReadRate r)) (\<lambda>cacheRate.
      bind_result (number_column (lr_providerFeeCeiling r)) (\<lambda>fee.
        Inr \<lparr>res_id = lr_id r, res_campaignId = lr_campaignId r,
             res_sessionId = coalesce (lr_sessionId r) [], res_attemptId = coalesce (lr_attemptId r) [],
             res_providerId = coalesce (lr_providerId r) [],
             res_pricingSnapshotId = coalesce (lr_pricingSnapshotId r) [],
             res_costScope = lr_costScope r, res_cloudEgressAdmissionId = lr_cloudEgressAdmissionId r,
             res_amount = amount, res_billableInputTokens = input, res_requestedMaxOutputTokens = output,
             res_cacheReadTokens = cached, res_inputRate = inRate, res_outputRate = outRate,
             res_cacheReadRate = cacheRate, res_providerFeeCeiling = fee,
             res_createdAt = lr_createdAt r\<rparr>)))))))))"

definition to_terminal :: "ledger_row \<Rightarrow> ledger_error + budget_terminal" where
  "to_terminal r =
     bind_result (safe_number (lr_amount r)) (\<lambda>amount.
       Inr \<lparr>te_id = lr_id r, te_rowType = lr_rowType r, te_campaignId = lr_campaignId r,
            te_reservationId = coalesce (lr_reservationId r) [], te_costScope = lr_costScope r,
            te_amount = amount, te_costProvenance = lr_costProvenance r,
            te_requestDisposition = lr_requestDisposition r, te_reasonCode = lr_reasonCode r,
            te_createdAt = lr_createdAt r\<rparr>)"

definition get_campaign :: "ledger_row list \<Rightarrow> string \<Rightarrow> ledger_error + budget_campaign option" where
  "get_campaign rows i =
     guarded (assert_bounded_id i)
       (case find (\<lambda>r. lr_id r = i \<and> is_campaign_row r) rows of
          None \<Rightarrow> Inr None
        | Some r \<Rightarrow>
            guarded (throw_if (Some (lr_amount r) \<noteq> lr_openingExposure r) Campaign_inconsistent)
              (bind_result (to_campaign r) (\<lambda>c. Inr (Some c))))"

definition require_campaign :: "ledger_row list \<Rightarrow> string \<Rightarrow> ledger_error + budget_campaign" where
  "require_campaign rows i =
     bind_result (get_campaign rows i) (\<lambda>c. case c of None \<Rightarrow> Inl Unknown_campaign | Some x \<Rightarrow> Inr x)"

definition require_reservation :: "ledger_row list \<Rightarrow> string \<Rightarrow> ledger_error + budget_reservation" where
  "require_reservation rows i =
     guarded (assert_bounded_id i)
       (case find (\<lambda>r. lr_id r = i \<and> is_reservation_row r) rows of
          None \<Rightarrow> Inl Unknown_reservation
        | Some r \<Rightarrow> to_reservation r)"

definition get_terminal_entry :: "ledger_row list \<Rightarrow> string \<Rightarrow> ledger_error + budget_terminal option" where
  "get_terminal_entry rows i =
     guarded (assert_bounded_id i)
       (case find (\<lambda>r. lr_reservationId r = Some i \<and> is_terminal_row r) rows of
          None \<Rightarrow> Inr None
        | Some r \<Rightarrow> bind_result (to_terminal r) (\<lambda>t. Inr (Some t)))"

section \<open>Writing rows\<close>

definition blank_row :: ledger_row where
  "blank_row =
     \<lparr>lr_id = [], lr_rowType = Row_campaign, lr_campaignId = [], lr_reservationId = None,
      lr_sessionId = None, lr_attemptId = None, lr_providerId = None, lr_credentialMetadataId = None,
      lr_pricingSnapshotId = None, lr_amount = 0, lr_openingExposure = None, lr_automaticStop = None,
      lr_hardCeiling = None, lr_billableInputTokens = None, lr_requestedMaxOutputTokens = None,
      lr_cacheReadTokens = None, lr_inputRate = None, lr_outputRate = None, lr_cacheReadRate = None,
      lr_providerFeeCeiling = None, lr_cacheAssumption = None, lr_roundingPolicy = None,
      lr_costProvenance = None, lr_requestDisposition = None, lr_reasonCode = None,
      lr_createdAt = [], lr_costScope = Scope_legacy_unclassified, lr_cloudEgressAdmissionId = None\<rparr>"

definition campaign_row :: "campaign_input \<Rightarrow> ledger_row" where
  "campaign_row i = blank_row\<lparr>
     lr_id := ci_id i, lr_rowType := Row_campaign, lr_campaignId := ci_id i,
     lr_providerId := Some (ci_providerId i), lr_credentialMetadataId := Some (ci_credentialMetadataId i),
     lr_amount := ci_openingExposure i, lr_openingExposure := Some (ci_openingExposure i),
     lr_automaticStop := Some (ci_automaticStop i), lr_hardCeiling := Some (ci_hardCeiling i),
     lr_costScope := runtime_scope (ci_costScope i), lr_createdAt := ci_createdAt i\<rparr>"

definition reservation_row :: "reserve_input \<Rightarrow> int \<Rightarrow> ledger_row" where
  "reservation_row i cost = (let p = rq_projection i in blank_row\<lparr>
     lr_id := rq_reservationId i, lr_rowType := Row_reservation, lr_campaignId := rq_campaignId i,
     lr_reservationId := Some (rq_reservationId i), lr_sessionId := Some (rq_sessionId i),
     lr_attemptId := Some (rq_attemptId i), lr_providerId := Some (rq_providerId i),
     lr_pricingSnapshotId := Some (rq_pricingSnapshotId i),
     lr_costScope := runtime_scope (rq_costScope i),
     lr_cloudEgressAdmissionId := rq_cloudEgressAdmissionId i, lr_amount := cost,
     lr_billableInputTokens := Some (bp_billableInputTokens p),
     lr_requestedMaxOutputTokens := Some (bp_requestedMaxOutputTokens p),
     lr_cacheReadTokens := Some (bp_billableCacheReadTokens p),
     lr_inputRate := Some (bp_inputRate p), lr_outputRate := Some (bp_outputRate p),
     lr_cacheReadRate := Some (coalesce (bp_cacheReadRate p) 0),
     lr_providerFeeCeiling := Some (bp_providerFeeCeiling p),
     lr_cacheAssumption := Some budget_cache_assumption, lr_roundingPolicy := Some rounding_policy_v1,
     lr_createdAt := rq_createdAt i\<rparr>)"

definition terminal_row :: "resolve_input \<Rightarrow> budget_reservation \<Rightarrow> ledger_row" where
  "terminal_row i r = blank_row\<lparr>
     lr_id := rs_terminalEntryId i, lr_rowType := rs_rowType i, lr_campaignId := res_campaignId r,
     lr_reservationId := Some (rs_reservationId i), lr_costScope := res_costScope r,
     lr_amount := rs_amount i, lr_costProvenance := rs_costProvenance i,
     lr_requestDisposition := Some (rs_requestDisposition i), lr_reasonCode := rs_reasonCode i,
     lr_createdAt := rs_createdAt i\<rparr>"

definition insert_ledger_row :: "database \<Rightarrow> ledger_row \<Rightarrow> ledger_error + database" where
  "insert_ledger_row db r =
     bind_result (map_error Ledger_sql (insert_row (map sw_id (db_sessions db)) (db_ledger db) r))
       (\<lambda>rows. Inr (db\<lparr>db_ledger := rows\<rparr>))"

definition insert_campaign :: "campaign_input \<Rightarrow> database \<Rightarrow> ledger_error + database \<times> budget_campaign" where
  "insert_campaign i db =
     bind_result (insert_ledger_row db (campaign_row i)) (\<lambda>db'.
     bind_result (require_campaign (db_ledger db') (ci_id i)) (\<lambda>c. Inr (db', c)))"

definition create_campaign :: "campaign_input \<Rightarrow> database \<Rightarrow> ledger_error + database \<times> budget_campaign" where
  "create_campaign i db = guarded (normalize_campaign_input i) (insert_campaign i db)"

definition ensure_campaign :: "campaign_input \<Rightarrow> database \<Rightarrow> ledger_error + database \<times> budget_campaign" where
  "ensure_campaign i db =
     guarded (normalize_campaign_input i)
       (bind_result (get_campaign (db_ledger db) (ci_id i)) (\<lambda>existing.
          case existing of
            None \<Rightarrow> insert_campaign i db
          | Some c \<Rightarrow>
              guarded (throw_if (\<not> campaign_matches_input c i) Campaign_authority_differs)
                (Inr (db, c))))"

end
