(* ===== verification/LedgerOperations.thy ===== *)
theory LedgerOperations
  imports BudgetLedger
begin

text \<open>
  The operations of \<open>BudgetLedgerTransaction\<close> that admit and resolve paid work
  (\<open>main/budget-ledger.ts\<close>): the budget position of a campaign and an episode, \<open>reserve\<close>,
  \<open>resolve\<close>, the outstanding reservations and the summary by cost scope.
\<close>

section \<open>The position\<close>

definition campaign_entries :: "ledger_row list \<Rightarrow> string \<Rightarrow> ledger_row list" where
  "campaign_entries rows cid = filter (\<lambda>r. lr_campaignId r = cid \<and> \<not> is_campaign_row r) rows"

definition resolved_in :: "ledger_row list \<Rightarrow> string \<Rightarrow> bool" where
  "resolved_in entries i =
     list_ex (\<lambda>t. \<not> is_reservation_row t \<and> lr_reservationId t = Some i) entries"

text \<open>What an entry adds to the exposure of its campaign: an open reservation its amount, a resolved
  one nothing, and its terminal row what it settled.\<close>

definition campaign_share :: "ledger_row list \<Rightarrow> ledger_row \<Rightarrow> int" where
  "campaign_share entries r =
     (if is_reservation_row r \<and> resolved_in entries (lr_id r) then 0 else lr_amount r)"

definition parent_reservation :: "ledger_row list \<Rightarrow> ledger_row \<Rightarrow> ledger_row option" where
  "parent_reservation entries t =
     find (\<lambda>r. is_reservation_row r \<and> Some (lr_id r) = lr_reservationId t) entries"

definition episode_share :: "ledger_row list \<Rightarrow> string \<Rightarrow> ledger_row \<Rightarrow> int" where
  "episode_share entries sid r =
     (if is_reservation_row r
      then if \<not> resolved_in entries (lr_id r) \<and> lr_sessionId r = Some sid then lr_amount r else 0
      else if holds (parent_reservation entries r) (\<lambda>p. lr_sessionId p = Some sid) then lr_amount r else 0)"

definition campaign_exposure :: "ledger_row list \<Rightarrow> budget_campaign \<Rightarrow> int" where
  "campaign_exposure rows c =
     (let entries = campaign_entries rows (cam_id c)
      in cam_openingExposure c + sum_list (map (campaign_share entries) entries))"

definition episode_exposure :: "ledger_row list \<Rightarrow> string \<Rightarrow> string \<Rightarrow> int" where
  "episode_exposure rows cid sid =
     (let entries = campaign_entries rows cid
      in sum_list (map (episode_share entries sid) entries))"

definition remaining_of :: "int \<Rightarrow> int \<Rightarrow> int" where
  "remaining_of limit exposure = (if exposure \<ge> limit then 0 else limit - exposure)"

definition orphan_terminal :: "ledger_row list \<Rightarrow> bool" where
  "orphan_terminal entries =
     list_ex (\<lambda>t. \<not> is_reservation_row t \<and> parent_reservation entries t = None) entries"

definition get_position :: "ledger_row list \<Rightarrow> string \<Rightarrow> string \<Rightarrow> int \<Rightarrow> ledger_error + budget_position" where
  "get_position rows cid sid cap =
     bind_result (require_campaign rows cid) (\<lambda>c.
     guarded (checks [assert_bounded_id sid, assert_safe_integer cap,
         throw_if (orphan_terminal (campaign_entries rows cid)) Terminal_without_reservation])
     (let episode = episode_exposure rows cid sid;
          campaign = campaign_exposure rows c;
          remEpisode = remaining_of cap episode;
          remAutomatic = remaining_of (cam_automaticStop c) campaign;
          remHard = remaining_of (cam_hardCeiling c) campaign;
          remCampaign = (if remAutomatic < remHard then remAutomatic else remHard)
      in bind_result (safe_number episode) (\<lambda>episode.
         bind_result (safe_number campaign) (\<lambda>campaign.
         bind_result (safe_number remEpisode) (\<lambda>remEpisode.
         bind_result (safe_number remAutomatic) (\<lambda>remAutomatic.
         bind_result (safe_number remHard) (\<lambda>remHard.
         bind_result (safe_number remCampaign) (\<lambda>remCampaign.
           Inr \<lparr>pos_episodeCap = cap, pos_episodeExposure = episode, pos_campaignExposure = campaign,
                pos_remainingEpisode = remEpisode, pos_remainingAutomaticStop = remAutomatic,
                pos_remainingHardCeiling = remHard, pos_remainingCampaign = remCampaign,
                pos_automaticStop = cam_automaticStop c, pos_hardCeiling = cam_hardCeiling c,
                pos_campaignDisabled =
                  list_ex (\<lambda>r. lr_rowType r = Row_overrun) (campaign_entries rows cid)\<rparr>))))))))"

section \<open>Reserving\<close>

definition reserve_input_checks :: "reserve_input \<Rightarrow> ledger_error option" where
  "reserve_input_checks i = checks
     [assert_bounded_id (rq_campaignId i), assert_bounded_id (rq_reservationId i),
      assert_bounded_id (rq_sessionId i), assert_bounded_id (rq_attemptId i),
      assert_bounded_id (rq_providerId i), assert_bounded_id (rq_pricingSnapshotId i),
      (case rq_cloudEgressAdmissionId i of
         None \<Rightarrow> Some Egress_identity_required
       | Some a \<Rightarrow> assert_bounded_id a),
      assert_canonical_timestamp (rq_createdAt i), assert_safe_integer (rq_episodeCap i)]"

definition reserve_row_checks :: "ledger_row list \<Rightarrow> reserve_input \<Rightarrow> budget_campaign \<Rightarrow> ledger_error option" where
  "reserve_row_checks rows i c = checks
     [throw_if (cam_providerId c \<noteq> rq_providerId i \<or> cam_costScope c \<noteq> runtime_scope (rq_costScope i))
        Campaign_mismatch,
      check_when (rq_costScope i = Rt_actual)
        (throw_if (list_ex (\<lambda>r. lr_costScope r = Scope_legacy_unclassified) rows) Legacy_exposure),
      throw_if (list_ex (\<lambda>r. is_reservation_row r \<and> lr_sessionId r = Some (rq_sessionId i)) rows)
        Episode_already_reserved]"

definition billing_snapshot :: "budget_projection \<Rightarrow> int \<Rightarrow> budget_position \<Rightarrow> billing" where
  "billing_snapshot p cost pos =
     \<lparr>bl_billableInputTokens = bp_billableInputTokens p,
      bl_billableCacheReadTokens = bp_billableCacheReadTokens p,
      bl_requestedMaxOutputTokens = bp_requestedMaxOutputTokens p,
      bl_inputRate = bp_inputRate p, bl_outputRate = bp_outputRate p,
      bl_cacheReadRate = bp_cacheReadRate p,
      bl_providerFeeCeilingMicrousd = bp_providerFeeCeiling p,
      bl_projectedCostMicrousd = cost,
      bl_remainingEpisodeMicrousd = pos_remainingEpisode pos,
      bl_remainingCampaignMicrousd = pos_remainingCampaign pos\<rparr>"

definition denial_reason :: "budget_position \<Rightarrow> int \<Rightarrow> budget_denial option" where
  "denial_reason pos cost =
     (if pos_campaignDisabled pos then Some Campaign_overrun
      else if cost > pos_remainingEpisode pos then Some Episode_cap
      else if cost > pos_remainingHardCeiling pos then Some Campaign_hard_ceiling
      else if cost > pos_remainingAutomaticStop pos then Some Campaign_automatic_stop
      else None)"

definition reserve_admitted ::
  "reserve_input \<Rightarrow> int \<Rightarrow> billing \<Rightarrow> budget_position \<Rightarrow> database
     \<Rightarrow> ledger_error + database \<times> reservation_resolution" where
  "reserve_admitted i cost b pos db =
     bind_result (insert_ledger_row db (reservation_row i cost)) (\<lambda>db'.
     bind_result (require_reservation (db_ledger db') (rq_reservationId i)) (\<lambda>r.
       Inr (db', Admitted b pos r)))"

definition reserve :: "reserve_input \<Rightarrow> database \<Rightarrow> ledger_error + database \<times> reservation_resolution" where
  "reserve i db =
     guarded (reserve_input_checks i)
       (bind_result (project_worst_case_cost (rq_projection i)) (\<lambda>cost.
        guarded (throw_if (cost \<le> 0) Zero_reservation)
       (bind_result (require_campaign (db_ledger db) (rq_campaignId i)) (\<lambda>c.
        guarded (reserve_row_checks (db_ledger db) i c)
       (bind_result (get_position (db_ledger db) (rq_campaignId i) (rq_sessionId i) (rq_episodeCap i)) (\<lambda>pos.
        let b = billing_snapshot (rq_projection i) cost pos
        in case denial_reason pos cost of
             Some reason \<Rightarrow> Inr (db, Refused reason b pos)
           | None \<Rightarrow> reserve_admitted i cost b pos db))))))"

section \<open>Resolving\<close>

definition release_checks :: "resolve_input \<Rightarrow> ledger_error option" where
  "release_checks i =
     throw_if (rs_amount i \<noteq> 0 \<or> rs_requestDisposition i \<noteq> Not_sent \<or> rs_costProvenance i \<noteq> None \<or>
       rs_reasonCode i = None) Release_fields"

definition settle_checks :: "resolve_input \<Rightarrow> budget_reservation \<Rightarrow> ledger_error option" where
  "settle_checks i r = checks
     [throw_if (rs_requestDisposition i = Not_sent \<or> rs_costProvenance i = None \<or>
        rs_reasonCode i \<noteq> (if rs_rowType i = Row_overrun then Some ''budget_overrun'' else None))
        Terminal_fields,
      throw_if (rs_rowType i = Row_settlement \<and> rs_amount i > res_amount r) Settlement_exceeds,
      throw_if (rs_rowType i = Row_overrun \<and> rs_amount i \<le> res_amount r) Overrun_within,
      throw_if (rs_costProvenance i = Some Reserved_unknown \<and> rs_amount i \<noteq> res_amount r) Unknown_not_full,
      throw_if (rs_rowType i = Row_overrun \<and> rs_costProvenance i = Some Reserved_unknown) Unknown_overrun]"

definition resolve_input_checks :: "resolve_input \<Rightarrow> ledger_error option" where
  "resolve_input_checks i = checks
     [assert_bounded_id (rs_terminalEntryId i), assert_bounded_id (rs_reservationId i),
      assert_canonical_timestamp (rs_createdAt i), assert_safe_integer (rs_amount i),
      (case rs_reasonCode i of None \<Rightarrow> None | Some c \<Rightarrow> assert_reason_code c)]"

definition resolve :: "resolve_input \<Rightarrow> database \<Rightarrow> ledger_error + database \<times> budget_terminal" where
  "resolve i db =
     guarded (resolve_input_checks i)
       (bind_result (require_reservation (db_ledger db) (rs_reservationId i)) (\<lambda>r.
        bind_result (get_terminal_entry (db_ledger db) (rs_reservationId i)) (\<lambda>existing.
        guarded (checks
          [throw_if (existing \<noteq> None) Already_resolved,
           if rs_rowType i = Row_release then release_checks i else settle_checks i r])
       (bind_result (insert_ledger_row db (terminal_row i r)) (\<lambda>db'.
        bind_result (get_terminal_entry (db_ledger db') (rs_reservationId i)) (\<lambda>t.
          case t of None \<Rightarrow> Inl Unknown_reservation | Some x \<Rightarrow> Inr (db', x)))))))"

section \<open>Reports\<close>

fun all_results :: "('a \<Rightarrow> 'e + 'b) \<Rightarrow> 'a list \<Rightarrow> 'e + 'b list" where
  "all_results f [] = Inr []"
| "all_results f (x # xs) =
     bind_result (f x) (\<lambda>y. bind_result (all_results f xs) (\<lambda>ys. Inr (y # ys)))"

definition by_creation :: "ledger_row list \<Rightarrow> ledger_row list" where
  "by_creation rows = sort_key lr_createdAt (sort_key lr_id rows)"

definition outstanding_rows :: "ledger_row list \<Rightarrow> string option \<Rightarrow> ledger_row list" where
  "outstanding_rows rows sid =
     filter (\<lambda>r. is_reservation_row r \<and>
       \<not> list_ex (\<lambda>t. is_terminal_row t \<and> lr_reservationId t = Some (lr_id r)) rows \<and>
       (sid = None \<or> lr_sessionId r = sid)) rows"

definition list_outstanding_reservations ::
  "ledger_row list \<Rightarrow> string option \<Rightarrow> ledger_error + budget_reservation list" where
  "list_outstanding_reservations rows sid =
     guarded (case sid of None \<Rightarrow> None | Some s \<Rightarrow> assert_bounded_id s)
       (all_results to_reservation (by_creation (outstanding_rows rows sid)))"

definition assert_no_outstanding_reservation :: "ledger_row list \<Rightarrow> string \<Rightarrow> ledger_error option" where
  "assert_no_outstanding_reservation rows sid =
     (case list_outstanding_reservations rows (Some sid) of
        Inl e \<Rightarrow> Some e
      | Inr rs \<Rightarrow> throw_if (rs \<noteq> []) Outstanding_reservation)"

record scope_amounts =
  sa_rowCount :: int
  sa_openingExposure :: int
  sa_outstandingReservation :: int
  sa_settled :: int

definition summary_rows :: "ledger_row list \<Rightarrow> string option \<Rightarrow> ledger_row list" where
  "summary_rows rows sid =
     (case sid of
        None \<Rightarrow> rows
      | Some s \<Rightarrow> filter (\<lambda>e.
          (is_reservation_row e \<and> lr_sessionId e = Some s) \<or>
          (is_terminal_row e \<and> list_ex (\<lambda>r. Some (lr_id r) = lr_reservationId e \<and> is_reservation_row r \<and>
             lr_sessionId r = Some s) rows)) rows)"

text \<open>One group of the aggregate query; a scope without rows keeps its zeros.\<close>

definition scope_summary ::
  "ledger_row list \<Rightarrow> string option \<Rightarrow> cost_scope \<Rightarrow> ledger_error + scope_amounts" where
  "scope_summary rows sid scope =
     (let group = filter (\<lambda>e. lr_costScope e = scope) (summary_rows rows sid);
          total = (\<lambda>p. sum_list (map lr_amount (filter p group)))
      in bind_result (safe_number (int (length group))) (\<lambda>count.
         bind_result (safe_number (total is_campaign_row)) (\<lambda>opening.
         bind_result (safe_number (total (\<lambda>e. is_reservation_row e \<and>
             \<not> list_ex (\<lambda>t. is_terminal_row t \<and> lr_reservationId t = Some (lr_id e)) rows))) (\<lambda>outstanding.
         bind_result (safe_number (total (\<lambda>e. lr_rowType e = Row_settlement \<or> lr_rowType e = Row_overrun)))
           (\<lambda>settled.
             Inr \<lparr>sa_rowCount = count, sa_openingExposure = opening,
                  sa_outstandingReservation = outstanding, sa_settled = settled\<rparr>)))))"

definition get_cost_scope_summary ::
  "ledger_row list \<Rightarrow> string option \<Rightarrow> ledger_error + (cost_scope \<Rightarrow> scope_amounts)" where
  "get_cost_scope_summary rows sid =
     guarded (case sid of None \<Rightarrow> None | Some s \<Rightarrow> assert_bounded_id s)
       (bind_result (scope_summary rows sid Scope_actual) (\<lambda>actual.
        bind_result (scope_summary rows sid Scope_legacy_unclassified) (\<lambda>legacy.
        bind_result (scope_summary rows sid Scope_simulation) (\<lambda>simulation.
          Inr (\<lambda>scope. case scope of Scope_actual \<Rightarrow> actual | Scope_simulation \<Rightarrow> simulation
             | Scope_legacy_unclassified \<Rightarrow> legacy)))))"

end
