(* ===== verification/LedgerFacts.thy ===== *)
theory LedgerFacts
  imports LedgerOperations Replay
begin

text \<open>
  What one inserted row does to the exposure of its campaign, and what every history of ledger
  operations keeps: the table's own rules, one reservation per episode, and an exposure within
  the automatic stop as long as no overrun has disabled the campaign.
\<close>

section \<open>Rows and entries\<close>

lemma row_kinds:
  "is_campaign_row r \<or> is_reservation_row r \<or> is_terminal_row r"
  "\<not> (is_campaign_row r \<and> is_reservation_row r)" "\<not> (is_campaign_row r \<and> is_terminal_row r)"
  "\<not> (is_reservation_row r \<and> is_terminal_row r)"
  by (cases "lr_rowType r"; simp add: is_campaign_row_def is_reservation_row_def is_terminal_row_def)+

lemma campaign_entries_snoc:
  "campaign_entries (rows @ [r]) cid =
     campaign_entries rows cid @ (if lr_campaignId r = cid \<and> \<not> is_campaign_row r then [r] else [])"
  by (simp add: campaign_entries_def)

lemma campaign_entries_mem:
  "x \<in> set (campaign_entries rows cid) \<longleftrightarrow> x \<in> set rows \<and> lr_campaignId x = cid \<and> \<not> is_campaign_row x"
  by (auto simp: campaign_entries_def)

definition total_share :: "ledger_row list \<Rightarrow> string \<Rightarrow> int" where
  "total_share rows cid =
     sum_list (map (campaign_share (campaign_entries rows cid)) (campaign_entries rows cid))"

lemma campaign_exposure_total:
  "campaign_exposure rows c = cam_openingExposure c + total_share rows (cam_id c)"
  by (simp add: campaign_exposure_def total_share_def Let_def)

lemma terminal_has_parent:
  assumes "ledger_ok rows" "t \<in> set rows" "is_terminal_row t"
  obtains p where "p \<in> set rows" "is_reservation_row p" "lr_reservationId t = Some (lr_id p)"
    "lr_campaignId p = lr_campaignId t" "lr_costScope p = lr_costScope t"
proof -
  have "joins_parents rows t (lr_costScope t)"
    using assms by (auto simp: ledger_ok_def list_all_iff parent_ok_def terminal_parent_guard_def)
  with that show thesis by (auto simp: joins_parents_def list_ex_iff)
qed

lemma id_unique:
  assumes "ledger_ok rows" "x \<in> set rows" "y \<in> set rows" "lr_id x = lr_id y"
  shows "x = y"
proof -
  have "inj_on lr_id (set rows)"
    using assms(1) by (simp add: ledger_ok_def indexes_ok_def distinct_map)
  from inj_onD [OF this assms(4,2,3)] show ?thesis .
qed

text \<open>What a successful insert says about the new row.\<close>

lemma inserted_facts:
  assumes "insert_row sessions rows r = Inr rows'"
  shows "rows' = rows @ [r]" "\<And>x. x \<in> set rows \<Longrightarrow> lr_id x \<noteq> lr_id r"
    "row_ok r" "parent_ok rows r" "index_checks rows r = None"
  using assms
  by (auto simp: insert_row_Inr trigger_checks_None row_ok_def index_checks_def clashes_def
      check_simps list_ex_iff)

lemma total_share_other:
  "lr_campaignId r \<noteq> cid \<or> is_campaign_row r \<Longrightarrow> total_share (rows @ [r]) cid = total_share rows cid"
  by (auto simp: total_share_def campaign_entries_snoc)

text \<open>No terminal row names the id of a row that is inserted later.\<close>

lemma fresh_unresolved:
  assumes ok: "ledger_ok rows" and ins: "insert_row sessions rows r = Inr rows'"
  shows "\<not> resolved_in (campaign_entries rows cid) (lr_id r)"
proof
  assume "resolved_in (campaign_entries rows cid) (lr_id r)"
  then obtain t where t: "t \<in> set (campaign_entries rows cid)" "\<not> is_reservation_row t"
    "lr_reservationId t = Some (lr_id r)"
    by (auto simp: resolved_in_def list_ex_iff)
  then have "t \<in> set rows" "is_terminal_row t"
    using row_kinds(1) [of t] by (auto simp: campaign_entries_mem)
  then obtain p where "p \<in> set rows" "lr_reservationId t = Some (lr_id p)"
    by (rule terminal_has_parent [OF ok])
  with t(3) inserted_facts(2) [OF ins] show False by auto
qed

lemma total_share_reservation:
  assumes ok: "ledger_ok rows" and ins: "insert_row sessions rows r = Inr rows'"
    and r: "is_reservation_row r"
  shows "total_share (rows @ [r]) (lr_campaignId r) = total_share rows (lr_campaignId r) + lr_amount r"
proof -
  let ?es = "campaign_entries rows (lr_campaignId r)"
  note f = inserted_facts [OF ins]
  have es: "campaign_entries (rows @ [r]) (lr_campaignId r) = ?es @ [r]"
    using r row_kinds(2) [of r] by (simp add: campaign_entries_snoc)
  have res: "resolved_in (?es @ [r]) i = resolved_in ?es i" for i
    using r by (simp add: resolved_in_def)
  have "\<not> resolved_in ?es (lr_id r)" by (rule fresh_unresolved [OF ok ins])
  with r show ?thesis
    by (simp add: total_share_def es campaign_share_def [abs_def] res)
qed

lemma sum_list_zeroed:
  assumes "distinct xs" "p \<in> set xs" "\<And>x. x \<in> set xs \<Longrightarrow> x \<noteq> p \<Longrightarrow> g x = f x" "g p = 0"
  shows "sum_list (map g xs) = sum_list (map f xs) - (f p :: int)"
  using assms
proof (induction xs)
  case Nil
  then show ?case by simp
next
  case (Cons x xs)
  show ?case
  proof (cases "x = p")
    case True
    with Cons.prems have "map g xs = map f xs" by (intro map_cong) auto
    then have "sum_list (map g xs) = sum_list (map f xs)" by (simp only:)
    with True Cons.prems(4) show ?thesis by simp
  next
    case False
    with Cons show ?thesis by auto
  qed
qed

lemma total_share_terminal:
  assumes ok: "ledger_ok rows" and ins: "insert_row sessions rows r = Inr rows'"
    and r: "is_terminal_row r"
  obtains p where "p \<in> set rows" "is_reservation_row p" "lr_reservationId r = Some (lr_id p)"
    "lr_campaignId p = lr_campaignId r" "lr_costScope p = lr_costScope r"
    "total_share (rows @ [r]) (lr_campaignId r) =
       total_share rows (lr_campaignId r) - lr_amount p + lr_amount r"
proof -
  note f = inserted_facts [OF ins]
  have "joins_parents rows r (lr_costScope r)"
    using f(4) r by (simp add: parent_ok_def terminal_parent_guard_def)
  then obtain p where p: "p \<in> set rows" "is_reservation_row p" "lr_reservationId r = Some (lr_id p)"
    "lr_campaignId p = lr_campaignId r" "lr_costScope p = lr_costScope r"
    by (auto simp: joins_parents_def list_ex_iff)
  let ?es = "campaign_entries rows (lr_campaignId r)"
  have es: "campaign_entries (rows @ [r]) (lr_campaignId r) = ?es @ [r]"
    using r row_kinds(3) [of r] by (simp add: campaign_entries_snoc)
  have nr: "\<not> is_reservation_row r" using r row_kinds(4) by blast
  have res: "resolved_in (?es @ [r]) i \<longleftrightarrow> resolved_in ?es i \<or> i = lr_id p" for i
    using nr p(3) by (auto simp: resolved_in_def)
  have pe: "p \<in> set ?es" using p row_kinds(2) by (auto simp: campaign_entries_mem)
  have "\<not> resolved_in ?es (lr_id p)"
  proof
    assume "resolved_in ?es (lr_id p)"
    then obtain t where "t \<in> set ?es" "\<not> is_reservation_row t" "lr_reservationId t = lr_reservationId r"
      using p(3) by (auto simp: resolved_in_def list_ex_iff)
    then have "t \<in> set rows" "is_terminal_row t" "lr_reservationId t = lr_reservationId r"
      using row_kinds(1) [of t] by (auto simp: campaign_entries_mem)
    with f(5) r p(3) show False
      by (auto simp: index_checks_def check_simps clashes_def list_ex_iff terminal_reservation_key_def)
  qed
  then have sp: "campaign_share ?es p = lr_amount p" by (simp add: campaign_share_def)
  have d: "distinct ?es"
    using ok by (simp add: ledger_ok_def indexes_ok_def distinct_map campaign_entries_def)
  have "sum_list (map (campaign_share (?es @ [r])) ?es) =
      sum_list (map (campaign_share ?es) ?es) - campaign_share ?es p"
  proof (rule sum_list_zeroed [OF d pe])
    show "campaign_share (?es @ [r]) p = 0" using p(2) by (simp add: campaign_share_def res)
    fix x assume "x \<in> set ?es" "x \<noteq> p"
    then have "lr_id x \<noteq> lr_id p"
      using id_unique [OF ok _ p(1)] by (auto simp: campaign_entries_mem)
    then show "campaign_share (?es @ [r]) x = campaign_share ?es x" by (simp add: campaign_share_def res)
  qed
  then have "total_share (rows @ [r]) (lr_campaignId r) =
      total_share rows (lr_campaignId r) - lr_amount p + lr_amount r"
    using nr sp by (simp add: total_share_def es campaign_share_def [of _ r])
  with that p show thesis by blast
qed

end
