(* ===== verification/LedgerInvariants.thy ===== *)
theory LedgerInvariants
  imports LedgerFacts
begin

text \<open>
  Histories of the budget ledger. An operation of a history is one that succeeded (a failed one
  rolls its transaction back and changes nothing); the rows of other tables may change in between.
  Every history keeps the rules of the table, one reservation per episode, and the exposure of
  a campaign within its automatic stop until an overrun disables it.
\<close>

datatype ledger_op =
    Op_create campaign_input
  | Op_ensure campaign_input
  | Op_reserve reserve_input
  | Op_resolve resolve_input
  | Op_elsewhere "session_row list" "stored_event list"

fun apply_ledger_op :: "database \<Rightarrow> ledger_op \<Rightarrow> ledger_error + database" where
  "apply_ledger_op db (Op_create i) = bind_result (create_campaign i db) (\<lambda>(db', c). Inr db')"
| "apply_ledger_op db (Op_ensure i) = bind_result (ensure_campaign i db) (\<lambda>(db', c). Inr db')"
| "apply_ledger_op db (Op_reserve i) = bind_result (reserve i db) (\<lambda>(db', r). Inr db')"
| "apply_ledger_op db (Op_resolve i) = bind_result (resolve i db) (\<lambda>(db', t). Inr db')"
| "apply_ledger_op db (Op_elsewhere rs es) = Inr (db\<lparr>db_sessions := rs, db_events := es\<rparr>)"

fun ledger_run :: "database \<Rightarrow> ledger_op list \<Rightarrow> ledger_error + database" where
  "ledger_run db [] = Inr db"
| "ledger_run db (op # ops) = bind_result (apply_ledger_op db op) (\<lambda>db'. ledger_run db' ops)"

interpretation ledger_history: event_replay apply_ledger_op ledger_run
  by unfold_locales simp_all

section \<open>What an operation did\<close>

lemma insert_ledger_row_Inr:
  "insert_ledger_row db r = Inr db' \<longleftrightarrow>
     (\<exists>rows. insert_row (map sw_id (db_sessions db)) (db_ledger db) r = Inr rows \<and>
        db' = db\<lparr>db_ledger := rows\<rparr>)"
  by (auto simp: insert_ledger_row_def check_simps)

lemma inserted_terminal_row:
  assumes "insert_row sessions rows (terminal_row i r) = Inr rows'"
  shows "is_terminal_row (terminal_row i r)"
proof -
  have shape: "check_passes (row_shape (terminal_row i r))"
    using assms by (simp add: insert_row_Inr)
  have "rs_rowType i \<noteq> Row_campaign" "rs_rowType i \<noteq> Row_reservation"
    using shape by (auto simp: row_shape_def terminal_row_def blank_row_def campaign_shape_def
        reservation_shape_def sql_simps)
  then show ?thesis by (cases "rs_rowType i") (simp_all add: is_terminal_row_def terminal_row_def)
qed

lemma insert_campaignE:
  assumes "insert_campaign i db = Inr (db', c)"
  shows "insert_row (map sw_id (db_sessions db)) (db_ledger db) (campaign_row i) = Inr (db_ledger db')"
  using assms by (auto simp: insert_campaign_def check_simps insert_ledger_row_Inr)

lemma reserveE:
  assumes "reserve i db = Inr (db', out)"
  obtains (refused) reason b pos where "db' = db" "out = Refused reason b pos"
  | (admitted) cost c pos where
      "insert_row (map sw_id (db_sessions db)) (db_ledger db) (reservation_row i cost) = Inr (db_ledger db')"
      "project_worst_case_cost (rq_projection i) = Inr cost" "0 < cost"
      "require_campaign (db_ledger db) (rq_campaignId i) = Inr c"
      "reserve_row_checks (db_ledger db) i c = None"
      "get_position (db_ledger db) (rq_campaignId i) (rq_sessionId i) (rq_episodeCap i) = Inr pos"
      "denial_reason pos cost = None"
  using assms
  by (auto simp: reserve_def reserve_admitted_def check_simps insert_ledger_row_Inr Let_def
      split: option.splits)

lemma apply_ledger_op_cases:
  assumes "apply_ledger_op db op = Inr db'"
  obtains (same) "db_ledger db' = db_ledger db"
  | (campaign) i sessions where "insert_row sessions (db_ledger db) (campaign_row i) = Inr (db_ledger db')"
  | (reservation) i cost c pos sessions where "op = Op_reserve i"
      "insert_row sessions (db_ledger db) (reservation_row i cost) = Inr (db_ledger db')" "0 < cost"
      "require_campaign (db_ledger db) (rq_campaignId i) = Inr c"
      "reserve_row_checks (db_ledger db) i c = None"
      "get_position (db_ledger db) (rq_campaignId i) (rq_sessionId i) (rq_episodeCap i) = Inr pos"
      "denial_reason pos cost = None"
  | (terminal) r sessions where "insert_row sessions (db_ledger db) r = Inr (db_ledger db')" "is_terminal_row r"
proof (cases op)
  case (Op_create i)
  then obtain c where "insert_campaign i db = Inr (db', c)"
    using assms by (auto simp: create_campaign_def check_simps)
  with insert_campaignE campaign show thesis by blast
next
  case (Op_ensure i)
  then consider "db' = db" | c where "insert_campaign i db = Inr (db', c)"
    using assms by (auto simp: ensure_campaign_def check_simps split: option.splits)
  then show thesis using same campaign insert_campaignE by cases blast+
next
  case (Op_reserve i)
  then obtain out where "reserve i db = Inr (db', out)" using assms by (auto simp: check_simps)
  then show thesis
  proof (cases rule: reserveE)
    case refused
    then show thesis using same by simp
  next
    case (admitted cost c pos)
    with Op_reserve show thesis using reservation by blast
  qed
next
  case (Op_resolve i)
  then obtain r where "insert_row (map sw_id (db_sessions db)) (db_ledger db) (terminal_row i r) =
      Inr (db_ledger db')"
    using assms by (auto simp: resolve_def check_simps insert_ledger_row_Inr split: option.splits)
  with inserted_terminal_row terminal show thesis by blast
next
  case (Op_elsewhere rs es)
  then show thesis using assms same by auto
qed

section \<open>Bounded exposure\<close>

definition overrun_free :: "ledger_row list \<Rightarrow> string \<Rightarrow> bool" where
  "overrun_free rows cid \<longleftrightarrow> \<not> list_ex (\<lambda>r. lr_rowType r = Row_overrun) (campaign_entries rows cid)"

definition campaign_bounded :: "ledger_row list \<Rightarrow> ledger_row \<Rightarrow> bool" where
  "campaign_bounded rows c \<longleftrightarrow>
     (\<exists>open0 stop ceiling. lr_openingExposure c = Some open0 \<and> lr_automaticStop c = Some stop \<and>
        lr_hardCeiling c = Some ceiling \<and> open0 \<le> stop \<and> stop \<le> ceiling \<and>
        (overrun_free rows (lr_id c) \<longrightarrow> open0 + total_share rows (lr_id c) \<le> stop))"

definition one_per_episode :: "ledger_row list \<Rightarrow> bool" where
  "one_per_episode rows \<longleftrightarrow> distinct (map lr_sessionId (filter is_reservation_row rows))"

definition ledger_inv :: "database \<Rightarrow> bool" where
  "ledger_inv db \<longleftrightarrow> ledger_ok (db_ledger db) \<and> one_per_episode (db_ledger db) \<and>
     (\<forall>c\<in>set (db_ledger db). is_campaign_row c \<longrightarrow> campaign_bounded (db_ledger db) c)"

lemma campaign_row_limits:
  assumes "row_ok c" "is_campaign_row c"
  obtains open0 stop ceiling where "lr_openingExposure c = Some open0" "lr_automaticStop c = Some stop"
    "lr_hardCeiling c = Some ceiling" "open0 \<le> stop" "stop \<le> ceiling" "lr_id c = lr_campaignId c"
  using assms that
  by (auto simp: row_ok_def row_shape_def is_campaign_row_def campaign_shape_def sql_simps)

text \<open>A terminal row settles more than its reservation held exactly when it is an overrun.\<close>

lemma terminal_amounts:
  assumes ok: "ledger_ok rows" and t: "row_ok t" "parent_ok rows t" "is_terminal_row t"
    and p: "p \<in> set rows" "is_reservation_row p" "lr_reservationId t = Some (lr_id p)"
  shows "lr_rowType t = Row_overrun \<longleftrightarrow> lr_amount p < lr_amount t"
proof -
  have "find_row rows (lr_id p) = Some p"
  proof -
    obtain x where x: "find_row rows (lr_id p) = Some x"
      using p(1) by (cases "find_row rows (lr_id p)") (auto simp: find_row_def find_None_iff)
    then have "x \<in> set rows" "lr_id x = lr_id p" by (auto simp: find_row_def dest: find_SomeD)
    with id_unique [OF ok _ p(1)] x show ?thesis by blast
  qed
  then have pa: "parent_amount rows t = Some (lr_amount p)" by (simp add: parent_amount_def p(3))
  have "row_ok p" using ok p(1) by (simp add: ledger_ok_def list_all_iff)
  then have "0 \<le> lr_amount p" by (simp add: row_ok_def column_checks_def)
  moreover have "lr_amount t = 0" if "lr_rowType t = Row_release"
    using t(1) that by (simp add: row_ok_def row_shape_def release_shape_def terminal_shape_def sql_simps)
  moreover have "lr_amount t \<le> lr_amount p" if "lr_rowType t = Row_settlement"
    using t(2) that pa by (auto simp: parent_ok_def settlement_amount_guard_def sql_test_def)
  moreover have "lr_amount p < lr_amount t" if "lr_rowType t = Row_overrun"
    using t(2) that pa by (auto simp: parent_ok_def overrun_amount_guard_def sql_test_def)
  ultimately show ?thesis using t(3) by (auto simp: is_terminal_row_def)
qed

lemma campaign_bounded_terminal:
  assumes ok: "ledger_ok rows" and ins: "insert_row sessions rows r = Inr rows'" and r: "is_terminal_row r"
    and c: "campaign_bounded rows c"
  shows "campaign_bounded (rows @ [r]) c"
proof (cases "lr_campaignId r = lr_id c")
  case False
  then have "campaign_entries (rows @ [r]) (lr_id c) = campaign_entries rows (lr_id c)"
    by (simp add: campaign_entries_snoc)
  with c show ?thesis by (simp add: campaign_bounded_def overrun_free_def total_share_def)
next
  case True
  have es: "campaign_entries (rows @ [r]) (lr_id c) = campaign_entries rows (lr_id c) @ [r]"
    using True r row_kinds(3) [of r] by (simp add: campaign_entries_snoc)
  obtain p where p: "p \<in> set rows" "is_reservation_row p" "lr_reservationId r = Some (lr_id p)"
    "total_share (rows @ [r]) (lr_campaignId r) =
       total_share rows (lr_campaignId r) - lr_amount p + lr_amount r"
    by (rule total_share_terminal [OF ok ins r])
  have "total_share (rows @ [r]) (lr_id c) \<le> total_share rows (lr_id c)"
    if "lr_rowType r \<noteq> Row_overrun"
    using terminal_amounts [OF ok inserted_facts(3,4) [OF ins] r p(1-3)] that p(4) True by simp
  with c show ?thesis by (auto simp: campaign_bounded_def overrun_free_def es)
qed

lemma require_campaign_row:
  assumes "require_campaign rows i = Inr c"
  obtains crow where "crow \<in> set rows" "lr_id crow = i" "is_campaign_row crow" "cam_id c = i"
    "cam_openingExposure c = coalesce (lr_openingExposure crow) 0"
    "cam_automaticStop c = coalesce (lr_automaticStop crow) 0"
    "cam_hardCeiling c = coalesce (lr_hardCeiling crow) 0"
    "Some (cam_providerId c) = lr_providerId crow \<or> lr_providerId crow = None"
    "cam_costScope c = lr_costScope crow"
proof -
  obtain crow where "find (\<lambda>r. lr_id r = i \<and> is_campaign_row r) rows = Some crow"
    "to_campaign crow = Inr c"
    using assms by (auto simp: require_campaign_def get_campaign_def check_simps split: option.splits)
  with that show thesis
    by (auto dest!: find_SomeD simp: to_campaign_def number_column_def safe_number_def check_simps
        coalesce_def split: option.splits)
qed


section \<open>Positions\<close>

lemma get_positionE:
  assumes "get_position rows cid sid cap = Inr pos"
  obtains c where "require_campaign rows cid = Inr c"
    "pos_episodeCap pos = cap" "pos_automaticStop pos = cam_automaticStop c"
    "pos_hardCeiling pos = cam_hardCeiling c"
    "pos_episodeExposure pos = episode_exposure rows cid sid"
    "pos_campaignExposure pos = campaign_exposure rows c"
    "pos_remainingEpisode pos = remaining_of cap (episode_exposure rows cid sid)"
    "pos_remainingAutomaticStop pos = remaining_of (cam_automaticStop c) (campaign_exposure rows c)"
    "pos_remainingHardCeiling pos = remaining_of (cam_hardCeiling c) (campaign_exposure rows c)"
    "pos_remainingCampaign pos = min (pos_remainingAutomaticStop pos) (pos_remainingHardCeiling pos)"
    "pos_campaignDisabled pos = list_ex (\<lambda>r. lr_rowType r = Row_overrun) (campaign_entries rows cid)"
    "safe_non_negative (campaign_exposure rows c)" "safe_non_negative (episode_exposure rows cid sid)"
    "safe_non_negative cap"
  using assms
  by (auto simp: get_position_def check_simps Let_def safe_number_def safe_non_negative_def min_def
      assert_safe_integer_def)

lemma denial_none:
  assumes "denial_reason pos cost = None"
  shows "\<not> pos_campaignDisabled pos" "cost \<le> pos_remainingEpisode pos"
    "cost \<le> pos_remainingHardCeiling pos" "cost \<le> pos_remainingAutomaticStop pos"
  using assms by (auto simp: denial_reason_def split: if_splits)

lemma remaining_of_covers: "0 < cost \<Longrightarrow> cost \<le> remaining_of limit exposure \<Longrightarrow> exposure + cost \<le> limit"
  by (simp add: remaining_of_def split: if_splits)

lemma reservation_row_kind [simp]:
  "lr_rowType (reservation_row i cost) = Row_reservation" "is_reservation_row (reservation_row i cost)"
  "\<not> is_campaign_row (reservation_row i cost)" "\<not> is_terminal_row (reservation_row i cost)"
  "lr_campaignId (reservation_row i cost) = rq_campaignId i" "lr_amount (reservation_row i cost) = cost"
  "lr_sessionId (reservation_row i cost) = Some (rq_sessionId i)"
  by (simp_all add: reservation_row_def Let_def is_reservation_row_def is_campaign_row_def is_terminal_row_def)

lemma campaign_bounded_same:
  assumes "lr_campaignId r \<noteq> lr_id c \<or> is_campaign_row r"
  shows "campaign_bounded (rows @ [r]) c = campaign_bounded rows c"
  using assms total_share_other [OF assms]
  by (auto simp: campaign_bounded_def overrun_free_def campaign_entries_snoc)

lemma campaign_bounded_reservation:
  assumes ok: "ledger_ok rows" and ins: "insert_row sessions rows (reservation_row i cost) = Inr rows'"
    and cost: "0 < cost" "denial_reason pos cost = None"
    and pos: "get_position rows (rq_campaignId i) sid cap = Inr pos"
    and c: "c \<in> set rows" "is_campaign_row c" "campaign_bounded rows c"
  shows "campaign_bounded (rows @ [reservation_row i cost]) c"
proof (cases "lr_id c = rq_campaignId i")
  case False
  with c(3) show ?thesis by (simp add: campaign_bounded_same)
next
  case True
  obtain cam where cam: "require_campaign rows (rq_campaignId i) = Inr cam"
    "pos_remainingAutomaticStop pos = remaining_of (cam_automaticStop cam) (campaign_exposure rows cam)"
    by (rule get_positionE [OF pos])
  obtain crow where crow: "crow \<in> set rows" "lr_id crow = rq_campaignId i" "cam_id cam = rq_campaignId i"
    "cam_openingExposure cam = coalesce (lr_openingExposure crow) 0"
    "cam_automaticStop cam = coalesce (lr_automaticStop crow) 0"
    by (rule require_campaign_row [OF cam(1)])
  have "crow = c" using id_unique [OF ok crow(1) c(1)] crow(2) True by simp
  with crow c(3) obtain open0 stop where lim: "lr_openingExposure c = Some open0" "lr_automaticStop c = Some stop"
    "cam_openingExposure cam = open0" "cam_automaticStop cam = stop"
    by (auto simp: campaign_bounded_def coalesce_def)
  have "campaign_exposure rows cam + cost \<le> stop"
    using remaining_of_covers [OF cost(1), of stop] denial_none(4) [OF cost(2)] cam(2) lim(4) by simp
  then have "open0 + total_share rows (lr_id c) + cost \<le> stop"
    using True lim crow(3) by (simp add: campaign_exposure_total)
  moreover have "total_share (rows @ [reservation_row i cost]) (lr_id c) = total_share rows (lr_id c) + cost"
    using total_share_reservation [OF ok ins] True by simp
  ultimately show ?thesis using c(3) lim by (auto simp: campaign_bounded_def)
qed

lemma entry_has_campaign:
  assumes ok: "ledger_ok rows" and x: "x \<in> set rows" "lr_campaignId x = cid" "\<not> is_campaign_row x"
  obtains c where "c \<in> set rows" "lr_id c = cid"
proof -
  have p: "parent_ok rows x" using ok x(1) by (simp add: ledger_ok_def list_all_iff)
  from row_kinds(1) [of x] x(3) consider "is_reservation_row x" | "is_terminal_row x" by blast
  then have "\<exists>c\<in>set rows. lr_id c = cid"
  proof cases
    case 1
    then show ?thesis using p x(2) by (auto simp: parent_ok_def reservation_parent_guard_def list_ex_iff)
  next
    case 2
    then show ?thesis using p x(2)
      by (auto simp: parent_ok_def terminal_parent_guard_def joins_parents_def list_ex_iff)
  qed
  with that show thesis by blast
qed

lemma campaign_bounded_fresh:
  assumes ok: "ledger_ok rows" and ins: "insert_row sessions rows r = Inr rows'" and r: "is_campaign_row r"
  shows "campaign_bounded (rows @ [r]) r"
proof -
  note f = inserted_facts [OF ins]
  obtain open0 stop ceiling where lim: "lr_openingExposure r = Some open0" "lr_automaticStop r = Some stop"
    "lr_hardCeiling r = Some ceiling" "open0 \<le> stop" "stop \<le> ceiling" "lr_id r = lr_campaignId r"
    by (rule campaign_row_limits [OF f(3) r])
  have "campaign_entries rows (lr_id r) = []"
  proof (rule ccontr)
    assume "campaign_entries rows (lr_id r) \<noteq> []"
    then obtain x where "x \<in> set (campaign_entries rows (lr_id r))" by (cases "campaign_entries rows (lr_id r)") auto
    then have x: "x \<in> set rows" "lr_campaignId x = lr_id r" "\<not> is_campaign_row x"
      by (auto simp: campaign_entries_mem)
    obtain c where "c \<in> set rows" "lr_id c = lr_id r" by (rule entry_has_campaign [OF ok x])
    with f(2) show False by auto
  qed
  with lim r show ?thesis
    by (simp add: campaign_bounded_def total_share_def campaign_entries_snoc)
qed

section \<open>Every operation keeps the invariant\<close>

lemma ledger_inv_insert:
  assumes inv: "ledger_ok rows" "one_per_episode rows"
    "\<forall>c\<in>set rows. is_campaign_row c \<longrightarrow> campaign_bounded rows c"
    and ins: "insert_row sessions rows r = Inr rows'"
    and old: "\<And>c. c \<in> set rows \<Longrightarrow> is_campaign_row c \<Longrightarrow> campaign_bounded rows c \<Longrightarrow>
        campaign_bounded (rows @ [r]) c"
    and episode: "is_reservation_row r \<Longrightarrow>
        \<not> list_ex (\<lambda>x. is_reservation_row x \<and> lr_sessionId x = lr_sessionId r) rows"
    and db: "db_ledger db' = rows'"
  shows "ledger_inv db'"
proof -
  note f = inserted_facts [OF ins]
  have "ledger_ok rows'" by (rule insert_row_keeps_ledger_ok [OF ins inv(1)])
  moreover have "one_per_episode rows'"
    using inv(2) episode by (auto simp: one_per_episode_def f(1) list_ex_iff)
  moreover have "campaign_bounded rows' c" if "c \<in> set rows'" "is_campaign_row c" for c
    using that old inv(3) campaign_bounded_fresh [OF inv(1) ins] by (auto simp: f(1))
  ultimately show ?thesis by (simp add: ledger_inv_def db)
qed

theorem apply_ledger_op_keeps_inv:
  assumes inv: "ledger_inv db" and op: "apply_ledger_op db op = Inr db'"
  shows "ledger_inv db'"
proof -
  have i: "ledger_ok (db_ledger db)" "one_per_episode (db_ledger db)"
    "\<forall>c\<in>set (db_ledger db). is_campaign_row c \<longrightarrow> campaign_bounded (db_ledger db) c"
    using inv by (simp_all add: ledger_inv_def)
  from op show ?thesis
  proof (cases rule: apply_ledger_op_cases)
    case same
    with inv show ?thesis by (simp add: ledger_inv_def)
  next
    case (campaign i0 sessions)
    have r: "is_campaign_row (campaign_row i0)" "\<not> is_reservation_row (campaign_row i0)"
      by (simp_all add: campaign_row_def is_campaign_row_def is_reservation_row_def)
    show ?thesis
      by (rule ledger_inv_insert [OF i campaign]) (use r in \<open>auto simp: campaign_bounded_same\<close>)
  next
    case (reservation i0 cost c pos sessions)
    have "\<not> list_ex (\<lambda>x. is_reservation_row x \<and> lr_sessionId x = Some (rq_sessionId i0)) (db_ledger db)"
      using reservation(5) by (simp add: reserve_row_checks_def check_simps)
    then show ?thesis
      using campaign_bounded_reservation [OF i(1) reservation(2,3,7,6)]
      by (intro ledger_inv_insert [OF i reservation(2)]) auto
  next
    case (terminal r sessions)
    show ?thesis
      by (rule ledger_inv_insert [OF i terminal(1)])
        (use campaign_bounded_terminal [OF i(1) terminal] terminal(2) row_kinds(4) [of r] in auto)
  qed
qed

lemma ledger_run_keeps_inv: "ledger_inv db \<Longrightarrow> ledger_run db ops = Inr db' \<Longrightarrow> ledger_inv db'"
  by (rule ledger_history.run_invariant [where P = ledger_inv]) (auto intro: apply_ledger_op_keeps_inv)

lemma ledger_inv_empty: "db_ledger db = [] \<Longrightarrow> ledger_inv db"
  by (simp add: ledger_inv_def ledger_ok_def one_per_episode_def indexes_ok_def)

end
