(* ===== verification/LedgerReconciliation.thy ===== *)
theory LedgerReconciliation
  imports LedgerOperations
begin

text \<open>
  \<open>assertEventReconciled\<close> of \<open>main/budget-ledger.ts\<close>: the gate that compares every reservation and
  every resolution of the ledger with the replayed session it was made for, before new paid work
  is admitted. The first failure wins, so the checks are in the source's order; the subject of a
  failure is the id the source puts into its message.
\<close>

section \<open>Helper functions\<close>

definition v2_episode_cap :: "session_state \<Rightarrow> ledger_error + int" where
  "v2_episode_cap s =
     (case st_executionPolicy s of
        Some (Policy_v2 p) \<Rightarrow>
          guarded (assert_safe_integer (p2_maxPaidEpisodeMicrousd p)) (Inr (p2_maxPaidEpisodeMicrousd p))
      | _ \<Rightarrow> Inl Not_v2_session)"

definition reconciliation_failure_if ::
  "bool \<Rightarrow> reconciliation_failure \<Rightarrow> string \<Rightarrow> ledger_error option" where
  "reconciliation_failure_if b f subject = throw_if b (Reconciliation f subject)"

definition persisted_event_cost_scope :: "runtime_cost_scope option \<Rightarrow> cost_scope" where
  "persisted_event_cost_scope s =
     (case s of None \<Rightarrow> Scope_legacy_unclassified | Some r \<Rightarrow> runtime_scope r)"

definition reservation_projection :: "budget_reservation \<Rightarrow> budget_projection" where
  "reservation_projection r =
     \<lparr>bp_billableInputTokens = res_billableInputTokens r,
      bp_billableCacheReadTokens = res_cacheReadTokens r,
      bp_requestedMaxOutputTokens = res_requestedMaxOutputTokens r,
      bp_inputRate = res_inputRate r, bp_outputRate = res_outputRate r,
      bp_cacheReadRate = Some (res_cacheReadRate r), bp_providerFeeCeiling = res_providerFeeCeiling r\<rparr>"

definition assert_reservation_projection :: "budget_reservation \<Rightarrow> ledger_error option" where
  "assert_reservation_projection r =
     (let cost = project_worst_case_cost (reservation_projection r)
      in checks
        [reconciliation_failure_if (res_amount r \<le> 0) Rf_amount_not_positive (res_id r),
         reconciliation_failure_if (\<not> is_ok cost) Rf_invalid_projection (res_id r),
         reconciliation_failure_if (cost \<noteq> Inr (res_amount r)) Rf_amount_not_projection (res_id r)])"

definition billing_matches_reservation :: "billing \<Rightarrow> budget_reservation \<Rightarrow> bool" where
  "billing_matches_reservation b r \<longleftrightarrow>
     bl_billableInputTokens b = res_billableInputTokens r \<and>
     bl_billableCacheReadTokens b = res_cacheReadTokens r \<and>
     bl_requestedMaxOutputTokens b = res_requestedMaxOutputTokens r \<and>
     bl_inputRate b = res_inputRate r \<and> bl_outputRate b = res_outputRate r \<and>
     coalesce (bl_cacheReadRate b) 0 = res_cacheReadRate r \<and>
     bl_providerFeeCeilingMicrousd b = res_providerFeeCeiling r \<and>
     bl_projectedCostMicrousd b = res_amount r"

definition expected_terminal_row_type :: "budget_reservation \<Rightarrow> attempt_finish \<Rightarrow> ledger_row_type" where
  "expected_terminal_row_type r f =
     (if fin_requestDisposition f = Not_sent then Row_release
      else if co_amountMicrousd (fin_cost f) > res_amount r then Row_overrun
      else Row_settlement)"

text \<open>The cost of reported usage at the reservation's rates; \<open>None\<close> where the source throws.\<close>

definition actual_host_priced_cost :: "budget_reservation \<Rightarrow> attempt_usage \<Rightarrow> int option" where
  "actual_host_priced_cost r u =
     (let cached = coalesce (au_cacheReadTokens u) 0;
          amount = ceil_component (au_inputTokens u - cached) (res_inputRate r) +
            ceil_component (au_outputTokens u + au_reasoningTokens u) (res_outputRate r) +
            ceil_component cached (res_cacheReadRate r) + res_providerFeeCeiling r
      in if \<not> au_reported u \<or> (res_cacheReadRate r > 0 \<and> au_cacheReadTokens u = None) \<or>
            cached > au_inputTokens u \<or> amount < 0 \<or> amount > max_safe_integer
         then None else Some amount)"

definition js_lower_char :: "char \<Rightarrow> char" where
  "js_lower_char c = (let n = of_char c :: nat in
     if (65 \<le> n \<and> n \<le> 90) \<or> (192 \<le> n \<and> n \<le> 222 \<and> n \<noteq> 215) then char_of (n + 32) else c)"

fun js_includes :: "string \<Rightarrow> string \<Rightarrow> bool" where
  "js_includes p [] = (p = [])"
| "js_includes p (c # cs) = (take (length p) (c # cs) = p \<or> js_includes p cs)"

definition mentions_budget_overrun :: "string \<Rightarrow> bool" where
  "mentions_budget_overrun e = js_includes ''budget overrun'' (map js_lower_char e)"

section \<open>The rows\<close>

fun scan_reservations :: "budget_reservation list \<Rightarrow> string list \<Rightarrow> ledger_error option" where
  "scan_reservations [] seen = None"
| "scan_reservations (r # rs) seen = checks
     [reconciliation_failure_if (list_ex (\<lambda>i. i = res_id r) seen) Rf_duplicate_reservation (res_id r),
      assert_reservation_projection r, scan_reservations rs (res_id r # seen)]"

definition reservation_by_id :: "budget_reservation list \<Rightarrow> string \<Rightarrow> budget_reservation option" where
  "reservation_by_id rs i = find (\<lambda>r. res_id r = i) rs"

definition terminal_by_reservation :: "budget_terminal list \<Rightarrow> string \<Rightarrow> budget_terminal option" where
  "terminal_by_reservation ts i = find (\<lambda>t. te_reservationId t = i) ts"

fun scan_terminals ::
  "budget_reservation list \<Rightarrow> budget_terminal list \<Rightarrow> string list \<Rightarrow> ledger_error option" where
  "scan_terminals rs [] seen = None"
| "scan_terminals rs (t # ts) seen = checks
     [reconciliation_failure_if (reservation_by_id rs (te_reservationId t) = None) Rf_terminal_orphan (te_id t),
      reconciliation_failure_if
        (\<not> holds (reservation_by_id rs (te_reservationId t)) (\<lambda>r. te_costScope t = res_costScope r))
        Rf_terminal_scope (te_id t),
      reconciliation_failure_if (list_ex (\<lambda>i. i = te_reservationId t) seen) Rf_multiple_terminals
        (te_reservationId t),
      scan_terminals rs ts (te_reservationId t # seen)]"

text \<open>The reverse scan: the sessions with a paid attempt, read from the raw events.\<close>

definition paid_attempt_id :: "stored_event \<Rightarrow> string option" where
  "paid_attempt_id e =
     (case ev_data e of InferenceAttemptStarted a \<Rightarrow> at_budgetReservationId a | _ \<Rightarrow> None)"

definition scan_attempt_events :: "stored_event list \<Rightarrow> ledger_error option" where
  "scan_attempt_events es = checks (map (\<lambda>e.
     reconciliation_failure_if (paid_attempt_id e = Some []) Rf_invalid_reservation_id (ev_sessionId e))
     (sort_key ev_sessionId (sort_key ev_sequence es)))"

definition reconciled_session_ids :: "budget_reservation list \<Rightarrow> stored_event list \<Rightarrow> string list" where
  "reconciled_session_ids rs es =
     sort (remdups (map res_sessionId rs @
       map ev_sessionId (filter (\<lambda>e. paid_attempt_id e \<noteq> None) es)))"

section \<open>One attempt\<close>

definition start_matches :: "session_state \<Rightarrow> attempt_start recorded_entry \<Rightarrow> budget_reservation \<Rightarrow> bool" where
  "start_matches s a r \<longleftrightarrow> (let p = rec_payload a in
     res_sessionId r = st_id s \<and> res_attemptId r = at_attemptId p \<and>
     res_providerId r = at_providerId p \<and>
     res_requestedMaxOutputTokens r = at_requestedMaxOutputTokens p \<and>
     res_createdAt r = rec_createdAt a \<and>
     res_costScope r = persisted_event_cost_scope (at_costScope p) \<and>
     res_cloudEgressAdmissionId r = at_cloudEgressAdmissionId p)"

definition decision_matches :: "routing_decision \<Rightarrow> budget_reservation \<Rightarrow> bool" where
  "decision_matches d r \<longleftrightarrow>
     rd_reasonCode d = Rr_cloud_admitted \<and> rd_selectedProviderId d = res_providerId r \<and>
     rd_budgetReservationId d = Some (res_id r) \<and> rd_campaignId d = Some (res_campaignId r) \<and>
     rd_pricingSnapshotId d = Some (res_pricingSnapshotId r) \<and>
     persisted_event_cost_scope (rd_costScope d) = res_costScope r \<and>
     rd_cloudEgressAdmissionId d = res_cloudEgressAdmissionId r \<and>
     holds (rd_billing d) (\<lambda>b. billing_matches_reservation b r)"

definition campaign_matches :: "budget_campaign \<Rightarrow> routing_decision \<Rightarrow> budget_reservation \<Rightarrow> bool" where
  "campaign_matches c d r \<longleftrightarrow>
     cam_providerId c = res_providerId r \<and>
     rd_credentialMetadataId d = Some (cam_credentialMetadataId c) \<and>
     cam_costScope c = res_costScope r"

definition remaining_possible :: "budget_campaign \<Rightarrow> routing_decision \<Rightarrow> int \<Rightarrow> bool" where
  "remaining_possible c d cap \<longleftrightarrow> holds (rd_billing d) (\<lambda>b.
     bl_remainingEpisodeMicrousd b = cap \<and>
     bl_remainingCampaignMicrousd b \<le> min (cam_automaticStop c) (cam_hardCeiling c) - cam_openingExposure c)"

definition egress_matches :: "session_state \<Rightarrow> routing_decision \<Rightarrow> budget_reservation \<Rightarrow> bool" where
  "egress_matches s d r \<longleftrightarrow>
     holds (res_cloudEgressAdmissionId r) (\<lambda>i.
     holds (find (\<lambda>x. ea_admissionId (rec_payload x) = i) (st_cloudEgressAdmissions s)) (\<lambda>x.
       let a = rec_payload x in
         ea_decision a = Egress_pass \<and> rd_cloudEgressAdmissionId d = Some i \<and>
         rd_messagesSha256 d = Some (ea_messagesSemanticSha256 a) \<and>
         rd_provenanceSemanticSha256 d = Some (ea_provenanceSemanticSha256 a) \<and>
         rd_checkpointId d = Some (ea_checkpointId a)))"

definition finish_matches :: "attempt_finish recorded_entry \<Rightarrow> budget_terminal \<Rightarrow> budget_reservation \<Rightarrow> bool" where
  "finish_matches f t r \<longleftrightarrow> (let p = rec_payload f; cost = fin_cost p in
     te_rowType t = expected_terminal_row_type r p \<and> te_campaignId t = res_campaignId r \<and>
     te_amount t = co_amountMicrousd cost \<and>
     te_requestDisposition t = Some (fin_requestDisposition p) \<and> te_createdAt t = rec_createdAt f \<and>
     co_reservationId cost = Some (res_id r) \<and>
     persisted_event_cost_scope (co_costScope cost) = res_costScope r \<and> te_costScope t = res_costScope r)"

definition settled_checks ::
  "session_state \<Rightarrow> attempt_finish \<Rightarrow> budget_terminal \<Rightarrow> budget_reservation \<Rightarrow> ledger_error option" where
  "settled_checks s p t r =
     (let expected = expected_terminal_row_type r p;
          priced = actual_host_priced_cost r (fin_usage p)
      in checks
        [reconciliation_failure_if
           (te_costProvenance t \<noteq> Some (co_provenance (fin_cost p)) \<or>
            te_reasonCode t \<noteq> (if expected = Row_overrun then Some ''budget_overrun'' else None))
           Rf_settlement_mismatch (res_id r),
         check_when (co_provenance (fin_cost p) = Host_pricing_snapshot)
           (checks [reconciliation_failure_if (priced = None) Rf_invalid_usage (res_id r),
              reconciliation_failure_if (priced \<noteq> Some (co_amountMicrousd (fin_cost p))) Rf_host_amount
                (res_id r)]),
         reconciliation_failure_if
           (expected = Row_overrun \<and>
            (st_status s \<noteq> Failed \<or> \<not> holds (st_error s) mentions_budget_overrun))
           Rf_overrun_not_failed (res_id r)])"

definition resolution_checks ::
  "session_state \<Rightarrow> attempt_record \<Rightarrow> budget_terminal option \<Rightarrow> budget_reservation \<Rightarrow> ledger_error option" where
  "resolution_checks s a terminal r =
     (case (ar_finished a, terminal) of
        (None, None) \<Rightarrow>
          reconciliation_failure_if (st_status s \<noteq> Running) Rf_outstanding_not_running (res_id r)
      | (None, Some t) \<Rightarrow> Some (Reconciliation Rf_terminal_while_open (res_id r))
      | (Some f, None) \<Rightarrow> Some (Reconciliation Rf_finish_without_terminal (res_id r))
      | (Some f, Some t) \<Rightarrow> checks
          [reconciliation_failure_if (\<not> finish_matches f t r) Rf_finish_mismatch (res_id r),
           if expected_terminal_row_type r (rec_payload f) = Row_release
           then reconciliation_failure_if
             (co_provenance (fin_cost (rec_payload f)) \<noteq> Host_pricing_snapshot \<or>
              te_costProvenance t \<noteq> None \<or> te_reasonCode t \<noteq> fin_errorCode (rec_payload f))
             Rf_release_mismatch (res_id r)
           else settled_checks s (rec_payload f) t r])"

definition decision_checks ::
  "ledger_row list \<Rightarrow> session_state \<Rightarrow> routing_decision \<Rightarrow> budget_reservation \<Rightarrow> ledger_error option" where
  "decision_checks rows s d r =
     (case require_campaign rows (res_campaignId r) of
        Inl e \<Rightarrow> Some e
      | Inr c \<Rightarrow> checks
          [reconciliation_failure_if (\<not> campaign_matches c d r) Rf_campaign_mismatch (res_id r),
           (case v2_episode_cap s of
              Inl e \<Rightarrow> Some e
            | Inr cap \<Rightarrow>
                reconciliation_failure_if (\<not> remaining_possible c d cap) Rf_impossible_remaining (res_id r)),
           check_when (res_costScope r = Scope_simulation)
             (reconciliation_failure_if (\<not> egress_matches s d r) Rf_egress_mismatch (res_id r))])"

definition attempt_decision :: "session_state \<Rightarrow> attempt_record \<Rightarrow> routing_decision option" where
  "attempt_decision s a =
     map_option rec_payload (find (\<lambda>d. rd_decisionId (rec_payload d) = at_decisionId (rec_payload (ar_start a)))
       (st_routingDecisions s))"

definition linked_attempt_checks ::
  "ledger_row list \<Rightarrow> budget_terminal list \<Rightarrow> session_state \<Rightarrow> attempt_record \<Rightarrow> budget_reservation
     \<Rightarrow> ledger_error option" where
  "linked_attempt_checks rows ts s a r = checks
     [reconciliation_failure_if (\<not> start_matches s (ar_start a) r) Rf_start_mismatch (res_id r),
      (case attempt_decision s a of
         None \<Rightarrow> Some (Reconciliation Rf_decision_mismatch (res_id r))
       | Some d \<Rightarrow> checks
           [reconciliation_failure_if (\<not> decision_matches d r) Rf_decision_mismatch (res_id r),
            decision_checks rows s d r]),
      resolution_checks s a (terminal_by_reservation ts (res_id r)) r]"

section \<open>The gate\<close>

fun reconcile_attempts ::
  "ledger_row list \<Rightarrow> budget_reservation list \<Rightarrow> budget_terminal list \<Rightarrow> session_state
     \<Rightarrow> attempt_record list \<Rightarrow> string list \<Rightarrow> ledger_error + string list" where
  "reconcile_attempts rows rs ts s [] linked = Inr linked"
| "reconcile_attempts rows rs ts s (a # as) linked =
     (case at_budgetReservationId (rec_payload (ar_start a)) of
        None \<Rightarrow> reconcile_attempts rows rs ts s as linked
      | Some i \<Rightarrow>
          (case reservation_by_id rs i of
             None \<Rightarrow> Inl (Reconciliation Rf_attempt_without_reservation i)
           | Some r \<Rightarrow>
               guarded (checks
                 [reconciliation_failure_if (list_ex (\<lambda>l. l = i) linked) Rf_multiple_attempts i,
                  linked_attempt_checks rows ts s a r])
               (reconcile_attempts rows rs ts s as (i # linked))))"

fun reconcile_sessions ::
  "store_env \<Rightarrow> database \<Rightarrow> budget_reservation list \<Rightarrow> budget_terminal list \<Rightarrow> string list
     \<Rightarrow> string list \<Rightarrow> ledger_error + string list" where
  "reconcile_sessions env db rs ts [] linked = Inr linked"
| "reconcile_sessions env db rs ts (sid # sids) linked =
     bind_result (map_error Ledger_store (store_replay env db sid)) (\<lambda>s.
     bind_result (reconcile_attempts (db_ledger db) rs ts s (st_inferenceAttempts s) linked)
       (reconcile_sessions env db rs ts sids))"

definition assert_event_reconciled :: "store_env \<Rightarrow> database \<Rightarrow> ledger_error + unit" where
  "assert_event_reconciled env db =
     bind_result (all_results to_reservation (by_creation (filter is_reservation_row (db_ledger db)))) (\<lambda>rs.
     bind_result (all_results to_terminal (by_creation (filter is_terminal_row (db_ledger db)))) (\<lambda>ts.
     guarded (checks [scan_reservations rs [], scan_terminals rs ts [], scan_attempt_events (db_events db)])
     (bind_result (reconcile_sessions env db rs ts (reconciled_session_ids rs (db_events db)) []) (\<lambda>linked.
        guarded (checks (map (\<lambda>r. reconciliation_failure_if (\<not> list_ex (\<lambda>l. l = res_id r) linked)
            Rf_reservation_without_attempt (res_id r)) rs))
          (Inr ())))))"

definition get_budget_position ::
  "store_env \<Rightarrow> database \<Rightarrow> string \<Rightarrow> string \<Rightarrow> ledger_error + budget_position" where
  "get_budget_position env db cid sid =
     bind_result (map_error Ledger_store (store_replay env db sid)) (\<lambda>s.
     bind_result (v2_episode_cap s) (\<lambda>cap. get_position (db_ledger db) cid sid cap))"

end
