(* ===== verification/EventStoreFacts.thy ===== *)
theory EventStoreFacts
  imports EventStore SessionInvariants
begin

text \<open>
  The event store keeps its promise: beside every session there is exactly the projection of the
  replay of its events. The invariant \<open>store_ok\<close> says it, and an append keeps it.
\<close>

definition session_ok :: "store_env \<Rightarrow> database \<Rightarrow> session_row \<Rightarrow> bool" where
  "session_ok env db r \<longleftrightarrow>
     replay_session (se_replay env) (session_events db (sw_id r)) = Inr (sw_state r) \<and>
     r = projection_parameters (sw_state r) (st_lastSequence (sw_state r))"

definition event_row_fixed :: "store_env \<Rightarrow> database \<Rightarrow> stored_event \<Rightarrow> bool" where
  "event_row_fixed env db e \<longleftrightarrow>
     parse_stored_session_event (se_reviews env) e = Some e \<and> find_session db (ev_sessionId e) \<noteq> None"

definition store_ok :: "store_env \<Rightarrow> database \<Rightarrow> bool" where
  "store_ok env db \<longleftrightarrow>
     distinct (map sw_id (db_sessions db)) \<and> list_all (session_ok env db) (db_sessions db) \<and>
     list_all (event_row_fixed env db) (db_events db)"

section \<open>Small facts\<close>

lemma projection_parameters_simps [simp]:
  "sw_id (projection_parameters s n) = st_id s"
  "sw_lastSequence (projection_parameters s n) = n"
  "sw_state (projection_parameters s n) = s"
  "sw_status (projection_parameters s n) = st_status s"
  "sw_createdAt (projection_parameters s n) = st_createdAt s"
  by (simp_all add: projection_parameters_def Let_def)

lemma session_events_append [simp]:
  "session_events (db\<lparr>db_events := db_events db @ cs\<rparr>) sid =
     session_events db sid @ filter (\<lambda>e. ev_sessionId e = sid) cs"
  by (simp add: session_events_def)

lemma session_events_frame [simp]:
  "session_events (db\<lparr>db_sessions := rs\<rparr>) sid = session_events db sid"
  "session_events (db\<lparr>db_ledger := ls\<rparr>) sid = session_events db sid"
  by (simp_all add: session_events_def)

lemma find_session_SomeD: "find_session db sid = Some r \<Longrightarrow> r \<in> set (db_sessions db) \<and> sw_id r = sid"
  unfolding find_session_def by (drule find_SomeD) simp

lemma find_session_None: "find_session db sid = None \<longleftrightarrow> sid \<notin> set (map sw_id (db_sessions db))"
  by (auto simp: find_session_def find_None_iff)

lemma find_session_unique:
  "distinct (map sw_id (db_sessions db)) \<Longrightarrow> r \<in> set (db_sessions db) \<Longrightarrow> find_session db (sw_id r) = Some r"
  by (metis find_session_None find_session_SomeD distinct_map image_eqI inj_onD list.set_map
      option.exhaust)

lemma parse_rows_fixed:
  "list_all (\<lambda>e. parse_stored_session_event (se_reviews env) e = Some e) es \<Longrightarrow> parse_rows env es = Inr es"
  by (auto simp: parse_rows_def list_all_iff list_ex_iff intro: map_idI)

lemma parsed_session_id:
  "parse_stored_session_event rs e = Some c \<Longrightarrow> ev_sessionId c = js_trim (ev_sessionId e)"
  "parse_stored_session_event rs e = Some c \<Longrightarrow> event_type c = event_type e"
  "parse_stored_session_event rs e = Some c \<Longrightarrow> ev_sequence c = ev_sequence e"
  "parse_stored_session_event rs e = Some c \<Longrightarrow> ev_createdAt c = ev_createdAt e"
  by (auto simp: parse_stored_session_event_def Let_def parse_session_event_data_Some event_type_def
      split: if_splits)

lemma step_createdAt: "reduce_next env s e = Inr s' \<Longrightarrow> st_createdAt s' = st_createdAt s"
proof -
  assume "reduce_next env s e = Inr s'"
  then obtain t where t: "handle_event env (next_state s e) e (ev_data e) = Inr t" "s' = mark_v2 e t"
    using reduce_next_ok by blast
  have "st_createdAt t = st_createdAt (next_state s e)"
    using t(1) by (cases "ev_data e") (auto dest!: handler_ok simp: update_message_def split: option.splits)
  with t(2) show ?thesis by (simp add: mark_v2_def next_state_def)
qed

lemma replay_session_append1:
  assumes "replay_session env es = Inr s" "reduce_session_event env (Some s) c = Inr s'"
  shows "replay_session env (es @ [c]) = Inr s'"
proof (cases es)
  case Nil
  with assms show ?thesis by simp
next
  case (Cons e es')
  then obtain m where "reduce_first e = Inr m" "replay_from env m es' = Inr s"
    using assms(1) by (auto simp: bind_result_Inr)
  with assms(2) Cons show ?thesis by (simp add: session_replay.run_snoc)
qed

lemma replay_from_createdAt: "replay_from env s es = Inr s' \<Longrightarrow> st_createdAt s' = st_createdAt s"
  by (rule session_replay.run_invariant [where P = "\<lambda>t. st_createdAt t = st_createdAt s"])
    (auto dest: step_createdAt)

lemma replay_createdAt: "replay_session env es = Inr s \<Longrightarrow> st_createdAt s = ev_createdAt (hd es)"
  by (elim replay_session_split)
    (auto dest: replay_from_createdAt simp: create_initial_session_state_def)

section \<open>Reading a consistent store\<close>

lemma replayed_sorted:
  assumes "replay_session env es = Inr s"
  shows "sorted (map ev_sequence es)" "list_all (\<lambda>e. ev_sequence e > 0) es"
proof -
  have n: "map ev_sequence es = map int [1..<Suc (length es)]"
    using stream_numbering [OF assms] by blast
  have "sorted (map int [1..<Suc (length es)])"
    by (auto simp: sorted_iff_nth_mono nth_append simp del: upt_Suc)
  with n show "sorted (map ev_sequence es)" by simp
  have "set (map ev_sequence es) \<subseteq> {0<..}" unfolding n by auto
  then show "list_all (\<lambda>e. ev_sequence e > 0) es" by (auto simp: list_all_iff)
qed

lemma get_events_ok:
  assumes "store_ok env db" "find_session db sid = Some r"
  shows "get_events env db sid 0 = Inr (session_events db sid)"
    and "session_events db sid \<noteq> []"
    and "replay_session (se_replay env) (session_events db sid) = Inr (sw_state r)"
proof -
  have r: "session_ok env db r" "sw_id r = sid"
    using assms find_session_SomeD by (auto simp: store_ok_def list_all_iff)
  then show rep: "replay_session (se_replay env) (session_events db sid) = Inr (sw_state r)"
    by (simp add: session_ok_def)
  then show "session_events db sid \<noteq> []" by auto
  note s = replayed_sorted [OF rep]
  have "filter (\<lambda>e. ev_sequence e > 0) (session_events db sid) = session_events db sid"
    using s(2) by (simp add: list_all_iff filter_id_conv)
  moreover have "sort_key ev_sequence (session_events db sid) = session_events db sid"
    using s(1) by (simp add: sorted_sort_id sort_key_id_if_sorted)
  moreover have "list_all (\<lambda>e. parse_stored_session_event (se_reviews env) e = Some e) (session_events db sid)"
    using assms(1) by (auto simp: store_ok_def session_events_def list_all_iff event_row_fixed_def)
  ultimately show "get_events env db sid 0 = Inr (session_events db sid)"
    by (simp add: get_events_def parse_rows_fixed)
qed

lemma store_replay_ok:
  assumes "store_ok env db" "find_session db sid = Some r"
  shows "store_replay env db sid = Inr (sw_state r)"
  using get_events_ok [OF assms] by (simp add: store_replay_def replay_events_def)

lemma load_session_ok:
  assumes "store_ok env db"
  shows "load_session env db sid = Inr (map_option sw_state (find_session db sid))"
  using get_events_ok [OF assms]
  by (cases "find_session db sid") (auto simp: load_session_def replay_events_def)

lemma store_row_facts:
  assumes "store_ok env db" "find_session db sid = Some r"
  shows "st_id (sw_state r) = sid" "sw_lastSequence r = st_lastSequence (sw_state r)"
    "sw_createdAt r = st_createdAt (sw_state r)" "sw_status r = st_status (sw_state r)"
    "js_trim sid = sid"
proof -
  have r: "r = projection_parameters (sw_state r) (st_lastSequence (sw_state r))" "sw_id r = sid"
    using assms find_session_SomeD by (auto simp: store_ok_def session_ok_def list_all_iff)
  obtain s where s: "r = projection_parameters s (st_lastSequence s)" using r(1) by (rule that)
  have f: "sw_id r = st_id (sw_state r)" "sw_lastSequence r = st_lastSequence (sw_state r)"
    "sw_createdAt r = st_createdAt (sw_state r)" "sw_status r = st_status (sw_state r)"
    by (simp_all add: s)
  show "st_id (sw_state r) = sid" using f(1) r(2) by simp
  show "sw_lastSequence r = st_lastSequence (sw_state r)" "sw_createdAt r = st_createdAt (sw_state r)"
    "sw_status r = st_status (sw_state r)" by (rule f)+
  obtain e where e: "e \<in> set (db_events db)" "ev_sessionId e = sid"
    using get_events_ok(2) [OF assms] by (auto simp: session_events_def filter_empty_conv)
  then have "parse_stored_session_event (se_reviews env) e = Some e"
    using assms(1) by (auto simp: store_ok_def event_row_fixed_def list_all_iff)
  from parsed_session_id(1) [OF this] e(2) show "js_trim sid = sid" by simp
qed

lemma store_row_times:
  assumes "store_ok env db" "find_session db sid = Some r"
  shows "sw_createdAt r = st_createdAt (sw_state r)" "sw_updatedAt r = st_updatedAt (sw_state r)"
proof -
  have "r = projection_parameters (sw_state r) (st_lastSequence (sw_state r))"
    using assms find_session_SomeD by (auto simp: store_ok_def session_ok_def list_all_iff)
  then obtain s where "r = projection_parameters s (st_lastSequence s)" by (rule that)
  then show "sw_createdAt r = st_createdAt (sw_state r)" "sw_updatedAt r = st_updatedAt (sw_state r)"
    by (simp_all add: projection_parameters_def Let_def)
qed

section \<open>Appending to a consistent store\<close>

text \<open>What the loop of \<open>appendInternal\<close> keeps: the state is the replay of what is stored.\<close>

definition loop_ok :: "store_env \<Rightarrow> string \<Rightarrow> database \<Rightarrow> session_state option \<Rightarrow> bool" where
  "loop_ok env k db state \<longleftrightarrow>
     (case state of
        None \<Rightarrow> session_events db k = []
      | Some s \<Rightarrow> st_id s = k \<and> replay_session (se_replay env) (session_events db k) = Inr s)"

definition same_creation :: "session_state option \<Rightarrow> session_state \<Rightarrow> bool" where
  "same_creation state s \<longleftrightarrow> (\<forall>s0. state = Some s0 \<longrightarrow> st_createdAt s = st_createdAt s0)"

lemma reduce_keeps_loop:
  assumes "reduce_session_event (se_replay env) state c = Inr s" "loop_ok env k db state"
    and "ev_sessionId c = k"
  shows "st_id s = k" "replay_session (se_replay env) (session_events db k @ [c]) = Inr s"
    "same_creation state s" "st_lastSequence s = ev_sequence c"
proof -
  show "st_id s = k"
  proof (cases state)
    case None
    with assms show ?thesis by (auto dest!: reduce_first_ok simp: create_initial_session_state_def)
  next
    case (Some s0)
    with assms show ?thesis using step_frame(1,10) by (auto simp: loop_ok_def)
  qed
  show "replay_session (se_replay env) (session_events db k @ [c]) = Inr s"
  proof (cases state)
    case None
    with assms show ?thesis by (simp add: loop_ok_def)
  next
    case (Some s0)
    then have "replay_session (se_replay env) (session_events db k) = Inr s0"
      using assms(2) by (simp add: loop_ok_def)
    with assms(1) Some show ?thesis by (simp add: replay_session_append1)
  qed
  show "same_creation state s"
    using assms(1) step_createdAt by (cases state) (auto simp: same_creation_def)
  show "st_lastSequence s = ev_sequence c"
    using assms(1) step_frame(8,9)
    by (cases state) (auto dest!: reduce_first_ok simp: create_initial_session_state_def)
qed

lemma append_oneE:
  assumes "append_one env sid n p (db, state, has_row) = Inr (c, db', state', has_row')"
    and "loop_ok env (js_trim sid) db state"
  obtains s db1 where
    "state' = Some s" "loop_ok env (js_trim sid) db' state'" "same_creation state s"
    "parse_stored_session_event (se_reviews env) c = Some c" "ev_sessionId c = js_trim sid"
    "db_events db' = db_events db @ [c]" "db_ledger db' = db_ledger db"
    "has_row \<Longrightarrow> db_sessions db' = db_sessions db"
    "\<not> has_row \<Longrightarrow> find_session db (js_trim sid) = None \<and>
       db_sessions db' = db_sessions db @ [projection_parameters s 0]"
    "find_session db' (js_trim sid) \<noteq> None" "ev_sequence c = n" "st_lastSequence s = n"
proof -
  obtain c1 s db1 db2 where
    c: "parse_stored_session_event (se_reviews env) (candidate_event sid n p) = Some c"
    and s: "reduce_session_event (se_replay env) state c = Inr s"
    and db1: "(if has_row then Inr db else insert_session_projection s 0 db) = Inr db1"
    and db2: "insert_event c db1 = Inr db'" and st: "state' = Some s"
    using assms(1) by (auto simp: append_one_def bind_result_Inr map_error_Inr split: option.splits)
  have id: "ev_sessionId c = js_trim sid" "ev_sequence c = n"
    using parsed_session_id(1,3) [OF c] by (simp_all add: candidate_event_def)
  note k = reduce_keeps_loop [OF s assms(2) id(1)]
  have d1: "db_events db1 = db_events db" "db_ledger db1 = db_ledger db"
    "has_row \<Longrightarrow> db_sessions db1 = db_sessions db"
    "\<not> has_row \<Longrightarrow> find_session db (js_trim sid) = None \<and>
       db_sessions db1 = db_sessions db @ [projection_parameters s 0]"
    using db1 k(1) by (auto simp: insert_session_projection_def Let_def check_simps split: if_splits)
  have d2: "db' = db1\<lparr>db_events := db_events db1 @ [c]\<rparr>" "find_session db1 (js_trim sid) \<noteq> None"
    using db2 id(1) by (auto simp: insert_event_def event_row_ok_def check_simps)
  have "session_events db1 (js_trim sid) = session_events db (js_trim sid)"
    by (simp add: session_events_def d1(1))
  then have ev: "session_events db' (js_trim sid) = session_events db (js_trim sid) @ [c]"
    using id(1) by (simp add: d2(1) session_events_def d1(1))
  have "loop_ok env (js_trim sid) db' state'"
    using k(1,2) by (simp add: loop_ok_def st ev)
  moreover have "find_session db' (js_trim sid) \<noteq> None"
    using d2 by (simp add: find_session_def)
  ultimately show thesis
    using that [of s] st k(3,4) parse_parsed_event [OF c] id d1 d2(1) by simp
qed

definition session_rows_after ::
  "string \<Rightarrow> bool \<Rightarrow> database \<Rightarrow> stored_event list \<Rightarrow> database \<Rightarrow> session_state option \<Rightarrow> bool" where
  "session_rows_after k has_row db cs db' state' \<longleftrightarrow>
     (if has_row \<or> cs = [] then db_sessions db' = db_sessions db
      else find_session db k = None \<and> (\<exists>s0. st_id s0 = k \<and>
        db_sessions db' = db_sessions db @ [projection_parameters s0 0] \<and>
        (\<forall>s. state' = Some s \<longrightarrow> st_createdAt s = st_createdAt s0)))"

lemma append_events_result:
  assumes "append_events env sid n ps (db, state, has_row) = Inr (cs, db', state')"
    and "loop_ok env (js_trim sid) db state"
  shows "loop_ok env (js_trim sid) db' state' \<and> db_events db' = db_events db @ cs \<and>
    db_ledger db' = db_ledger db \<and> length cs = length ps \<and>
    list_all (\<lambda>c. parse_stored_session_event (se_reviews env) c = Some c \<and>
      ev_sessionId c = js_trim sid) cs \<and>
    session_rows_after (js_trim sid) has_row db cs db' state' \<and>
    (\<forall>s. state' = Some s \<longrightarrow> same_creation state s) \<and>
    (ps \<noteq> [] \<longrightarrow> (\<exists>s. state' = Some s \<and> st_lastSequence s = n + int (length ps)))"
  using assms
proof (induction ps arbitrary: n db state has_row cs)
  case Nil
  then show ?case by (auto simp: session_rows_after_def same_creation_def)
next
  case (Cons p ps)
  obtain c db1 state1 has1 cs1 where
    one: "append_one env sid (n + 1) p (db, state, has_row) = Inr (c, db1, state1, has1)"
    and rest: "append_events env sid (n + 1) ps (db1, state1, has1) = Inr (cs1, db', state')"
    and cs: "cs = c # cs1"
    using Cons.prems(1) by (auto simp: bind_result_Inr)
  obtain s where s: "state1 = Some s" "loop_ok env (js_trim sid) db1 state1" "same_creation state s"
    "parse_stored_session_event (se_reviews env) c = Some c" "ev_sessionId c = js_trim sid"
    "db_events db1 = db_events db @ [c]" "db_ledger db1 = db_ledger db"
    "has_row \<Longrightarrow> db_sessions db1 = db_sessions db"
    "\<not> has_row \<Longrightarrow> find_session db (js_trim sid) = None \<and>
       db_sessions db1 = db_sessions db @ [projection_parameters s 0]"
    "find_session db1 (js_trim sid) \<noteq> None" "st_lastSequence s = n + 1"
    using append_oneE [OF one Cons.prems(2)] by metis
  have has1: "has_row \<Longrightarrow> has1"
    using one by (auto simp: append_one_def bind_result_Inr split: option.splits)
  note ih = Cons.IH [OF rest s(2)]
  have create: "\<forall>t. state' = Some t \<longrightarrow> st_createdAt t = st_createdAt s"
    using ih s(1) by (auto simp: same_creation_def)
  have rows1: "db_sessions db' = db_sessions db1"
    using ih s(10) by (auto simp: session_rows_after_def split: if_splits)
  have "session_rows_after (js_trim sid) has_row db cs db' state'"
    using s(2,8,9) rows1 create has1 s(1) by (auto simp: session_rows_after_def cs loop_ok_def)
  moreover have "\<exists>t. state' = Some t \<and> st_lastSequence t = n + int (length (p # ps))"
  proof (cases ps)
    case Nil
    with rest s(1,11) show ?thesis by auto
  next
    case (Cons q qs)
    then show ?thesis using ih by auto
  qed
  moreover have "\<forall>t. state' = Some t \<longrightarrow> same_creation state t"
    using create s(3) by (simp add: same_creation_def)
  ultimately show ?case using ih s(4-7) by (auto simp: cs)
qed

lemma length_filter_eq_one: "distinct xs \<Longrightarrow> x \<in> set xs \<Longrightarrow> length (filter (\<lambda>y. y = x) xs) = 1"
  by (induction xs) (auto simp: filter_empty_conv)

lemma update_hits_one:
  assumes "distinct (map sw_id (db_sessions db))" "x0 \<in> set (db_sessions db)" "sw_id x0 = st_id s"
    and "sw_lastSequence x0 = previous" "sw_createdAt x0 = st_createdAt s"
    and "update_session_projection s previous db = Inr (db', n)"
  shows "n = 1 \<and> db' = db\<lparr>db_sessions :=
    map (\<lambda>x. if x = x0 then projection_parameters s (st_lastSequence s) else x) (db_sessions db)\<rparr>"
proof -
  let ?hit = "\<lambda>x. sw_id x = st_id s \<and> sw_lastSequence x = previous"
  have inj: "inj_on sw_id (set (db_sessions db))" using assms(1) by (simp add: distinct_map)
  have hit: "?hit x \<longleftrightarrow> x = x0" if "x \<in> set (db_sessions db)" for x
    using assms(2-4) that inj_onD [OF inj, of x x0] by auto
  have "filter ?hit (db_sessions db) = filter (\<lambda>x. x = x0) (db_sessions db)"
    by (rule filter_cong) (auto simp: hit)
  moreover have "length (filter (\<lambda>x. x = x0) (db_sessions db)) = 1"
    using assms(1,2) by (simp add: distinct_map length_filter_eq_one)
  moreover have "(projection_parameters s (st_lastSequence s))\<lparr>sw_createdAt := sw_createdAt x0\<rparr> =
      projection_parameters s (st_lastSequence s)"
    by (simp add: assms(5) projection_parameters_def Let_def)
  then have "map (\<lambda>x. if ?hit x then (projection_parameters s (st_lastSequence s))\<lparr>sw_createdAt := sw_createdAt x\<rparr> else x)
      (db_sessions db) =
    map (\<lambda>x. if x = x0 then projection_parameters s (st_lastSequence s) else x) (db_sessions db)"
    by (intro map_cong) (auto simp: hit)
  ultimately show ?thesis
    using assms(6) by (auto simp: update_session_projection_def Let_def check_simps)
qed

lemma store_ok_update:
  assumes ok: "store_ok env db" and rows: "db_sessions db' =
      map (\<lambda>x. if x = x0 then projection_parameters s (st_lastSequence s) else x) rs"
    and rs: "distinct (map sw_id rs)" "x0 \<in> set rs" "sw_id x0 = k" "set (db_sessions db) \<subseteq> set rs"
      "set rs \<subseteq> insert x0 (set (db_sessions db))"
    and ev: "db_events db' = db_events db @ cs"
      "list_all (\<lambda>c. parse_stored_session_event (se_reviews env) c = Some c \<and> ev_sessionId c = k) cs"
    and s: "st_id s = k" "replay_session (se_replay env) (session_events db' k) = Inr s"
  shows "store_ok env db'"
proof -
  have ids: "map sw_id (db_sessions db') = map sw_id rs"
    using rs(3) s(1) by (simp add: rows)
  have known: "find_session db' i \<noteq> None" if "i \<in> set (map sw_id rs)" for i
    using that ids by (simp add: find_session_None)
  have "session_ok env db' r" if "r \<in> set (db_sessions db')" for r
  proof (cases "r = projection_parameters s (st_lastSequence s)")
    case True
    then show ?thesis using s by (simp add: session_ok_def)
  next
    case False
    then have r: "r \<in> set (db_sessions db)" "r \<noteq> x0" "r \<in> set rs"
      using that rs(4,5) by (auto simp: rows split: if_splits)
    have inj: "inj_on sw_id (set rs)" using rs(1) by (simp add: distinct_map)
    have "sw_id r \<noteq> k" using inj_onD [OF inj, of r x0] r rs(2,3) by auto
    then have "session_events db' (sw_id r) = session_events db (sw_id r)"
      using ev by (auto simp: session_events_def list_all_iff filter_empty_conv)
    moreover have "session_ok env db r" using ok r(1) by (simp add: store_ok_def list_all_iff)
    ultimately show ?thesis by (simp add: session_ok_def)
  qed
  moreover have "event_row_fixed env db' e" if "e \<in> set (db_events db')" for e
  proof (cases "e \<in> set (db_events db)")
    case True
    then have f: "event_row_fixed env db e" using ok by (simp add: store_ok_def list_all_iff)
    then have "ev_sessionId e \<in> set (map sw_id rs)"
      using rs(4) by (auto simp: event_row_fixed_def find_session_None)
    with f known show ?thesis by (simp add: event_row_fixed_def)
  next
    case False
    then have "e \<in> set cs" using that ev(1) by simp
    then show ?thesis using ev(2) rs(2,3) known by (auto simp: event_row_fixed_def list_all_iff)
  qed
  ultimately show ?thesis using ids rs(1) by (simp add: store_ok_def list_all_iff)
qed

lemma normalize_pending_length:
  "normalize_pending env ps = Inr qs \<Longrightarrow> length qs = length ps"
  by (induction ps arbitrary: qs) (auto simp: check_simps split: option.splits)

text \<open>Under an id that trims to an existing session nothing can be created.\<close>

lemma append_needs_fresh_id:
  assumes "append_events env sid n (p # ps) (db, None, False) = Inr out"
  shows "find_session db (js_trim sid) = None"
proof -
  obtain c s where "parse_stored_session_event (se_reviews env) (candidate_event sid (n + 1) p) = Some c"
    "reduce_first c = Inr s" "find_session db (st_id s) = None"
    using assms by (auto simp: append_one_def bind_result_Inr map_error_Inr insert_session_projection_def
        Let_def check_simps split: option.splits)
  moreover from this have "st_id s = js_trim sid"
    using parsed_session_id(1) by (fastforce dest!: reduce_first_ok
        simp: create_initial_session_state_def candidate_event_def)
  ultimately show ?thesis by simp
qed

lemma append_start_ok:
  assumes ok: "store_ok env db" and run: "append_events env sid n ps
      (db, map_option sw_state (find_session db sid), find_session db sid \<noteq> None) = Inr out"
    and ps: "ps \<noteq> []"
  shows "loop_ok env (js_trim sid) db (map_option sw_state (find_session db sid))"
    and "find_session db sid \<noteq> None \<Longrightarrow> js_trim sid = sid"
proof -
  show t: "find_session db sid \<noteq> None \<Longrightarrow> js_trim sid = sid"
    using store_row_facts(5) [OF ok] by blast
  show "loop_ok env (js_trim sid) db (map_option sw_state (find_session db sid))"
  proof (cases "find_session db sid")
    case None
    obtain p qs where "ps = p # qs" using ps by (cases ps) simp_all
    with run None have "find_session db (js_trim sid) = None"
      using append_needs_fresh_id by simp
    then have "session_events db (js_trim sid) = []"
      using ok by (auto simp: session_events_def filter_empty_conv store_ok_def list_all_iff
          event_row_fixed_def)
    with None show ?thesis by (simp add: loop_ok_def)
  next
    case (Some r)
    then show ?thesis
      using get_events_ok(3) [OF ok Some] store_row_facts(1,5) [OF ok Some] by (simp add: loop_ok_def)
  qed
qed

lemma append_internal_unfold:
  assumes "append_internal env sid pending expected db = Inr (db', stored)" "pending \<noteq> []"
    and "store_ok env db"
  obtains qs db1 s where
    "length qs = length pending"
    "append_events env sid
       (case find_session db sid of None \<Rightarrow> 0 | Some r \<Rightarrow> sw_lastSequence r) qs
       (db, map_option sw_state (find_session db sid), find_session db sid \<noteq> None) = Inr (stored, db1, Some s)"
    "update_session_projection s (case find_session db sid of None \<Rightarrow> 0 | Some r \<Rightarrow> sw_lastSequence r) db1
       = Inr (db', 1)"
    "expected \<noteq> None \<longrightarrow>
       expected = Some (case find_session db sid of None \<Rightarrow> 0 | Some r \<Rightarrow> sw_lastSequence r)"
proof -
  let ?state = "map_option sw_state (find_session db sid)"
  have actual: "(case ?state of None \<Rightarrow> 0 | Some s \<Rightarrow> st_lastSequence s) =
      (case find_session db sid of None \<Rightarrow> 0 | Some r \<Rightarrow> sw_lastSequence r)"
    using store_row_facts(2) [OF assms(3)] by (simp split: option.split)
  obtain qs out where q: "normalize_pending env pending = Inr qs"
    "append_events env sid (case find_session db sid of None \<Rightarrow> 0 | Some r \<Rightarrow> sw_lastSequence r) qs
       (db, ?state, find_session db sid \<noteq> None) = Inr out"
    "finish_append (case find_session db sid of None \<Rightarrow> 0 | Some r \<Rightarrow> sw_lastSequence r)
       (case find_session db sid of None \<Rightarrow> 0 | Some r \<Rightarrow> sw_lastSequence r) out = Inr (db', stored)"
    "append_guards ?state expected (pe_event (hd qs)) = None"
    using assms(1,2) actual
    by (auto simp: append_internal_def Let_def check_simps load_session_ok [OF assms(3)])
  obtain db1 st where out: "out = (stored, db1, st)"
    using q(3) by (cases out) (auto simp: finish_append_def check_simps split: option.splits if_splits)
  obtain s where s: "st = Some s"
    "update_session_projection s (case find_session db sid of None \<Rightarrow> 0 | Some r \<Rightarrow> sw_lastSequence r) db1
       = Inr (db', 1)"
    using q(3) by (auto simp: finish_append_def out check_simps split: option.splits if_splits)
  have "expected \<noteq> None \<longrightarrow>
      expected = Some (case find_session db sid of None \<Rightarrow> 0 | Some r \<Rightarrow> sw_lastSequence r)"
    using q(4) actual by (auto simp: append_guards_def Let_def check_simps)
  with that q(2) out s normalize_pending_length [OF q(1)] show thesis by blast
qed

theorem append_internal_keeps_store:
  assumes run: "append_internal env sid pending expected db = Inr (db', stored)"
    and ok: "store_ok env db" and ne: "pending \<noteq> []"
  shows "store_ok env db'"
    and "db_events db' = db_events db @ stored" "db_ledger db' = db_ledger db"
    and "list_all (\<lambda>e. ev_sessionId e = js_trim sid) stored" "length stored = length pending"
    and "\<exists>r'. find_session db' (js_trim sid) = Some r' \<and> sw_lastSequence r' =
      (case find_session db sid of None \<Rightarrow> 0 | Some r \<Rightarrow> sw_lastSequence r) + int (length pending)"
    and "expected \<noteq> None \<longrightarrow>
      expected = Some (case find_session db sid of None \<Rightarrow> 0 | Some r \<Rightarrow> sw_lastSequence r)"
proof -
  let ?prev = "case find_session db sid of None \<Rightarrow> 0 | Some r \<Rightarrow> sw_lastSequence r"
  let ?k = "js_trim sid"
  obtain qs db1 s where q: "length qs = length pending"
    "append_events env sid ?prev qs (db, map_option sw_state (find_session db sid),
       find_session db sid \<noteq> None) = Inr (stored, db1, Some s)"
    "update_session_projection s ?prev db1 = Inr (db', 1)"
    "expected \<noteq> None \<longrightarrow> expected = Some ?prev"
    by (rule append_internal_unfold [OF run ne ok])
  show "expected \<noteq> None \<longrightarrow> expected = Some ?prev" by (rule q(4))
  have qs: "qs \<noteq> []" using q(1) ne by auto
  note start = append_start_ok [OF ok q(2) qs]
  note res = append_events_result [OF q(2) start(1)]
  have st: "stored \<noteq> []" using res qs by auto
  have s: "st_id s = ?k" "replay_session (se_replay env) (session_events db1 ?k) = Inr s"
    "st_lastSequence s = ?prev + int (length pending)"
    using res qs q(1) by (auto simp: loop_ok_def)
  have dist: "distinct (map sw_id (db_sessions db))" using ok by (simp add: store_ok_def)
  obtain x0 where x0: "x0 \<in> set (db_sessions db1)" "sw_id x0 = ?k" "sw_lastSequence x0 = ?prev"
    "sw_createdAt x0 = st_createdAt s" "distinct (map sw_id (db_sessions db1))"
    "set (db_sessions db) \<subseteq> set (db_sessions db1)"
    "set (db_sessions db1) \<subseteq> insert x0 (set (db_sessions db))"
  proof (cases "find_session db sid")
    case None
    then obtain s0 where s0: "st_id s0 = ?k" "find_session db ?k = None"
      "db_sessions db1 = db_sessions db @ [projection_parameters s0 0]" "st_createdAt s = st_createdAt s0"
      using res st by (auto simp: session_rows_after_def)
    show thesis
      by (rule that [of "projection_parameters s0 0"])
        (use s0 dist find_session_None [of db ?k] in \<open>auto simp: None\<close>)
  next
    case (Some r)
    have "db_sessions db1 = db_sessions db" using res Some by (simp add: session_rows_after_def)
    moreover have "st_createdAt s = st_createdAt (sw_state r)"
      using res Some by (auto simp: same_creation_def)
    ultimately show thesis
      using that [of r] Some dist store_row_facts [OF ok Some] find_session_SomeD [OF Some] by auto
  qed
  have upd: "db' = db1\<lparr>db_sessions :=
      map (\<lambda>x. if x = x0 then projection_parameters s (st_lastSequence s) else x) (db_sessions db1)\<rparr>"
    using update_hits_one [OF x0(5,1) _ x0(3,4) q(3)] x0(2) s(1) by simp
  show ev: "db_events db' = db_events db @ stored" and "db_ledger db' = db_ledger db"
    using res by (simp_all add: upd)
  show "list_all (\<lambda>e. ev_sessionId e = ?k) stored" using res by (simp add: list_all_iff)
  show "length stored = length pending" using res q(1) by simp
  show ok': "store_ok env db'"
  proof (rule store_ok_update [OF ok _ x0(5,1,2,6,7) ev _ s(1)])
    show "db_sessions db' =
        map (\<lambda>x. if x = x0 then projection_parameters s (st_lastSequence s) else x) (db_sessions db1)"
      by (simp add: upd)
    show "list_all (\<lambda>c. parse_stored_session_event (se_reviews env) c = Some c \<and> ev_sessionId c = ?k) stored"
      using res by blast
    show "replay_session (se_replay env) (session_events db' ?k) = Inr s"
      using s(2) by (simp add: upd)
  qed
  have new: "projection_parameters s (st_lastSequence s) \<in> set (db_sessions db')"
    using x0(1) by (auto simp: upd)
  have "distinct (map sw_id (db_sessions db'))" using ok' by (simp add: store_ok_def)
  from find_session_unique [OF this new] s(1,3)
  show "\<exists>r'. find_session db' ?k = Some r' \<and> sw_lastSequence r' = ?prev + int (length pending)"
    by (intro exI [of _ "projection_parameters s (st_lastSequence s)"]) simp
qed

end
