(* ===== verification/AppendLog.thy ===== *)
theory AppendLog
  imports Replay
begin

text \<open>
  The interface of an append-only log kept by a fallible operation: an operation that succeeds
  leaves every row in place and adds some at the end. The event log of the store and the table
  of the budget ledger provide it.
\<close>

locale append_log = event_replay step run
  for step :: "'s \<Rightarrow> 'e \<Rightarrow> 'err + 's" and run :: "'s \<Rightarrow> 'e list \<Rightarrow> 'err + 's" +
  fixes rows :: "'s \<Rightarrow> 'r list"
  assumes step_appends: "step s e = Inr s' \<Longrightarrow> \<exists>new. rows s' = rows s @ new"
begin

lemma run_appends:
  assumes "run s es = Inr s'"
  shows "\<exists>new. rows s' = rows s @ new"
proof (rule run_relation [where R = "\<lambda>a b. \<exists>new. rows b = rows a @ new", OF _ _ _ assms])
  show "\<exists>new. rows c = rows a @ new"
    if "\<exists>new. rows b = rows a @ new" "\<exists>new. rows c = rows b @ new" for a b c
    using that by auto
qed (auto dest: step_appends)

lemma run_keeps_rows: "run s es = Inr s' \<Longrightarrow> r \<in> set (rows s) \<Longrightarrow> r \<in> set (rows s')"
  by (auto dest: run_appends)

lemma run_keeps_index: "run s es = Inr s' \<Longrightarrow> i < length (rows s) \<Longrightarrow> rows s' ! i = rows s ! i"
  by (auto dest: run_appends simp: nth_append)

end

end
