(* ===== verification/StoreHistories.thy ===== *)
theory StoreHistories
  imports EventStore
begin

text \<open>
  Histories of the event store: a list of appends that succeeded, from a database without rows. A
  failed append changes nothing.
\<close>

type_synonym store_op = "string \<times> pending_event list \<times> int option"

definition apply_store_op :: "store_env \<Rightarrow> database \<Rightarrow> store_op \<Rightarrow> store_error + database" where
  "apply_store_op env db op =
     (case op of (sid, pending, expected) \<Rightarrow>
        bind_result (append_internal env sid pending expected db) (\<lambda>(db', stored). Inr db'))"

fun store_run :: "store_env \<Rightarrow> database \<Rightarrow> store_op list \<Rightarrow> store_error + database" where
  "store_run env db [] = Inr db"
| "store_run env db (op # ops) = bind_result (apply_store_op env db op) (\<lambda>db'. store_run env db' ops)"

definition empty_database :: database where
  "empty_database = \<lparr>db_sessions = [], db_events = [], db_ledger = []\<rparr>"

end
