(* ===== verification/SampleStores.thy ===== *)
theory SampleStores
  imports StoreHistories SampleSession
begin

text \<open>A concrete store for the witnesses. Nothing here models code.\<close>

text \<open>A store with one session, for the witnesses: it is created with its objective, then started.\<close>

definition sample_store_env :: store_env where
  "sample_store_env = \<lparr>se_replay = sample_env,
     se_reviews = \<lparr>review_result_ok = (\<lambda>_. False), review_coverage_ok = (\<lambda>_. False)\<rparr>\<rparr>"

definition sample_pending :: "string \<Rightarrow> session_event_data \<Rightarrow> pending_event" where
  "sample_pending i d = \<lparr>pe_event = d, pe_eventId = i, pe_createdAt = sample_time\<rparr>"

definition sample_creation :: "pending_event list" where
  "sample_creation =
     [sample_pending ''e1'' (SessionCreated \<lparr>cr_title = ''t'', cr_objective = ''o'', cr_workspaceRoot = ''/w'',
        cr_profile = Balanced, cr_taskTrack = None, cr_completionObligations = None,
        cr_executionPolicy = None, cr_hybridSimulation = None\<rparr>),
      sample_pending ''e2'' (UserMessage \<lparr>um_messageId = ''m1'', um_content = '' o ''\<rparr>)]"

definition sample_start :: "pending_event list" where
  "sample_start = [sample_pending ''e3'' (SessionStarted \<lparr>sp_startedAt = None, sp_deadlineAt = None\<rparr>)]"

definition sample_failure :: "pending_event list" where
  "sample_failure = [sample_pending ''e4'' (SessionFailed '' stopped '')]"

definition result_database :: "store_error + database \<Rightarrow> database" where
  "result_database r = (case r of Inl _ \<Rightarrow> empty_database | Inr db \<Rightarrow> db)"

definition sample_store_ops :: "store_op list" where
  "sample_store_ops = [(''s'', sample_creation, Some 0), (''s'', sample_start, Some 2), (''s'', sample_failure, None)]"

definition sample_db :: "nat \<Rightarrow> database" where
  "sample_db n = result_database (store_run sample_store_env empty_database (take n sample_store_ops))"

text \<open>A version 2 session whose three appends come one minute after another.\<close>

definition dated_pending :: "string \<Rightarrow> string \<Rightarrow> session_event_data \<Rightarrow> pending_event" where
  "dated_pending i t d = \<lparr>pe_event = d, pe_eventId = i, pe_createdAt = t\<rparr>"

definition second_time :: string where
  "second_time = ''2026-09-01T00:01:00.000Z''"

definition third_time :: string where
  "third_time = ''2026-09-01T00:02:00.000Z''"

definition dated_ops :: "store_op list" where
  "dated_ops =
     [(''s'', [dated_pending ''e1'' sample_time sample_created,
        dated_pending ''e2'' sample_time (UserMessage \<lparr>um_messageId = ''m1'', um_content = ''o''\<rparr>)], Some 0),
      (''s'', [dated_pending ''e3'' second_time (SessionStarted
         \<lparr>sp_startedAt = Some second_time, sp_deadlineAt = Some ''2026-09-01T00:11:00.000Z''\<rparr>)], Some 2),
      (''s'', [dated_pending ''e4'' third_time (SessionFailed ''stopped'')], Some 3)]"

end
