(* ===== verification/SampleStoreRuns.thy ===== *)
theory SampleStoreRuns
  imports SampleStores
begin

text \<open>The concrete store, evaluated.\<close>

lemma sample_store_ok: "is_ok (store_run sample_store_env empty_database sample_store_ops)"
  by code_simp

lemma sample_trimmed: "js_trim ''s'' = ''s''"
  by code_simp

lemma sample_normalized: "is_ok (normalize_pending sample_store_env sample_start)"
  by code_simp

lemma dated_run:
  "(case store_run sample_store_env empty_database dated_ops of
      Inl _ \<Rightarrow> None
    | Inr db \<Rightarrow> Some (map (\<lambda>r. (sw_id r, sw_createdAt r, sw_updatedAt r, v2_policy (sw_state r) \<noteq> None))
        (db_sessions db), map ev_createdAt (session_events db ''s''))) =
   Some ([(''s'', sample_time, third_time, True)], [sample_time, sample_time, second_time, third_time])"
  by code_simp

end
