(* ===== verification/StoreProperties.thy ===== *)
theory StoreProperties
  imports EventStoreFacts AppendLog SampleStoreRuns
begin

text \<open>
  What the event store promises to the rest of the program: the projection rows are exactly the
  replay of the log, the log only grows and stays numbered without gaps, a writer with a stale
  sequence is refused, and what was stored is read back unchanged. A history is a list of
  appends that succeeded; a failed append changes nothing.
\<close>

lemma append_nothing: "append_internal env sid [] expected db = Inr (db', stored) \<Longrightarrow> db' = db \<and> stored = []"
  by (auto simp: append_internal_def check_simps)

lemma append_result:
  assumes "append_internal env sid pending expected db = Inr (db', stored)" "store_ok env db"
  shows "store_ok env db'" "db_events db' = db_events db @ stored" "db_ledger db' = db_ledger db"
proof -
  show "store_ok env db'" "db_events db' = db_events db @ stored" "db_ledger db' = db_ledger db"
    using append_internal_keeps_store(1-3) [OF assms] append_nothing [of env sid expected db db' stored] assms
    by (cases "pending = []"; auto)+
qed

text \<open>The log of a store whose projection is consistent; the other stores have no history.\<close>

lemma apply_store_op_keeps: "store_ok env db \<Longrightarrow> apply_store_op env db op = Inr db' \<Longrightarrow> store_ok env db'"
  by (cases op) (auto simp: apply_store_op_def check_simps dest: append_result(1))

lemma append_one_events:
  "append_one env sid n p (db, state, has_row) = Inr (c, db', rest) \<Longrightarrow> db_events db' = db_events db @ [c]"
  by (auto simp: append_one_def insert_event_def insert_session_projection_def Let_def check_simps
      split: option.splits if_splits)

lemma append_events_events:
  "append_events env sid n ps (db, state, has_row) = Inr (cs, db', state') \<Longrightarrow>
     db_events db' = db_events db @ cs"
proof (induction ps arbitrary: n db state has_row cs)
  case Nil
  then show ?case by simp
next
  case (Cons p ps)
  then obtain c db1 st1 row1 cs1 where
    "append_one env sid (n + 1) p (db, state, has_row) = Inr (c, db1, st1, row1)" "cs = c # cs1"
    "append_events env sid (n + 1) ps (db1, st1, row1) = Inr (cs1, db', state')"
    by (auto simp: check_simps)
  with Cons.IH append_one_events show ?case by fastforce
qed

lemma append_internal_events:
  assumes "append_internal env sid pending expected db = Inr (db', stored)"
  shows "db_events db' = db_events db @ stored"
proof (cases "pending = []")
  case True
  with assms append_nothing show ?thesis by fastforce
next
  case False
  obtain qs n m st out where q: "append_events env sid n qs st = Inr out"
    "finish_append m n out = Inr (db', stored)" "fst st = db"
    using assms False by (auto simp: append_internal_def Let_def check_simps)
  obtain db1 s where out: "out = (stored, db1, s)"
    using q(2) by (cases out) (auto simp: finish_append_def check_simps split: option.splits if_splits)
  have "db_events db1 = db_events db @ stored"
    using q(1,3) append_events_events by (cases st) (auto simp: out)
  then show ?thesis
    using q(2) by (auto simp: out finish_append_def update_session_projection_def Let_def check_simps
        split: option.splits if_splits)
qed

interpretation store_log: append_log "apply_store_op env" "store_run env" db_events
proof
  show "store_run env db [] = Inr db" for db by simp
  show "store_run env db (op # ops) = bind_result (apply_store_op env db op) (\<lambda>db'. store_run env db' ops)"
    for db op ops by simp
  show "\<exists>new. db_events db' = db_events db @ new" if "apply_store_op env db op = Inr db'" for db op db'
    using that append_internal_events by (cases op) (fastforce simp: apply_store_op_def check_simps)
qed

lemma store_ok_empty: "store_ok env empty_database"
  by (simp add: store_ok_def empty_database_def)

lemma store_run_keeps: "store_ok env db \<Longrightarrow> store_run env db ops = Inr db' \<Longrightarrow> store_ok env db'"
  by (rule store_log.run_invariant [where P = "store_ok env"]) (auto intro: apply_store_op_keeps)


section \<open>The state a row holds\<close>

definition stored_parts_valid :: "session_state \<Rightarrow> bool" where
  "stored_parts_valid s \<longleftrightarrow>
     valid_obligations (st_completionObligations s) \<and>
     optionally valid_execution_policy (st_executionPolicy s) \<and>
     optionally valid_simulation_authority (st_hybridSimulation s)"

lemma stored_parts_step:
  "stored_parts_valid s \<Longrightarrow> reduce_next env s e = Inr s' \<Longrightarrow> stored_parts_valid s'"
  by (simp add: stored_parts_valid_def step_frame(3-5))

lemma stored_parts_first:
  assumes "ev_data e = SessionCreated p" "parse_stored_session_event rs e = Some e"
  shows "stored_parts_valid (create_initial_session_state e p)"
proof -
  have "parse_session_event_data rs (SessionCreated p) = Some (SessionCreated p)"
    using assms by (auto simp: parse_stored_session_event_def Let_def split: if_splits dest: arg_cong [where f = ev_data])
  then have "valid_created p" by (simp add: parse_session_event_data_Some)
  then show ?thesis
    by (auto simp: stored_parts_valid_def create_initial_session_state_def valid_created_def optionally_def
        valid_obligations_def empty_completion_obligations_def maximum_agentic_policy_steps_def
        maximum_verified_path_line_citations_def split: option.splits)
qed

lemma stored_state_reads_back:
  assumes ok: "store_ok env db" and r: "find_session db sid = Some r"
  shows "get_projected_state db sid = Inr (sw_state r)"
proof -
  note f = store_row_facts [OF ok r]
  obtain e es m p where m: "session_events db sid = e # es" "ev_data e = SessionCreated p"
    "m = create_initial_session_state e p" "replay_from (se_replay env) m es = Inr (sw_state r)"
    by (rule replay_session_split [OF get_events_ok(3) [OF ok r]])
  have "e \<in> set (db_events db)"
    using arg_cong [OF m(1), of set] by (auto simp: session_events_def)
  then have "parse_stored_session_event (se_reviews env) e = Some e"
    using ok by (auto simp: store_ok_def list_all_iff event_row_fixed_def)
  then have "stored_parts_valid m" using stored_parts_first m(2,3) by blast
  then have "stored_parts_valid (sw_state r)"
    using session_replay.run_invariant [where P = stored_parts_valid, OF _ _ m(4)] stored_parts_step by blast
  then show ?thesis
    using r f(1,2) find_session_SomeD [OF r]
    by (simp add: get_projected_state_def require_session_def parse_state_def Let_def check_simps
        stored_parts_valid_def)
qed


section \<open>Sequence numbers\<close>

lemma session_numbering:
  assumes "store_ok env db"
  shows "map ev_sequence (session_events db sid) = map int [1..<Suc (length (session_events db sid))]"
proof (cases "session_events db sid = []")
  case True
  then show ?thesis by simp
next
  case False
  then obtain e where "e \<in> set (db_events db)" "ev_sessionId e = sid"
    by (auto simp: session_events_def filter_empty_conv)
  then obtain r where "find_session db sid = Some r"
    using assms by (auto simp: store_ok_def list_all_iff event_row_fixed_def)
  from stream_numbering [OF get_events_ok(3) [OF assms this]] show ?thesis by blast
qed

lemma session_numbering_set:
  assumes "store_ok env db"
  shows "ev_sequence ` set (session_events db sid) = {1..int (length (session_events db sid))}"
proof -
  have "set (map ev_sequence (session_events db sid)) = int ` set [1..<Suc (length (session_events db sid))]"
    by (simp only: session_numbering [OF assms] set_map)
  also have "\<dots> = {1..int (length (session_events db sid))}"
    by (auto simp: image_int_atLeastLessThan simp del: upt_Suc)
  finally show ?thesis by simp
qed

lemma last_sequence_is_length:
  assumes "store_ok env db" "find_session db sid = Some r"
  shows "sw_lastSequence r = int (length (session_events db sid))"
  using store_row_facts(2) [OF assms] stream_numbering [OF get_events_ok(3) [OF assms]] by simp


section \<open>Properties\<close>

lemma store_reached: "store_run env empty_database ops = Inr db \<Longrightarrow> store_ok env db"
  by (rule store_run_keeps [OF store_ok_empty])

lemma appended_numbers:
  assumes ok: "store_ok env db" and sid: "js_trim sid = sid" and p: "pending \<noteq> []"
    and run: "append_internal env sid pending (Some n) db = Inr (db', stored)"
  shows "store_ok env db'" "session_events db' sid = session_events db sid @ stored"
    "int (length (session_events db sid)) = n" "length stored = length pending"
    "\<exists>r. find_session db' sid = Some r \<and> sw_lastSequence r = n + int (length pending)"
proof -
  note k = append_internal_keeps_store [OF run ok p]
  have prev: "(case find_session db sid of None \<Rightarrow> 0 | Some r \<Rightarrow> sw_lastSequence r) = n" using k(7) by simp
  show "store_ok env db'" "length stored = length pending" by (rule k)+
  show r: "\<exists>r. find_session db' sid = Some r \<and> sw_lastSequence r = n + int (length pending)"
    using k(6) by (simp add: prev sid)
  have "filter (\<lambda>e. ev_sessionId e = sid) stored = stored" using k(4) by (simp add: sid filter_id_conv list_all_iff)
  then show s: "session_events db' sid = session_events db sid @ stored"
    by (simp add: session_events_def k(2))
  show "int (length (session_events db sid)) = n"
    using r last_sequence_is_length [OF k(1)] by (auto simp: s k(5))
qed

lemma append_after:
  assumes ok: "store_ok env db" and r: "find_session db sid = Some r" "sw_lastSequence r = m"
    and q: "q \<noteq> []" "normalize_pending env q = Inr qs" and n: "n \<noteq> m"
  shows "append_internal env sid q (Some n) db = Inl (Sequence_conflict n m)"
proof -
  have t: "js_trim sid = sid" by (rule store_row_facts(5) [OF ok r(1)])
  obtain e where "e \<in> set (db_events db)" "ev_sessionId e = sid"
    using get_events_ok(2) [OF ok r(1)] by (auto simp: session_events_def filter_empty_conv)
  then have "parse_stored_session_event (se_reviews env) e = Some e"
    using ok by (auto simp: store_ok_def list_all_iff event_row_fixed_def)
  then have "sid \<noteq> []"
    using \<open>ev_sessionId e = sid\<close> t
    by (auto simp: parse_stored_session_event_def valid_envelope_def required_id_def split: if_splits)
  then show ?thesis
    using assms t store_row_facts(2) [OF ok r(1)]
    by (simp add: append_internal_def load_session_ok append_guards_def Let_def checks.simps throw_if_def)
qed


lemma result_databaseI: "r = Inr db \<Longrightarrow> r = Inr (result_database r)"
  by (simp add: result_database_def)

lemma sample_store_run:
  "store_run sample_store_env empty_database (take n sample_store_ops) = Inr (sample_db n)"
proof -
  obtain db where "store_run sample_store_env empty_database (take n sample_store_ops @ drop n sample_store_ops)
      = Inr db"
    using sample_store_ok by (auto elim!: is_okE)
  then obtain m where "store_run sample_store_env empty_database (take n sample_store_ops) = Inr m"
    by (rule store_log.run_prefix)
  then show ?thesis unfolding sample_db_def by (rule result_databaseI)
qed

lemma length_sample_ops: "length sample_store_ops = 3" "take 3 sample_store_ops = sample_store_ops"
  by (simp_all add: sample_store_ops_def)

lemma sample_store_step:
  "n < 3 \<Longrightarrow> apply_store_op sample_store_env (sample_db n) (sample_store_ops ! n) = Inr (sample_db (Suc n))"
proof -
  assume "n < 3"
  then have "take (Suc n) sample_store_ops = take n sample_store_ops @ [sample_store_ops ! n]"
    by (intro take_Suc_conv_app_nth) (simp add: sample_store_ops_def)
  with sample_store_run [of "Suc n"] sample_store_run [of n] show ?thesis
    by (simp add: store_log.run_snoc)
qed

lemma sample_append:
  assumes "n < 3" "sample_store_ops ! n = (''s'', pending, expected)"
  obtains stored where
    "append_internal sample_store_env ''s'' pending expected (sample_db n) = Inr (sample_db (Suc n), stored)"
  using sample_store_step [OF assms(1)] by (auto simp: assms(2) apply_store_op_def check_simps)

lemma sample_started:
  obtains stored r where
    "append_internal sample_store_env ''s'' sample_start (Some 2) (sample_db 1) = Inr (sample_db 2, stored)"
    "find_session (sample_db 2) ''s'' = Some r" "sw_lastSequence r = 3"
proof -
  obtain stored where a: "append_internal sample_store_env ''s'' sample_start (Some 2) (sample_db 1) = Inr (sample_db 2, stored)"
    by (rule sample_append [of 1]) (simp_all add: sample_store_ops_def numeral_2_eq_2)
  have "sample_start \<noteq> []" by (simp add: sample_start_def)
  from appended_numbers(5) [OF store_reached [OF sample_store_run] sample_trimmed this a] that a show thesis
    by (auto simp: sample_start_def)
qed

text \<open>C19. The projection of a session is its replay: after any sequence of appends to an empty
  store, the row of every session holds exactly the state that replaying its stored events
  gives, that state passes the checks of \<open>getProjectedState\<close>, and the columns of the row are the
  ones the state determines, with the number of stored events as last sequence.\<close>

theorem projection_is_the_replay:
  assumes "store_run env empty_database ops = Inr db" "r \<in> set (db_sessions db)"
  shows "store_replay env db (sw_id r) = Inr (sw_state r) \<and>
    get_projected_state db (sw_id r) = Inr (sw_state r) \<and>
    r = projection_parameters (sw_state r) (int (length (session_events db (sw_id r))))"
proof -
  have ok: "store_ok env db" by (rule store_reached [OF assms(1)])
  then have "session_ok env db r" "distinct (map sw_id (db_sessions db))"
    using assms(2) by (simp_all add: store_ok_def list_all_iff)
  moreover from this have r: "find_session db (sw_id r) = Some r"
    using find_session_unique assms(2) by blast
  ultimately show ?thesis
    using store_replay_ok [OF ok r] stored_state_reads_back [OF ok r] last_sequence_is_length [OF ok r]
      store_row_facts(2) [OF ok r]
    by (simp add: session_ok_def)
qed

theorem projection_is_the_replay_witness:
  "\<exists>r\<in>set (db_sessions (sample_db 2)). store_replay sample_store_env (sample_db 2) (sw_id r) = Inr (sw_state r)"
proof -
  obtain stored r where "find_session (sample_db 2) ''s'' = Some r" by (rule sample_started)
  then have r: "r \<in> set (db_sessions (sample_db 2))" by (auto dest: find_session_SomeD)
  with projection_is_the_replay [OF sample_store_run r] show ?thesis by blast
qed

text \<open>C20. The log is append-only and gap-free: later appends leave every stored event in place and
  put new ones after it, and the events of a session carry the sequence numbers 1, 2, 3, ... in
  the order in which they were stored.\<close>

theorem log_only_grows:
  assumes "store_run env empty_database ops = Inr db" "store_run env db later = Inr db'"
  shows "(\<exists>new. db_events db' = db_events db @ new) \<and>
    map ev_sequence (session_events db' sid) = map int [1..<Suc (length (session_events db' sid))]"
proof -
  have "store_ok env db'" by (rule store_run_keeps [OF store_reached [OF assms(1)] assms(2)])
  with store_log.run_appends [OF assms(2)] session_numbering show ?thesis by blast
qed

theorem log_only_grows_witness:
  "\<exists>new. db_events (sample_db 3) = db_events (sample_db 1) @ new"
proof -
  have "store_run sample_store_env (sample_db 1) (drop 1 sample_store_ops) = Inr (sample_db 3)"
    using sample_store_run [of 3] sample_store_run [of 1]
      store_log.run_append [of sample_store_env empty_database "take 1 sample_store_ops" "drop 1 sample_store_ops"]
    by (simp add: length_sample_ops del: drop_Suc)
  from log_only_grows [OF sample_store_run this] show ?thesis by blast
qed

text \<open>C21. A stale writer is refused: of two appends that expect the same last sequence the second
  one fails with the conflict the first one caused, whatever valid events it carries.\<close>

theorem stale_append_conflicts:
  assumes "store_run env empty_database ops = Inr db" "js_trim sid = sid"
    and "append_internal env sid first (Some n) db = Inr (db', stored)" "first \<noteq> []"
    and "normalize_pending env second = Inr events" "second \<noteq> []"
  shows "append_internal env sid second (Some n) db' = Inl (Sequence_conflict n (n + int (length first)))"
proof -
  note k = appended_numbers [OF store_reached [OF assms(1)] assms(2,4,3)]
  from k(5) obtain r where r: "find_session db' sid = Some r" "sw_lastSequence r = n + int (length first)"
    by blast
  have "n \<noteq> n + int (length first)" using assms(4) by simp
  from append_after [OF k(1) r assms(6,5) this] show ?thesis .
qed

theorem stale_append_conflicts_witness:
  "append_internal sample_store_env ''s'' sample_start (Some 2) (sample_db 2) = Inl (Sequence_conflict 2 3)"
proof -
  obtain stored r where a:
    "append_internal sample_store_env ''s'' sample_start (Some 2) (sample_db 1) = Inr (sample_db 2, stored)"
    by (rule sample_started)
  obtain qs where q: "normalize_pending sample_store_env sample_start = Inr qs"
    using sample_normalized by (rule is_okE)
  have n: "sample_start \<noteq> []" "length sample_start = 1" by (simp_all add: sample_start_def)
  show ?thesis
    using stale_append_conflicts [OF sample_store_run sample_trimmed a n(1) q n(1)] by (simp add: n)
qed

text \<open>C22. What was appended is read back: reading a session from the sequence the writer expected
  returns exactly the stored events, in order and unchanged by the parser.\<close>

theorem appended_events_are_read_back:
  assumes "store_run env empty_database ops = Inr db" "js_trim sid = sid"
    and "append_internal env sid pending (Some n) db = Inr (db', stored)" "pending \<noteq> []"
  shows "get_events env db' sid n = Inr stored \<and> length stored = length pending"
proof -
  have ok: "store_ok env db" by (rule store_reached [OF assms(1)])
  note k = appended_numbers [OF ok assms(2,4,3)]
  let ?new = "\<lambda>e. n < ev_sequence e"
  have "filter ?new (session_events db sid) = []"
    using session_numbering_set [OF ok, of sid] k(3) by (force simp: filter_empty_conv)
  moreover have new: "map ev_sequence stored = map int [Suc (nat n)..<Suc (nat n + length stored)]"
  proof -
    have len: "length (session_events db sid) = nat n" using k(3) by simp
    have "[1..<Suc (nat n + length stored)] = [1..<Suc (nat n)] @ [Suc (nat n)..<Suc (nat n + length stored)]"
      using upt_add_eq_append [of 1 "Suc (nat n)" "length stored"] by (simp del: upt_Suc)
    then have "map int [1..<Suc (nat n + length stored)] =
        map int [1..<Suc (nat n)] @ map int [Suc (nat n)..<Suc (nat n + length stored)]"
      by (simp only: map_append)
    then have "map ev_sequence (session_events db' sid) =
        map int [1..<Suc (nat n)] @ map int [Suc (nat n)..<Suc (nat n + length stored)]"
      using session_numbering [OF k(1), of sid] by (simp add: k(2) len del: upt_Suc)
    moreover have "map ev_sequence (session_events db sid) = map int [1..<Suc (nat n)]"
      using session_numbering [OF ok, of sid] by (simp only: len)
    ultimately show ?thesis by (simp add: k(2) del: upt_Suc)
  qed
  have "list_all ?new stored"
  proof -
    have "0 \<le> n" using k(3) by linarith
    moreover have "ev_sequence ` set stored = int ` {Suc (nat n)..<Suc (nat n + length stored)}"
      using arg_cong [OF new, of set] by (simp del: upt_Suc)
    ultimately show ?thesis by (force simp: list_all_iff)
  qed
  moreover have "sorted (map ev_sequence stored)"
    unfolding new by (auto simp: sorted_iff_nth_mono nth_append simp del: upt_Suc)
  moreover have "list_all (\<lambda>e. parse_stored_session_event (se_reviews env) e = Some e) stored"
    using k(1) append_internal_events [OF assms(3)]
    by (auto simp: store_ok_def list_all_iff event_row_fixed_def)
  ultimately show ?thesis
    using parse_rows_fixed [of env stored] k(4)
    by (simp add: get_events_def k(2) sort_key_id_if_sorted filter_id_conv list_all_iff)
qed

theorem appended_events_are_read_back_witness:
  "\<exists>stored. get_events sample_store_env (sample_db 2) ''s'' 2 = Inr stored \<and> length stored = 1"
proof -
  obtain stored r where a:
    "append_internal sample_store_env ''s'' sample_start (Some 2) (sample_db 1) = Inr (sample_db 2, stored)"
    by (rule sample_started)
  have n: "sample_start \<noteq> []" "length sample_start = 1" by (simp_all add: sample_start_def)
  show ?thesis
    using appended_events_are_read_back [OF sample_store_run sample_trimmed a n(1)] by (auto simp: n)
qed

section \<open>Time\<close>

lemma normalize_pending_canonical:
  "normalize_pending env ps = Inr qs \<Longrightarrow> list_all (\<lambda>q. canonical_timestamp (pe_createdAt q)) qs"
  by (induction ps arbitrary: qs) (auto simp: check_simps split: option.splits)

lemma append_events_times:
  "append_events env sid n ps st = Inr (cs, rest) \<Longrightarrow> map ev_createdAt cs = map pe_createdAt ps"
proof (induction ps arbitrary: n st cs)
  case Nil
  then show ?case by (cases st) simp
next
  case (Cons p ps)
  then obtain c st1 cs1 where one: "append_one env sid (n + 1) p st = Inr (c, st1)" and
    rest: "append_events env sid (n + 1) ps st1 = Inr (cs1, rest)" and cs: "cs = c # cs1"
    by (cases st) (auto simp: check_simps)
  have "ev_createdAt c = pe_createdAt p"
    using one by (cases st) (auto simp: append_one_def candidate_event_def bind_result_Inr
        dest!: parsed_session_id(4) split: option.splits)
  with Cons.IH [OF rest] cs show ?case by simp
qed

definition canonical_times :: "stored_event list \<Rightarrow> bool" where
  "canonical_times es \<longleftrightarrow> list_all (\<lambda>e. canonical_timestamp (ev_createdAt e)) es"

lemma append_internal_canonical:
  assumes "append_internal env sid pending expected db = Inr (db', stored)"
  shows "canonical_times stored"
proof (cases "pending = []")
  case True
  with assms append_nothing show ?thesis by (fastforce simp: canonical_times_def)
next
  case False
  obtain qs n m st out where q: "normalize_pending env pending = Inr qs"
    "append_events env sid n qs st = Inr out" "finish_append m n out = Inr (db', stored)"
    using assms False by (auto simp: append_internal_def Let_def check_simps)
  obtain db1 s where out: "out = (stored, db1, s)"
    using q(3) by (cases out) (auto simp: finish_append_def check_simps split: option.splits if_splits)
  have "map ev_createdAt stored = map pe_createdAt qs"
    using append_events_times q(2) by (simp add: out)
  then have "list_all canonical_timestamp (map ev_createdAt stored)"
    using normalize_pending_canonical [OF q(1)] by (simp add: list.pred_map comp_def)
  then show ?thesis by (simp add: canonical_times_def list.pred_map comp_def)
qed

lemma apply_store_op_canonical:
  assumes "canonical_times (db_events db)" "apply_store_op env db op = Inr db'"
  shows "canonical_times (db_events db')"
proof -
  obtain sid pending expected stored
    where "append_internal env sid pending expected db = Inr (db', stored)"
    using assms(2) by (cases op) (auto simp: apply_store_op_def check_simps)
  with append_internal_canonical append_internal_events assms(1) show ?thesis
    by (fastforce simp: canonical_times_def)
qed

lemma store_run_canonical:
  "canonical_times (db_events db) \<Longrightarrow> store_run env db ops = Inr db' \<Longrightarrow> canonical_times (db_events db')"
  by (rule store_log.run_invariant [where P = "\<lambda>db. canonical_times (db_events db)"])
    (auto intro: apply_store_op_canonical)

text \<open>C23. The store keeps time: after any appends to an empty store every stored event carries a
  canonical timestamp, the row of a session was created with its first event and updated with its
  last one, and the events of a version 2 session lie in the order of their times, whoever
  appended them.\<close>

theorem stored_sessions_are_chronological:
  assumes "store_run env empty_database ops = Inr db" "r \<in> set (db_sessions db)"
  shows "(let es = session_events db (sw_id r)
     in es \<noteq> [] \<and> list_all (\<lambda>e. canonical_timestamp (ev_createdAt e)) es \<and>
       sw_createdAt r = ev_createdAt (hd es) \<and> sw_updatedAt r = ev_createdAt (last es) \<and>
       (is_v2 (sw_state r) \<longrightarrow> sorted (map (\<lambda>e. the (date_parse (ev_createdAt e))) es)))"
proof -
  have ok: "store_ok env db" by (rule store_reached [OF assms(1)])
  then have r: "find_session db (sw_id r) = Some r"
    using find_session_unique assms(2) by (auto simp: store_ok_def)
  let ?es = "session_events db (sw_id r)"
  note rep = get_events_ok(3) [OF ok r]
  have "canonical_times (db_events db)"
    by (rule store_run_canonical [OF _ assms(1)]) (simp add: canonical_times_def empty_database_def)
  then have c: "list_all (\<lambda>e. canonical_timestamp (ev_createdAt e)) ?es"
    by (simp add: canonical_times_def session_events_def list_all_iff)
  then have "list_all (\<lambda>e. date_parse (ev_createdAt e) \<noteq> None) ?es"
    by (auto simp: list_all_iff canonical_timestamp_def split: option.splits)
  then have "is_v2 (sw_state r) \<longrightarrow> sorted (map (\<lambda>e. the (date_parse (ev_createdAt e))) ?es)"
    using readable_times_sorted v2_times [OF rep] by blast
  moreover have "sw_createdAt r = ev_createdAt (hd ?es)" "sw_updatedAt r = ev_createdAt (last ?es)"
    using store_row_times [OF ok r] replay_createdAt [OF rep] replay_updatedAt [OF rep] by simp_all
  ultimately show ?thesis
    using c get_events_ok(2) [OF ok r] by (simp add: Let_def)
qed

theorem stored_sessions_are_chronological_witness:
  "\<exists>db r. store_run sample_store_env empty_database dated_ops = Inr db \<and> r \<in> set (db_sessions db) \<and>
     is_v2 (sw_state r) \<and> sw_createdAt r \<noteq> sw_updatedAt r \<and>
     sorted (map (\<lambda>e. the (date_parse (ev_createdAt e))) (session_events db (sw_id r)))"
proof -
  obtain db r where run: "store_run sample_store_env empty_database dated_ops = Inr db"
    and r: "db_sessions db = [r]" "sw_createdAt r = sample_time" "sw_updatedAt r = third_time"
      "is_v2 (sw_state r)"
    using dated_run by (auto split: sum.splits)
  have m: "r \<in> set (db_sessions db)" by (simp add: r(1))
  have "sample_time \<noteq> third_time" by (simp add: sample_time_def third_time_def)
  with stored_sessions_are_chronological [OF run m] run m r show ?thesis
    by (intro exI [of _ db] exI [of _ r]) (simp add: Let_def)
qed

end
