(* ===== verification/SampleLedger.thy ===== *)
theory SampleLedger
  imports LedgerInvariants LedgerReconciliation SampleStores
begin

text \<open>Concrete ledgers for the witnesses.\<close>

section \<open>A concrete ledger\<close>

text \<open>A campaign that stops at 3000 micro-dollars, a reservation of 1000, and its resolution either
  below or above the reservation. Two sessions exist. Nothing here models code.\<close>

definition sample_session :: "string \<Rightarrow> session_row" where
  "sample_session sid = projection_parameters
     (create_initial_session_state
       \<lparr>ev_id = sid, ev_sessionId = sid, ev_sequence = 1, ev_createdAt = sample_time, ev_data = SessionCompleted None\<rparr>
       \<lparr>cr_title = ''t'', cr_objective = ''o'', cr_workspaceRoot = ''/w'', cr_profile = Balanced,
        cr_taskTrack = None, cr_completionObligations = None, cr_executionPolicy = None,
        cr_hybridSimulation = None\<rparr>) 1"

definition ledger_start :: database where
  "ledger_start = \<lparr>db_sessions = [sample_session ''s'', sample_session ''t''], db_events = [], db_ledger = []\<rparr>"

definition sample_campaign :: campaign_input where
  "sample_campaign = \<lparr>ci_id = ''camp'', ci_providerId = ''cloud'', ci_credentialMetadataId = ''k'',
     ci_openingExposure = 500, ci_automaticStop = 3000, ci_hardCeiling = 5000, ci_costScope = Rt_actual,
     ci_createdAt = sample_time\<rparr>"

definition sample_reserve :: "string \<Rightarrow> reserve_input" where
  "sample_reserve sid = \<lparr>rq_campaignId = ''camp'', rq_reservationId = ''r-'' @ sid, rq_sessionId = sid,
     rq_attemptId = ''a-'' @ sid, rq_providerId = ''cloud'', rq_pricingSnapshotId = ''p'',
     rq_costScope = Rt_actual, rq_cloudEgressAdmissionId = Some (''g-'' @ sid), rq_episodeCap = 250000,
     rq_projection = \<lparr>bp_billableInputTokens = 500, bp_billableCacheReadTokens = 0,
       bp_requestedMaxOutputTokens = 500, bp_inputRate = 1000000, bp_outputRate = 1000000,
       bp_cacheReadRate = None, bp_providerFeeCeiling = 0\<rparr>,
     rq_createdAt = sample_time\<rparr>"

definition sample_resolve :: "ledger_row_type \<Rightarrow> int \<Rightarrow> string option \<Rightarrow> resolve_input" where
  "sample_resolve kind amount reason = \<lparr>rs_terminalEntryId = ''t-s'', rs_reservationId = ''r-s'',
     rs_rowType = kind, rs_amount = amount, rs_costProvenance = Some Provider_reported,
     rs_requestDisposition = Sent, rs_reasonCode = reason, rs_createdAt = sample_time\<rparr>"

definition ledger_after :: "ledger_op list \<Rightarrow> database" where
  "ledger_after ops = (case ledger_run ledger_start ops of Inl _ \<Rightarrow> ledger_start | Inr db \<Rightarrow> db)"

definition settled_ops :: "ledger_op list" where
  "settled_ops = [Op_create sample_campaign, Op_reserve (sample_reserve ''s''),
     Op_resolve (sample_resolve Row_settlement 800 None)]"

definition overrun_ops :: "ledger_op list" where
  "overrun_ops = [Op_create sample_campaign, Op_reserve (sample_reserve ''s''),
     Op_resolve (sample_resolve Row_overrun 1200 (Some ''budget_overrun''))]"

definition is_admitted :: "ledger_error + database \<times> reservation_resolution \<Rightarrow> bool" where
  "is_admitted r = (case r of Inr (_, Admitted _ _ _) \<Rightarrow> True | _ \<Rightarrow> False)"

section \<open>A reconciled database\<close>

definition reconciled_rows :: "ledger_row list" where
  "reconciled_rows =
     [campaign_row \<lparr>ci_id = ''c'', ci_providerId = ''cloud'', ci_credentialMetadataId = ''k'',
        ci_openingExposure = 0, ci_automaticStop = 250000, ci_hardCeiling = 250000,
        ci_costScope = Rt_actual, ci_createdAt = sample_time\<rparr>,
      reservation_row \<lparr>rq_campaignId = ''c'', rq_reservationId = ''r1'', rq_sessionId = ''s'',
        rq_attemptId = ''a2'', rq_providerId = ''cloud'', rq_pricingSnapshotId = ''p'', rq_costScope = Rt_actual,
        rq_cloudEgressAdmissionId = None, rq_episodeCap = 250000,
        rq_projection = rq_projection (sample_reserve ''s''), rq_createdAt = sample_time\<rparr> 1000,
      blank_row\<lparr>lr_id := ''t1'', lr_rowType := Row_settlement, lr_campaignId := ''c'',
        lr_reservationId := Some ''r1'', lr_costScope := Scope_actual, lr_amount := 800,
        lr_costProvenance := Some Provider_reported, lr_requestDisposition := Some Sent,
        lr_createdAt := sample_time\<rparr>]"

definition reconciled_db :: database where
  "reconciled_db = \<lparr>db_sessions = [],
     db_events = map (\<lambda>e. e\<lparr>ev_data := stored_data (ev_data e)\<rparr>) sample_events, db_ledger = reconciled_rows\<rparr>"

end
