(* ===== verification/SampleLedgerRuns.thy ===== *)
theory SampleLedgerRuns
  imports SampleLedger
begin

text \<open>The concrete ledgers, evaluated.\<close>

lemma ledger_after_run: "is_ok (ledger_run ledger_start ops) \<Longrightarrow> ledger_run ledger_start ops = Inr (ledger_after ops)"
  by (auto simp: ledger_after_def elim!: is_okE)

lemma settled_run: "ledger_run ledger_start settled_ops = Inr (ledger_after settled_ops)"
  by (rule ledger_after_run) code_simp

lemma overrun_run: "ledger_run ledger_start overrun_ops = Inr (ledger_after overrun_ops)"
  by (rule ledger_after_run) code_simp

lemma settled_facts:
  "is_ok (require_campaign (db_ledger (ledger_after settled_ops)) ''camp'') \<and>
   overrun_free (db_ledger (ledger_after settled_ops)) ''camp'' \<and>
   is_admitted (reserve (sample_reserve ''t'') (ledger_after settled_ops))"
  unfolding ledger_after_def by code_simp

lemma overrun_facts:
  "\<not> overrun_free (db_ledger (ledger_after overrun_ops)) ''camp'' \<and>
   is_ok (reserve (sample_reserve ''t'') (ledger_after overrun_ops))"
  unfolding ledger_after_def by code_simp

end
