(* ===== verification/LedgerProperties.thy ===== *)
theory LedgerProperties
  imports LedgerInvariants LedgerReconciliation StoreProperties SampleLedgerRuns
begin

text \<open>
  What the budget ledger promises: a campaign cannot be spent past its automatic stop unless a
  provider charges more than was reserved, and then nothing more is admitted; every reservation
  is resolved at most once; the table only grows; what \<open>reserve\<close> writes passes the projection check
  of the reconciliation; and what a passed reconciliation says about every reservation.
\<close>

section \<open>Lemmas\<close>

interpretation ledger_table: append_log apply_ledger_op ledger_run db_ledger
proof
  show "\<exists>new. db_ledger db' = db_ledger db @ new" if "apply_ledger_op db op = Inr db'" for db op db'
    using that
  proof (cases rule: apply_ledger_op_cases)
    case (campaign i sessions)
    then show ?thesis by (auto dest: inserted_facts(1))
  next
    case (reservation i cost c pos sessions)
    then show ?thesis by (auto dest: inserted_facts(1))
  next
    case (terminal r sessions)
    then show ?thesis by (auto dest: inserted_facts(1))
  qed simp
qed

lemma ledger_reached: "db_ledger db0 = [] \<Longrightarrow> ledger_run db0 ops = Inr db \<Longrightarrow> ledger_inv db"
  by (rule ledger_run_keeps_inv [OF ledger_inv_empty])

lemma find_fresh:
  "\<not> list_ex P rows \<Longrightarrow> P r \<Longrightarrow> find P (rows @ [r]) = Some r"
  by (induction rows) auto

lemma find_append_old: "find P rows = Some x \<Longrightarrow> find P (rows @ rs) = Some x"
  by (induction rows) auto

lemma require_campaign_snoc:
  "require_campaign rows cid = Inr c \<Longrightarrow> require_campaign (rows @ rs) cid = Inr c"
  by (auto simp: require_campaign_def get_campaign_def check_simps find_append_old split: option.splits)

lemma bounded_campaign:
  assumes ok: "ledger_inv db" and c: "require_campaign (db_ledger db) cid = Inr c"
  shows "cam_automaticStop c \<le> cam_hardCeiling c"
    and "overrun_free (db_ledger db) cid \<Longrightarrow> campaign_exposure (db_ledger db) c \<le> cam_automaticStop c"
proof -
  obtain crow where crow: "crow \<in> set (db_ledger db)" "lr_id crow = cid" "is_campaign_row crow" "cam_id c = cid"
    "cam_openingExposure c = coalesce (lr_openingExposure crow) 0"
    "cam_automaticStop c = coalesce (lr_automaticStop crow) 0"
    "cam_hardCeiling c = coalesce (lr_hardCeiling crow) 0"
    by (rule require_campaign_row [OF c])
  then have b: "campaign_bounded (db_ledger db) crow" using ok by (simp add: ledger_inv_def)
  with crow show "cam_automaticStop c \<le> cam_hardCeiling c" by (auto simp: campaign_bounded_def)
  show "campaign_exposure (db_ledger db) c \<le> cam_automaticStop c" if "overrun_free (db_ledger db) cid"
    using b crow that by (auto simp: campaign_bounded_def campaign_exposure_total)
qed

text \<open>A session has no share in its campaign but that of its one reservation.\<close>

lemma reserved_episode:
  assumes ok: "ledger_ok rows" and ins: "insert_row sessions rows (reservation_row i cost) = Inr rows'"
    and first: "\<not> list_ex (\<lambda>r. is_reservation_row r \<and> lr_sessionId r = Some (rq_sessionId i)) rows"
  shows "episode_exposure rows' (rq_campaignId i) (rq_sessionId i) = cost"
proof -
  let ?r = "reservation_row i cost" and ?es = "campaign_entries rows (rq_campaignId i)"
  let ?sid = "rq_sessionId i"
  have es: "campaign_entries rows' (rq_campaignId i) = ?es @ [?r]"
    by (simp add: inserted_facts(1) [OF ins] campaign_entries_snoc)
  have un: "\<not> resolved_in (?es @ [?r]) (lr_id ?r)"
    using fresh_unresolved [OF ok ins] by (simp add: resolved_in_def)
  have "episode_share (?es @ [?r]) ?sid x = 0" if x: "x \<in> set ?es" for x
  proof (cases "is_reservation_row x")
    case True
    then show ?thesis using first x by (auto simp: episode_share_def list_ex_iff campaign_entries_mem)
  next
    case False
    then have t: "x \<in> set rows" "is_terminal_row x"
      using x row_kinds(1) [of x] by (auto simp: campaign_entries_mem)
    obtain p where p: "p \<in> set rows" "is_reservation_row p" "lr_reservationId x = Some (lr_id p)"
      by (rule terminal_has_parent [OF ok t])
    have "lr_id ?r \<noteq> lr_id p" using inserted_facts(2) [OF ins p(1)] by simp
    then have "parent_reservation (?es @ [?r]) x = Some q \<Longrightarrow> q \<in> set ?es \<and> is_reservation_row q" for q
      using p(3) by (auto simp: parent_reservation_def dest!: find_SomeD)
    then have "\<not> holds (parent_reservation (?es @ [?r]) x) (\<lambda>q. lr_sessionId q = Some ?sid)"
      using first by (auto simp: holds_iff list_ex_iff campaign_entries_mem)
    with False show ?thesis by (simp add: episode_share_def)
  qed
  then have "sum_list (map (episode_share (?es @ [?r]) ?sid) ?es) = 0" by (simp cong: map_cong)
  with un show ?thesis by (simp add: episode_exposure_def es episode_share_def [of _ _ ?r])
qed


lemma reservation_row_reads:
  assumes "insert_row sessions rows (reservation_row i cost) = Inr rows'"
    and "require_reservation rows' (rq_reservationId i) = Inr r"
  shows "to_reservation (reservation_row i cost) = Inr r"
proof -
  have "\<not> list_ex (\<lambda>x. lr_id x = rq_reservationId i \<and> is_reservation_row x) rows"
    using inserted_facts(2) [OF assms(1)] by (auto simp: list_ex_iff reservation_row_def Let_def)
  moreover have "lr_id (reservation_row i cost) = rq_reservationId i"
    by (simp add: reservation_row_def Let_def)
  ultimately have "find (\<lambda>x. lr_id x = rq_reservationId i \<and> is_reservation_row x) rows' = Some (reservation_row i cost)"
    unfolding inserted_facts(1) [OF assms(1)] by (intro find_fresh) simp_all
  with assms(2) show ?thesis by (simp add: require_reservation_def check_simps)
qed

lemma to_reservation_of_row:
  "to_reservation (reservation_row i cost) = Inr r \<Longrightarrow>
     res_id r = rq_reservationId i \<and> res_amount r = cost \<and> res_campaignId r = rq_campaignId i \<and>
     res_sessionId r = rq_sessionId i \<and> res_attemptId r = rq_attemptId i \<and>
     res_providerId r = rq_providerId i \<and> res_pricingSnapshotId r = rq_pricingSnapshotId i \<and>
     res_costScope r = runtime_scope (rq_costScope i) \<and>
     res_cloudEgressAdmissionId r = rq_cloudEgressAdmissionId i \<and> res_createdAt r = rq_createdAt i \<and>
     reservation_projection r = (rq_projection i)\<lparr>bp_cacheReadRate := Some (coalesce (bp_cacheReadRate (rq_projection i)) 0)\<rparr>"
  by (auto simp: to_reservation_def reservation_row_def Let_def check_simps number_column_def safe_number_def
      reservation_projection_def)

lemma to_reservation_billing:
  "to_reservation (reservation_row i cost) = Inr r \<Longrightarrow>
     billing_matches_reservation (billing_snapshot (rq_projection i) cost pos) r"
  by (auto simp: to_reservation_def reservation_row_def Let_def check_simps number_column_def safe_number_def
      billing_matches_reservation_def billing_snapshot_def)

lemma projection_with_rate:
  assumes "project_worst_case_cost p = Inr cost"
  shows "project_worst_case_cost (p\<lparr>bp_cacheReadRate := Some (coalesce (bp_cacheReadRate p) 0)\<rparr>) = Inr cost"
  using assms
  by (cases "bp_cacheReadRate p")
    (auto simp: project_worst_case_cost_def projection_checks_def projected_cost_def check_simps
      assert_safe_integer_def safe_non_negative_def max_safe_integer_def)

lemma admittedE:
  assumes "reserve i db = Inr (db', Admitted b pos r)"
  obtains cost c where
    "insert_row (map sw_id (db_sessions db)) (db_ledger db) (reservation_row i cost) = Inr (db_ledger db')"
    "project_worst_case_cost (rq_projection i) = Inr cost" "0 < cost"
    "require_campaign (db_ledger db) (rq_campaignId i) = Inr c"
    "reserve_row_checks (db_ledger db) i c = None"
    "get_position (db_ledger db) (rq_campaignId i) (rq_sessionId i) (rq_episodeCap i) = Inr pos"
    "denial_reason pos cost = None" "b = billing_snapshot (rq_projection i) cost pos"
    "require_reservation (db_ledger db') (rq_reservationId i) = Inr r"
  using assms
  by (auto simp: reserve_def reserve_admitted_def check_simps insert_ledger_row_Inr Let_def
      split: option.splits)

lemma is_admittedE: "is_admitted r \<Longrightarrow> (\<And>db' b pos x. r = Inr (db', Admitted b pos x) \<Longrightarrow> thesis) \<Longrightarrow> thesis"
proof -
  assume a: "is_admitted r" and k: "\<And>db' b pos x. r = Inr (db', Admitted b pos x) \<Longrightarrow> thesis"
  obtain db' out where r: "r = Inr (db', out)" using a by (cases r) (auto simp: is_admitted_def)
  show thesis using a k by (cases out) (auto simp: r is_admitted_def)
qed

lemma ledger_start_empty: "db_ledger ledger_start = []"
  by (simp add: ledger_start_def)

section \<open>Properties\<close>

text \<open>C24. The limits of a campaign hold: after any history of ledger operations from an empty
  table, the exposure of a campaign (opening exposure, open reservations and settled amounts) is
  at most its automatic stop, which is at most its hard ceiling, unless an overrun was recorded
  in it.\<close>

theorem campaign_exposure_bounded:
  assumes "db_ledger db0 = []" "ledger_run db0 ops = Inr db" "require_campaign (db_ledger db) cid = Inr c"
  shows "cam_automaticStop c \<le> cam_hardCeiling c \<and>
    (overrun_free (db_ledger db) cid \<longrightarrow> campaign_exposure (db_ledger db) c \<le> cam_automaticStop c)"
  using bounded_campaign [OF ledger_reached [OF assms(1,2)] assms(3)] by blast

theorem campaign_exposure_bounded_witness:
  "\<exists>c. require_campaign (db_ledger (ledger_after settled_ops)) ''camp'' = Inr c \<and>
     campaign_exposure (db_ledger (ledger_after settled_ops)) c \<le> cam_automaticStop c"
proof -
  obtain c where c: "require_campaign (db_ledger (ledger_after settled_ops)) ''camp'' = Inr c"
    using settled_facts by (auto elim: is_okE)
  with campaign_exposure_bounded [OF ledger_start_empty settled_run c] settled_facts show ?thesis by blast
qed

text \<open>C25. What an admitted reservation does: it reserves exactly the projected worst-case cost, adds
  it once to the exposure of the campaign, makes it the whole exposure of the episode, and keeps
  both within the episode cap and the automatic stop.\<close>

theorem admitted_reservation_effect:
  assumes "db_ledger db0 = []" "ledger_run db0 ops = Inr db"
    and "reserve i db = Inr (db', Admitted b pos r)"
  shows "\<exists>c. require_campaign (db_ledger db) (rq_campaignId i) = Inr c \<and>
    require_campaign (db_ledger db') (rq_campaignId i) = Inr c \<and>
    project_worst_case_cost (rq_projection i) = Inr (res_amount r) \<and> 0 < res_amount r \<and>
    campaign_exposure (db_ledger db') c = campaign_exposure (db_ledger db) c + res_amount r \<and>
    episode_exposure (db_ledger db') (rq_campaignId i) (rq_sessionId i) = res_amount r \<and>
    campaign_exposure (db_ledger db') c \<le> cam_automaticStop c \<and> res_amount r \<le> rq_episodeCap i"
proof -
  obtain cost c where a:
    "insert_row (map sw_id (db_sessions db)) (db_ledger db) (reservation_row i cost) = Inr (db_ledger db')"
    "project_worst_case_cost (rq_projection i) = Inr cost" "0 < cost"
    "require_campaign (db_ledger db) (rq_campaignId i) = Inr c"
    "reserve_row_checks (db_ledger db) i c = None"
    "get_position (db_ledger db) (rq_campaignId i) (rq_sessionId i) (rq_episodeCap i) = Inr pos"
    "denial_reason pos cost = None" "require_reservation (db_ledger db') (rq_reservationId i) = Inr r"
    by (rule admittedE [OF assms(3)])
  have ok: "ledger_ok (db_ledger db)" using ledger_reached [OF assms(1,2)] by (simp add: ledger_inv_def)
  have cost: "res_amount r = cost" using to_reservation_of_row [OF reservation_row_reads [OF a(1,8)]] by blast
  have id: "cam_id c = rq_campaignId i" using require_campaign_row [OF a(4)] by blast
  have row: "db_ledger db' = db_ledger db @ [reservation_row i cost]" by (rule inserted_facts(1) [OF a(1)])
  have ex: "campaign_exposure (db_ledger db') c = campaign_exposure (db_ledger db) c + cost"
    using total_share_reservation [OF ok a(1)] by (simp add: campaign_exposure_total id row)
  have "\<not> list_ex (\<lambda>x. is_reservation_row x \<and> lr_sessionId x = Some (rq_sessionId i)) (db_ledger db)"
    using a(5) by (simp add: reserve_row_checks_def check_simps)
  then have ep: "episode_exposure (db_ledger db') (rq_campaignId i) (rq_sessionId i) = cost"
    by (rule reserved_episode [OF ok a(1)])
  have rem: "pos_remainingEpisode pos = remaining_of (rq_episodeCap i)
        (episode_exposure (db_ledger db) (rq_campaignId i) (rq_sessionId i))"
      "pos_remainingAutomaticStop pos = remaining_of (cam_automaticStop c) (campaign_exposure (db_ledger db) c)"
      "safe_non_negative (episode_exposure (db_ledger db) (rq_campaignId i) (rq_sessionId i))"
    using a(4) by (auto intro: get_positionE [OF a(6)])
  have "campaign_exposure (db_ledger db) c + cost \<le> cam_automaticStop c"
    "episode_exposure (db_ledger db) (rq_campaignId i) (rq_sessionId i) + cost \<le> rq_episodeCap i"
    using denial_none(2,4) [OF a(7)] rem(1,2) by (auto intro!: remaining_of_covers [OF a(3)])
  with rem(3) a ex ep cost show ?thesis
    by (auto simp: row require_campaign_snoc safe_non_negative_def intro!: exI [of _ c])
qed


theorem admitted_reservation_effect_witness:
  "\<exists>db' b pos r. reserve (sample_reserve ''t'') (ledger_after settled_ops) = Inr (db', Admitted b pos r) \<and>
     episode_exposure (db_ledger db') ''camp'' ''t'' = res_amount r"
proof -
  obtain db' b pos r where r: "reserve (sample_reserve ''t'') (ledger_after settled_ops) = Inr (db', Admitted b pos r)"
    using settled_facts by (auto elim: is_admittedE)
  from admitted_reservation_effect [OF ledger_start_empty settled_run r] r show ?thesis
    by (auto simp: sample_reserve_def)
qed

text \<open>C26. A reservation is resolved at most once, and an episode reserves at most once: after any
  history every settlement, release or overrun belongs to one reservation of the same campaign
  and cost scope, no other row resolves that reservation, it settles more than was reserved
  exactly when it is an overrun, and no two reservations are of the same session.\<close>

theorem reservations_resolved_once:
  assumes "db_ledger db0 = []" "ledger_run db0 ops = Inr db"
  shows "one_per_episode (db_ledger db) \<and>
    (\<forall>t\<in>set (db_ledger db). is_terminal_row t \<longrightarrow>
       (\<exists>p\<in>set (db_ledger db). is_reservation_row p \<and> lr_reservationId t = Some (lr_id p) \<and>
          lr_campaignId p = lr_campaignId t \<and> lr_costScope p = lr_costScope t \<and>
          (lr_rowType t = Row_overrun \<longleftrightarrow> lr_amount p < lr_amount t) \<and>
          (\<forall>u\<in>set (db_ledger db). is_terminal_row u \<and> lr_reservationId u = Some (lr_id p) \<longrightarrow> u = t)))"
proof (intro conjI ballI impI)
  have inv: "ledger_inv db" by (rule ledger_reached [OF assms])
  then show "one_per_episode (db_ledger db)" by (simp add: ledger_inv_def)
  have ok: "ledger_ok (db_ledger db)" using inv by (simp add: ledger_inv_def)
  fix t assume t: "t \<in> set (db_ledger db)" "is_terminal_row t"
  obtain p where p: "p \<in> set (db_ledger db)" "is_reservation_row p" "lr_reservationId t = Some (lr_id p)"
    "lr_campaignId p = lr_campaignId t" "lr_costScope p = lr_costScope t"
    by (rule terminal_has_parent [OF ok t])
  have "row_ok t" "parent_ok (db_ledger db) t" using ok t(1) by (simp_all add: ledger_ok_def list_all_iff)
  then have "lr_rowType t = Row_overrun \<longleftrightarrow> lr_amount p < lr_amount t"
    by (rule terminal_amounts [OF ok _ _ t(2) p(1-3)])
  moreover have "u = t" if "u \<in> set (db_ledger db)" "is_terminal_row u" "lr_reservationId u = Some (lr_id p)" for u
  proof (rule unique_byD [where key = terminal_reservation_key])
    show "unique_by terminal_reservation_key (db_ledger db)" using ok by (simp add: ledger_ok_def indexes_ok_def)
    show "terminal_reservation_key u = Some (lr_id p)" "terminal_reservation_key t = Some (lr_id p)"
      using that t(2) p(3) by (simp_all add: terminal_reservation_key_def)
  qed (use that t(1) in simp_all)
  ultimately show "\<exists>p\<in>set (db_ledger db). is_reservation_row p \<and> lr_reservationId t = Some (lr_id p) \<and>
      lr_campaignId p = lr_campaignId t \<and> lr_costScope p = lr_costScope t \<and>
      (lr_rowType t = Row_overrun \<longleftrightarrow> lr_amount p < lr_amount t) \<and>
      (\<forall>u\<in>set (db_ledger db). is_terminal_row u \<and> lr_reservationId u = Some (lr_id p) \<longrightarrow> u = t)"
    using p by blast
qed

theorem reservations_resolved_once_witness: "one_per_episode (db_ledger (ledger_after overrun_ops))"
  using reservations_resolved_once [OF ledger_start_empty overrun_run] by blast

text \<open>The ledger is append-only: every operation that succeeds leaves all rows in place, in
  their order, and adds new rows at the end.\<close>

theorem ledger_only_grows:
  assumes "ledger_run db ops = Inr db'"
  shows "\<exists>new. db_ledger db' = db_ledger db @ new"
  by (rule ledger_table.run_appends [OF assms])

theorem ledger_only_grows_witness: "\<exists>new. db_ledger (ledger_after settled_ops) = db_ledger ledger_start @ new"
  by (rule ledger_only_grows [OF settled_run])

text \<open>C28. An overrun disables its campaign for good: once a campaign has an overrun, no later
  request for a reservation in it is admitted. The request is either rejected with an error or
  refused with the reason campaign_overrun, and nothing is written.\<close>

theorem overrun_blocks_campaign:
  assumes "\<not> overrun_free (db_ledger db) cid" "ledger_run db ops = Inr db'" "rq_campaignId i = cid"
  shows "\<not> is_ok (reserve i db') \<or> (\<exists>b pos. reserve i db' = Inr (db', Refused Campaign_overrun b pos))"
proof (cases "reserve i db'")
  case (Inr r)
  obtain new where "db_ledger db' = db_ledger db @ new" using ledger_table.run_appends [OF assms(2)] by blast
  then have over: "list_ex (\<lambda>r. lr_rowType r = Row_overrun) (campaign_entries (db_ledger db') cid)"
    using assms(1) by (auto simp: overrun_free_def campaign_entries_def)
  obtain c cost pos where pos: "reserve_input_checks i = None" "project_worst_case_cost (rq_projection i) = Inr cost"
    "\<not> cost \<le> 0" "require_campaign (db_ledger db') cid = Inr c" "reserve_row_checks (db_ledger db') i c = None"
    "get_position (db_ledger db') cid (rq_sessionId i) (rq_episodeCap i) = Inr pos"
    using Inr assms(3) by (auto simp: reserve_def check_simps)
  have "pos_campaignDisabled pos" using over by (auto intro: get_positionE [OF pos(6)])
  then show ?thesis using pos assms(3) by (simp add: reserve_def throw_if_def denial_reason_def Let_def)
qed simp

theorem overrun_blocks_campaign_witness:
  "\<exists>b pos. reserve (sample_reserve ''t'') (ledger_after overrun_ops) =
     Inr (ledger_after overrun_ops, Refused Campaign_overrun b pos)"
proof -
  have "ledger_run (ledger_after overrun_ops) [] = Inr (ledger_after overrun_ops)"
    "rq_campaignId (sample_reserve ''t'') = ''camp''" by (simp_all add: sample_reserve_def)
  from overrun_blocks_campaign [OF _ this] overrun_facts show ?thesis by blast
qed

text \<open>C29. A reservation reads back as it was written: the reservation an admission returns is the
  one the table gives for its id, it carries the request's identities, and it passes both checks
  that the reconciliation makes of it later, the one of its projection and the one of its billing
  snapshot.\<close>

theorem admitted_reservation_reads_back:
  assumes "reserve i db = Inr (db', Admitted b pos r)"
  shows "require_reservation (db_ledger db') (rq_reservationId i) = Inr r \<and>
    assert_reservation_projection r = None \<and> billing_matches_reservation b r \<and>
    res_id r = rq_reservationId i \<and> res_sessionId r = rq_sessionId i \<and> res_attemptId r = rq_attemptId i \<and>
    res_campaignId r = rq_campaignId i \<and> res_costScope r = runtime_scope (rq_costScope i) \<and>
    res_cloudEgressAdmissionId r = rq_cloudEgressAdmissionId i \<and> res_createdAt r = rq_createdAt i"
proof -
  obtain cost where a:
    "insert_row (map sw_id (db_sessions db)) (db_ledger db) (reservation_row i cost) = Inr (db_ledger db')"
    "project_worst_case_cost (rq_projection i) = Inr cost" "0 < cost"
    "b = billing_snapshot (rq_projection i) cost pos"
    "require_reservation (db_ledger db') (rq_reservationId i) = Inr r"
    by (rule admittedE [OF assms])
  note r = to_reservation_of_row [OF reservation_row_reads [OF a(1,5)]]
  have "assert_reservation_projection r = None"
    using r projection_with_rate [OF a(2)] a(3)
    by (simp add: assert_reservation_projection_def Let_def check_simps reconciliation_failure_if_def)
  moreover have "billing_matches_reservation b r"
    unfolding a(4) by (rule to_reservation_billing [OF reservation_row_reads [OF a(1,5)]])
  ultimately show ?thesis using r a(5) by blast
qed


theorem admitted_reservation_reads_back_witness:
  "\<exists>db' b pos r. reserve (sample_reserve ''t'') (ledger_after settled_ops) = Inr (db', Admitted b pos r) \<and>
     assert_reservation_projection r = None \<and> billing_matches_reservation b r"
proof -
  obtain db' b pos r where r: "reserve (sample_reserve ''t'') (ledger_after settled_ops) = Inr (db', Admitted b pos r)"
    using settled_facts by (auto elim: is_admittedE)
  from admitted_reservation_reads_back [OF r] r show ?thesis by blast
qed

section \<open>The worst case\<close>

lemma ceil_component_mono: "0 \<le> rate \<Longrightarrow> a \<le> b \<Longrightarrow> ceil_component a rate \<le> ceil_component b rate"
  unfolding ceil_component_def by (intro zdiv_mono1 diff_right_mono add_right_mono mult_right_mono) auto

lemma ceil_component_rate: "0 \<le> tokens \<Longrightarrow> r \<le> s \<Longrightarrow> ceil_component tokens r \<le> ceil_component tokens s"
  unfolding ceil_component_def by (intro zdiv_mono1 diff_right_mono add_right_mono mult_left_mono) auto

lemma ceil_component_split: "ceil_component a rate + ceil_component b rate \<le> ceil_component (a + b) rate + 1"
  unfolding ceil_component_def by (simp add: distrib_right)

lemma ceil_component_nonneg: "0 \<le> a \<Longrightarrow> 0 \<le> rate \<Longrightarrow> 0 \<le> ceil_component a rate"
  by (simp add: ceil_component_def pos_imp_zdiv_nonneg_iff)

lemma ceil_component_zero [simp]: "ceil_component 0 rate = 0"
  by (simp add: ceil_component_def)

text \<open>C30. The reserved worst case bounds the host-priced cost up to the rounding of one component:
  usage within the reserved token counts costs at most one micro-dollar more than the reservation,
  and never more when no cached input is reported.\<close>

theorem host_priced_cost_bound:
  assumes "assert_reservation_projection r = None" "actual_host_priced_cost r u = Some cost"
    and "au_inputTokens u \<le> res_billableInputTokens r" "0 \<le> coalesce (au_cacheReadTokens u) 0"
    and "au_outputTokens u + au_reasoningTokens u \<le> res_requestedMaxOutputTokens r"
  shows "cost \<le> res_amount r + 1 \<and> (coalesce (au_cacheReadTokens u) 0 = 0 \<longrightarrow> cost \<le> res_amount r)"
proof -
  let ?c = "coalesce (au_cacheReadTokens u) 0"
  have p: "projected_cost (reservation_projection r) = res_amount r" "0 \<le> res_inputRate r" "0 \<le> res_outputRate r"
    "0 \<le> res_cacheReadRate r" "res_cacheReadRate r \<le> res_inputRate r" "0 \<le> res_cacheReadTokens r"
    using assms(1)
    by (auto simp: assert_reservation_projection_def Let_def check_simps reconciliation_failure_if_def
        project_worst_case_cost_def projection_checks_def reservation_projection_def safe_number_def
        assert_safe_integer_def safe_non_negative_def)
  have a: "cost = ceil_component (au_inputTokens u - ?c) (res_inputRate r) +
      ceil_component (au_outputTokens u + au_reasoningTokens u) (res_outputRate r) +
      ceil_component ?c (res_cacheReadRate r) + res_providerFeeCeiling r"
    using assms(2) by (auto simp: actual_host_priced_cost_def Let_def split: if_splits)
  have out: "ceil_component (au_outputTokens u + au_reasoningTokens u) (res_outputRate r)
      \<le> ceil_component (res_requestedMaxOutputTokens r) (res_outputRate r)"
    by (rule ceil_component_mono [OF p(3) assms(5)])
  have inp: "ceil_component (au_inputTokens u) (res_inputRate r) \<le> ceil_component (res_billableInputTokens r) (res_inputRate r)"
    by (rule ceil_component_mono [OF p(2) assms(3)])
  have "ceil_component (au_inputTokens u - ?c) (res_inputRate r) + ceil_component ?c (res_cacheReadRate r)
      \<le> ceil_component (au_inputTokens u) (res_inputRate r) + 1"
    using ceil_component_split [of "au_inputTokens u - ?c" "res_inputRate r" ?c]
      ceil_component_rate [OF assms(4) p(5)] by simp
  moreover have amount: "res_amount r = ceil_component (res_billableInputTokens r) (res_inputRate r) +
      ceil_component (res_requestedMaxOutputTokens r) (res_outputRate r) +
      ceil_component (res_cacheReadTokens r) (res_cacheReadRate r) + res_providerFeeCeiling r"
    using p(1) by (simp add: projected_cost_def reservation_projection_def)
  moreover have "0 \<le> ceil_component (res_cacheReadTokens r) (res_cacheReadRate r)"
    by (rule ceil_component_nonneg [OF p(6,4)])
  ultimately have "cost \<le> res_amount r + 1" and
    "?c = 0 \<Longrightarrow> cost \<le> ceil_component (au_inputTokens u) (res_inputRate r) +
      ceil_component (res_requestedMaxOutputTokens r) (res_outputRate r) + res_providerFeeCeiling r"
    using a out inp by simp_all
  moreover have "ceil_component (au_inputTokens u) (res_inputRate r) +
      ceil_component (res_requestedMaxOutputTokens r) (res_outputRate r) + res_providerFeeCeiling r \<le> res_amount r"
    using amount inp ceil_component_nonneg [OF p(6,4)] by linarith
  ultimately show ?thesis by auto
qed

text \<open>A reservation of two input tokens and one output token at one micro-dollar per million
  tokens, and usage of exactly these tokens with one of them read from the cache.\<close>

definition rounding_reservation :: budget_reservation where
  "rounding_reservation = \<lparr>res_id = ''r'', res_campaignId = ''c'', res_sessionId = ''s'', res_attemptId = ''a'',
     res_providerId = ''cloud'', res_pricingSnapshotId = ''p'', res_costScope = Scope_actual,
     res_cloudEgressAdmissionId = None, res_amount = 2, res_billableInputTokens = 2,
     res_requestedMaxOutputTokens = 1, res_cacheReadTokens = 0, res_inputRate = 1, res_outputRate = 1,
     res_cacheReadRate = 1, res_providerFeeCeiling = 0, res_createdAt = sample_time\<rparr>"

definition rounding_usage :: attempt_usage where
  "rounding_usage = \<lparr>au_inputTokens = 2, au_outputTokens = 1, au_reasoningTokens = 0,
     au_cacheReadTokens = Some 1, au_reported = True\<rparr>"

theorem host_priced_cost_bound_witness:
  "actual_host_priced_cost rounding_reservation rounding_usage = Some 3 \<and> (3::int) \<le> res_amount rounding_reservation + 1"
proof -
  have "assert_reservation_projection rounding_reservation = None"
    "actual_host_priced_cost rounding_reservation rounding_usage = Some 3"
    by (simp_all add: assert_reservation_projection_def actual_host_priced_cost_def reservation_projection_def
        project_worst_case_cost_def projection_checks_def projected_cost_def safe_number_def
        assert_safe_integer_def assert_safe_positive_def safe_non_negative_def safe_positive_def
        is_safe_integer_def max_safe_integer_def reconciliation_failure_if_def ceil_component_def
        rounding_reservation_def rounding_usage_def checks.simps throw_if_def)
  from host_priced_cost_bound [OF this] this(2) show ?thesis
    by (simp add: rounding_reservation_def rounding_usage_def)
qed

end
