(* ===== verification/SampleReconciled.thy ===== *)
theory SampleReconciled
  imports SampleLedger
begin

text \<open>The reconciliation of the concrete database, evaluated.\<close>

lemma reconciled_db_accepted: "is_ok (assert_event_reconciled sample_store_env reconciled_db)"
  by code_simp

text \<open>The CHECK of the table that asks a settlement for a disposition does not hold a NULL: the
  comparison is NULL and passes.\<close>

lemma settlement_without_disposition_accepted:
  "is_ok (insert_row [''s''] (take 2 reconciled_rows) ((reconciled_rows ! 2)\<lparr>lr_requestDisposition := None\<rparr>))"
  by code_simp

end
