(* ===== verification/ReconciliationFacts.thy ===== *)
theory ReconciliationFacts
  imports LedgerProperties SampleReconciled
begin

text \<open>
  What a passed reconciliation of the ledger with the event log says about every reservation.
\<close>

section \<open>Lemmas\<close>

lemma all_results_mem:
  "all_results f xs = Inr ys \<Longrightarrow>
     (\<forall>x\<in>set xs. \<exists>y\<in>set ys. f x = Inr y) \<and> (\<forall>y\<in>set ys. \<exists>x\<in>set xs. f x = Inr y)"
  by (induction xs arbitrary: ys) (fastforce simp: check_simps)+

lemma checks_map_None: "checks (map f xs) = None \<longleftrightarrow> (\<forall>x\<in>set xs. f x = None)"
  by (induction xs) (auto simp: check_simps)

lemma set_by_creation [simp]: "set (by_creation rows) = set rows"
  by (simp add: by_creation_def)

lemma reconcile_attempts_linked:
  assumes "reconcile_attempts rows rs ts s as linked = Inr linked'" "i \<in> set linked'" "i \<notin> set linked"
  shows "\<exists>a\<in>set as. \<exists>r. at_budgetReservationId (rec_payload (ar_start a)) = Some i \<and>
    reservation_by_id rs i = Some r \<and> linked_attempt_checks rows ts s a r = None"
  using assms
proof (induction as arbitrary: linked)
  case Nil
  then show ?case by simp
next
  case (Cons a as)
  show ?case
  proof (cases "at_budgetReservationId (rec_payload (ar_start a))")
    case None
    with Cons show ?thesis by auto
  next
    case (Some j)
    then obtain r where r: "reservation_by_id rs j = Some r" "linked_attempt_checks rows ts s a r = None"
      "reconcile_attempts rows rs ts s as (j # linked) = Inr linked'"
      using Cons.prems(1) by (auto simp: check_simps split: option.splits)
    show ?thesis
    proof (cases "i = j")
      case True
      with Some r show ?thesis by auto
    next
      case False
      with Cons.IH [OF r(3) Cons.prems(2)] Cons.prems(3) show ?thesis by auto
    qed
  qed
qed

lemma reconcile_sessions_linked:
  assumes "reconcile_sessions env db rs ts sids linked = Inr linked'" "i \<in> set linked'" "i \<notin> set linked"
  shows "\<exists>sid s a r. store_replay env db sid = Inr s \<and> a \<in> set (st_inferenceAttempts s) \<and>
    at_budgetReservationId (rec_payload (ar_start a)) = Some i \<and>
    reservation_by_id rs i = Some r \<and> linked_attempt_checks (db_ledger db) ts s a r = None"
  using assms
proof (induction sids arbitrary: linked)
  case Nil
  then show ?case by simp
next
  case (Cons sid sids)
  obtain s l where s: "store_replay env db sid = Inr s"
    "reconcile_attempts (db_ledger db) rs ts s (st_inferenceAttempts s) linked = Inr l"
    "reconcile_sessions env db rs ts sids l = Inr linked'"
    using Cons.prems(1) by (auto simp: check_simps)
  show ?case
  proof (cases "i \<in> set l")
    case True
    from reconcile_attempts_linked [OF s(2) this Cons.prems(3)] s(1) show ?thesis by blast
  next
    case False
    from Cons.IH [OF s(3) Cons.prems(2) this] show ?thesis .
  qed
qed

lemma scan_reservations_distinct:
  "scan_reservations rs seen = None \<Longrightarrow> distinct (map res_id rs) \<and> set (map res_id rs) \<inter> set seen = {}"
proof (induction rs arbitrary: seen)
  case Nil
  then show ?case by simp
next
  case (Cons r rs)
  then have "res_id r \<notin> set seen" "scan_reservations rs (res_id r # seen) = None"
    by (auto simp: check_simps reconciliation_failure_if_def list_ex_iff)
  with Cons.IH [of "res_id r # seen"] show ?case by auto
qed

lemma to_reservation_row:
  "to_reservation row = Inr r \<Longrightarrow>
     res_id r = lr_id row \<and> res_amount r = lr_amount row \<and> res_costScope r = lr_costScope row \<and>
     res_sessionId r = coalesce (lr_sessionId row) [] \<and>
     res_cloudEgressAdmissionId r = lr_cloudEgressAdmissionId row"
  by (auto simp: to_reservation_def check_simps safe_number_def)

lemma to_terminal_row:
  "to_terminal row = Inr t \<Longrightarrow>
     te_reservationId t = coalesce (lr_reservationId row) [] \<and> te_amount t = lr_amount row"
  by (auto simp: to_terminal_def check_simps safe_number_def)

lemma reconciled_row:
  assumes rec: "assert_event_reconciled env db = Inr ()" and row: "row \<in> set (db_ledger db)" "is_reservation_row row"
  obtains r ts sid s a where "to_reservation row = Inr r"
    "all_results to_terminal (by_creation (filter is_terminal_row (db_ledger db))) = Inr ts"
    "store_replay env db sid = Inr s" "a \<in> set (st_inferenceAttempts s)"
    "at_budgetReservationId (rec_payload (ar_start a)) = Some (lr_id row)"
    "linked_attempt_checks (db_ledger db) ts s a r = None"
proof -
  obtain rs ts linked where rs: "all_results to_reservation (by_creation (filter is_reservation_row (db_ledger db))) = Inr rs"
    "all_results to_terminal (by_creation (filter is_terminal_row (db_ledger db))) = Inr ts"
    "scan_reservations rs [] = None"
    "reconcile_sessions env db rs ts (reconciled_session_ids rs (db_events db)) [] = Inr linked"
    and all: "\<And>r. r \<in> set rs \<Longrightarrow> res_id r \<in> set linked"
    using rec by (auto simp: assert_event_reconciled_def check_simps reconciliation_failure_if_def list_ex_iff
        checks_map_None)
  have "row \<in> set (by_creation (filter is_reservation_row (db_ledger db)))" using row by simp
  then obtain r where r: "r \<in> set rs" "to_reservation row = Inr r" using all_results_mem [OF rs(1)] by blast
  note id = to_reservation_row [OF r(2)]
  obtain sid s a r' where a: "store_replay env db sid = Inr s" "a \<in> set (st_inferenceAttempts s)"
    "at_budgetReservationId (rec_payload (ar_start a)) = Some (res_id r)"
    "reservation_by_id rs (res_id r) = Some r'" "linked_attempt_checks (db_ledger db) ts s a r' = None"
    using reconcile_sessions_linked [OF rs(4) all [OF r(1)]] by auto
  have "r' \<in> set rs" "res_id r' = res_id r"
    using a(4) by (auto simp: reservation_by_id_def dest: find_SomeD)
  then have "r' = r"
    using scan_reservations_distinct [OF rs(3)] r(1) by (auto simp: distinct_map dest: inj_onD)
  with that r(2) rs(2) a id show thesis by auto
qed


text \<open>Outside a simulation no decision carries an egress admission.\<close>

definition egress_is_simulated :: "session_state \<Rightarrow> bool" where
  "egress_is_simulated s \<longleftrightarrow>
     (\<forall>d\<in>set (st_routingDecisions s).
        rd_cloudEgressAdmissionId (rec_payload d) \<noteq> None \<longrightarrow> rd_costScope (rec_payload d) = Some Rt_simulation)"

lemma egress_is_simulated_step:
  assumes "egress_is_simulated s" "reduce_next env s e = Inr s'"
  shows "egress_is_simulated s'"
  using decisions_step [OF assms(2)]
proof
  assume "st_routingDecisions s' = st_routingDecisions s"
  with assms(1) show ?thesis by (simp add: egress_is_simulated_def)
next
  assume "\<exists>d policy. ev_data e = RoutingDecisionRecorded d \<and> v2_policy s = Some policy \<and>
        routing_checks env (next_state s e) e policy d = None \<and>
        st_routingDecisions s' = st_routingDecisions s @ [recorded e d]"
  then obtain d policy where d: "routing_checks env (next_state s e) e policy d = None"
    "st_routingDecisions s' = st_routingDecisions s @ [recorded e d]" by blast
  then have "scope_checks (next_state s e) e policy d = None"
    by (simp add: routing_checks_def check_simps)
  then have "rd_cloudEgressAdmissionId d \<noteq> None \<longrightarrow> rd_costScope d = Some Rt_simulation"
    by (auto simp: scope_checks_def simulation_checks_def check_simps split: if_splits option.splits)
  with assms(1) d(2) show ?thesis by (auto simp: egress_is_simulated_def)
qed


lemma egress_is_simulated_replay: "store_replay env db sid = Inr s \<Longrightarrow> egress_is_simulated s"
proof -
  assume "store_replay env db sid = Inr s"
  then obtain es where es: "replay_session (se_replay env) es = Inr s"
    by (auto simp: store_replay_def replay_events_def check_simps split: if_splits)
  show ?thesis
  proof (rule session_invariant [where P = egress_is_simulated, OF _ _ es])
    show "egress_is_simulated t" if "reduce_first e = Inr t" for e t
      using reduce_first_ok [OF that] by (auto simp: egress_is_simulated_def create_initial_session_state_def)
  qed (rule egress_is_simulated_step)
qed

lemma linked_decision:
  assumes "linked_attempt_checks rows ts s a r = None"
  obtains d where "attempt_decision s a = Some d" "decision_matches d r" "start_matches s (ar_start a) r"
    "resolution_checks s a (terminal_by_reservation ts (res_id r)) r = None"
  using assms
  by (auto simp: linked_attempt_checks_def check_simps reconciliation_failure_if_def split: option.splits)

lemma attempt_decision_mem:
  "attempt_decision s a = Some d \<Longrightarrow> \<exists>r\<in>set (st_routingDecisions s). d = rec_payload r"
  by (auto simp: attempt_decision_def dest: find_SomeD)

lemma terminal_by_reservation_rows:
  assumes "all_results to_terminal (by_creation (filter is_terminal_row rows)) = Inr ts"
  shows "terminal_by_reservation ts i = Some t \<Longrightarrow>
      \<exists>row\<in>set rows. is_terminal_row row \<and> coalesce (lr_reservationId row) [] = i \<and> lr_amount row = te_amount t"
    and "terminal_by_reservation ts i = None \<Longrightarrow> row \<in> set rows \<Longrightarrow> is_terminal_row row \<Longrightarrow>
      lr_reservationId row \<noteq> Some i"
proof -
  note m = all_results_mem [OF assms]
  show "\<exists>row\<in>set rows. is_terminal_row row \<and> coalesce (lr_reservationId row) [] = i \<and> lr_amount row = te_amount t"
    if "terminal_by_reservation ts i = Some t"
  proof -
    have t: "t \<in> set ts" "te_reservationId t = i"
      using that by (auto simp: terminal_by_reservation_def dest: find_SomeD)
    then obtain row where "row \<in> set rows" "is_terminal_row row" "to_terminal row = Inr t" using m by auto
    with t(2) to_terminal_row show ?thesis by auto
  qed
  show "lr_reservationId row \<noteq> Some i"
    if none: "terminal_by_reservation ts i = None" and row: "row \<in> set rows" "is_terminal_row row"
  proof
    assume r: "lr_reservationId row = Some i"
    have "row \<in> set (by_creation (filter is_terminal_row rows))" using row by simp
    with m obtain t where t: "t \<in> set ts" "to_terminal row = Inr t" by blast
    have "te_reservationId t = i" using to_terminal_row [OF t(2)] r by simp
    with t(1) none show False by (auto simp: terminal_by_reservation_def find_None_iff)
  qed
qed

section \<open>Properties\<close>

text \<open>C31. In a reconciled database every reservation is backed by the log: its session has an attempt
  that names it, the decision of that attempt admitted the cloud provider at exactly the reserved
  cost, and either the attempt is open, the session still runs and no row resolves the
  reservation, or the attempt has finished and a terminal row carries exactly its cost.\<close>

theorem reconciled_reservations:
  assumes "assert_event_reconciled env db = Inr ()" "row \<in> set (db_ledger db)" "is_reservation_row row"
  shows "\<exists>sid s a d. store_replay env db sid = Inr s \<and> coalesce (lr_sessionId row) [] = st_id s \<and>
    a \<in> set (st_inferenceAttempts s) \<and> at_budgetReservationId (rec_payload (ar_start a)) = Some (lr_id row) \<and>
    attempt_decision s a = Some d \<and> rd_reasonCode d = Rr_cloud_admitted \<and>
    holds (rd_billing d) (\<lambda>b. bl_projectedCostMicrousd b = lr_amount row) \<and>
    (case ar_finished a of
       None \<Rightarrow> st_status s = Running \<and>
         (\<forall>t\<in>set (db_ledger db). is_terminal_row t \<longrightarrow> lr_reservationId t \<noteq> Some (lr_id row))
     | Some f \<Rightarrow> (\<exists>t\<in>set (db_ledger db). is_terminal_row t \<and> coalesce (lr_reservationId t) [] = lr_id row \<and>
         lr_amount t = co_amountMicrousd (fin_cost (rec_payload f))))"
proof -
  obtain r ts sid s a where a: "to_reservation row = Inr r"
    "all_results to_terminal (by_creation (filter is_terminal_row (db_ledger db))) = Inr ts"
    "store_replay env db sid = Inr s" "a \<in> set (st_inferenceAttempts s)"
    "at_budgetReservationId (rec_payload (ar_start a)) = Some (lr_id row)"
    "linked_attempt_checks (db_ledger db) ts s a r = None"
    by (rule reconciled_row [OF assms])
  note row = to_reservation_row [OF a(1)] and terminals = terminal_by_reservation_rows [OF a(2)]
  obtain d where d: "attempt_decision s a = Some d" "decision_matches d r" "start_matches s (ar_start a) r"
    "resolution_checks s a (terminal_by_reservation ts (res_id r)) r = None"
    by (rule linked_decision [OF a(6)])
  have "case ar_finished a of
       None \<Rightarrow> st_status s = Running \<and>
         (\<forall>t\<in>set (db_ledger db). is_terminal_row t \<longrightarrow> lr_reservationId t \<noteq> Some (lr_id row))
     | Some f \<Rightarrow> (\<exists>t\<in>set (db_ledger db). is_terminal_row t \<and> coalesce (lr_reservationId t) [] = lr_id row \<and>
         lr_amount t = co_amountMicrousd (fin_cost (rec_payload f)))"
    using d(4) terminals(2) terminals(1) [of "lr_id row"] row
    by (auto simp: resolution_checks_def check_simps reconciliation_failure_if_def finish_matches_def Let_def
        split: option.splits)
  moreover have "coalesce (lr_sessionId row) [] = st_id s"
    using d(3) row by (simp add: start_matches_def Let_def)
  moreover have "rd_reasonCode d = Rr_cloud_admitted \<and> holds (rd_billing d) (\<lambda>b. bl_projectedCostMicrousd b = lr_amount row)"
    using d(2) row by (auto simp: decision_matches_def billing_matches_reservation_def holds_iff)
  ultimately show ?thesis using a d(1) by blast
qed


lemma reconciled_db_ok: "assert_event_reconciled sample_store_env reconciled_db = Inr ()"
  using reconciled_db_accepted by (auto elim!: is_okE)

theorem reconciled_reservations_witness:
  "\<exists>sid s. store_replay sample_store_env reconciled_db sid = Inr s \<and> st_id s = ''s'' \<and>
     (\<exists>a\<in>set (st_inferenceAttempts s). at_budgetReservationId (rec_payload (ar_start a)) = Some ''r1'')"
proof -
  let ?row = "reconciled_rows ! 1"
  have row: "?row \<in> set (db_ledger reconciled_db)" "is_reservation_row ?row" "lr_id ?row = ''r1''"
    "coalesce (lr_sessionId ?row) [] = ''s''"
    by (simp_all add: reconciled_db_def reconciled_rows_def reservation_row_def is_reservation_row_def Let_def)
  obtain sid s a where "store_replay sample_store_env reconciled_db sid = Inr s" "''s'' = st_id s"
    "a \<in> set (st_inferenceAttempts s)" "at_budgetReservationId (rec_payload (ar_start a)) = Some ''r1''"
    using reconciled_reservations [OF reconciled_db_ok row(1,2)] unfolding row(3,4) by blast
  then show ?thesis by (metis (no_types))
qed

text \<open>C32. In a reconciled database no reservation in the scope of actual costs has an egress
  admission: outside a simulation the reducer forbids the identity in a decision. As \<open>reserve\<close> asks
  for one, a reservation it makes in that scope can never be reconciled.\<close>

theorem actual_reservations_never_reconcile:
  assumes "reserve i db0 = Inr (db1, Admitted b pos r)" "rq_costScope i = Rt_actual"
    and "set (db_ledger db1) \<subseteq> set (db_ledger db)"
  shows "assert_event_reconciled env db \<noteq> Inr ()"
proof
  assume rec: "assert_event_reconciled env db = Inr ()"
  obtain cost where c: "insert_row (map sw_id (db_sessions db0)) (db_ledger db0) (reservation_row i cost)
      = Inr (db_ledger db1)"
    by (rule admittedE [OF assms(1)])
  let ?row = "reservation_row i cost"
  have row: "?row \<in> set (db_ledger db)" using inserted_facts(1) [OF c] assms(3) by auto
  obtain ts sid s a r' where a: "to_reservation ?row = Inr r'" "store_replay env db sid = Inr s"
    "linked_attempt_checks (db_ledger db) ts s a r' = None"
    by (rule reconciled_row [OF rec row]) auto
  obtain d where d: "attempt_decision s a = Some d" "decision_matches d r'"
    by (rule linked_decision [OF a(3)])
  have "rq_cloudEgressAdmissionId i \<noteq> None"
    using assms(1) by (auto simp: reserve_def reserve_input_checks_def check_simps split: option.splits)
  then have "rd_cloudEgressAdmissionId d \<noteq> None" "persisted_event_cost_scope (rd_costScope d) = Scope_actual"
    using d(2) to_reservation_of_row [OF a(1)] assms(2) by (auto simp: decision_matches_def runtime_scope_def)
  moreover have "rd_cloudEgressAdmissionId d \<noteq> None \<longrightarrow> rd_costScope d = Some Rt_simulation"
    using egress_is_simulated_replay [OF a(2)] attempt_decision_mem [OF d(1)]
    by (auto simp: egress_is_simulated_def)
  ultimately show False by (simp add: persisted_event_cost_scope_def runtime_scope_def)
qed

theorem actual_reservations_never_reconcile_witness:
  "\<exists>db b pos r. reserve (sample_reserve ''t'') (ledger_after settled_ops) = Inr (db, Admitted b pos r) \<and>
     assert_event_reconciled sample_store_env db \<noteq> Inr ()"
proof -
  obtain db b pos r where r: "reserve (sample_reserve ''t'') (ledger_after settled_ops) = Inr (db, Admitted b pos r)"
    using settled_facts by (auto elim: is_admittedE)
  have "rq_costScope (sample_reserve ''t'') = Rt_actual" by (simp add: sample_reserve_def)
  from actual_reservations_never_reconcile [OF r this] r show ?thesis by blast
qed


text \<open>C33. The budget decision is exact to the micro-dollar: a request that passes the checks of its
  input and of its campaign is refused exactly when the campaign is disabled or the projected
  cost exceeds what remains of the episode cap, the automatic stop or the hard ceiling, and a
  refusal writes nothing.\<close>

theorem budget_decision_is_exact:
  assumes "reserve_input_checks i = None" "project_worst_case_cost (rq_projection i) = Inr cost" "0 < cost"
    and "require_campaign (db_ledger db) (rq_campaignId i) = Inr c" "reserve_row_checks (db_ledger db) i c = None"
    and "get_position (db_ledger db) (rq_campaignId i) (rq_sessionId i) (rq_episodeCap i) = Inr pos"
  shows "(\<exists>db' reason b. reserve i db = Inr (db', Refused reason b pos) \<and> db' = db) \<longleftrightarrow>
    pos_campaignDisabled pos \<or>
    cost > rq_episodeCap i - episode_exposure (db_ledger db) (rq_campaignId i) (rq_sessionId i) \<or>
    cost > cam_automaticStop c - campaign_exposure (db_ledger db) c \<or>
    cost > cam_hardCeiling c - campaign_exposure (db_ledger db) c"
proof -
  have r: "reserve i db = (case denial_reason pos cost of
      Some reason \<Rightarrow> Inr (db, Refused reason (billing_snapshot (rq_projection i) cost pos) pos)
    | None \<Rightarrow> reserve_admitted i cost (billing_snapshot (rq_projection i) cost pos) pos db)"
    using assms by (simp add: reserve_def throw_if_def Let_def)
  have "reserve_admitted i cost b pos db \<noteq> Inr (db', Refused reason b' pos)" for b db' reason b'
    by (auto simp: reserve_admitted_def check_simps)
  then have "(\<exists>db' reason b. reserve i db = Inr (db', Refused reason b pos) \<and> db' = db) \<longleftrightarrow>
      denial_reason pos cost \<noteq> None"
    unfolding r by (auto split: option.split)
  moreover have rem: "pos_remainingEpisode pos = remaining_of (rq_episodeCap i)
        (episode_exposure (db_ledger db) (rq_campaignId i) (rq_sessionId i))"
      "pos_remainingAutomaticStop pos = remaining_of (cam_automaticStop c) (campaign_exposure (db_ledger db) c)"
      "pos_remainingHardCeiling pos = remaining_of (cam_hardCeiling c) (campaign_exposure (db_ledger db) c)"
    using assms(4) by (auto intro: get_positionE [OF assms(6)])
  have "cost > remaining_of limit exposure \<longleftrightarrow> cost > limit - exposure" for limit exposure
    using assms(3) by (auto simp: remaining_of_def)
  then have "denial_reason pos cost \<noteq> None \<longleftrightarrow> pos_campaignDisabled pos \<or>
      cost > rq_episodeCap i - episode_exposure (db_ledger db) (rq_campaignId i) (rq_sessionId i) \<or>
      cost > cam_automaticStop c - campaign_exposure (db_ledger db) c \<or>
      cost > cam_hardCeiling c - campaign_exposure (db_ledger db) c"
    by (simp add: denial_reason_def rem disj_commute)
  ultimately show ?thesis by blast
qed

theorem budget_decision_is_exact_witness:
  "\<exists>c. \<not> 1000 > cam_automaticStop c - campaign_exposure (db_ledger (ledger_after settled_ops)) c"
proof -
  let ?i = "sample_reserve ''t''" and ?db = "ledger_after settled_ops"
  obtain db' b pos r where r: "reserve ?i ?db = Inr (db', Admitted b pos r)"
    using settled_facts by (auto elim: is_admittedE)
  obtain cost c where a: "project_worst_case_cost (rq_projection ?i) = Inr cost" "0 < cost"
    "require_campaign (db_ledger ?db) (rq_campaignId ?i) = Inr c" "reserve_row_checks (db_ledger ?db) ?i c = None"
    "get_position (db_ledger ?db) (rq_campaignId ?i) (rq_sessionId ?i) (rq_episodeCap ?i) = Inr pos"
    by (rule admittedE [OF r])
  have i: "reserve_input_checks ?i = None" using r by (auto simp: reserve_def check_simps)
  have "cost = 1000"
    using a(1) by (auto simp: sample_reserve_def project_worst_case_cost_def projected_cost_def ceil_component_def
        check_simps safe_number_def)
  then show ?thesis using budget_decision_is_exact [OF i a] r by auto
qed

end
