(* ===== verification/ReconciledDatabases.thy ===== *)
theory ReconciledDatabases
  imports ReconciliationFacts
begin

text \<open>
  A declarative reading of \<open>assertEventReconciled\<close> for the databases that the store and the ledger
  build: every reservation is readable and linked to one attempt of its session, every attempt that
  names a reservation is linked to it. The gate passes exactly when this holds, so that what the
  commits of an attempt do to it can be followed row by row.
\<close>

definition db_ok :: "store_env \<Rightarrow> database \<Rightarrow> bool" where
  "db_ok env db \<longleftrightarrow> store_ok env db \<and> ledger_ok (db_ledger db)"

section \<open>The declarative form\<close>

definition paid_ids :: "attempt_record list \<Rightarrow> string list" where
  "paid_ids as = List.map_filter (\<lambda>a. at_budgetReservationId (attempt_of a)) as"

definition attempt_links ::
  "ledger_row list \<Rightarrow> budget_terminal option \<Rightarrow> session_state \<Rightarrow> attempt_record \<Rightarrow> budget_reservation \<Rightarrow> bool" where
  "attempt_links rows terminal s a r \<longleftrightarrow>
     start_matches s (ar_start a) r \<and>
     (\<exists>d. attempt_decision s a = Some d \<and> decision_matches d r \<and> decision_checks rows s d r = None) \<and>
     resolution_checks s a terminal r = None"

definition terminal_of :: "ledger_row list \<Rightarrow> string \<Rightarrow> budget_terminal option" where
  "terminal_of rows i =
     (case find (\<lambda>x. is_terminal_row x \<and> lr_reservationId x = Some i) rows of
        None \<Rightarrow> None
      | Some x \<Rightarrow> (case to_terminal x of Inl _ \<Rightarrow> None | Inr t \<Rightarrow> Some t))"

definition linked_row :: "ledger_row list \<Rightarrow> session_state \<Rightarrow> attempt_record \<Rightarrow> string \<Rightarrow> bool" where
  "linked_row rows s a i \<longleftrightarrow>
     (\<exists>x r. x \<in> set rows \<and> is_reservation_row x \<and> lr_id x = i \<and> to_reservation x = Inr r \<and>
        attempt_links rows (terminal_of rows i) s a r)"

definition session_linked :: "ledger_row list \<Rightarrow> session_state \<Rightarrow> bool" where
  "session_linked rows s \<longleftrightarrow>
     distinct (paid_ids (st_inferenceAttempts s)) \<and>
     (\<forall>a \<in> set (st_inferenceAttempts s). \<forall>i. at_budgetReservationId (attempt_of a) = Some i \<longrightarrow> linked_row rows s a i)"

definition reservation_covered :: "session_row list \<Rightarrow> ledger_row \<Rightarrow> bool" where
  "reservation_covered sessions x \<longleftrightarrow>
     (\<exists>r. to_reservation x = Inr r \<and> assert_reservation_projection r = None \<and>
        (\<exists>y \<in> set sessions. sw_id y = res_sessionId r \<and>
           res_id r \<in> set (paid_ids (st_inferenceAttempts (sw_state y)))))"

definition reconciled :: "database \<Rightarrow> bool" where
  "reconciled db \<longleftrightarrow>
     (\<forall>x \<in> set (db_ledger db). is_reservation_row x \<longrightarrow> reservation_covered (db_sessions db) x) \<and>
     (\<forall>x \<in> set (db_ledger db). is_terminal_row x \<longrightarrow> is_ok (to_terminal x)) \<and>
     (\<forall>e \<in> set (db_events db). paid_attempt_id e \<noteq> Some []) \<and>
     (\<forall>y \<in> set (db_sessions db). session_linked (db_ledger db) (sw_state y))"

section \<open>The loops of the gate\<close>

lemma paid_ids_simps [simp]:
  "paid_ids [] = []"
  "paid_ids (a # as) = (case at_budgetReservationId (attempt_of a) of None \<Rightarrow> [] | Some i \<Rightarrow> [i]) @ paid_ids as"
  "paid_ids (as @ bs) = paid_ids as @ paid_ids bs"
  by (simp_all add: paid_ids_def List.map_filter_def split: option.split)

lemma paid_ids_mem: "i \<in> set (paid_ids as) \<longleftrightarrow> (\<exists>a \<in> set as. at_budgetReservationId (attempt_of a) = Some i)"
  by (induction as) (auto split: option.splits)

lemma linked_checks_iff:
  "linked_attempt_checks rows ts s a r = None \<longleftrightarrow>
     attempt_links rows (terminal_by_reservation ts (res_id r)) s a r"
  by (auto simp: linked_attempt_checks_def attempt_links_def check_simps reconciliation_failure_if_def
      split: option.splits)

definition attempts_linked ::
  "ledger_row list \<Rightarrow> budget_reservation list \<Rightarrow> budget_terminal list \<Rightarrow> session_state \<Rightarrow> attempt_record list \<Rightarrow> bool" where
  "attempts_linked rows rs ts s as \<longleftrightarrow>
     (\<forall>a \<in> set as. \<forall>i. at_budgetReservationId (attempt_of a) = Some i \<longrightarrow>
        (\<exists>r. reservation_by_id rs i = Some r \<and> linked_attempt_checks rows ts s a r = None))"

lemma attempts_linked_simps [simp]:
  "attempts_linked rows rs ts s []"
  "attempts_linked rows rs ts s (a # as) \<longleftrightarrow>
     (\<forall>i. at_budgetReservationId (attempt_of a) = Some i \<longrightarrow>
        (\<exists>r. reservation_by_id rs i = Some r \<and> linked_attempt_checks rows ts s a r = None)) \<and>
     attempts_linked rows rs ts s as"
  by (auto simp: attempts_linked_def)

lemma reconcile_attempts_iff:
  "reconcile_attempts rows rs ts s as linked = Inr linked' \<longleftrightarrow>
     linked' = rev (paid_ids as) @ linked \<and> distinct (paid_ids as) \<and>
     set (paid_ids as) \<inter> set linked = {} \<and> attempts_linked rows rs ts s as"
proof (induction as arbitrary: linked)
  case Nil
  then show ?case by auto
next
  case (Cons a as)
  show ?case
  proof (cases "at_budgetReservationId (attempt_of a)")
    case None
    with Cons show ?thesis by simp
  next
    case (Some i)
    then show ?thesis
      by (cases "reservation_by_id rs i")
        (auto simp: check_simps reconciliation_failure_if_def list_ex_iff Cons)
  qed
qed

definition paid_of :: "store_env \<Rightarrow> database \<Rightarrow> string \<Rightarrow> string list" where
  "paid_of env db sid =
     (case store_replay env db sid of Inl _ \<Rightarrow> [] | Inr s \<Rightarrow> paid_ids (st_inferenceAttempts s))"

lemma reconcile_sessions_iff:
  "reconcile_sessions env db rs ts sids linked = Inr linked' \<longleftrightarrow>
     linked' = rev (concat (map (paid_of env db) sids)) @ linked \<and>
     distinct (concat (map (paid_of env db) sids)) \<and>
     set (concat (map (paid_of env db) sids)) \<inter> set linked = {} \<and>
     (\<forall>sid \<in> set sids. \<exists>s. store_replay env db sid = Inr s \<and>
        attempts_linked (db_ledger db) rs ts s (st_inferenceAttempts s))"
proof (induction sids arbitrary: linked)
  case Nil
  then show ?case by auto
next
  case (Cons sid sids)
  show ?case
  proof (cases "store_replay env db sid")
    case (Inl e)
    then show ?thesis by simp
  next
    case (Inr s)
    then have "reconcile_sessions env db rs ts (sid # sids) linked = Inr linked' \<longleftrightarrow>
        (\<exists>l. reconcile_attempts (db_ledger db) rs ts s (st_inferenceAttempts s) linked = Inr l \<and>
             reconcile_sessions env db rs ts sids l = Inr linked')"
      by (simp add: check_simps)
    then show ?thesis
      using Inr by (auto simp: reconcile_attempts_iff Cons paid_of_def)
  qed
qed

section \<open>What the store holds\<close>

lemma paid_ids_attempts: "map attempt_of as = map attempt_of bs \<Longrightarrow> paid_ids as = paid_ids bs"
proof (induction as arbitrary: bs)
  case Nil
  then show ?case by simp
next
  case (Cons a as)
  then obtain b cs where "bs = b # cs" "attempt_of b = attempt_of a" "map attempt_of as = map attempt_of cs"
    by (cases bs) auto
  with Cons.IH [of cs] show ?case by simp
qed

lemma paid_step:
  assumes "reduce_next env s e = Inr s'"
  shows "set (paid_ids (st_inferenceAttempts s')) \<subseteq>
    set (paid_ids (st_inferenceAttempts s)) \<union> {i. paid_attempt_id e = Some i}"
  using attempts_step [OF assms]
proof (elim disjE exE conjE)
  fix p a
  assume "st_inferenceAttempts s' = update_first (\<lambda>a. at_attemptId (attempt_of a) = fin_attemptId p)
    (finish_attempt e p) (st_inferenceAttempts s)"
  then have "paid_ids (st_inferenceAttempts s') = paid_ids (st_inferenceAttempts s)"
    by (intro paid_ids_attempts) (simp add: map_update_first finish_attempt_def)
  then show ?thesis by simp
qed (auto simp: paid_attempt_id_def split: option.splits)

lemma paid_replay_from:
  "replay_from env s es = Inr s' \<Longrightarrow>
     set (paid_ids (st_inferenceAttempts s')) \<subseteq>
       set (paid_ids (st_inferenceAttempts s)) \<union> {i. \<exists>e \<in> set es. paid_attempt_id e = Some i}"
proof (induction es arbitrary: s)
  case Nil
  then show ?case by simp
next
  case (Cons e es)
  then obtain m where m: "reduce_next env s e = Inr m" "replay_from env m es = Inr s'"
    by (auto simp: bind_result_Inr)
  from Cons.IH [OF m(2)] paid_step [OF m(1)] show ?case by auto
qed

lemma paid_replay:
  assumes "replay_session env es = Inr s" "i \<in> set (paid_ids (st_inferenceAttempts s))"
  shows "\<exists>e \<in> set es. paid_attempt_id e = Some i"
proof (cases es)
  case Nil
  with assms(1) show ?thesis by simp
next
  case (Cons e rest)
  then obtain s0 where s0: "reduce_first e = Inr s0" "replay_from env s0 rest = Inr s"
    using assms(1) by (auto simp: check_simps)
  have "paid_ids (st_inferenceAttempts s0) = []"
    using reduce_first_ok [OF s0(1)] by (auto simp: create_initial_session_state_def)
  with paid_replay_from [OF s0(2)] assms(2) show ?thesis by (auto simp: Cons)
qed

lemma session_paid_event:
  assumes ok: "store_ok env db" and y: "y \<in> set (db_sessions db)"
    and i: "i \<in> set (paid_ids (st_inferenceAttempts (sw_state y)))"
  shows "\<exists>e \<in> set (db_events db). ev_sessionId e = sw_id y \<and> paid_attempt_id e = Some i"
proof -
  have "replay_session (se_replay env) (session_events db (sw_id y)) = Inr (sw_state y)"
    using ok y by (simp add: store_ok_def list_all_iff session_ok_def)
  from paid_replay [OF this i] show ?thesis by (auto simp: session_events_def)
qed

lemma store_replay_iff:
  assumes ok: "store_ok env db"
  shows "store_replay env db sid = Inr s \<longleftrightarrow> (\<exists>y \<in> set (db_sessions db). sw_id y = sid \<and> s = sw_state y)"
proof (cases "find_session db sid")
  case (Some y)
  note y = store_replay_ok [OF ok Some] find_session_SomeD [OF Some]
  have u: "x = y" if "x \<in> set (db_sessions db)" "sw_id x = sid" for x
    using that Some find_session_unique [of db x] ok by (simp add: store_ok_def)
  show ?thesis
  proof
    assume "store_replay env db sid = Inr s"
    with y show "\<exists>y \<in> set (db_sessions db). sw_id y = sid \<and> s = sw_state y" by (intro bexI [of _ y]) simp_all
  next
    assume "\<exists>y \<in> set (db_sessions db). sw_id y = sid \<and> s = sw_state y"
    with u have "s = sw_state y" by blast
    with y(1) show "store_replay env db sid = Inr s" by simp
  qed
next
  case None
  then have "\<forall>y \<in> set (db_sessions db). sw_id y \<noteq> sid" by (auto simp: find_session_None)
  moreover have "session_events db sid = []"
    using ok None by (auto simp: store_ok_def list_all_iff event_row_fixed_def session_events_def filter_empty_conv)
  then have "store_replay env db sid = Inl Session_not_found"
    by (simp add: store_replay_def get_events_def parse_rows_def)
  ultimately show ?thesis by auto
qed

lemma session_state_id: "store_ok env db \<Longrightarrow> y \<in> set (db_sessions db) \<Longrightarrow> st_id (sw_state y) = sw_id y"
  using store_row_facts(1) [of env db "sw_id y" y] find_session_unique [of db y] by (simp add: store_ok_def)

section \<open>What the ledger holds\<close>

lemma all_results_map:
  assumes "all_results f xs = Inr ys" "\<And>x y. f x = Inr y \<Longrightarrow> g y = h x"
  shows "map g ys = map h xs"
  using assms(1) by (induction xs arbitrary: ys) (auto simp: check_simps assms(2))

lemma all_results_ok:
  assumes "\<forall>x \<in> set xs. is_ok (f x)"
  obtains ys where "all_results f xs = Inr ys"
proof -
  have "\<exists>ys. all_results f xs = Inr ys"
    using assms
  proof (induction xs)
    case (Cons x xs)
    then obtain ys where "all_results f xs = Inr ys" by auto
    moreover obtain y where "f x = Inr y" using Cons.prems by (auto elim: is_okE)
    ultimately show ?case by simp
  qed simp
  with that show thesis by blast
qed

lemma distinct_by_creation: "distinct (map lr_id rows) \<Longrightarrow> distinct (map lr_id (by_creation (filter p rows)))"
  by (simp add: by_creation_def distinct_map inj_on_def)

lemma reservations_read:
  assumes ok: "ledger_ok rows" and rs: "all_results to_reservation (by_creation (filter is_reservation_row rows)) = Inr rs"
  shows "distinct (map res_id rs)"
    and "r \<in> set rs \<longleftrightarrow> (\<exists>x \<in> set rows. is_reservation_row x \<and> to_reservation x = Inr r)"
    and "reservation_by_id rs i = Some r \<longleftrightarrow>
      (\<exists>x \<in> set rows. is_reservation_row x \<and> lr_id x = i \<and> to_reservation x = Inr r)"
proof -
  have "map res_id rs = map lr_id (by_creation (filter is_reservation_row rows))"
    by (rule all_results_map [OF rs]) (simp add: to_reservation_row)
  then show d: "distinct (map res_id rs)"
    using ok distinct_by_creation by (simp add: ledger_ok_def indexes_ok_def)
  show mem: "r \<in> set rs \<longleftrightarrow> (\<exists>x \<in> set rows. is_reservation_row x \<and> to_reservation x = Inr r)" for r
    using all_results_mem [OF rs] by auto
  have "reservation_by_id rs i = Some r \<longleftrightarrow> r \<in> set rs \<and> res_id r = i"
  proof
    assume "r \<in> set rs \<and> res_id r = i"
    moreover obtain q where q: "reservation_by_id rs i = Some q"
      using calculation by (cases "reservation_by_id rs i") (auto simp: reservation_by_id_def find_None_iff)
    moreover have "q \<in> set rs" "res_id q = i" using q by (auto simp: reservation_by_id_def dest: find_SomeD)
    ultimately show "reservation_by_id rs i = Some r" using d by (auto simp: distinct_map dest: inj_onD)
  qed (auto simp: reservation_by_id_def dest: find_SomeD)
  then show "reservation_by_id rs i = Some r \<longleftrightarrow>
      (\<exists>x \<in> set rows. is_reservation_row x \<and> lr_id x = i \<and> to_reservation x = Inr r)"
    using mem by (auto simp: to_reservation_row)
qed

lemma scan_reservations_iff:
  "scan_reservations rs seen = None \<longleftrightarrow>
     distinct (map res_id rs) \<and> set (map res_id rs) \<inter> set seen = {} \<and>
     (\<forall>r \<in> set rs. assert_reservation_projection r = None)"
proof (induction rs arbitrary: seen)
  case Nil
  then show ?case by simp
next
  case (Cons r rs)
  show ?case by (auto simp: check_simps reconciliation_failure_if_def list_ex_iff Cons)
qed

lemma scan_terminals_iff:
  "scan_terminals rs ts seen = None \<longleftrightarrow>
     distinct (map te_reservationId ts) \<and> set (map te_reservationId ts) \<inter> set seen = {} \<and>
     (\<forall>t \<in> set ts. holds (reservation_by_id rs (te_reservationId t)) (\<lambda>r. te_costScope t = res_costScope r))"
proof (induction ts arbitrary: seen)
  case Nil
  then show ?case by simp
next
  case (Cons t ts)
  show ?case by (auto simp: check_simps reconciliation_failure_if_def list_ex_iff Cons)
qed

lemma terminal_rows_unique:
  assumes "ledger_ok rows" "x \<in> set rows" "y \<in> set rows" "is_terminal_row x" "is_terminal_row y"
    and "lr_reservationId x = lr_reservationId y"
  shows "x = y"
proof -
  obtain i where "lr_reservationId x = Some i" by (rule terminal_has_parent [OF assms(1,2,4)])
  then show ?thesis
    using assms by (intro unique_byD [where key = terminal_reservation_key and k = i and rows = rows])
      (simp_all add: ledger_ok_def indexes_ok_def terminal_reservation_key_def)
qed

lemma to_terminal_fields:
  "to_terminal x = Inr t \<Longrightarrow> te_reservationId t = coalesce (lr_reservationId x) [] \<and> te_costScope t = lr_costScope x"
  by (auto simp: to_terminal_def check_simps safe_number_def)

lemma terminals_read:
  assumes ok: "ledger_ok rows" and ts: "all_results to_terminal (by_creation (filter is_terminal_row rows)) = Inr ts"
  shows "distinct (map te_reservationId ts)"
    and "terminal_by_reservation ts i = terminal_of rows i"
proof -
  let ?key = "\<lambda>x. coalesce (lr_reservationId x) []"
  have u: "x = y"
    if xy: "x \<in> set rows" "y \<in> set rows" "is_terminal_row x" "is_terminal_row y" "?key x = ?key y" for x y
  proof (rule terminal_rows_unique [OF ok xy(1-4)])
    obtain i where i: "lr_reservationId x = Some i" by (rule terminal_has_parent [OF ok xy(1,3)])
    obtain j where "lr_reservationId y = Some j" by (rule terminal_has_parent [OF ok xy(2,4)])
    with i xy(5) show "lr_reservationId x = lr_reservationId y" by simp
  qed
  have m: "map te_reservationId ts = map ?key (by_creation (filter is_terminal_row rows))"
    by (rule all_results_map [OF ts]) (simp add: to_terminal_fields)
  have "distinct (by_creation (filter is_terminal_row rows))"
    using ok by (simp add: by_creation_def ledger_ok_def indexes_ok_def distinct_map)
  then show d: "distinct (map te_reservationId ts)"
    unfolding m using u by (auto simp: distinct_map inj_on_def)
  note mem = all_results_mem [OF ts]
  have u': "?key x = i \<longleftrightarrow> lr_reservationId x = Some i" if x: "x \<in> set rows" "is_terminal_row x" for x
  proof -
    obtain j where "lr_reservationId x = Some j" by (rule terminal_has_parent [OF ok x])
    then show ?thesis by simp
  qed
  show "terminal_by_reservation ts i = terminal_of rows i"
  proof (cases "find (\<lambda>x. is_terminal_row x \<and> lr_reservationId x = Some i) rows")
    case None
    then have none: "\<not> (is_terminal_row x \<and> lr_reservationId x = Some i)" if "x \<in> set rows" for x
      using that by (auto simp: find_None_iff)
    have "te_reservationId t \<noteq> i" if t: "t \<in> set ts" for t
    proof
      assume "te_reservationId t = i"
      moreover obtain x where "x \<in> set rows" "is_terminal_row x" "to_terminal x = Inr t" using mem t by auto
      ultimately show False using none [of x] u' [of x] to_terminal_fields [of x t] by auto
    qed
    then have "terminal_by_reservation ts i = None" by (auto simp: terminal_by_reservation_def find_None_iff)
    with None show ?thesis by (simp add: terminal_of_def)
  next
    case (Some x)
    then have x: "x \<in> set rows" "is_terminal_row x" "lr_reservationId x = Some i" by (auto dest: find_SomeD)
    then obtain t where t: "t \<in> set ts" "to_terminal x = Inr t" using mem by auto
    then have ti: "te_reservationId t = i" using to_terminal_fields [of x t] x by simp
    obtain q where q: "terminal_by_reservation ts i = Some q"
      using t ti by (cases "terminal_by_reservation ts i") (auto simp: terminal_by_reservation_def find_None_iff)
    then have "q \<in> set ts" "te_reservationId q = i" by (auto simp: terminal_by_reservation_def dest: find_SomeD)
    then have "q = t" using d t ti by (auto simp: distinct_map dest: inj_onD)
    with q Some t show ?thesis by (simp add: terminal_of_def)
  qed
qed

lemma terminals_covered:
  assumes ok: "ledger_ok rows"
    and rs: "all_results to_reservation (by_creation (filter is_reservation_row rows)) = Inr rs"
    and ts: "all_results to_terminal (by_creation (filter is_terminal_row rows)) = Inr ts" and t: "t \<in> set ts"
  shows "holds (reservation_by_id rs (te_reservationId t)) (\<lambda>r. te_costScope t = res_costScope r)"
proof -
  obtain x where x: "x \<in> set rows" "is_terminal_row x" "to_terminal x = Inr t"
    using all_results_mem [OF ts] t by auto
  obtain y where y: "y \<in> set rows" "is_reservation_row y" "lr_reservationId x = Some (lr_id y)"
    "lr_costScope y = lr_costScope x" by (rule terminal_has_parent [OF ok x(1,2)])
  obtain r where r: "to_reservation y = Inr r" using all_results_mem [OF rs] y by auto
  then have "reservation_by_id rs (lr_id y) = Some r" using y reservations_read(3) [OF ok rs] by blast
  moreover have "te_reservationId t = lr_id y" "te_costScope t = res_costScope r"
    using to_terminal_fields [OF x(3)] to_reservation_row [OF r] y by simp_all
  ultimately show ?thesis by simp
qed

section \<open>The gate passes exactly on reconciled databases\<close>

lemma attempts_linked_session:
  assumes ok: "ledger_ok rows"
    and rs: "all_results to_reservation (by_creation (filter is_reservation_row rows)) = Inr rs"
    and ts: "all_results to_terminal (by_creation (filter is_terminal_row rows)) = Inr ts"
  shows "session_linked rows s \<longleftrightarrow>
    distinct (paid_ids (st_inferenceAttempts s)) \<and> attempts_linked rows rs ts s (st_inferenceAttempts s)"
proof -
  have "(\<exists>r. reservation_by_id rs i = Some r \<and> linked_attempt_checks rows ts s a r = None) \<longleftrightarrow> linked_row rows s a i" for a i
    unfolding linked_row_def reservations_read(3) [OF ok rs] linked_checks_iff terminals_read(2) [OF ok ts]
    using to_reservation_row by fastforce
  then show ?thesis by (simp add: session_linked_def attempts_linked_def)
qed

lemma gate_unfold:
  "assert_event_reconciled env db = Inr () \<longleftrightarrow>
     (\<exists>rs ts. all_results to_reservation (by_creation (filter is_reservation_row (db_ledger db))) = Inr rs \<and>
        all_results to_terminal (by_creation (filter is_terminal_row (db_ledger db))) = Inr ts \<and>
        scan_reservations rs [] = None \<and> scan_terminals rs ts [] = None \<and>
        (\<forall>e \<in> set (db_events db). paid_attempt_id e \<noteq> Some []) \<and>
        (\<exists>linked. reconcile_sessions env db rs ts (reconciled_session_ids rs (db_events db)) [] = Inr linked \<and>
           set (map res_id rs) \<subseteq> set linked))"
  by (auto simp: assert_event_reconciled_def scan_attempt_events_def check_simps reconciliation_failure_if_def
      checks_map_None list_ex_iff subset_iff)

lemma session_ids_iff:
  "sid \<in> set (reconciled_session_ids rs es) \<longleftrightarrow>
     sid \<in> res_sessionId ` set rs \<or> (\<exists>e \<in> set es. ev_sessionId e = sid \<and> paid_attempt_id e \<noteq> None)"
  by (auto simp: reconciled_session_ids_def)

lemma paid_of_session:
  assumes "store_ok env db" "y \<in> set (db_sessions db)"
  shows "paid_of env db (sw_id y) = paid_ids (st_inferenceAttempts (sw_state y))"
proof -
  have "store_replay env db (sw_id y) = Inr (sw_state y)" using assms store_replay_iff by blast
  then show ?thesis by (simp add: paid_of_def)
qed

theorem reconciled_gate:
  assumes ok: "db_ok env db" and gate: "assert_event_reconciled env db = Inr ()"
  shows "reconciled db"
proof -
  have st: "store_ok env db" and lg: "ledger_ok (db_ledger db)" using ok by (simp_all add: db_ok_def)
  obtain rs ts linked where
    rs: "all_results to_reservation (by_creation (filter is_reservation_row (db_ledger db))) = Inr rs"
    and ts: "all_results to_terminal (by_creation (filter is_terminal_row (db_ledger db))) = Inr ts"
    and scan: "scan_reservations rs [] = None"
    and ev: "\<forall>e \<in> set (db_events db). paid_attempt_id e \<noteq> Some []"
    and run: "reconcile_sessions env db rs ts (reconciled_session_ids rs (db_events db)) [] = Inr linked"
    and all: "set (map res_id rs) \<subseteq> set linked"
    using gate unfolding gate_unfold by blast
  let ?ids = "reconciled_session_ids rs (db_events db)"
  note sessions = run [unfolded reconcile_sessions_iff]
  have linked: "session_linked (db_ledger db) (sw_state y)" if y: "y \<in> set (db_sessions db)" for y
  proof (cases "sw_id y \<in> set ?ids")
    case True
    have "attempts_linked (db_ledger db) rs ts (sw_state y) (st_inferenceAttempts (sw_state y))"
    proof -
      obtain s where "store_replay env db (sw_id y) = Inr s"
        "attempts_linked (db_ledger db) rs ts s (st_inferenceAttempts s)" using sessions True by blast
      moreover have "store_replay env db (sw_id y) = Inr (sw_state y)" using store_replay_iff [OF st] y by blast
      ultimately show ?thesis by simp
    qed
    moreover have "distinct (paid_ids (st_inferenceAttempts (sw_state y)))"
    proof -
      obtain xs ys where "?ids = xs @ sw_id y # ys" using True by (auto dest: split_list)
      then show ?thesis using sessions paid_of_session [OF st y] by simp
    qed
    ultimately show ?thesis by (simp add: attempts_linked_session [OF lg rs ts])
  next
    case False
    have none: "i \<notin> set (paid_ids (st_inferenceAttempts (sw_state y)))" for i
      using session_paid_event [OF st y, of i] False by (auto simp: session_ids_iff)
    have "at_budgetReservationId (attempt_of a) \<noteq> Some i" if "a \<in> set (st_inferenceAttempts (sw_state y))" for a i
      using none [of i] that unfolding paid_ids_mem by blast
    moreover have "paid_ids (st_inferenceAttempts (sw_state y)) = []"
      using none by (cases "paid_ids (st_inferenceAttempts (sw_state y))") auto
    ultimately show ?thesis by (simp add: session_linked_def)
  qed
  have covered: "reservation_covered (db_sessions db) x" if x: "x \<in> set (db_ledger db)" "is_reservation_row x" for x
  proof -
    obtain r where r: "to_reservation x = Inr r" "r \<in> set rs" using all_results_mem [OF rs] x by auto
    then have "res_id r \<in> set linked" using all by auto
    then obtain sid where sid: "sid \<in> set ?ids" "res_id r \<in> set (paid_of env db sid)" using sessions by auto
    obtain s where s: "store_replay env db sid = Inr s" "res_id r \<in> set (paid_ids (st_inferenceAttempts s))"
      using sid(2) by (cases "store_replay env db sid") (simp_all add: paid_of_def)
    then obtain y where y: "y \<in> set (db_sessions db)" "sw_id y = sid" "s = sw_state y"
      using store_replay_iff [OF st] by blast
    obtain a where a: "a \<in> set (st_inferenceAttempts s)" "at_budgetReservationId (attempt_of a) = Some (res_id r)"
      using s(2) by (auto simp: paid_ids_mem)
    have "linked_row (db_ledger db) s a (res_id r)"
      using linked [OF y(1)] a y(3) by (simp add: session_linked_def)
    then obtain x' r' where x': "x' \<in> set (db_ledger db)" "lr_id x' = res_id r" "to_reservation x' = Inr r'"
      "start_matches s (ar_start a) r'" by (auto simp: linked_row_def attempt_links_def)
    have "x' = x" using id_unique [OF lg x'(1) x(1)] x'(2) to_reservation_row [OF r(1)] by simp
    with x' r have "res_sessionId r = st_id s" by (simp add: start_matches_def Let_def)
    also have "st_id s = sw_id y" using session_state_id [OF st y(1)] y(3) by simp
    finally show ?thesis
      using r scan y s(2) unfolding reservation_covered_def scan_reservations_iff by auto
  qed
  have "is_ok (to_terminal x)" if "x \<in> set (db_ledger db)" "is_terminal_row x" for x
    using all_results_mem [OF ts] that by fastforce
  with linked covered ev show ?thesis by (simp add: reconciled_def)
qed

lemma paid_ids_disjoint:
  assumes ok: "db_ok env db" and rec: "reconciled db"
    and y: "y \<in> set (db_sessions db)" "i \<in> set (paid_ids (st_inferenceAttempts (sw_state y)))"
    and z: "z \<in> set (db_sessions db)" "i \<in> set (paid_ids (st_inferenceAttempts (sw_state z)))"
  shows "sw_id y = sw_id z"
proof -
  have st: "store_ok env db" and lg: "ledger_ok (db_ledger db)" using ok by (simp_all add: db_ok_def)
  have row: "\<exists>x r. x \<in> set (db_ledger db) \<and> lr_id x = i \<and> to_reservation x = Inr r \<and> res_sessionId r = sw_id w"
    if w: "w \<in> set (db_sessions db)" "i \<in> set (paid_ids (st_inferenceAttempts (sw_state w)))" for w
  proof -
    obtain a where "a \<in> set (st_inferenceAttempts (sw_state w))" "at_budgetReservationId (attempt_of a) = Some i"
      using w(2) by (auto simp: paid_ids_mem)
    then have "linked_row (db_ledger db) (sw_state w) a i"
      using rec w(1) by (simp add: reconciled_def session_linked_def)
    then show ?thesis
      using session_state_id [OF st w(1)]
      by (auto simp: linked_row_def attempt_links_def start_matches_def Let_def)
  qed
  obtain x r where x: "x \<in> set (db_ledger db)" "lr_id x = i" "to_reservation x = Inr r" "res_sessionId r = sw_id y"
    using row [OF y] by blast
  obtain x' r' where x': "x' \<in> set (db_ledger db)" "lr_id x' = i" "to_reservation x' = Inr r'" "res_sessionId r' = sw_id z"
    using row [OF z] by blast
  have "x = x'" using id_unique [OF lg x(1) x'(1)] x x' by simp
  with x x' show ?thesis by simp
qed

lemma distinct_concat_map:
  assumes "distinct xs" "\<And>x. x \<in> set xs \<Longrightarrow> distinct (f x)"
    and "\<And>x y i. x \<in> set xs \<Longrightarrow> y \<in> set xs \<Longrightarrow> i \<in> set (f x) \<Longrightarrow> i \<in> set (f y) \<Longrightarrow> x = y"
  shows "distinct (concat (map f xs))"
  using assms
proof (induction xs)
  case (Cons x xs)
  then have "distinct (concat (map f xs))" by (simp del: set_concat)
  moreover have "set (f x) \<inter> set (concat (map f xs)) = {}" using Cons.prems by fastforce
  ultimately show ?case using Cons.prems(2) by simp
qed simp

lemma distinct_session_ids: "distinct (reconciled_session_ids rs es)"
  by (simp add: reconciled_session_ids_def)

theorem gate_of_reconciled:
  assumes ok: "db_ok env db" and rec: "reconciled db"
  shows "assert_event_reconciled env db = Inr ()"
proof -
  have st: "store_ok env db" and lg: "ledger_ok (db_ledger db)" using ok by (simp_all add: db_ok_def)
  have "\<forall>x \<in> set (by_creation (filter is_reservation_row (db_ledger db))). is_ok (to_reservation x)"
    using rec by (auto simp: reconciled_def reservation_covered_def)
  then obtain rs where rs: "all_results to_reservation (by_creation (filter is_reservation_row (db_ledger db))) = Inr rs"
    by (rule all_results_ok)
  have "\<forall>x \<in> set (by_creation (filter is_terminal_row (db_ledger db))). is_ok (to_terminal x)"
    using rec by (auto simp: reconciled_def)
  then obtain ts where ts: "all_results to_terminal (by_creation (filter is_terminal_row (db_ledger db))) = Inr ts"
    by (rule all_results_ok)
  let ?ids = "reconciled_session_ids rs (db_events db)"
  have row: "assert_reservation_projection r = None \<and> (\<exists>y \<in> set (db_sessions db). sw_id y = res_sessionId r \<and>
      res_id r \<in> set (paid_ids (st_inferenceAttempts (sw_state y))))" if r: "r \<in> set rs" for r
  proof -
    obtain x where x: "x \<in> set (db_ledger db)" "is_reservation_row x" "to_reservation x = Inr r"
      using all_results_mem [OF rs] r by auto
    then have "reservation_covered (db_sessions db) x" using rec by (simp add: reconciled_def)
    with x(3) show ?thesis by (auto simp: reservation_covered_def)
  qed
  have scan: "scan_reservations rs [] = None"
    using reservations_read(1) [OF lg rs] row by (simp add: scan_reservations_iff)
  have scan': "scan_terminals rs ts [] = None"
    using terminals_read(1) [OF lg ts] terminals_covered [OF lg rs ts] by (simp add: scan_terminals_iff)
  have session: "\<exists>y \<in> set (db_sessions db). sw_id y = sid" if sid: "sid \<in> set ?ids" for sid
  proof -
    consider r where "r \<in> set rs" "res_sessionId r = sid" | e where "e \<in> set (db_events db)" "ev_sessionId e = sid"
      using sid by (auto simp: session_ids_iff)
    then show ?thesis
    proof cases
      case 1
      with row [OF 1(1)] show ?thesis by auto
    next
      case 2
      have "find_session db (ev_sessionId e) \<noteq> None"
        using st 2(1) by (simp add: store_ok_def list_all_iff event_row_fixed_def)
      with 2(2) show ?thesis by (auto simp: find_session_None)
    qed
  qed
  have paid: "paid_of env db sid = paid_ids (st_inferenceAttempts (sw_state y))"
    if "y \<in> set (db_sessions db)" "sw_id y = sid" for y sid
    using paid_of_session [OF st that(1)] that(2) by simp
  have "distinct (concat (map (paid_of env db) ?ids))"
  proof (rule distinct_concat_map [OF distinct_session_ids])
    fix sid
    assume "sid \<in> set ?ids"
    then obtain y where y: "y \<in> set (db_sessions db)" "sw_id y = sid" using session by blast
    then show "distinct (paid_of env db sid)" using rec by (simp add: paid [OF y] reconciled_def session_linked_def)
  next
    fix sid sid' i
    assume "sid \<in> set ?ids" "sid' \<in> set ?ids" and i: "i \<in> set (paid_of env db sid)" "i \<in> set (paid_of env db sid')"
    then obtain y z where y: "y \<in> set (db_sessions db)" "sw_id y = sid" and z: "z \<in> set (db_sessions db)" "sw_id z = sid'"
      using session by meson
    show "sid = sid'" using paid_ids_disjoint [OF ok rec y(1) _ z(1)] i y(2) z(2) by (simp add: paid [OF y] paid [OF z])
  qed
  moreover have "\<exists>s. store_replay env db sid = Inr s \<and> attempts_linked (db_ledger db) rs ts s (st_inferenceAttempts s)"
    if sid: "sid \<in> set ?ids" for sid
  proof -
    obtain y where y: "y \<in> set (db_sessions db)" "sw_id y = sid" using session [OF sid] by blast
    have "session_linked (db_ledger db) (sw_state y)" using rec y(1) by (simp add: reconciled_def)
    moreover have "store_replay env db sid = Inr (sw_state y)" using store_replay_iff [OF st] y by blast
    ultimately show ?thesis by (simp add: attempts_linked_session [OF lg rs ts])
  qed
  ultimately have run: "reconcile_sessions env db rs ts ?ids [] = Inr (rev (concat (map (paid_of env db) ?ids)))"
    by (simp add: reconcile_sessions_iff)
  have all: "res_id r \<in> set (rev (concat (map (paid_of env db) ?ids)))" if r: "r \<in> set rs" for r
  proof -
    obtain y where y: "y \<in> set (db_sessions db)" "sw_id y = res_sessionId r"
      "res_id r \<in> set (paid_ids (st_inferenceAttempts (sw_state y)))" using row [OF r] by blast
    have "res_sessionId r \<in> set ?ids" using r by (auto simp: session_ids_iff)
    with paid [OF y(1,2)] y(3) show ?thesis by (auto intro!: bexI [of _ "res_sessionId r"])
  qed
  then have "set (map res_id rs) \<subseteq> set (rev (concat (map (paid_of env db) ?ids)))" by auto
  moreover have "\<forall>e \<in> set (db_events db). paid_attempt_id e \<noteq> Some []" using rec by (simp add: reconciled_def)
  ultimately show ?thesis unfolding gate_unfold using rs ts scan scan' run by blast
qed

lemma reconciled_iff: "db_ok env db \<Longrightarrow> assert_event_reconciled env db = Inr () \<longleftrightarrow> reconciled db"
  using reconciled_gate gate_of_reconciled by blast

end
