(* ===== verification/AttemptBatches.thy ===== *)
theory AttemptBatches
  imports LedgerReconciliation
begin

text \<open>
  The first half of \<open>main/attempt-unit-of-work.ts\<close>: the batches of events that start or finish one
  inference attempt, and the checks every batch must pass before the transaction writes it. A
  batch is parsed with the event schema first; the callback that builds the events of a budgeted
  start from the admission or the refusal of its budget is an argument.
\<close>

section \<open>Errors\<close>

datatype unit_error =
    Empty_batch | Batch_event_invalid
  | Not_one_attempt_start | Attempt_start_not_last
  | Local_pattern | Local_scope | Local_reserved | Local_decision_scope | Local_without_snapshot
  | Local_snapshot_time | Local_paid_metadata | Local_metered_provider | Local_egress_records
  | Local_egress_mismatch
  | Not_one_attempt_finish | Finish_position | Finish_followers | Finish_not_followed_by_terminal
  | Finish_assistant_attempt
  | Budgeted_id_counts | Budgeted_empty_id | Budgeted_repeated_id | Actual_dispatch_not_authorized
  | Budgeted_order | Budgeted_egress | Budgeted_without_snapshot | Budgeted_snapshot_time
  | Budgeted_billing | Budgeted_identities | Budgeted_attempt | Budgeted_admitted | Budgeted_denied
  | Campaign_scope_mismatch | Open_state_rejected | Attempt_not_open | Terminal_id_unexpected
  | Unreserved_attempt_cost | Terminal_id_missing | Reservation_identity | Unsent_attempt_cost
  | Reserved_local_cost | Host_pricing_impossible | Host_priced_cost_differs | Unknown_cost_not_full
  | Overrun_not_failed | Recovery_shape | Receipt_not_fresh
  | Unit_ledger ledger_error
  | Unit_store store_error

section \<open>Parsing a batch\<close>

fun parse_events :: "review_schemas \<Rightarrow> session_event_data list \<Rightarrow> unit_error + session_event_data list" where
  "parse_events reviews [] = Inr []"
| "parse_events reviews (d # ds) =
     (case parse_session_event_data reviews d of
        None \<Rightarrow> Inl Batch_event_invalid
      | Some x \<Rightarrow> bind_result (parse_events reviews ds) (\<lambda>xs. Inr (x # xs)))"

definition parse_batch :: "review_schemas \<Rightarrow> session_event_data list \<Rightarrow> unit_error + session_event_data list" where
  "parse_batch reviews events =
     guarded (throw_if (events = []) Empty_batch) (parse_events reviews events)"

definition exact_types :: "session_event_data list \<Rightarrow> session_event_type list \<Rightarrow> bool" where
  "exact_types events expected \<longleftrightarrow> map event_data_type events = expected"

text \<open>\<open>events.find((event) => event.type === ...)\<close>, with the payload of its kind.\<close>

fun attempt_start_payload :: "session_event_data \<Rightarrow> attempt_start option" where
  "attempt_start_payload (InferenceAttemptStarted a) = Some a"
| "attempt_start_payload _ = None"

fun attempt_finish_payload :: "session_event_data \<Rightarrow> attempt_finish option" where
  "attempt_finish_payload (InferenceAttemptFinished f) = Some f"
| "attempt_finish_payload _ = None"

fun decision_payload :: "session_event_data \<Rightarrow> routing_decision option" where
  "decision_payload (RoutingDecisionRecorded d) = Some d"
| "decision_payload _ = None"

fun egress_payload :: "session_event_data \<Rightarrow> egress_admission option" where
  "egress_payload (CloudEgressAdmissionRecorded a) = Some a"
| "egress_payload _ = None"

fun context_payload :: "session_event_data \<Rightarrow> context_compilation option" where
  "context_payload (ContextCompiled c) = Some c"
| "context_payload _ = None"

definition payloads :: "(session_event_data \<Rightarrow> 'p option) \<Rightarrow> session_event_data list \<Rightarrow> 'p list" where
  "payloads f events = List.map_filter f events"

definition first_payload :: "(session_event_data \<Rightarrow> 'p option) \<Rightarrow> session_event_data list \<Rightarrow> 'p option" where
  "first_payload f events = (case payloads f events of [] \<Rightarrow> None | p # _ \<Rightarrow> Some p)"

definition require_single_attempt_start :: "session_event_data list \<Rightarrow> unit_error + attempt_start" where
  "require_single_attempt_start events =
     (case payloads attempt_start_payload events of
        [a] \<Rightarrow> guarded (throw_if (at_last events \<noteq> Some (InferenceAttemptStarted a)) Attempt_start_not_last) (Inr a)
      | _ \<Rightarrow> Inl Not_one_attempt_start)"

section \<open>Local starts\<close>

definition local_start_patterns :: "session_event_type list list" where
  "local_start_patterns =
     [[T_cloud_egress_admission, T_routing_decision, T_assistant_started, T_context_compiled, T_attempt_started],
      [T_session_started, T_routing_decision, T_route_assigned, T_assistant_started, T_context_compiled,
       T_attempt_started],
      [T_routing_decision, T_route_assigned, T_assistant_started, T_context_compiled, T_attempt_started],
      [T_routing_decision, T_assistant_started, T_context_compiled, T_attempt_started],
      [T_assistant_started, T_context_compiled, T_attempt_started]]"

definition metered_target :: "routing_decision \<Rightarrow> string \<Rightarrow> bool" where
  "metered_target d pid \<longleftrightarrow>
     holds (rd_routerInputSnapshot d) (\<lambda>ri.
       holds (find (\<lambda>p. rp_providerId p = pid) (ri_providers ri)) (\<lambda>p.
         rp_locality p \<noteq> Local_provider \<or> rp_accountingKind p \<noteq> Local_zero_cost))"

definition local_decision_checks ::
  "string \<Rightarrow> runtime_cost_scope \<Rightarrow> string option \<Rightarrow> attempt_start \<Rightarrow> routing_decision \<Rightarrow> unit_error option" where
  "local_decision_checks createdAt scope admission a d = checks
     [throw_if (rd_costScope d \<noteq> Some scope \<or> rd_cloudEgressAdmissionId d \<noteq> admission) Local_decision_scope,
      throw_if (rd_routerInputSnapshot d = None) Local_without_snapshot,
      throw_if (\<not> holds (rd_routerInputSnapshot d) (\<lambda>ri. ri_asOf ri = createdAt)) Local_snapshot_time,
      throw_if (rd_reasonCode d = Rr_cloud_admitted \<or> rd_reasonCode d = Rr_budget_denial \<or>
          rd_billing d \<noteq> None \<or> rd_budgetReservationId d \<noteq> None \<or> rd_campaignId d \<noteq> None)
        Local_paid_metadata,
      throw_if (metered_target d (at_providerId a)) Local_metered_provider]"

definition local_egress_checks ::
  "string \<Rightarrow> string option \<Rightarrow> routing_decision option \<Rightarrow> egress_admission list \<Rightarrow> unit_error option" where
  "local_egress_checks createdAt admission decision admissions = checks
     [throw_if (length admissions > 1) Local_egress_records,
      (case admissions of
         [] \<Rightarrow> None
       | x # _ \<Rightarrow> throw_if (Some (ea_admissionId x) \<noteq> admission \<or> ea_evaluatedAt x \<noteq> createdAt \<or>
           \<not> holds decision (\<lambda>d. rd_provenanceSemanticSha256 d = Some (ea_provenanceSemanticSha256 x)))
           Local_egress_mismatch)]"

definition validate_local_start_batch ::
  "session_event_data list \<Rightarrow> string \<Rightarrow> runtime_cost_scope \<Rightarrow> string option \<Rightarrow> unit_error + attempt_start" where
  "validate_local_start_batch events createdAt scope admission =
     guarded (throw_if (\<not> list_ex (exact_types events) local_start_patterns) Local_pattern)
       (bind_result (require_single_attempt_start events) (\<lambda>a.
         let decision = first_payload decision_payload events
         in guarded (checks
           [throw_if (at_costScope a \<noteq> Some scope \<or> at_cloudEgressAdmissionId a \<noteq> admission) Local_scope,
            throw_if (at_budgetReservationId a \<noteq> None) Local_reserved,
            (case decision of None \<Rightarrow> None | Some d \<Rightarrow> local_decision_checks createdAt scope admission a d),
            local_egress_checks createdAt admission decision (payloads egress_payload events)])
           (Inr a)))"

section \<open>Finishes\<close>

definition require_single_attempt_finish :: "session_event_data list \<Rightarrow> unit_error + attempt_finish" where
  "require_single_attempt_finish events =
     (case payloads attempt_finish_payload events of
        [f] \<Rightarrow> Inr f
      | _ \<Rightarrow> Inl Not_one_attempt_finish)"

definition attempt_terminal_types :: "session_event_type list" where
  "attempt_terminal_types = [T_session_completed, T_session_failed, T_session_cancelled, T_session_interrupted]"

definition completed_attempt_id :: "session_event_data list \<Rightarrow> string option option" where
  "completed_attempt_id events =
     (case events of AssistantMessageCompleted p # _ \<Rightarrow> Some (ac_attemptId p) | _ \<Rightarrow> None)"

definition validate_attempt_finish_batch :: "session_event_data list \<Rightarrow> unit_error + attempt_finish" where
  "validate_attempt_finish_batch events =
     bind_result (require_single_attempt_finish events) (\<lambda>f.
       let completed = completed_attempt_id events;
           position = (if completed = None then 0 else 1)
       in guarded (checks
         [throw_if (length events \<le> position \<or> events ! position \<noteq> InferenceAttemptFinished f) Finish_position,
          throw_if (length events > position + 2) Finish_followers,
          throw_if (position + 1 < length events \<and>
              event_data_type (events ! (position + 1)) \<notin> set attempt_terminal_types)
            Finish_not_followed_by_terminal,
          throw_if (\<not> (case completed of None \<Rightarrow> True | Some i \<Rightarrow> i = Some (fin_attemptId f)))
            Finish_assistant_attempt])
         (Inr f))"

section \<open>Budgeted starts\<close>

text \<open>\<open>billingMatches\<close>; the rounding policy is a literal of both types.\<close>

definition billing_matches :: "billing option \<Rightarrow> billing \<Rightarrow> bool" where
  "billing_matches actual expected \<longleftrightarrow>
     holds actual (\<lambda>b.
       bl_billableInputTokens b = bl_billableInputTokens expected \<and>
       bl_billableCacheReadTokens b = bl_billableCacheReadTokens expected \<and>
       bl_requestedMaxOutputTokens b = bl_requestedMaxOutputTokens expected \<and>
       bl_inputRate b = bl_inputRate expected \<and> bl_outputRate b = bl_outputRate expected \<and>
       bl_cacheReadRate b = bl_cacheReadRate expected \<and>
       bl_providerFeeCeilingMicrousd b = bl_providerFeeCeilingMicrousd expected \<and>
       bl_projectedCostMicrousd b = bl_projectedCostMicrousd expected \<and>
       bl_remainingEpisodeMicrousd b = bl_remainingEpisodeMicrousd expected \<and>
       bl_remainingCampaignMicrousd b = bl_remainingCampaignMicrousd expected)"

record budgeted_start_input =
  bs_sessionId :: string
  bs_expectedSequence :: int
  bs_createdAt :: string
  bs_admittedIds :: "string list"
  bs_deniedIds :: "string list"
  bs_campaignId :: string
  bs_reservationId :: string
  bs_attemptId :: string
  bs_providerId :: string
  bs_pricingSnapshotId :: string
  bs_costScope :: runtime_cost_scope
  bs_cloudEgressAdmissionId :: "string option"
  bs_projection :: budget_projection

definition validate_budgeted_start_event_ids :: "budgeted_start_input \<Rightarrow> unit_error option" where
  "validate_budgeted_start_event_ids i = (let ids = bs_admittedIds i @ bs_deniedIds i in checks
     [throw_if (length (bs_admittedIds i) \<noteq> 6 \<or> length (bs_deniedIds i) \<noteq> 5) Budgeted_id_counts,
      throw_if (list_ex (\<lambda>e. js_trim e = []) ids) Budgeted_empty_id,
      throw_if (length (remdups ids) \<noteq> length ids) Budgeted_repeated_id])"

definition budgeted_types :: "reservation_resolution \<Rightarrow> session_event_type list" where
  "budgeted_types resolution = (case resolution of
       Admitted _ _ _ \<Rightarrow>
         [T_cloud_egress_admission, T_routing_decision, T_route_assigned, T_assistant_started,
          T_context_compiled, T_attempt_started]
     | Refused _ _ _ \<Rightarrow>
         [T_cloud_egress_admission, T_routing_decision, T_assistant_started, T_context_compiled,
          T_attempt_started])"

definition resolution_billing :: "reservation_resolution \<Rightarrow> billing" where
  "resolution_billing resolution = (case resolution of Admitted b _ _ \<Rightarrow> b | Refused _ b _ \<Rightarrow> b)"

definition budgeted_egress_matches ::
  "budgeted_start_input \<Rightarrow> egress_admission \<Rightarrow> routing_decision \<Rightarrow> attempt_start \<Rightarrow> bool" where
  "budgeted_egress_matches i x d a \<longleftrightarrow>
     Some (ea_admissionId x) = bs_cloudEgressAdmissionId i \<and> ea_decision x = Egress_pass \<and>
     ea_evaluatedAt x = bs_createdAt i \<and> rd_cloudEgressAdmissionId d = bs_cloudEgressAdmissionId i \<and>
     rd_provenanceSemanticSha256 d = Some (ea_provenanceSemanticSha256 x) \<and>
     at_cloudEgressAdmissionId a = bs_cloudEgressAdmissionId i"

definition admitted_mismatch ::
  "budgeted_start_input \<Rightarrow> billing \<Rightarrow> routing_decision \<Rightarrow> attempt_start \<Rightarrow> context_compilation \<Rightarrow> bool" where
  "admitted_mismatch i b d a c \<longleftrightarrow> (let billable = cc_estimatedTokens c + cc_reservedInputTokens c in
     rd_reasonCode d \<noteq> Rr_cloud_admitted \<or> rd_selectedProviderId d \<noteq> bs_providerId i \<or>
     rd_budgetReservationId d \<noteq> Some (bs_reservationId i) \<or> at_providerId a \<noteq> bs_providerId i \<or>
     at_budgetReservationId a \<noteq> Some (bs_reservationId i) \<or>
     at_requestedMaxOutputTokens a \<noteq> bl_requestedMaxOutputTokens b \<or>
     \<not> is_safe_integer billable \<or> bl_billableInputTokens b \<noteq> billable)"

definition refused_mismatch ::
  "budgeted_start_input \<Rightarrow> budget_denial \<Rightarrow> routing_decision \<Rightarrow> attempt_start \<Rightarrow> bool" where
  "refused_mismatch i reason d a \<longleftrightarrow>
     rd_reasonCode d \<noteq> Rr_budget_denial \<or> rd_proposedProviderId d \<noteq> Some (bs_providerId i) \<or>
     rd_budgetReservationId d \<noteq> None \<or> at_budgetReservationId a \<noteq> None \<or>
     map_option tf_value (find (\<lambda>f. tf_key f = ''budget_denial_reason'') (rd_triggerFacts d)) \<noteq>
       Some (JString (denial_text reason))"

definition budgeted_decision_checks ::
  "budgeted_start_input \<Rightarrow> reservation_resolution \<Rightarrow> string \<Rightarrow> egress_admission \<Rightarrow> routing_decision \<Rightarrow> attempt_start
     \<Rightarrow> unit_error option" where
  "budgeted_decision_checks i resolution credential x d a = checks
     [throw_if (\<not> budgeted_egress_matches i x d a \<or> rd_costScope d \<noteq> Some (bs_costScope i) \<or>
          at_costScope a \<noteq> Some (bs_costScope i)) Budgeted_egress,
      throw_if (rd_routerInputSnapshot d = None) Budgeted_without_snapshot,
      throw_if (\<not> holds (rd_routerInputSnapshot d) (\<lambda>ri. ri_asOf ri = bs_createdAt i)) Budgeted_snapshot_time,
      throw_if (\<not> billing_matches (rd_billing d) (resolution_billing resolution)) Budgeted_billing,
      throw_if (rd_campaignId d \<noteq> Some (bs_campaignId i) \<or>
          rd_pricingSnapshotId d \<noteq> Some (bs_pricingSnapshotId i) \<or>
          rd_credentialMetadataId d \<noteq> Some credential) Budgeted_identities,
      throw_if (at_attemptId a \<noteq> bs_attemptId i) Budgeted_attempt]"

definition budgeted_outcome_checks ::
  "budgeted_start_input \<Rightarrow> reservation_resolution \<Rightarrow> routing_decision \<Rightarrow> attempt_start \<Rightarrow> context_compilation option
     \<Rightarrow> unit_error option" where
  "budgeted_outcome_checks i resolution d a context = (case resolution of
       Admitted b _ _ \<Rightarrow> throw_if (\<not> holds context (\<lambda>c. \<not> admitted_mismatch i b d a c)) Budgeted_admitted
     | Refused reason _ _ \<Rightarrow> throw_if (refused_mismatch i reason d a) Budgeted_denied)"

text \<open>The batch of a budgeted start: its exact types, then its admission, decision and attempt.\<close>

definition validate_budgeted_start_batch ::
  "budgeted_start_input \<Rightarrow> reservation_resolution \<Rightarrow> session_event_data list \<Rightarrow> string \<Rightarrow> unit_error + attempt_start" where
  "validate_budgeted_start_batch i resolution events credential =
     guarded (throw_if (\<not> exact_types events (budgeted_types resolution)) Budgeted_order)
       (case (first_payload egress_payload events, first_payload decision_payload events,
              first_payload attempt_start_payload events) of
          (Some x, Some d, Some a) \<Rightarrow>
            guarded (checks
              [budgeted_decision_checks i resolution credential x d a,
               budgeted_outcome_checks i resolution d a (first_payload context_payload events)])
              (Inr a)
        | _ \<Rightarrow> Inl Budgeted_order)"

definition require_overrun_failure :: "session_event_data list \<Rightarrow> unit_error option" where
  "require_overrun_failure events =
     throw_if (\<not> holds (at_last events) (\<lambda>e. case e of SessionFailed err \<Rightarrow> mentions_budget_overrun err | _ \<Rightarrow> False))
       Overrun_not_failed"

end
