(* ===== verification/AppendEffects.thy ===== *)
theory AppendEffects
  imports ReconciledDatabases AttemptBatches
begin

text \<open>
  What one append to a consistent store does: the events it was given are stored as they are, one
  session moves by exactly them, and every other session stays.
\<close>

section \<open>Batches\<close>

lemma parse_events_fixed:
  "parse_events reviews ds = Inr xs \<Longrightarrow>
     list_all (\<lambda>x. parse_session_event_data reviews x = Some x) xs \<and> map event_data_type xs = map event_data_type ds"
  by (induction ds arbitrary: xs)
    (auto simp: check_simps parse_parsed_event_data parse_session_event_data_Some split: option.splits)

lemma parse_batch_fixed:
  assumes "parse_batch reviews ds = Inr xs"
  shows "xs \<noteq> []" "list_all (\<lambda>x. parse_session_event_data reviews x = Some x) xs"
proof -
  have p: "parse_events reviews ds = Inr xs" "ds \<noteq> []" using assms by (auto simp: parse_batch_def check_simps)
  from parse_events_fixed [OF p(1)] show "list_all (\<lambda>x. parse_session_event_data reviews x = Some x) xs" by simp
  have "map event_data_type xs = map event_data_type ds" using parse_events_fixed [OF p(1)] by simp
  with p(2) show "xs \<noteq> []" by auto
qed

section \<open>The stored events\<close>

lemma normalize_pending_fixed:
  assumes "list_all (\<lambda>p. parse_session_event_data (se_reviews env) (pe_event p) = Some (pe_event p)) ps"
    and "normalize_pending env ps = Inr qs"
  shows "qs = ps"
  using assms by (induction ps arbitrary: qs) (auto simp: check_simps)

lemma append_one_data:
  assumes "append_one env sid n p st = Inr (c, st')"
    and "parse_session_event_data (se_reviews env) (pe_event p) = Some (pe_event p)"
  shows "ev_data c = pe_event p \<and> ev_createdAt c = pe_createdAt p"
  using assms
  by (auto simp: append_one_def check_simps parse_stored_session_event_def Let_def candidate_event_def
      split: prod.splits option.splits if_splits)

lemma append_events_data:
  assumes "append_events env sid n ps st = Inr (cs, rest)"
    and "list_all (\<lambda>p. parse_session_event_data (se_reviews env) (pe_event p) = Some (pe_event p)) ps"
  shows "map ev_data cs = map pe_event ps \<and> map ev_createdAt cs = map pe_createdAt ps"
  using assms
proof (induction ps arbitrary: n st cs)
  case Nil
  then show ?case by (cases st) auto
next
  case (Cons p ps)
  then obtain c st' cs' where "append_one env sid (n + 1) p st = Inr (c, st')"
    "append_events env sid (n + 1) ps st' = Inr (cs', rest)" "cs = c # cs'"
    by (auto simp: bind_result_Inr)
  with Cons append_one_data show ?case by auto
qed

lemma map_map2: "length xs = length ys \<Longrightarrow> map f (map2 g xs ys) = map (\<lambda>(x, y). f (g x y)) (zip xs ys)"
  by (simp add: comp_def case_prod_unfold)

lemma batch_pending:
  assumes "length ids = length events"
  shows "map pe_event (map2 (\<lambda>d i. \<lparr>pe_event = d, pe_eventId = i, pe_createdAt = tm\<rparr>) events ids) = events"
    and "map pe_createdAt (map2 (\<lambda>d i. \<lparr>pe_event = d, pe_eventId = i, pe_createdAt = tm\<rparr>) events ids) =
      replicate (length events) tm"
  using assms by (induction ids events rule: list_induct2) simp_all

lemma append_internal_stored:
  assumes "append_internal env sid ps expected db = Inr (db', stored)" "ps \<noteq> []"
  obtains qs n st rest where "normalize_pending env ps = Inr qs" "append_events env sid n qs st = Inr (stored, rest)"
  using assms
  by (auto simp: append_internal_def Let_def check_simps finish_append_def
      split: prod.splits option.splits if_splits)

lemma map_eq_replicate: "map f xs = replicate n y \<Longrightarrow> x \<in> set xs \<Longrightarrow> f x = y"
  by (metis image_eqI in_set_replicate list.set_map)

definition stored_at :: "string \<Rightarrow> string \<Rightarrow> stored_event list \<Rightarrow> bool" where
  "stored_at sid tm es \<longleftrightarrow> list_all (\<lambda>e. ev_sessionId e = sid \<and> ev_createdAt e = tm) es"

section \<open>The sessions\<close>

text \<open>The states of the sessions that an append leaves alone are the same before and after.\<close>

definition moves_only :: "string \<Rightarrow> database \<Rightarrow> database \<Rightarrow> bool" where
  "moves_only k db db' \<longleftrightarrow>
     (\<forall>y. sw_id y \<noteq> k \<longrightarrow> (y \<in> set (db_sessions db') \<longleftrightarrow> y \<in> set (db_sessions db)))"

lemma session_has_events:
  assumes "store_ok env db" "y \<in> set (db_sessions db)"
  shows "session_events db (sw_id y) \<noteq> []"
  using assms by (auto simp: store_ok_def list_all_iff session_ok_def)

lemma events_have_session:
  assumes "store_ok env db" "session_events db k \<noteq> []"
  shows "\<exists>y \<in> set (db_sessions db). sw_id y = k"
proof -
  obtain e where e: "e \<in> set (db_events db)" "ev_sessionId e = k"
    using assms(2) by (auto simp: session_events_def filter_empty_conv)
  then have "find_session db k \<noteq> None"
    using assms(1) by (auto simp: store_ok_def list_all_iff event_row_fixed_def)
  then show ?thesis by (auto simp: find_session_None)
qed

lemma row_of_state:
  assumes "store_ok env db" "y \<in> set (db_sessions db)"
  shows "replay_session (se_replay env) (session_events db (sw_id y)) = Inr (sw_state y)"
    and "y = projection_parameters (sw_state y) (st_lastSequence (sw_state y))"
  using assms by (simp_all add: store_ok_def list_all_iff session_ok_def)

lemma same_events_same_row:
  assumes "store_ok env db" "store_ok env db'" "y \<in> set (db_sessions db)"
    and "session_events db' (sw_id y) = session_events db (sw_id y)"
  shows "y \<in> set (db_sessions db')"
proof -
  obtain z where z: "z \<in> set (db_sessions db')" "sw_id z = sw_id y"
    using events_have_session [OF assms(2), of "sw_id y"] session_has_events [OF assms(1,3)] assms(4) by auto
  have "sw_state z = sw_state y"
    using row_of_state(1) [OF assms(2) z(1)] row_of_state(1) [OF assms(1,3)] z(2) assms(4) by simp
  with row_of_state(2) [OF assms(2) z(1)] row_of_state(2) [OF assms(1,3)] have "z = y" by metis
  with z(1) show ?thesis by simp
qed

lemma append_moves_only:
  assumes "store_ok env db" "store_ok env db'" "db_events db' = db_events db @ cs"
    and "list_all (\<lambda>e. ev_sessionId e = k) cs"
  shows "moves_only k db db'"
proof -
  have "session_events db' i = session_events db i" if "i \<noteq> k" for i
    using assms(3,4) that by (auto simp: session_events_def list_all_iff filter_empty_conv)
  with same_events_same_row [OF assms(1,2)] same_events_same_row [OF assms(2,1)] show ?thesis
    by (auto simp: moves_only_def)
qed

lemma replay_session_append:
  assumes "replay_session env es = Inr s"
  shows "replay_session env (es @ cs) = replay_from env s cs"
proof (cases es)
  case Nil
  with assms show ?thesis by simp
next
  case (Cons e rest)
  then show ?thesis using assms by (cases "reduce_first e") (simp_all add: session_replay.run_append)
qed

section \<open>The effect of an append\<close>

lemma normalize_pending_data:
  assumes "normalize_pending env ps = Inr qs"
  shows "list_all (\<lambda>p. parse_session_event_data (se_reviews env) (pe_event p) = Some (pe_event p)) qs"
    "map (\<lambda>p. event_data_type (pe_event p)) qs = map (\<lambda>p. event_data_type (pe_event p)) ps"
    "map pe_createdAt qs = map pe_createdAt ps"
  using assms
  by (induction ps arbitrary: qs)
    (auto simp: check_simps parse_parsed_event_data parse_session_event_data_Some split: option.splits)

text \<open>The general effect: the stored events have the kinds and the time that were asked for.\<close>

lemma append_many_result:
  assumes run: "append_many env sid events ids tm expected db = Inr (db', stored)"
    and ok: "store_ok env db" and ne: "events \<noteq> []"
  shows "store_ok env db'" "db_ledger db' = db_ledger db" "db_events db' = db_events db @ stored"
    and "map event_type stored = map event_data_type events" "stored_at (js_trim sid) tm stored"
    and "moves_only (js_trim sid) db db'" "\<exists>y \<in> set (db_sessions db'). sw_id y = js_trim sid"
    and "list_all (\<lambda>x. parse_session_event_data (se_reviews env) x = Some x) events \<Longrightarrow> map ev_data stored = events"
proof -
  let ?ps = "map2 (\<lambda>d i. \<lparr>pe_event = d, pe_eventId = i, pe_createdAt = tm\<rparr>) events ids"
  have len: "length ids = length events" and internal: "append_internal env sid ?ps expected db = Inr (db', stored)"
    using run by (auto simp: append_many_def check_simps)
  note ps = batch_pending [OF len, of tm]
  have nps: "?ps \<noteq> []" using ps(1) ne by (metis list.simps(8))
  note k = append_internal_keeps_store [OF internal ok nps]
  show "store_ok env db'" "db_ledger db' = db_ledger db" "db_events db' = db_events db @ stored"
    by (rule k(1), rule k(3), rule k(2))
  obtain qs n st rest where q: "normalize_pending env ?ps = Inr qs" "append_events env sid n qs st = Inr (stored, rest)"
    by (rule append_internal_stored [OF internal nps])
  note norm = normalize_pending_data [OF q(1)]
  have d: "map ev_data stored = map pe_event qs" "map ev_createdAt stored = map pe_createdAt qs"
    using append_events_data [OF q(2) norm(1)] by blast+
  have "map event_data_type (map ev_data stored) = map event_data_type (map pe_event ?ps)"
    unfolding d(1) using norm(2) by (simp add: comp_def)
  then show "map event_type stored = map event_data_type events"
    unfolding ps(1) by (simp add: event_type_def [abs_def] comp_def)
  have "map ev_createdAt stored = replicate (length events) tm" unfolding d(2) norm(3) by (rule ps(2))
  then have "ev_createdAt e = tm" if "e \<in> set stored" for e by (rule map_eq_replicate [OF _ that])
  with k(4) show "stored_at (js_trim sid) tm stored" by (simp add: stored_at_def list_all_iff)
  show "moves_only (js_trim sid) db db'" by (rule append_moves_only [OF ok k(1) k(2) k(4)])
  show "\<exists>y \<in> set (db_sessions db'). sw_id y = js_trim sid"
    using k(6) by (auto dest: find_session_SomeD)
  show "map ev_data stored = events"
    if fixed: "list_all (\<lambda>x. parse_session_event_data (se_reviews env) x = Some x) events"
  proof -
    have "list_all (\<lambda>x. parse_session_event_data (se_reviews env) x = Some x) (map pe_event ?ps)"
      unfolding ps(1) by (rule fixed)
    then have "list_all (\<lambda>p. parse_session_event_data (se_reviews env) (pe_event p) = Some (pe_event p)) ?ps"
      by (simp only: list_all_iff list.set_map ball_simps)
    then have "qs = ?ps" by (rule normalize_pending_fixed [OF _ q(1)])
    with d(1) ps(1) show ?thesis by metis
  qed
qed

end
