(* ===== verification/LinkedAttempts.thy ===== *)
theory LinkedAttempts
  imports AppendEffects SessionCompletion
begin

text \<open>
  What the steps of one session and one more row of the ledger do to the link between an attempt
  and its reservation, and when a database stays reconciled under a transaction that moves one
  session and inserts at most one row.
\<close>

section \<open>The attempts of a run\<close>

lemma attempts_exact:
  "reduce_next env s e = Inr s' \<Longrightarrow>
     st_inferenceAttempts s' =
       (case ev_data e of
          InferenceAttemptStarted p \<Rightarrow> st_inferenceAttempts s @ [\<lparr>ar_start = recorded e p, ar_finished = None\<rparr>]
        | InferenceAttemptFinished p \<Rightarrow> update_first (\<lambda>r. at_attemptId (attempt_of r) = fin_attemptId p)
            (finish_attempt e p) (st_inferenceAttempts s)
        | _ \<Rightarrow> st_inferenceAttempts s)"
  by (erule reduce_nextE, cases "ev_data e")
    (auto dest!: handler_ok simp: update_message_def split: option.splits)

lemma paid_ids_step:
  "reduce_next env s e = Inr s' \<Longrightarrow>
     paid_ids (st_inferenceAttempts s') =
       paid_ids (st_inferenceAttempts s) @ (case paid_attempt_id e of None \<Rightarrow> [] | Some i \<Rightarrow> [i])"
proof -
  assume "reduce_next env s e = Inr s'"
  note a = attempts_exact [OF this]
  show ?thesis
  proof (cases "\<exists>p. ev_data e = InferenceAttemptFinished p")
    case True
    then obtain p where "ev_data e = InferenceAttemptFinished p" by blast
    with a have "map attempt_of (st_inferenceAttempts s') = map attempt_of (st_inferenceAttempts s)"
      by (simp add: map_update_first finish_attempt_def)
    with True show ?thesis by (auto simp: paid_attempt_id_def dest: paid_ids_attempts)
  next
    case False
    with a show ?thesis by (auto simp: paid_attempt_id_def split: session_event_data.splits option.splits)
  qed
qed

lemma paid_ids_run:
  "replay_from env s es = Inr s' \<Longrightarrow>
     paid_ids (st_inferenceAttempts s') = paid_ids (st_inferenceAttempts s) @ List.map_filter paid_attempt_id es"
proof (induction es arbitrary: s)
  case Nil
  then show ?case by (simp add: List.map_filter_def)
next
  case (Cons e es)
  then obtain m where m: "reduce_next env s e = Inr m" "replay_from env m es = Inr s'"
    by (auto simp: bind_result_Inr)
  from Cons.IH [OF m(2)] paid_ids_step [OF m(1)] show ?case
    by (simp add: List.map_filter_def split: option.splits)
qed

text \<open>Attempts exist only under a version 2 policy, and a session that left its first state
  is running or terminal.\<close>

definition attempts_are_v2 :: "session_state \<Rightarrow> bool" where
  "attempts_are_v2 s \<longleftrightarrow> (st_inferenceAttempts s \<noteq> [] \<longrightarrow> is_v2 s)"

lemma attempts_are_v2_replay:
  assumes "replay_session env es = Inr s"
  shows "attempts_are_v2 s"
proof (rule session_invariant [where P = attempts_are_v2, OF _ _ assms])
  show "attempts_are_v2 t" if "reduce_first e = Inr t" for e t
    using reduce_first_ok [OF that] by (auto simp: attempts_are_v2_def create_initial_session_state_def)
  show "attempts_are_v2 t'" if "attempts_are_v2 t" "reduce_next env t e = Inr t'" for t e t'
    using attempts_step [OF that(2)] step_frame(6) [OF that(2)] that(1) by (auto simp: attempts_are_v2_def)
qed

lemma running_run:
  assumes "replay_from env s es = Inr s'" "st_status s = Running"
  shows "st_status s' = Running \<or> is_terminal_status (st_status s')"
proof (rule session_replay.run_invariant [where P = "\<lambda>s. st_status s = Running \<or> is_terminal_status (st_status s)", OF _ _ assms(1)])
  show "st_status t' = Running \<or> is_terminal_status (st_status t')"
    if "st_status t = Running \<or> is_terminal_status (st_status t)" "reduce_next env t e = Inr t'" for t e t'
    using status_step [OF that(2)] that(1) by (auto simp: is_terminal_status_def split: session_event_data.splits)
qed (use assms(2) in simp)

lemma run_frame:
  assumes "replay_from env s es = Inr s'"
  shows "st_id s' = st_id s" "st_executionPolicy s' = st_executionPolicy s" "v2_policy s' = v2_policy s"
proof -
  have "st_id s' = st_id s \<and> st_executionPolicy s' = st_executionPolicy s \<and> v2_policy s' = v2_policy s"
    by (rule session_replay.run_relation [where R = "\<lambda>s s'. st_id s' = st_id s \<and>
          st_executionPolicy s' = st_executionPolicy s \<and> v2_policy s' = v2_policy s", OF _ _ _ assms])
      (auto dest: step_frame)
  then show "st_id s' = st_id s" "st_executionPolicy s' = st_executionPolicy s" "v2_policy s' = v2_policy s" by auto
qed

lemma run_not_terminal:
  assumes "replay_from env s es = Inr s'" "es \<noteq> []"
  shows "\<not> is_terminal_status (st_status s)"
proof -
  obtain e fs where "es = e # fs" using assms(2) by (cases es) auto
  then obtain m where "reduce_next env s e = Inr m" using assms(1) by (auto simp: bind_result_Inr)
  then show ?thesis by (elim reduce_nextE) (auto dest: event_guards_None)
qed

section \<open>A link survives the steps of its session\<close>

lemma find_prefix: "prefix xs ys \<Longrightarrow> find P xs = Some x \<Longrightarrow> find P ys = Some x"
  by (auto simp: prefix_def find_append_old)

lemma decision_checks_kept:
  assumes "decision_checks rows s d r = None" "prefix (st_cloudEgressAdmissions s) (st_cloudEgressAdmissions s')"
    and "st_executionPolicy s' = st_executionPolicy s"
  shows "decision_checks (rows @ new) s' d r = None"
proof -
  obtain c where c: "require_campaign rows (res_campaignId r) = Inr c"
    using assms(1) by (auto simp: decision_checks_def split: sum.splits)
  have cap: "v2_episode_cap s' = v2_episode_cap s" using assms(3) by (simp add: v2_episode_cap_def)
  have "egress_matches s d r \<Longrightarrow> egress_matches s' d r"
    using find_prefix [OF assms(2)] by (auto simp: egress_matches_def holds_iff Let_def)
  with assms(1) c require_campaign_snoc [OF c, of new] cap show ?thesis
    by (auto simp: decision_checks_def check_simps reconciliation_failure_if_def split: sum.splits)
qed

lemma resolution_kept:
  assumes "resolution_checks s a terminal r = None" "replay_from env s es = Inr s'" "es \<noteq> []"
    and "ar_finished a = None \<Longrightarrow> \<not> is_terminal_status (st_status s')"
  shows "resolution_checks s' a terminal r = None"
proof -
  have nt: "\<not> is_terminal_status (st_status s)" by (rule run_not_terminal [OF assms(2,3)])
  show ?thesis
  proof (cases "ar_finished a")
    case None
    then have "terminal = None" "st_status s = Running"
      using assms(1) by (auto simp: resolution_checks_def check_simps reconciliation_failure_if_def split: option.splits)
    moreover from running_run [OF assms(2) this(2)] assms(4) None have "st_status s' = Running" by blast
    ultimately show ?thesis using None by (simp add: resolution_checks_def reconciliation_failure_if_def check_simps)
  next
    case (Some f)
    then obtain t where t: "terminal = Some t"
      using assms(1) by (auto simp: resolution_checks_def split: option.splits)
    have "settled_checks s' (rec_payload f) t r = None" if "settled_checks s (rec_payload f) t r = None"
      using that nt by (auto simp: settled_checks_def Let_def check_simps reconciliation_failure_if_def is_terminal_status_def)
    with assms(1) Some t show ?thesis
      by (auto simp: resolution_checks_def check_simps reconciliation_failure_if_def split: if_splits)
  qed
qed

lemma attempt_links_moved:
  assumes link: "attempt_links rows terminal s a r" and run: "replay_from env s es = Inr s'"
    and start: "ar_start a' = ar_start a" and res: "resolution_checks s' a' terminal' r = None"
  shows "attempt_links (rows @ new) terminal' s' a' r"
proof -
  obtain d where d: "start_matches s (ar_start a) r" "attempt_decision s a = Some d" "decision_matches d r"
    "decision_checks rows s d r = None"
    using link by (auto simp: attempt_links_def)
  have h: "prefix (st_routingDecisions s) (st_routingDecisions s')"
    "prefix (st_cloudEgressAdmissions s) (st_cloudEgressAdmissions s')"
    using history_kept_from [OF run] by (simp_all add: history_kept_def)
  have "start_matches s' (ar_start a') r" using d(1) run_frame(1) [OF run] start by (simp add: start_matches_def Let_def)
  moreover have "attempt_decision s' a' = Some d"
    using d(2) find_prefix [OF h(1)] start by (auto simp: attempt_decision_def)
  ultimately show ?thesis
    using d(3) decision_checks_kept [OF d(4) h(2) run_frame(2) [OF run], of new] res by (auto simp: attempt_links_def)
qed

lemma attempt_links_kept:
  assumes link: "attempt_links rows terminal s a r" and run: "replay_from env s es = Inr s'" "es \<noteq> []"
    and opened: "ar_finished a = None \<Longrightarrow> \<not> is_terminal_status (st_status s')"
  shows "attempt_links (rows @ new) terminal s' a r"
proof (rule attempt_links_moved [OF link run(1)])
  have "resolution_checks s a terminal r = None" using link by (auto simp: attempt_links_def)
  from resolution_kept [OF this run opened] show "resolution_checks s' a terminal r = None" .
qed simp

lemma open_attempt_not_terminal:
  assumes "replay_session env es = Inr s" "a \<in> set (st_inferenceAttempts s)" "ar_finished a = None"
  shows "\<not> is_terminal_status (st_status s)"
proof
  assume "is_terminal_status (st_status s)"
  moreover have "is_v2 s" using attempts_are_v2_replay [OF assms(1)] assms(2) by (auto simp: attempts_are_v2_def)
  ultimately have "quiescent s" using terminal_facts_replay [OF assms(1)] by (simp add: terminal_facts_def)
  with assms(2,3) show False by (auto simp: quiescent_def list_all_iff attempt_is_open_def)
qed

end
