(* ===== verification/ReconciledSteps.thy ===== *)
theory ReconciledSteps
  imports LinkedAttempts
begin

text \<open>
  When a database stays reconciled under a transaction that moves one session and inserts rows
  into the ledger: the moved session must be linked again, and the new rows covered and readable.
\<close>

section \<open>The shape of a commit\<close>

definition commits ::
  "store_env \<Rightarrow> string \<Rightarrow> ledger_row list \<Rightarrow> stored_event list \<Rightarrow> database \<Rightarrow> database \<Rightarrow> bool" where
  "commits env k new stored db db' \<longleftrightarrow>
     store_ok env db' \<and> moves_only k db db' \<and> db_ledger db' = db_ledger db @ new \<and>
     db_events db' = db_events db @ stored \<and> list_all (\<lambda>e. ev_sessionId e = k) stored \<and> stored \<noteq> [] \<and>
     (\<exists>y \<in> set (db_sessions db'). sw_id y = k)"

lemma session_unique:
  "store_ok env db \<Longrightarrow> y \<in> set (db_sessions db) \<Longrightarrow> z \<in> set (db_sessions db) \<Longrightarrow> sw_id y = sw_id z \<Longrightarrow> y = z"
  by (metis find_session_unique option.inject store_ok_def)

lemma commits_events: "commits env k new stored db db' \<Longrightarrow> session_events db' k = session_events db k @ stored"
  by (simp add: commits_def session_events_def list_all_iff filter_id_conv)

lemma commits_run:
  assumes "store_ok env db" "commits env k new stored db db'"
    and "y \<in> set (db_sessions db)" "sw_id y = k" "z \<in> set (db_sessions db')" "sw_id z = k"
  shows "replay_from (se_replay env) (sw_state y) stored = Inr (sw_state z)"
proof -
  have "store_ok env db'" using assms(2) by (simp add: commits_def)
  then have "replay_session (se_replay env) (session_events db k @ stored) = Inr (sw_state z)"
    using row_of_state(1) [OF _ assms(5)] assms(6) commits_events [OF assms(2)] by auto
  then show ?thesis
    using replay_session_append [OF row_of_state(1) [OF assms(1,3)], of stored] assms(4) by simp
qed

lemma commits_replayed:
  assumes "commits env k new stored db db'" "z \<in> set (db_sessions db')" "sw_id z = k"
  shows "replay_session (se_replay env) (session_events db k @ stored) = Inr (sw_state z)"
    and "replay_session (se_replay env) (session_events db' k) = Inr (sw_state z)"
  using row_of_state(1) [of env db' z] assms commits_events [OF assms(1)] by (auto simp: commits_def)

section \<open>Links and rows\<close>

lemma terminal_of_append:
  "(\<And>x. x \<in> set new \<Longrightarrow> is_terminal_row x \<Longrightarrow> lr_reservationId x \<noteq> Some i) \<Longrightarrow>
     terminal_of (rows @ new) i = terminal_of rows i"
proof -
  assume new: "\<And>x. x \<in> set new \<Longrightarrow> is_terminal_row x \<Longrightarrow> lr_reservationId x \<noteq> Some i"
  let ?P = "\<lambda>x. is_terminal_row x \<and> lr_reservationId x = Some i"
  have "find ?P (rows @ new) = find ?P rows"
  proof (cases "find ?P rows")
    case None
    then have "find ?P (rows @ new) = None" using new by (auto simp: find_None_iff)
    with None show ?thesis by simp
  qed (simp add: find_append_old)
  then show ?thesis by (simp add: terminal_of_def)
qed

lemma links_more_rows:
  "attempt_links rows terminal s a r \<Longrightarrow> attempt_links (rows @ new) terminal s a r"
  using decision_checks_kept [of rows s _ r s new] by (auto simp: attempt_links_def)

lemma session_linked_nothing:
  assumes "paid_ids (st_inferenceAttempts s) = []"
  shows "session_linked rows s"
proof -
  have "at_budgetReservationId (attempt_of a) \<noteq> Some i" if "a \<in> set (st_inferenceAttempts s)" for a i
    using paid_ids_mem [of i "st_inferenceAttempts s"] assms that by auto
  with assms show ?thesis by (simp add: session_linked_def)
qed

lemma linked_row_append:
  assumes "linked_row rows s a i" "terminal_of (rows @ new) i = terminal_of rows i"
  shows "linked_row (rows @ new) s a i"
  using assms links_more_rows by (fastforce simp: linked_row_def)

lemma session_linked_append:
  assumes "session_linked rows s"
    and "\<And>i. i \<in> set (paid_ids (st_inferenceAttempts s)) \<Longrightarrow> terminal_of (rows @ new) i = terminal_of rows i"
  shows "session_linked (rows @ new) s"
  using assms linked_row_append by (fastforce simp: session_linked_def paid_ids_mem)

section \<open>Reconciled after a commit\<close>

lemma reconciled_after:
  assumes ok: "store_ok env db" and rec: "reconciled db" and com: "commits env k new stored db db'"
    and nonempty: "\<And>e. e \<in> set stored \<Longrightarrow> paid_attempt_id e \<noteq> Some []"
    and others: "\<And>y i. y \<in> set (db_sessions db) \<Longrightarrow> sw_id y \<noteq> k \<Longrightarrow>
      i \<in> set (paid_ids (st_inferenceAttempts (sw_state y))) \<Longrightarrow>
      terminal_of (db_ledger db @ new) i = terminal_of (db_ledger db) i"
    and moved: "\<And>z. z \<in> set (db_sessions db') \<Longrightarrow> sw_id z = k \<Longrightarrow>
      session_linked (db_ledger db @ new) (sw_state z)"
    and covered: "\<And>x. x \<in> set new \<Longrightarrow> is_reservation_row x \<Longrightarrow> reservation_covered (db_sessions db') x"
    and readable: "\<And>x. x \<in> set new \<Longrightarrow> is_terminal_row x \<Longrightarrow> is_ok (to_terminal x)"
  shows "reconciled db'"
proof -
  have c: "moves_only k db db'" "db_ledger db' = db_ledger db @ new" "db_events db' = db_events db @ stored"
    "\<exists>y \<in> set (db_sessions db'). sw_id y = k" using com by (simp_all add: commits_def)
  have old: "reservation_covered (db_sessions db') x" if x: "reservation_covered (db_sessions db) x" for x
  proof -
    obtain r y where r: "to_reservation x = Inr r" "assert_reservation_projection r = None"
      "y \<in> set (db_sessions db)" "sw_id y = res_sessionId r"
      "res_id r \<in> set (paid_ids (st_inferenceAttempts (sw_state y)))"
      using x by (auto simp: reservation_covered_def)
    show ?thesis
    proof (cases "sw_id y = k")
      case True
      obtain z where z: "z \<in> set (db_sessions db')" "sw_id z = k" using c(4) by blast
      have "res_id r \<in> set (paid_ids (st_inferenceAttempts (sw_state z)))"
        using paid_ids_run [OF commits_run [OF ok com r(3) True z]] r(5) by simp
      with r True z show ?thesis by (auto simp: reservation_covered_def)
    next
      case False
      then have "y \<in> set (db_sessions db')" using c(1) r(3) by (simp add: moves_only_def)
      with r show ?thesis by (auto simp: reservation_covered_def)
    qed
  qed
  have "session_linked (db_ledger db') (sw_state z)" if z: "z \<in> set (db_sessions db')" for z
  proof (cases "sw_id z = k")
    case False
    then have "z \<in> set (db_sessions db)" using c(1) z by (simp add: moves_only_def)
    with rec False others show ?thesis by (auto simp: c(2) reconciled_def intro: session_linked_append)
  qed (use z moved c(2) in simp)
  moreover have "reservation_covered (db_sessions db') x"
    if "x \<in> set (db_ledger db')" "is_reservation_row x" for x
    using that rec covered old by (auto simp: c(2) reconciled_def)
  moreover have "is_ok (to_terminal x)" if "x \<in> set (db_ledger db')" "is_terminal_row x" for x
    using that rec readable by (auto simp: c(2) reconciled_def)
  moreover have "paid_attempt_id e \<noteq> Some []" if "e \<in> set (db_events db')" for e
    using that rec nonempty by (auto simp: c(3) reconciled_def)
  ultimately show ?thesis by (simp add: reconciled_def)
qed

section \<open>Commits without paid work\<close>

definition paid_attempts :: "session_state \<Rightarrow> attempt_record list" where
  "paid_attempts s = filter is_paid (st_inferenceAttempts s)"

lemma paid_ids_paid: "paid_ids (filter is_paid as) = paid_ids as"
  by (induction as) (auto simp: is_paid_def split: option.splits)

lemma session_linked_iff:
  "session_linked rows s \<longleftrightarrow> distinct (paid_ids (paid_attempts s)) \<and>
     (\<forall>a \<in> set (paid_attempts s). \<forall>i. at_budgetReservationId (attempt_of a) = Some i \<longrightarrow> linked_row rows s a i)"
  by (auto simp: session_linked_def paid_attempts_def paid_ids_paid is_paid_def)

lemma linked_row_kept:
  assumes "linked_row rows s a i" "replay_from env s es = Inr s'" "es \<noteq> []"
    and "ar_finished a = None \<Longrightarrow> \<not> is_terminal_status (st_status s')"
    and "terminal_of (rows @ new) i = terminal_of rows i"
  shows "linked_row (rows @ new) s' a i"
  using assms attempt_links_kept [OF _ assms(2-4)] by (fastforce simp: linked_row_def)

lemma session_linked_kept:
  assumes "session_linked rows s" "replay_from env s es = Inr s'" "es \<noteq> []"
    and run: "replay_session env fs = Inr s'" and same: "paid_attempts s' = paid_attempts s"
  shows "session_linked rows s'"
proof -
  have "linked_row rows s' a i"
    if a: "a \<in> set (paid_attempts s')" "at_budgetReservationId (attempt_of a) = Some i" for a i
  proof -
    have "linked_row rows s a i" using assms(1) a same by (simp add: session_linked_iff)
    moreover have "a \<in> set (st_inferenceAttempts s')" using a by (simp add: paid_attempts_def)
    then have "ar_finished a = None \<Longrightarrow> \<not> is_terminal_status (st_status s')"
      using open_attempt_not_terminal [OF run] by blast
    ultimately show ?thesis using linked_row_kept [OF _ assms(2,3), of rows a i "[]"] by simp
  qed
  with assms(1) same show ?thesis by (simp add: session_linked_iff)
qed

lemma reconciled_unpaid:
  assumes ok: "store_ok env db" and rec: "reconciled db" and com: "commits env k [] stored db db'"
    and unpaid: "\<And>e. e \<in> set stored \<Longrightarrow> paid_attempt_id e = None"
    and same: "\<And>s s'. replay_from (se_replay env) s stored = Inr s' \<Longrightarrow>
      s \<in> sw_state ` set (db_sessions db) \<Longrightarrow> st_id s = k \<Longrightarrow> paid_attempts s' = paid_attempts s"
  shows "reconciled db'"
proof (rule reconciled_after [OF ok rec com])
  fix z
  assume z: "z \<in> set (db_sessions db')" "sw_id z = k"
  note replayed = commits_replayed [OF com z]
  show "session_linked (db_ledger db @ []) (sw_state z)"
  proof (cases "session_events db k = []")
    case True
    have "paid_ids (st_inferenceAttempts (sw_state z)) = []"
    proof (rule ccontr)
      assume "\<not> ?thesis"
      then obtain i where "i \<in> set (paid_ids (st_inferenceAttempts (sw_state z)))" by fastforce
      then obtain e where "e \<in> set stored" "paid_attempt_id e = Some i"
        using paid_replay [OF replayed(1)] True by auto
      with unpaid show False by simp
    qed
    then show ?thesis by (simp add: session_linked_nothing)
  next
    case False
    then obtain y where y: "y \<in> set (db_sessions db)" "sw_id y = k" using events_have_session [OF ok] by blast
    note run = commits_run [OF ok com y z]
    have "session_linked (db_ledger db) (sw_state y)" using rec y(1) by (simp add: reconciled_def)
    moreover have "stored \<noteq> []" using com by (simp add: commits_def)
    moreover have "paid_attempts (sw_state z) = paid_attempts (sw_state y)"
      using same [OF run] y session_state_id [OF ok y(1)] by simp
    ultimately show ?thesis using session_linked_kept [OF _ run _ replayed(2)] by simp
  qed
qed (use unpaid in auto)

end
