(* ===== verification/AttemptUnit.thy ===== *)
theory AttemptUnit
  imports AttemptBatches
begin

text \<open>
  The second half of \<open>main/attempt-unit-of-work.ts\<close>: the commits that write the ledger row of an
  attempt and its events in one transaction, and the receipts that prove to the caller, once, that
  the transaction committed. A transaction is a function into a sum: an error leaves the database
  and the receipts as they were. The fault injector of the tests has no counterpart.
\<close>

section \<open>Receipts\<close>

record start_proof =
  sp_sessionId :: string
  sp_createdAt :: string
  sp_inputAttemptId :: string
  sp_inputProviderId :: string
  sp_committedAttemptId :: string
  sp_committedProviderId :: string
  sp_costScope :: runtime_cost_scope
  sp_cloudEgressAdmissionId :: "string option"
  sp_campaignId :: "string option"
  sp_reservationId :: "string option"
  sp_pricingSnapshotId :: "string option"
  sp_resolution :: "reservation_resolution option"
  sp_events :: "stored_event list"

record finish_proof =
  fp_sessionId :: string
  fp_createdAt :: string
  fp_attemptId :: string
  fp_terminal :: "budget_terminal option"
  fp_events :: "stored_event list"

text \<open>A receipt is the position of its entry; the entry holds the proof and whether it was consumed.
  A forged receipt has no entry.\<close>

record unit_state =
  un_db :: database
  un_starts :: "(start_proof \<times> bool) list"
  un_finishes :: "(finish_proof \<times> bool) list"

definition consume_entry :: "nat \<Rightarrow> ('p \<times> bool) list \<Rightarrow> unit_error + ('p \<times> bool) list \<times> 'p" where
  "consume_entry receipt entries =
     (if receipt < length entries \<and> \<not> snd (entries ! receipt)
      then Inr (entries[receipt := (fst (entries ! receipt), True)], fst (entries ! receipt))
      else Inl Receipt_not_fresh)"

definition consume_start_receipt :: "nat \<Rightarrow> unit_state \<Rightarrow> unit_error + unit_state \<times> start_proof" where
  "consume_start_receipt receipt u =
     bind_result (consume_entry receipt (un_starts u)) (\<lambda>(entries, p). Inr (u\<lparr>un_starts := entries\<rparr>, p))"

definition consume_finish_receipt :: "nat \<Rightarrow> unit_state \<Rightarrow> unit_error + unit_state \<times> finish_proof" where
  "consume_finish_receipt receipt u =
     bind_result (consume_entry receipt (un_finishes u)) (\<lambda>(entries, p). Inr (u\<lparr>un_finishes := entries\<rparr>, p))"

record committed_start =
  ms_events :: "stored_event list"
  ms_attemptId :: string
  ms_providerId :: string
  ms_paidDispatchAuthorized :: bool
  ms_resolution :: "reservation_resolution option"
  ms_receipt :: nat

record committed_finish =
  mf_events :: "stored_event list"
  mf_attemptId :: string
  mf_terminal :: "budget_terminal option"
  mf_receipt :: nat

section \<open>Starts\<close>

record local_start_input =
  ls_sessionId :: string
  ls_expectedSequence :: int
  ls_createdAt :: string
  ls_eventIds :: "string list"
  ls_events :: "session_event_data list"
  ls_costScope :: runtime_cost_scope
  ls_cloudEgressAdmissionId :: "string option"

definition append_atomic_events ::
  "store_env \<Rightarrow> string \<Rightarrow> int \<Rightarrow> string \<Rightarrow> session_event_data list \<Rightarrow> string list \<Rightarrow> database
     \<Rightarrow> unit_error + database \<times> stored_event list" where
  "append_atomic_events env sid expected createdAt events ids db =
     map_error Unit_store (append_many env sid events ids createdAt (Some expected) db)"

definition local_proof :: "local_start_input \<Rightarrow> attempt_start \<Rightarrow> stored_event list \<Rightarrow> start_proof" where
  "local_proof i a stored =
     \<lparr>sp_sessionId = ls_sessionId i, sp_createdAt = ls_createdAt i, sp_inputAttemptId = at_attemptId a,
      sp_inputProviderId = at_providerId a, sp_committedAttemptId = at_attemptId a,
      sp_committedProviderId = at_providerId a, sp_costScope = ls_costScope i,
      sp_cloudEgressAdmissionId = ls_cloudEgressAdmissionId i, sp_campaignId = None,
      sp_reservationId = None, sp_pricingSnapshotId = None, sp_resolution = None, sp_events = stored\<rparr>"

definition commit_local_start ::
  "store_env \<Rightarrow> local_start_input \<Rightarrow> unit_state \<Rightarrow> unit_error + unit_state \<times> committed_start" where
  "commit_local_start env i u =
     bind_result (parse_batch (se_reviews env) (ls_events i)) (\<lambda>events.
     bind_result (validate_local_start_batch events (ls_createdAt i) (ls_costScope i) (ls_cloudEgressAdmissionId i)) (\<lambda>a.
     bind_result (append_atomic_events env (ls_sessionId i) (ls_expectedSequence i) (ls_createdAt i) events
         (ls_eventIds i) (un_db u)) (\<lambda>(db', stored).
       Inr (u\<lparr>un_db := db', un_starts := un_starts u @ [(local_proof i a stored, False)]\<rparr>,
            \<lparr>ms_events = stored, ms_attemptId = at_attemptId a, ms_providerId = at_providerId a,
             ms_paidDispatchAuthorized = False, ms_resolution = None, ms_receipt = length (un_starts u)\<rparr>))))"

text \<open>The replayed state under the expected sequence, inside the transaction.\<close>

definition expected_state :: "store_env \<Rightarrow> database \<Rightarrow> string \<Rightarrow> int \<Rightarrow> unit_error + session_state" where
  "expected_state env db sid expected =
     bind_result (map_error Unit_store (store_replay env db sid)) (\<lambda>s.
       guarded (throw_if (st_lastSequence s \<noteq> expected)
           (Unit_store (Sequence_conflict expected (st_lastSequence s)))) (Inr s))"

definition budgeted_reserve_input :: "budgeted_start_input \<Rightarrow> int \<Rightarrow> reserve_input" where
  "budgeted_reserve_input i cap =
     \<lparr>rq_campaignId = bs_campaignId i, rq_reservationId = bs_reservationId i, rq_sessionId = bs_sessionId i,
      rq_attemptId = bs_attemptId i, rq_providerId = bs_providerId i,
      rq_pricingSnapshotId = bs_pricingSnapshotId i, rq_costScope = bs_costScope i,
      rq_cloudEgressAdmissionId = bs_cloudEgressAdmissionId i, rq_episodeCap = cap,
      rq_projection = bs_projection i, rq_createdAt = bs_createdAt i\<rparr>"

definition paid_dispatch_authorized :: "reservation_resolution \<Rightarrow> bool" where
  "paid_dispatch_authorized resolution = (case resolution of Admitted _ _ _ \<Rightarrow> True | Refused _ _ _ \<Rightarrow> False)"

text \<open>The body of the immediate transaction of a budgeted start.\<close>

definition budgeted_transaction ::
  "store_env \<Rightarrow> (reservation_resolution \<Rightarrow> session_event_data list) \<Rightarrow> budgeted_start_input \<Rightarrow> database
     \<Rightarrow> unit_error + database \<times> stored_event list \<times> attempt_start \<times> reservation_resolution" where
  "budgeted_transaction env build i db =
     bind_result (expected_state env db (bs_sessionId i) (bs_expectedSequence i)) (\<lambda>s.
     bind_result (map_error Unit_ledger (assert_event_reconciled env db)) (\<lambda>_.
     bind_result (map_error Unit_ledger (require_campaign (db_ledger db) (bs_campaignId i))) (\<lambda>c.
     guarded (throw_if (cam_costScope c \<noteq> runtime_scope (bs_costScope i)) Campaign_scope_mismatch)
    (bind_result (map_error Unit_ledger (v2_episode_cap s)) (\<lambda>cap.
     bind_result (map_error Unit_ledger (reserve (budgeted_reserve_input i cap) db)) (\<lambda>(db1, resolution).
     bind_result (parse_batch (se_reviews env) (build resolution)) (\<lambda>events.
     bind_result (validate_budgeted_start_batch i resolution events (cam_credentialMetadataId c)) (\<lambda>a.
     bind_result (append_atomic_events env (bs_sessionId i) (bs_expectedSequence i) (bs_createdAt i) events
         (if paid_dispatch_authorized resolution then bs_admittedIds i else bs_deniedIds i) db1) (\<lambda>(db2, stored).
       Inr (db2, stored, a, resolution))))))))))"

definition budgeted_proof ::
  "budgeted_start_input \<Rightarrow> attempt_start \<Rightarrow> reservation_resolution \<Rightarrow> stored_event list \<Rightarrow> start_proof" where
  "budgeted_proof i a resolution stored =
     \<lparr>sp_sessionId = bs_sessionId i, sp_createdAt = bs_createdAt i, sp_inputAttemptId = bs_attemptId i,
      sp_inputProviderId = bs_providerId i, sp_committedAttemptId = at_attemptId a,
      sp_committedProviderId = at_providerId a, sp_costScope = bs_costScope i,
      sp_cloudEgressAdmissionId = bs_cloudEgressAdmissionId i, sp_campaignId = Some (bs_campaignId i),
      sp_reservationId = Some (bs_reservationId i), sp_pricingSnapshotId = Some (bs_pricingSnapshotId i),
      sp_resolution = Some resolution, sp_events = stored\<rparr>"

definition commit_budgeted_start ::
  "store_env \<Rightarrow> (reservation_resolution \<Rightarrow> session_event_data list) \<Rightarrow> budgeted_start_input \<Rightarrow> unit_state
     \<Rightarrow> unit_error + unit_state \<times> committed_start" where
  "commit_budgeted_start env build i u =
     guarded (checks
       [throw_if (bs_costScope i \<noteq> Rt_simulation) Actual_dispatch_not_authorized,
        validate_budgeted_start_event_ids i])
     (bind_result (budgeted_transaction env build i (un_db u)) (\<lambda>(db', stored, a, resolution).
       Inr (u\<lparr>un_db := db', un_starts := un_starts u @ [(budgeted_proof i a resolution stored, False)]\<rparr>,
            \<lparr>ms_events = stored, ms_attemptId = at_attemptId a, ms_providerId = at_providerId a,
             ms_paidDispatchAuthorized = paid_dispatch_authorized resolution, ms_resolution = Some resolution,
             ms_receipt = length (un_starts u)\<rparr>)))"

section \<open>Finishes\<close>

record finish_input =
  fi_sessionId :: string
  fi_expectedSequence :: int
  fi_createdAt :: string
  fi_eventIds :: "string list"
  fi_events :: "session_event_data list"
  fi_terminalLedgerEntryId :: "string option"

definition attempt_resolve_checks ::
  "finish_input \<Rightarrow> attempt_start \<Rightarrow> attempt_finish \<Rightarrow> budget_reservation \<Rightarrow> unit_error option" where
  "attempt_resolve_checks i a f r =
     throw_if (res_sessionId r \<noteq> fi_sessionId i \<or> res_attemptId r \<noteq> at_attemptId a \<or>
       co_reservationId (fin_cost f) \<noteq> Some (res_id r)) Reservation_identity"

definition release_input :: "finish_input \<Rightarrow> string \<Rightarrow> attempt_finish \<Rightarrow> budget_reservation \<Rightarrow> resolve_input" where
  "release_input i entry f r =
     \<lparr>rs_terminalEntryId = entry, rs_reservationId = res_id r, rs_rowType = Row_release, rs_amount = 0,
      rs_costProvenance = None, rs_requestDisposition = Not_sent,
      rs_reasonCode = Some (coalesce (fin_errorCode f) ''definitely_unsent''), rs_createdAt = fi_createdAt i\<rparr>"

definition settle_input :: "finish_input \<Rightarrow> string \<Rightarrow> attempt_finish \<Rightarrow> budget_reservation \<Rightarrow> resolve_input" where
  "settle_input i entry f r = (let overrun = co_amountMicrousd (fin_cost f) > res_amount r in
     \<lparr>rs_terminalEntryId = entry, rs_reservationId = res_id r,
      rs_rowType = (if overrun then Row_overrun else Row_settlement),
      rs_amount = co_amountMicrousd (fin_cost f), rs_costProvenance = Some (co_provenance (fin_cost f)),
      rs_requestDisposition = fin_requestDisposition f,
      rs_reasonCode = (if overrun then Some ''budget_overrun'' else None), rs_createdAt = fi_createdAt i\<rparr>)"

definition settle_attempt_checks ::
  "session_event_data list \<Rightarrow> attempt_finish \<Rightarrow> budget_reservation \<Rightarrow> unit_error option" where
  "settle_attempt_checks events f r = (let cost = fin_cost f; priced = actual_host_priced_cost r (fin_usage f) in checks
     [throw_if (co_provenance cost = Local_zero_cost_policy) Reserved_local_cost,
      check_when (co_provenance cost = Host_pricing_snapshot) (checks
        [throw_if (priced = None) Host_pricing_impossible,
         throw_if (priced \<noteq> Some (co_amountMicrousd cost)) Host_priced_cost_differs]),
      throw_if (co_provenance cost = Reserved_unknown \<and> co_amountMicrousd cost \<noteq> res_amount r)
        Unknown_cost_not_full,
      check_when (co_amountMicrousd cost > res_amount r) (require_overrun_failure events)])"

definition resolve_attempt_budget ::
  "finish_input \<Rightarrow> string \<Rightarrow> string \<Rightarrow> attempt_start \<Rightarrow> attempt_finish \<Rightarrow> session_event_data list \<Rightarrow> database
     \<Rightarrow> unit_error + database \<times> budget_terminal" where
  "resolve_attempt_budget i entry reservation a f events db =
     bind_result (map_error Unit_ledger (require_reservation (db_ledger db) reservation)) (\<lambda>r.
     guarded (attempt_resolve_checks i a f r)
       (if fin_requestDisposition f = Not_sent
        then guarded (throw_if (co_amountMicrousd (fin_cost f) \<noteq> 0 \<or>
               co_provenance (fin_cost f) \<noteq> Host_pricing_snapshot) Unsent_attempt_cost)
             (map_error Unit_ledger (resolve (release_input i entry f r) db))
        else guarded (settle_attempt_checks events f r)
             (map_error Unit_ledger (resolve (settle_input i entry f r) db))))"

definition unreserved_checks :: "finish_input \<Rightarrow> attempt_finish \<Rightarrow> unit_error option" where
  "unreserved_checks i f = checks
     [throw_if (fi_terminalLedgerEntryId i \<noteq> None) Terminal_id_unexpected,
      throw_if (co_amountMicrousd (fin_cost f) \<noteq> 0 \<or> co_provenance (fin_cost f) \<noteq> Local_zero_cost_policy \<or>
        co_reservationId (fin_cost f) \<noteq> None) Unreserved_attempt_cost]"

text \<open>What the finish of an attempt does to the ledger.\<close>

definition account_finish ::
  "finish_input \<Rightarrow> attempt_start \<Rightarrow> attempt_finish \<Rightarrow> session_event_data list \<Rightarrow> database
     \<Rightarrow> unit_error + database \<times> budget_terminal option" where
  "account_finish i a f events db =
     (case at_budgetReservationId a of
        None \<Rightarrow> guarded (unreserved_checks i f) (Inr (db, None))
      | Some reservation \<Rightarrow> (case fi_terminalLedgerEntryId i of
            None \<Rightarrow> Inl Terminal_id_missing
          | Some entry \<Rightarrow>
              bind_result (resolve_attempt_budget i entry reservation a f events db) (\<lambda>(db', t).
                Inr (db', Some t))))"

definition finish_transaction ::
  "store_env \<Rightarrow> (session_state \<Rightarrow> bool) \<Rightarrow> finish_input \<Rightarrow> attempt_finish \<Rightarrow> session_event_data list \<Rightarrow> database
     \<Rightarrow> unit_error + database \<times> stored_event list \<times> string \<times> budget_terminal option" where
  "finish_transaction env open_ok i f events db =
     bind_result (expected_state env db (fi_sessionId i) (fi_expectedSequence i)) (\<lambda>s.
     guarded (throw_if (\<not> open_ok s) Open_state_rejected)
    (case find (\<lambda>a. at_attemptId (attempt_of a) = fin_attemptId f) (st_inferenceAttempts s) of
       None \<Rightarrow> Inl Attempt_not_open
     | Some a \<Rightarrow>
         guarded (throw_if (ar_finished a \<noteq> None) Attempt_not_open)
        (bind_result (account_finish i (attempt_of a) f events db) (\<lambda>(db1, terminal).
         bind_result (append_atomic_events env (fi_sessionId i) (fi_expectedSequence i) (fi_createdAt i) events
             (fi_eventIds i) db1) (\<lambda>(db2, stored).
           Inr (db2, stored, at_attemptId (attempt_of a), terminal))))))"

definition commit_attempt_finish ::
  "store_env \<Rightarrow> (session_state \<Rightarrow> bool) \<Rightarrow> finish_input \<Rightarrow> unit_state
     \<Rightarrow> unit_error + unit_state \<times> committed_finish" where
  "commit_attempt_finish env open_ok i u =
     bind_result (parse_batch (se_reviews env) (fi_events i)) (\<lambda>events.
     bind_result (validate_attempt_finish_batch events) (\<lambda>f.
     bind_result (finish_transaction env open_ok i f events (un_db u)) (\<lambda>(db', stored, attempt, terminal).
       Inr (u\<lparr>un_db := db', un_finishes := un_finishes u @
               [(\<lparr>fp_sessionId = fi_sessionId i, fp_createdAt = fi_createdAt i, fp_attemptId = attempt,
                  fp_terminal = terminal, fp_events = stored\<rparr>, False)]\<rparr>,
            \<lparr>mf_events = stored, mf_attemptId = attempt, mf_terminal = terminal,
             mf_receipt = length (un_finishes u)\<rparr>))))"

text \<open>A finish by the recovery: an interrupted attempt whose request may have been sent, then the
  interruption of its session.\<close>

definition recovery_shape :: "attempt_finish \<Rightarrow> session_event_data list \<Rightarrow> bool" where
  "recovery_shape f events \<longleftrightarrow>
     fin_outcome f = Attempt_interrupted \<and> fin_requestDisposition f = Unknown \<and>
     holds (at_last events) (\<lambda>e. event_data_type e = T_session_interrupted)"

definition commit_recovery_finish ::
  "store_env \<Rightarrow> (session_state \<Rightarrow> bool) \<Rightarrow> finish_input \<Rightarrow> unit_state
     \<Rightarrow> unit_error + unit_state \<times> committed_finish" where
  "commit_recovery_finish env open_ok i u =
     bind_result (parse_batch (se_reviews env) (fi_events i)) (\<lambda>events.
     bind_result (require_single_attempt_finish events) (\<lambda>f.
       guarded (throw_if (\<not> recovery_shape f events) Recovery_shape)
         (commit_attempt_finish env open_ok (i\<lparr>fi_events := events\<rparr>) u)))"

end
