(* ===== verification/AttemptCommits.thy ===== *)
theory AttemptCommits
  imports ReconciledSteps AttemptUnit
begin

text \<open>
  The transactions of the attempt unit of work that touch no reservation keep the database
  reconciled: a local start, a start whose budget was refused, and the finish of an unpaid attempt.
\<close>

section \<open>An atomic append is a commit\<close>

lemma append_atomic_commits:
  assumes run: "append_atomic_events env sid expected tm events ids db = Inr (db', stored)"
    and ok: "store_ok env db" and batch: "parse_batch (se_reviews env) raw = Inr events"
  shows "commits env (js_trim sid) [] stored db db'" "map ev_data stored = events"
    "stored_at (js_trim sid) tm stored"
proof -
  have many: "append_many env sid events ids tm (Some expected) db = Inr (db', stored)"
    using run by (simp add: append_atomic_events_def check_simps)
  note e = append_many_result [OF many ok parse_batch_fixed(1) [OF batch]]
  show "map ev_data stored = events" by (rule e(8) [OF parse_batch_fixed(2) [OF batch]])
  then have "stored \<noteq> []" using parse_batch_fixed(1) [OF batch] by auto
  with e show "commits env (js_trim sid) [] stored db db'"
    by (auto simp: commits_def stored_at_def list_all_iff)
  show "stored_at (js_trim sid) tm stored" by (rule e(5))
qed

lemma store_ok_ledger: "store_ok env (db\<lparr>db_ledger := rows\<rparr>) = store_ok env db"
  by (simp add: store_ok_def session_ok_def event_row_fixed_def list_all_iff find_session_def)

lemma commits_ledger:
  "commits env k [] stored (db\<lparr>db_ledger := db_ledger db @ new\<rparr>) db' = commits env k new stored db db'"
  by (simp add: commits_def moves_only_def)

section \<open>Batches and attempts\<close>

lemma attempts_quiet:
  assumes "reduce_next env s e = Inr s'" "event_type e \<noteq> T_attempt_started" "event_type e \<noteq> T_attempt_finished"
  shows "st_inferenceAttempts s' = st_inferenceAttempts s"
  using attempts_exact [OF assms(1)] assms(2,3) by (cases "ev_data e") (auto simp: event_type_def)

lemma attempts_quiet_run:
  assumes "replay_from env s es = Inr s'"
    and "\<And>e. e \<in> set es \<Longrightarrow> event_type e \<noteq> T_attempt_started \<and> event_type e \<noteq> T_attempt_finished"
  shows "st_inferenceAttempts s' = st_inferenceAttempts s"
  using assms
proof (induction es arbitrary: s)
  case Nil
  then show ?case by simp
next
  case (Cons e es)
  then obtain m where m: "reduce_next env s e = Inr m" "replay_from env m es = Inr s'"
    by (auto simp: bind_result_Inr)
  have "st_inferenceAttempts s' = st_inferenceAttempts m" using Cons.IH [OF m(2)] Cons.prems(2) by simp
  with attempts_quiet [OF m(1)] Cons.prems(2) show ?case by simp
qed

lemma filter_update_first:
  assumes "find p xs = Some a" "\<not> q a" "\<not> q (f a)"
  shows "filter q (update_first p f xs) = filter q xs"
  using assms by (induction xs) (auto split: if_splits)

lemma paid_attempts_step:
  assumes "reduce_next env s e = Inr s'" "paid_attempt_id e = None"
    and "event_type e \<noteq> T_attempt_finished"
  shows "paid_attempts s' = paid_attempts s"
  using attempts_exact [OF assms(1)] assms(2,3)
  by (cases "ev_data e") (auto simp: paid_attempts_def paid_attempt_id_def event_type_def is_paid_def)

lemma paid_attempts_run:
  assumes "replay_from env s es = Inr s'"
    and "\<And>e. e \<in> set es \<Longrightarrow> paid_attempt_id e = None \<and> event_type e \<noteq> T_attempt_finished"
  shows "paid_attempts s' = paid_attempts s"
  using assms
proof (induction es arbitrary: s)
  case Nil
  then show ?case by simp
next
  case (Cons e es)
  then obtain m where m: "reduce_next env s e = Inr m" "replay_from env m es = Inr s'"
    by (auto simp: bind_result_Inr)
  have "paid_attempts s' = paid_attempts m" using Cons.IH [OF m(2)] Cons.prems(2) by simp
  with paid_attempts_step [OF m(1)] Cons.prems(2) show ?case by simp
qed

lemma payloads_mem: "p \<in> set (payloads f events) \<longleftrightarrow> (\<exists>d \<in> set events. f d = Some p)"
  by (induction events) (auto simp: payloads_def List.map_filter_simps split: option.splits)

lemma paid_start_payload:
  "paid_attempt_id e = Some i \<longleftrightarrow>
     (\<exists>a. attempt_start_payload (ev_data e) = Some a \<and> at_budgetReservationId a = Some i)"
  by (cases "ev_data e") (auto simp: paid_attempt_id_def)

lemma unpaid_batch:
  assumes "\<And>a. a \<in> set (payloads attempt_start_payload (map ev_data stored)) \<Longrightarrow> at_budgetReservationId a = None"
    and "e \<in> set stored"
  shows "paid_attempt_id e = None"
proof (rule ccontr)
  assume "paid_attempt_id e \<noteq> None"
  then obtain i a where "attempt_start_payload (ev_data e) = Some a" "at_budgetReservationId a = Some i"
    using paid_start_payload by fastforce
  with assms show False by (fastforce simp: payloads_mem)
qed

section \<open>Starts without a reservation\<close>

lemma reconciled_unpaid_start:
  assumes ok: "store_ok env db" and rec: "reconciled db" and com: "commits env k [] stored db db'"
    and starts: "\<And>a. a \<in> set (payloads attempt_start_payload (map ev_data stored)) \<Longrightarrow> at_budgetReservationId a = None"
    and types: "T_attempt_finished \<notin> set (map event_data_type (map ev_data stored))"
  shows "reconciled db'"
proof (rule reconciled_unpaid [OF ok rec com])
  show unpaid: "paid_attempt_id e = None" if "e \<in> set stored" for e by (rule unpaid_batch [OF starts that])
  have "event_type e \<noteq> T_attempt_finished" if "e \<in> set stored" for e
    using types imageI [OF that, of "\<lambda>x. event_data_type (ev_data x)"] by (auto simp: event_type_def)
  with unpaid show "paid_attempts s' = paid_attempts s" if "replay_from (se_replay env) s stored = Inr s'" for s s'
    by (intro paid_attempts_run [OF that]) blast
qed

lemma local_start_facts:
  assumes "validate_local_start_batch events tm scope admission = Inr a"
  shows "payloads attempt_start_payload events = [a]" "at_budgetReservationId a = None"
    "T_attempt_finished \<notin> set (map event_data_type events)"
proof -
  have "list_ex (exact_types events) local_start_patterns"
    and start: "require_single_attempt_start events = Inr a" and "at_budgetReservationId a = None"
    using assms by (auto simp: validate_local_start_batch_def check_simps Let_def)
  then show "at_budgetReservationId a = None" "T_attempt_finished \<notin> set (map event_data_type events)"
    by (auto simp: local_start_patterns_def exact_types_def)
  show "payloads attempt_start_payload events = [a]"
    using start by (auto simp: require_single_attempt_start_def check_simps split: list.splits)
qed

lemma commit_local_start_cases:
  assumes "commit_local_start env i u = Inr (u', out)"
  obtains events a stored where "parse_batch (se_reviews env) (ls_events i) = Inr events"
    "validate_local_start_batch events (ls_createdAt i) (ls_costScope i) (ls_cloudEgressAdmissionId i) = Inr a"
    "append_atomic_events env (ls_sessionId i) (ls_expectedSequence i) (ls_createdAt i) events
       (ls_eventIds i) (un_db u) = Inr (un_db u', stored)"
    "un_starts u' = un_starts u @ [(local_proof i a stored, False)]" "un_finishes u' = un_finishes u"
    "ms_receipt out = length (un_starts u)" "ms_paidDispatchAuthorized out = False"
  using assms by (auto simp: commit_local_start_def check_simps)

lemma local_start_reconciled:
  assumes ok: "store_ok env (un_db u)" and rec: "reconciled (un_db u)"
    and run: "commit_local_start env i u = Inr (u', out)"
  shows "store_ok env (un_db u')" "reconciled (un_db u')" "db_ledger (un_db u') = db_ledger (un_db u)"
proof -
  obtain events a stored where e: "parse_batch (se_reviews env) (ls_events i) = Inr events"
    "validate_local_start_batch events (ls_createdAt i) (ls_costScope i) (ls_cloudEgressAdmissionId i) = Inr a"
    "append_atomic_events env (ls_sessionId i) (ls_expectedSequence i) (ls_createdAt i) events
       (ls_eventIds i) (un_db u) = Inr (un_db u', stored)"
    using commit_local_start_cases [OF run] by metis
  note c = append_atomic_commits [OF e(3) ok e(1)] and v = local_start_facts [OF e(2)]
  show "store_ok env (un_db u')" "db_ledger (un_db u') = db_ledger (un_db u)" using c(1) by (simp_all add: commits_def)
  show "reconciled (un_db u')"
    by (rule reconciled_unpaid_start [OF ok rec c(1)]) (use v in \<open>simp_all add: c(2)\<close>)
qed

section \<open>The shape of a finish\<close>

lemma finish_batch_shape:
  assumes "validate_attempt_finish_batch events = Inr f"
  obtains pre post where "events = pre @ InferenceAttemptFinished f # post"
    "\<forall>d \<in> set (pre @ post). event_data_type d \<noteq> T_attempt_started \<and> event_data_type d \<noteq> T_attempt_finished"
proof -
  let ?pos = "if completed_attempt_id events = None then 0 else 1 :: nat"
  have v: "payloads attempt_finish_payload events = [f]" "?pos < length events"
    "events ! ?pos = InferenceAttemptFinished f" "length events \<le> ?pos + 2"
    "?pos + 1 < length events \<Longrightarrow> event_data_type (events ! (?pos + 1)) \<in> set attempt_terminal_types"
    using assms
    by (auto simp: validate_attempt_finish_batch_def require_single_attempt_finish_def check_simps Let_def
        split: list.splits if_splits)
  let ?pre = "take ?pos events" and ?post = "drop (Suc ?pos) events"
  have "events = ?pre @ InferenceAttemptFinished f # ?post" using id_take_nth_drop [OF v(2)] v(3) by simp
  moreover have "event_data_type d \<noteq> T_attempt_started \<and> event_data_type d \<noteq> T_attempt_finished"
    if "d \<in> set ?pre" for d
    using that by (cases events) (auto simp: completed_attempt_id_def split: session_event_data.splits if_splits)
  moreover have "event_data_type d \<noteq> T_attempt_started \<and> event_data_type d \<noteq> T_attempt_finished"
    if d: "d \<in> set ?post" for d
  proof -
    have "length events = ?pos + 2" using v(4) length_pos_if_in_set [OF d] by simp
    then have n: "?pos + 1 < length events" "drop (Suc (Suc ?pos)) events = []" by simp_all
    have "?post = [events ! (?pos + 1)]" using Cons_nth_drop_Suc [of "Suc ?pos" events] n by simp
    with d v(5) [OF n(1)] show ?thesis by (auto simp: attempt_terminal_types_def)
  qed
  ultimately show thesis using that [of ?pre ?post] by auto
qed

lemma finish_run:
  assumes shape: "map ev_data stored = pre @ InferenceAttemptFinished f # post"
    and quiet: "\<forall>d \<in> set (pre @ post). event_data_type d \<noteq> T_attempt_started \<and> event_data_type d \<noteq> T_attempt_finished"
    and run: "replay_from env s stored = Inr s'"
  obtains e m m' where "e \<in> set stored" "ev_data e = InferenceAttemptFinished f" "reduce_next env m e = Inr m'"
    "st_inferenceAttempts m = st_inferenceAttempts s" "v2_policy m = v2_policy s"
    "st_inferenceAttempts s' = st_inferenceAttempts m'"
proof -
  obtain es e es' where st: "stored = es @ e # es'" "map ev_data es = pre" "ev_data e = InferenceAttemptFinished f"
    "map ev_data es' = post"
    using shape by (auto simp: map_eq_append_conv)
  obtain m m' where m: "replay_from env s es = Inr m" "reduce_next env m e = Inr m'" "replay_from env m' es' = Inr s'"
    using run by (auto simp: st(1) session_replay.run_append bind_result_Inr)
  have q: "event_type d \<noteq> T_attempt_started \<and> event_type d \<noteq> T_attempt_finished" if "d \<in> set es \<union> set es'" for d
    using quiet that st(2,4) by (auto simp: event_type_def)
  have "st_inferenceAttempts m = st_inferenceAttempts s" "st_inferenceAttempts s' = st_inferenceAttempts m'"
    using attempts_quiet_run [OF m(1)] attempts_quiet_run [OF m(3)] q by auto
  with that st m run_frame(3) [OF m(1)] show thesis by auto
qed

end
