(* ===== verification/AttemptAdmission.thy ===== *)
theory AttemptAdmission
  imports AttemptCommits
begin

text \<open>
  The transaction of a budgeted start keeps the database reconciled: a refusal writes no paid work,
  and an admission writes the reservation together with the one attempt that is linked to it.
\<close>

section \<open>The batch of an admitted start\<close>

lemma event_kinds:
  "event_data_type d = T_cloud_egress_admission \<longleftrightarrow> (\<exists>x. d = CloudEgressAdmissionRecorded x)"
  "event_data_type d = T_routing_decision \<longleftrightarrow> (\<exists>x. d = RoutingDecisionRecorded x)"
  "event_data_type d = T_context_compiled \<longleftrightarrow> (\<exists>x. d = ContextCompiled x)"
  "event_data_type d = T_attempt_started \<longleftrightarrow> (\<exists>x. d = InferenceAttemptStarted x)"
  "event_data_type d = T_route_assigned \<longleftrightarrow> (\<exists>x. d = RouteAssigned x)"
  "event_data_type d = T_assistant_started \<longleftrightarrow> (\<exists>x. d = AssistantMessageStarted x)"
  by (cases d; simp)+

lemma payloads_simps [simp]:
  "payloads f [] = []"
  "payloads f (d # ds) = (case f d of None \<Rightarrow> [] | Some p \<Rightarrow> [p]) @ payloads f ds"
  by (simp_all add: payloads_def List.map_filter_def split: option.split)

lemma exact_budgeted:
  "exact_types events (budgeted_types (Admitted b pos r)) \<longleftrightarrow>
     (\<exists>x d p m c a. events = [CloudEgressAdmissionRecorded x, RoutingDecisionRecorded d, RouteAssigned p,
        AssistantMessageStarted m, ContextCompiled c, InferenceAttemptStarted a])"
  "exact_types events (budgeted_types (Refused reason b pos)) \<longleftrightarrow>
     (\<exists>x d m c a. events = [CloudEgressAdmissionRecorded x, RoutingDecisionRecorded d,
        AssistantMessageStarted m, ContextCompiled c, InferenceAttemptStarted a])"
  by (auto simp: exact_types_def budgeted_types_def map_eq_Cons_conv event_kinds)

section \<open>The two outcomes of a budgeted transaction\<close>

lemma budgeted_transactionE:
  assumes "budgeted_transaction env build i db = Inr (db', stored, a, resolution)"
  obtains s c cap db1 events where
    "store_replay env db (bs_sessionId i) = Inr s" "assert_event_reconciled env db = Inr ()"
    "require_campaign (db_ledger db) (bs_campaignId i) = Inr c" "v2_episode_cap s = Inr cap"
    "reserve (budgeted_reserve_input i cap) db = Inr (db1, resolution)"
    "parse_batch (se_reviews env) (build resolution) = Inr events"
    "validate_budgeted_start_batch i resolution events (cam_credentialMetadataId c) = Inr a"
    "append_atomic_events env (bs_sessionId i) (bs_expectedSequence i) (bs_createdAt i) events
       (if paid_dispatch_authorized resolution then bs_admittedIds i else bs_deniedIds i) db1 = Inr (db', stored)"
  using assms
  by (auto simp: budgeted_transaction_def expected_state_def check_simps split: prod.splits)

lemma refused_transaction_reconciled:
  assumes ok: "store_ok env db" and rec: "reconciled db"
    and run: "budgeted_transaction env build i db = Inr (db', stored, a, Refused reason b pos)"
  shows "store_ok env db'" "reconciled db'" "db_ledger db' = db_ledger db"
proof -
  obtain s c cap db1 events where "store_replay env db (bs_sessionId i) = Inr s" "assert_event_reconciled env db = Inr ()"
    "require_campaign (db_ledger db) (bs_campaignId i) = Inr c" "v2_episode_cap s = Inr cap"
    and t: "reserve (budgeted_reserve_input i cap) db = Inr (db1, Refused reason b pos)"
    "parse_batch (se_reviews env) (build (Refused reason b pos)) = Inr events"
    "validate_budgeted_start_batch i (Refused reason b pos) events (cam_credentialMetadataId c) = Inr a"
    "append_atomic_events env (bs_sessionId i) (bs_expectedSequence i) (bs_createdAt i) events
       (if paid_dispatch_authorized (Refused reason b pos) then bs_admittedIds i else bs_deniedIds i) db1 = Inr (db', stored)"
    by (rule budgeted_transactionE [OF run])
  have db1: "db1 = db" using t(1)
    by (auto simp: reserve_def reserve_admitted_def check_simps Let_def split: option.splits)
  note com = append_atomic_commits [OF t(4) [unfolded db1] ok t(2)]
  obtain x d m k a' where ev: "events = [CloudEgressAdmissionRecorded x, RoutingDecisionRecorded d,
      AssistantMessageStarted m, ContextCompiled k, InferenceAttemptStarted a']" and "at_budgetReservationId a' = None"
    using t(3) by (auto simp: validate_budgeted_start_batch_def check_simps exact_budgeted first_payload_def
        budgeted_outcome_checks_def refused_mismatch_def)
  then show "reconciled db'"
    by (intro reconciled_unpaid_start [OF ok rec com(1)]) (simp_all add: com(2))
  show "store_ok env db'" "db_ledger db' = db_ledger db" using com(1) by (simp_all add: commits_def)
qed

section \<open>The ledger at an admission\<close>

lemma unreserved_episode:
  assumes "\<And>x. x \<in> set rows \<Longrightarrow> is_reservation_row x \<Longrightarrow> lr_sessionId x \<noteq> Some sid"
  shows "episode_exposure rows cid sid = 0"
proof -
  let ?es = "campaign_entries rows cid"
  have "episode_share ?es sid x = 0" if "x \<in> set ?es" for x
    using assms that
    by (auto simp: episode_share_def campaign_entries_mem holds_iff parent_reservation_def dest!: find_SomeD)
  then have "sum_list (map (episode_share ?es sid) ?es) = 0" by (simp cong: map_cong)
  then show ?thesis by (simp add: episode_exposure_def)
qed

lemma opening_within_exposure:
  assumes "ledger_ok rows"
  shows "cam_openingExposure c \<le> campaign_exposure rows c"
proof -
  have "0 \<le> lr_amount x" if "x \<in> set rows" for x
    using assms that by (auto simp: ledger_ok_def list_all_iff row_ok_def column_checks_def)
  then have "0 \<le> sum_list (map (campaign_share es) (campaign_entries rows (cam_id c)))" for es
    by (intro sum_list_nonneg) (auto simp: campaign_share_def campaign_entries_mem)
  then show ?thesis by (simp add: campaign_exposure_def Let_def)
qed

lemma admitted_reservation:
  assumes run: "reserve i db = Inr (db', Admitted b pos r)" and ok: "ledger_ok (db_ledger db)"
  obtains row c where "db' = db\<lparr>db_ledger := db_ledger db @ [row]\<rparr>" "ledger_ok (db_ledger db @ [row])"
    "is_reservation_row row" "\<not> is_terminal_row row" "to_reservation row = Inr r" "lr_id row = rq_reservationId i"
    "assert_reservation_projection r = None" "billing_matches_reservation b r"
    "require_campaign (db_ledger db) (rq_campaignId i) = Inr c"
    "cam_providerId c = rq_providerId i" "cam_costScope c = runtime_scope (rq_costScope i)"
    "\<forall>x \<in> set (db_ledger db). is_reservation_row x \<longrightarrow> lr_sessionId x \<noteq> Some (rq_sessionId i)"
    "rq_sessionId i \<noteq> []" "rq_cloudEgressAdmissionId i \<noteq> None"
    "bl_remainingEpisodeMicrousd b = rq_episodeCap i"
    "bl_remainingCampaignMicrousd b \<le> min (cam_automaticStop c) (cam_hardCeiling c) - cam_openingExposure c"
proof -
  obtain cost c where a:
    "insert_row (map sw_id (db_sessions db)) (db_ledger db) (reservation_row i cost) = Inr (db_ledger db')"
    "project_worst_case_cost (rq_projection i) = Inr cost" "0 < cost"
    "require_campaign (db_ledger db) (rq_campaignId i) = Inr c"
    "reserve_row_checks (db_ledger db) i c = None"
    "get_position (db_ledger db) (rq_campaignId i) (rq_sessionId i) (rq_episodeCap i) = Inr pos"
    "denial_reason pos cost = None" "b = billing_snapshot (rq_projection i) cost pos"
    "require_reservation (db_ledger db') (rq_reservationId i) = Inr r"
    by (rule admittedE [OF run])
  let ?row = "reservation_row i cost"
  note reads = reservation_row_reads [OF a(1,9)] and facts = inserted_facts [OF a(1)]
  have fields: "rq_sessionId i \<noteq> []" "rq_cloudEgressAdmissionId i \<noteq> None" "db' = db\<lparr>db_ledger := db_ledger db'\<rparr>"
    using run by (auto simp: reserve_def reserve_admitted_def reserve_input_checks_def check_simps assert_bounded_id_def
        insert_ledger_row_Inr Let_def split: option.splits)
  have first: "\<not> list_ex (\<lambda>x. is_reservation_row x \<and> lr_sessionId x = Some (rq_sessionId i)) (db_ledger db)"
    using a(5) by (simp add: reserve_row_checks_def check_simps)
  then have first': "\<And>x. x \<in> set (db_ledger db) \<Longrightarrow> is_reservation_row x \<Longrightarrow> lr_sessionId x \<noteq> Some (rq_sessionId i)"
    by (auto simp: list_ex_iff)
  obtain c' where pos: "require_campaign (db_ledger db) (rq_campaignId i) = Inr c'"
    "pos_remainingEpisode pos = remaining_of (rq_episodeCap i) (episode_exposure (db_ledger db) (rq_campaignId i) (rq_sessionId i))"
    "pos_remainingAutomaticStop pos = remaining_of (cam_automaticStop c') (campaign_exposure (db_ledger db) c')"
    "pos_remainingHardCeiling pos = remaining_of (cam_hardCeiling c') (campaign_exposure (db_ledger db) c')"
    "pos_remainingCampaign pos = min (pos_remainingAutomaticStop pos) (pos_remainingHardCeiling pos)"
    by (rule get_positionE [OF a(6)])
  have c': "c' = c" using pos(1) a(4) by simp
  note denied = denial_none [OF a(7)]
  have "pos_remainingEpisode pos = rq_episodeCap i"
    using pos(2) denied(2) a(3) unreserved_episode [OF first', where cid = "rq_campaignId i"] by (auto simp: remaining_of_def split: if_splits)
  moreover have "pos_remainingCampaign pos \<le> min (cam_automaticStop c) (cam_hardCeiling c) - cam_openingExposure c"
    using pos(3-5) denied(3,4) a(3) opening_within_exposure [OF ok, of c]
    by (auto simp: c' remaining_of_def split: if_splits)
  moreover have "assert_reservation_projection r = None"
    using to_reservation_of_row [OF reads] projection_with_rate [OF a(2)] a(3)
    by (simp add: assert_reservation_projection_def Let_def check_simps reconciliation_failure_if_def)
  moreover have "lr_id ?row = rq_reservationId i" by (simp add: reservation_row_def Let_def)
  moreover have "db' = db\<lparr>db_ledger := db_ledger db @ [?row]\<rparr>" using fields(3) facts(1) by simp
  moreover have "cam_providerId c = rq_providerId i" "cam_costScope c = runtime_scope (rq_costScope i)"
    using a(5) by (simp_all add: reserve_row_checks_def check_simps)
  moreover have "ledger_ok (db_ledger db @ [?row])" using insert_row_keeps_ledger_ok [OF a(1) ok] facts(1) by simp
  moreover have "billing_matches_reservation b r" unfolding a(8) by (rule to_reservation_billing [OF reads])
  ultimately show thesis
    using that [of ?row c] reads fields(1,2) first' a(4) by (simp add: a(8) billing_snapshot_def)
qed

section \<open>The session at an admission\<close>

lemma decisions_exact:
  "reduce_next env s e = Inr s' \<Longrightarrow>
     st_routingDecisions s' =
       st_routingDecisions s @ (case ev_data e of RoutingDecisionRecorded d \<Rightarrow> [recorded e d] | _ \<Rightarrow> [])"
  by (erule reduce_nextE, cases "ev_data e")
    (auto dest!: handler_ok simp: update_message_def split: option.splits)

lemma admissions_exact:
  "reduce_next env s e = Inr s' \<Longrightarrow>
     st_cloudEgressAdmissions s' =
       st_cloudEgressAdmissions s @ (case ev_data e of CloudEgressAdmissionRecorded x \<Rightarrow> [recorded e x] | _ \<Rightarrow> [])"
  by (erule reduce_nextE, cases "ev_data e")
    (auto dest!: handler_ok simp: update_message_def split: option.splits)

lemma lists_exact:
  assumes "reduce_next env s e = Inr s'"
    and "event_type e \<notin> {T_routing_decision, T_cloud_egress_admission, T_attempt_started, T_attempt_finished}"
  shows "st_routingDecisions s' = st_routingDecisions s \<and>
    st_cloudEgressAdmissions s' = st_cloudEgressAdmissions s \<and> st_inferenceAttempts s' = st_inferenceAttempts s"
  using decisions_exact [OF assms(1)] admissions_exact [OF assms(1)] attempts_exact [OF assms(1)] assms(2)
  by (cases "ev_data e") (simp_all add: event_type_def)

lemma find_map: "find P (map f xs) = map_option f (find (P \<circ> f) xs)"
  by (induction xs) simp_all

lemma attempt_decision_find: "attempt_decision s a = find_decision s (at_decisionId (attempt_of a))"
  by (simp add: attempt_decision_def find_decision_def find_map comp_def)

lemma admitted_decision:
  assumes v: "valid_routing_decision d" and r: "rd_reasonCode d = Rr_cloud_admitted"
    and scope: "rd_costScope d = Some Rt_simulation"
    and checks: "routing_checks env s e policy d = None"
    and last: "at_last (st_cloudEgressAdmissions s) = Some (recorded e0 x)"
  shows "packet_checkpoint_id d = Some (ea_checkpointId x)" "rd_checkpointId d = Some (ea_checkpointId x)"
    "rd_messagesSha256 d = Some (ea_messagesSemanticSha256 x)"
    "rd_budgetReservationId d \<noteq> None" "rd_cloudEgressAdmissionId d = Some (ea_admissionId x)"
    "\<And>q. q \<in> set (st_routingDecisions s) \<Longrightarrow> rd_budgetReservationId (rec_payload q) \<noteq> rd_budgetReservationId d"
proof -
  have c: "valid_cloud_admission d" using v r by (simp add: valid_routing_decision_def)
  have checks': "scope_checks s e policy d = None" "decision_duplicate_checks s d = None"
    using checks by (simp_all add: routing_checks_def check_simps)
  have "\<not> admission_mismatch s e d (recorded e0 x)"
    using checks'(1) c r scope last
    by (auto simp: scope_checks_def simulation_checks_def evidence_admission_checks_def check_simps
        valid_cloud_admission_def split: if_splits option.splits)
  then have m: "rd_cloudEgressAdmissionId d = Some (ea_admissionId x)" "packet_checkpoint_id d = Some (ea_checkpointId x)"
    "packet_messages_sha256 d = Some (ea_messagesSemanticSha256 x)"
    by (simp_all add: admission_mismatch_def)
  moreover have "rd_checkpointId d \<noteq> None" "rd_messagesSha256 d \<noteq> None" "rd_budgetReservationId d \<noteq> None"
    using c by (simp_all add: valid_cloud_admission_def cloud_admission_fields_def)
  ultimately show "packet_checkpoint_id d = Some (ea_checkpointId x)" "rd_checkpointId d = Some (ea_checkpointId x)"
    "rd_messagesSha256 d = Some (ea_messagesSemanticSha256 x)"
    "rd_budgetReservationId d \<noteq> None" "rd_cloudEgressAdmissionId d = Some (ea_admissionId x)"
    by (auto simp: packet_checkpoint_id_def packet_messages_sha256_def coalesce_opt_def split: option.splits)
  show "rd_budgetReservationId (rec_payload q) \<noteq> rd_budgetReservationId d" if "q \<in> set (st_routingDecisions s)" for q
    using checks'(2) that \<open>rd_budgetReservationId d \<noteq> None\<close>
    by (auto simp: decision_duplicate_checks_def check_simps list_ex_iff)
qed

text \<open>The six steps of an admitted start, and what the session holds after them.\<close>

lemma admitted_run:
  assumes data: "map ev_data stored = [CloudEgressAdmissionRecorded x, RoutingDecisionRecorded d, RouteAssigned p,
      AssistantMessageStarted m, ContextCompiled c, InferenceAttemptStarted a]"
    and v: "valid_routing_decision d" and r: "rd_reasonCode d = Rr_cloud_admitted"
    and scope: "rd_costScope d = Some Rt_simulation" and paid: "rd_budgetReservationId d = at_budgetReservationId a"
    and run: "replay_from env s stored = Inr s'"
  obtains e1 e where "e \<in> set stored" "ev_data e = InferenceAttemptStarted a"
    "st_inferenceAttempts s' = st_inferenceAttempts s @ [\<lparr>ar_start = recorded e a, ar_finished = None\<rparr>]"
    "find_decision s' (at_decisionId a) = Some d" "st_status s' = Running"
    "find (\<lambda>y. ea_admissionId (rec_payload y) = ea_admissionId x) (st_cloudEgressAdmissions s') = Some (recorded e1 x)"
    "rd_checkpointId d = Some (ea_checkpointId x)" "rd_messagesSha256 d = Some (ea_messagesSemanticSha256 x)"
    "rd_cloudEgressAdmissionId d = Some (ea_admissionId x)"
proof -
  obtain e1 e2 es e where st: "stored = e1 # e2 # es @ [e]" "ev_data e1 = CloudEgressAdmissionRecorded x"
    "ev_data e2 = RoutingDecisionRecorded d" "map ev_data es = [RouteAssigned p, AssistantMessageStarted m, ContextCompiled c]"
    "ev_data e = InferenceAttemptStarted a"
    using data by (auto simp: map_eq_Cons_conv)
  obtain m1 m2 m5 where run1: "reduce_next env s e1 = Inr m1" and run2: "reduce_next env m1 e2 = Inr m2"
    and run3: "replay_from env m2 es = Inr m5" and run6: "reduce_next env m5 e = Inr s'"
    using run by (auto simp: st(1) session_replay.run_append bind_result_Inr)
  obtain policy where policy: "routing_checks env (next_state m1 e2) e2 policy d = None"
    using decisions_step [OF run2] decisions_exact [OF run2] st(3) by auto
  note frame = decisions_exact [OF run1] admissions_exact [OF run1] attempts_exact [OF run1]
    decisions_exact [OF run2] admissions_exact [OF run2] attempts_exact [OF run2]
    decisions_exact [OF run6] admissions_exact [OF run6] attempts_exact [OF run6]
  have mid: "st_routingDecisions m5 = st_routingDecisions m2 \<and>
      st_cloudEgressAdmissions m5 = st_cloudEgressAdmissions m2 \<and>
      st_inferenceAttempts m5 = st_inferenceAttempts m2"
    using run3 st(4) by (auto simp: map_eq_Cons_conv bind_result_Inr event_type_def dest!: lists_exact)
  have "at_last (st_cloudEgressAdmissions (next_state m1 e2)) = Some (recorded e1 x)"
    using frame(2) st(2) by (simp add: next_state_def)
  note d = admitted_decision [OF v r scope policy this]
  obtain policy' where start: "attempt_start_checks (next_state m5 e) e policy' a = None"
    using attempts_step [OF run6] frame(9) st(5) by auto
  then obtain d' where d': "find_decision (next_state m5 e) (at_decisionId a) = Some d'"
    "attempt_decision_checks (next_state m5 e) e policy' a d' = None"
    using attempt_start_checks_facts by blast
  have decs: "st_routingDecisions s' = st_routingDecisions s @ [recorded e2 d]"
    "st_routingDecisions m5 = st_routingDecisions s @ [recorded e2 d]"
    using frame(1,4,7) mid st(2,3,5) by simp_all
  have "rd_budgetReservationId d' = rd_budgetReservationId d"
    using d'(2) paid by (simp add: attempt_decision_checks_def check_simps)
  moreover have "d' \<in> rec_payload ` set (st_routingDecisions m5)"
    using d'(1) by (auto simp: find_decision_def next_state_def dest: find_SomeD)
  ultimately have "d' = d"
    using d(6) frame(1) st(2) by (auto simp: decs(2) next_state_def)
  with d'(1) have found: "find_decision s' (at_decisionId a) = Some d"
    by (simp add: find_decision_def next_state_def decs)
  have adm: "st_cloudEgressAdmissions s' = st_cloudEgressAdmissions s @ [recorded e1 x]"
    using frame(2,5,8) mid st(2,3,5) by simp
  have "ea_admissionId (rec_payload y) \<noteq> ea_admissionId x" if "y \<in> set (st_cloudEgressAdmissions s)" for y
    using admissions_step [OF run1] frame(2) st(2) that by auto
  then have "\<not> list_ex (\<lambda>y. ea_admissionId (rec_payload y) = ea_admissionId x) (st_cloudEgressAdmissions s)"
    by (auto simp: list_ex_iff)
  then have fnd: "find (\<lambda>y. ea_admissionId (rec_payload y) = ea_admissionId x) (st_cloudEgressAdmissions s') = Some (recorded e1 x)"
    unfolding adm by (rule find_fresh) simp
  have "st_status m5 = Running"
    using run6 st(5) by (elim reduce_nextE)
      (auto dest: event_guards_None simp: ensure_running_def check_simps running_only_types_def event_type_def)
  then have "st_status s' = Running" using status_step [OF run6] st(5) by simp
  moreover have "st_inferenceAttempts s' = st_inferenceAttempts s @ [\<lparr>ar_start = recorded e a, ar_finished = None\<rparr>]"
    using frame(3,6,9) mid st(2,3,5) by simp
  ultimately show thesis using that [of e e1] st(1,5) found fnd d(2,3,5) by simp
qed

end
