(* ===== verification/AttemptReservations.thy ===== *)
theory AttemptReservations
  imports AttemptAdmission
begin

text \<open>
  The link between a new reservation and the attempt that its transaction starts.
\<close>

section \<open>The link of an admission\<close>

lemma admitted_batch:
  assumes "validate_budgeted_start_batch i (Admitted b pos r) events credential = Inr a"
  obtains x d p m c where "events = [CloudEgressAdmissionRecorded x, RoutingDecisionRecorded d, RouteAssigned p,
      AssistantMessageStarted m, ContextCompiled c, InferenceAttemptStarted a]"
    "budgeted_egress_matches i x d a" "rd_costScope d = Some (bs_costScope i)" "at_costScope a = Some (bs_costScope i)"
    "billing_matches (rd_billing d) b" "rd_campaignId d = Some (bs_campaignId i)"
    "rd_pricingSnapshotId d = Some (bs_pricingSnapshotId i)" "rd_credentialMetadataId d = Some credential"
    "at_attemptId a = bs_attemptId i" "rd_reasonCode d = Rr_cloud_admitted"
    "rd_selectedProviderId d = bs_providerId i" "rd_budgetReservationId d = Some (bs_reservationId i)"
    "at_providerId a = bs_providerId i" "at_budgetReservationId a = Some (bs_reservationId i)"
    "at_requestedMaxOutputTokens a = bl_requestedMaxOutputTokens b"
  using assms
  by (auto simp: validate_budgeted_start_batch_def check_simps exact_budgeted first_payload_def
      budgeted_decision_checks_def budgeted_outcome_checks_def admitted_mismatch_def resolution_billing_def Let_def)

lemma admitted_start:
  assumes "validate_budgeted_start_batch i (Admitted b pos r) events credential = Inr a"
  shows "payloads attempt_start_payload events = [a] \<and> at_budgetReservationId a = Some (bs_reservationId i)"
proof -
  obtain x d p m c where "events = [CloudEgressAdmissionRecorded x, RoutingDecisionRecorded d, RouteAssigned p,
      AssistantMessageStarted m, ContextCompiled c, InferenceAttemptStarted a]"
    "at_budgetReservationId a = Some (bs_reservationId i)"
    by (rule admitted_batch [OF assms])
  then show ?thesis by simp
qed

lemma no_earlier_attempt:
  assumes ok: "db_ok env db" and rec: "reconciled db" and y: "y \<in> set (db_sessions db)"
    and none: "\<And>x. x \<in> set (db_ledger db) \<Longrightarrow> is_reservation_row x \<Longrightarrow> lr_sessionId x \<noteq> Some (sw_id y)"
    and id: "sw_id y \<noteq> []"
  shows "paid_ids (st_inferenceAttempts (sw_state y)) = []"
proof (rule ccontr)
  assume "paid_ids (st_inferenceAttempts (sw_state y)) \<noteq> []"
  then obtain i where "i \<in> set (paid_ids (st_inferenceAttempts (sw_state y)))" by fastforce
  then obtain a where "a \<in> set (st_inferenceAttempts (sw_state y))" "at_budgetReservationId (attempt_of a) = Some i"
    by (auto simp: paid_ids_mem)
  then have "linked_row (db_ledger db) (sw_state y) a i" using rec y by (simp add: reconciled_def session_linked_def)
  then obtain x r where x: "x \<in> set (db_ledger db)" "is_reservation_row x" "to_reservation x = Inr r"
    "start_matches (sw_state y) (ar_start a) r" by (auto simp: linked_row_def attempt_links_def)
  have "store_ok env db" using ok by (simp add: db_ok_def)
  then have "st_id (sw_state y) = sw_id y" by (rule session_state_id [OF _ y])
  then have "coalesce (lr_sessionId x) [] = sw_id y"
    using to_reservation_row [OF x(3)] x(4) by (simp add: start_matches_def Let_def)
  with none [OF x(1,2)] id show False by (cases "lr_sessionId x") auto
qed

lemma no_terminal_yet:
  assumes "ledger_ok rows" "\<And>x. x \<in> set rows \<Longrightarrow> is_reservation_row x \<Longrightarrow> lr_id x \<noteq> i"
  shows "terminal_of rows i = None"
proof -
  have "\<not> (is_terminal_row t \<and> lr_reservationId t = Some i)" if tr: "t \<in> set rows" for t
  proof
    assume t: "is_terminal_row t \<and> lr_reservationId t = Some i"
    obtain p where "p \<in> set rows" "is_reservation_row p" "lr_reservationId t = Some (lr_id p)"
      by (rule terminal_has_parent [OF assms(1) tr]) (use t in auto)
    with t assms(2) show False by auto
  qed
  then have "find (\<lambda>x. is_terminal_row x \<and> lr_reservationId x = Some i) rows = None"
    by (auto simp: find_None_iff)
  then show ?thesis by (simp add: terminal_of_def)
qed

lemma reservation_fields:
  assumes "reserve (budgeted_reserve_input i cap) db = Inr (db1, Admitted b pos r)"
  shows "res_id r = bs_reservationId i" "res_campaignId r = bs_campaignId i" "res_sessionId r = bs_sessionId i"
    "res_attemptId r = bs_attemptId i" "res_providerId r = bs_providerId i"
    "res_pricingSnapshotId r = bs_pricingSnapshotId i" "res_costScope r = runtime_scope (bs_costScope i)"
    "res_cloudEgressAdmissionId r = bs_cloudEgressAdmissionId i" "res_createdAt r = bs_createdAt i"
proof -
  obtain cost where "insert_row (map sw_id (db_sessions db)) (db_ledger db)
      (reservation_row (budgeted_reserve_input i cap) cost) = Inr (db_ledger db1)"
    "require_reservation (db_ledger db1) (rq_reservationId (budgeted_reserve_input i cap)) = Inr r"
    by (rule admittedE [OF assms])
  from to_reservation_of_row [OF reservation_row_reads [OF this]]
  show "res_id r = bs_reservationId i" "res_campaignId r = bs_campaignId i" "res_sessionId r = bs_sessionId i"
    "res_attemptId r = bs_attemptId i" "res_providerId r = bs_providerId i"
    "res_pricingSnapshotId r = bs_pricingSnapshotId i" "res_costScope r = runtime_scope (bs_costScope i)"
    "res_cloudEgressAdmissionId r = bs_cloudEgressAdmissionId i" "res_createdAt r = bs_createdAt i"
    by (simp_all add: budgeted_reserve_input_def)
qed

lemma admitted_links:
  assumes res: "reserve (budgeted_reserve_input i cap) db = Inr (db1, Admitted b pos r)"
    and ok: "ledger_ok (db_ledger db)" and c: "require_campaign (db_ledger db) (bs_campaignId i) = Inr c"
    and batch: "validate_budgeted_start_batch i (Admitted b pos r) events (cam_credentialMetadataId c) = Inr a"
    and valid: "list_all (\<lambda>x. parse_session_event_data (se_reviews env) x = Some x) events"
    and scope: "bs_costScope i = Rt_simulation"
    and data: "map ev_data stored = events" and at: "stored_at sid (bs_createdAt i) stored"
    and run: "replay_from (se_replay env) s stored = Inr s'" and id: "st_id s' = bs_sessionId i"
    and cap: "v2_episode_cap s' = Inr cap"
  obtains e where "st_inferenceAttempts s' = st_inferenceAttempts s @ [\<lparr>ar_start = recorded e a, ar_finished = None\<rparr>]"
    "attempt_links (db_ledger db1) None s' \<lparr>ar_start = recorded e a, ar_finished = None\<rparr> r"
    "at_budgetReservationId a = Some (res_id r)"
proof -
  obtain x d p m k where ev: "events = [CloudEgressAdmissionRecorded x, RoutingDecisionRecorded d, RouteAssigned p,
      AssistantMessageStarted m, ContextCompiled k, InferenceAttemptStarted a]"
    and b: "budgeted_egress_matches i x d a" "rd_costScope d = Some (bs_costScope i)" "at_costScope a = Some (bs_costScope i)"
    "billing_matches (rd_billing d) b" "rd_campaignId d = Some (bs_campaignId i)"
    "rd_pricingSnapshotId d = Some (bs_pricingSnapshotId i)" "rd_credentialMetadataId d = Some (cam_credentialMetadataId c)"
    "at_attemptId a = bs_attemptId i" "rd_reasonCode d = Rr_cloud_admitted"
    "rd_selectedProviderId d = bs_providerId i" "rd_budgetReservationId d = Some (bs_reservationId i)"
    "at_providerId a = bs_providerId i" "at_budgetReservationId a = Some (bs_reservationId i)"
    "at_requestedMaxOutputTokens a = bl_requestedMaxOutputTokens b"
    by (rule admitted_batch [OF batch])
  have vd: "valid_routing_decision d"
    using valid by (auto simp: ev parse_session_event_data_Some dest: sym)
  obtain e1 e where e: "e \<in> set stored" "ev_data e = InferenceAttemptStarted a"
    "st_inferenceAttempts s' = st_inferenceAttempts s @ [\<lparr>ar_start = recorded e a, ar_finished = None\<rparr>]"
    "find_decision s' (at_decisionId a) = Some d" "st_status s' = Running"
    "find (\<lambda>y. ea_admissionId (rec_payload y) = ea_admissionId x) (st_cloudEgressAdmissions s') = Some (recorded e1 x)"
    "rd_checkpointId d = Some (ea_checkpointId x)" "rd_messagesSha256 d = Some (ea_messagesSemanticSha256 x)"
    "rd_cloudEgressAdmissionId d = Some (ea_admissionId x)"
    using admitted_run [OF data [unfolded ev] vd b(9) _ _ run] b(2,11,13) scope by metis
  note r = reservation_fields [OF res]
  obtain row c' where row: "db1 = db\<lparr>db_ledger := db_ledger db @ [row]\<rparr>" "to_reservation row = Inr r"
    "billing_matches_reservation b r" "require_campaign (db_ledger db) (rq_campaignId (budgeted_reserve_input i cap)) = Inr c'"
    "cam_providerId c' = rq_providerId (budgeted_reserve_input i cap)"
    "cam_costScope c' = runtime_scope (rq_costScope (budgeted_reserve_input i cap))"
    "bl_remainingEpisodeMicrousd b = rq_episodeCap (budgeted_reserve_input i cap)"
    "bl_remainingCampaignMicrousd b \<le> min (cam_automaticStop c') (cam_hardCeiling c') - cam_openingExposure c'"
    by (rule admitted_reservation [OF res ok])
  have c': "c' = c" using row(4) c by (simp add: budgeted_reserve_input_def)
  have camp: "require_campaign (db_ledger db1) (res_campaignId r) = Inr c"
    using require_campaign_snoc [OF c] r row(1) by simp
  have created: "ev_createdAt e = bs_createdAt i" using at e(1) by (auto simp: stored_at_def list_all_iff)
  let ?a = "\<lparr>ar_start = recorded e a, ar_finished = None\<rparr>"
  obtain bd where bd: "rd_billing d = Some bd" using b(4) by (auto simp: billing_matches_def holds_iff)
  have "bl_requestedMaxOutputTokens b = res_requestedMaxOutputTokens r"
    using row(3) by (simp add: billing_matches_reservation_def)
  then have "start_matches s' (ar_start ?a) r"
    using r b(1,3,8,12,14) id created
    by (simp add: start_matches_def Let_def persisted_event_cost_scope_def budgeted_egress_matches_def)
  moreover have "attempt_decision s' ?a = Some d" using e(4) by (simp add: attempt_decision_find)
  moreover have "decision_matches d r"
    using b row(3) r bd
    by (simp add: decision_matches_def billing_matches_def billing_matches_reservation_def persisted_event_cost_scope_def
        budgeted_egress_matches_def)
  moreover have aid: "bs_cloudEgressAdmissionId i = Some (ea_admissionId x)"
    using b(1) by (simp add: budgeted_egress_matches_def)
  have "egress_matches s' d r"
    using b(1) r(8) e(6-9) aid by (simp add: egress_matches_def budgeted_egress_matches_def Let_def)
  then have "decision_checks (db_ledger db1) s' d r = None"
    using camp cap row(5-8) r b(4,7) bd
    by (simp add: decision_checks_def check_simps reconciliation_failure_if_def campaign_matches_def remaining_possible_def
        c' budgeted_reserve_input_def billing_matches_def)
  moreover have "resolution_checks s' ?a None r = None"
    using e(5) by (simp add: resolution_checks_def reconciliation_failure_if_def check_simps)
  ultimately show thesis using that [OF e(3)] b(13) r(1) by (simp add: attempt_links_def)
qed

section \<open>A budgeted start\<close>

lemma replayed_row:
  assumes "store_ok env db" "store_replay env db sid = Inr s"
  obtains y where "y \<in> set (db_sessions db)" "sw_id y = sid" "sw_state y = s" "js_trim sid = sid"
proof -
  obtain y where y: "y \<in> set (db_sessions db)" "sw_id y = sid" "s = sw_state y"
    using assms store_replay_iff by blast
  then have "find_session db sid = Some y"
    using find_session_unique [of db y] assms(1) by (simp add: store_ok_def)
  then have "js_trim sid = sid" using store_row_facts(5) [OF assms(1)] by blast
  with y that show thesis by blast
qed

lemma admitted_transaction_reconciled:
  assumes ok: "db_ok env db" and scope: "bs_costScope i = Rt_simulation"
    and run: "budgeted_transaction env build i db = Inr (db', stored, a, Admitted b pos r)"
  shows "db_ok env db'" "reconciled db'"
proof -
  have st: "store_ok env db" and lg: "ledger_ok (db_ledger db)" using ok by (simp_all add: db_ok_def)
  obtain s c cap db1 events where t: "store_replay env db (bs_sessionId i) = Inr s"
    "assert_event_reconciled env db = Inr ()" "require_campaign (db_ledger db) (bs_campaignId i) = Inr c"
    "v2_episode_cap s = Inr cap"
    "reserve (budgeted_reserve_input i cap) db = Inr (db1, Admitted b pos r)"
    "parse_batch (se_reviews env) (build (Admitted b pos r)) = Inr events"
    "validate_budgeted_start_batch i (Admitted b pos r) events (cam_credentialMetadataId c) = Inr a"
    "append_atomic_events env (bs_sessionId i) (bs_expectedSequence i) (bs_createdAt i) events
       (if paid_dispatch_authorized (Admitted b pos r) then bs_admittedIds i else bs_deniedIds i) db1 = Inr (db', stored)"
    by (rule budgeted_transactionE [OF run])
  have rec: "reconciled db" by (rule reconciled_gate [OF ok t(2)])
  obtain y where y: "y \<in> set (db_sessions db)" "sw_id y = bs_sessionId i" "sw_state y = s"
    "js_trim (bs_sessionId i) = bs_sessionId i" by (rule replayed_row [OF st t(1)])
  obtain row where row: "db1 = db\<lparr>db_ledger := db_ledger db @ [row]\<rparr>" "ledger_ok (db_ledger db @ [row])"
    "is_reservation_row row" "\<not> is_terminal_row row" "to_reservation row = Inr r"
    "lr_id row = rq_reservationId (budgeted_reserve_input i cap)" "assert_reservation_projection r = None"
    "\<forall>x \<in> set (db_ledger db). is_reservation_row x \<longrightarrow>
      lr_sessionId x \<noteq> Some (rq_sessionId (budgeted_reserve_input i cap))"
    "rq_sessionId (budgeted_reserve_input i cap) \<noteq> []"
    by (rule admitted_reservation [OF t(5) lg])
  have st1: "store_ok env db1" using st row(1) by (simp add: store_ok_ledger)
  note com' = append_atomic_commits [OF t(8) st1 t(6), unfolded y(4)]
  have com: "commits env (bs_sessionId i) [row] stored db db'"
    using com'(1) by (simp add: row(1) commits_ledger)
  show "db_ok env db'" using com row(2) by (simp add: db_ok_def commits_def)
  have fresh: "paid_ids (st_inferenceAttempts s) = []"
    using no_earlier_attempt [OF ok rec y(1)] row(8,9) y(2,3) by (simp add: budgeted_reserve_input_def)
  have linked: "session_linked (db_ledger db @ [row]) (sw_state z) \<and> res_id r \<in> set (paid_ids (st_inferenceAttempts (sw_state z)))"
    if z: "z \<in> set (db_sessions db')" "sw_id z = bs_sessionId i" for z
  proof -
    have run': "replay_from (se_replay env) s stored = Inr (sw_state z)"
      using commits_run [OF st com y(1,2) z] y(3) by simp
    have id: "st_id (sw_state z) = bs_sessionId i"
      using run_frame(1) [OF run'] session_state_id [OF st y(1)] y(2,3) by simp
    have cap: "v2_episode_cap (sw_state z) = Inr cap"
      using t(4) run_frame(2) [OF run'] by (simp add: v2_episode_cap_def)
    obtain e where e: "st_inferenceAttempts (sw_state z) = st_inferenceAttempts s @ [\<lparr>ar_start = recorded e a, ar_finished = None\<rparr>]"
      "attempt_links (db_ledger db1) None (sw_state z) \<lparr>ar_start = recorded e a, ar_finished = None\<rparr> r"
      "at_budgetReservationId a = Some (res_id r)"
      by (rule admitted_links [OF t(5) lg t(3,7) parse_batch_fixed(2) [OF t(6)] scope com'(2,3) run' id cap])
    have ids: "res_id r = lr_id row" using to_reservation_row [OF row(5)] by simp
    have "terminal_of (db_ledger db @ [row]) (res_id r) = None"
    proof -
      have "lr_id x \<noteq> res_id r" if "x \<in> set (db_ledger db)" for x
        using row(2) imageI [OF that, of lr_id] ids by (auto simp: ledger_ok_def indexes_ok_def)
      then have "terminal_of (db_ledger db) (res_id r) = None" using no_terminal_yet [OF lg] by blast
      with row(4) show ?thesis by (subst terminal_of_append) simp_all
    qed
    then have link: "linked_row (db_ledger db @ [row]) (sw_state z) \<lparr>ar_start = recorded e a, ar_finished = None\<rparr> (res_id r)"
      using e(2) row(1,3,5) ids by (auto simp: linked_row_def)
    have none: "at_budgetReservationId (attempt_of x) \<noteq> Some j" if "x \<in> set (st_inferenceAttempts s)" for x j
      using paid_ids_mem [of j "st_inferenceAttempts s"] fresh that by auto
    have "session_linked (db_ledger db @ [row]) (sw_state z)"
      using fresh link none e(3) by (auto simp: session_linked_def e(1))
    then show ?thesis using e(3) by (simp add: e(1))
  qed
  show "reconciled db'"
  proof (rule reconciled_after [OF st rec com])
    show "paid_attempt_id e \<noteq> Some []" if e: "e \<in> set stored" for e
    proof
      assume p: "paid_attempt_id e = Some []"
      then obtain a' where a': "attempt_start_payload (ev_data e) = Some a'" "at_budgetReservationId a' = Some []"
        using paid_start_payload by blast
      have "a' \<in> set (payloads attempt_start_payload events)"
        using a'(1) e unfolding com'(2) [symmetric] by (auto simp: payloads_mem)
      then have "lr_id row = []"
        using a'(2) admitted_start [OF t(7)] row(6) by (auto simp: budgeted_reserve_input_def)
      with row(2) show False by (auto simp: ledger_ok_def row_ok_def column_checks_def nonempty_text_def)
    qed
    obtain z where z: "z \<in> set (db_sessions db')" "sw_id z = bs_sessionId i" using com by (auto simp: commits_def)
    show "reservation_covered (db_sessions db') x" if "x \<in> set [row]" "is_reservation_row x" for x
      using that row(5,7) z linked [OF z] reservation_fields(3) [OF t(5)] by (auto simp: reservation_covered_def)
    show "terminal_of (db_ledger db @ [row]) j = terminal_of (db_ledger db) j" for j
      using row(4) by (intro terminal_of_append) simp
  qed (use linked row(4) in auto)
qed

lemma commit_budgeted_start_cases:
  assumes "commit_budgeted_start env build i u = Inr (u', out)"
  obtains stored a resolution where "bs_costScope i = Rt_simulation" "validate_budgeted_start_event_ids i = None"
    "budgeted_transaction env build i (un_db u) = Inr (un_db u', stored, a, resolution)"
    "un_starts u' = un_starts u @ [(budgeted_proof i a resolution stored, False)]" "un_finishes u' = un_finishes u"
    "ms_receipt out = length (un_starts u)" "ms_paidDispatchAuthorized out = paid_dispatch_authorized resolution"
  using assms by (auto simp: commit_budgeted_start_def check_simps split: prod.splits)

lemma budgeted_start_reconciled:
  assumes ok: "db_ok env (un_db u)" and run: "commit_budgeted_start env build i u = Inr (u', out)"
  shows "db_ok env (un_db u')" "reconciled (un_db u')"
proof -
  obtain stored a resolution where t: "bs_costScope i = Rt_simulation"
    "budgeted_transaction env build i (un_db u) = Inr (un_db u', stored, a, resolution)"
    using commit_budgeted_start_cases [OF run] by metis
  have gate: "assert_event_reconciled env (un_db u) = Inr ()"
    using t(2) by (auto elim!: budgeted_transactionE)
  have "db_ok env (un_db u') \<and> reconciled (un_db u')"
  proof (cases resolution)
    case (Admitted b pos r)
    with admitted_transaction_reconciled [OF ok t(1)] t(2) show ?thesis by blast
  next
    case (Refused reason b pos)
    with refused_transaction_reconciled [of env "un_db u"] t(2) ok reconciled_gate [OF ok gate] show ?thesis
      by (auto simp: db_ok_def)
  qed
  then show "db_ok env (un_db u')" "reconciled (un_db u')" by auto
qed

end
