(* ===== verification/AttemptSettlement.thy ===== *)
theory AttemptSettlement
  imports AttemptReservations
begin

text \<open>
  The transaction that finishes an attempt keeps the database reconciled: the row that resolves the
  reservation and the finish of the attempt say the same.
\<close>

section \<open>The row of a resolution\<close>

lemma resolveE:
  assumes "resolve i db = Inr (db', t)" and "ledger_ok (db_ledger db)"
  obtains r where "require_reservation (db_ledger db) (rs_reservationId i) = Inr r"
    "db' = db\<lparr>db_ledger := db_ledger db @ [terminal_row i r]\<rparr>" "ledger_ok (db_ledger db @ [terminal_row i r])"
    "is_terminal_row (terminal_row i r)" "\<not> is_reservation_row (terminal_row i r)" "to_terminal (terminal_row i r) = Inr t"
    "terminal_of (db_ledger db) (rs_reservationId i) = None"
    "terminal_of (db_ledger db @ [terminal_row i r]) (rs_reservationId i) = Some t"
proof -
  obtain r where r: "require_reservation (db_ledger db) (rs_reservationId i) = Inr r"
    "get_terminal_entry (db_ledger db) (rs_reservationId i) = Inr None"
    "insert_ledger_row db (terminal_row i r) = Inr db'"
    "get_terminal_entry (db_ledger db') (rs_reservationId i) = Inr (Some t)"
    using assms(1) by (auto simp: resolve_def check_simps split: option.splits)
  let ?x = "terminal_row i r" and ?P = "\<lambda>x. lr_reservationId x = Some (rs_reservationId i) \<and> is_terminal_row x"
  obtain rows where ins: "insert_row (map sw_id (db_sessions db)) (db_ledger db) ?x = Inr rows"
    "db' = db\<lparr>db_ledger := rows\<rparr>" using r(3) by (auto simp: insert_ledger_row_Inr)
  have rows: "rows = db_ledger db @ [?x]" by (rule inserted_facts(1) [OF ins(1)])
  have tr: "is_terminal_row ?x" by (rule inserted_terminal_row [OF ins(1)])
  have res: "lr_reservationId ?x = Some (rs_reservationId i)" by (simp add: terminal_row_def)
  have none: "find ?P (db_ledger db) = None"
    using r(2) by (auto simp: get_terminal_entry_def check_simps split: option.splits)
  then have none': "\<not> list_ex ?P (db_ledger db)" by (auto simp: find_None_iff list_ex_iff)
  have some: "find ?P rows = Some ?x" unfolding rows by (rule find_fresh [OF none']) (use tr res in simp)
  have t: "to_terminal ?x = Inr t"
    using r(4) some ins(2) by (auto simp: get_terminal_entry_def check_simps)
  have swap: "(\<lambda>x. is_terminal_row x \<and> lr_reservationId x = Some (rs_reservationId i)) = ?P" by auto
  have "terminal_of (db_ledger db) (rs_reservationId i) = None" unfolding terminal_of_def swap using none by simp
  moreover have "terminal_of rows (rs_reservationId i) = Some t" unfolding terminal_of_def swap using some t by simp
  moreover have "ledger_ok rows" by (rule insert_row_keeps_ledger_ok [OF ins(1) assms(2)])
  ultimately show thesis using that r(1) ins(2) rows tr t row_kinds(4) [of ?x] by blast
qed

lemma terminal_fields:
  assumes "to_terminal (terminal_row i r) = Inr t"
  shows "te_rowType t = rs_rowType i" "te_campaignId t = res_campaignId r" "te_amount t = rs_amount i"
    "te_requestDisposition t = Some (rs_requestDisposition i)" "te_createdAt t = rs_createdAt i"
    "te_costScope t = res_costScope r" "te_costProvenance t = rs_costProvenance i" "te_reasonCode t = rs_reasonCode i"
  using assms by (auto simp: to_terminal_def terminal_row_def check_simps safe_number_def)

section \<open>What the finish and its row say\<close>

text \<open>Both ways of resolving, as one resolution request with what its checks established.\<close>

lemma resolve_attempt_budgetE:
  assumes "resolve_attempt_budget i entry reservation a f events db = Inr (db', t)"
  obtains inp r where "resolve inp db = Inr (db', t)" "rs_reservationId inp = reservation"
    "require_reservation (db_ledger db) reservation = Inr r" "attempt_resolve_checks i a f r = None"
    "rs_createdAt inp = fi_createdAt i" "rs_amount inp = co_amountMicrousd (fin_cost f)"
    "rs_requestDisposition inp = fin_requestDisposition f" "rs_rowType inp = expected_terminal_row_type r f"
    "if fin_requestDisposition f = Not_sent
     then co_provenance (fin_cost f) = Host_pricing_snapshot \<and> rs_costProvenance inp = None \<and>
       rs_reasonCode inp = Some (coalesce (fin_errorCode f) ''definitely_unsent'')
     else settle_attempt_checks events f r = None \<and> rs_costProvenance inp = Some (co_provenance (fin_cost f)) \<and>
       rs_reasonCode inp = (if expected_terminal_row_type r f = Row_overrun then Some ''budget_overrun'' else None)"
proof -
  obtain r where r: "require_reservation (db_ledger db) reservation = Inr r" "attempt_resolve_checks i a f r = None"
    using assms by (auto simp: resolve_attempt_budget_def check_simps)
  have id: "res_id r = reservation"
    using r(1) to_reservation_row by (auto simp: require_reservation_def check_simps split: option.splits dest!: find_SomeD)
  show thesis
  proof (cases "fin_requestDisposition f = Not_sent")
    case True
    with assms r have "resolve (release_input i entry f r) db = Inr (db', t)" "co_amountMicrousd (fin_cost f) = 0"
      "co_provenance (fin_cost f) = Host_pricing_snapshot"
      by (auto simp: resolve_attempt_budget_def check_simps)
    with True r id show thesis
      by (intro that [of "release_input i entry f r" r]) (simp_all add: release_input_def expected_terminal_row_type_def)
  next
    case False
    with assms r have "resolve (settle_input i entry f r) db = Inr (db', t)" "settle_attempt_checks events f r = None"
      by (auto simp: resolve_attempt_budget_def check_simps)
    with False r id show thesis
      by (intro that [of "settle_input i entry f r" r])
        (simp_all add: settle_input_def expected_terminal_row_type_def Let_def)
  qed
qed

lemma effective_scope: "effective_cost_scope x = persisted_event_cost_scope x"
  by (cases x rule: effective_cost_scope.cases) (simp_all add: persisted_event_cost_scope_def runtime_scope_def)

lemma failed_at_the_end:
  assumes "replay_from env s es = Inr s'" "at_last (map ev_data es) = Some (SessionFailed err)"
  shows "st_status s' = Failed \<and> st_error s' = Some err"
proof -
  obtain fs e where es: "es = fs @ [e]" using assms(2) by (cases es rule: rev_cases) auto
  obtain m where "reduce_next env m e = Inr s'" using assms(1) by (auto simp: es session_replay.run_snoc bind_result_Inr)
  moreover have "ev_data e = SessionFailed err" using assms(2) by (simp add: es)
  ultimately show ?thesis by (elim reduce_nextE) (auto dest!: handle_session_failed_ok simp: mark_v2_def)
qed

lemma overrun_failure:
  assumes "require_overrun_failure events = None"
  obtains err where "at_last events = Some (SessionFailed err)" "mentions_budget_overrun err"
proof -
  obtain d where d: "at_last events = Some d"
    "case d of SessionFailed err \<Rightarrow> mentions_budget_overrun err | _ \<Rightarrow> False"
    using assms by (auto simp: require_overrun_failure_def check_simps holds_iff)
  from d that show thesis by (cases d) simp_all
qed

lemma finished_resolution:
  assumes run: "replay_from env s stored = Inr s'" and data: "map ev_data stored = events"
    and valid: "valid_attempt_finish f"
    and inp: "rs_createdAt inp = ev_createdAt e" "rs_amount inp = co_amountMicrousd (fin_cost f)"
      "rs_requestDisposition inp = fin_requestDisposition f" "rs_rowType inp = expected_terminal_row_type r f"
    and kind: "if fin_requestDisposition f = Not_sent
     then co_provenance (fin_cost f) = Host_pricing_snapshot \<and> rs_costProvenance inp = None \<and>
       rs_reasonCode inp = Some (coalesce (fin_errorCode f) ''definitely_unsent'')
     else settle_attempt_checks events f r = None \<and> rs_costProvenance inp = Some (co_provenance (fin_cost f)) \<and>
       rs_reasonCode inp = (if expected_terminal_row_type r f = Row_overrun then Some ''budget_overrun'' else None)"
    and t: "to_terminal (terminal_row inp r) = Inr t"
    and cost: "co_reservationId (fin_cost f) = Some (res_id r)"
      "persisted_event_cost_scope (co_costScope (fin_cost f)) = res_costScope r"
    and a: "ar_finished a = Some (recorded e f)"
  shows "resolution_checks s' a (Some t) r = None"
proof -
  note t = terminal_fields [OF t]
  have "finish_matches (recorded e f) t r"
    using inp t cost by (simp add: finish_matches_def Let_def)
  moreover have "fin_errorCode f \<noteq> None" if "fin_requestDisposition f = Not_sent"
    using valid that by (auto simp: valid_attempt_finish_def finish_outcome_ok_def split: if_splits)
  moreover have "settled_checks s' f t r = None" if sent: "fin_requestDisposition f \<noteq> Not_sent"
  proof -
    have c: "settle_attempt_checks events f r = None" using kind sent by simp
    have "st_status s' = Failed \<and> holds (st_error s') mentions_budget_overrun"
      if over: "co_amountMicrousd (fin_cost f) > res_amount r"
    proof -
      have "require_overrun_failure events = None"
        using c over by (simp add: settle_attempt_checks_def Let_def check_simps)
      then obtain err where err: "at_last events = Some (SessionFailed err)" "mentions_budget_overrun err"
        by (rule overrun_failure)
      from failed_at_the_end [OF run] err show ?thesis by (simp add: data)
    qed
    then show ?thesis
      using c kind sent t
      by (auto simp: settled_checks_def settle_attempt_checks_def Let_def check_simps reconciliation_failure_if_def
          expected_terminal_row_type_def split: if_splits)
  qed
  ultimately show ?thesis
    using a kind t by (auto simp: resolution_checks_def check_simps reconciliation_failure_if_def
        expected_terminal_row_type_def split: if_splits)
qed

section \<open>The finish of an attempt\<close>

lemma find_split:
  "find p xs = Some a \<Longrightarrow> \<exists>ys zs. xs = ys @ a # zs \<and> update_first p f xs = ys @ f a # zs"
proof (induction xs)
  case (Cons x xs)
  show ?case
  proof (cases "p x")
    case True
    with Cons.prems have "x # xs = [] @ a # xs \<and> update_first p f (x # xs) = [] @ f a # xs" by simp
    then show ?thesis by blast
  next
    case False
    with Cons obtain ys zs where "xs = ys @ a # zs" "update_first p f xs = ys @ f a # zs" by auto
    with False have "x # xs = (x # ys) @ a # zs \<and> update_first p f (x # xs) = (x # ys) @ f a # zs" by simp
    then show ?thesis by blast
  qed
qed simp

lemma finish_transactionE:
  assumes "finish_transaction env open_ok i f events db = Inr (db', stored, aid, terminal)"
  obtains s a db1 where "store_replay env db (fi_sessionId i) = Inr s" "st_lastSequence s = fi_expectedSequence i" "open_ok s"
    "find (\<lambda>a. at_attemptId (attempt_of a) = fin_attemptId f) (st_inferenceAttempts s) = Some a"
    "ar_finished a = None" "account_finish i (attempt_of a) f events db = Inr (db1, terminal)"
    "append_atomic_events env (fi_sessionId i) (fi_expectedSequence i) (fi_createdAt i) events (fi_eventIds i) db1 =
       Inr (db', stored)" "aid = at_attemptId (attempt_of a)"
  using assms by (auto simp: finish_transaction_def expected_state_def check_simps split: option.splits prod.splits)

text \<open>What the events of a finish do to the session.\<close>

lemma finish_attempt_start [simp]:
  "ar_start (finish_attempt e f a) = ar_start a" "ar_finished (finish_attempt e f a) = Some (recorded e f)"
  by (simp_all add: finish_attempt_def)

lemma finish_effect:
  assumes batch: "validate_attempt_finish_batch events = Inr f" and data: "map ev_data stored = events"
    and at: "stored_at k tm stored"
    and found: "find (\<lambda>a. at_attemptId (attempt_of a) = fin_attemptId f) (st_inferenceAttempts s) = Some a"
    and run: "replay_from env s stored = Inr s'"
  obtains e ys zs where "ev_createdAt e = tm" "st_inferenceAttempts s = ys @ a # zs"
    "st_inferenceAttempts s' = ys @ finish_attempt e f a # zs"
    "effective_cost_scope (co_costScope (fin_cost f)) = effective_cost_scope (at_costScope (attempt_of a))"
proof -
  obtain pre post where shape: "events = pre @ InferenceAttemptFinished f # post"
    and quiet: "\<forall>d \<in> set (pre @ post). event_data_type d \<noteq> T_attempt_started \<and> event_data_type d \<noteq> T_attempt_finished"
    by (rule finish_batch_shape [OF batch])
  obtain e m m' where e: "e \<in> set stored" "ev_data e = InferenceAttemptFinished f" "reduce_next env m e = Inr m'"
    "st_inferenceAttempts m = st_inferenceAttempts s" "st_inferenceAttempts s' = st_inferenceAttempts m'"
    by (rule finish_run [OF data [unfolded shape] quiet run])
  have "effective_cost_scope (co_costScope (fin_cost f)) = effective_cost_scope (at_costScope (attempt_of a))"
    using e(3) found
    by (elim reduce_nextE) (auto dest!: handle_attempt_finished_ok simp: e(2) e(4) next_state_def finish_cost_checks_def check_simps)
  moreover have "st_inferenceAttempts s' = update_first (\<lambda>r. at_attemptId (attempt_of r) = fin_attemptId f)
      (finish_attempt e f) (st_inferenceAttempts s)"
    using attempts_exact [OF e(3)] e(2,4,5) by simp
  moreover have "ev_createdAt e = tm" using at e(1) by (auto simp: stored_at_def list_all_iff)
  moreover obtain ys zs where "st_inferenceAttempts s = ys @ a # zs"
    "update_first (\<lambda>r. at_attemptId (attempt_of r) = fin_attemptId f) (finish_attempt e f) (st_inferenceAttempts s) =
       ys @ finish_attempt e f a # zs"
    using find_split [OF found] by metis
  ultimately show thesis using that by metis
qed

lemma finish_starts_nothing:
  assumes batch: "validate_attempt_finish_batch events = Inr f" and data: "map ev_data stored = events"
    and e: "e \<in> set stored"
  shows "paid_attempt_id e = None"
proof (rule unpaid_batch [OF _ e])
  fix b
  assume "b \<in> set (payloads attempt_start_payload (map ev_data stored))"
  then obtain d where d: "d \<in> set events" "attempt_start_payload d = Some b" unfolding data payloads_mem by blast
  obtain pre post where shape: "events = pre @ InferenceAttemptFinished f # post"
    and quiet: "\<forall>d \<in> set (pre @ post). event_data_type d \<noteq> T_attempt_started \<and> event_data_type d \<noteq> T_attempt_finished"
    by (rule finish_batch_shape [OF batch])
  have "event_data_type d = T_attempt_started" using d(2) by (cases d) simp_all
  moreover have "d = InferenceAttemptFinished f \<or> d \<in> set (pre @ post)" using d(1) unfolding shape by auto
  ultimately show "at_budgetReservationId b = None" using quiet by auto
qed

lemma unpaid_finish_reconciled:
  assumes ok: "db_ok env db" and rec: "reconciled db"
    and batch: "parse_batch (se_reviews env) raw = Inr events" "validate_attempt_finish_batch events = Inr f"
    and run: "finish_transaction env open_ok i f events db = Inr (db', stored, aid, None)"
  shows "db_ok env db'" "reconciled db'"
proof -
  have st: "store_ok env db" and lg: "ledger_ok (db_ledger db)" using ok by (simp_all add: db_ok_def)
  obtain s a db1 where "st_lastSequence s = fi_expectedSequence i" "open_ok s" "ar_finished a = None"
    "aid = at_attemptId (attempt_of a)"
    and t: "store_replay env db (fi_sessionId i) = Inr s"
    "find (\<lambda>a. at_attemptId (attempt_of a) = fin_attemptId f) (st_inferenceAttempts s) = Some a"
    "account_finish i (attempt_of a) f events db = Inr (db1, None)"
    "append_atomic_events env (fi_sessionId i) (fi_expectedSequence i) (fi_createdAt i) events (fi_eventIds i) db1 =
       Inr (db', stored)"
    by (rule finish_transactionE [OF run])
  have unpaid: "at_budgetReservationId (attempt_of a) = None" "db1 = db"
    using t(3) by (auto simp: account_finish_def check_simps split: option.splits)
  note com = append_atomic_commits [OF t(4) [unfolded unpaid(2)] st batch(1)]
  show "db_ok env db'" using com(1) lg by (simp add: db_ok_def commits_def)
  obtain y where y: "y \<in> set (db_sessions db)" "sw_id y = fi_sessionId i" "sw_state y = s"
    "js_trim (fi_sessionId i) = fi_sessionId i" by (rule replayed_row [OF st t(1)])
  show "reconciled db'"
  proof (rule reconciled_unpaid [OF st rec com(1)])
    show "paid_attempt_id e = None" if "e \<in> set stored" for e
      by (rule finish_starts_nothing [OF batch(2) com(2) that])
    show "paid_attempts q' = paid_attempts q"
      if q: "replay_from (se_replay env) q stored = Inr q'" "q \<in> sw_state ` set (db_sessions db)"
        "st_id q = js_trim (fi_sessionId i)" for q q'
    proof -
      obtain z where z: "z \<in> set (db_sessions db)" "q = sw_state z" using q(2) by blast
      have "sw_id z = sw_id y" using session_state_id [OF st z(1)] q(3) z(2) by (simp add: y(2,4))
      then have "z = y" by (rule session_unique [OF st z(1) y(1)])
      then have "q = s" using z(2) y(3) by simp
      with q(1) have run': "replay_from (se_replay env) s stored = Inr q'" by simp
      obtain e ys zs where "st_inferenceAttempts s = ys @ a # zs" "st_inferenceAttempts q' = ys @ finish_attempt e f a # zs"
        by (rule finish_effect [OF batch(2) com(2,3) t(2) run'])
      with \<open>q = s\<close> unpaid(1) show ?thesis by (simp add: paid_attempts_def is_paid_def)
    qed
  qed
qed

text \<open>The attempt of a reservation before its finish.\<close>

lemma open_link:
  assumes ok: "ledger_ok rows" and linked: "session_linked rows s" and a: "a \<in> set (st_inferenceAttempts s)"
    "at_budgetReservationId (attempt_of a) = Some j" and r: "require_reservation rows j = Inr r"
  shows "attempt_links rows (terminal_of rows j) s a r" "res_id r = j"
proof -
  obtain x where x: "x \<in> set rows" "lr_id x = j" "is_reservation_row x" "to_reservation x = Inr r"
    using r by (auto simp: require_reservation_def check_simps split: option.splits dest!: find_SomeD)
  obtain x' r' where x': "x' \<in> set rows" "lr_id x' = j" "to_reservation x' = Inr r'"
    "attempt_links rows (terminal_of rows j) s a r'"
    using linked a unfolding session_linked_def linked_row_def by blast
  have "x' = x" using id_unique [OF ok x'(1) x(1)] x(2) x'(2) by simp
  with x x' show "attempt_links rows (terminal_of rows j) s a r" by simp
  show "res_id r = j" using to_reservation_row [OF x(4)] x(2) by simp
qed

lemma finish_links:
  assumes ok: "ledger_ok rows" and linked: "session_linked rows s" and split: "st_inferenceAttempts s = ys @ a # zs"
    and after: "st_inferenceAttempts s' = ys @ a' # zs" "ar_start a' = ar_start a"
    and run: "replay_from env s es = Inr s'" "es \<noteq> []" and replayed: "replay_session env fs = Inr s'"
    and paid: "at_budgetReservationId (attempt_of a) = Some j"
    and link: "linked_row (rows @ new) s' a' j"
    and new: "\<And>i. i \<noteq> j \<Longrightarrow> terminal_of (rows @ new) i = terminal_of rows i"
  shows "session_linked (rows @ new) s'"
proof -
  have ids: "paid_ids (st_inferenceAttempts s') = paid_ids (st_inferenceAttempts s)"
    by (rule paid_ids_attempts) (simp add: split after)
  have "linked_row (rows @ new) s' b i"
    if b: "b \<in> set (st_inferenceAttempts s')" "at_budgetReservationId (attempt_of b) = Some i" for b i
  proof (cases "b = a'")
    case True
    with b(2) paid after(2) link show ?thesis by simp
  next
    case False
    then have b': "b \<in> set ys \<union> set zs" using b(1) after(1) by auto
    then have old: "linked_row rows s b i" using linked b(2) split by (auto simp: session_linked_def)
    have "distinct (paid_ids (ys @ a # zs))" using linked split by (simp add: session_linked_def)
    moreover have "i \<in> set (paid_ids ys) \<union> set (paid_ids zs)" using b' b(2) by (auto simp: paid_ids_mem)
    ultimately have "i \<noteq> j" using paid by auto
    from linked_row_kept [OF old run open_attempt_not_terminal [OF replayed b(1)] new [OF this]]
    show ?thesis .
  qed
  then show ?thesis using linked ids by (simp add: session_linked_def)
qed

lemma reserved_finish_reconciled:
  assumes ok: "db_ok env db" and rec: "reconciled db"
    and batch: "parse_batch (se_reviews env) raw = Inr events" "validate_attempt_finish_batch events = Inr f"
    and run: "finish_transaction env open_ok i f events db = Inr (db', stored, aid, Some t)"
  shows "db_ok env db'" "reconciled db'"
proof -
  have st: "store_ok env db" and lg: "ledger_ok (db_ledger db)" using ok by (simp_all add: db_ok_def)
  obtain s a db1 where "st_lastSequence s = fi_expectedSequence i" "open_ok s" "ar_finished a = None"
    "aid = at_attemptId (attempt_of a)"
    and tr: "store_replay env db (fi_sessionId i) = Inr s"
    "find (\<lambda>a. at_attemptId (attempt_of a) = fin_attemptId f) (st_inferenceAttempts s) = Some a"
    "account_finish i (attempt_of a) f events db = Inr (db1, Some t)"
    "append_atomic_events env (fi_sessionId i) (fi_expectedSequence i) (fi_createdAt i) events (fi_eventIds i) db1 =
       Inr (db', stored)"
    by (rule finish_transactionE [OF run])
  obtain j entry where j: "at_budgetReservationId (attempt_of a) = Some j"
    "resolve_attempt_budget i entry j (attempt_of a) f events db = Inr (db1, t)"
    using tr(3) by (auto simp: account_finish_def check_simps split: option.splits)
  obtain inp r where inp: "resolve inp db = Inr (db1, t)" "rs_reservationId inp = j"
    "require_reservation (db_ledger db) j = Inr r" "attempt_resolve_checks i (attempt_of a) f r = None"
    "rs_createdAt inp = fi_createdAt i" "rs_amount inp = co_amountMicrousd (fin_cost f)"
    "rs_requestDisposition inp = fin_requestDisposition f" "rs_rowType inp = expected_terminal_row_type r f"
    and kind: "if fin_requestDisposition f = Not_sent
     then co_provenance (fin_cost f) = Host_pricing_snapshot \<and> rs_costProvenance inp = None \<and>
       rs_reasonCode inp = Some (coalesce (fin_errorCode f) ''definitely_unsent'')
     else settle_attempt_checks events f r = None \<and> rs_costProvenance inp = Some (co_provenance (fin_cost f)) \<and>
       rs_reasonCode inp = (if expected_terminal_row_type r f = Row_overrun then Some ''budget_overrun'' else None)"
    by (rule resolve_attempt_budgetE [OF j(2)])
  obtain r' where r': "require_reservation (db_ledger db) (rs_reservationId inp) = Inr r'"
    "db1 = db\<lparr>db_ledger := db_ledger db @ [terminal_row inp r']\<rparr>" "ledger_ok (db_ledger db @ [terminal_row inp r'])"
    "is_terminal_row (terminal_row inp r')" "\<not> is_reservation_row (terminal_row inp r')"
    "to_terminal (terminal_row inp r') = Inr t" "terminal_of (db_ledger db) (rs_reservationId inp) = None"
    "terminal_of (db_ledger db @ [terminal_row inp r']) (rs_reservationId inp) = Some t"
    by (rule resolveE [OF inp(1) lg])
  have "r' = r" using r'(1) inp(2,3) by simp
  note row = r' [unfolded this inp(2)]
  let ?x = "terminal_row inp r"
  have st1: "store_ok env db1" using st row(2) by (simp add: store_ok_ledger)
  obtain y where y: "y \<in> set (db_sessions db)" "sw_id y = fi_sessionId i" "sw_state y = s"
    "js_trim (fi_sessionId i) = fi_sessionId i" by (rule replayed_row [OF st tr(1)])
  note com' = append_atomic_commits [OF tr(4) st1 batch(1), unfolded y(4)]
  have com: "commits env (fi_sessionId i) [?x] stored db db'" using com'(1) by (simp add: row(2) commits_ledger)
  show "db_ok env db'" using com row(3) by (simp add: db_ok_def commits_def)
  have linked: "session_linked (db_ledger db) s" using rec y(1,3) by (auto simp: reconciled_def)
  have a: "a \<in> set (st_inferenceAttempts s)" using tr(2) by (auto dest: find_SomeD)
  note link = open_link [OF lg linked a j(1) inp(3)]
  have xid: "lr_reservationId ?x = Some j" by (simp add: terminal_row_def inp(2))
  have fresh: "terminal_of (db_ledger db @ [?x]) k = terminal_of (db_ledger db) k" if "k \<noteq> j" for k
    using that xid by (intro terminal_of_append) simp
  have moved: "session_linked (db_ledger db @ [?x]) (sw_state z)"
    if z: "z \<in> set (db_sessions db')" "sw_id z = fi_sessionId i" for z
  proof -
    have run': "replay_from (se_replay env) s stored = Inr (sw_state z)"
      using commits_run [OF st com y(1,2) z] y(3) by simp
    obtain e ys zs where e: "ev_createdAt e = fi_createdAt i" "st_inferenceAttempts s = ys @ a # zs"
      "st_inferenceAttempts (sw_state z) = ys @ finish_attempt e f a # zs"
      "effective_cost_scope (co_costScope (fin_cost f)) = effective_cost_scope (at_costScope (attempt_of a))"
      by (rule finish_effect [OF batch(2) com'(2,3) tr(2) run'])
    have valid: "valid_attempt_finish f"
    proof -
      obtain pre post where "events = pre @ InferenceAttemptFinished f # post" by (rule finish_batch_shape [OF batch(2)])
      with parse_batch_fixed(2) [OF batch(1)] show ?thesis
        by (auto simp: parse_session_event_data_Some list_all_iff dest: sym)
    qed
    have scope: "persisted_event_cost_scope (co_costScope (fin_cost f)) = res_costScope r"
      using link(1) e(4) by (simp add: attempt_links_def start_matches_def Let_def effective_scope)
    have "resolution_checks (sw_state z) (finish_attempt e f a) (Some t) r = None"
      by (rule finished_resolution [OF run' com'(2) valid _ inp(6,7,8) kind row(6) _ scope])
        (use inp(4,5) e(1) in \<open>simp_all add: attempt_resolve_checks_def check_simps\<close>)
    then have "attempt_links (db_ledger db @ [?x]) (Some t) (sw_state z) (finish_attempt e f a) r"
      by (intro attempt_links_moved [OF link(1) run']) simp_all
    then have "linked_row (db_ledger db @ [?x]) (sw_state z) (finish_attempt e f a) j"
      using inp(3) row(8)
      by (auto simp: linked_row_def require_reservation_def check_simps split: option.splits dest!: find_SomeD)
    moreover have "stored \<noteq> []" using com by (simp add: commits_def)
    ultimately show ?thesis
      by (intro finish_links [OF lg linked e(2,3) _ run' _ commits_replayed(2) [OF com z] j(1) _ fresh]) simp_all
  qed
  show "reconciled db'"
  proof (rule reconciled_after [OF st rec com])
    show "paid_attempt_id e \<noteq> Some []" if "e \<in> set stored" for e
      using finish_starts_nothing [OF batch(2) com'(2) that] by simp
    show "terminal_of (db_ledger db @ [?x]) k = terminal_of (db_ledger db) k"
      if k: "w \<in> set (db_sessions db)" "sw_id w \<noteq> fi_sessionId i"
        "k \<in> set (paid_ids (st_inferenceAttempts (sw_state w)))" for w k
    proof (rule fresh)
      have "j \<in> set (paid_ids (st_inferenceAttempts (sw_state y)))" using a j(1) y(3) by (auto simp: paid_ids_mem)
      with paid_ids_disjoint [OF ok rec k(1) _ y(1)] k(2,3) y(2) show "k \<noteq> j" by auto
    qed
  qed (use moved row(5,6) in auto)
qed

end
