(* ===== verification/UnitOperations.thy ===== *)
theory UnitOperations
  imports AttemptUnit Replay
begin

text \<open>
  Histories of the unit of work beside the writers it shares the database with: campaigns are
  created, sessions are created and appended to, attempts are started, finished and recovered, and
  receipts are consumed. An operation of a history is one that succeeded; a failed transaction
  leaves everything as it was.
\<close>

section \<open>Histories\<close>

datatype unit_op =
    Op_campaign campaign_input
  | Op_session string created_payload string string string
  | Op_append string "session_event_data list" "string list" string "int option"
  | Op_local_start local_start_input
  | Op_budgeted_start "reservation_resolution \<Rightarrow> session_event_data list" budgeted_start_input
  | Op_finish "session_state \<Rightarrow> bool" finish_input
  | Op_recovery_finish "session_state \<Rightarrow> bool" finish_input
  | Op_consume_start nat
  | Op_consume_finish nat

fun apply_unit_op :: "store_env \<Rightarrow> unit_state \<Rightarrow> unit_op \<Rightarrow> unit_error + unit_state" where
  "apply_unit_op env u (Op_campaign i) =
     bind_result (map_error Unit_ledger (ensure_campaign i (un_db u))) (\<lambda>(db, c). Inr (u\<lparr>un_db := db\<rparr>))"
| "apply_unit_op env u (Op_session sid p tm id1 id2) =
     bind_result (map_error Unit_store (create_session env sid p tm id1 id2 (un_db u))) (\<lambda>(db, r).
       Inr (u\<lparr>un_db := db\<rparr>))"
| "apply_unit_op env u (Op_append sid events ids tm expected) =
     bind_result (map_error Unit_store (append_many env sid events ids tm expected (un_db u))) (\<lambda>(db, stored).
       Inr (u\<lparr>un_db := db\<rparr>))"
| "apply_unit_op env u (Op_local_start i) = bind_result (commit_local_start env i u) (\<lambda>(u', out). Inr u')"
| "apply_unit_op env u (Op_budgeted_start build i) =
     bind_result (commit_budgeted_start env build i u) (\<lambda>(u', out). Inr u')"
| "apply_unit_op env u (Op_finish open_ok i) = bind_result (commit_attempt_finish env open_ok i u) (\<lambda>(u', out). Inr u')"
| "apply_unit_op env u (Op_recovery_finish open_ok i) =
     bind_result (commit_recovery_finish env open_ok i u) (\<lambda>(u', out). Inr u')"
| "apply_unit_op env u (Op_consume_start n) = bind_result (consume_start_receipt n u) (\<lambda>(u', p). Inr u')"
| "apply_unit_op env u (Op_consume_finish n) = bind_result (consume_finish_receipt n u) (\<lambda>(u', p). Inr u')"

fun unit_run :: "store_env \<Rightarrow> unit_state \<Rightarrow> unit_op list \<Rightarrow> unit_error + unit_state" where
  "unit_run env u [] = Inr u"
| "unit_run env u (op # ops) = bind_result (apply_unit_op env u op) (\<lambda>u'. unit_run env u' ops)"

interpretation unit_history: event_replay "apply_unit_op env" "unit_run env"
  by unfold_locales simp_all

text \<open>The attempts of a session start and finish through the unit of work only.\<close>

fun leaves_attempts :: "unit_op \<Rightarrow> bool" where
  "leaves_attempts (Op_append sid events ids tm expected) =
     list_all (\<lambda>d. event_data_type d \<noteq> T_attempt_started \<and> event_data_type d \<noteq> T_attempt_finished) events"
| "leaves_attempts _ = True"

end
