(* ===== verification/AttemptHistories.thy ===== *)
theory AttemptHistories
  imports AttemptSettlement UnitOperations
begin

text \<open>
  Every operation of a history keeps the database consistent and reconciled, when the attempts of
  a session start and finish through the unit of work only.
\<close>

section \<open>Every operation keeps the database reconciled\<close>

definition sound_db :: "store_env \<Rightarrow> database \<Rightarrow> bool" where
  "sound_db env db \<longleftrightarrow> db_ok env db \<and> reconciled db"

lemma append_keeps_sound:
  assumes run: "append_many env sid events ids tm expected db = Inr (db', stored)" and sound: "sound_db env db"
    and quiet: "list_all (\<lambda>d. event_data_type d \<noteq> T_attempt_started \<and> event_data_type d \<noteq> T_attempt_finished) events"
  shows "sound_db env db'"
proof (cases "events = []")
  case True
  then show ?thesis using run sound by (auto simp: append_many_def append_internal_def check_simps)
next
  case False
  have ok: "store_ok env db" "ledger_ok (db_ledger db)" "reconciled db" using sound by (simp_all add: sound_db_def db_ok_def)
  note e = append_many_result [OF run ok(1) False]
  have "stored \<noteq> []" using e(4) False by auto
  with e have com: "commits env (js_trim sid) [] stored db db'"
    by (auto simp: commits_def stored_at_def list_all_iff)
  have types: "event_type x \<noteq> T_attempt_started \<and> event_type x \<noteq> T_attempt_finished" if "x \<in> set stored" for x
  proof -
    have "event_type x \<in> event_data_type ` set events"
      using imageI [OF that, of event_type] arg_cong [OF e(4), of set] by simp
    with quiet show ?thesis by (auto simp: list_all_iff)
  qed
  have unpaid: "paid_attempt_id x = None" if "x \<in> set stored" for x
    using types [OF that] by (cases "ev_data x") (simp_all add: paid_attempt_id_def event_type_def)
  have "reconciled db'"
    by (rule reconciled_unpaid [OF ok(1,3) com unpaid]) (use types unpaid in \<open>blast intro: paid_attempts_run\<close>)+
  moreover have "db_ok env db'" using com ok(2) by (simp add: db_ok_def commits_def)
  ultimately show ?thesis by (simp add: sound_db_def)
qed

lemma campaign_keeps_sound:
  assumes run: "ensure_campaign i db = Inr (db', c)" and sound: "sound_db env db"
  shows "sound_db env db'"
proof -
  consider "db' = db" | "insert_campaign i db = Inr (db', c)"
    using run by (auto simp: ensure_campaign_def check_simps split: option.splits)
  then show ?thesis
  proof cases
    case 2
    let ?x = "campaign_row i"
    note ins = insert_campaignE [OF 2] and db' = inserted_facts(1) [OF insert_campaignE [OF 2]]
    have same: "db_sessions db' = db_sessions db" "db_events db' = db_events db"
      using 2 by (auto simp: insert_campaign_def check_simps insert_ledger_row_Inr)
    have kind: "is_campaign_row ?x" by (simp add: is_campaign_row_def campaign_row_def)
    then have kinds: "\<not> is_terminal_row ?x" "\<not> is_reservation_row ?x" using row_kinds by blast+
    have ok: "store_ok env db" "ledger_ok (db_ledger db)" "reconciled db" using sound by (simp_all add: sound_db_def db_ok_def)
    have "db' = db\<lparr>db_ledger := db_ledger db'\<rparr>" using same by simp
    then have "store_ok env db'" using ok(1) store_ok_ledger by metis
    moreover have "ledger_ok (db_ledger db')" by (rule insert_row_keeps_ledger_ok [OF ins ok(2)])
    moreover have "session_linked (db_ledger db') s" if "session_linked (db_ledger db) s" for s
      unfolding db' using that kinds(1) by (intro session_linked_append terminal_of_append) auto
    then have "reconciled db'"
      using ok(3) kinds by (auto simp: reconciled_def same db')
    ultimately show ?thesis by (simp add: sound_db_def db_ok_def)
  qed (use sound in simp)
qed

lemma finish_keeps_sound:
  assumes run: "commit_attempt_finish env open_ok i u = Inr (u', out)" and sound: "sound_db env (un_db u)"
  shows "sound_db env (un_db u')"
proof -
  obtain events f stored aid terminal where c: "parse_batch (se_reviews env) (fi_events i) = Inr events"
    "validate_attempt_finish_batch events = Inr f"
    "finish_transaction env open_ok i f events (un_db u) = Inr (un_db u', stored, aid, terminal)"
    using run by (auto simp: commit_attempt_finish_def check_simps split: prod.splits)
  have ok: "db_ok env (un_db u)" "reconciled (un_db u)" using sound by (simp_all add: sound_db_def)
  show ?thesis
  proof (cases terminal)
    case None
    with unpaid_finish_reconciled [OF ok c(1,2)] c(3) show ?thesis by (simp add: sound_db_def)
  next
    case (Some t)
    with reserved_finish_reconciled [OF ok c(1,2)] c(3) show ?thesis by (simp add: sound_db_def)
  qed
qed

lemma apply_unit_op_keeps_sound:
  assumes run: "apply_unit_op env u op = Inr u'" and sound: "sound_db env (un_db u)" and quiet: "leaves_attempts op"
  shows "sound_db env (un_db u')"
proof (cases op)
  case (Op_campaign i)
  then show ?thesis using run sound by (auto simp: check_simps intro: campaign_keeps_sound)
next
  case (Op_session sid p tm id1 id2)
  let ?events = "[SessionCreated p, UserMessage \<lparr>um_messageId = sid @ '':objective'', um_content = cr_objective p\<rparr>]"
  obtain stored where "append_many env sid ?events [id1, id2] tm (Some 0) (un_db u) = Inr (un_db u', stored)"
    using run Op_session by (auto simp: create_session_def append_many_def check_simps split: prod.splits)
  then show ?thesis by (rule append_keeps_sound [OF _ sound]) simp
next
  case (Op_append sid events ids tm expected)
  then obtain stored where "append_many env sid events ids tm expected (un_db u) = Inr (un_db u', stored)"
    using run by (auto simp: check_simps split: prod.splits)
  then show ?thesis by (rule append_keeps_sound [OF _ sound]) (use quiet Op_append in simp)
next
  case (Op_local_start i)
  then obtain out where "commit_local_start env i u = Inr (u', out)" using run by (auto simp: check_simps split: prod.splits)
  from local_start_reconciled [OF _ _ this] sound show ?thesis by (simp add: sound_db_def db_ok_def)
next
  case (Op_budgeted_start build i)
  then obtain out where "commit_budgeted_start env build i u = Inr (u', out)" using run by (auto simp: check_simps split: prod.splits)
  from budgeted_start_reconciled [OF _ this] sound show ?thesis by (simp add: sound_db_def)
next
  case (Op_finish open_ok i)
  then obtain out where "commit_attempt_finish env open_ok i u = Inr (u', out)" using run by (auto simp: check_simps split: prod.splits)
  from finish_keeps_sound [OF this sound] show ?thesis .
next
  case (Op_recovery_finish open_ok i)
  then obtain events out where "commit_attempt_finish env open_ok (i\<lparr>fi_events := events\<rparr>) u = Inr (u', out)"
    using run by (auto simp: commit_recovery_finish_def check_simps split: prod.splits)
  from finish_keeps_sound [OF this sound] show ?thesis .
qed (use run sound in \<open>auto simp: consume_start_receipt_def consume_finish_receipt_def check_simps split: prod.splits\<close>)

lemma unit_run_keeps_sound:
  assumes "unit_run env u ops = Inr u'" "sound_db env (un_db u)" "list_all leaves_attempts ops"
  shows "sound_db env (un_db u')"
  using assms
proof (induction ops arbitrary: u)
  case Nil
  then show ?case by simp
next
  case (Cons op ops)
  then obtain v where "apply_unit_op env u op = Inr v" "unit_run env v ops = Inr u'" by (auto simp: bind_result_Inr)
  with Cons apply_unit_op_keeps_sound show ?case by (auto simp del: apply_unit_op.simps)
qed

lemma sound_db_gate: "db_ok env db \<Longrightarrow> sound_db env db \<longleftrightarrow> assert_event_reconciled env db = Inr ()"
  by (simp add: sound_db_def reconciled_iff)

end
