(* ===== verification/SampleHistory.thy ===== *)
theory SampleHistory
  imports UnitOperations SampleRoutes StoreHistories SampleSession
begin

text \<open>
  A concrete history for the witnesses: a simulated Hybrid session whose first attempt is local and
  free, and whose second is admitted by the checkpoint router and reserved in the ledger. Nothing here
  models code.
\<close>

definition history_policy :: policy_v2 where
  "history_policy = route_policy\<lparr>p2_routingPolicy := Hybrid_simulation_v1, p2_egressConsent := Consent_none,
     p2_simulationConsent := Some Simulation_cloud_synthesis_v1\<rparr>"

definition history_created :: created_payload where
  "history_created = \<lparr>cr_title = ''t'', cr_objective = ''o'', cr_workspaceRoot = ''/w'', cr_profile = Balanced,
     cr_taskTrack = Some Change_review_v1,
     cr_completionObligations =
       Some \<lparr>ob_requiredSuccessfulTools = [''inspect_git_changes''], ob_minimumVerifiedPathLineCitations = 0\<rparr>,
     cr_executionPolicy = Some (Policy_v2 history_policy), cr_hybridSimulation = Some sample_authority\<rparr>"

definition history_env :: store_env where
  "history_env = \<lparr>se_replay = sample_env
     \<lparr>env_json_parse := (\<lambda>_. Some (JObject [(''evidenceMap'', JNull), (''ok'', JBool True),
        (''schemaVersion'', JNumber 1), (''snapshot'', JNull)])),
      env_inspect_request_ok := (\<lambda>_. True), env_inspect_result_ok := (\<lambda>_. True)\<rparr>,
     se_reviews = \<lparr>review_result_ok = (\<lambda>_. True), review_coverage_ok = (\<lambda>_. True)\<rparr>\<rparr>"

definition history_input :: "routing_boundary \<Rightarrow> router_provider \<Rightarrow> health_snapshot list \<Rightarrow> pricing_snapshot option \<Rightarrow> router_input" where
  "history_input boundary target health pricing =
     \<lparr>ri_boundary = boundary, ri_asOf = sample_time, ri_providers = [route_cloud, route_local],
      ri_targetProviderId = rp_providerId target, ri_targetModel = rp_model target,
      ri_requiredCapabilities = [''chat_completions'', ''streaming''],
      ri_deadline = \<lparr>dl_deadlineAt = sample_deadline, dl_remainingMs = 600000, dl_attemptTimeoutMs = 60000,
        dl_requiredRemainingMs = 60000, dl_sufficient = True\<rparr>,
      ri_healthSnapshots = health, ri_pricingSnapshot = pricing\<rparr>"

definition history_start :: routing_decision where
  "history_start = simulated_start_decision
     \<lparr>rd_routerInputSnapshot := Some (history_input Session_start route_local
        [route_health ''h1'' ''local'' ''lm''] None)\<rparr>"

definition history_cloud :: "billing \<Rightarrow> routing_decision" where
  "history_cloud b = simulated_cloud_decision
     \<lparr>rd_triggerFacts :=
        [\<lparr>tf_key = ''router_evidence_ready'', tf_value = JBool True\<rparr>,
         \<lparr>tf_key = ''router_successful_investigation_attempt_count'', tf_value = JNumber 1\<rparr>],
      rd_routerInputSnapshot := Some (history_input Evidence_complete route_cloud
        [route_health ''h'' ''cloud'' ''cm'', route_health ''h2'' ''local'' ''lm'']
        (Some (route_pricing\<lparr>ps_snapshotId := ''p''\<rparr>))),
      rd_billing := Some b, rd_packetSha256 := Some sample_sha, rd_messagesSha256 := Some sample_sha,
      rd_provenanceSemanticSha256 := Some sample_sha\<rparr>"

definition history_attempt :: "routing_decision \<Rightarrow> int \<Rightarrow> string \<Rightarrow> string \<Rightarrow> string \<Rightarrow> bool \<Rightarrow>
    compilation_reason \<Rightarrow> compilation_mode \<Rightarrow> session_event_data list" where
  "history_attempt d n m c a tools reason mode = map stored_data
     [sample_assistant d m c a, sample_context d m c a reason mode,
      (case sample_attempt d n m c a tools of
         InferenceAttemptStarted p \<Rightarrow> InferenceAttemptStarted
           (p\<lparr>at_allowedToolNames := if tools then Some [''inspect_git_changes''] else None\<rparr>)
       | e \<Rightarrow> e)]"

definition history_admission :: session_event_data where
  "history_admission = CloudEgressAdmissionRecorded
     \<lparr>ea_admissionId = ''ad'', ea_decision = Egress_pass, ea_reasonCodes = [],
      ea_messagesSemanticSha256 = sample_sha, ea_provenanceSemanticSha256 = sample_sha,
      ea_checkpointId = ''s:context:2'', ea_simulationAuthorityId = ''auth'',
      ea_evaluatedAt = sample_time\<rparr>"

definition history_paid :: "routing_decision \<Rightarrow> session_event_data list" where
  "history_paid d = [history_admission, RoutingDecisionRecorded d, sample_route d] @
     history_attempt d 2 ''m2'' ''s:context:2'' ''a2'' False Reason_finalization_boundary Finalization"

definition history_build :: "reservation_resolution \<Rightarrow> session_event_data list" where
  "history_build resolution = history_paid (history_cloud (resolution_billing resolution))"

definition any_state :: "session_state \<Rightarrow> bool" where
  "any_state s \<longleftrightarrow> True"

definition history_ops :: "unit_op list" where
  "history_ops =
     [Op_campaign \<lparr>ci_id = ''c'', ci_providerId = ''cloud'', ci_credentialMetadataId = ''k'',
        ci_openingExposure = 0, ci_automaticStop = 250000, ci_hardCeiling = 250000,
        ci_costScope = Rt_simulation, ci_createdAt = sample_time\<rparr>,
      Op_session ''s'' history_created sample_time ''e1'' ''e2'',
      Op_local_start \<lparr>ls_sessionId = ''s'', ls_expectedSequence = 2, ls_createdAt = sample_time,
        ls_eventIds = [''e3'', ''e4'', ''e5'', ''e6'', ''e7'', ''e8''],
        ls_events =
          [SessionStarted \<lparr>sp_startedAt = Some sample_time, sp_deadlineAt = Some sample_deadline\<rparr>,
           RoutingDecisionRecorded history_start, sample_route history_start] @
          history_attempt history_start 1 ''m1'' ''s:context:1'' ''a1'' True Reason_session_start Working,
        ls_costScope = Rt_simulation, ls_cloudEgressAdmissionId = None\<rparr>,
      Op_consume_start 0,
      Op_finish any_state \<lparr>fi_sessionId = ''s'', fi_expectedSequence = 8, fi_createdAt = sample_time,
        fi_eventIds = [''e9'', ''e10''],
        fi_events = [sample_answer ''m1'' ''a1'' ''tool_calls'',
          sample_finish ''s:context:1'' ''a1'' ''lm'' ''tool_calls'' (sample_local_cost Rt_simulation)],
        fi_terminalLedgerEntryId = None\<rparr>,
      Op_append ''s''
        [ToolCallRequested \<lparr>tq_toolCallId = ''t1'', tq_name = ''inspect_git_changes'', tq_arguments = JObject [],
           tq_messageId = None\<rparr>,
         ToolCallCompleted \<lparr>td_toolCallId = ''t1'', td_name = ''inspect_git_changes'', td_content = ''ok'',
           td_isError = False, td_durationMs = None\<rparr>]
        [''e11'', ''e12''] sample_time (Some 10),
      Op_budgeted_start
        history_build
        \<lparr>bs_sessionId = ''s'', bs_expectedSequence = 12, bs_createdAt = sample_time,
         bs_admittedIds = [''e13'', ''e14'', ''e15'', ''e16'', ''e17'', ''e18''],
         bs_deniedIds = [''f1'', ''f2'', ''f3'', ''f4'', ''f5''],
         bs_campaignId = ''c'', bs_reservationId = ''r1'', bs_attemptId = ''a2'', bs_providerId = ''cloud'',
         bs_pricingSnapshotId = ''p'', bs_costScope = Rt_simulation, bs_cloudEgressAdmissionId = Some ''ad'',
         bs_projection = \<lparr>bp_billableInputTokens = 500, bp_billableCacheReadTokens = 0,
           bp_requestedMaxOutputTokens = 500, bp_inputRate = 100, bp_outputRate = 200,
           bp_cacheReadRate = Some 10, bp_providerFeeCeiling = 0\<rparr>\<rparr>,
      Op_consume_start 1,
      Op_finish any_state \<lparr>fi_sessionId = ''s'', fi_expectedSequence = 18, fi_createdAt = sample_time,
        fi_eventIds = [''e19'', ''e20'', ''e21''],
        fi_events = map stored_data [sample_answer ''m2'' ''a2'' ''stop'',
          sample_finish ''s:context:2'' ''a2'' ''cm'' ''stop''
            ((sample_cloud_cost Rt_simulation)\<lparr>co_amountMicrousd := 1\<rparr>),
          SessionFailed ''the review was not accepted''],
        fi_terminalLedgerEntryId = Some ''t1''\<rparr>]"

definition empty_unit :: unit_state where
  "empty_unit = \<lparr>un_db = empty_database, un_starts = [], un_finishes = []\<rparr>"




text \<open>The run up to the commit of the reserved attempt: both receipts are out, the first one
  consumed, the reservation is in the ledger and the session is running.\<close>

definition history_observed :: "unit_error + unit_state \<Rightarrow> bool" where
  "history_observed r = (case r of Inl e \<Rightarrow> False
     | Inr u \<Rightarrow> map snd (un_starts u) = [True, False] \<and> map lr_id (db_ledger (un_db u)) = [''c'', ''r1''] \<and>
         map (\<lambda>y. (sw_id y, sw_status y)) (db_sessions (un_db u)) = [(''s'', Running)])"

lemma history_observed: "history_observed (unit_run history_env empty_unit (take 7 history_ops))"
  by code_simp

end
