(* ===== verification/UnitProperties.thy ===== *)
theory UnitProperties
  imports AttemptHistories SampleHistory
begin

text \<open>
  The properties of the attempt unit of work over histories: the ledger and the log stay reconciled,
  and a receipt is the proof of what its transaction committed, once.
\<close>

section \<open>The receipts and the log of a history\<close>

definition receipts_kept :: "('p \<times> bool) list \<Rightarrow> ('p \<times> bool) list \<Rightarrow> bool" where
  "receipts_kept xs ys \<longleftrightarrow> length xs \<le> length ys \<and>
     (\<forall>n < length xs. fst (ys ! n) = fst (xs ! n) \<and> (snd (xs ! n) \<longrightarrow> snd (ys ! n)))"

lemma receipts_kept_refl [simp]: "receipts_kept xs xs"
  by (simp add: receipts_kept_def)

lemma receipts_kept_append [simp]: "receipts_kept xs (xs @ ys)"
  by (simp add: receipts_kept_def nth_append)

lemma receipts_kept_trans: "receipts_kept xs ys \<Longrightarrow> receipts_kept ys zs \<Longrightarrow> receipts_kept xs zs"
  by (auto simp: receipts_kept_def)

lemma consume_entry_kept: "consume_entry n xs = Inr (ys, p) \<Longrightarrow> receipts_kept xs ys"
  by (auto simp: consume_entry_def receipts_kept_def nth_list_update split: if_splits)

lemma consume_entry_twice:
  assumes "consume_entry n xs = Inr (ys, p)" "receipts_kept ys zs"
  shows "consume_entry n zs = Inl Receipt_not_fresh"
  using assms by (auto simp: consume_entry_def receipts_kept_def split: if_splits)

lemma consume_entry_last:
  assumes "receipts_kept (xs @ [(p, b)]) ys" "consume_entry (length xs) ys = Inr (zs, q)"
  shows "q = p"
  using assms by (auto simp: consume_entry_def receipts_kept_def split: if_splits dest: spec [of _ "length xs"])

lemma append_many_log: "append_many env sid events ids tm expected db = Inr (db', stored) \<Longrightarrow>
    db_events db' = db_events db @ stored"
  unfolding append_many_def by (auto simp: check_simps dest: append_internal_events)

definition unit_kept :: "unit_state \<Rightarrow> unit_state \<Rightarrow> bool" where
  "unit_kept u v \<longleftrightarrow> receipts_kept (un_starts u) (un_starts v) \<and> receipts_kept (un_finishes u) (un_finishes v) \<and>
     set (db_events (un_db u)) \<subseteq> set (db_events (un_db v))"

lemma insert_keeps_log: "insert_ledger_row db r = Inr db' \<Longrightarrow> db_events db' = db_events db"
  by (auto simp: insert_ledger_row_Inr)

lemma reserve_keeps_log:
  assumes "reserve i db = Inr (db', resolution)"
  shows "db_events db' = db_events db"
proof -
  obtain cost pos where "(let b = billing_snapshot (rq_projection i) cost pos in case denial_reason pos cost of
      Some reason \<Rightarrow> Inr (db, Refused reason b pos) | None \<Rightarrow> reserve_admitted i cost b pos db) = Inr (db', resolution)"
    using assms unfolding reserve_def guarded_Inr bind_result_Inr by blast
  then show ?thesis
    by (auto simp: Let_def reserve_admitted_def check_simps dest: insert_keeps_log split: option.splits)
qed

lemma resolve_keeps_log:
  assumes "resolve i db = Inr (db', terminal)"
  shows "db_events db' = db_events db"
proof -
  obtain r where "insert_ledger_row db (terminal_row i r) = Inr db'"
    using assms unfolding resolve_def guarded_Inr bind_result_Inr by (auto split: option.splits)
  then show ?thesis by (rule insert_keeps_log)
qed

lemma ensure_campaign_keeps_log: "ensure_campaign i db = Inr (db', c) \<Longrightarrow> db_events db' = db_events db"
  by (auto simp: ensure_campaign_def insert_campaign_def check_simps dest: insert_keeps_log split: option.splits)

lemma account_keeps_log:
  "account_finish i a f events db = Inr (db', terminal) \<Longrightarrow> db_events db' = db_events db"
  by (auto simp: account_finish_def resolve_attempt_budget_def check_simps
      split: option.splits if_splits dest!: resolve_keeps_log)

lemma commit_start_kept:
  assumes "commit_local_start env i u = Inr (v, out) \<or> commit_budgeted_start env build j u = Inr (v, out)"
  obtains p where "un_starts v = un_starts u @ [(p, False)]" "un_finishes v = un_finishes u"
    "db_events (un_db v) = db_events (un_db u) @ ms_events out" "ms_receipt out = length (un_starts u)"
    "sp_events p = ms_events out" "sp_committedAttemptId p = ms_attemptId out"
    "sp_committedProviderId p = ms_providerId out" "sp_resolution p = ms_resolution out"
    "ms_paidDispatchAuthorized out \<longleftrightarrow> holds (sp_resolution p) paid_dispatch_authorized"
  using assms
proof
  assume "commit_local_start env i u = Inr (v, out)"
  then show thesis
    using that unfolding commit_local_start_def append_atomic_events_def
    by (auto simp: check_simps local_proof_def dest!: append_many_log split: prod.splits)
next
  assume run: "commit_budgeted_start env build j u = Inr (v, out)"
  obtain stored a resolution where
    t: "budgeted_transaction env build j (un_db u) = Inr (un_db v, stored, a, resolution)"
    and v: "un_starts v = un_starts u @ [(budgeted_proof j a resolution stored, False)]" "un_finishes v = un_finishes u"
    and out: "ms_receipt out = length (un_starts u)" "ms_events out = stored" "ms_attemptId out = at_attemptId a"
      "ms_providerId out = at_providerId a" "ms_resolution out = Some resolution"
      "ms_paidDispatchAuthorized out = paid_dispatch_authorized resolution"
    using run by (auto simp: commit_budgeted_start_def check_simps split: prod.splits)
  obtain s c cap db1 events where "store_replay env (un_db u) (bs_sessionId j) = Inr s" "assert_event_reconciled env (un_db u) = Inr ()"
    "require_campaign (db_ledger (un_db u)) (bs_campaignId j) = Inr c" "v2_episode_cap s = Inr cap"
    and r: "reserve (budgeted_reserve_input j cap) (un_db u) = Inr (db1, resolution)"
    and "parse_batch (se_reviews env) (build resolution) = Inr events"
    "validate_budgeted_start_batch j resolution events (cam_credentialMetadataId c) = Inr a"
    and w: "append_atomic_events env (bs_sessionId j) (bs_expectedSequence j) (bs_createdAt j) events
       (if paid_dispatch_authorized resolution then bs_admittedIds j else bs_deniedIds j) db1 = Inr (un_db v, stored)"
    by (rule budgeted_transactionE [OF t])
  have "db_events (un_db v) = db_events (un_db u) @ stored"
    using append_many_log [of env "bs_sessionId j" events _ "bs_createdAt j" _ db1 "un_db v" stored] w reserve_keeps_log [OF r]
    by (auto simp: append_atomic_events_def check_simps)
  with that v out show thesis by (simp add: budgeted_proof_def)
qed

lemma commit_finish_kept:
  assumes "commit_attempt_finish env open_ok i u = Inr (v, out)"
  obtains p where "un_finishes v = un_finishes u @ [(p, False)]" "un_starts v = un_starts u"
    "db_events (un_db v) = db_events (un_db u) @ mf_events out" "mf_receipt out = length (un_finishes u)"
    "fp_events p = mf_events out" "fp_attemptId p = mf_attemptId out" "fp_terminal p = mf_terminal out"
proof -
  obtain events f stored attempt terminal where
    t: "finish_transaction env open_ok i f events (un_db u) = Inr (un_db v, stored, attempt, terminal)"
    and v: "un_finishes v = un_finishes u @ [(\<lparr>fp_sessionId = fi_sessionId i, fp_createdAt = fi_createdAt i,
        fp_attemptId = attempt, fp_terminal = terminal, fp_events = stored\<rparr>, False)]" "un_starts v = un_starts u"
    and out: "out = \<lparr>mf_events = stored, mf_attemptId = attempt, mf_terminal = terminal,
        mf_receipt = length (un_finishes u)\<rparr>"
    using assms by (auto simp: commit_attempt_finish_def check_simps split: prod.splits)
  obtain s a db1 where "store_replay env (un_db u) (fi_sessionId i) = Inr s" "st_lastSequence s = fi_expectedSequence i" "open_ok s"
    "find (\<lambda>a. at_attemptId (attempt_of a) = fin_attemptId f) (st_inferenceAttempts s) = Some a" "ar_finished a = None"
    and r: "account_finish i (attempt_of a) f events (un_db u) = Inr (db1, terminal)"
    and w: "append_atomic_events env (fi_sessionId i) (fi_expectedSequence i) (fi_createdAt i) events (fi_eventIds i) db1 =
       Inr (un_db v, stored)" and "attempt = at_attemptId (attempt_of a)"
    by (rule finish_transactionE [OF t])
  have "db_events (un_db v) = db_events (un_db u) @ stored"
    using w append_many_log account_keeps_log [OF r] by (auto simp: append_atomic_events_def check_simps)
  with that v out show thesis by simp
qed

lemma apply_unit_op_kept:
  assumes "apply_unit_op env u op = Inr v"
  shows "unit_kept u v"
proof (cases op)
  case (Op_local_start i)
  then obtain out where "commit_local_start env i u = Inr (v, out)" using assms by (auto simp: check_simps)
  then show ?thesis by (auto simp: unit_kept_def elim!: commit_start_kept [OF disjI1])
next
  case (Op_budgeted_start build i)
  then obtain out where "commit_budgeted_start env build i u = Inr (v, out)" using assms by (auto simp: check_simps)
  then show ?thesis by (auto simp: unit_kept_def elim!: commit_start_kept [OF disjI2])
next
  case (Op_finish open_ok i)
  then obtain out where "commit_attempt_finish env open_ok i u = Inr (v, out)" using assms by (auto simp: check_simps)
  then show ?thesis by (auto simp: unit_kept_def elim!: commit_finish_kept)
next
  case (Op_recovery_finish open_ok i)
  then obtain events out where "commit_attempt_finish env open_ok (i\<lparr>fi_events := events\<rparr>) u = Inr (v, out)"
    using assms by (auto simp: commit_recovery_finish_def check_simps)
  then show ?thesis by (auto simp: unit_kept_def elim!: commit_finish_kept)
qed (use assms in \<open>auto simp: unit_kept_def check_simps consume_start_receipt_def consume_finish_receipt_def
    create_session_def append_many_def dest: append_internal_events ensure_campaign_keeps_log consume_entry_kept split: prod.splits\<close>)

lemma unit_run_kept: "unit_run env u ops = Inr v \<Longrightarrow> unit_kept u v"
proof (rule unit_history.run_relation [where R = unit_kept])
  show "unit_kept a c" if "unit_kept a b" "unit_kept b c" for a b c
    using that unfolding unit_kept_def by (meson receipts_kept_trans subset_trans)
  show "unit_kept w w" for w by (simp add: unit_kept_def)
qed (rule apply_unit_op_kept)

section \<open>The concrete history\<close>

lemma empty_unit_ok: "db_ok env (un_db empty_unit)" "assert_event_reconciled env (un_db empty_unit) = Inr ()"
proof -
  show ok: "db_ok env (un_db empty_unit)"
    by (simp add: db_ok_def empty_unit_def store_ok_empty) (simp add: empty_database_def)
  show "assert_event_reconciled env (un_db empty_unit) = Inr ()"
    using reconciled_iff [OF ok] by (simp add: reconciled_def empty_unit_def empty_database_def)
qed

lemma history_leaves_attempts: "list_all leaves_attempts history_ops"
  by (simp add: history_ops_def)

lemma list_all_take: "list_all P xs \<Longrightarrow> list_all P (take n xs)"
  by (auto simp: list_all_iff dest: in_set_takeD)

lemma history_split: "take 7 history_ops = take 6 history_ops @ [history_ops ! 6]"
  by (simp add: history_ops_def)

lemma history_reached:
  obtains u j v out where "unit_run history_env empty_unit (take 6 history_ops) = Inr u"
    "history_ops ! 6 = Op_budgeted_start history_build j"
    "commit_budgeted_start history_env history_build j u = Inr (v, out)"
    "unit_run history_env empty_unit (take 7 history_ops) = Inr v" "map snd (un_starts v) = [True, False]"
    "map lr_id (db_ledger (un_db v)) = [''c'', ''r1'']"
    "map (\<lambda>y. (sw_id y, sw_status y)) (db_sessions (un_db v)) = [(''s'', Running)]"
proof -
  obtain v where v: "unit_run history_env empty_unit (take 7 history_ops) = Inr v" "map snd (un_starts v) = [True, False]"
    "map lr_id (db_ledger (un_db v)) = [''c'', ''r1'']"
    "map (\<lambda>y. (sw_id y, sw_status y)) (db_sessions (un_db v)) = [(''s'', Running)]"
    using history_observed by (auto simp: history_observed_def split: sum.splits)
  obtain u where u: "unit_run history_env empty_unit (take 6 history_ops) = Inr u"
    "apply_unit_op history_env u (history_ops ! 6) = Inr v"
    using v(1) unfolding history_split unit_history.run_snoc bind_result_Inr by blast
  obtain j where j: "history_ops ! 6 = Op_budgeted_start history_build j" by (simp add: history_ops_def)
  with u(2) obtain out where "commit_budgeted_start history_env history_build j u = Inr (v, out)"
    by (auto simp: check_simps)
  from that [OF u(1) j this v] show thesis .
qed

section \<open>The properties\<close>

text \<open>C5. The ledger and the event log never drift apart: from a reconciled database, every history
  of campaigns, sessions, appends, starts, finishes, recoveries and consumed receipts in which
  attempts start and finish through the unit of work ends in a database that the reconciliation gate
  accepts.\<close>

theorem unit_keeps_reconciled:
  assumes "db_ok env (un_db u)" "assert_event_reconciled env (un_db u) = Inr ()"
    and "unit_run env u ops = Inr u'" "list_all leaves_attempts ops"
  shows "db_ok env (un_db u') \<and> assert_event_reconciled env (un_db u') = Inr ()"
proof -
  have "sound_db env (un_db u)" using sound_db_gate [OF assms(1)] assms(2) by simp
  then have s: "sound_db env (un_db u')" by (rule unit_run_keeps_sound [OF assms(3) _ assms(4)])
  then have "db_ok env (un_db u')" by (simp add: sound_db_def)
  with s sound_db_gate show ?thesis by blast
qed

theorem unit_keeps_reconciled_witness:
  "\<exists>u. unit_run history_env empty_unit (take 7 history_ops) = Inr u \<and>
     map lr_id (db_ledger (un_db u)) = [''c'', ''r1''] \<and> assert_event_reconciled history_env (un_db u) = Inr ()"
proof -
  obtain v where v: "unit_run history_env empty_unit (take 7 history_ops) = Inr v"
    "map lr_id (db_ledger (un_db v)) = [''c'', ''r1'']"
    by (rule history_reached)
  note ok = unit_keeps_reconciled [OF empty_unit_ok v(1) list_all_take [OF history_leaves_attempts]]
  show ?thesis by (intro exI [of _ v] conjI v conjunct2 [OF ok])
qed

text \<open>C27. A start receipt is authentic and single-use: the proof it is exchanged for, however much
  later, names the events that its own transaction committed, all of them in the log, with the
  attempt and the paid authority of that commit, and no later exchange of the same receipt succeeds.\<close>

theorem start_receipt_proves_once:
  assumes "commit_local_start env i u = Inr (v, out) \<or> commit_budgeted_start env build j u = Inr (v, out)"
    and "unit_run env v ops = Inr w" and "consume_start_receipt (ms_receipt out) w = Inr (x, p)"
  shows "sp_events p = ms_events out \<and> set (sp_events p) \<subseteq> set (db_events (un_db x)) \<and>
    sp_committedAttemptId p = ms_attemptId out \<and>
    (ms_paidDispatchAuthorized out \<longleftrightarrow> holds (sp_resolution p) paid_dispatch_authorized) \<and>
    (\<forall>later y. unit_run env x later = Inr y \<longrightarrow> consume_start_receipt (ms_receipt out) y = Inl Receipt_not_fresh)"
proof -
  obtain q where q: "un_starts v = un_starts u @ [(q, False)]"
    "db_events (un_db v) = db_events (un_db u) @ ms_events out" "ms_receipt out = length (un_starts u)"
    "sp_events q = ms_events out" "sp_committedAttemptId q = ms_attemptId out"
    "ms_paidDispatchAuthorized out \<longleftrightarrow> holds (sp_resolution q) paid_dispatch_authorized"
    by (rule commit_start_kept [OF assms(1)])
  obtain entries where c: "consume_entry (ms_receipt out) (un_starts w) = Inr (entries, p)"
    "x = w\<lparr>un_starts := entries\<rparr>"
    using assms(3) by (auto simp: consume_start_receipt_def check_simps)
  note vw = unit_run_kept [OF assms(2)]
  have "p = q"
    by (rule consume_entry_last [of "un_starts u" q False]) (use vw q(1,3) c(1) in \<open>simp_all add: unit_kept_def\<close>)
  moreover have "consume_start_receipt (ms_receipt out) y = Inl Receipt_not_fresh" if "unit_run env x later = Inr y" for later y
    using consume_entry_twice [OF c(1)] unit_run_kept [OF that] c(2)
    by (simp add: consume_start_receipt_def unit_kept_def)
  ultimately show ?thesis using q vw c(2) by (auto simp: unit_kept_def)
qed

theorem start_receipt_proves_once_witness:
  "\<exists>u x p. unit_run history_env empty_unit (take 7 history_ops) = Inr u \<and>
     consume_start_receipt 1 u = Inr (x, p) \<and> consume_start_receipt 1 x = Inl Receipt_not_fresh"
proof -
  obtain u j v out where r: "commit_budgeted_start history_env history_build j u = Inr (v, out)"
    "unit_run history_env empty_unit (take 7 history_ops) = Inr v" "map snd (un_starts v) = [True, False]"
    by (rule history_reached)
  obtain q where q: "un_starts v = un_starts u @ [(q, False)]" "ms_receipt out = length (un_starts u)"
    by (rule commit_start_kept [OF disjI2 [OF r(1)]])
  have n: "ms_receipt out = 1" using arg_cong [OF r(3), of length] q by simp
  obtain x p where c: "consume_start_receipt (ms_receipt out) v = Inr (x, p)"
    using q by (simp add: consume_start_receipt_def consume_entry_def)
  have "consume_start_receipt (ms_receipt out) x = Inl Receipt_not_fresh"
    using start_receipt_proves_once [OF disjI2 [OF r(1)] _ c, of "[]"] unit_run.simps(1) by blast
  with r(2) c show ?thesis unfolding n by blast
qed

end
