(* ===== verification/Recovery.thy ===== *)
theory Recovery
  imports AttemptUnit
begin

text \<open>
  \<open>main/recovery.ts\<close>: at startup every session that is still running is brought to a terminal state. An
  open attempt is finished as interrupted with an unknown disposition (which settles its reservation in
  full), a pending tool call is completed with an error, and the session is interrupted, or cancelled
  when its last attempt was. The clock, the fresh identities and the reason are arguments.
\<close>

section \<open>The record of a recovered session\<close>

record recovery_env =
  rv_store :: store_env
  rv_recoveredAt :: "string \<Rightarrow> string"
  rv_reason :: "string option"
  rv_freshId :: "string \<Rightarrow> nat \<Rightarrow> string"

record recovered_session =
  rd_session :: session_row
  rd_event :: stored_event
  rd_attemptEvent :: "stored_event option"
  rd_toolEvent :: "stored_event option"

datatype recovery_error =
    Multiple_open_attempts | Multiple_pending_tools | Attempt_and_tool_open | Attempt_without_billing
  | No_terminal_event | No_progress
  | Recovery_store store_error
  | Recovery_attempt unit_error
  | Recovery_ledger ledger_error

fun is_sequence_conflict :: "recovery_error \<Rightarrow> bool" where
  "is_sequence_conflict (Recovery_store (Sequence_conflict e a)) = True"
| "is_sequence_conflict (Recovery_attempt (Unit_store (Sequence_conflict e a))) = True"
| "is_sequence_conflict _ = False"

section \<open>The events of a recovery\<close>

text \<open>\<open>JSON.stringify\<close> of a string of 8-bit characters.\<close>

definition hex_digit :: "nat \<Rightarrow> char" where
  "hex_digit n = char_of (if n < 10 then 48 + n else 87 + n)"

definition json_char :: "char \<Rightarrow> string" where
  "json_char c = (let n = of_char c :: nat in
     if n = 34 then [CHR 0x5C, CHR 0x22]
     else if n = 92 then [CHR 0x5C, CHR 0x5C]
     else if n = 8 then CHR 0x5C # ''b''
     else if n = 12 then CHR 0x5C # ''f''
     else if n = 10 then CHR 0x5C # ''n''
     else if n = 13 then CHR 0x5C # ''r''
     else if n = 9 then CHR 0x5C # ''t''
     else if n < 32 then (CHR 0x5C # ''u00'') @ [hex_digit (n div 16), hex_digit (n mod 16)]
     else [c])"

definition json_quote :: "string \<Rightarrow> string" where
  "json_quote s = [CHR 0x22] @ concat (map json_char s) @ [CHR 0x22]"

definition tool_recovery_content :: "string \<Rightarrow> string" where
  "tool_recovery_content reason =
     ''{'' @ json_quote ''ok'' @ '':false,'' @ json_quote ''error'' @ '':{'' @ json_quote ''code'' @ '':'' @
     json_quote ''startup_recovery'' @ '','' @ json_quote ''message'' @ '':'' @ json_quote reason @ ''}}''"

definition default_recovery_reason :: string where
  "default_recovery_reason = ''The application stopped before this session reached a terminal state.''"

definition interrupted_cost :: "routing_decision option \<Rightarrow> attempt_start \<Rightarrow> attempt_cost" where
  "interrupted_cost decision a = (case at_budgetReservationId a of
       None \<Rightarrow> \<lparr>co_amountMicrousd = 0, co_provenance = Local_zero_cost_policy, co_reservationId = None,
                co_costScope = at_costScope a\<rparr>
     | Some reservation \<Rightarrow>
         \<lparr>co_amountMicrousd =
            (case Option.bind decision rd_billing of None \<Rightarrow> 0 | Some b \<Rightarrow> bl_projectedCostMicrousd b),
          co_provenance = Reserved_unknown, co_reservationId = Some reservation, co_costScope = at_costScope a\<rparr>)"

text \<open>A latency that is \<open>NaN\<close> fails the schema when the batch is parsed.\<close>

definition interrupted_attempt_event ::
  "session_state \<Rightarrow> attempt_record \<Rightarrow> string \<Rightarrow> recovery_error + session_event_data" where
  "interrupted_attempt_event s a recoveredAt = (let decision = find_decision s (at_decisionId (attempt_of a)) in
     guarded (throw_if (at_budgetReservationId (attempt_of a) \<noteq> None \<and> Option.bind decision rd_billing = None)
         Attempt_without_billing)
       (case (date_parse recoveredAt, date_parse (rec_createdAt (ar_start a))) of
          (Some t1, Some t0) \<Rightarrow> Inr (InferenceAttemptFinished
            \<lparr>fin_attemptId = at_attemptId (attempt_of a), fin_checkpointId = at_checkpointId (attempt_of a),
             fin_outcome = Attempt_interrupted, fin_requestDisposition = Unknown, fin_finishReason = None,
             fin_servedModel = None,
             fin_usage = \<lparr>au_inputTokens = 0, au_outputTokens = 0, au_reasoningTokens = 0,
               au_cacheReadTokens = None, au_reported = False\<rparr>,
             fin_cost = interrupted_cost decision (attempt_of a), fin_latencyMs = of_int (max 0 (t1 - t0)),
             fin_ttftMs = None, fin_errorCode = Some ''startup_recovery'', fin_responseBodySha256 = None,
             fin_reviewResultSha256 = None\<rparr>)
        | _ \<Rightarrow> Inl (Recovery_attempt Batch_event_invalid)))"

definition tool_recovery_event :: "string \<Rightarrow> tool_call \<Rightarrow> session_event_data" where
  "tool_recovery_event reason t = ToolCallCompleted
     \<lparr>td_toolCallId = tc_id t, td_name = tc_name t, td_content = tool_recovery_content reason,
      td_isError = True, td_durationMs = Some 0\<rparr>"

definition terminal_recovery_event :: "session_state \<Rightarrow> string \<Rightarrow> session_event_data" where
  "terminal_recovery_event s reason =
     (if latest_outcome s = Some Attempt_cancelled then SessionCancelled (Some reason) else SessionInterrupted reason)"

definition pending_tool_calls :: "session_state \<Rightarrow> tool_call list" where
  "pending_tool_calls s = filter pending_tool (all_tool_calls s)"

fun single_of :: "recovery_error \<Rightarrow> 'a list \<Rightarrow> recovery_error + 'a option" where
  "single_of err [] = Inr None"
| "single_of err [x] = Inr (Some x)"
| "single_of err (x # y # zs) = Inl err"

definition recovery_events ::
  "recovery_env \<Rightarrow> session_state \<Rightarrow> recovery_error + attempt_record option \<times> tool_call option \<times> session_event_data list" where
  "recovery_events env s = (let reason = coalesce (rv_reason env) default_recovery_reason in
     bind_result (single_of Multiple_open_attempts (open_inference_attempts s)) (\<lambda>attempt.
     bind_result (single_of Multiple_pending_tools (pending_tool_calls s)) (\<lambda>tool.
     guarded (throw_if (attempt \<noteq> None \<and> tool \<noteq> None) Attempt_and_tool_open)
    (bind_result (case attempt of
         None \<Rightarrow> Inr []
       | Some a \<Rightarrow> bind_result (interrupted_attempt_event s a (rv_recoveredAt env (st_id s))) (\<lambda>e. Inr [e])) (\<lambda>finish.
       Inr (attempt, tool, finish @ (case tool of None \<Rightarrow> [] | Some t \<Rightarrow> [tool_recovery_event reason t]) @
         [terminal_recovery_event s reason]))))))"

section \<open>One session\<close>

definition drawn_ids :: "recovery_env \<Rightarrow> string \<Rightarrow> nat \<Rightarrow> string list" where
  "drawn_ids env sid n = map (rv_freshId env sid) [0..<n]"

definition commit_recovery ::
  "recovery_env \<Rightarrow> session_row \<Rightarrow> attempt_record option \<Rightarrow> session_event_data list \<Rightarrow> unit_state
     \<Rightarrow> recovery_error + unit_state \<times> stored_event list" where
  "commit_recovery env row attempt events u = (let sid = sw_id row; ids = drawn_ids env sid (length events) in
     case attempt of
       None \<Rightarrow> bind_result (map_error Recovery_store (append_many (rv_store env) sid events ids
           (rv_recoveredAt env sid) (Some (sw_lastSequence row)) (un_db u))) (\<lambda>(db, stored).
         Inr (u\<lparr>un_db := db\<rparr>, stored))
     | Some a \<Rightarrow> bind_result (map_error Recovery_attempt (commit_recovery_finish (rv_store env) (\<lambda>_. True)
           \<lparr>fi_sessionId = sid, fi_expectedSequence = sw_lastSequence row, fi_createdAt = rv_recoveredAt env sid,
            fi_eventIds = ids, fi_events = events,
            fi_terminalLedgerEntryId = map_option (\<lambda>_. rv_freshId env sid (length events))
              (at_budgetReservationId (attempt_of a))\<rparr> u)) (\<lambda>(u', committed).
         Inr (u', mf_events committed)))"

definition recover_session ::
  "recovery_env \<Rightarrow> session_row \<Rightarrow> unit_state \<Rightarrow> recovery_error + unit_state \<times> recovered_session" where
  "recover_session env row u =
     bind_result (map_error Recovery_store (store_replay (rv_store env) (un_db u) (sw_id row))) (\<lambda>s.
     bind_result (recovery_events env s) (\<lambda>(attempt, tool, events).
     bind_result (commit_recovery env row attempt events u) (\<lambda>(u', appended).
     case at_last appended of
       None \<Rightarrow> Inl No_terminal_event
     | Some e \<Rightarrow>
         bind_result (map_error Recovery_store (require_session (un_db u') (sw_id row))) (\<lambda>session.
           Inr (u', \<lparr>rd_session = session, rd_event = e,
             rd_attemptEvent = (if attempt = None then None else Some (hd appended)),
             rd_toolEvent = (if tool = None then None else Some (last (butlast appended)))\<rparr>)))))"

section \<open>The loop\<close>

text \<open>One pass over a page. A sequence conflict counts as progress when the session is no longer running;
  an error after a commit keeps what was committed, so the state is beside the result.\<close>

fun recover_page ::
  "recovery_env \<Rightarrow> session_row list \<Rightarrow> unit_state \<times> recovered_session list \<times> nat
     \<Rightarrow> unit_state \<times> (recovery_error + recovered_session list \<times> nat)" where
  "recover_page env [] (u, recovered, removed) = (u, Inr (recovered, removed))"
| "recover_page env (row # rows) (u, recovered, removed) =
     (case recover_session env row u of
        Inr (u', r) \<Rightarrow> recover_page env rows (u', recovered @ [r], removed + 1)
      | Inl err \<Rightarrow>
          if \<not> is_sequence_conflict err then (u, Inl err)
          else case require_session (un_db u) (sw_id row) of
              Inl e \<Rightarrow> (u, Inl (Recovery_store e))
            | Inr session \<Rightarrow>
                if sw_status session \<noteq> Running then recover_page env rows (u, recovered, removed + 1)
                else (u, Inl err))"

definition running_page :: "unit_state \<Rightarrow> session_row list" where
  "running_page u = list_sessions (un_db u) (Some Running) (Some 1000)"

partial_function (option) recover_loop ::
  "recovery_env \<Rightarrow> unit_state \<Rightarrow> recovered_session list
     \<Rightarrow> (unit_state \<times> (recovery_error + recovered_session list)) option" where
  "recover_loop env u recovered =
     (if running_page u = [] then Some (u, Inr recovered)
      else case recover_page env (running_page u) (u, recovered, 0) of
          (u', Inl err) \<Rightarrow> Some (u', Inl err)
        | (u', Inr (recovered', removed)) \<Rightarrow>
            if removed = 0 then Some (u', Inl No_progress) else recover_loop env u' recovered')"

definition recover_running_sessions ::
  "recovery_env \<Rightarrow> unit_state \<Rightarrow> (unit_state \<times> (recovery_error + recovered_session list)) option" where
  "recover_running_sessions env u =
     (case recover_loop env u [] of
        None \<Rightarrow> None
      | Some (u', Inl err) \<Rightarrow> Some (u', Inl err)
      | Some (u', Inr recovered) \<Rightarrow>
          Some (u', bind_result (map_error Recovery_ledger (assert_event_reconciled (rv_store env) (un_db u')))
            (\<lambda>_. Inr recovered)))"

end
