(* ===== verification/RecoveryFacts.thy ===== *)
theory RecoveryFacts
  imports Recovery AttemptHistories
begin

text \<open>
  What one recovered session does to the database, what a page does, and why the loop ends: every
  page takes all of its sessions out of the running ones.
\<close>

section \<open>Running sessions\<close>

definition running_ids :: "database \<Rightarrow> string set" where
  "running_ids db = sw_id ` {y \<in> set (db_sessions db). sw_status y = Running}"

lemma finite_running [simp]: "finite (running_ids db)"
  by (simp add: running_ids_def)

lemma row_status: "store_ok env db \<Longrightarrow> y \<in> set (db_sessions db) \<Longrightarrow> sw_status y = st_status (sw_state y)"
  using row_of_state(2) [of env db y] by (metis projection_parameters_simps(4))

lemma running_page_set:
  assumes "row \<in> set (running_page u)"
  shows "row \<in> set (db_sessions (un_db u))" "sw_status row = Running" "sw_id row \<in> running_ids (un_db u)"
  using assms set_take_subset
  by (fastforce simp: running_page_def list_sessions_def running_ids_def Let_def dest: in_set_takeD)+

lemma running_page_Nil:
  assumes "running_page u = []"
  shows "running_ids (un_db u) = {}"
proof -
  let ?rows = "rev (sort_key sw_updatedAt (rev (filter (\<lambda>r. sw_status r = Running) (db_sessions (un_db u)))))"
  have "take 1000 ?rows = []" using assms by (simp add: running_page_def list_sessions_def eq_commute)
  then have "?rows = []" by (simp only: take_eq_Nil) simp
  then have "filter (\<lambda>r. sw_status r = Running) (db_sessions (un_db u)) = []"
    by (metis (no_types, lifting) Nil_is_rev_conv length_0_conv length_rev length_sort)
  then show ?thesis by (auto simp: running_ids_def filter_empty_conv)
qed

section \<open>One session\<close>

lemma account_finish_db:
  assumes "account_finish i a f events db = Inr (db1, t)" "ledger_ok (db_ledger db)"
  obtains new where "db1 = db\<lparr>db_ledger := db_ledger db @ new\<rparr>"
proof (cases "at_budgetReservationId a")
  case None
  then have "db1 = db" using assms(1) by (auto simp: account_finish_def check_simps)
  with that [of "[]"] show thesis by simp
next
  case (Some j)
  then obtain entry t' where "resolve_attempt_budget i entry j a f events db = Inr (db1, t')"
    using assms(1) by (auto simp: account_finish_def check_simps split: option.splits)
  then obtain inp where "resolve inp db = Inr (db1, t')" by (rule resolve_attempt_budgetE)
  then obtain r where "db1 = db\<lparr>db_ledger := db_ledger db @ [terminal_row inp r]\<rparr>"
    by (rule resolveE [OF _ assms(2)])
  with that show thesis by blast
qed

lemma recovery_finish_commits:
  assumes run: "commit_recovery_finish env open_ok i u = Inr (u', out)"
    and ok: "db_ok env (un_db u)" and sid: "js_trim (fi_sessionId i) = fi_sessionId i"
  obtains new where "commits env (fi_sessionId i) new (mf_events out) (un_db u) (un_db u')"
    "holds (at_last (map event_type (mf_events out))) (\<lambda>t. t = T_session_interrupted)"
proof -
  obtain events0 where b: "parse_batch (se_reviews env) (fi_events i) = Inr events0"
    "holds (at_last events0) (\<lambda>e. event_data_type e = T_session_interrupted)"
    "commit_attempt_finish env open_ok (i\<lparr>fi_events := events0\<rparr>) u = Inr (u', out)"
    using run by (auto simp: commit_recovery_finish_def check_simps recovery_shape_def)
  obtain events f aid t where c: "parse_batch (se_reviews env) events0 = Inr events"
    "finish_transaction env open_ok (i\<lparr>fi_events := events0\<rparr>) f events (un_db u) = Inr (un_db u', mf_events out, aid, t)"
    using b(3) by (auto simp: commit_attempt_finish_def check_simps split: prod.splits)
  obtain s a db1 where "store_replay env (un_db u) (fi_sessionId (i\<lparr>fi_events := events0\<rparr>)) = Inr s"
    "st_lastSequence s = fi_expectedSequence (i\<lparr>fi_events := events0\<rparr>)" "open_ok s"
    "find (\<lambda>a. at_attemptId (attempt_of a) = fin_attemptId f) (st_inferenceAttempts s) = Some a"
    "ar_finished a = None" "aid = at_attemptId (attempt_of a)"
    and t: "account_finish (i\<lparr>fi_events := events0\<rparr>) (attempt_of a) f events (un_db u) = Inr (db1, t)"
    "append_atomic_events env (fi_sessionId (i\<lparr>fi_events := events0\<rparr>)) (fi_expectedSequence (i\<lparr>fi_events := events0\<rparr>))
       (fi_createdAt (i\<lparr>fi_events := events0\<rparr>)) events (fi_eventIds (i\<lparr>fi_events := events0\<rparr>)) db1 =
       Inr (un_db u', mf_events out)"
    by (rule finish_transactionE [OF c(2)])
  have ok': "store_ok env (un_db u)" "ledger_ok (db_ledger (un_db u))" using ok by (simp_all add: db_ok_def)
  obtain new where db1: "db1 = un_db u\<lparr>db_ledger := db_ledger (un_db u) @ new\<rparr>"
    by (rule account_finish_db [OF t(1) ok'(2)])
  have "store_ok env db1" using ok'(1) by (simp add: db1 store_ok_ledger)
  note com = append_atomic_commits [OF t(2) this c(1)]
  have "commits env (fi_sessionId i) new (mf_events out) (un_db u) (un_db u')"
    using com(1) sid by (simp add: db1 commits_ledger)
  moreover have "map event_data_type events = map event_data_type events0"
    using c(1) parse_events_fixed by (auto simp: parse_batch_def check_simps)
  then have "map event_type (mf_events out) = map event_data_type events0"
    using arg_cong [OF com(2), of "map event_data_type"] by (simp add: event_type_def [abs_def] comp_def)
  then have "holds (at_last (map event_type (mf_events out))) (\<lambda>t. t = T_session_interrupted)"
    using b(2) by (cases events0 rule: rev_cases) simp_all
  ultimately show thesis by (rule that)
qed

lemma ends_terminal:
  assumes "replay_session env (es @ cs) = Inr s" "holds (at_last (map event_type cs)) (\<lambda>t. t \<in> {T_session_interrupted, T_session_cancelled})"
  shows "is_terminal_status (st_status s)"
proof -
  obtain ds d where cs: "cs = ds @ [d]" using assms(2) by (cases cs rule: rev_cases) simp_all
  have kind: "event_type d \<in> {T_session_interrupted, T_session_cancelled}" using assms(2) by (simp add: cs)
  show ?thesis
  proof (cases "es @ ds")
    case Nil
    then show ?thesis using assms(1) kind
      by (auto simp: cs check_simps event_type_def dest!: reduce_first_ok)
  next
    case (Cons e rest)
    then have "es @ cs = e # (rest @ [d])" by (simp add: cs)
    then obtain m m' where "replay_from env m rest = Inr m'" "reduce_next env m' d = Inr s"
      using assms(1) by (auto simp: bind_result_Inr session_replay.run_snoc)
    from status_step [OF this(2)] kind show ?thesis
      by (cases "ev_data d") (auto simp: event_type_def is_terminal_status_def)
  qed
qed

lemma terminal_recovery_type:
  "event_data_type (terminal_recovery_event s reason) \<in> {T_session_interrupted, T_session_cancelled}"
  by (simp add: terminal_recovery_event_def)

lemma recovery_events_shape:
  assumes "recovery_events env s = Inr (attempt, tool, events)"
  obtains finish where "events = finish @ (case tool of None \<Rightarrow> []
      | Some t \<Rightarrow> [tool_recovery_event (coalesce (rv_reason env) default_recovery_reason) t]) @
      [terminal_recovery_event s (coalesce (rv_reason env) default_recovery_reason)]"
    "attempt = None \<longrightarrow> finish = []"
proof -
  let ?finish = "case attempt of None \<Rightarrow> Inr []
    | Some a \<Rightarrow> bind_result (interrupted_attempt_event s a (rv_recoveredAt env (st_id s))) (\<lambda>e. Inr [e])"
  obtain finish where "?finish = Inr finish" and ev: "events = finish @ (case tool of None \<Rightarrow> []
      | Some t \<Rightarrow> [tool_recovery_event (coalesce (rv_reason env) default_recovery_reason) t]) @
      [terminal_recovery_event s (coalesce (rv_reason env) default_recovery_reason)]"
    using assms unfolding recovery_events_def Let_def bind_result_Inr guarded_Inr by auto
  then have "attempt = None \<longrightarrow> finish = []" by auto
  with ev that show thesis by blast
qed

lemma recovery_events_last:
  assumes "recovery_events env s = Inr (attempt, tool, events)"
  shows "at_last events = Some (terminal_recovery_event s (coalesce (rv_reason env) default_recovery_reason))"
    "events \<noteq> []" "attempt = None \<Longrightarrow>
      list_all (\<lambda>d. event_data_type d \<noteq> T_attempt_started \<and> event_data_type d \<noteq> T_attempt_finished) events"
proof -
  let ?terminal = "terminal_recovery_event s (coalesce (rv_reason env) default_recovery_reason)"
  obtain finish where ev: "events = finish @ (case tool of None \<Rightarrow> []
      | Some t \<Rightarrow> [tool_recovery_event (coalesce (rv_reason env) default_recovery_reason) t]) @ [?terminal]"
    and none: "attempt = None \<longrightarrow> finish = []" by (rule recovery_events_shape [OF assms])
  show "events \<noteq> []" by (simp add: ev)
  show "at_last events = Some ?terminal" by (cases tool) (simp_all add: ev at_last_def)
  show "list_all (\<lambda>d. event_data_type d \<noteq> T_attempt_started \<and> event_data_type d \<noteq> T_attempt_finished) events"
    if "attempt = None"
    using none that terminal_recovery_type [of s "coalesce (rv_reason env) default_recovery_reason"]
    by (cases tool) (auto simp: ev tool_recovery_event_def)
qed

lemma recover_session_effect:
  assumes run: "recover_session env row u = Inr (u', r)" and sound: "sound_db (rv_store env) (un_db u)"
  shows "sound_db (rv_store env) (un_db u')" "running_ids (un_db u') = running_ids (un_db u) - {sw_id row}"
    "\<And>y. sw_id y \<noteq> sw_id row \<Longrightarrow> y \<in> set (db_sessions (un_db u')) \<longleftrightarrow> y \<in> set (db_sessions (un_db u))"
proof -
  let ?env = "rv_store env" and ?k = "sw_id row"
  have ok: "db_ok ?env (un_db u)" "store_ok ?env (un_db u)" using sound by (simp_all add: sound_db_def db_ok_def)
  obtain s attempt tool events appended where r: "store_replay ?env (un_db u) ?k = Inr s"
    "recovery_events env s = Inr (attempt, tool, events)" "commit_recovery env row attempt events u = Inr (u', appended)"
    using run by (auto simp: recover_session_def check_simps simp del: at_last_None_iff split: prod.splits option.splits)
  have trim: "js_trim ?k = ?k" by (rule replayed_row [OF ok(2) r(1)])
  note ev = recovery_events_last [OF r(2)]
  have "sound_db ?env (un_db u') \<and> (\<exists>new. commits ?env ?k new appended (un_db u) (un_db u') \<and>
      holds (at_last (map event_type appended)) (\<lambda>t. t \<in> {T_session_interrupted, T_session_cancelled}))"
  proof (cases attempt)
    case None
    then have a: "append_many ?env ?k events (drawn_ids env ?k (length events)) (rv_recoveredAt env ?k)
        (Some (sw_lastSequence row)) (un_db u) = Inr (un_db u', appended)"
      using r(3) by (auto simp: commit_recovery_def Let_def check_simps)
    note e = append_many_result [OF a ok(2) ev(2)]
    have "appended \<noteq> []" using e(4) ev(2) by auto
    then have "commits ?env ?k [] appended (un_db u) (un_db u')"
      using e trim by (auto simp: commits_def stored_at_def list_all_iff)
    moreover have "holds (at_last (map event_type appended)) (\<lambda>t. t \<in> {T_session_interrupted, T_session_cancelled})"
      using ev(1) terminal_recovery_type unfolding e(4) by (cases events rule: rev_cases) auto
    moreover have "sound_db ?env (un_db u')" by (rule append_keeps_sound [OF a sound ev(3) [OF None]])
    ultimately show ?thesis by blast
  next
    case (Some a)
    then obtain i committed where c: "commit_recovery_finish ?env (\<lambda>_. True) i u = Inr (u', committed)"
      "fi_sessionId i = ?k" "appended = mf_events committed"
      using r(3) by (auto simp: commit_recovery_def Let_def check_simps)
    obtain new where "commits ?env (fi_sessionId i) new (mf_events committed) (un_db u) (un_db u')"
      "holds (at_last (map event_type (mf_events committed))) (\<lambda>t. t = T_session_interrupted)"
      by (rule recovery_finish_commits [OF c(1) ok(1)]) (use c(2) trim in simp)
    moreover have "sound_db ?env (un_db u')"
    proof (rule apply_unit_op_keeps_sound [OF _ sound])
      show "apply_unit_op ?env u (Op_recovery_finish (\<lambda>_. True) i) = Inr u'" using c(1) by simp
    qed simp
    ultimately show ?thesis using c(2,3) by (auto simp: holds_iff)
  qed
  then obtain new where sound': "sound_db ?env (un_db u')" and com: "commits ?env ?k new appended (un_db u) (un_db u')"
    and last: "holds (at_last (map event_type appended)) (\<lambda>t. t \<in> {T_session_interrupted, T_session_cancelled})" by blast
  show "sound_db ?env (un_db u')" by (rule sound')
  show others: "y \<in> set (db_sessions (un_db u')) \<longleftrightarrow> y \<in> set (db_sessions (un_db u))" if "sw_id y \<noteq> ?k" for y
    using com that by (simp add: commits_def moves_only_def)
  have "sw_status z \<noteq> Running" if z: "z \<in> set (db_sessions (un_db u'))" "sw_id z = ?k" for z
  proof -
    have "is_terminal_status (st_status (sw_state z))" by (rule ends_terminal [OF commits_replayed(1) [OF com z] last])
    moreover have "sw_status z = st_status (sw_state z)"
      using row_status z(1) sound' by (auto simp: sound_db_def db_ok_def)
    ultimately show ?thesis by (auto simp: is_terminal_status_def)
  qed
  then show "running_ids (un_db u') = running_ids (un_db u) - {?k}"
    using others by (auto simp: running_ids_def image_iff)
qed

end
