(* ===== verification/SampleRecovery.thy ===== *)
theory SampleRecovery
  imports Recovery SampleStores
begin

text \<open>A session that was started and never ended, recovered.\<close>

declare recover_loop.simps [code]

definition stale_env :: recovery_env where
  "stale_env = \<lparr>rv_store = sample_store_env, rv_recoveredAt = (\<lambda>_. sample_time), rv_reason = None,
     rv_freshId = (\<lambda>sid n. sid @ ''-'' @ replicate (Suc n) CHR ''r'')\<rparr>"

definition stale_unit :: unit_state where
  "stale_unit = \<lparr>un_db = sample_db 2, un_starts = [], un_finishes = []\<rparr>"

lemma stale_recovered:
  "assert_event_reconciled sample_store_env (sample_db 2) = Inr () \<and> length (db_ledger (sample_db 2)) = 0 \<and>
   map_option (\<lambda>(u, r). is_ok r) (recover_running_sessions stale_env stale_unit) = Some True"
  by code_simp

end
