(* ===== verification/RecoveryProperties.thy ===== *)
theory RecoveryProperties
  imports RecoveryFacts SampleRecovery
begin

text \<open>
  The recovery at startup always ends, leaves nothing running when it succeeds, touches no session
  that was not running, and keeps the ledger reconciled even when it fails half-way.
\<close>

section \<open>A page\<close>

definition untouched :: "database \<Rightarrow> database \<Rightarrow> bool" where
  "untouched db db' \<longleftrightarrow>
     (\<forall>y. sw_id y \<notin> running_ids db \<longrightarrow> (y \<in> set (db_sessions db') \<longleftrightarrow> y \<in> set (db_sessions db)))"

definition page_effect :: "recovery_env \<Rightarrow> unit_state \<Rightarrow> unit_state \<Rightarrow> bool" where
  "page_effect env u u' \<longleftrightarrow>
     sound_db (rv_store env) (un_db u') \<and> running_ids (un_db u') \<subseteq> running_ids (un_db u) \<and>
     untouched (un_db u) (un_db u')"

lemma page_effect_refl: "sound_db (rv_store env) (un_db u) \<Longrightarrow> page_effect env u u"
  by (simp add: page_effect_def untouched_def)

lemma page_effect_trans: "page_effect env u v \<Longrightarrow> page_effect env v w \<Longrightarrow> page_effect env u w"
  by (auto simp: page_effect_def untouched_def)

lemma recover_session_page:
  assumes "recover_session env row u = Inr (u', r)" "sound_db (rv_store env) (un_db u)"
    and "sw_id row \<in> running_ids (un_db u)"
  shows "page_effect env u u'" "sw_id row \<notin> running_ids (un_db u')"
proof -
  note r = recover_session_effect [OF assms(1,2)]
  have "y \<in> set (db_sessions (un_db u')) \<longleftrightarrow> y \<in> set (db_sessions (un_db u))" if "sw_id y \<notin> running_ids (un_db u)" for y
  proof -
    have "sw_id y \<noteq> sw_id row" using that assms(3) by auto
    then show ?thesis by (rule r(3))
  qed
  then show "page_effect env u u'" using r(1,2) by (auto simp: page_effect_def untouched_def)
  show "sw_id row \<notin> running_ids (un_db u')" using r(2) by simp
qed

lemma not_running_anymore:
  assumes "store_ok env db" "require_session db sid = Inr y" "sw_status y \<noteq> Running"
  shows "sid \<notin> running_ids db"
proof
  assume "sid \<in> running_ids db"
  then obtain z where z: "z \<in> set (db_sessions db)" "sw_id z = sid" "sw_status z = Running" by (auto simp: running_ids_def)
  have y: "y \<in> set (db_sessions db)" "sw_id y = sid"
    using assms(2) by (auto simp: require_session_def split: option.splits dest: find_session_SomeD)
  have "z = y" by (rule session_unique [OF assms(1) z(1) y(1)]) (simp add: z y)
  with z assms(3) show False by simp
qed

text \<open>Every session of a page that ends without an error is no longer running.\<close>

lemma recover_page_effect:
  assumes "recover_page env rows (u, recovered, removed) = (u', out)"
    and "sound_db (rv_store env) (un_db u)"
    and "distinct (map sw_id rows)" "set (map sw_id rows) \<subseteq> running_ids (un_db u)"
  shows "page_effect env u u' \<and> (\<forall>recovered' removed'. out = Inr (recovered', removed') \<longrightarrow>
      removed' = removed + length rows \<and> set (map sw_id rows) \<inter> running_ids (un_db u') = {})"
  using assms
proof (induction rows arbitrary: u recovered removed)
  case Nil
  then show ?case by (auto simp: page_effect_refl)
next
  case (Cons row rows)
  note sound = Cons.prems(2)
  have ok: "store_ok (rv_store env) (un_db u)" using sound by (simp add: sound_db_def db_ok_def)
  have row: "sw_id row \<in> running_ids (un_db u)" using Cons.prems(4) by simp
  show ?case
  proof (cases "recover_session env row u")
    case (Inl err)
    have "u' = u \<and> \<not> is_ok out"
    proof (cases "is_sequence_conflict err")
      case True
      show ?thesis
      proof (cases "require_session (un_db u) (sw_id row)")
        case (Inr y)
        have "sw_status y = Running" using not_running_anymore [OF ok Inr] row by blast
        with Cons.prems(1) Inl True Inr show ?thesis by auto
      qed (use Cons.prems(1) Inl True in auto)
    qed (use Cons.prems(1) Inl in auto)
    then show ?thesis using page_effect_refl [OF sound] by (auto simp: is_ok_def)
  next
    case (Inr p)
    then obtain v r where v: "recover_session env row u = Inr (v, r)" by (cases p) auto
    note step = recover_session_page [OF v sound row] recover_session_effect(1,2) [OF v sound]
    have rest: "recover_page env rows (v, recovered @ [r], removed + 1) = (u', out)" using Cons.prems(1) v by simp
    have "sw_id row \<notin> set (map sw_id rows)" using Cons.prems(3) by simp
    then have "set (map sw_id rows) \<subseteq> running_ids (un_db v)"
      using Cons.prems(4) unfolding step(4) by (metis Diff_empty Diff_insert0 insert_subset list.set(2) list.simps(9) subset_Diff_insert)
    moreover have "distinct (map sw_id rows)" using Cons.prems(3) by simp
    ultimately have ih: "page_effect env v u' \<and> (\<forall>recovered' removed'. out = Inr (recovered', removed') \<longrightarrow>
        removed' = removed + 1 + length rows \<and> set (map sw_id rows) \<inter> running_ids (un_db u') = {})"
      using Cons.IH [OF rest step(3)] by blast
    have "page_effect env u u'" using page_effect_trans [OF step(1)] ih by blast
    moreover have "sw_id row \<notin> running_ids (un_db u')" using ih step(2) by (auto simp: page_effect_def)
    ultimately show ?thesis using ih Cons.prems(3) by auto
  qed
qed

text \<open>The error of a loop without progress comes from the loop only.\<close>

lemma single_of_error: "single_of err xs = Inl e \<Longrightarrow> e = err"
  by (cases "(err, xs)" rule: single_of.cases) auto

lemma interrupted_attempt_error: "interrupted_attempt_event s a tm \<noteq> Inl No_progress"
  by (auto simp: interrupted_attempt_event_def Let_def error_simps split: option.splits)

lemma recover_session_error: "recover_session env row u \<noteq> Inl No_progress"
proof
  assume "recover_session env row u = Inl No_progress"
  then consider (events) s where "recovery_events env s = Inl No_progress"
    | (commit) attempt events where "commit_recovery env row attempt events u = Inl No_progress"
    by (auto simp: recover_session_def error_simps map_error_Inl split: prod.splits option.splits)
  then show False
  proof cases
    case events
    then show False
      by (auto simp: recovery_events_def Let_def error_simps
          interrupted_attempt_error dest!: single_of_error split: option.splits)
  next
    case commit
    then show False
      by (auto simp: commit_recovery_def Let_def error_simps map_error_Inl split: prod.splits option.splits)
  qed
qed

lemma recover_page_error: "recover_page env rows (u, recovered, removed) = (u', Inl err) \<Longrightarrow> err \<noteq> No_progress"
proof (induction rows arbitrary: u recovered removed)
  case (Cons row rows)
  then show ?case using recover_session_error [of env row u]
    by (auto split: sum.splits if_splits prod.splits)
qed simp

section \<open>The loop\<close>

lemma running_page_distinct:
  assumes "store_ok env (un_db u)"
  shows "distinct (map sw_id (running_page u))" "set (map sw_id (running_page u)) \<subseteq> running_ids (un_db u)"
proof -
  have d: "distinct (map sw_id (db_sessions (un_db u)))" using assms by (simp add: store_ok_def)
  have "distinct (map sw_id (rev (sort_key sw_updatedAt (rev (filter P (db_sessions (un_db u)))))))" for P
    using d by (simp add: distinct_map inj_on_def)
  then have "distinct (take n (map sw_id (rev (sort_key sw_updatedAt (rev (filter P (db_sessions (un_db u))))))))" for n P
    by (rule distinct_take)
  then show "distinct (map sw_id (running_page u))"
    by (simp add: running_page_def list_sessions_def take_map)
  show "set (map sw_id (running_page u)) \<subseteq> running_ids (un_db u)" using running_page_set(3) by auto
qed

lemma recover_loop_effect:
  assumes "sound_db (rv_store env) (un_db u)"
  shows "\<exists>u' out. recover_loop env u recovered = Some (u', out) \<and> page_effect env u u' \<and> out \<noteq> Inl No_progress \<and>
    (is_ok out \<longrightarrow> running_ids (un_db u') = {})"
  using assms
proof (induction "card (running_ids (un_db u))" arbitrary: u recovered rule: less_induct)
  case less
  show ?case
  proof (cases "running_page u = []")
    case True
    then have "recover_loop env u recovered = Some (u, Inr recovered)" by (subst recover_loop.simps) simp
    then show ?thesis using page_effect_refl [OF less.prems] running_page_Nil [OF True] by auto
  next
    case False
    obtain v out where page: "recover_page env (running_page u) (u, recovered, 0) = (v, out)" by fastforce
    have ok: "store_ok (rv_store env) (un_db u)" using less.prems by (simp add: sound_db_def db_ok_def)
    note eff = recover_page_effect [OF page less.prems running_page_distinct [OF ok]]
    show ?thesis
    proof (cases out)
      case (Inl err)
      then have "recover_loop env u recovered = Some (v, Inl err)" using False page by (subst recover_loop.simps) simp
      moreover have "err \<noteq> No_progress" using recover_page_error page Inl by blast
      ultimately show ?thesis using eff by auto
    next
      case (Inr p)
      then obtain recovered' removed where p: "out = Inr (recovered', removed)" by (cases p) auto
      then have r: "removed = length (running_page u)"
        "set (map sw_id (running_page u)) \<inter> running_ids (un_db v) = {}" using eff by simp_all
      then have loop: "recover_loop env u recovered = recover_loop env v recovered'"
        using False page p by (subst recover_loop.simps) simp
      obtain row where row: "row \<in> set (running_page u)" using False by (cases "running_page u") auto
      have "running_ids (un_db v) \<subset> running_ids (un_db u)"
        using eff r(2) row running_page_set(3) [OF row] by (auto simp: page_effect_def)
      then have "card (running_ids (un_db v)) < card (running_ids (un_db u))" by (intro psubset_card_mono) simp_all
      moreover have "sound_db (rv_store env) (un_db v)" using eff by (simp add: page_effect_def)
      ultimately obtain u' out' where "recover_loop env v recovered' = Some (u', out')" "page_effect env v u'"
        "out' \<noteq> Inl No_progress" "is_ok out' \<longrightarrow> running_ids (un_db u') = {}"
        using less.hyps by blast
      with loop page_effect_trans eff show ?thesis by fastforce
    qed
  qed
qed

section \<open>The property\<close>

text \<open>C6. Recovery at startup always ends. From a consistent and reconciled database it returns after
  finitely many pages, never for want of progress; when it succeeds no session is left running;
  whatever happens, the database stays consistent and reconciled, and no session that was not running
  is touched.\<close>

theorem startup_recovery_settles:
  assumes "db_ok (rv_store env) (un_db u)" "assert_event_reconciled (rv_store env) (un_db u) = Inr ()"
  shows "\<exists>u' r. recover_running_sessions env u = Some (u', r) \<and> r \<noteq> Inl No_progress \<and>
    db_ok (rv_store env) (un_db u') \<and> assert_event_reconciled (rv_store env) (un_db u') = Inr () \<and>
    (is_ok r \<longrightarrow> (\<forall>y \<in> set (db_sessions (un_db u')). sw_status y \<noteq> Running)) \<and>
    (\<forall>y \<in> set (db_sessions (un_db u)). sw_status y \<noteq> Running \<longrightarrow> y \<in> set (db_sessions (un_db u')))"
proof -
  have sound: "sound_db (rv_store env) (un_db u)" using sound_db_gate [OF assms(1)] assms(2) by simp
  obtain u' out where loop: "recover_loop env u [] = Some (u', out)" "page_effect env u u'" "out \<noteq> Inl No_progress"
    "is_ok out \<longrightarrow> running_ids (un_db u') = {}"
    using recover_loop_effect [OF sound] by blast
  have sound': "sound_db (rv_store env) (un_db u')" and un: "untouched (un_db u) (un_db u')"
    using loop(2) by (simp_all add: page_effect_def)
  then have ok: "db_ok (rv_store env) (un_db u')" by (simp add: sound_db_def)
  with sound' have gate: "assert_event_reconciled (rv_store env) (un_db u') = Inr ()" using sound_db_gate by blast
  have run: "recover_running_sessions env u = Some (u', out)"
    using loop(1) gate by (cases out) (simp_all add: recover_running_sessions_def)
  have st: "store_ok (rv_store env) (un_db u)" using assms(1) by (simp add: db_ok_def)
  have "y \<in> set (db_sessions (un_db u'))" if y: "y \<in> set (db_sessions (un_db u))" "sw_status y \<noteq> Running" for y
  proof -
    have "sw_id y \<notin> running_ids (un_db u)" using y session_unique [OF st y(1)] by (auto simp: running_ids_def)
    with un y(1) show ?thesis by (simp add: untouched_def)
  qed
  moreover have "\<forall>y \<in> set (db_sessions (un_db u')). sw_status y \<noteq> Running" if "is_ok out"
    using loop(4) that by (auto simp: running_ids_def)
  ultimately show ?thesis using run loop(3) ok gate by blast
qed

theorem startup_recovery_settles_witness:
  "\<exists>u' r. recover_running_sessions stale_env stale_unit = Some (u', r) \<and> is_ok r \<and>
     (\<forall>y \<in> set (db_sessions (un_db u')). sw_status y \<noteq> Running)"
proof -
  have "db_ok (rv_store stale_env) (un_db stale_unit)"
    using store_reached [OF sample_store_run] stale_recovered
    by (simp add: db_ok_def stale_env_def stale_unit_def)
  moreover have "assert_event_reconciled (rv_store stale_env) (un_db stale_unit) = Inr ()"
    using stale_recovered by (simp add: stale_env_def stale_unit_def)
  ultimately obtain u' r where r: "recover_running_sessions stale_env stale_unit = Some (u', r)"
    "is_ok r \<longrightarrow> (\<forall>y \<in> set (db_sessions (un_db u')). sw_status y \<noteq> Running)"
    using startup_recovery_settles [of stale_env stale_unit] by blast
  moreover have "is_ok r" using stale_recovered r(1) by simp
  ultimately show ?thesis by blast
qed

end
