(* ===== verification/Spec2Isabelle.thy ===== *)
theory Spec2Isabelle
  imports SessionProperties RouterProperties JournalProperties UnitProperties RecoveryProperties
begin

text \<open>
  SOAR: the event-sourced core of a desktop review agent.

  A session of SOAR is a stream of events in an append-only store. The state every other part
  reads is rebuilt from that stream by the reducer of \<open>src/src/shared/session-reducer.ts\<close>,
  which also rejects each stream that breaks the protocol; so what the reducer accepts is what
  the program promises about its history: which decisions were taken, what was paid and under
  which consent, which attempts ran, and that a completed session has earned it.

  Theories, in the order of the code:

  \<^item> \<open>Prelude\<close>: checks and errors as values (\<open>throw_if\<close>, \<open>checks\<close>, \<open>guarded\<close>,
    \<open>bind_result\<close>), the array, number and string primitives of JavaScript.
  \<^item> \<open>Timestamps\<close>: \<open>Date.parse\<close> and \<open>toISOString\<close> for the ISO strings of the events.
  \<^item> \<open>SessionEvents\<close>: the payloads of \<open>src/src/shared/session-events.ts\<close> as records and
    enumerations, and the scopes of \<open>src/src/shared/hybrid-simulation-contracts.ts\<close>.
  \<^item> \<open>SessionState\<close>, \<open>SessionQueries\<close>: the state of the reducer and its helper functions.
  \<^item> \<open>ReducerGrammar\<close>, \<open>ReducerRouting\<close>, \<open>ReducerMessages\<close>, \<open>ReducerAttempts\<close>,
    \<open>SessionReducer\<close>: one definition per event handler, its checks in the order of the source
    with one error constructor per throw, and the replay of a stream.
  \<^item> \<open>Replay\<close>: the interface of a state rebuilt from a log, as locales.
  \<^item> \<open>ReducerFacts\<close>, \<open>ReducerInvariants\<close>: what a successful handler did, and what a step
    changes in each field of the state; the reducer as an instance of the replay interface.
  \<^item> \<open>SessionInvariants\<close>, \<open>SessionProtocol\<close>, \<open>SessionLimits\<close>, \<open>SessionCosts\<close>,
    \<open>SessionGuarantees\<close>, \<open>SessionCompletion\<close>: the invariants.
  \<^item> \<open>SampleSession\<close>, \<open>SampleSessionRuns\<close>, \<open>SessionProperties\<close>: two concrete streams, their
    evaluation, and the properties C1 to C4 and C7 to C18, with the equality of the incremental replay.

  \<^item> \<open>RoutingSchemas\<close>, \<open>DecisionSchema\<close>, \<open>EventSchemas\<close>: the zod schemas of
    \<open>src/src/shared/session-events.ts\<close> as executable predicates with their cross-field rules,
    the trimming they do (\<open>clean_*\<close>), and the parsers \<open>parseSessionEventData\<close> and
    \<open>parseStoredSessionEvent\<close>.
  \<^item> \<open>SqlChecks\<close>, \<open>LedgerTable\<close>: three-valued SQL conditions, and the ledger table of
    \<open>src/src/main/database.ts\<close> after its migrations: column checks, shapes, unique indexes,
    foreign keys and triggers as one checked insert. The table's own rules are an invariant.
  \<^item> \<open>EventStore\<close>, \<open>EventStoreFacts\<close>, \<open>StoreHistories\<close>, \<open>StoreProperties\<close>:
    \<open>src/src/main/event-store.ts\<close>, the append-only log and the projection row of each session in one
    database state; a transaction is a function into a sum. The projection always equals the replay (C19), the log only grows
    (C20), stale writers are refused (C21), events read back (C22), and the times of the events and
    of the row are in order (C23).
  \<^item> \<open>BudgetLedger\<close>, \<open>LedgerOperations\<close>, \<open>LedgerReconciliation\<close>:
    \<open>src/src/main/budget-ledger.ts\<close>: campaigns, \<open>reserve\<close>, \<open>resolve\<close>, the position and the
    reports, and the gate \<open>assertEventReconciled\<close> that compares the ledger with the replayed
    sessions.
  \<^item> \<open>LedgerFacts\<close>, \<open>LedgerInvariants\<close>, \<open>LedgerProperties\<close>, \<open>ReconciliationFacts\<close>: what one
    inserted row does to the exposure, histories of ledger operations and their invariant, and
    the properties C24 to C26 and C28 to C33, with the ledger's own growth.
  \<^item> \<open>AppendLog\<close>: the interface of an append-only log; the event log and the ledger provide it.

  \<^item> \<open>RouterSchemas\<close>, \<open>RouterProposal\<close>, \<open>CheckpointRouter\<close>:
    \<open>src/src/shared/checkpoint-router.ts\<close>, which turns a boundary, a policy, the providers and their
    snapshots into a routing decision and an attempt plan, or a terminal denial. \<open>RouterFacts\<close>,
    \<open>RouterSoundness\<close>, \<open>RouterCloud\<close>, \<open>RouterResults\<close>, \<open>RouterOrder\<close>, \<open>RouterProperties\<close>: what it
    returns always fits the event schemas (C34), a cloud decision passed every gate (C35), a denial
    names the first closed gate (C36), the order of the providers does not matter (C37).
  \<^item> \<open>JournalTable\<close>, \<open>CredentialJournal\<close>: the table of credential operations and
    \<open>src/src/main/credentials/credential-operation-journal.ts\<close>. \<open>JournalSteps\<close>, \<open>JournalFacts\<close>,
    \<open>JournalProperties\<close>: its refinement of a small state machine (C38), a bound on
    the calls that change it, three and four for each operation begun (C39), and exactly which
    unresolved operations can still be resolved (C40); a restart only escalates an operation.
  \<^item> \<open>AttemptBatches\<close>, \<open>AttemptUnit\<close>: \<open>src/src/main/attempt-unit-of-work.ts\<close>, the batches of events
    that start or finish an inference attempt, the transactions that write them together with the row
    of the ledger, and the single-use receipts of a commit.
  \<^item> \<open>ReconciledDatabases\<close>: the reconciliation gate as a predicate on sessions and rows, equivalent
    to the code's loop on a consistent database. \<open>AppendEffects\<close>, \<open>LinkedAttempts\<close>,
    \<open>ReconciledSteps\<close>: what an append does to sessions, attempts and their links to the ledger.
    \<open>AttemptCommits\<close>, \<open>AttemptAdmission\<close>, \<open>AttemptReservations\<close>, \<open>AttemptSettlement\<close>: each commit of
    the unit of work keeps the predicate. \<open>UnitOperations\<close>, \<open>AttemptHistories\<close>,
    \<open>UnitProperties\<close>: histories of all writers of the database; they stay reconciled (C5), and a
    start receipt proves its own commit once (C27).
  \<^item> \<open>Recovery\<close>, \<open>RecoveryFacts\<close>, \<open>RecoveryProperties\<close>: \<open>src/src/main/recovery.ts\<close>, the recovery of
    running sessions at startup. Its loop is a partial function into an option; that it returns, and
    what it leaves behind, is C6: every page takes its sessions out of the finite set of running ones.
  \<^item> \<open>SampleStores\<close>, \<open>SampleStoreRuns\<close>, \<open>SampleLedger\<close>, \<open>SampleLedgerRuns\<close>, \<open>SampleReconciled\<close>,
    \<open>SampleRoutes\<close>, \<open>SampleRouteRuns\<close>, \<open>SampleHistory\<close>, \<open>SampleRecovery\<close>: the concrete inputs of
    the witnesses and their evaluation. They model no code; the evaluations stand apart from the
    theories of the proofs so that both are checked at the same time.

  How the parts interact: the store parses each event with the schemas, reduces it with the
  reducer and writes the event and the projection; the ledger lives in the same database and is
  written in the same transaction; the reconciliation replays sessions through the store and
  compares attempts, decisions and egress admissions with the rows of the ledger. The router's
  decision is an event of the batch that starts an attempt; the unit of work checks that batch
  against the reservation, reserves or settles, and appends; recovery finishes what a stopped
  process left open through the same unit. One state, \<open>unit_state\<close>, holds the database and the
  receipts, and \<open>unit_op\<close> lists the operations that write it.

  Error values: a TypeScript function that throws is a function into a sum type, its error a
  constructor named after the message. Integers of the source are safe integers that the code
  checks, so they are \<open>int\<close>; finite JavaScript numbers are
  \<open>rat\<close>. Two totals of a session, \<open>costUsd\<close> and \<open>latencyMs\<close>, are sums of floating-point numbers in
  the code and exact here, so C10 and C11 give \<open>costUsd\<close> up to the rounding of the code; the totals in
  micro-dollars beside it are integers on both sides. \<open>date_parse\<close> reads the ISO strings with a year of four digits; the schemas and the
  patterns of the tables admit no others. Strings are lists of characters.

  Parameters: the record \<open>replay_env\<close> stands for the code the reducer calls that is not
  modelled: JSON parsing of tool results, the inspect-envelope schemas, the repository
  observation parser and the citation normaliser; \<open>review_schemas\<close> for the two review payload
  schemas. The callback that builds the events of a budgeted start and the caller's assertion on
  the open state are arguments of their commits. No property assumes anything about them. The JSON
  text of a row is the typed value it encodes; ids and times drawn from the system are arguments.

  Not modelled: see the components of the manifest. The Electron shell, the renderer, network
  providers, git processes and the sandbox are input and output; the context compilers and the
  experimental patch and private-agent runs are not part of the session core; the run loops are
  asynchronous, and what they persist are the batches and events modelled here.
\<close>

end
